(* ===== verification/Prelude.thy ===== *)
theory Prelude
  imports Main "HOL-Library.Word"
begin

unbundle bit_operations_syntax

text \<open>
  Shared vocabulary of the development: names for the machine integers of the firmware, byte
  buffers with bounds-checked block writes (an access outside the array is the value
  \<open>None\<close>), little-endian encodings of 16 and 32 bit integers, and the named
  collections of simplification rules that the component theories extend.
\<close>

section \<open>Machine integers and named collections\<close>

type_synonym u8 = "8 word"
type_synonym u16 = "16 word"
type_synonym u32 = "32 word"
type_synonym bytes = "u8 list"

named_theorems buffer_simps "block reads and writes of byte buffers"
named_theorems codec_simps "little-endian encodings and their inverses"

section \<open>Byte buffers\<close>

text \<open>
  A block write of C (\<open>memcpy(buf + off, data, n)\<close>): the bytes from \<open>off\<close> on are
  replaced, and a write that leaves the array is undefined behaviour, modelled as \<open>None\<close>.
\<close>

definition blit :: "'a list \<Rightarrow> nat \<Rightarrow> 'a list \<Rightarrow> 'a list" where
  "blit buf off data = take off buf @ data @ drop (off + length data) buf"

definition mem_write :: "'a list \<Rightarrow> nat \<Rightarrow> 'a list \<Rightarrow> 'a list option" where
  "mem_write buf off data =
     (if off + length data \<le> length buf then Some (blit buf off data) else None)"

definition mem_read :: "'a list \<Rightarrow> nat \<Rightarrow> nat \<Rightarrow> 'a list option" where
  "mem_read buf off n =
     (if off + n \<le> length buf then Some (take n (drop off buf)) else None)"

lemma length_blit [simp]:
  "off + length data \<le> length buf \<Longrightarrow> length (blit buf off data) = length buf"
  by (simp add: blit_def)

lemma blit_nth:
  assumes "off + length data \<le> length buf" "i < length buf"
  shows "blit buf off data ! i =
    (if off \<le> i \<and> i < off + length data then data ! (i - off) else buf ! i)"
  using assms by (auto simp: blit_def nth_append min_def)

lemma blit_read_same [buffer_simps]:
  "off + length data \<le> length buf \<Longrightarrow> n = length data \<Longrightarrow>
   take n (drop off (blit buf off data)) = data"
  by (simp add: blit_def)

lemma blit_read_other [buffer_simps]:
  assumes "off + length data \<le> length buf"
    and "off' + n \<le> off \<or> off + length data \<le> off'"
  shows "take n (drop off' (blit buf off data)) = take n (drop off' buf)"
proof (cases "off' + n \<le> off")
  case True
  show ?thesis
  proof (rule nth_equalityI)
    show "length (take n (drop off' (blit buf off data))) = length (take n (drop off' buf))"
      using assms by simp
    fix i assume "i < length (take n (drop off' (blit buf off data)))"
    with assms True show "take n (drop off' (blit buf off data)) ! i = take n (drop off' buf) ! i"
      by (simp add: blit_nth)
  qed
next
  case False
  with assms have "off + length data \<le> off'" by simp
  then have "off' = (off + length data) + (off' - (off + length data))" by simp
  with assms \<open>off + length data \<le> off'\<close> show ?thesis
    by (auto simp: blit_def)
qed

lemma blit_append:
  assumes "off + length a + length b \<le> length buf"
  shows "blit (blit buf off a) (off + length a) b = blit buf off (a @ b)"
proof -
  have "drop (length b) (drop (off + length a) buf) = drop (off + length (a @ b)) buf"
    by (simp add: add.commute add.left_commute)
  moreover have "min off (length buf) = off" using assms by simp
  ultimately show ?thesis by (simp add: blit_def add.commute)
qed

lemma mem_write_Some [simp]:
  "off + length data \<le> length buf \<Longrightarrow> mem_write buf off data = Some (blit buf off data)"
  by (simp add: mem_write_def)

lemma mem_write_SomeD:
  "mem_write buf off data = Some buf' \<Longrightarrow>
     buf' = blit buf off data \<and> off + length data \<le> length buf \<and> length buf' = length buf"
  by (auto simp: mem_write_def split: if_splits)

lemma mem_read_Some [simp]:
  "off + n \<le> length buf \<Longrightarrow> mem_read buf off n = Some (take n (drop off buf))"
  by (simp add: mem_read_def)

lemma mem_read_SomeD:
  "mem_read buf off n = Some xs \<Longrightarrow> length xs = n \<and> off + n \<le> length buf"
  by (auto simp: mem_read_def split: if_splits)

section \<open>Little-endian encodings\<close>

definition le16 :: "u16 \<Rightarrow> bytes" where
  "le16 w = [ucast w, ucast (drop_bit 8 w)]"

definition le32 :: "u32 \<Rightarrow> bytes" where
  "le32 w = [ucast w, ucast (drop_bit 8 w), ucast (drop_bit 16 w), ucast (drop_bit 24 w)]"

definition join16 :: "u8 \<Rightarrow> u8 \<Rightarrow> u16" where
  "join16 lo hi = ucast lo OR push_bit 8 (ucast hi)"

definition join32 :: "u8 \<Rightarrow> u8 \<Rightarrow> u8 \<Rightarrow> u8 \<Rightarrow> u32" where
  "join32 b0 b1 b2 b3 =
     ucast b0 OR push_bit 8 (ucast b1) OR push_bit 16 (ucast b2) OR push_bit 24 (ucast b3)"

lemma length_le [simp]: "length (le16 w) = 2" "length (le32 x) = 4"
  by (simp_all add: le16_def le32_def)

lemma join16_le16 [codec_simps]: "join16 (ucast w) (ucast (drop_bit 8 w)) = w"
  by (rule bit_word_eqI) (auto simp: join16_def bit_simps)

lemma join32_le32 [codec_simps]:
  "join32 (ucast w) (ucast (drop_bit 8 w)) (ucast (drop_bit 16 w)) (ucast (drop_bit 24 w)) = w"
proof (rule bit_word_eqI)
  fix n assume "n < LENGTH(32)"
  then have "n < 8 \<or> (8 \<le> n \<and> n < 16) \<or> (16 \<le> n \<and> n < 24) \<or> (24 \<le> n \<and> n < 32)" by auto
  then show "bit (join32 (ucast w) (ucast (drop_bit 8 w)) (ucast (drop_bit 16 w))
      (ucast (drop_bit 24 w))) n = bit w n"
    by (auto simp: join32_def bit_simps)
qed

lemma le16_join16 [codec_simps]: "le16 (join16 a b) = [a, b]"
  by (auto simp: le16_def join16_def intro!: bit_word_eqI) (auto simp: bit_simps dest: bit_imp_le_length)

lemma le32_join32 [codec_simps]: "le32 (join32 a b c d) = [a, b, c, d]"
  by (auto simp: le32_def join32_def intro!: bit_word_eqI)
    (auto simp: bit_simps dest: bit_imp_le_length)

section \<open>Slot stores\<close>

text \<open>
  The interface of a component that keeps one value per key in a fixed array: what a read gives
  after a write to the same or to another key, and that a write keeps the store well formed.
  \<open>norm\<close> is what the store does to a value that it accepts (padding, truncation). The client
  lemma gives the contents after any sequence of writes: the last write to the key wins.
\<close>

definition put_all :: "('s \<Rightarrow> 'k \<Rightarrow> 'v \<Rightarrow> 's) \<Rightarrow> 's \<Rightarrow> ('k \<times> 'v) list \<Rightarrow> 's" where
  "put_all put s kvs = fold (\<lambda>(k, v) t. put t k v) kvs s"

locale slot_store =
  fixes invar :: "'s \<Rightarrow> bool"
    and okk :: "'k \<Rightarrow> bool"
    and okv :: "'v \<Rightarrow> bool"
    and get :: "'s \<Rightarrow> 'k \<Rightarrow> 'v"
    and put :: "'s \<Rightarrow> 'k \<Rightarrow> 'v \<Rightarrow> 's"
    and norm :: "'v \<Rightarrow> 'v"
  assumes invar_put: "invar s \<Longrightarrow> okk k \<Longrightarrow> okv v \<Longrightarrow> invar (put s k v)"
    and get_put_same: "invar s \<Longrightarrow> okk k \<Longrightarrow> okv v \<Longrightarrow> get (put s k v) k = norm v"
    and get_put_other:
      "invar s \<Longrightarrow> okk k \<Longrightarrow> okk k' \<Longrightarrow> okv v \<Longrightarrow> k \<noteq> k' \<Longrightarrow> get (put s k v) k' = get s k'"
begin

lemma invar_put_all:
  "invar s \<Longrightarrow> \<forall>(k, v) \<in> set kvs. okk k \<and> okv v \<Longrightarrow> invar (put_all put s kvs)"
proof (induction kvs arbitrary: s)
  case Nil
  then show ?case by (simp add: put_all_def)
next
  case (Cons kv kvs)
  obtain k v where kv: "kv = (k, v)" by force
  with Cons.prems have "invar (put s k v)" by (auto intro: invar_put)
  with Cons.IH Cons.prems(2) have "invar (put_all put (put s k v) kvs)" by simp
  with kv show ?case by (simp add: put_all_def)
qed

lemma get_put_all:
  assumes "invar s" "\<forall>(k, v) \<in> set kvs. okk k \<and> okv v" "okk k"
  shows "get (put_all put s kvs) k =
    (case map_of (rev kvs) k of None \<Rightarrow> get s k | Some v \<Rightarrow> norm v)"
  using assms(2)
proof (induction kvs rule: rev_induct)
  case Nil
  then show ?case by (simp add: put_all_def)
next
  case (snoc kv kvs)
  obtain k1 v1 where kv: "kv = (k1, v1)" by force
  have ok: "okk k1" "okv v1" using snoc.prems kv by auto
  have inv: "invar (put_all put s kvs)"
    using assms(1) snoc.prems by (intro invar_put_all) auto
  have step: "put_all put s (kvs @ [kv]) = put (put_all put s kvs) k1 v1"
    by (simp add: put_all_def kv)
  show ?case
  proof (cases "k = k1")
    case True
    with step kv get_put_same [OF inv ok] show ?thesis by simp
  next
    case False
    then have "get (put_all put s (kvs @ [kv])) k = get (put_all put s kvs) k"
      using step get_put_other [OF inv ok(1) assms(3) ok(2)] by simp
    with snoc False kv show ?thesis by simp
  qed
qed

end

section \<open>Bounded registries\<close>

text \<open>
  The interface of a component that keeps a bounded list of registered members, without duplicates
  and in the order of registration. The client lemma follows any sequence of registrations and removals
  on the level of the identifiers alone.
\<close>

datatype 'k reg_cmd = Reg_Add 'k | Reg_Del 'k

definition reg_run ::
  "('k \<Rightarrow> 's \<Rightarrow> 's) \<Rightarrow> ('k \<Rightarrow> 's \<Rightarrow> 's) \<Rightarrow> 'k reg_cmd list \<Rightarrow> 's \<Rightarrow> 's" where
  "reg_run add del cmds s = fold (\<lambda>c. case c of Reg_Add k \<Rightarrow> add k | Reg_Del k \<Rightarrow> del k) cmds s"

definition reg_add :: "nat \<Rightarrow> 'i \<Rightarrow> 'i list \<Rightarrow> 'i list" where
  "reg_add cap i is = (if i \<in> set is \<or> cap \<le> length is then is else is @ [i])"

locale registry =
  fixes invar :: "'s \<Rightarrow> bool"
    and okk :: "'k \<Rightarrow> bool"
    and ids :: "'s \<Rightarrow> 'i list"
    and idof :: "'k \<Rightarrow> 'i"
    and cap :: nat
    and add :: "'k \<Rightarrow> 's \<Rightarrow> 's"
    and del :: "'k \<Rightarrow> 's \<Rightarrow> 's"
  assumes invar_ids: "invar s \<Longrightarrow> distinct (ids s) \<and> length (ids s) \<le> cap"
    and invar_add: "invar s \<Longrightarrow> okk k \<Longrightarrow> invar (add k s)"
    and invar_del: "invar s \<Longrightarrow> okk k \<Longrightarrow> invar (del k s)"
    and ids_add: "invar s \<Longrightarrow> okk k \<Longrightarrow> ids (add k s) = reg_add cap (idof k) (ids s)"
    and ids_del: "invar s \<Longrightarrow> okk k \<Longrightarrow> ids (del k s) = remove1 (idof k) (ids s)"
begin

lemma run_refines:
  assumes "invar s" "\<forall>c \<in> set cmds. case c of Reg_Add k \<Rightarrow> okk k | Reg_Del k \<Rightarrow> okk k"
  shows "invar (reg_run add del cmds s) \<and>
    ids (reg_run add del cmds s) =
      reg_run (\<lambda>k. reg_add cap (idof k)) (\<lambda>k. remove1 (idof k)) cmds (ids s)"
  using assms
proof (induction cmds arbitrary: s)
  case (Cons c cmds)
  let ?s = "case c of Reg_Add k \<Rightarrow> add k s | Reg_Del k \<Rightarrow> del k s"
  have "invar ?s" using Cons.prems by (auto simp: invar_add invar_del split: reg_cmd.splits)
  moreover have "ids ?s = (case c of Reg_Add k \<Rightarrow> reg_add cap (idof k) (ids s)
      | Reg_Del k \<Rightarrow> remove1 (idof k) (ids s))"
    using Cons.prems by (auto simp: ids_add ids_del split: reg_cmd.splits)
  ultimately show ?case
    using Cons.IH [of ?s] Cons.prems(2) by (simp add: reg_run_def split: reg_cmd.splits)
qed (simp add: reg_run_def)

lemma run_bounded:
  assumes "invar s" "\<forall>c \<in> set cmds. case c of Reg_Add k \<Rightarrow> okk k | Reg_Del k \<Rightarrow> okk k"
  shows "distinct (ids (reg_run add del cmds s)) \<and> length (ids (reg_run add del cmds s)) \<le> cap"
  using run_refines [OF assms] invar_ids by blast

end

section \<open>Words as bounded naturals\<close>

lemma unat_u8_less [simp]: "unat (x :: u8) < 256"
  using unsigned_less [of x] by simp

lemma unat_u16_less [simp]: "unat (x :: u16) < 65536"
  using unsigned_less [of x] by simp

lemma unat_u32_less [simp]: "unat (x :: u32) < 4294967296"
  using unsigned_less [of x] by simp

section \<open>Characters and bytes\<close>

definition a_char :: "u8 \<Rightarrow> char" where "a_char b = char_of (unat b)"
definition a_byte :: "char \<Rightarrow> u8" where "a_byte c = of_nat (of_char c)"

lemma a_char_byte [simp]: "a_char (a_byte c) = c"
  by (simp add: a_char_def a_byte_def unat_of_nat)

lemma a_byte_zero: "a_byte c = 0 \<longleftrightarrow> c = CHR 0x00"
proof
  assume z: "a_byte c = 0"
  have "c = a_char (a_byte c)" by simp
  also have "\<dots> = a_char 0" by (simp only: z)
  also have "\<dots> = CHR 0x00" by (simp add: a_char_def char_of_def)
  finally show "c = CHR 0x00" .
qed (simp add: a_byte_def)

end
