(* ===== verification/Rcs.thy ===== *)
theory Rcs
  imports Prelude
begin

text \<open>
  The reduced characteristic set of the BLE service (\<^verbatim>\<open>main/ble/ble_rcs.c\<close>,
  \<^verbatim>\<open>main/ble/ble_rcs_server.c\<close> and the generated tables of
  \<^verbatim>\<open>main/ble/ble_rcs_tables.h\<close>). One selectable characteristic multiplexes 87 values: a
  selector (an index) is translated to and from a 16 bit attribute handle, and the values live in
  one array with 64 bytes for each index.
\<close>

section \<open>The tables\<close>

definition RCS_MAX_IDX :: nat where "RCS_MAX_IDX = 86"

definition RCS_NUM_IDX :: nat where "RCS_NUM_IDX = 1 + RCS_MAX_IDX"

definition RCS_MAX_HANDLE :: nat where "RCS_MAX_HANDLE = 235"

definition RCS_CHR_OMNIBUS_SIZE :: nat where "RCS_CHR_OMNIBUS_SIZE = 64"

lemmas rcs_consts = RCS_MAX_IDX_def RCS_NUM_IDX_def RCS_MAX_HANDLE_def RCS_CHR_OMNIBUS_SIZE_def

definition table_handle_for_idx :: "nat list" where
  "table_handle_for_idx = [
    0,17,19,21,23,26,28,30,35,37,39,41,43,45,47,52,
    54,57,59,61,63,65,67,70,72,74,76,82,84,86,88,91,
    93,95,97,100,103,105,111,113,115,117,120,123,126,128,130,132,
    135,137,140,143,145,147,150,152,154,156,158,160,162,165,173,175,
    177,179,181,183,185,187,189,191,193,195,197,199,201,203,205,207,
    209,211,213,215,231,233,235]"

definition table_idx_for_handle :: "nat list" where
  "table_idx_for_handle = [
    0,0,0,0,0,0,0,0,0,0,0,0,0,0,0,0,
    0,1,0,2,0,3,0,4,0,0,5,0,6,0,7,0,
    0,0,0,8,0,9,0,10,0,11,0,12,0,13,0,14,
    0,0,0,0,15,0,16,0,0,17,0,18,0,19,0,20,
    0,21,0,22,0,0,23,0,24,0,25,0,26,0,0,0,
    0,0,27,0,28,0,29,0,30,0,0,31,0,32,0,33,
    0,34,0,0,35,0,0,36,0,37,0,0,0,0,0,38,
    0,39,0,40,0,41,0,0,42,0,0,43,0,0,44,0,
    45,0,46,0,47,0,0,48,0,49,0,0,50,0,0,51,
    0,52,0,53,0,0,54,0,55,0,56,0,57,0,58,0,
    59,0,60,0,0,61,0,0,0,0,0,0,0,62,0,63,
    0,64,0,65,0,66,0,67,0,68,0,69,0,70,0,71,
    0,72,0,73,0,74,0,75,0,76,0,77,0,78,0,79,
    0,80,0,81,0,82,0,83,0,0,0,0,0,0,0,0,
    0,0,0,0,0,0,0,84,0,85,0,86]"

definition table_size_for_idx :: "nat list" where
  "table_size_for_idx = [
    2,2,2,2,2,1,1,1,2,2,2,4,4,4,1,1,
    1,6,6,6,2,6,6,1,1,1,1,11,1,1,1,1,
    1,1,1,1,1,1,1,1,1,1,1,6,2,2,2,2,
    10,10,2,10,8,8,1,2,1,1,1,2,1,1,16,4,
    1,16,16,1,1,4,1,6,41,2,2,41,32,32,32,4,
    1,3,1,8,4,4,4]"

definition table_type_for_idx :: "nat list" where
  "table_type_for_idx = [
    3,1,1,1,3,1,3,3,1,1,1,1,1,1,1,3,
    1,3,1,1,3,3,3,3,3,3,3,3,3,3,3,3,
    3,3,3,3,1,3,3,3,3,3,2,2,3,1,3,1,
    1,1,3,2,1,2,3,1,3,3,3,3,3,1,2,2,
    3,1,1,2,3,1,2,3,3,3,3,3,3,3,3,3,
    3,3,1,3,1,1,1]"

section \<open>Lookups (\<^verbatim>\<open>ble_rcs.c\<close>)\<close>

definition rcs_idx_for_handle :: "u16 \<Rightarrow> u8" where
  "rcs_idx_for_handle handle =
     (if unat handle \<le> RCS_MAX_HANDLE then of_nat (table_idx_for_handle ! unat handle) else 0)"

definition rcs_handle_for_idx :: "u8 \<Rightarrow> u16" where
  "rcs_handle_for_idx idx =
     (if unat idx \<le> RCS_MAX_IDX then of_nat (table_handle_for_idx ! unat idx) else 0)"

definition rcs_get_size :: "u8 \<Rightarrow> u8" where
  "rcs_get_size idx =
     (if unat idx \<le> RCS_MAX_IDX then of_nat (table_size_for_idx ! unat idx) else 0)"

definition rcs_get_type :: "u8 \<Rightarrow> u8" where
  "rcs_get_type idx =
     (if unat idx \<le> RCS_MAX_IDX then of_nat (table_type_for_idx ! unat idx) else 0)"

section \<open>The value buffer (\<^verbatim>\<open>ble_rcs_server.c\<close>)\<close>

text \<open>The static array \<^verbatim>\<open>chr_selectable_buffer\<close> is the state; it starts zeroed.\<close>

definition chr_selectable_buffer :: bytes where
  "chr_selectable_buffer = replicate (RCS_NUM_IDX * RCS_CHR_OMNIBUS_SIZE) 0"

text \<open>The pointer that the function returns, as an offset in the array.\<close>

definition rcs_server_get_data_for_selector :: "u8 \<Rightarrow> nat" where
  "rcs_server_get_data_for_selector selector =
     (let selector = (if RCS_MAX_IDX < unat selector then of_nat RCS_MAX_IDX else selector)
      in RCS_CHR_OMNIBUS_SIZE * unat selector)"

text \<open>
  \<open>data\<close> is the memory that the caller's pointer addresses: reading more bytes than it has is
  undefined behaviour, as is writing outside the buffer.
\<close>

definition rcs_server_set_chr_value :: "bytes \<Rightarrow> u16 \<Rightarrow> bytes \<Rightarrow> u16 \<Rightarrow> bytes option" where
  "rcs_server_set_chr_value buf handle data len =
     (let idx = rcs_idx_for_handle handle;
          len = (if RCS_CHR_OMNIBUS_SIZE < unat len then of_nat RCS_CHR_OMNIBUS_SIZE else len);
          dst = RCS_CHR_OMNIBUS_SIZE * unat idx
      in case mem_write buf dst (replicate RCS_CHR_OMNIBUS_SIZE 0) of
           None \<Rightarrow> None
         | Some buf1 \<Rightarrow>
             (case mem_read data 0 (unat len) of
                None \<Rightarrow> None
              | Some src \<Rightarrow> mem_write buf1 dst src))"

text \<open>What the BLE server reads for a selector: the 64 bytes at the returned pointer.\<close>

definition rcs_value :: "bytes \<Rightarrow> u8 \<Rightarrow> bytes" where
  "rcs_value buf selector =
     take RCS_CHR_OMNIBUS_SIZE (drop (rcs_server_get_data_for_selector selector) buf)"

definition rcs_wf :: "bytes \<Rightarrow> bool" where
  "rcs_wf buf \<longleftrightarrow> length buf = RCS_NUM_IDX * RCS_CHR_OMNIBUS_SIZE"

definition rcs_registered :: "u16 \<Rightarrow> bool" where
  "rcs_registered handle \<longleftrightarrow> rcs_idx_for_handle handle \<noteq> 0"

section \<open>The tables are inverse to each other\<close>

lemma length_tables [simp]:
  "length table_handle_for_idx = 87" "length table_idx_for_handle = 236"
  "length table_size_for_idx = 87" "length table_type_for_idx = 87"
  by (simp_all add: table_handle_for_idx_def table_idx_for_handle_def table_size_for_idx_def
      table_type_for_idx_def)

lemma table_entries_bounded:
  "list_all (\<lambda>h. h \<le> 235) table_handle_for_idx"
  "list_all (\<lambda>i. i \<le> 86) table_idx_for_handle"
  "list_all (\<lambda>n. 1 \<le> n \<and> n \<le> 41) table_size_for_idx"
  "list_all (\<lambda>t. t \<in> {1, 2, 3}) table_type_for_idx"
  by (simp_all add: table_handle_for_idx_def table_idx_for_handle_def table_size_for_idx_def
      table_type_for_idx_def)

lemma table_idx_of_handle:
  "list_all (\<lambda>i. table_idx_for_handle ! (table_handle_for_idx ! i) = i) [0..<87]"
  by code_simp

lemma table_handle_of_idx:
  "list_all (\<lambda>h. table_idx_for_handle ! h = 0 \<or>
     table_handle_for_idx ! (table_idx_for_handle ! h) = h) [0..<236]"
  by code_simp

lemma table_handle_le: "i < 87 \<Longrightarrow> table_handle_for_idx ! i \<le> 235"
  using table_entries_bounded(1) by (simp add: list_all_length)

lemma table_idx_le: "h < 236 \<Longrightarrow> table_idx_for_handle ! h \<le> 86"
  using table_entries_bounded(2) by (simp add: list_all_length)

lemma unat_rcs_idx:
  "unat (rcs_idx_for_handle h) = (if unat h \<le> 235 then table_idx_for_handle ! unat h else 0)"
  using table_idx_le [of "unat h"]
  by (auto simp: rcs_idx_for_handle_def rcs_consts unat_of_nat)

lemma unat_rcs_handle:
  "unat (rcs_handle_for_idx i) = (if unat i \<le> 86 then table_handle_for_idx ! unat i else 0)"
  using table_handle_le [of "unat i"]
  by (auto simp: rcs_handle_for_idx_def rcs_consts unat_of_nat)

lemma rcs_idx_le: "unat (rcs_idx_for_handle h) \<le> 86"
  using table_idx_le [of "unat h"] by (simp add: unat_rcs_idx)

lemma rcs_idx_handle: "unat i \<le> 86 \<Longrightarrow> rcs_idx_for_handle (rcs_handle_for_idx i) = i"
  using table_idx_of_handle table_handle_le [of "unat i"]
  by (intro word_unat_eq_iff [THEN iffD2]) (simp add: unat_rcs_idx unat_rcs_handle list_all_iff)

lemma rcs_handle_idx: "rcs_registered h \<Longrightarrow> rcs_handle_for_idx (rcs_idx_for_handle h) = h"
proof -
  assume reg: "rcs_registered h"
  then have h: "unat h < 236" and nz: "table_idx_for_handle ! unat h \<noteq> 0"
    by (auto simp: rcs_registered_def rcs_idx_for_handle_def rcs_consts intro!: gr0I split: if_splits)
  have "unat h \<in> set [0..<236]" using h by simp
  from bspec [OF table_handle_of_idx [unfolded list_all_iff] this] nz
  have "table_handle_for_idx ! (table_idx_for_handle ! unat h) = unat h" by simp
  with h table_idx_le [of "unat h"] show ?thesis
    by (intro word_unat_eq_iff [THEN iffD2]) (simp add: unat_rcs_idx unat_rcs_handle)
qed

text \<open>
  The handle and index tables describe one bijection. Every selector up to the last index maps
  to a handle that maps back to it, every handle with a non-zero index is the handle of that index,
  and no lookup ever yields an index beyond the last one.
\<close>

lemma rcs_tables_inverse:
  "(unat i \<le> RCS_MAX_IDX \<longrightarrow> rcs_idx_for_handle (rcs_handle_for_idx i) = i) \<and>
   (rcs_idx_for_handle h \<noteq> 0 \<longrightarrow> rcs_handle_for_idx (rcs_idx_for_handle h) = h) \<and>
   unat (rcs_idx_for_handle h) \<le> RCS_MAX_IDX"
  using rcs_idx_handle [of i] rcs_handle_idx [of h] rcs_idx_le [of h]
  by (simp add: rcs_consts rcs_registered_def)

lemma rcs_tables_inverse_example:
  "rcs_idx_for_handle (rcs_handle_for_idx 7) = 7 \<and> rcs_handle_for_idx (rcs_idx_for_handle 30) = 30"
proof -
  have "unat (7 :: u8) \<le> RCS_MAX_IDX" by (simp add: rcs_consts)
  moreover have "rcs_idx_for_handle 30 \<noteq> 0"
    by (simp add: rcs_idx_for_handle_def rcs_consts table_idx_for_handle_def)
  ultimately show ?thesis using rcs_tables_inverse [of 7 30] by simp
qed

section \<open>Reads and writes of the value buffer\<close>

lemma rcs_wf_init: "rcs_wf chr_selectable_buffer"
  by (simp add: rcs_wf_def chr_selectable_buffer_def)

text \<open>The stored form of a value: cut at 64 bytes and padded with zeros.\<close>

definition rcs_pad :: "bytes \<Rightarrow> bytes" where
  "rcs_pad data = take RCS_CHR_OMNIBUS_SIZE data @
     replicate (RCS_CHR_OMNIBUS_SIZE - length data) 0"

lemma length_rcs_pad [simp]: "length (rcs_pad d) = 64"
  by (simp add: rcs_pad_def rcs_consts)

lemma blit_zero_blit:
  assumes "off + 64 \<le> length buf" "length src \<le> 64"
  shows "blit (blit buf off (replicate 64 0)) off src =
    blit buf off (src @ replicate (64 - length src) 0)"
  using assms by (auto simp: blit_def)

lemma rcs_set_eq:
  assumes "rcs_wf buf" "min (unat len) 64 \<le> length data"
  shows "rcs_server_set_chr_value buf handle data len =
    Some (blit buf (64 * unat (rcs_idx_for_handle handle)) (rcs_pad (take (unat len) data)))"
proof -
  have len: "unat (if RCS_CHR_OMNIBUS_SIZE < unat len then of_nat RCS_CHR_OMNIBUS_SIZE else len) =
      min (unat len) 64"
    by (simp add: rcs_consts)
  have off: "64 * unat (rcs_idx_for_handle handle) + 64 \<le> length buf"
    using rcs_idx_le [of handle] assms(1) by (simp add: rcs_wf_def rcs_consts)
  let ?src = "take (min (unat len) 64) data"
  have src: "length ?src = min (unat len) 64" using assms(2) by simp
  have "rcs_pad (take (unat len) data) = ?src @ replicate (64 - length ?src) 0"
    using assms(2) by (auto simp: rcs_pad_def rcs_consts min_def)
  with off src assms(2) len show ?thesis
    by (simp add: rcs_server_set_chr_value_def rcs_consts Let_def blit_zero_blit)
qed

lemma rcs_offset:
  "rcs_server_get_data_for_selector s = 64 * min (unat s) 86"
  by (simp add: rcs_server_get_data_for_selector_def rcs_consts min_def Let_def)

lemma rcs_value_blit:
  assumes "rcs_wf buf" "unat i \<le> 86" "length v = 64"
  shows "rcs_value (blit buf (64 * unat i) v) s = (if min (unat s) 86 = unat i then v else rcs_value buf s)"
proof (cases "min (unat s) 86 = unat i")
  case True
  with assms show ?thesis
    by (simp add: rcs_value_def rcs_offset rcs_consts rcs_wf_def blit_read_same)
next
  case False
  with assms have "64 * min (unat s) 86 + 64 \<le> 64 * unat i \<or> 64 * unat i + 64 \<le> 64 * min (unat s) 86"
    by linarith
  with False assms show ?thesis
    by (simp add: rcs_value_def rcs_offset rcs_consts rcs_wf_def blit_read_other)
qed

text \<open>
  Writing a characteristic never leaves the buffer, keeps its size, stores the value cut at
  64 bytes and zero padded at the index of the handle, and leaves every other selector as it was.
\<close>

lemma rcs_set_then_get:
  assumes "rcs_wf buf" and "min (unat len) RCS_CHR_OMNIBUS_SIZE \<le> length data"
  shows "\<exists>buf'. rcs_server_set_chr_value buf handle data len = Some buf' \<and> rcs_wf buf' \<and>
    rcs_value buf' (rcs_idx_for_handle handle) = rcs_pad (take (unat len) data) \<and>
    (\<forall>s. unat s \<le> RCS_MAX_IDX \<and> s \<noteq> rcs_idx_for_handle handle \<longrightarrow> rcs_value buf' s = rcs_value buf s)"
proof -
  let ?i = "rcs_idx_for_handle handle"
  let ?b = "blit buf (64 * unat ?i) (rcs_pad (take (unat len) data))"
  have i: "unat ?i \<le> 86" by (rule rcs_idx_le)
  have "rcs_wf ?b" using assms(1) i by (simp add: rcs_wf_def rcs_consts)
  moreover have "rcs_server_set_chr_value buf handle data len = Some ?b"
    using assms by (intro rcs_set_eq) (simp_all add: rcs_consts)
  ultimately show ?thesis
    using i by (auto simp: rcs_value_blit assms(1) rcs_consts word_unat_eq_iff min_absorb1)
qed

lemma rcs_set_then_get_example:
  "\<exists>buf'. rcs_server_set_chr_value chr_selectable_buffer 30 [16] 1 = Some buf' \<and>
     rcs_value buf' 7 = 16 # replicate 63 0"
proof -
  have idx: "rcs_idx_for_handle 30 = 7"
    by (simp add: rcs_idx_for_handle_def rcs_consts table_idx_for_handle_def)
  have "min (unat (1 :: u16)) RCS_CHR_OMNIBUS_SIZE \<le> length [16 :: u8]" by (simp add: rcs_consts)
  from rcs_set_then_get [OF rcs_wf_init this, of 30] show ?thesis
    by (auto simp: idx rcs_pad_def rcs_consts)
qed

section \<open>The buffer as a slot store\<close>

definition rcs_put :: "bytes \<Rightarrow> u16 \<Rightarrow> bytes \<Rightarrow> bytes" where
  "rcs_put buf handle v =
     (case rcs_server_set_chr_value buf handle v (of_nat (length v)) of Some b \<Rightarrow> b | None \<Rightarrow> buf)"

lemma rcs_put_blit:
  "rcs_wf buf \<Longrightarrow> length v < 65536 \<Longrightarrow>
     rcs_put buf h v = blit buf (64 * unat (rcs_idx_for_handle h)) (rcs_pad v)"
  by (simp add: rcs_put_def rcs_set_eq unat_of_nat)

interpretation rcs: slot_store rcs_wf rcs_registered "\<lambda>v. length v < 65536"
  "\<lambda>buf h. rcs_value buf (rcs_idx_for_handle h)" rcs_put rcs_pad
proof unfold_locales
  fix buf :: bytes and h h' :: u16 and v :: bytes
  assume wf: "rcs_wf buf" and ok: "rcs_registered h" "length v < 65536"
  have i: "unat (rcs_idx_for_handle h) \<le> 86" by (rule rcs_idx_le)
  show "rcs_wf (rcs_put buf h v)"
    using wf ok i by (simp add: rcs_put_blit rcs_wf_def rcs_consts)
  show "rcs_value (rcs_put buf h v) (rcs_idx_for_handle h) = rcs_pad v"
    using wf ok i by (simp add: rcs_put_blit rcs_value_blit)
  assume "rcs_registered h'" "h \<noteq> h'"
  then have "rcs_idx_for_handle h' \<noteq> rcs_idx_for_handle h"
    using ok(1) rcs_handle_idx by metis
  with wf ok i rcs_idx_le [of h'] show
    "rcs_value (rcs_put buf h v) (rcs_idx_for_handle h') = rcs_value buf (rcs_idx_for_handle h')"
    by (simp add: rcs_put_blit rcs_value_blit word_unat_eq_iff)
qed

text \<open>
  After any sequence of updates of registered characteristics the server shows, for every
  registered handle, the last value written to it (cut and padded to 64 bytes), or the old value if
  it was not written.
\<close>

lemma rcs_last_write_wins:
  assumes "rcs_wf buf" and "\<forall>(h, v) \<in> set ws. rcs_registered h \<and> length v < 65536"
    and "rcs_registered k"
  shows "rcs_value (put_all rcs_put buf ws) (rcs_idx_for_handle k) =
    (case map_of (rev ws) k of None \<Rightarrow> rcs_value buf (rcs_idx_for_handle k) | Some v \<Rightarrow> rcs_pad v)"
  using assms by (rule rcs.get_put_all)

lemma rcs_last_write_wins_example:
  "rcs_value (put_all rcs_put chr_selectable_buffer [(30, [6]), (28, [32]), (30, [16])])
     (rcs_idx_for_handle 30) = rcs_pad [16]"
proof -
  have reg: "rcs_registered 30" "rcs_registered 28"
    by (simp_all add: rcs_registered_def rcs_idx_for_handle_def rcs_consts table_idx_for_handle_def)
  then have "\<forall>(h, v) \<in> set [(30 :: u16, [6 :: u8]), (28, [32]), (30, [16])].
      rcs_registered h \<and> length v < 65536" by simp
  from rcs_last_write_wins [OF rcs_wf_init this reg(1)] show ?thesis by simp
qed

end
