(* ===== verification/Dev_Auth.thy ===== *)
theory Dev_Auth
  imports Blowfish_Tables
begin

text \<open>
  The authentication of the device (\<^verbatim>\<open>ble/dev_auth.cpp\<close>) and the block cipher behind it
  (\<^verbatim>\<open>ble/blowfish.cpp\<close>): the answer to a challenge of 8 bytes is its encryption under a key that is
  derived from the serial number of the charger. An \<^verbatim>\<open>unsigned long\<close> of the processor has 32 bits.
\<close>

section \<open>Blowfish\<close>

record BLOWFISH_CTX =
  bf_P :: "u32 list"
  bf_S :: "u32 list list"

definition bf_F :: "BLOWFISH_CTX \<Rightarrow> u32 \<Rightarrow> u32" where
  "bf_F ctx x =
     (let d = unat (x AND 0xFF);
          c = unat (drop_bit 8 x AND 0xFF);
          b = unat (drop_bit 16 x AND 0xFF);
          a = unat (drop_bit 24 x AND 0xFF)
      in ((bf_S ctx ! 0 ! a + bf_S ctx ! 1 ! b) XOR bf_S ctx ! 2 ! c) + bf_S ctx ! 3 ! d)"

text \<open>One turn of either loop: the two halves are mixed and exchanged.\<close>

definition bf_round :: "BLOWFISH_CTX \<Rightarrow> nat \<Rightarrow> u32 \<times> u32 \<Rightarrow> u32 \<times> u32" where
  "bf_round ctx i = (\<lambda>(Xl, Xr). let Xl = Xl XOR bf_P ctx ! i; Xr = bf_F ctx Xl XOR Xr in (Xr, Xl))"

definition Blowfish_Encrypt :: "BLOWFISH_CTX \<Rightarrow> u32 \<times> u32 \<Rightarrow> u32 \<times> u32" where
  "Blowfish_Encrypt ctx x =
     (let (Xl, Xr) = fold (bf_round ctx) [0..<16] x; (Xl, Xr) = (Xr, Xl)
      in (Xl XOR bf_P ctx ! 17, Xr XOR bf_P ctx ! 16))"

definition Blowfish_Decrypt :: "BLOWFISH_CTX \<Rightarrow> u32 \<times> u32 \<Rightarrow> u32 \<times> u32" where
  "Blowfish_Decrypt ctx x =
     (let (Xl, Xr) = fold (bf_round ctx) (rev [2..<18]) x; (Xl, Xr) = (Xr, Xl)
      in (Xl XOR bf_P ctx ! 0, Xr XOR bf_P ctx ! 1))"

section \<open>The key schedule\<close>

text \<open>One byte of the key, with the index that wraps at the end of the key.\<close>

definition key_byte :: "bytes \<Rightarrow> u32 \<times> nat \<Rightarrow> u32 \<times> nat" where
  "key_byte key = (\<lambda>(data, j). (push_bit 8 data OR ucast (key ! j), if length key \<le> j + 1 then 0 else j + 1))"

primrec key_words :: "bytes \<Rightarrow> nat \<Rightarrow> nat \<Rightarrow> u32 list" where
  "key_words key 0 j = []"
| "key_words key (Suc n) j =
     (let (data, j') = (key_byte key ^^ 4) (0, j) in data # key_words key n j')"

definition keyed_P :: "bytes \<Rightarrow> u32 list" where
  "keyed_P key = map2 (\<lambda>p d. p XOR d) ORIG_P (key_words key 18 0)"

definition expand_P :: "nat \<Rightarrow> BLOWFISH_CTX \<times> u32 \<times> u32 \<Rightarrow> BLOWFISH_CTX \<times> u32 \<times> u32" where
  "expand_P i = (\<lambda>(ctx, x).
     let (l, r) = Blowfish_Encrypt ctx x
     in (ctx\<lparr>bf_P := (bf_P ctx)[i := l, i + 1 := r]\<rparr>, l, r))"

definition expand_S :: "nat \<times> nat \<Rightarrow> BLOWFISH_CTX \<times> u32 \<times> u32 \<Rightarrow> BLOWFISH_CTX \<times> u32 \<times> u32" where
  "expand_S = (\<lambda>(i, j) (ctx, x).
     let (l, r) = Blowfish_Encrypt ctx x
     in (ctx\<lparr>bf_S := (bf_S ctx)[i := (bf_S ctx ! i)[j := l, j + 1 := r]]\<rparr>, l, r))"

definition even_indices :: "nat \<Rightarrow> nat list" where
  "even_indices n = map (\<lambda>k. 2 * k) [0..<n]"

definition Blowfish_Init :: "bytes \<Rightarrow> BLOWFISH_CTX" where
  "Blowfish_Init key =
     fst (fold expand_S (List.product [0..<4] (even_indices 128))
       (fold expand_P (even_indices 9) (\<lparr>bf_P = keyed_P key, bf_S = ORIG_S\<rparr>, 0, 0)))"

section \<open>Vectors of eight bytes\<close>

text \<open>
  \<^verbatim>\<open>detect_endian\<close> chooses the conversions: on a little-endian processor, as this one, the bytes of a
  vector are read and written with the high byte first, on a big-endian one with the low byte first.
\<close>

definition be32 :: "u32 \<Rightarrow> bytes" where
  "be32 w = [ucast (drop_bit 24 w), ucast (drop_bit 16 w), ucast (drop_bit 8 w), ucast w]"

definition ul_for_vec8 :: "bool \<Rightarrow> nat \<Rightarrow> bytes \<Rightarrow> u32" where
  "ul_for_vec8 little off data =
     (if little then join32 (data ! (off + 3)) (data ! (off + 2)) (data ! (off + 1)) (data ! off)
      else join32 (data ! off) (data ! (off + 1)) (data ! (off + 2)) (data ! (off + 3)))"

definition ul_to_vec8 :: "bool \<Rightarrow> u32 \<Rightarrow> bytes" where
  "ul_to_vec8 little val = (if little then be32 val else le32 val)"

definition crypt_vec :: "bool \<Rightarrow> (u32 \<times> u32 \<Rightarrow> u32 \<times> u32) \<Rightarrow> bytes \<Rightarrow> bytes" where
  "crypt_vec little f v =
     (let (io1, io2) = f (ul_for_vec8 little 0 v, ul_for_vec8 little 4 v)
      in ul_to_vec8 little io1 @ ul_to_vec8 little io2)"

definition encrypt_vec :: "bool \<Rightarrow> BLOWFISH_CTX \<Rightarrow> bytes \<Rightarrow> bytes" where
  "encrypt_vec little ctx v = crypt_vec little (Blowfish_Encrypt ctx) v"

definition decrypt_vec :: "bool \<Rightarrow> BLOWFISH_CTX \<Rightarrow> bytes \<Rightarrow> bytes" where
  "decrypt_vec little ctx v = crypt_vec little (Blowfish_Decrypt ctx) v"

section \<open>The device\<close>

definition shufsn :: "bytes \<Rightarrow> bytes" where
  "shufsn normsn =
     [normsn ! 5 XOR 0x55, normsn ! 9 XOR 0xA5, normsn ! 2 XOR 0xAA, normsn ! 4 XOR 0x5A, normsn ! 3 XOR 0x55,
      normsn ! 1 XOR 0xA5, normsn ! 7 XOR 0xAA, normsn ! 0 XOR 0x5A, normsn ! 6 XOR 0x55, normsn ! 8 XOR 0xA5]"

definition dev_auth_init :: "bytes \<Rightarrow> BLOWFISH_CTX" where
  "dev_auth_init device_serial = Blowfish_Init (shufsn device_serial)"

text \<open>The context is a null pointer until the first \<^verbatim>\<open>dev_auth_init\<close>.\<close>

definition dev_auth_challenge :: "BLOWFISH_CTX option \<Rightarrow> bytes \<Rightarrow> bytes option" where
  "dev_auth_challenge ctx challenge_input = map_option (\<lambda>c. encrypt_vec True c challenge_input) ctx"

section \<open>Decryption inverts encryption\<close>

lemma bf_round_back:
  assumes "bf_round ctx i (L, R) = (L', R')"
  shows "bf_round ctx q (R' XOR bf_P ctx ! q, L' XOR p) = (R XOR p, L XOR bf_P ctx ! i)"
  using assms by (auto simp: bf_round_def Let_def xor.assoc xor.left_commute xor.commute)

lemma bf_rounds_back:
  assumes "n \<le> 16" "fold (bf_round ctx) [0..<n] (L, R) = (L', R')"
  shows "fold (bf_round ctx) (rev [2..<n + 2]) (R' XOR bf_P ctx ! (n + 1), L' XOR bf_P ctx ! n) =
    (R XOR bf_P ctx ! 1, L XOR bf_P ctx ! 0)"
  using assms
proof (induction n arbitrary: L' R')
  case (Suc n)
  obtain L1 R1 where s: "fold (bf_round ctx) [0..<n] (L, R) = (L1, R1)" by force
  then have r: "bf_round ctx n (L1, R1) = (L', R')" using Suc.prems(2) by simp
  have up: "[2..<Suc n + 2] = [2..<n + 2] @ [n + 2]" by simp
  show ?case unfolding up rev_append fold_append o_def
    using Suc.IH [OF _ s] Suc.prems(1) bf_round_back [OF r, of "n + 2" "bf_P ctx ! Suc n"] by simp
qed simp

lemma Blowfish_roundtrip: "Blowfish_Decrypt ctx (Blowfish_Encrypt ctx x) = x"
proof -
  obtain L R where x: "x = (L, R)" by force
  obtain L' R' where e: "fold (bf_round ctx) [0..<16] (L, R) = (L', R')" by force
  have "fold (bf_round ctx) (rev [2..<18]) (R' XOR bf_P ctx ! 17, L' XOR bf_P ctx ! 16) =
      (R XOR bf_P ctx ! 1, L XOR bf_P ctx ! 0)"
    using bf_rounds_back [OF _ e] by simp
  then show ?thesis by (simp only: x e Blowfish_Encrypt_def Blowfish_Decrypt_def Let_def prod.case xor.assoc xor_self_eq xor.right_neutral)
qed

lemma be32_rev: "be32 w = rev (le32 w)"
  by (simp add: be32_def le32_def)

lemma ul_to_for: "ul_to_vec8 little (ul_for_vec8 little off v) = [v ! off, v ! (off + 1), v ! (off + 2), v ! (off + 3)]"
  by (simp add: ul_to_vec8_def ul_for_vec8_def be32_rev le32_join32)

lemma ul_for_to:
  "ul_for_vec8 little 0 (ul_to_vec8 little a @ ul_to_vec8 little b) = a"
  "ul_for_vec8 little 4 (ul_to_vec8 little a @ ul_to_vec8 little b) = b"
  by (simp_all add: ul_to_vec8_def ul_for_vec8_def be32_def le32_def join32_le32)

lemma vec8_list:
  fixes v :: bytes
  assumes "length v = 8"
  shows "[v ! 0, v ! 1, v ! 2, v ! 3, v ! 4, v ! 5, v ! 6, v ! 7] = v"
proof (rule nth_equalityI)
  fix i assume "i < length [v ! 0, v ! 1, v ! 2, v ! 3, v ! 4, v ! 5, v ! 6, v ! 7]"
  then have "i = 0 \<or> i = 1 \<or> i = 2 \<or> i = 3 \<or> i = 4 \<or> i = 5 \<or> i = 6 \<or> i = 7" by auto
  then show "[v ! 0, v ! 1, v ! 2, v ! 3, v ! 4, v ! 5, v ! 6, v ! 7] ! i = v ! i" by auto
qed (simp add: assms)

lemma crypt_vec_inverse:
  assumes "\<And>x. g (f x) = x" "length v = 8"
  shows "crypt_vec little g (crypt_vec little f v) = v"
proof -
  let ?x = "(ul_for_vec8 little 0 v, ul_for_vec8 little 4 v)"
  obtain a b where ab: "f ?x = (a, b)" by force
  have "g (a, b) = ?x" using assms(1) [of ?x] ab by simp
  then have "crypt_vec little g (crypt_vec little f v) =
      [v ! 0, v ! 1, v ! 2, v ! 3] @ [v ! 4, v ! 5, v ! 6, v ! 7]"
    using ul_to_for [of little 0 v] ul_to_for [of little 4 v] by (simp add: crypt_vec_def ab ul_for_to numeral_2_eq_2)
  then show ?thesis using vec8_list [OF assms(2)] by simp
qed

section \<open>The context keeps its shape\<close>

definition ctx_wf :: "BLOWFISH_CTX \<Rightarrow> bool" where
  "ctx_wf ctx \<longleftrightarrow> length (bf_P ctx) = 18 \<and> length (bf_S ctx) = 4 \<and> (\<forall>b \<in> set (bf_S ctx). length b = 256)"

lemma length_key_words [simp]: "length (key_words key n j) = n"
  by (induction n arbitrary: j) (simp_all split: prod.split)

lemma update_lengths:
  "(\<forall>b \<in> set xs. length b = n) \<Longrightarrow> length y = length (xs ! i) \<Longrightarrow> \<forall>b \<in> set (xs[i := y]). length b = n"
  by (cases "i < length xs") (auto simp: list_update_beyond dest: set_update_subset_insert [THEN subsetD])

lemma expand_wf:
  assumes "ctx_wf (fst s)"
  shows "ctx_wf (fst (expand_P i s))" "ctx_wf (fst (expand_S ij s))"
proof -
  obtain ctx x where s: "s = (ctx, x)" by (cases s)
  obtain k j where ij: "ij = (k, j)" by (cases ij)
  obtain l r where e: "Blowfish_Encrypt ctx x = (l, r)" by force
  show "ctx_wf (fst (expand_P i s))" using assms by (simp add: s e expand_P_def ctx_wf_def)
  show "ctx_wf (fst (expand_S ij s))"
    using assms update_lengths [of "bf_S ctx" 256 "(bf_S ctx ! k)[j := l, j + 1 := r]" k]
    by (simp add: s ij e expand_S_def ctx_wf_def)
qed

lemma fold_invar: "P s \<Longrightarrow> (\<And>x s. P s \<Longrightarrow> P (f x s)) \<Longrightarrow> P (fold f xs s)"
  by (induction xs arbitrary: s) auto

lemma dev_auth_init_wf: "ctx_wf (dev_auth_init sn)"
proof -
  have "ctx_wf (fst (\<lparr>bf_P = keyed_P key, bf_S = ORIG_S\<rparr>, 0 :: u32, 0 :: u32))" for key
    using ORIG_S_shape by (simp add: ctx_wf_def keyed_P_def length_ORIG_P)
  then show ?thesis unfolding dev_auth_init_def Blowfish_Init_def
    by (intro fold_invar [where P = "\<lambda>s. ctx_wf (fst s)"] expand_wf)
qed

section \<open>The serial number determines the key\<close>

lemma be_join: "push_bit 8 (push_bit 8 (push_bit 8 (push_bit 8 0 OR ucast a) OR ucast b) OR ucast c) OR ucast d = join32 d c b (a :: u8)"
  by (simp add: join32_def push_bit_or or.assoc or.left_commute or.commute)

lemma four_times: "(f ^^ 4) x = f (f (f (f x)))"
  by (simp add: eval_nat_numeral)

lemma key_word:
  assumes "length key = 10"
  defines "nx \<equiv> \<lambda>j. if 10 \<le> j + 1 then 0 else j + 1 :: nat"
  shows "(key_byte key ^^ 4) (0, j) =
    (join32 (key ! nx (nx (nx j))) (key ! nx (nx j)) (key ! nx j) (key ! j), nx (nx (nx (nx j))))"
  unfolding be_join [symmetric] four_times key_byte_def prod.case assms(1) nx_def by simp

lemma key_words_ten:
  assumes "length key = 10"
  shows "take 3 (key_words key 18 0) =
    [join32 (key ! 3) (key ! 2) (key ! 1) (key ! 0), join32 (key ! 7) (key ! 6) (key ! 5) (key ! 4),
     join32 (key ! 1) (key ! 0) (key ! 9) (key ! 8)]"
proof -
  have w: "(key_byte key ^^ 4) (0, 0) = (join32 (key ! 3) (key ! 2) (key ! 1) (key ! 0), 4)"
    "(key_byte key ^^ 4) (0, 4) = (join32 (key ! 7) (key ! 6) (key ! 5) (key ! 4), 8)"
    "(key_byte key ^^ 4) (0, 8) = (join32 (key ! 1) (key ! 0) (key ! 9) (key ! 8), 2)"
    using key_word [OF assms, of 0] key_word [OF assms, of 4] key_word [OF assms, of 8] by (simp_all add: numeral_2_eq_2 numeral_3_eq_3)
  have "key_words key (Suc (Suc (Suc 15))) 0 = [join32 (key ! 3) (key ! 2) (key ! 1) (key ! 0),
      join32 (key ! 7) (key ! 6) (key ! 5) (key ! 4), join32 (key ! 1) (key ! 0) (key ! 9) (key ! 8)] @ key_words key 15 2"
    unfolding key_words.simps w by (simp add: w)
  then show ?thesis by simp
qed

lemma join32_inject: "join32 a b c d = join32 a' b' c' d' \<Longrightarrow> a = a' \<and> b = b' \<and> c = c' \<and> d = d'"
  by (drule arg_cong [where f = le32]) (simp add: le32_join32)

lemma map2_xor_cancel:
  fixes ps :: "u32 list"
  shows "length xs = length ps \<Longrightarrow> length ys = length ps \<Longrightarrow>
    map2 (\<lambda>p d. p XOR d) ps xs = map2 (\<lambda>p d. p XOR d) ps ys \<Longrightarrow> xs = ys"
proof (induction ps arbitrary: xs ys)
  case (Cons p ps)
  obtain x xs' y ys' where "xs = x # xs'" "ys = y # ys'" using Cons.prems(1,2) by (cases xs; cases ys) auto
  moreover have "p XOR x = p XOR y \<Longrightarrow> x = y" for x y :: u32 by (metis xor.assoc xor_self_eq xor.left_neutral)
  ultimately show ?case using Cons by auto
qed simp

lemma keyed_P_inject:
  assumes "length k = 10" "length k' = 10" "keyed_P k = keyed_P k'"
  shows "k = k'"
proof -
  have "key_words k 18 0 = key_words k' 18 0"
    by (rule map2_xor_cancel [of _ ORIG_P, OF _ _ assms(3) [unfolded keyed_P_def]]) (simp_all add: length_ORIG_P)
  then have "take 3 (key_words k 18 0) = take 3 (key_words k' 18 0)" by simp
  then have "join32 (k ! 3) (k ! 2) (k ! 1) (k ! 0) = join32 (k' ! 3) (k' ! 2) (k' ! 1) (k' ! 0)"
    "join32 (k ! 7) (k ! 6) (k ! 5) (k ! 4) = join32 (k' ! 7) (k' ! 6) (k' ! 5) (k' ! 4)"
    "join32 (k ! 1) (k ! 0) (k ! 9) (k ! 8) = join32 (k' ! 1) (k' ! 0) (k' ! 9) (k' ! 8)"
    unfolding key_words_ten [OF assms(1)] key_words_ten [OF assms(2)] list.inject by simp_all
  note e = this [THEN join32_inject]
  show ?thesis
  proof (rule nth_equalityI)
    fix i assume "i < length k"
    then have "i = 0 \<or> i = 1 \<or> i = 2 \<or> i = 3 \<or> i = 4 \<or> i = 5 \<or> i = 6 \<or> i = 7 \<or> i = 8 \<or> i = 9" using assms(1) by auto
    then show "k ! i = k' ! i" using e by auto
  qed (simp add: assms)
qed

lemma shufsn_inject:
  assumes "length a = 10" "length b = 10" "shufsn a = shufsn b"
  shows "a = b"
proof -
  have x: "(x XOR k = y XOR k) = (x = y)" for x y k :: u8 by (metis xor.assoc xor_self_eq xor.right_neutral)
  have e: "a ! 0 = b ! 0" "a ! 1 = b ! 1" "a ! 2 = b ! 2" "a ! 3 = b ! 3" "a ! 4 = b ! 4" "a ! 5 = b ! 5" "a ! 6 = b ! 6"
      "a ! 7 = b ! 7" "a ! 8 = b ! 8" "a ! 9 = b ! 9"
    using assms(3) unfolding shufsn_def list.inject x by simp_all
  show ?thesis
  proof (rule nth_equalityI)
    fix i assume "i < length a"
    then have "i = 0 \<or> i = 1 \<or> i = 2 \<or> i = 3 \<or> i = 4 \<or> i = 5 \<or> i = 6 \<or> i = 7 \<or> i = 8 \<or> i = 9" using assms(1) by auto
    then show "a ! i = b ! i" using e by auto
  qed (simp add: assms)
qed

section \<open>Properties\<close>

text \<open>C37: the answer to a challenge determines the challenge: decrypting the answer of a device, whatever its serial
  number, gives the challenge back, so that two different challenges never have the same answer; and the key
  schedule ends with a context of the right shape, so that no access of the cipher leaves its tables.\<close>

theorem challenge_roundtrip:
  assumes "length v = 8" "dev_auth_challenge (Some (dev_auth_init sn)) v = Some r"
  shows "decrypt_vec True (dev_auth_init sn) r = v \<and> length r = 8 \<and>
    length (bf_P (dev_auth_init sn)) = 18 \<and> length (bf_S (dev_auth_init sn)) = 4 \<and> (\<forall>b \<in> set (bf_S (dev_auth_init sn)). length b = 256)"
proof -
  have r: "r = crypt_vec True (Blowfish_Encrypt (dev_auth_init sn)) v"
    using assms(2) by (simp add: dev_auth_challenge_def encrypt_vec_def)
  have "decrypt_vec True (dev_auth_init sn) r = v"
    unfolding decrypt_vec_def r by (rule crypt_vec_inverse) (simp_all add: Blowfish_roundtrip assms(1))
  moreover have "length r = 8" by (simp add: r crypt_vec_def ul_to_vec8_def be32_def split: prod.split)
  ultimately show ?thesis using dev_auth_init_wf [of sn] by (simp add: ctx_wf_def)
qed

theorem challenge_roundtrip_witness:
  "\<exists>r. dev_auth_challenge (Some (dev_auth_init (replicate 10 3))) [1, 2, 3, 4, 5, 6, 7, 8] = Some r \<and>
     decrypt_vec True (dev_auth_init (replicate 10 3)) r = [1, 2, 3, 4, 5, 6, 7, 8]"
proof -
  obtain r where r: "dev_auth_challenge (Some (dev_auth_init (replicate 10 3))) [1, 2, 3, 4, 5, 6, 7, 8] = Some r"
    by (simp add: dev_auth_challenge_def)
  then show ?thesis using challenge_roundtrip [OF _ r] by simp
qed

text \<open>Two chargers with different serial numbers of ten bytes start the key schedule from different subkeys: the
  shuffle of the serial number loses nothing and every byte of it enters the subkeys.\<close>

lemma serial_determines_subkeys:
  assumes "length sn = 10" "length sn' = 10" "sn \<noteq> sn'"
  shows "keyed_P (shufsn sn) \<noteq> keyed_P (shufsn sn')"
proof
  assume "keyed_P (shufsn sn) = keyed_P (shufsn sn')"
  then have "shufsn sn = shufsn sn'" by (intro keyed_P_inject) (simp_all add: shufsn_def)
  then show False using shufsn_inject [OF assms(1,2)] assms(3) by simp
qed

end
