(* ===== verification/Ble_Session.thy ===== *)
theory Ble_Session
  imports Rcs Dev_Auth "HOL-Library.Monad_Syntax"
begin

text \<open>
  The session of a BLE client (\<^verbatim>\<open>ble/serverble.cpp\<close>): connection and challenge, the token that
  authenticates the client, reads through the selector, writes through the omnibus characteristic and the
  transfer of a firmware file. What a write does once it has passed the authentication is not part of this
  theory: the write is recorded as an order. The file system and the update library are given by their
  results. An access outside a buffer is \<open>None\<close>.
\<close>

section \<open>State\<close>

record sesion =
  bs_buffer :: bytes
  bs_ctx :: "BLOWFISH_CTX option"
  bs_query :: bytes
  bs_reply :: bytes
  bs_authSuccess :: bool
  bs_AuthTimer :: nat
  bs_inicializado :: nat
  bs_Testing :: bool
  bs_deviceSerNum :: bytes
  bs_connected :: bool
  bs_disconnect :: bool
  bs_omnibus :: bytes
  bs_fwdata :: "bytes list"
  bs_UpdatefileSize :: u32
  bs_UpdateType :: nat
  bs_Descargando :: bool
  bs_Instalando :: bool
  bs_mainFwUpdateActive :: bool
  bs_file :: "bytes option"
  bs_open :: bool
  bs_emergencyState :: nat
  bs_reset :: bool
  bs_restart :: bool
  bs_orders :: "(u16 \<times> bytes) list"
  bs_serial :: "bytes list"

text \<open>What the libraries return: the update library and the file system.\<close>

record entorno =
  en_begin :: bool
  en_end :: bool
  en_write :: bool
  en_open :: bool
  en_written :: "nat list"

definition initialSerNum :: bytes where
  "initialSerNum = replicate 10 0xFF"

definition RaspberryTest :: bytes where
  "RaspberryTest = [139, 96, 111, 50, 166, 220]"

definition RaspberryTest2 :: bytes where
  "RaspberryTest2 = [179, 186, 112, 1, 95, 228]"

abbreviation MATRIX :: u16 where "MATRIX \<equiv> 0x0091"
abbreviation TOKEN :: u16 where "TOKEN \<equiv> 0x0093"
abbreviation PROLOG :: u16 where "PROLOG \<equiv> 0x00AD"
abbreviation EPILOG :: u16 where "EPILOG \<equiv> 0x00AF"

abbreviation ESP_UPDATE :: nat where "ESP_UPDATE \<equiv> 1"
abbreviation PSOC_UPDATE :: nat where "PSOC_UPDATE \<equiv> 2"

section \<open>Authentication\<close>

definition authorizedOK :: "sesion \<Rightarrow> bool" where
  "authorizedOK s \<longleftrightarrow> bs_authSuccess s \<or> bs_mainFwUpdateActive s"

definition setAuthToken :: "bytes \<Rightarrow> sesion \<Rightarrow> sesion option" where
  "setAuthToken data s =
     (if bs_authSuccess s then Some s
      else if length data < 8 then None
      else if bs_reply s = take 8 data \<or> bs_deviceSerNum s = initialSerNum
      then Some (s\<lparr>bs_AuthTimer := 0, bs_connected := True, bs_authSuccess := True\<rparr>)
      else Some s)"

text \<open>The challenge is published as the value of the characteristic of the matrix.\<close>

definition modifyMatrix :: "sesion \<Rightarrow> sesion option" where
  "modifyMatrix s =
     map_option (\<lambda>b. s\<lparr>bs_buffer := b\<rparr>) (rcs_server_set_chr_value (bs_buffer s) MATRIX (bs_query s) 8)"

text \<open>\<open>random\<close> are the numbers that \<^verbatim>\<open>esp_random\<close> returns, two bytes of each are used; \<open>now\<close> is the tick count.\<close>

definition deviceConnectInd :: "u32 list \<Rightarrow> nat \<Rightarrow> sesion \<Rightarrow> sesion option" where
  "deviceConnectInd random now s =
     (if bs_inicializado s = 2 then
        do {
          let query = concat (map (\<lambda>r. [ucast r, ucast (drop_bit 8 r)]) (take 4 random)) @ [0];
          reply \<leftarrow> dev_auth_challenge (bs_ctx s) query;
          modifyMatrix (s\<lparr>bs_query := query, bs_reply := take 8 reply, bs_AuthTimer := now\<rparr>) }
      else Some (s\<lparr>bs_AuthTimer := now\<rparr>))"

definition deviceDisconnectInd :: "sesion \<Rightarrow> sesion option" where
  "deviceDisconnectInd s =
     modifyMatrix (s\<lparr>bs_authSuccess := False, bs_query := replicate 8 0 @ drop 8 (bs_query s), bs_reply := replicate 8 0\<rparr>)"

definition onConnect :: "bytes \<Rightarrow> u32 list \<Rightarrow> nat \<Rightarrow> sesion \<Rightarrow> sesion option" where
  "onConnect peer random now s =
     (if peer = RaspberryTest \<or> peer = RaspberryTest2
      then setAuthToken (bs_reply s) (s\<lparr>bs_Testing := True\<rparr>)
      else deviceConnectInd random now (s\<lparr>bs_Testing := False\<rparr>))"

text \<open>The disconnection is reported to the PSoC: the block \<^verbatim>\<open>BLOQUE_STATUS\<close> with \<^verbatim>\<open>ESTADO_NORMAL\<close>.\<close>

definition onDisconnect :: "sesion \<Rightarrow> sesion option" where
  "onDisconnect s =
     map_option (\<lambda>s1. s1\<lparr>bs_serial := bs_serial s1 @ [[0x3A, 0xFF, 0xFE, 2, 0, 2]]\<rparr>)
       (deviceDisconnectInd (s\<lparr>bs_connected := False, bs_Testing := False\<rparr>))"

text \<open>The check that the main task makes in its normal state, with the time since the connection in milliseconds.\<close>

definition auth_timeout :: "nat \<Rightarrow> sesion \<Rightarrow> sesion" where
  "auth_timeout Transcurrido s =
     (if bs_AuthTimer s \<noteq> 0 \<and> 20000 < Transcurrido \<and> \<not> bs_authSuccess s
      then s\<lparr>bs_AuthTimer := 0, bs_disconnect := True\<rparr> else s)"

section \<open>Reads through the selector\<close>

definition write_selector :: "bytes \<Rightarrow> sesion \<Rightarrow> sesion" where
  "write_selector data s =
     (if data = [] then s\<lparr>bs_omnibus := [0, 0, 0, 0]\<rparr>
      else if bs_inicializado s \<noteq> 2 then s
      else let selector = data ! 0;
               pldsize = rcs_get_size selector;
               payload = drop (rcs_server_get_data_for_selector selector) (bs_buffer s);
               dummy = (\<not> authorizedOK s \<and> rcs_handle_for_idx selector \<noteq> MATRIX)
           in s\<lparr>bs_omnibus := [selector, 0, pldsize, 0] @
                  (if dummy then replicate (unat pldsize) 0 else take (unat pldsize) payload)\<rparr>)"

section \<open>Transfer of a firmware file\<close>

definition crc32_bit :: "u32 \<times> u8 \<Rightarrow> u32 \<times> u8" where
  "crc32_bit = (\<lambda>(r, b).
     (if (b AND 1 \<noteq> 0) \<noteq> (r AND 1 \<noteq> 0) then drop_bit 1 r XOR 0xEDB88320 else drop_bit 1 r, drop_bit 1 b))"

definition crc32 :: "bytes \<Rightarrow> u32" where
  "crc32 c =
     (let r = fold (\<lambda>b r. fst ((crc32_bit ^^ 8) (r, b))) c 0xFFFFFFFF XOR 0xFFFFFFFF
      in push_bit 24 (r AND 0xFF) OR push_bit 8 (r AND 0xFF00) OR drop_bit 8 (r AND 0xFF0000) OR drop_bit 24 (r AND 0xFF000000))"

text \<open>\<^verbatim>\<open>strstr\<close> in the signature, a string of at most ten characters.\<close>

definition strstr :: "bytes \<Rightarrow> string \<Rightarrow> bool" where
  "strstr signature t =
     (let text = takeWhile (\<lambda>b. b \<noteq> 0) signature
      in list_ex (\<lambda>i. take (length t) (drop i text) = map of_char t) [0..<length text])"

definition notifyFw :: "u32 \<Rightarrow> sesion \<Rightarrow> sesion" where
  "notifyFw code s = s\<lparr>bs_fwdata := bs_fwdata s @ [le32 code]\<rparr>"

definition fw_prolog :: "entorno \<Rightarrow> bytes \<Rightarrow> sesion \<Rightarrow> sesion option" where
  "fw_prolog e payload s =
     (if length payload < 14 then None
      else let signature = take 10 payload;
               s1 = s\<lparr>bs_UpdatefileSize := join32 (payload ! 10) (payload ! 11) (payload ! 12) (payload ! 13),
                      bs_Descargando := True\<rparr>
           in Some (if strstr signature ''VBLE''
                    then notifyFw (if en_begin e then 0 else 1) (s1\<lparr>bs_UpdateType := ESP_UPDATE\<rparr>)
                    else if strstr signature ''VELT''
                    then notifyFw 0 (s1\<lparr>bs_UpdateType := PSOC_UPDATE, bs_open := en_open e,
                                        bs_file := (if en_open e then Some [] else None)\<rparr>)
                    else notifyFw 0x40 s1))"

definition fw_epilog :: "entorno \<Rightarrow> bytes \<Rightarrow> sesion \<Rightarrow> sesion option" where
  "fw_epilog e payload s =
     (if length payload < 4 then None
      else let s1 = (notifyFw 0 s)\<lparr>bs_Descargando := False, bs_Instalando := True\<rparr>
           in Some (if bs_UpdateType s = ESP_UPDATE
                    then (if en_end e then s1\<lparr>bs_reset := True\<rparr> else s1)
                    else if bs_UpdateType s = PSOC_UPDATE
                    then (let s2 = s1\<lparr>bs_open := False\<rparr>;
                              n = (case bs_file s of None \<Rightarrow> 0 | Some b \<Rightarrow> length b)
                          in if unat (bs_UpdatefileSize s) = n
                             then (let s3 = s2\<lparr>bs_mainFwUpdateActive := True\<rparr>
                                   in if bs_emergencyState s = 1 then s3\<lparr>bs_emergencyState := 0, bs_restart := True\<rparr> else s3)
                             else (notifyFw 2 (s2\<lparr>bs_file := None\<rparr>))\<lparr>bs_restart := True\<rparr>)
                    else s1))"

text \<open>The write of a block, repeated while it is not complete; every attempt appends what it wrote.\<close>

fun write_retry :: "bytes \<Rightarrow> nat list \<Rightarrow> nat \<Rightarrow> bytes \<Rightarrow> bytes \<times> bool" where
  "write_retry p [] k f = (f, p = [])"
| "write_retry p (r # rs) k f =
     (if length p \<le> r then (f @ p, True)
      else if k = 0 then (f @ take r p, False)
      else write_retry p rs (k - 1) (f @ take r p))"

definition fw_block :: "entorno \<Rightarrow> bytes \<Rightarrow> sesion \<Rightarrow> sesion" where
  "fw_block e payload s =
     (if bs_UpdateType s = ESP_UPDATE then notifyFw (if en_write e then 0 else 2) s
      else if bs_UpdateType s = PSOC_UPDATE
      then (let (f, ok) = (case bs_file s of
                             Some f \<Rightarrow> if bs_open s then write_retry payload (en_written e) 15 f else (f, payload = [])
                           | None \<Rightarrow> ([], payload = []))
            in if ok then notifyFw 0 (s\<lparr>bs_file := map_option (\<lambda>_. f) (bs_file s)\<rparr>)
               else notifyFw 2 (s\<lparr>bs_file := None, bs_open := False, bs_Descargando := False\<rparr>))
      else notifyFw 0 s)"

definition write_fwdata :: "entorno \<Rightarrow> bytes \<Rightarrow> sesion \<Rightarrow> sesion option" where
  "write_fwdata e data s =
     (if length data < 264 then None
      else let partSize = unat (join16 (data ! 2) (data ! 3))
           in if length data < 4 + partSize then None
              else let payload = take partSize (drop 4 data);
                       partCRC32 = join32 (data ! 260) (data ! 261) (data ! 262) (data ! 263)
                   in Some (if \<not> bs_Testing s \<and> crc32 payload \<noteq> partCRC32
                            then notifyFw 2 (s\<lparr>bs_file := (if bs_UpdateType s = PSOC_UPDATE then None else bs_file s),
                                               bs_open := (if bs_UpdateType s = PSOC_UPDATE then False else bs_open s),
                                               bs_Descargando := False\<rparr>)
                            else fw_block e payload s))"

section \<open>Writes through the omnibus characteristic\<close>

definition write_omnibus :: "entorno \<Rightarrow> bytes \<Rightarrow> sesion \<Rightarrow> sesion option" where
  "write_omnibus e data s =
     (if length data < 5 then Some s
      else let handle = rcs_handle_for_idx (data ! 0); payload = drop 4 data
           in if handle = TOKEN then setAuthToken payload s
              else if handle = PROLOG then fw_prolog e payload s
              else if handle = EPILOG then fw_epilog e payload s
              else if \<not> authorizedOK s then Some s
              else Some (s\<lparr>bs_orders := bs_orders s @ [(handle, payload)]\<rparr>))"

section \<open>Sessions\<close>

datatype evento =
    Conecta bytes "u32 list" nat
  | Desconecta
  | Selector bytes
  | Omnibus entorno bytes
  | FwData entorno bytes
  | Espera nat

definition paso :: "evento \<Rightarrow> sesion \<Rightarrow> sesion option" where
  "paso ev s =
     (case ev of
        Conecta peer random now \<Rightarrow> onConnect peer random now s
      | Desconecta \<Rightarrow> onDisconnect s
      | Selector data \<Rightarrow> Some (write_selector data s)
      | Omnibus e data \<Rightarrow> write_omnibus e data s
      | FwData e data \<Rightarrow> write_fwdata e data s
      | Espera t \<Rightarrow> Some (auth_timeout t s))"

text \<open>
  The events that may authorise the client: the connection of one of the two test devices, the right token
  (any token while the charger has its factory serial number), and the end of the transfer of a PSoC file.
\<close>

definition grants :: "evento \<Rightarrow> sesion \<Rightarrow> bool" where
  "grants ev s =
     (case ev of
        Conecta peer _ _ \<Rightarrow> peer = RaspberryTest \<or> peer = RaspberryTest2
      | Omnibus _ data \<Rightarrow>
          5 \<le> length data \<and>
          (rcs_handle_for_idx (data ! 0) = TOKEN \<and>
             (take 8 (drop 4 data) = bs_reply s \<or> bs_deviceSerNum s = initialSerNum) \<or>
           rcs_handle_for_idx (data ! 0) = EPILOG \<and> bs_UpdateType s = PSOC_UPDATE)
      | _ \<Rightarrow> False)"

inductive unprivileged :: "sesion \<Rightarrow> sesion \<Rightarrow> bool" for s where
  start: "unprivileged s s"
| event: "unprivileged s u \<Longrightarrow> paso ev u = Some v \<Longrightarrow> \<not> grants ev u \<Longrightarrow> unprivileged s v"

text \<open>What decides whether a client is authorised and what it has ordered.\<close>

definition privileges :: "sesion \<Rightarrow> bool \<times> bool \<times> (u16 \<times> bytes) list" where
  "privileges s = (bs_authSuccess s, bs_mainFwUpdateActive s, bs_orders s)"

lemma authorizedOK_privileges: "privileges s = privileges t \<Longrightarrow> authorizedOK s = authorizedOK t"
  by (simp add: privileges_def authorizedOK_def)

lemma privileges_notify [simp]: "privileges (notifyFw c s) = privileges s"
  by (simp add: notifyFw_def privileges_def)

lemma privileges_upd [simp]:
  "privileges (s\<lparr>bs_Testing := b\<rparr>) = privileges s" "privileges (s\<lparr>bs_AuthTimer := n\<rparr>) = privileges s"
  "privileges (s\<lparr>bs_omnibus := v\<rparr>) = privileges s" "privileges (s\<lparr>bs_buffer := v\<rparr>) = privileges s"
  "privileges (s\<lparr>bs_query := v\<rparr>) = privileges s" "privileges (s\<lparr>bs_reply := v\<rparr>) = privileges s"
  "privileges (s\<lparr>bs_connected := b\<rparr>) = privileges s" "privileges (s\<lparr>bs_disconnect := b\<rparr>) = privileges s"
  "privileges (s\<lparr>bs_serial := f\<rparr>) = privileges s" "privileges (s\<lparr>bs_UpdateType := n\<rparr>) = privileges s"
  "privileges (s\<lparr>bs_UpdatefileSize := w\<rparr>) = privileges s" "privileges (s\<lparr>bs_Descargando := b\<rparr>) = privileges s"
  "privileges (s\<lparr>bs_Instalando := b\<rparr>) = privileges s" "privileges (s\<lparr>bs_file := c\<rparr>) = privileges s"
  "privileges (s\<lparr>bs_open := b\<rparr>) = privileges s" "privileges (s\<lparr>bs_reset := b\<rparr>) = privileges s"
  by (simp_all add: privileges_def)

lemma modifyMatrix_privileges: "modifyMatrix s = Some t \<Longrightarrow> privileges t = privileges s"
  by (auto simp: modifyMatrix_def)

lemma connect_privileges: "deviceConnectInd r n s = Some t \<Longrightarrow> privileges t = privileges s"
  by (auto simp: deviceConnectInd_def Let_def bind_eq_Some_conv split: if_splits dest!: modifyMatrix_privileges)

lemma fw_block_privileges: "privileges (fw_block e p s) = privileges s"
  by (simp add: fw_block_def Let_def split: prod.split)

lemma token_privileges:
  "setAuthToken d s = Some t \<Longrightarrow> take 8 d \<noteq> bs_reply s \<Longrightarrow> bs_deviceSerNum s \<noteq> initialSerNum \<Longrightarrow> privileges t = privileges s"
  by (auto simp: setAuthToken_def split: if_splits)

lemma prolog_privileges: "fw_prolog e p s = Some t \<Longrightarrow> privileges t = privileges s"
  by (auto simp: fw_prolog_def Let_def split: if_splits)

lemma epilog_privileges: "fw_epilog e p s = Some t \<Longrightarrow> bs_UpdateType s \<noteq> PSOC_UPDATE \<Longrightarrow> privileges t = privileges s"
  by (auto simp: fw_epilog_def Let_def split: if_splits)

lemma omnibus_privileges:
  assumes "write_omnibus e data s = Some t" "\<not> grants (Omnibus e data) s" "\<not> authorizedOK s"
  shows "privileges t = privileges s"
proof (cases "length data < 5")
  case True
  then show ?thesis using assms(1) by (simp add: write_omnibus_def)
next
  case False
  define h where "h = rcs_handle_for_idx (data ! 0)"
  have w: "write_omnibus e data s =
      (if h = TOKEN then setAuthToken (drop 4 data) s else if h = PROLOG then fw_prolog e (drop 4 data) s
       else if h = EPILOG then fw_epilog e (drop 4 data) s else Some s)"
    using False assms(3) unfolding write_omnibus_def Let_def h_def by simp
  have g: "h = TOKEN \<Longrightarrow> take 8 (drop 4 data) \<noteq> bs_reply s \<and> bs_deviceSerNum s \<noteq> initialSerNum"
    "h = EPILOG \<Longrightarrow> bs_UpdateType s \<noteq> PSOC_UPDATE"
    using assms(2) False unfolding grants_def h_def by simp_all
  consider (t) "h = TOKEN" | (p) "h \<noteq> TOKEN" "h = PROLOG" | (e) "h \<noteq> TOKEN" "h \<noteq> PROLOG" "h = EPILOG"
    | (o) "h \<noteq> TOKEN" "h \<noteq> PROLOG" "h \<noteq> EPILOG" by blast
  then show ?thesis
  proof cases
    case t
    then show ?thesis using assms(1) w g(1) token_privileges [of "drop 4 data" s t] by simp
  next
    case p
    then show ?thesis using assms(1) w prolog_privileges [of e "drop 4 data" s t] by simp
  next
    case e
    then show ?thesis using assms(1) w g(2) epilog_privileges [of e "drop 4 data" s t] by simp
  next
    case o
    then show ?thesis using assms(1) w by simp
  qed
qed

lemma unprivileged_step:
  assumes "paso ev s = Some t" "\<not> grants ev s" "\<not> authorizedOK s"
  shows "privileges t = privileges s"
proof (cases ev)
  case (Conecta peer r n)
  then show ?thesis using assms connect_privileges [of r n "s\<lparr>bs_Testing := False\<rparr>" t]
    by (simp add: paso_def grants_def onConnect_def)
next
  case Desconecta
  have "privileges (s\<lparr>bs_authSuccess := False\<rparr>) = privileges s"
    using assms(3) by (simp add: privileges_def authorizedOK_def)
  then show ?thesis using assms(1) Desconecta
    by (auto simp: paso_def onDisconnect_def deviceDisconnectInd_def privileges_def dest!: modifyMatrix_privileges)
next
  case (Selector data)
  then show ?thesis using assms(1) by (auto simp: paso_def write_selector_def Let_def)
next
  case (Omnibus e data)
  then show ?thesis using assms omnibus_privileges [of e data s t] by (simp add: paso_def)
next
  case (FwData e data)
  then show ?thesis using assms(1) by (auto simp: paso_def write_fwdata_def Let_def fw_block_privileges split: if_splits)
next
  case (Espera n)
  then show ?thesis using assms(1) by (auto simp: paso_def auth_timeout_def)
qed

lemma unprivileged_keeps: "unprivileged s t \<Longrightarrow> \<not> authorizedOK s \<Longrightarrow> privileges t = privileges s"
proof (induction rule: unprivileged.induct)
  case (event u ev v)
  then show ?case using unprivileged_step [of ev u v] authorizedOK_privileges [of u s] by simp
qed simp


text \<open>A charger of the examples, with a client that has just connected.\<close>

definition demo_sesion :: sesion where
  "demo_sesion = \<lparr>bs_buffer = chr_selectable_buffer, bs_ctx = None, bs_query = replicate 9 0, bs_reply = replicate 8 0,
     bs_authSuccess = False, bs_AuthTimer = 0, bs_inicializado = 2, bs_Testing = False, bs_deviceSerNum = replicate 10 1,
     bs_connected = False, bs_disconnect = False, bs_omnibus = [], bs_fwdata = [], bs_UpdatefileSize = 0,
     bs_UpdateType = 0, bs_Descargando = False, bs_Instalando = False, bs_mainFwUpdateActive = False, bs_file = None,
     bs_open = False, bs_emergencyState = 0, bs_reset = False, bs_restart = False, bs_orders = [], bs_serial = []\<rparr>"


section \<open>A firmware file without a token\<close>

primrec sesion_run :: "evento list \<Rightarrow> sesion \<Rightarrow> sesion option" where
  "sesion_run [] s = Some s"
| "sesion_run (ev # evs) s = Option.bind (paso ev s) (sesion_run evs)"

lemma sesion_run_append: "sesion_run (as @ bs) s = Option.bind (sesion_run as s) (sesion_run bs)"
proof (induction "as" arbitrary: s)
  case (Cons a as)
  then show ?case by (cases "paso a s") simp_all
qed simp

text \<open>The messages of a client that transfers a PSoC file, and libraries that do what they are asked for.\<close>

definition en_ok :: entorno where
  "en_ok = \<lparr>en_begin = True, en_end = True, en_write = True, en_open = True, en_written = [65535]\<rparr>"

definition prolog_msg :: "u32 \<Rightarrow> bytes" where
  "prolog_msg n = [rcs_idx_for_handle PROLOG, 0, 0, 0] @ map of_char ''VELT2_0500'' @ le32 n"

definition block_msg :: "bytes \<Rightarrow> bytes" where
  "block_msg p = [0, 0] @ le16 (of_nat (length p)) @ p @ replicate (256 - length p) 0 @ le32 (crc32 p)"

definition epilog_msg :: bytes where
  "epilog_msg = [rcs_idx_for_handle EPILOG, 0, 0, 0] @ [0, 0, 0, 0]"

definition transfer_events :: "bytes list \<Rightarrow> evento list" where
  "transfer_events blocks =
     [Omnibus en_ok (prolog_msg (of_nat (length (concat blocks))))] @ map (\<lambda>p. FwData en_ok (block_msg p)) blocks @
     [Omnibus en_ok epilog_msg]"

lemma fw_handles:
  "rcs_handle_for_idx (rcs_idx_for_handle PROLOG) = PROLOG" "rcs_handle_for_idx (rcs_idx_for_handle EPILOG) = EPILOG"
  by (simp_all add: rcs_handle_for_idx_def rcs_idx_for_handle_def rcs_consts table_idx_for_handle_def table_handle_for_idx_def)

lemma velt_signature: "strstr (map of_char ''VELT2_0500'') ''VBLE'' = False" "strstr (map of_char ''VELT2_0500'') ''VELT'' = True"
  by code_simp+

lemma prolog_runs:
  "write_omnibus en_ok (prolog_msg n) s =
     Some (notifyFw 0 (s\<lparr>bs_UpdatefileSize := n, bs_Descargando := True, bs_UpdateType := PSOC_UPDATE, bs_open := True, bs_file := Some []\<rparr>))"
proof -
  have "fw_prolog en_ok (map of_char ''VELT2_0500'' @ le32 n) s =
      Some (notifyFw 0 (s\<lparr>bs_UpdatefileSize := n, bs_Descargando := True, bs_UpdateType := PSOC_UPDATE, bs_open := True, bs_file := Some []\<rparr>))"
    unfolding fw_prolog_def Let_def using velt_signature
    by (simp add: en_ok_def le32_def join32_le32)
  then show ?thesis by (simp add: write_omnibus_def prolog_msg_def fw_handles)
qed

lemma block_runs:
  assumes "length p \<le> 256" "bs_UpdateType s = PSOC_UPDATE" "bs_open s" "bs_file s = Some f"
  shows "write_fwdata en_ok (block_msg p) s = Some (notifyFw 0 (s\<lparr>bs_file := Some (f @ p)\<rparr>))"
proof -
  define n where "n = length p"
  have m: "block_msg p = [0, 0, ucast (of_nat n :: u16), ucast (drop_bit 8 (of_nat n :: u16))] @ p @ replicate (256 - n) 0 @ le32 (crc32 p)"
    by (simp add: block_msg_def le16_def n_def)
  have len: "length (block_msg p) = 264" using assms(1) by (simp add: m n_def)
  have ps: "unat (join16 (block_msg p ! 2) (block_msg p ! 3)) = n"
    using assms(1) by (simp add: m join16_le16 unat_of_nat n_def)
  have pay: "take n (drop 4 (block_msg p)) = p" by (simp add: m n_def)
  have tail: "drop 260 (block_msg p) = le32 (crc32 p)" using assms(1) by (simp add: m n_def)
  have "block_msg p ! (260 + i) = le32 (crc32 p) ! i" if "i < 4" for i
    using len tail that nth_drop [of 260 "block_msg p" i] by simp
  from this [of 0] this [of 1] this [of 2] this [of 3]
  have c: "join32 (block_msg p ! 260) (block_msg p ! 261) (block_msg p ! 262) (block_msg p ! 263) = crc32 p"
    by (simp add: le32_def join32_le32)
  have "n \<le> 65535" "n \<le> 260" using assms(1) by (simp_all add: n_def)
  then show ?thesis using assms(2-4) unfolding write_fwdata_def Let_def ps pay c
    by (simp add: len fw_block_def en_ok_def n_def)
qed

lemma blocks_run:
  assumes "\<forall>p \<in> set blocks. length p \<le> 256" "bs_UpdateType s = PSOC_UPDATE" "bs_open s" "bs_file s = Some f"
  shows "\<exists>fw. sesion_run (map (\<lambda>p. FwData en_ok (block_msg p)) blocks) s = Some (s\<lparr>bs_file := Some (f @ concat blocks), bs_fwdata := fw\<rparr>)"
  using assms
proof (induction blocks arbitrary: s f)
  case Nil
  then show ?case by (intro exI [of _ "bs_fwdata s"]) (cases s, simp)
next
  case (Cons p blocks)
  define s1 where "s1 = notifyFw 0 (s\<lparr>bs_file := Some (f @ p)\<rparr>)"
  have "paso (FwData en_ok (block_msg p)) s = Some s1"
    using Cons.prems block_runs [of p s f] by (simp add: paso_def s1_def)
  moreover obtain fw where "sesion_run (map (\<lambda>p. FwData en_ok (block_msg p)) blocks) s1 =
      Some (s1\<lparr>bs_file := Some ((f @ p) @ concat blocks), bs_fwdata := fw\<rparr>)"
    using Cons.IH [of s1 "f @ p"] Cons.prems by (auto simp: s1_def notifyFw_def)
  ultimately show ?case by (intro exI [of _ fw]) (simp add: s1_def notifyFw_def)
qed

text \<open>C40: the transfer of a PSoC file is not protected by the authentication: in every state, for every file, a client
  that never presents a token can send the prolog, the blocks and the epilog; the charger stores exactly this
  file, starts the update with it, and from then on treats the client as authorised.\<close>

theorem update_without_token:
  assumes "\<forall>p \<in> set blocks. length p \<le> 256" "length (concat blocks) < 2 ^ 32"
  shows "\<exists>t. sesion_run (transfer_events blocks) s = Some t \<and> bs_file t = Some (concat blocks) \<and>
    bs_mainFwUpdateActive t \<and> authorizedOK t \<and> bs_authSuccess t = bs_authSuccess s"
proof -
  let ?n = "of_nat (length (concat blocks)) :: u32"
  have n: "unat ?n = length (concat blocks)" using assms(2) by (simp add: unat_of_nat)
  define s1 where "s1 = notifyFw 0 (s\<lparr>bs_UpdatefileSize := ?n, bs_Descargando := True, bs_UpdateType := PSOC_UPDATE,
    bs_open := True, bs_file := Some []\<rparr>)"
  have p1: "paso (Omnibus en_ok (prolog_msg ?n)) s = Some s1" by (simp add: paso_def prolog_runs s1_def)
  have f1: "bs_UpdateType s1 = PSOC_UPDATE" "bs_open s1" "bs_file s1 = Some []" by (simp_all add: s1_def notifyFw_def)
  obtain fw where p2: "sesion_run (map (\<lambda>p. FwData en_ok (block_msg p)) blocks) s1 =
      Some (s1\<lparr>bs_file := Some (concat blocks), bs_fwdata := fw\<rparr>)"
    using blocks_run [OF assms(1) f1] by auto
  define s2 where "s2 = s1\<lparr>bs_file := Some (concat blocks), bs_fwdata := fw\<rparr>"
  have f2: "bs_UpdateType s2 = PSOC_UPDATE" "bs_file s2 = Some (concat blocks)" "unat (bs_UpdatefileSize s2) = length (concat blocks)"
    "bs_authSuccess s2 = bs_authSuccess s" using n by (simp_all add: s2_def s1_def notifyFw_def)
  have "write_omnibus en_ok epilog_msg s2 = fw_epilog en_ok [0, 0, 0, 0] s2"
    by (simp add: write_omnibus_def epilog_msg_def fw_handles)
  then have "\<exists>t. paso (Omnibus en_ok epilog_msg) s2 = Some t \<and> bs_file t = Some (concat blocks) \<and>
      bs_mainFwUpdateActive t \<and> authorizedOK t \<and> bs_authSuccess t = bs_authSuccess s"
    using f2 by (simp add: paso_def fw_epilog_def Let_def authorizedOK_def notifyFw_def)
  then show ?thesis unfolding transfer_events_def sesion_run_append using p1 p2 by (auto simp: s2_def)
qed

theorem update_without_token_witness:
  "\<not> authorizedOK demo_sesion \<and> (\<exists>t. sesion_run (transfer_events [[1, 2, 3], [4]]) demo_sesion = Some t \<and> authorizedOK t)"
proof -
  have "\<not> authorizedOK demo_sesion" by (simp add: authorizedOK_def demo_sesion_def)
  moreover have "\<forall>p \<in> set [[1, 2, 3], [4 :: u8]]. length p \<le> 256" "length (concat [[1, 2, 3], [4 :: u8]]) < 2 ^ 32" by simp_all
  ultimately show ?thesis using update_without_token [of "[[1, 2, 3], [4]]" demo_sesion] by blast
qed

text \<open>A charger that is not initialised does not make a challenge: the expected answer is still eight zeros.\<close>

lemma uninitialised_zero_token:
  assumes "bs_inicializado s \<noteq> 2" "bs_reply s = replicate 8 0" "peer \<noteq> RaspberryTest" "peer \<noteq> RaspberryTest2"
  shows "\<exists>t. sesion_run [Conecta peer random now, Omnibus e ([rcs_idx_for_handle TOKEN, 0, 0, 0] @ replicate 8 0)] s = Some t \<and> authorizedOK t"
proof -
  have "rcs_handle_for_idx (rcs_idx_for_handle TOKEN) = TOKEN"
    by (simp add: rcs_handle_for_idx_def rcs_idx_for_handle_def rcs_consts table_idx_for_handle_def table_handle_for_idx_def)
  then show ?thesis using assms
    by (simp add: paso_def onConnect_def deviceConnectInd_def write_omnibus_def setAuthToken_def authorizedOK_def Let_def)
qed

end
