(* ===== verification/Flash.thy ===== *)
theory Flash
  imports Prelude
begin

text \<open>
  The SPI flash as the firmware sees it. The chip is the environment: its contents, and the outcome
  of each command it is given (a failing command, for example one cut by a power failure, leaves
  arbitrary bytes in the range it works on). On top of it, the write path of the driver
  (\<^verbatim>\<open>spi_flash/esp_flash_api.c\<close>) and the partition layer
  (\<^verbatim>\<open>spi_flash/partition.c\<close>): loading the table, searching it, and the range
  checks of reads, writes and erases. A call of \<^verbatim>\<open>abort()\<close> or a failed
  \<^verbatim>\<open>assert\<close> is the value \<open>None\<close>. Sizes and addresses are 32 bit: every
  addition of the source is \<open>add32\<close>, which wraps.
\<close>

section \<open>Errors and arithmetic\<close>

datatype esp_err = ESP_OK | ESP_FAIL | ESP_ERR_NO_MEM | ESP_ERR_INVALID_ARG
  | ESP_ERR_INVALID_STATE | ESP_ERR_INVALID_SIZE | ESP_ERR_NOT_FOUND | ESP_ERR_NOT_SUPPORTED
  | ESP_ERR_TIMEOUT | ESP_ERR_OTA_PARTITION_CONFLICT | ESP_ERR_OTA_VALIDATE_FAILED
  | ESP_ERR_OTA_ROLLBACK_FAILED

definition add32 :: "nat \<Rightarrow> nat \<Rightarrow> nat" where
  "add32 a b = (a + b) mod 2 ^ 32"

lemma add32_exact [simp]: "a + b < 4294967296 \<Longrightarrow> add32 a b = a + b"
  by (simp add: add32_def)

definition SPI_FLASH_SEC_SIZE :: nat where "SPI_FLASH_SEC_SIZE = 4096"

definition BLOCK_ERASE_SIZE :: nat where "BLOCK_ERASE_SIZE = 65536"

definition MAX_WRITE_CHUNK :: nat where "MAX_WRITE_CHUNK = 8192"

lemmas flash_consts = SPI_FLASH_SEC_SIZE_def BLOCK_ERASE_SIZE_def MAX_WRITE_CHUNK_def

section \<open>The chip\<close>

datatype cmd_outcome = Cmd_Done | Cmd_Fail "nat \<Rightarrow> u8"

record flash_chip =
  fl_mem :: "nat \<Rightarrow> u8"
  fl_size :: nat
  fl_cmds :: "cmd_outcome list"

definition fl_bytes :: "flash_chip \<Rightarrow> nat \<Rightarrow> nat \<Rightarrow> bytes" where
  "fl_bytes c a n = map (fl_mem c) [a..<a + n]"

text \<open>A command that completes maps the old byte at each address of its range to the new one.\<close>

definition chip_cmd :: "flash_chip \<Rightarrow> nat \<Rightarrow> nat \<Rightarrow> (nat \<Rightarrow> u8 \<Rightarrow> u8) \<Rightarrow> esp_err \<times> flash_chip" where
  "chip_cmd c a n f =
     (let range_upd = (\<lambda>g. \<lambda>x. if a \<le> x \<and> x < a + n then g x else fl_mem c x)
      in case fl_cmds c of
           Cmd_Fail g # r \<Rightarrow> (ESP_ERR_TIMEOUT, c\<lparr>fl_mem := range_upd g, fl_cmds := r\<rparr>)
         | _ \<Rightarrow> (ESP_OK, c\<lparr>fl_mem := range_upd (\<lambda>x. f x (fl_mem c x)), fl_cmds := tl (fl_cmds c)\<rparr>))"

text \<open>Erasing sets every bit; programming can only clear bits.\<close>

definition chip_erase :: "flash_chip \<Rightarrow> nat \<Rightarrow> nat \<Rightarrow> esp_err \<times> flash_chip" where
  "chip_erase c a n = chip_cmd c a n (\<lambda>_ _. 255)"

definition chip_program :: "flash_chip \<Rightarrow> nat \<Rightarrow> bytes \<Rightarrow> esp_err \<times> flash_chip" where
  "chip_program c a buf = chip_cmd c a (length buf) (\<lambda>x old. old AND buf ! (x - a))"

section \<open>The driver\<close>

function erase_loop :: "flash_chip \<Rightarrow> nat \<Rightarrow> nat \<Rightarrow> esp_err \<times> flash_chip" where
  "erase_loop c start len =
     (if SPI_FLASH_SEC_SIZE \<le> len then
        let n = (if BLOCK_ERASE_SIZE \<le> len \<and> start mod BLOCK_ERASE_SIZE = 0
                 then BLOCK_ERASE_SIZE else SPI_FLASH_SEC_SIZE)
        in case chip_erase c start n of
             (err, c') \<Rightarrow> if err = ESP_OK then erase_loop c' (start + n) (len - n) else (err, c')
      else (ESP_OK, c))"
  by pat_completeness auto
termination
  by (relation "measure (\<lambda>(c, start, len). len)") (auto simp: flash_consts split: if_splits)

declare erase_loop.simps [simp del]

text \<open>
  \<^verbatim>\<open>esp_flash_erase_region\<close>: \<open>prot\<close> is the operating system's check that the region
  may be changed (\<^verbatim>\<open>CHECK_WRITE_ADDRESS\<close>, which aborts in this configuration). The chip driver
  has sectors of 4 KiB and blocks of 64 KiB and no protectable regions.
\<close>

definition esp_flash_erase_region ::
  "(nat \<Rightarrow> nat \<Rightarrow> bool) \<Rightarrow> flash_chip \<Rightarrow> nat \<Rightarrow> nat \<Rightarrow> (esp_err \<times> flash_chip) option" where
  "esp_flash_erase_region prot c start len =
     (if prot start len then None
      else if fl_size c < start \<or> fl_size c < add32 start len then Some (ESP_ERR_INVALID_ARG, c)
      else if start mod SPI_FLASH_SEC_SIZE \<noteq> 0 \<or> len mod SPI_FLASH_SEC_SIZE \<noteq> 0
        then Some (ESP_ERR_INVALID_ARG, c)
      else Some (erase_loop c start len))"

text \<open>
  The chunks of a write: 8 KiB if the buffer can be used directly, otherwise the 32 bytes of the
  bounce buffer on the stack.
\<close>

definition write_chunk :: "bool \<Rightarrow> nat" where
  "write_chunk direct = (if direct then MAX_WRITE_CHUNK else 32)"

function write_loop :: "bool \<Rightarrow> flash_chip \<Rightarrow> bytes \<Rightarrow> nat \<Rightarrow> esp_err \<times> flash_chip" where
  "write_loop direct c buf address =
     (let n = min (length buf) (write_chunk direct)
      in case chip_program c address (take n buf) of
           (err, c') \<Rightarrow>
             if err = ESP_OK \<and> 0 < length buf - n
             then write_loop direct c' (drop n buf) (address + n)
             else (err, c'))"
  by pat_completeness auto
termination
  by (relation "measure (\<lambda>(d, c, buf, a). length buf)") (auto simp: write_chunk_def flash_consts)

declare write_loop.simps [simp del]

definition esp_flash_write ::
  "(nat \<Rightarrow> nat \<Rightarrow> bool) \<Rightarrow> bool \<Rightarrow> flash_chip \<Rightarrow> bytes \<Rightarrow> nat \<Rightarrow> (esp_err \<times> flash_chip) option" where
  "esp_flash_write prot direct c buf address =
     (if length buf = 0 then Some (ESP_OK, c)
      else if prot address (length buf) then None
      else if fl_size c < address \<or> fl_size c < add32 address (length buf)
        then Some (ESP_ERR_INVALID_ARG, c)
      else Some (write_loop direct c buf address))"

section \<open>Partitions\<close>

record esp_partition =
  flash_chip_id :: nat
  p_type :: nat
  p_subtype :: nat
  p_address :: nat
  p_size :: nat
  p_label :: "u8 list"
  p_encrypted :: bool

text \<open>
  The default chip is number 0. A pointer to an entry of the table is represented by the entry; two
  entries of one table are never equal (they occupy different flash ranges).
\<close>

definition ESP_PARTITION_TYPE_APP :: nat where "ESP_PARTITION_TYPE_APP = 0"
definition ESP_PARTITION_TYPE_DATA :: nat where "ESP_PARTITION_TYPE_DATA = 1"
definition ESP_PARTITION_SUBTYPE_APP_FACTORY :: nat where "ESP_PARTITION_SUBTYPE_APP_FACTORY = 0"
definition ESP_PARTITION_SUBTYPE_APP_OTA_MIN :: nat where "ESP_PARTITION_SUBTYPE_APP_OTA_MIN = 16"
definition ESP_PARTITION_SUBTYPE_APP_OTA_MAX :: nat where "ESP_PARTITION_SUBTYPE_APP_OTA_MAX = 32"
definition ESP_PARTITION_SUBTYPE_APP_TEST :: nat where "ESP_PARTITION_SUBTYPE_APP_TEST = 32"
definition ESP_PARTITION_SUBTYPE_DATA_OTA :: nat where "ESP_PARTITION_SUBTYPE_DATA_OTA = 0"
definition ESP_PARTITION_SUBTYPE_DATA_NVS_KEYS :: nat where "ESP_PARTITION_SUBTYPE_DATA_NVS_KEYS = 4"
definition ESP_PARTITION_SUBTYPE_ANY :: nat where "ESP_PARTITION_SUBTYPE_ANY = 255"
definition ESP_PARTITION_TABLE_OFFSET :: nat where "ESP_PARTITION_TABLE_OFFSET = 32768"
definition ESP_PARTITION_TABLE_MAX_LEN :: nat where "ESP_PARTITION_TABLE_MAX_LEN = 3072"
definition ESP_PARTITION_MAGIC :: u16 where "ESP_PARTITION_MAGIC = 0x50AA"

lemmas part_consts = ESP_PARTITION_TYPE_APP_def ESP_PARTITION_TYPE_DATA_def
  ESP_PARTITION_SUBTYPE_APP_FACTORY_def ESP_PARTITION_SUBTYPE_APP_OTA_MIN_def
  ESP_PARTITION_SUBTYPE_APP_OTA_MAX_def ESP_PARTITION_SUBTYPE_APP_TEST_def
  ESP_PARTITION_SUBTYPE_DATA_OTA_def ESP_PARTITION_SUBTYPE_DATA_NVS_KEYS_def
  ESP_PARTITION_SUBTYPE_ANY_def ESP_PARTITION_TABLE_OFFSET_def ESP_PARTITION_TABLE_MAX_LEN_def
  ESP_PARTITION_MAGIC_def

subsection \<open>Loading the table\<close>

text \<open>One entry in flash (\<^verbatim>\<open>esp_partition_info_t\<close>, 32 bytes).\<close>

record esp_partition_info =
  pi_magic :: u16
  pi_type :: u8
  pi_subtype :: u8
  pi_offset :: u32
  pi_size :: u32
  pi_label :: "u8 list"
  pi_flags :: u32

definition partition_info_of :: "bytes \<Rightarrow> esp_partition_info" where
  "partition_info_of b =
     \<lparr>pi_magic = join16 (b ! 0) (b ! 1), pi_type = b ! 2, pi_subtype = b ! 3,
      pi_offset = join32 (b ! 4) (b ! 5) (b ! 6) (b ! 7),
      pi_size = join32 (b ! 8) (b ! 9) (b ! 10) (b ! 11),
      pi_label = take 16 (drop 12 b),
      pi_flags = join32 (b ! 28) (b ! 29) (b ! 30) (b ! 31)\<rparr>"

text \<open>
  The list item made of an entry: \<open>enc\<close> is \<^verbatim>\<open>esp_flash_encryption_enabled()\<close>. The
  label is copied up to its first zero byte (16 bytes at most).
\<close>

definition partition_of_info :: "bool \<Rightarrow> esp_partition_info \<Rightarrow> esp_partition" where
  "partition_of_info enc i =
     \<lparr>flash_chip_id = 0, p_type = unat (pi_type i), p_subtype = unat (pi_subtype i),
      p_address = unat (pi_offset i), p_size = unat (pi_size i),
      p_label = takeWhile (\<lambda>b. b \<noteq> 0) (pi_label i),
      p_encrypted =
        (if \<not> enc then False
         else if unat (pi_type i) = ESP_PARTITION_TYPE_APP
           \<or> (unat (pi_type i) = ESP_PARTITION_TYPE_DATA
              \<and> unat (pi_subtype i) = ESP_PARTITION_SUBTYPE_DATA_OTA)
           \<or> (unat (pi_type i) = ESP_PARTITION_TYPE_DATA
              \<and> unat (pi_subtype i) = ESP_PARTITION_SUBTYPE_DATA_NVS_KEYS)
         then True else bit (pi_flags i) 0)\<rparr>"

text \<open>
  The loop over the entries of one sector stops at the first entry without the magic number, or
  with an error when an item cannot be allocated (\<open>calloc_ok\<close> says which allocations succeed).
  \<open>mmap_ok\<close> is whether \<^verbatim>\<open>spi_flash_mmap\<close> finds free pages for a physical region; the
  mapped memory shows the flash contents.
\<close>

fun load_entries ::
  "bool \<Rightarrow> (nat \<Rightarrow> bool) \<Rightarrow> flash_chip \<Rightarrow> nat \<Rightarrow> nat \<Rightarrow> esp_err \<times> esp_partition list" where
  "load_entries enc calloc_ok c a 0 = (ESP_OK, [])"
| "load_entries enc calloc_ok c a (Suc n) =
     (let i = partition_info_of (fl_bytes c a 32)
      in if pi_magic i \<noteq> ESP_PARTITION_MAGIC then (ESP_OK, [])
         else if \<not> calloc_ok a then (ESP_ERR_NO_MEM, [])
         else case load_entries enc calloc_ok c (a + 32) n of
                (err, ps) \<Rightarrow> (err, partition_of_info enc i # ps))"

definition load_partitions ::
  "bool \<Rightarrow> (nat \<Rightarrow> bool) \<Rightarrow> (nat \<Rightarrow> nat \<Rightarrow> bool) \<Rightarrow> flash_chip \<Rightarrow> esp_err \<times> esp_partition list" where
  "load_partitions enc calloc_ok mmap_ok c =
     (if \<not> mmap_ok (ESP_PARTITION_TABLE_OFFSET div 65536 * 65536) SPI_FLASH_SEC_SIZE
        then (ESP_ERR_NO_MEM, [])
      else load_entries enc calloc_ok c ESP_PARTITION_TABLE_OFFSET (SPI_FLASH_SEC_SIZE div 32))"

text \<open>The list is loaded at the first use; an empty list is loaded again.\<close>

definition ensure_partitions_loaded ::
  "bool \<Rightarrow> (nat \<Rightarrow> bool) \<Rightarrow> (nat \<Rightarrow> nat \<Rightarrow> bool) \<Rightarrow> flash_chip \<Rightarrow> esp_partition list
     \<Rightarrow> esp_err \<times> esp_partition list" where
  "ensure_partitions_loaded enc calloc_ok mmap_ok c plist =
     (if plist = [] then load_partitions enc calloc_ok mmap_ok c else (ESP_OK, plist))"

subsection \<open>Searching the table\<close>

definition part_matches :: "nat \<Rightarrow> nat \<Rightarrow> u8 list option \<Rightarrow> esp_partition \<Rightarrow> bool" where
  "part_matches type subtype label p \<longleftrightarrow>
     p_type p = type
     \<and> (subtype = ESP_PARTITION_SUBTYPE_ANY \<or> p_subtype p = subtype)
     \<and> (case label of None \<Rightarrow> True | Some l \<Rightarrow> l = p_label p)"

text \<open>
  An iterator is the remaining part of the list; \<^verbatim>\<open>esp_partition_next\<close> advances to the next
  match and returns it with the rest, or nothing at the end of the list.
\<close>

fun esp_partition_next ::
  "nat \<Rightarrow> nat \<Rightarrow> u8 list option \<Rightarrow> esp_partition list \<Rightarrow> (esp_partition \<times> esp_partition list) option" where
  "esp_partition_next type subtype label [] = None"
| "esp_partition_next type subtype label (p # ps) =
     (if part_matches type subtype label p then Some (p, ps)
      else esp_partition_next type subtype label ps)"

definition esp_partition_find ::
  "esp_partition list \<Rightarrow> nat \<Rightarrow> nat \<Rightarrow> u8 list option \<Rightarrow> (esp_partition \<times> esp_partition list) option" where
  "esp_partition_find plist type subtype label = esp_partition_next type subtype label plist"

definition esp_partition_find_first ::
  "esp_partition list \<Rightarrow> nat \<Rightarrow> nat \<Rightarrow> u8 list option \<Rightarrow> esp_partition option" where
  "esp_partition_find_first plist type subtype label =
     map_option fst (esp_partition_find plist type subtype label)"

text \<open>The loop of \<^verbatim>\<open>esp_partition_verify\<close> over the matches of an iterator.\<close>

fun verify_loop :: "u8 list option \<Rightarrow> esp_partition \<Rightarrow> esp_partition list \<Rightarrow> esp_partition option" where
  "verify_loop label q [] = None"
| "verify_loop label q (p # ps) =
     (if part_matches (p_type q) (p_subtype q) label p
         \<and> flash_chip_id p = flash_chip_id q \<and> p_address p = p_address q
         \<and> p_size q = p_size p \<and> p_encrypted q = p_encrypted p
      then Some p else verify_loop label q ps)"

definition esp_partition_verify :: "esp_partition list \<Rightarrow> esp_partition \<Rightarrow> esp_partition option" where
  "esp_partition_verify plist q =
     verify_loop (if p_label q \<noteq> [] then Some (p_label q) else None) q plist"

subsection \<open>Access to a partition\<close>

definition esp_partition_main_flash_region_safe :: "esp_partition \<Rightarrow> nat \<Rightarrow> nat \<Rightarrow> bool" where
  "esp_partition_main_flash_region_safe p addr sz =
     (if addr \<le> ESP_PARTITION_TABLE_OFFSET + ESP_PARTITION_TABLE_MAX_LEN then False
      else if p_address p \<le> addr \<and> addr < add32 (p_address p) (p_size p) then False
      else if addr < p_address p \<and> p_address p < add32 addr sz then False
      else True)"

text \<open>The check of the main flash chip (\<^verbatim>\<open>main_flash_region_protected\<close>).\<close>

definition main_flash_region_protected :: "esp_partition \<Rightarrow> nat \<Rightarrow> nat \<Rightarrow> bool" where
  "main_flash_region_protected running addr sz =
     (\<not> esp_partition_main_flash_region_safe running addr sz)"

definition esp_partition_write ::
  "(nat \<Rightarrow> nat \<Rightarrow> bool) \<Rightarrow> bool \<Rightarrow> flash_chip \<Rightarrow> esp_partition \<Rightarrow> nat \<Rightarrow> bytes
     \<Rightarrow> (esp_err \<times> flash_chip) option" where
  "esp_partition_write prot direct c p dst_offset src =
     (if p_size p < dst_offset then Some (ESP_ERR_INVALID_ARG, c)
      else if p_size p < add32 dst_offset (length src) then Some (ESP_ERR_INVALID_SIZE, c)
      else if \<not> p_encrypted p
        then esp_flash_write prot direct c src (add32 (p_address p) dst_offset)
      else Some (ESP_ERR_NOT_SUPPORTED, c))"

definition esp_partition_erase_range ::
  "(nat \<Rightarrow> nat \<Rightarrow> bool) \<Rightarrow> flash_chip \<Rightarrow> esp_partition \<Rightarrow> nat \<Rightarrow> nat
     \<Rightarrow> (esp_err \<times> flash_chip) option" where
  "esp_partition_erase_range prot c p offset sz =
     (if p_size p < offset then Some (ESP_ERR_INVALID_ARG, c)
      else if p_size p < add32 offset sz then Some (ESP_ERR_INVALID_SIZE, c)
      else if sz mod SPI_FLASH_SEC_SIZE \<noteq> 0 then Some (ESP_ERR_INVALID_SIZE, c)
      else if offset mod SPI_FLASH_SEC_SIZE \<noteq> 0 then Some (ESP_ERR_INVALID_ARG, c)
      else esp_flash_erase_region prot c (add32 (p_address p) offset) sz)"

text \<open>The pointer that a mapping returns is represented by the flash address it shows.\<close>

definition esp_partition_mmap ::
  "(nat \<Rightarrow> nat \<Rightarrow> bool) \<Rightarrow> esp_partition \<Rightarrow> nat \<Rightarrow> nat \<Rightarrow> esp_err + nat" where
  "esp_partition_mmap mmap_ok p offset sz =
     (if p_size p < offset then Inl ESP_ERR_INVALID_ARG
      else if p_size p < add32 offset sz then Inl ESP_ERR_INVALID_SIZE
      else if flash_chip_id p \<noteq> 0 then Inl ESP_ERR_NOT_SUPPORTED
      else
        let phys_addr = add32 (p_address p) offset;
            region_offset = phys_addr mod 65536;
            mmap_addr = phys_addr - region_offset
        in if mmap_ok mmap_addr (add32 sz region_offset) then Inr (mmap_addr + region_offset)
           else Inl ESP_ERR_NO_MEM)"


section \<open>What the driver does to the chip\<close>

named_theorems flash_simps "effect of flash commands on the chip"

lemma fl_bytes_simps [simp]:
  "length (fl_bytes c a n) = n" "i < n \<Longrightarrow> fl_bytes c a n ! i = fl_mem c (a + i)"
  by (simp_all add: fl_bytes_def)

lemma fl_bytes_eqI: "(\<And>i. i < n \<Longrightarrow> fl_mem c (a + i) = fl_mem c' (a + i)) \<Longrightarrow> fl_bytes c a n = fl_bytes c' a n"
  by (rule nth_equalityI) simp_all

text \<open>
  The effect of a (possibly failing) operation on a range: nothing outside the range changes, and
  if it succeeds the bytes inside are the function \<open>f\<close> of the old ones.
\<close>

definition range_effect :: "flash_chip \<Rightarrow> nat \<Rightarrow> nat \<Rightarrow> (nat \<Rightarrow> u8 \<Rightarrow> u8) \<Rightarrow> esp_err \<times> flash_chip \<Rightarrow> bool" where
  "range_effect c a n f r \<longleftrightarrow>
     fl_size (snd r) = fl_size c \<and>
     (\<forall>x. x < a \<or> a + n \<le> x \<longrightarrow> fl_mem (snd r) x = fl_mem c x) \<and>
     (fst r = ESP_OK \<longrightarrow> (\<forall>x. a \<le> x \<and> x < a + n \<longrightarrow> fl_mem (snd r) x = f x (fl_mem c x))) \<and>
     (fl_cmds c = [] \<longrightarrow> fst r = ESP_OK \<and> fl_cmds (snd r) = [])"

lemma range_effect_changed:
  assumes "range_effect c a n f (err, c')" "fl_mem c' x \<noteq> fl_mem c x"
  shows "a \<le> x \<and> x < a + n"
proof -
  from assms(1) have "x < a \<or> a + n \<le> x \<longrightarrow> fl_mem c' x = fl_mem c x"
    unfolding range_effect_def by simp
  with assms(2) show ?thesis by auto
qed

lemma chip_cmd_effect: "range_effect c a n f (chip_cmd c a n f)"
  by (auto simp: range_effect_def chip_cmd_def Let_def split: list.split cmd_outcome.split)

lemma range_effect_skip: "range_effect c a 0 f (ESP_OK, c)"
  by (auto simp: range_effect_def)

text \<open>Effects on neighbouring ranges compose; a failure of the first part ends the operation.\<close>

lemma range_effect_fail:
  assumes "range_effect c a n f (err, c')" "err \<noteq> ESP_OK" "n \<le> m"
  shows "range_effect c a m f (err, c')"
  using assms by (auto simp: range_effect_def)

lemma range_effect_compose:
  assumes "range_effect c a n f (ESP_OK, c')" and "range_effect c' (a + n) m f r"
  shows "range_effect c a (n + m) f r"
proof -
  have "fl_mem (snd r) x = f x (fl_mem c x)"
    if "fst r = ESP_OK" "a \<le> x" "x < a + (n + m)" for x
  proof (cases "x < a + n")
    case True
    with that assms show ?thesis by (auto simp: range_effect_def)
  next
    case False
    with that assms(2) have "fl_mem (snd r) x = f x (fl_mem c' x)" by (auto simp: range_effect_def)
    also have "fl_mem c' x = fl_mem c x" using False assms(1) by (auto simp: range_effect_def)
    finally show ?thesis .
  qed
  with assms show ?thesis by (auto simp: range_effect_def)
qed

lemma erase_loop_effect:
  assumes "len mod SPI_FLASH_SEC_SIZE = 0"
  shows "range_effect c start len (\<lambda>_ _. 255) (erase_loop c start len)"
  using assms
proof (induction c start len rule: erase_loop.induct)
  case (1 c start len)
  show ?case
  proof (cases "SPI_FLASH_SEC_SIZE \<le> len")
    case False
    with 1 have "len = 0" by (auto simp: flash_consts)
    then show ?thesis
      by (simp add: erase_loop.simps [of c start 0] range_effect_skip flash_consts)
  next
    case True
    define n where "n = (if BLOCK_ERASE_SIZE \<le> len \<and> start mod BLOCK_ERASE_SIZE = 0
      then BLOCK_ERASE_SIZE else SPI_FLASH_SEC_SIZE)"
    obtain err c' where e: "chip_erase c start n = (err, c')" by force
    have n: "n \<le> len" "n mod SPI_FLASH_SEC_SIZE = 0"
      using True by (auto simp: n_def flash_consts)
    have step: "range_effect c start n (\<lambda>_ _. 255) (err, c')"
      using chip_cmd_effect [of c start n "\<lambda>_ _. 255"] e by (simp add: chip_erase_def)
    show ?thesis
    proof (cases "err = ESP_OK")
      case False
      with True e n step show ?thesis
        by (simp add: erase_loop.simps [of c start len] n_def [symmetric] range_effect_fail)
    next
      case ok: True
      have "(len - n) mod SPI_FLASH_SEC_SIZE = 0"
        using "1.prems" n by (metis dvd_diff_nat mod_eq_0_iff_dvd)
      then have "range_effect c' (start + n) (len - n) (\<lambda>_ _. 255) (erase_loop c' (start + n) (len - n))"
        using "1.IH" [OF True n_def] e ok by simp
      from range_effect_compose [OF step [unfolded ok] this] n(1) True e ok show ?thesis
        by (simp add: erase_loop.simps [of c start len] n_def [symmetric])
    qed
  qed
qed

lemma write_loop_effect:
  "range_effect c a (length buf) (\<lambda>x old. old AND buf ! (x - a)) (write_loop direct c buf a)"
proof (induction direct c buf a rule: write_loop.induct)
  case (1 direct c buf a)
  define n where "n = min (length buf) (write_chunk direct)"
  let ?f = "\<lambda>x old. old AND buf ! (x - a)"
  obtain err c' where e: "chip_program c a (take n buf) = (err, c')" by force
  have n: "n \<le> length buf" by (simp add: n_def)
  have "range_effect c a n (\<lambda>x old. old AND take n buf ! (x - a)) (err, c')"
    using chip_cmd_effect [of c a n "\<lambda>x old. old AND take n buf ! (x - a)"] e n
    by (simp add: chip_program_def min_absorb2)
  then have step: "range_effect c a n ?f (err, c')"
    by (auto simp: range_effect_def)
  show ?case
  proof (cases "err = ESP_OK \<and> 0 < length buf - n")
    case False
    then have "err \<noteq> ESP_OK \<or> n = length buf" using n by auto
    with step have "range_effect c a (length buf) ?f (err, c')"
      using range_effect_fail [OF step _ n] by auto
    with False e show ?thesis
      by (auto simp: write_loop.simps [of direct c buf a] n_def [symmetric])
  next
    case True
    have shift: "drop n buf ! (x - (a + n)) = buf ! (x - a)" if "a + n \<le> x" for x
      using that n by simp
    have "range_effect c' (a + n) (length buf - n) (\<lambda>x old. old AND drop n buf ! (x - (a + n)))
        (write_loop direct c' (drop n buf) (a + n))"
      using "1.IH" [OF n_def e [symmetric]] True by simp
    then have "range_effect c' (a + n) (length buf - n) ?f
        (write_loop direct c' (drop n buf) (a + n))"
      using shift by (auto simp: range_effect_def)
    from range_effect_compose [OF _ this] step True n e show ?thesis
      by (simp add: write_loop.simps [of direct c buf a] n_def [symmetric])
  qed
qed


section \<open>Writes and erases stay inside their partition\<close>

text \<open>A partition that lies inside the 32 bit address space.\<close>

definition part_wf :: "esp_partition \<Rightarrow> bool" where
  "part_wf p \<longleftrightarrow> p_address p + p_size p < 2 ^ 32"

definition in_part :: "esp_partition \<Rightarrow> nat \<Rightarrow> bool" where
  "in_part p x \<longleftrightarrow> p_address p \<le> x \<and> x < p_address p + p_size p"

lemma flash_region_safe_disjoint:
  assumes "esp_partition_main_flash_region_safe run a n" "part_wf run" "a + n < 2 ^ 32"
    and "a \<le> x" "x < a + n"
  shows "\<not> in_part run x \<and> ESP_PARTITION_TABLE_OFFSET + ESP_PARTITION_TABLE_MAX_LEN < x"
  using assms by (auto simp: esp_partition_main_flash_region_safe_def part_wf_def in_part_def split: if_splits)

lemma esp_partition_write_cases:
  assumes "part_wf p" "off + length src < 2 ^ 32"
    and "esp_partition_write prot direct c p off src = Some (err, c')"
  shows "(c' = c \<and> (err = ESP_OK \<longrightarrow> src = []))
    \<or> (off + length src \<le> p_size p \<and> \<not> prot (p_address p + off) (length src)
       \<and> range_effect c (p_address p + off) (length src)
           (\<lambda>x old. old AND src ! (x - (p_address p + off))) (err, c'))"
  using assms write_loop_effect [of c "p_address p + off" src direct]
  by (auto simp: esp_partition_write_def esp_flash_write_def part_wf_def split: if_splits)

lemma esp_partition_erase_cases:
  assumes "part_wf p" "off + n < 2 ^ 32"
    and "esp_partition_erase_range prot c p off n = Some (err, c')"
  shows "(c' = c \<and> err \<noteq> ESP_OK)
    \<or> (off + n \<le> p_size p \<and> \<not> prot (p_address p + off) n
       \<and> range_effect c (p_address p + off) n (\<lambda>_ _. 255) (err, c'))"
  using assms erase_loop_effect [of n c "p_address p + off"]
  by (auto simp: esp_partition_erase_range_def esp_flash_erase_region_def part_wf_def split: if_splits)

text \<open>Sufficient conditions for the two operations to reach the chip.\<close>

lemma esp_partition_write_reaches:
  assumes "part_wf p" "\<not> p_encrypted p" "off + length src \<le> p_size p" "src \<noteq> []"
    and "\<not> prot (p_address p + off) (length src)" "p_address p + p_size p \<le> fl_size c"
  shows "esp_partition_write prot direct c p off src = Some (write_loop direct c src (p_address p + off))"
  using assms by (auto simp: esp_partition_write_def esp_flash_write_def part_wf_def)

lemma esp_partition_erase_reaches:
  assumes "part_wf p" "off + n \<le> p_size p" "off mod SPI_FLASH_SEC_SIZE = 0"
    and "n mod SPI_FLASH_SEC_SIZE = 0" "p_address p mod SPI_FLASH_SEC_SIZE = 0"
    and "\<not> prot (p_address p + off) n" "p_address p + p_size p \<le> fl_size c"
  shows "esp_partition_erase_range prot c p off n = Some (erase_loop c (p_address p + off) n)"
proof -
  have "(p_address p + off) mod SPI_FLASH_SEC_SIZE = 0"
    using assms(3,5) by (simp add: mod_add_eq [symmetric])
  then show ?thesis
    using assms by (auto simp: esp_partition_erase_range_def esp_flash_erase_region_def part_wf_def)
qed

text \<open>
  C4: a write or an erase of a partition that returns changes only bytes of the addressed range,
  the range lies inside the partition, and no byte of the bootloader, of the partition table or of
  the running application is changed, whatever outcome the chip reports.
\<close>

theorem partition_access_confined:
  assumes "part_wf p" "part_wf running" "off + length src < 2 ^ 32" "off + n < 2 ^ 32"
  shows "(esp_partition_write (main_flash_region_protected running) direct c p off src = Some (err, c')
      \<and> fl_mem c' x \<noteq> fl_mem c x \<longrightarrow>
        in_part p x \<and> p_address p + off \<le> x \<and> x < p_address p + off + length src \<and>
        \<not> in_part running x \<and> ESP_PARTITION_TABLE_OFFSET + ESP_PARTITION_TABLE_MAX_LEN < x)
    \<and> (esp_partition_erase_range (main_flash_region_protected running) c p off n = Some (err, c')
      \<and> fl_mem c' x \<noteq> fl_mem c x \<longrightarrow>
        in_part p x \<and> p_address p + off \<le> x \<and> x < p_address p + off + n \<and>
        \<not> in_part running x \<and> ESP_PARTITION_TABLE_OFFSET + ESP_PARTITION_TABLE_MAX_LEN < x)"
proof -
  have key: "in_part p x \<and> p_address p + off \<le> x \<and> x < p_address p + off + m \<and>
      \<not> in_part running x \<and> ESP_PARTITION_TABLE_OFFSET + ESP_PARTITION_TABLE_MAX_LEN < x"
    if "off + m \<le> p_size p" "\<not> main_flash_region_protected running (p_address p + off) m"
      "range_effect c (p_address p + off) m f (err, c')" "fl_mem c' x \<noteq> fl_mem c x" for m f
  proof -
    have x: "p_address p + off \<le> x" "x < p_address p + off + m"
      using range_effect_changed [OF that(3,4)] by auto
    moreover have "p_address p + off + m < 2 ^ 32"
      using that(1) assms(1) by (simp add: part_wf_def)
    ultimately show ?thesis
      using flash_region_safe_disjoint [OF _ assms(2), of "p_address p + off" m x] that(1,2)
      by (auto simp: main_flash_region_protected_def in_part_def)
  qed
  show ?thesis
    using esp_partition_write_cases [OF assms(1,3)] esp_partition_erase_cases [OF assms(1,4)] key
    by blast
qed

definition demo_otadata :: esp_partition where
  "demo_otadata = \<lparr>flash_chip_id = 0, p_type = 1, p_subtype = 0, p_address = 57344, p_size = 8192,
     p_label = [], p_encrypted = False\<rparr>"

definition demo_app0 :: esp_partition where
  "demo_app0 = \<lparr>flash_chip_id = 0, p_type = 0, p_subtype = 16, p_address = 65536, p_size = 2097152,
     p_label = [], p_encrypted = False\<rparr>"

definition demo_app1 :: esp_partition where
  "demo_app1 = \<lparr>flash_chip_id = 0, p_type = 0, p_subtype = 17, p_address = 2162688, p_size = 2097152,
     p_label = [], p_encrypted = False\<rparr>"

definition demo_chip :: flash_chip where
  "demo_chip = \<lparr>fl_mem = (\<lambda>_. 255), fl_size = 8388608, fl_cmds = []\<rparr>"

lemmas demo_defs = demo_otadata_def demo_app0_def demo_app1_def demo_chip_def

theorem partition_access_confined_witness:
  "\<exists>c'. esp_partition_write (main_flash_region_protected demo_app0) True demo_chip demo_app1 0 [233] =
      Some (ESP_OK, c') \<and> fl_mem c' 2162688 = 233 \<and> \<not> in_part demo_app0 2162688"
proof -
  have wf: "part_wf demo_app1" "part_wf demo_app0" by (simp_all add: part_wf_def demo_defs)
  let ?prot = "main_flash_region_protected demo_app0"
  have np: "\<not> ?prot (p_address demo_app1 + 0) (length [233 :: u8])"
    by (simp add: main_flash_region_protected_def esp_partition_main_flash_region_safe_def demo_defs part_consts)
  obtain err c' where r: "write_loop True demo_chip [233] 2162688 = (err, c')" by force
  have eff: "range_effect demo_chip 2162688 1 (\<lambda>x old. old AND [233] ! (x - 2162688)) (err, c')"
    using write_loop_effect [of demo_chip 2162688 "[233]" True] r by simp
  then have "err = ESP_OK" and m: "fl_mem c' 2162688 = 233"
    by (auto simp: range_effect_def demo_chip_def)
  with r esp_partition_write_reaches [of demo_app1 0 "[233]" ?prot demo_chip True] wf(1) np have
    w: "esp_partition_write ?prot True demo_chip demo_app1 0 [233] = Some (ESP_OK, c')"
    by (simp add: demo_defs)
  moreover have "\<not> in_part demo_app0 2162688"
    using partition_access_confined [OF wf, of 0 "[233]" 0 True demo_chip ESP_OK c' 2162688] w m
    by (simp add: demo_chip_def)
  ultimately show ?thesis using m by blast
qed

end
