(* ===== verification/Ota_Data.thy ===== *)
theory Ota_Data
  imports Flash
begin

text \<open>
  The OTA selection data (\<^verbatim>\<open>bootloader_support/src/bootloader_common.c\<close> and
  \<^verbatim>\<open>esp_flash_partitions.h\<close>): two 32 byte entries, one per flash sector, each with a sequence
  number, a state and a checksum of the sequence number. The active entry is the valid one with the
  larger sequence number. The checksum routine \<^verbatim>\<open>crc32_le\<close> lives in the chip's ROM and is a
  parameter.
\<close>

section \<open>Entries\<close>

record esp_ota_select_entry =
  ota_seq :: u32
  seq_label :: bytes
  ota_state :: u32
  ota_crc :: u32

definition UINT32_MAX :: u32 where "UINT32_MAX = 0xFFFFFFFF"
definition ESP_OTA_IMG_NEW :: u32 where "ESP_OTA_IMG_NEW = 0"
definition ESP_OTA_IMG_PENDING_VERIFY :: u32 where "ESP_OTA_IMG_PENDING_VERIFY = 1"
definition ESP_OTA_IMG_VALID :: u32 where "ESP_OTA_IMG_VALID = 2"
definition ESP_OTA_IMG_INVALID :: u32 where "ESP_OTA_IMG_INVALID = 3"
definition ESP_OTA_IMG_ABORTED :: u32 where "ESP_OTA_IMG_ABORTED = 4"
definition ESP_OTA_IMG_UNDEFINED :: u32 where "ESP_OTA_IMG_UNDEFINED = 0xFFFFFFFF"

lemmas ota_state_defs = UINT32_MAX_def ESP_OTA_IMG_NEW_def ESP_OTA_IMG_PENDING_VERIFY_def
  ESP_OTA_IMG_VALID_def ESP_OTA_IMG_INVALID_def ESP_OTA_IMG_ABORTED_def ESP_OTA_IMG_UNDEFINED_def

text \<open>The layout of an entry in flash, in both directions.\<close>

definition entry_of_bytes :: "bytes \<Rightarrow> esp_ota_select_entry" where
  "entry_of_bytes b =
     \<lparr>ota_seq = join32 (b ! 0) (b ! 1) (b ! 2) (b ! 3), seq_label = take 20 (drop 4 b),
      ota_state = join32 (b ! 24) (b ! 25) (b ! 26) (b ! 27),
      ota_crc = join32 (b ! 28) (b ! 29) (b ! 30) (b ! 31)\<rparr>"

definition bytes_of_entry :: "esp_ota_select_entry \<Rightarrow> bytes" where
  "bytes_of_entry e = le32 (ota_seq e) @ seq_label e @ le32 (ota_state e) @ le32 (ota_crc e)"

definition entry_wf :: "esp_ota_select_entry \<Rightarrow> bool" where
  "entry_wf e \<longleftrightarrow> length (seq_label e) = 20"

section \<open>Validity and selection\<close>

definition bootloader_common_ota_select_crc ::
  "(u32 \<Rightarrow> bytes \<Rightarrow> u32) \<Rightarrow> esp_ota_select_entry \<Rightarrow> u32" where
  "bootloader_common_ota_select_crc crc32_le s = crc32_le UINT32_MAX (le32 (ota_seq s))"

definition bootloader_common_ota_select_invalid :: "esp_ota_select_entry \<Rightarrow> bool" where
  "bootloader_common_ota_select_invalid s \<longleftrightarrow>
     ota_seq s = UINT32_MAX \<or> ota_state s = ESP_OTA_IMG_INVALID \<or> ota_state s = ESP_OTA_IMG_ABORTED"

definition bootloader_common_ota_select_valid ::
  "(u32 \<Rightarrow> bytes \<Rightarrow> u32) \<Rightarrow> esp_ota_select_entry \<Rightarrow> bool" where
  "bootloader_common_ota_select_valid crc32_le s \<longleftrightarrow>
     \<not> bootloader_common_ota_select_invalid s \<and> ota_crc s = bootloader_common_ota_select_crc crc32_le s"

text \<open>
  The two arrays of the source are lists of length two; a null pointer is \<open>None\<close>. The result is
  the index of an entry, or -1.
\<close>

definition bootloader_common_select_otadata ::
  "esp_ota_select_entry list option \<Rightarrow> bool list option \<Rightarrow> bool \<Rightarrow> int" where
  "bootloader_common_select_otadata two_otadata valid_two_otadata mx =
     (case (two_otadata, valid_two_otadata) of
        (Some d, Some v) \<Rightarrow>
          if v ! 0 \<and> v ! 1 then
            let condition = (if mx then max (ota_seq (d ! 0)) (ota_seq (d ! 1))
                             else min (ota_seq (d ! 0)) (ota_seq (d ! 1)))
            in if condition = ota_seq (d ! 0) then 0 else 1
          else if v ! 0 then 0
          else if v ! 1 then 1
          else -1
      | _ \<Rightarrow> -1)"

definition bootloader_common_get_active_otadata ::
  "(u32 \<Rightarrow> bytes \<Rightarrow> u32) \<Rightarrow> esp_ota_select_entry list option \<Rightarrow> int" where
  "bootloader_common_get_active_otadata crc32_le two_otadata =
     (case two_otadata of
        None \<Rightarrow> -1
      | Some d \<Rightarrow> bootloader_common_select_otadata two_otadata
          (Some [bootloader_common_ota_select_valid crc32_le (d ! 0),
                 bootloader_common_ota_select_valid crc32_le (d ! 1)]) True)"

section \<open>Lemmas\<close>

lemma length_bytes_of_entry [simp]: "entry_wf e \<Longrightarrow> length (bytes_of_entry e) = 32"
  by (simp add: bytes_of_entry_def entry_wf_def)

lemma entry_wf_entry_of_bytes [simp]: "24 \<le> length b \<Longrightarrow> entry_wf (entry_of_bytes b)"
  by (simp add: entry_wf_def entry_of_bytes_def)

lemma entry_roundtrip [codec_simps]: "entry_wf e \<Longrightarrow> entry_of_bytes (bytes_of_entry e) = e"
proof -
  assume wf: "entry_wf e"
  let ?b = "bytes_of_entry e"
  have low: "?b ! i = le32 (ota_seq e) ! i" if "i < 4" for i
    using that by (simp add: bytes_of_entry_def nth_append)
  have st: "?b ! (24 + i) = le32 (ota_state e) ! i" if "i < 4" for i
    using that wf by (simp add: bytes_of_entry_def nth_append entry_wf_def)
  have cr: "?b ! (28 + i) = le32 (ota_crc e) ! i" if "i < 4" for i
    using that wf by (simp add: bytes_of_entry_def nth_append entry_wf_def)
  have lab: "take 20 (drop 4 ?b) = seq_label e"
    using wf by (simp add: bytes_of_entry_def entry_wf_def)
  have "join32 (?b ! 0) (?b ! 1) (?b ! 2) (?b ! 3) = ota_seq e"
    using low [of 0] low [of 1] low [of 2] low [of 3] join32_le32 [of "ota_seq e"]
    by (simp add: le32_def numeral_2_eq_2 numeral_3_eq_3)
  moreover have "join32 (?b ! 24) (?b ! 25) (?b ! 26) (?b ! 27) = ota_state e"
    using st [of 0] st [of 1] st [of 2] st [of 3] join32_le32 [of "ota_state e"]
    by (simp add: le32_def numeral_2_eq_2 numeral_3_eq_3)
  moreover have "join32 (?b ! 28) (?b ! 29) (?b ! 30) (?b ! 31) = ota_crc e"
    using cr [of 0] cr [of 1] cr [of 2] cr [of 3] join32_le32 [of "ota_crc e"]
    by (simp add: le32_def numeral_2_eq_2 numeral_3_eq_3)
  ultimately show ?thesis using lab by (simp add: entry_of_bytes_def)
qed

text \<open>An erased sector (all bits set) never holds a valid entry.\<close>

lemma join32_erased: "join32 255 255 255 255 = UINT32_MAX"
  by (simp add: join32_def UINT32_MAX_def)

lemma erased_entry_invalid: "bootloader_common_ota_select_invalid (entry_of_bytes (replicate 32 255))"
  by (simp add: bootloader_common_ota_select_invalid_def entry_of_bytes_def join32_erased)

lemma select_otadata_cases:
  "bootloader_common_select_otadata (Some [a, b]) (Some [va, vb]) True =
     (if va \<and> (vb \<longrightarrow> ota_seq b \<le> ota_seq a) then 0 else if vb then 1 else -1)"
  by (auto simp: bootloader_common_select_otadata_def max_def)

lemma get_active_cases:
  "bootloader_common_get_active_otadata crc (Some [a, b]) =
     (if bootloader_common_ota_select_valid crc a
         \<and> (bootloader_common_ota_select_valid crc b \<longrightarrow> ota_seq b \<le> ota_seq a) then 0
      else if bootloader_common_ota_select_valid crc b then 1 else -1)"
  by (simp add: bootloader_common_get_active_otadata_def select_otadata_cases)

lemma active_otadata_spec:
  assumes "length d = 2" and "i = bootloader_common_get_active_otadata crc (Some d)"
  shows "(i = -1 \<longleftrightarrow> (\<forall>e \<in> set d. \<not> bootloader_common_ota_select_valid crc e)) \<and>
    (i \<noteq> -1 \<longrightarrow> i \<in> {0, 1} \<and> bootloader_common_ota_select_valid crc (d ! nat i) \<and>
      (\<forall>e \<in> set d. bootloader_common_ota_select_valid crc e \<longrightarrow> ota_seq e \<le> ota_seq (d ! nat i)))"
proof -
  obtain a b where d: "d = [a, b]"
    using assms(1) by (auto simp: length_Suc_conv eval_nat_numeral)
  show ?thesis using assms(2) by (auto simp: d get_active_cases)
qed

text \<open>
  C5: the selection of the active OTA entry. The result is -1 exactly when neither entry is valid;
  otherwise it is the index of a valid entry and no valid entry has a larger sequence number.
\<close>

theorem active_otadata_correct:
  assumes "length d = 2" and "i = bootloader_common_get_active_otadata crc (Some d)"
  shows "(i = -1 \<longleftrightarrow> (\<forall>e \<in> set d. \<not> bootloader_common_ota_select_valid crc e)) \<and>
    (i \<noteq> -1 \<longrightarrow> i \<in> {0, 1} \<and> bootloader_common_ota_select_valid crc (d ! nat i) \<and>
      (\<forall>e \<in> set d. bootloader_common_ota_select_valid crc e \<longrightarrow> ota_seq e \<le> ota_seq (d ! nat i)))"
  using active_otadata_spec [OF assms] .

definition demo_entry :: "u32 \<Rightarrow> esp_ota_select_entry" where
  "demo_entry n = \<lparr>ota_seq = n, seq_label = replicate 20 255, ota_state = ESP_OTA_IMG_UNDEFINED, ota_crc = n + 1\<rparr>"

definition demo_crc :: "u32 \<Rightarrow> bytes \<Rightarrow> u32" where
  "demo_crc s b = join32 (b ! 0) (b ! 1) (b ! 2) (b ! 3) + 1"

lemma demo_crc_le32 [simp]: "demo_crc s (le32 n) = n + 1"
  by (simp add: demo_crc_def le32_def join32_le32 numeral_2_eq_2 numeral_3_eq_3)

theorem active_otadata_correct_witness:
  "bootloader_common_get_active_otadata demo_crc (Some [demo_entry 4, demo_entry 5]) \<noteq> -1"
proof -
  have "bootloader_common_ota_select_valid demo_crc (demo_entry 5)"
    by (simp add: bootloader_common_ota_select_valid_def bootloader_common_ota_select_invalid_def
        bootloader_common_ota_select_crc_def demo_entry_def ota_state_defs)
  with active_otadata_correct [of "[demo_entry 4, demo_entry 5]", OF _ refl, of demo_crc]
  show ?thesis by auto
qed

end
