(* ===== verification/Ota_Ops.thy ===== *)
theory Ota_Ops
  imports Ota_Data
begin

text \<open>
  The firmware side of over-the-air updates (\<^verbatim>\<open>app_update/esp_ota_ops.c\<close>): writing a
  new image to the passive slot, choosing the part of the next boot by rewriting one of the two
  OTA entries, and the rollback operations. A run that ends in \<^verbatim>\<open>abort()\<close> or in a
  failed assertion is \<open>None\<close>. The configuration is that of the product's
  \<^verbatim>\<open>sdkconfig\<close>: no application rollback monitoring and no anti-rollback.
\<close>

section \<open>State and environment\<close>

record ota_ops_entry =
  oe_handle :: u32
  oe_part :: esp_partition
  oe_erased_size :: nat
  oe_wrote_size :: nat
  oe_partial_bytes :: nat
  oe_partial_data :: bytes

record ota_sys =
  os_chip :: flash_chip
  os_parts :: "esp_partition list"
  os_entries :: "ota_ops_entry list"
  os_last_handle :: u32

text \<open>
  What the code takes from outside: the checksum routine of the ROM, the image verification of the
  bootloader support library, whether flash pages can be mapped, whether a data buffer can be
  written directly, the physical address of the running code, whether the flash encryption fuse is
  burnt, and whether the heap gives a list item.
\<close>

record ota_env =
  crc32_le :: "u32 \<Rightarrow> bytes \<Rightarrow> u32"
  image_verify :: "flash_chip \<Rightarrow> nat \<Rightarrow> nat \<Rightarrow> bool"
  mmap_ok :: "nat \<Rightarrow> nat \<Rightarrow> bool"
  direct_write :: bool
  phys_offs :: nat
  flash_enc :: bool
  calloc_ok :: bool

section \<open>Partitions\<close>

definition is_ota_partition :: "esp_partition option \<Rightarrow> bool" where
  "is_ota_partition po \<longleftrightarrow>
     (case po of None \<Rightarrow> False
      | Some p \<Rightarrow> p_type p = ESP_PARTITION_TYPE_APP
          \<and> ESP_PARTITION_SUBTYPE_APP_OTA_MIN \<le> p_subtype p
          \<and> p_subtype p < ESP_PARTITION_SUBTYPE_APP_OTA_MAX)"

text \<open>
  The running partition encloses the physical address of the code. (The result is cached in a static
  variable by the source; the table does not change while the firmware runs.)
\<close>

fun running_loop :: "nat \<Rightarrow> esp_partition list \<Rightarrow> esp_partition option" where
  "running_loop phys [] = None"
| "running_loop phys (p # ps) =
     (if part_matches ESP_PARTITION_TYPE_APP ESP_PARTITION_SUBTYPE_ANY None p
         \<and> p_address p \<le> phys \<and> phys < add32 (p_address p) (p_size p)
      then Some p else running_loop phys ps)"

definition esp_ota_get_running_partition :: "ota_env \<Rightarrow> ota_sys \<Rightarrow> esp_partition option" where
  "esp_ota_get_running_partition env s = running_loop (phys_offs env) (os_parts s)"

text \<open>The write check of the main flash; it aborts if there is no running partition.\<close>

definition os_prot :: "ota_env \<Rightarrow> ota_sys \<Rightarrow> nat \<Rightarrow> nat \<Rightarrow> bool" where
  "os_prot env s a n =
     (case esp_ota_get_running_partition env s of
        None \<Rightarrow> True
      | Some p \<Rightarrow> main_flash_region_protected p a n)"

definition part_write ::
  "ota_env \<Rightarrow> ota_sys \<Rightarrow> esp_partition \<Rightarrow> nat \<Rightarrow> bytes \<Rightarrow> (esp_err \<times> ota_sys) option" where
  "part_write env s p off data =
     map_option (\<lambda>(err, c). (err, s\<lparr>os_chip := c\<rparr>))
       (esp_partition_write (os_prot env s) (direct_write env) (os_chip s) p off data)"

definition part_erase ::
  "ota_env \<Rightarrow> ota_sys \<Rightarrow> esp_partition \<Rightarrow> nat \<Rightarrow> nat \<Rightarrow> (esp_err \<times> ota_sys) option" where
  "part_erase env s p off n =
     map_option (\<lambda>(err, c). (err, s\<lparr>os_chip := c\<rparr>))
       (esp_partition_erase_range (os_prot env s) (os_chip s) p off n)"

definition find_first :: "ota_sys \<Rightarrow> nat \<Rightarrow> nat \<Rightarrow> esp_partition option" where
  "find_first s type subtype = esp_partition_find_first (os_parts s) type subtype None"

section \<open>The OTA data\<close>

definition otadata_at :: "flash_chip \<Rightarrow> nat \<Rightarrow> esp_ota_select_entry list" where
  "otadata_at c a =
     [entry_of_bytes (fl_bytes c a 32), entry_of_bytes (fl_bytes c (a + SPI_FLASH_SEC_SIZE) 32)]"

definition read_otadata ::
  "ota_env \<Rightarrow> ota_sys \<Rightarrow> (esp_partition \<times> esp_ota_select_entry list) option" where
  "read_otadata env s =
     (case find_first s ESP_PARTITION_TYPE_DATA ESP_PARTITION_SUBTYPE_DATA_OTA of
        None \<Rightarrow> None
      | Some p \<Rightarrow>
          (case esp_partition_mmap (mmap_ok env) p 0 (p_size p) of
             Inl err \<Rightarrow> None
           | Inr a \<Rightarrow> Some (p, otadata_at (os_chip s) a)))"

definition image_validate :: "ota_env \<Rightarrow> ota_sys \<Rightarrow> esp_partition \<Rightarrow> esp_err" where
  "image_validate env s p =
     (if \<not> image_verify env (os_chip s) (p_address p) (p_size p)
      then ESP_ERR_OTA_VALIDATE_FAILED else ESP_OK)"

definition set_new_state_otadata :: u32 where
  "set_new_state_otadata = ESP_OTA_IMG_UNDEFINED"

text \<open>The entry is updated in the array, then its sector is erased and written.\<close>

definition rewrite_ota_seq ::
  "ota_env \<Rightarrow> ota_sys \<Rightarrow> esp_ota_select_entry list \<Rightarrow> u32 \<Rightarrow> nat \<Rightarrow> esp_partition
     \<Rightarrow> (esp_err \<times> ota_sys) option" where
  "rewrite_ota_seq env s two_otadata seq sec_id ota_data_partition =
     (if 1 < sec_id then Some (ESP_ERR_INVALID_ARG, s)
      else
        let e1 = (two_otadata ! sec_id)\<lparr>ota_seq := seq\<rparr>;
            e2 = e1\<lparr>ota_crc := bootloader_common_ota_select_crc (crc32_le env) e1\<rparr>
        in case part_erase env s ota_data_partition (sec_id * SPI_FLASH_SEC_SIZE) SPI_FLASH_SEC_SIZE of
             None \<Rightarrow> None
           | Some (ret, s1) \<Rightarrow>
               if ret \<noteq> ESP_OK then Some (ret, s1)
               else part_write env s1 ota_data_partition (SPI_FLASH_SEC_SIZE * sec_id) (bytes_of_entry e2))"

text \<open>The number of OTA slots; the assertion fails if a 17th partition matches.\<close>

function ota_count_loop :: "ota_sys \<Rightarrow> nat \<Rightarrow> nat option" where
  "ota_count_loop s n =
     (case find_first s ESP_PARTITION_TYPE_APP (ESP_PARTITION_SUBTYPE_APP_OTA_MIN + n) of
        None \<Rightarrow> Some n
      | Some _ \<Rightarrow> if n < 16 then ota_count_loop s (n + 1) else None)"
  by pat_completeness auto
termination
  by (relation "measure (\<lambda>(s, n). 17 - n)") auto

declare ota_count_loop.simps [simp del]

definition get_ota_partition_count :: "ota_sys \<Rightarrow> nat option" where
  "get_ota_partition_count s = ota_count_loop s 0"

definition SUB_TYPE_ID :: "nat \<Rightarrow> nat" where
  "SUB_TYPE_ID i = i mod 16"

text \<open>
  The search of the next sequence number of a slot, with the 32 bit arithmetic of the source: the
  loop ends at the first \<open>i\<close> for which \<open>seq\<close> is not greater than \<open>base + i * count\<close>.
\<close>

partial_function (option) next_seq_loop :: "u32 \<Rightarrow> u32 \<Rightarrow> u32 \<Rightarrow> u32 \<Rightarrow> u32 option" where
  "next_seq_loop seq base count i =
     (if base + i * count < seq then next_seq_loop seq base count (i + 1) else Some i)"

definition esp_rewrite_ota_data :: "ota_env \<Rightarrow> ota_sys \<Rightarrow> nat \<Rightarrow> (esp_err \<times> ota_sys) option" where
  "esp_rewrite_ota_data env s subtype =
     (case read_otadata env s of
        None \<Rightarrow> Some (ESP_ERR_NOT_FOUND, s)
      | Some (otadata_partition, otadata) \<Rightarrow>
          (case get_ota_partition_count s of
             None \<Rightarrow> None
           | Some ota_app_count \<Rightarrow>
               if ota_app_count \<le> SUB_TYPE_ID subtype then Some (ESP_ERR_INVALID_ARG, s)
               else
                 let active_otadata = bootloader_common_get_active_otadata (crc32_le env) (Some otadata)
                 in if active_otadata \<noteq> -1 then
                      let seq = ota_seq (otadata ! nat active_otadata);
                          base = of_nat ((SUB_TYPE_ID subtype + 1) mod ota_app_count);
                          next_otadata = 1 - nat active_otadata
                      in case next_seq_loop seq base (of_nat ota_app_count) 0 of
                           None \<Rightarrow> None
                         | Some i \<Rightarrow>
                             rewrite_ota_seq env s
                               (otadata[next_otadata := (otadata ! next_otadata)
                                  \<lparr>ota_state := set_new_state_otadata\<rparr>])
                               (base + i * of_nat ota_app_count) next_otadata otadata_partition
                    else
                      rewrite_ota_seq env s
                        (otadata[0 := (otadata ! 0)\<lparr>ota_state := set_new_state_otadata\<rparr>])
                        (of_nat (SUB_TYPE_ID subtype + 1)) 0 otadata_partition))"

definition esp_ota_set_boot_partition ::
  "ota_env \<Rightarrow> ota_sys \<Rightarrow> esp_partition option \<Rightarrow> (esp_err \<times> ota_sys) option" where
  "esp_ota_set_boot_partition env s part =
     (case part of
        None \<Rightarrow> Some (ESP_ERR_INVALID_ARG, s)
      | Some p \<Rightarrow>
          if image_validate env s p \<noteq> ESP_OK then Some (ESP_ERR_OTA_VALIDATE_FAILED, s)
          else if p_type p = ESP_PARTITION_TYPE_APP then
            if p_subtype p = ESP_PARTITION_SUBTYPE_APP_FACTORY then
              (case find_first s ESP_PARTITION_TYPE_DATA ESP_PARTITION_SUBTYPE_DATA_OTA of
                 Some q \<Rightarrow> part_erase env s q 0 (p_size q)
               | None \<Rightarrow> Some (ESP_ERR_NOT_FOUND, s))
            else esp_rewrite_ota_data env s (p_subtype p)
          else Some (ESP_ERR_INVALID_ARG, s))"

fun first_ota_from :: "ota_sys \<Rightarrow> nat \<Rightarrow> nat \<Rightarrow> esp_partition option" where
  "first_ota_from s t 0 = None"
| "first_ota_from s t (Suc n) =
     (case find_first s ESP_PARTITION_TYPE_APP t of
        Some p \<Rightarrow> Some p
      | None \<Rightarrow> first_ota_from s (t + 1) n)"

definition find_default_boot_partition :: "ota_sys \<Rightarrow> esp_partition option" where
  "find_default_boot_partition s =
     (case find_first s ESP_PARTITION_TYPE_APP ESP_PARTITION_SUBTYPE_APP_FACTORY of
        Some p \<Rightarrow> Some p
      | None \<Rightarrow>
          (case first_ota_from s ESP_PARTITION_SUBTYPE_APP_OTA_MIN
                  (ESP_PARTITION_SUBTYPE_APP_OTA_MAX - ESP_PARTITION_SUBTYPE_APP_OTA_MIN) of
             Some p \<Rightarrow> Some p
           | None \<Rightarrow> find_first s ESP_PARTITION_TYPE_APP ESP_PARTITION_SUBTYPE_APP_TEST))"

text \<open>The slot of a sequence number: unsigned arithmetic modulo the number of slots.\<close>

definition seq_slot :: "u32 \<Rightarrow> nat \<Rightarrow> nat" where
  "seq_slot seq count = unat (seq - 1) mod count"

definition esp_ota_get_boot_partition :: "ota_env \<Rightarrow> ota_sys \<Rightarrow> esp_partition option option" where
  "esp_ota_get_boot_partition env s =
     (case read_otadata env s of
        None \<Rightarrow> Some None
      | Some (otadata_partition, otadata) \<Rightarrow>
          (case get_ota_partition_count s of
             None \<Rightarrow> None
           | Some ota_app_count \<Rightarrow>
               if (bootloader_common_ota_select_invalid (otadata ! 0)
                   \<and> bootloader_common_ota_select_invalid (otadata ! 1)) \<or> ota_app_count = 0
               then Some (find_default_boot_partition s)
               else
                 let active_otadata = bootloader_common_get_active_otadata (crc32_le env) (Some otadata)
                 in if active_otadata \<noteq> -1
                    then Some (find_first s ESP_PARTITION_TYPE_APP
                      (ESP_PARTITION_SUBTYPE_APP_OTA_MIN
                       + seq_slot (ota_seq (otadata ! nat active_otadata)) ota_app_count))
                    else Some (find_default_boot_partition s)))"

text \<open>
  The loop over the OTA subtypes: \<open>default_ota\<close> is the first slot found, \<open>next_is_result\<close>
  tells that the starting slot was passed.
\<close>

fun next_update_loop ::
  "ota_sys \<Rightarrow> esp_partition \<Rightarrow> nat \<Rightarrow> nat \<Rightarrow> esp_partition option \<Rightarrow> bool \<Rightarrow> esp_partition option" where
  "next_update_loop s start_from t 0 default_ota next_is_result = default_ota"
| "next_update_loop s start_from t (Suc n) default_ota next_is_result =
     (case find_first s ESP_PARTITION_TYPE_APP t of
        None \<Rightarrow> next_update_loop s start_from (t + 1) n default_ota next_is_result
      | Some p \<Rightarrow>
          let default_ota = (if default_ota = None then Some p else default_ota)
          in if p = start_from then next_update_loop s start_from (t + 1) n default_ota True
             else if next_is_result then Some p
             else next_update_loop s start_from (t + 1) n default_ota next_is_result)"

definition esp_ota_get_next_update_partition ::
  "ota_env \<Rightarrow> ota_sys \<Rightarrow> esp_partition option \<Rightarrow> esp_partition option option" where
  "esp_ota_get_next_update_partition env s start_from =
     (case (case start_from of
              None \<Rightarrow> esp_ota_get_running_partition env s
            | Some q \<Rightarrow> esp_partition_verify (os_parts s) q) of
        None \<Rightarrow> None
      | Some st \<Rightarrow> Some (next_update_loop s st ESP_PARTITION_SUBTYPE_APP_OTA_MIN
          (ESP_PARTITION_SUBTYPE_APP_OTA_MAX - ESP_PARTITION_SUBTYPE_APP_OTA_MIN) None False))"

section \<open>Writing an image\<close>

definition OTA_SIZE_UNKNOWN :: nat where "OTA_SIZE_UNKNOWN = 0xFFFFFFFF"
definition ESP_IMAGE_HEADER_MAGIC :: u8 where "ESP_IMAGE_HEADER_MAGIC = 0xE9"

definition esp_ota_begin ::
  "ota_env \<Rightarrow> ota_sys \<Rightarrow> esp_partition option \<Rightarrow> nat \<Rightarrow> (esp_err \<times> ota_sys) option" where
  "esp_ota_begin env s part image_size =
     (case part of
        None \<Rightarrow> Some (ESP_ERR_INVALID_ARG, s)
      | Some q \<Rightarrow>
          (case esp_partition_verify (os_parts s) q of
             None \<Rightarrow> Some (ESP_ERR_NOT_FOUND, s)
           | Some p \<Rightarrow>
               if \<not> is_ota_partition (Some p) then Some (ESP_ERR_INVALID_ARG, s)
               else
                 (case esp_ota_get_running_partition env s of
                    None \<Rightarrow> None
                  | Some running \<Rightarrow>
                      if p = running then Some (ESP_ERR_OTA_PARTITION_CONFLICT, s)
                      else
                        let whole = (image_size = 0 \<or> image_size = OTA_SIZE_UNKNOWN);
                            erase = (if whole then p_size p
                              else add32 image_size (SPI_FLASH_SEC_SIZE - 1)
                                   div SPI_FLASH_SEC_SIZE * SPI_FLASH_SEC_SIZE)
                        in case part_erase env s p 0 erase of
                             None \<Rightarrow> None
                           | Some (ret, s1) \<Rightarrow>
                               if ret \<noteq> ESP_OK then Some (ret, s1)
                               else if \<not> calloc_ok env then Some (ESP_ERR_NO_MEM, s1)
                               else
                                 let h = os_last_handle s1 + 1;
                                     entry = \<lparr>oe_handle = h, oe_part = p,
                                       oe_erased_size = (if whole then p_size p else image_size),
                                       oe_wrote_size = 0, oe_partial_bytes = 0,
                                       oe_partial_data = replicate 16 0\<rparr>
                                 in Some (ESP_OK, s1\<lparr>os_entries := entry # os_entries s1,
                                      os_last_handle := h\<rparr>))))"

text \<open>
  The entry of a handle is the first one in the list that has it; an update replaces it in place.
\<close>

fun find_entry :: "u32 \<Rightarrow> ota_ops_entry list \<Rightarrow> ota_ops_entry option" where
  "find_entry h [] = None"
| "find_entry h (e # es) = (if oe_handle e = h then Some e else find_entry h es)"

fun upd_entry :: "u32 \<Rightarrow> ota_ops_entry \<Rightarrow> ota_ops_entry list \<Rightarrow> ota_ops_entry list" where
  "upd_entry h e' [] = []"
| "upd_entry h e' (e # es) = (if oe_handle e = h then e' # es else e # upd_entry h e' es)"

fun del_entry :: "u32 \<Rightarrow> ota_ops_entry list \<Rightarrow> ota_ops_entry list" where
  "del_entry h [] = []"
| "del_entry h (e # es) = (if oe_handle e = h then es else e # del_entry h es)"

definition set_entry :: "ota_sys \<Rightarrow> ota_ops_entry \<Rightarrow> ota_sys" where
  "set_entry s e = s\<lparr>os_entries := upd_entry (oe_handle e) e (os_entries s)\<rparr>"

text \<open>The end of a write: the data goes to the partition, behind what was written before.\<close>

definition ota_write_tail ::
  "ota_env \<Rightarrow> ota_sys \<Rightarrow> ota_ops_entry \<Rightarrow> bytes \<Rightarrow> (esp_err \<times> ota_sys) option" where
  "ota_write_tail env s it data =
     (case part_write env s (oe_part it) (oe_wrote_size it) data of
        None \<Rightarrow> None
      | Some (ret, s1) \<Rightarrow>
          if ret = ESP_OK
          then Some (ret, set_entry s1 (it\<lparr>oe_wrote_size := add32 (oe_wrote_size it) (length data)\<rparr>))
          else Some (ret, set_entry s1 it))"

text \<open>
  With flash encryption only whole blocks of 16 bytes are written: the trailing bytes are kept in the
  entry for the next call.
\<close>

definition ota_save_trailing :: "ota_ops_entry \<Rightarrow> bytes \<Rightarrow> ota_ops_entry \<times> bytes" where
  "ota_save_trailing it data =
     (let pb = length data mod 16
      in if pb \<noteq> 0 then
           (let sz = length data - pb
            in (it\<lparr>oe_partial_bytes := pb,
                  oe_partial_data := blit (oe_partial_data it) 0 (drop sz data)\<rparr>, take sz data))
         else (it\<lparr>oe_partial_bytes := pb\<rparr>, data))"

definition ota_write_encrypted ::
  "ota_env \<Rightarrow> ota_sys \<Rightarrow> ota_ops_entry \<Rightarrow> bytes \<Rightarrow> (esp_err \<times> ota_sys) option" where
  "ota_write_encrypted env s it data =
     (if oe_partial_bytes it \<noteq> 0 then
        let copy_len = min (16 - oe_partial_bytes it) (length data);
            it1 = it\<lparr>oe_partial_data := blit (oe_partial_data it) (oe_partial_bytes it) (take copy_len data),
                     oe_partial_bytes := oe_partial_bytes it + copy_len\<rparr>
        in if oe_partial_bytes it1 \<noteq> 16 then Some (ESP_OK, set_entry s it1)
           else
             (case part_write env s (oe_part it1) (oe_wrote_size it1) (oe_partial_data it1) of
                None \<Rightarrow> None
              | Some (ret, s1) \<Rightarrow>
                  if ret \<noteq> ESP_OK then Some (ret, set_entry s1 it1)
                  else
                    let it2 = it1\<lparr>oe_partial_bytes := 0, oe_partial_data := replicate 16 255,
                                  oe_wrote_size := add32 (oe_wrote_size it1) 16\<rparr>
                    in case ota_save_trailing it2 (drop copy_len data) of
                         (it3, rest) \<Rightarrow> ota_write_tail env s1 it3 rest)
      else
        (case ota_save_trailing it data of
           (it3, rest) \<Rightarrow> ota_write_tail env s it3 rest))"

definition esp_ota_write ::
  "ota_env \<Rightarrow> ota_sys \<Rightarrow> u32 \<Rightarrow> bytes option \<Rightarrow> (esp_err \<times> ota_sys) option" where
  "esp_ota_write env s handle data_ptr =
     (case data_ptr of
        None \<Rightarrow> Some (ESP_ERR_INVALID_ARG, s)
      | Some data \<Rightarrow>
          (case find_entry handle (os_entries s) of
             None \<Rightarrow> Some (ESP_ERR_INVALID_ARG, s)
           | Some it \<Rightarrow>
               if oe_erased_size it = 0 then None
               else if oe_wrote_size it = 0 \<and> oe_partial_bytes it = 0 \<and> 0 < length data
                 \<and> data ! 0 \<noteq> ESP_IMAGE_HEADER_MAGIC
                 then Some (ESP_ERR_OTA_VALIDATE_FAILED, s)
               else if flash_enc env then ota_write_encrypted env s it data
               else ota_write_tail env s it data))"

definition esp_ota_end :: "ota_env \<Rightarrow> ota_sys \<Rightarrow> u32 \<Rightarrow> (esp_err \<times> ota_sys) option" where
  "esp_ota_end env s handle =
     (case find_entry handle (os_entries s) of
        None \<Rightarrow> Some (ESP_ERR_NOT_FOUND, s)
      | Some it \<Rightarrow>
          let cleanup = (\<lambda>t. t\<lparr>os_entries := del_entry handle (os_entries t)\<rparr>)
          in if oe_erased_size it = 0 \<or> oe_wrote_size it = 0
             then Some (ESP_ERR_INVALID_ARG, cleanup s)
             else
               (case (if 0 < oe_partial_bytes it
                      then part_write env s (oe_part it) (oe_wrote_size it) (oe_partial_data it)
                      else Some (ESP_OK, s)) of
                  None \<Rightarrow> None
                | Some (ret, s1) \<Rightarrow>
                    if ret \<noteq> ESP_OK then Some (ESP_ERR_INVALID_STATE, cleanup s1)
                    else if \<not> image_verify env (os_chip s1) (p_address (oe_part it)) (p_size (oe_part it))
                      then Some (ESP_ERR_OTA_VALIDATE_FAILED, cleanup s1)
                    else Some (ESP_OK, cleanup s1)))"

section \<open>Rollback\<close>

definition esp_ota_check_rollback_is_possible :: "ota_env \<Rightarrow> ota_sys \<Rightarrow> bool option" where
  "esp_ota_check_rollback_is_possible env s =
     (case read_otadata env s of
        None \<Rightarrow> Some False
      | Some (_, otadata) \<Rightarrow>
          (case get_ota_partition_count s of
             None \<Rightarrow> None
           | Some ota_app_count \<Rightarrow>
               if ota_app_count = 0 then Some False
               else
                 let valid = [bootloader_common_ota_select_valid (crc32_le env) (otadata ! 0),
                              bootloader_common_ota_select_valid (crc32_le env) (otadata ! 1)];
                     active_ota = bootloader_common_select_otadata (Some otadata) (Some valid) True
                 in if active_ota = -1 then Some False
                    else
                      let last_active_ota = 1 - nat active_ota
                      in if \<not> valid ! last_active_ota then
                           (case find_first s ESP_PARTITION_TYPE_APP ESP_PARTITION_SUBTYPE_APP_FACTORY of
                              Some p \<Rightarrow> Some (image_validate env s p = ESP_OK)
                            | None \<Rightarrow> Some False)
                         else
                           (case find_first s ESP_PARTITION_TYPE_APP
                                   (ESP_PARTITION_SUBTYPE_APP_OTA_MIN
                                    + seq_slot (ota_seq (otadata ! last_active_ota)) ota_app_count) of
                              Some p \<Rightarrow> Some (image_validate env s p = ESP_OK)
                            | None \<Rightarrow> Some False)))"

text \<open>A call either returns an error code or restarts the chip.\<close>

datatype ota_outcome = Returns esp_err | Restarts

definition esp_ota_current_ota_is_workable ::
  "ota_env \<Rightarrow> ota_sys \<Rightarrow> bool \<Rightarrow> (ota_outcome \<times> ota_sys) option" where
  "esp_ota_current_ota_is_workable env s valid =
     (case read_otadata env s of
        None \<Rightarrow> Some (Returns ESP_ERR_NOT_FOUND, s)
      | Some (otadata_partition, otadata) \<Rightarrow>
          let active = bootloader_common_get_active_otadata (crc32_le env) (Some otadata)
          in if active = -1 then Some (Returns ESP_FAIL, s)
             else
               (case get_ota_partition_count s of
                  None \<Rightarrow> None
                | Some n \<Rightarrow>
                    let i = nat active;
                        mark = (\<lambda>st. otadata[i := (otadata ! i)\<lparr>ota_state := st\<rparr>]);
                        seq = ota_seq (otadata ! i)
                    in if n = 0 then Some (Returns ESP_FAIL, s)
                       else if valid \<and> ota_state (otadata ! i) \<noteq> ESP_OTA_IMG_VALID then
                         map_option (\<lambda>(err, t). (Returns err, t))
                           (rewrite_ota_seq env s (mark ESP_OTA_IMG_VALID) seq i otadata_partition)
                       else if \<not> valid then
                         (case esp_ota_check_rollback_is_possible env s of
                            None \<Rightarrow> None
                          | Some False \<Rightarrow> Some (Returns ESP_ERR_OTA_ROLLBACK_FAILED, s)
                          | Some True \<Rightarrow>
                              map_option (\<lambda>(err, t).
                                  (if err \<noteq> ESP_OK then Returns err else Restarts, t))
                                (rewrite_ota_seq env s (mark ESP_OTA_IMG_INVALID) seq i otadata_partition))
                       else Some (Returns ESP_OK, s)))"

definition esp_ota_mark_app_valid_cancel_rollback ::
  "ota_env \<Rightarrow> ota_sys \<Rightarrow> (ota_outcome \<times> ota_sys) option" where
  "esp_ota_mark_app_valid_cancel_rollback env s = esp_ota_current_ota_is_workable env s True"

definition esp_ota_mark_app_invalid_rollback_and_reboot ::
  "ota_env \<Rightarrow> ota_sys \<Rightarrow> (ota_outcome \<times> ota_sys) option" where
  "esp_ota_mark_app_invalid_rollback_and_reboot env s = esp_ota_current_ota_is_workable env s False"

definition check_invalid_otadata :: "ota_env \<Rightarrow> esp_ota_select_entry \<Rightarrow> bool" where
  "check_invalid_otadata env e \<longleftrightarrow>
     ota_seq e \<noteq> UINT32_MAX
     \<and> ota_crc e = bootloader_common_ota_select_crc (crc32_le env) e
     \<and> (ota_state e = ESP_OTA_IMG_INVALID \<or> ota_state e = ESP_OTA_IMG_ABORTED)"

definition get_last_invalid_otadata :: "ota_env \<Rightarrow> esp_ota_select_entry list \<Rightarrow> int" where
  "get_last_invalid_otadata env two_otadata =
     bootloader_common_select_otadata (Some two_otadata)
       (Some [check_invalid_otadata env (two_otadata ! 0), check_invalid_otadata env (two_otadata ! 1)])
       False"

definition esp_ota_get_last_invalid_partition :: "ota_env \<Rightarrow> ota_sys \<Rightarrow> esp_partition option option" where
  "esp_ota_get_last_invalid_partition env s =
     (case read_otadata env s of
        None \<Rightarrow> Some None
      | Some (_, otadata) \<Rightarrow>
          let invalid_otadata = get_last_invalid_otadata env otadata
          in (case get_ota_partition_count s of
                None \<Rightarrow> None
              | Some ota_app_count \<Rightarrow>
                  if invalid_otadata \<noteq> -1 \<and> ota_app_count \<noteq> 0 then
                    (case find_first s ESP_PARTITION_TYPE_APP
                            (ESP_PARTITION_SUBTYPE_APP_OTA_MIN
                             + seq_slot (ota_seq (otadata ! nat invalid_otadata)) ota_app_count) of
                       None \<Rightarrow> Some None
                     | Some p \<Rightarrow>
                         if image_validate env s p \<noteq> ESP_OK then Some None else Some (Some p))
                  else Some None))"

definition esp_ota_get_state_partition ::
  "ota_env \<Rightarrow> ota_sys \<Rightarrow> esp_partition option \<Rightarrow> (esp_err + u32) option" where
  "esp_ota_get_state_partition env s part =
     (case part of
        None \<Rightarrow> Some (Inl ESP_ERR_INVALID_ARG)
      | Some p \<Rightarrow>
          if \<not> is_ota_partition (Some p) then Some (Inl ESP_ERR_NOT_SUPPORTED)
          else
            (case get_ota_partition_count s of
               None \<Rightarrow> None
             | Some ota_app_count \<Rightarrow>
                 (case read_otadata env s of
                    None \<Rightarrow> Some (Inl ESP_ERR_NOT_FOUND)
                  | Some (_, otadata) \<Rightarrow>
                      if ota_app_count = 0 then Some (Inl ESP_ERR_NOT_FOUND)
                      else
                        let req = p_subtype p - ESP_PARTITION_SUBTYPE_APP_OTA_MIN;
                            hit = (\<lambda>e. seq_slot (ota_seq e) ota_app_count = req
                              \<and> ota_crc e = bootloader_common_ota_select_crc (crc32_le env) e)
                        in if hit (otadata ! 0) then Some (Inr (ota_state (otadata ! 0)))
                           else if hit (otadata ! 1) then Some (Inr (ota_state (otadata ! 1)))
                           else Some (Inl ESP_ERR_NOT_FOUND))))"

definition esp_ota_erase_last_boot_app_partition ::
  "ota_env \<Rightarrow> ota_sys \<Rightarrow> (esp_err \<times> ota_sys) option" where
  "esp_ota_erase_last_boot_app_partition env s =
     (case read_otadata env s of
        None \<Rightarrow> Some (ESP_FAIL, s)
      | Some (ota_data_partition, otadata) \<Rightarrow>
          let active = bootloader_common_get_active_otadata (crc32_le env) (Some otadata)
          in (case get_ota_partition_count s of
                None \<Rightarrow> None
              | Some n \<Rightarrow>
                  if active = -1 \<or> n = 0 then Some (ESP_FAIL, s)
                  else
                    let inactive = 1 - nat active; e = otadata ! inactive
                    in if ota_seq e = UINT32_MAX
                          \<or> ota_crc e \<noteq> bootloader_common_ota_select_crc (crc32_le env) e
                       then Some (ESP_FAIL, s)
                       else
                         (case find_first s ESP_PARTITION_TYPE_APP
                                 (ESP_PARTITION_SUBTYPE_APP_OTA_MIN + seq_slot (ota_seq e) n) of
                            None \<Rightarrow> Some (ESP_FAIL, s)
                          | Some p \<Rightarrow>
                              (case esp_ota_get_running_partition env s of
                                 None \<Rightarrow> None
                               | Some running \<Rightarrow>
                                   if p = running then Some (ESP_FAIL, s)
                                   else
                                     (case part_erase env s p 0 (p_size p) of
                                        None \<Rightarrow> None
                                      | Some (err, s1) \<Rightarrow>
                                          if err \<noteq> ESP_OK then Some (err, s1)
                                          else part_erase env s1 ota_data_partition
                                            (inactive * SPI_FLASH_SEC_SIZE) SPI_FLASH_SEC_SIZE)))))"

end
