(* ===== verification/Ota_Boot.thy ===== *)
theory Ota_Boot
  imports Ota_Ops
begin

text \<open>
  Correctness of the choice of the boot partition: how a rewritten OTA entry appears in flash, the
  search for the next sequence number, and what the next boot selects after a switch, including a
  switch that is cut short by a failing flash command.
\<close>

section \<open>The OTA data partition\<close>

text \<open>
  The OTA data partition of a usable partition table: two whole sectors, not encrypted, on the main
  chip, away from the running application and from the partition table.
\<close>

definition otadata_ok :: "ota_env \<Rightarrow> ota_sys \<Rightarrow> esp_partition \<Rightarrow> bool" where
  "otadata_ok env s q \<longleftrightarrow>
     find_first s ESP_PARTITION_TYPE_DATA ESP_PARTITION_SUBTYPE_DATA_OTA = Some q \<and>
     part_wf q \<and> 2 * SPI_FLASH_SEC_SIZE \<le> p_size q \<and> p_address q mod SPI_FLASH_SEC_SIZE = 0 \<and>
     \<not> p_encrypted q \<and> flash_chip_id q = 0 \<and> p_address q + p_size q \<le> fl_size (os_chip s) \<and>
     mmap_ok env (p_address q - p_address q mod 65536) (add32 (p_size q) (p_address q mod 65536)) \<and>
     ESP_PARTITION_TABLE_OFFSET + ESP_PARTITION_TABLE_MAX_LEN < p_address q \<and>
     (case esp_ota_get_running_partition env s of
        None \<Rightarrow> False
      | Some r \<Rightarrow> part_wf r \<and>
          (p_address q + p_size q \<le> p_address r \<or> p_address r + p_size r \<le> p_address q))"

lemma otadata_ok_cong:
  assumes "os_parts s' = os_parts s" "fl_size (os_chip s') = fl_size (os_chip s)"
  shows "otadata_ok env s' q = otadata_ok env s q"
  using assms by (simp add: otadata_ok_def find_first_def esp_ota_get_running_partition_def)

lemma otadata_not_protected:
  assumes "otadata_ok env s q" "p_address q \<le> a" "a + n \<le> p_address q + p_size q" "0 < n"
  shows "\<not> os_prot env s a n"
proof -
  from assms(1) obtain r where r: "esp_ota_get_running_partition env s = Some r" "part_wf r"
      "p_address q + p_size q \<le> p_address r \<or> p_address r + p_size r \<le> p_address q"
    by (auto simp: otadata_ok_def split: option.splits)
  have q: "part_wf q" "ESP_PARTITION_TABLE_OFFSET + ESP_PARTITION_TABLE_MAX_LEN < p_address q"
    using assms(1) by (auto simp: otadata_ok_def)
  show ?thesis
    using r q assms(2-4)
    by (auto simp: os_prot_def main_flash_region_protected_def
        esp_partition_main_flash_region_safe_def part_wf_def)
qed

lemma read_otadata_ok:
  assumes "otadata_ok env s q"
  shows "read_otadata env s = Some (q, otadata_at (os_chip s) (p_address q))"
proof -
  have "p_address q + p_size q < 4294967296" using assms by (simp add: otadata_ok_def part_wf_def)
  then have "esp_partition_mmap (mmap_ok env) q 0 (p_size q) = Inr (p_address q)"
    using assms by (auto simp: esp_partition_mmap_def otadata_ok_def Let_def)
  then show ?thesis using assms by (simp add: read_otadata_def otadata_ok_def)
qed

lemma and_erased [simp]: "255 AND (b :: u8) = b"
proof -
  have "(255 :: u8) = -1" by simp
  then have "255 AND b = -1 AND b" by (rule arg_cong)
  also have "\<dots> = b" by (rule and.left_neutral)
  finally show ?thesis .
qed

section \<open>Rewriting one entry\<close>

lemma otadata_at_nth:
  "i \<le> 1 \<Longrightarrow> otadata_at c a ! i = entry_of_bytes (fl_bytes c (a + SPI_FLASH_SEC_SIZE * i) 32)"
  by (cases i) (auto simp: otadata_at_def)

definition new_entry :: "ota_env \<Rightarrow> esp_ota_select_entry \<Rightarrow> u32 \<Rightarrow> esp_ota_select_entry" where
  "new_entry env e seq = e\<lparr>ota_seq := seq, ota_crc := crc32_le env UINT32_MAX (le32 seq)\<rparr>"

lemma new_entry_valid:
  "bootloader_common_ota_select_valid (crc32_le env) (new_entry env e seq) \<longleftrightarrow>
     seq \<noteq> UINT32_MAX \<and> ota_state e \<noteq> ESP_OTA_IMG_INVALID \<and> ota_state e \<noteq> ESP_OTA_IMG_ABORTED"
  by (auto simp: bootloader_common_ota_select_valid_def bootloader_common_ota_select_invalid_def
      bootloader_common_ota_select_crc_def new_entry_def)

text \<open>A step on a sector of the OTA data touches no byte of the other sector's entry.\<close>

definition sector_only :: "esp_partition \<Rightarrow> nat \<Rightarrow> ota_sys \<Rightarrow> ota_sys \<Rightarrow> bool" where
  "sector_only q i s s' \<longleftrightarrow>
     os_parts s' = os_parts s \<and> os_entries s' = os_entries s \<and>
     fl_size (os_chip s') = fl_size (os_chip s) \<and>
     (\<forall>x. x < p_address q + i * SPI_FLASH_SEC_SIZE
          \<or> p_address q + i * SPI_FLASH_SEC_SIZE + SPI_FLASH_SEC_SIZE \<le> x
        \<longrightarrow> fl_mem (os_chip s') x = fl_mem (os_chip s) x)"

lemma sector_only_trans: "sector_only q i s t \<Longrightarrow> sector_only q i t u \<Longrightarrow> sector_only q i s u"
  by (auto simp: sector_only_def)

lemma sector_only_ok: "sector_only q i s t \<Longrightarrow> otadata_ok env s q \<Longrightarrow> otadata_ok env t q"
  using otadata_ok_cong [of t s env q] by (simp add: sector_only_def)

lemma sector_only_other:
  assumes "sector_only q i s t" "i \<le> 1"
  shows "otadata_at (os_chip t) (p_address q) ! (1 - i) = otadata_at (os_chip s) (p_address q) ! (1 - i)"
proof -
  have "fl_bytes (os_chip t) (p_address q + SPI_FLASH_SEC_SIZE * (1 - i)) 32 =
      fl_bytes (os_chip s) (p_address q + SPI_FLASH_SEC_SIZE * (1 - i)) 32"
    using assms unfolding sector_only_def
    by (intro fl_bytes_eqI) (cases i, auto simp: flash_consts)
  then show ?thesis using assms(2) by (simp add: otadata_at_nth)
qed

lemma part_erase_sector:
  assumes ok: "otadata_ok env s q" and i: "i \<le> 1"
  shows "\<exists>err t. part_erase env s q (i * SPI_FLASH_SEC_SIZE) SPI_FLASH_SEC_SIZE = Some (err, t) \<and>
    sector_only q i s t \<and>
    (err = ESP_OK \<longrightarrow> (\<forall>k < SPI_FLASH_SEC_SIZE.
       fl_mem (os_chip t) (p_address q + i * SPI_FLASH_SEC_SIZE + k) = 255)) \<and>
    (fl_cmds (os_chip s) = [] \<longrightarrow> err = ESP_OK \<and> fl_cmds (os_chip t) = [])"
proof -
  let ?a = "p_address q + i * SPI_FLASH_SEC_SIZE"
  have q: "part_wf q" "p_address q mod SPI_FLASH_SEC_SIZE = 0"
      "p_address q + p_size q \<le> fl_size (os_chip s)" "2 * SPI_FLASH_SEC_SIZE \<le> p_size q"
    using ok by (auto simp: otadata_ok_def)
  have inside: "i * SPI_FLASH_SEC_SIZE + SPI_FLASH_SEC_SIZE \<le> p_size q"
    using i q(4) by (cases i) auto
  obtain err c where e: "erase_loop (os_chip s) ?a SPI_FLASH_SEC_SIZE = (err, c)" by force
  have "range_effect (os_chip s) ?a SPI_FLASH_SEC_SIZE (\<lambda>_ _. 255) (err, c)"
    using erase_loop_effect [of SPI_FLASH_SEC_SIZE "os_chip s" ?a] e by simp
  moreover have "part_erase env s q (i * SPI_FLASH_SEC_SIZE) SPI_FLASH_SEC_SIZE =
      Some (err, s\<lparr>os_chip := c\<rparr>)"
    using esp_partition_erase_reaches [OF q(1) inside _ _ q(2) _ q(3), of "os_prot env s"]
      otadata_not_protected [OF ok, of ?a SPI_FLASH_SEC_SIZE] inside e
    by (simp add: part_erase_def flash_consts)
  ultimately show ?thesis by (auto simp: range_effect_def sector_only_def)
qed

lemma part_write_sector:
  assumes ok: "otadata_ok env s q" and i: "i \<le> 1" and len: "length data = 32"
  shows "\<exists>err t. part_write env s q (i * SPI_FLASH_SEC_SIZE) data = Some (err, t) \<and>
    sector_only q i s t \<and>
    (err = ESP_OK \<longrightarrow> (\<forall>k < 32. fl_mem (os_chip t) (p_address q + i * SPI_FLASH_SEC_SIZE + k) =
       fl_mem (os_chip s) (p_address q + i * SPI_FLASH_SEC_SIZE + k) AND data ! k)) \<and>
    (fl_cmds (os_chip s) = [] \<longrightarrow> err = ESP_OK)"
proof -
  let ?a = "p_address q + i * SPI_FLASH_SEC_SIZE"
  have q: "part_wf q" "\<not> p_encrypted q" "p_address q + p_size q \<le> fl_size (os_chip s)"
      "2 * SPI_FLASH_SEC_SIZE \<le> p_size q"
    using ok by (auto simp: otadata_ok_def)
  have inside: "i * SPI_FLASH_SEC_SIZE + 32 \<le> p_size q"
    using i q(4) by (cases i) (auto simp: flash_consts)
  have ne: "data \<noteq> []" using len by auto
  obtain err c where e: "write_loop (direct_write env) (os_chip s) data ?a = (err, c)" by force
  have "range_effect (os_chip s) ?a 32 (\<lambda>x old. old AND data ! (x - ?a)) (err, c)"
    using write_loop_effect [of "os_chip s" ?a data "direct_write env"] e len by simp
  moreover have "part_write env s q (i * SPI_FLASH_SEC_SIZE) data = Some (err, s\<lparr>os_chip := c\<rparr>)"
    using esp_partition_write_reaches [OF q(1,2) _ ne _ q(3), of "i * SPI_FLASH_SEC_SIZE" "os_prot env s"]
      otadata_not_protected [OF ok, of ?a 32] inside e len
    by (simp add: part_write_def)
  ultimately show ?thesis by (auto simp: range_effect_def sector_only_def flash_consts)
qed

lemma rewrite_ota_seq_effect:
  assumes ok: "otadata_ok env s q" and i: "i \<le> 1" and wf: "entry_wf (two ! i)"
  shows "\<exists>err t. rewrite_ota_seq env s two seq i q = Some (err, t) \<and> sector_only q i s t \<and>
    (err = ESP_OK \<longrightarrow> otadata_at (os_chip t) (p_address q) ! i = new_entry env (two ! i) seq) \<and>
    (fl_cmds (os_chip s) = [] \<longrightarrow> err = ESP_OK)"
proof -
  let ?e = "new_entry env (two ! i) seq" and ?a = "p_address q + i * SPI_FLASH_SEC_SIZE"
  have wfe: "entry_wf ?e" using wf by (simp add: new_entry_def entry_wf_def)
  have e_eq: "(two ! i)\<lparr>ota_seq := seq, ota_crc := bootloader_common_ota_select_crc (crc32_le env)
      ((two ! i)\<lparr>ota_seq := seq\<rparr>)\<rparr> = ?e"
    by (simp add: new_entry_def bootloader_common_ota_select_crc_def)
  obtain err1 s1 where er: "part_erase env s q (i * SPI_FLASH_SEC_SIZE) SPI_FLASH_SEC_SIZE = Some (err1, s1)"
      "sector_only q i s s1"
      "err1 = ESP_OK \<longrightarrow> (\<forall>k < SPI_FLASH_SEC_SIZE. fl_mem (os_chip s1) (?a + k) = 255)"
      "fl_cmds (os_chip s) = [] \<longrightarrow> err1 = ESP_OK \<and> fl_cmds (os_chip s1) = []"
    using part_erase_sector [OF ok i] by blast
  show ?thesis
  proof (cases "err1 = ESP_OK")
    case False
    with er i show ?thesis by (auto simp: rewrite_ota_seq_def)
  next
    case True
    have ok1: "otadata_ok env s1 q" by (rule sector_only_ok [OF er(2) ok])
    obtain err2 s2 where wr: "part_write env s1 q (i * SPI_FLASH_SEC_SIZE) (bytes_of_entry ?e) = Some (err2, s2)"
        "sector_only q i s1 s2"
        "err2 = ESP_OK \<longrightarrow> (\<forall>k < 32. fl_mem (os_chip s2) (?a + k) =
           fl_mem (os_chip s1) (?a + k) AND bytes_of_entry ?e ! k)"
        "fl_cmds (os_chip s1) = [] \<longrightarrow> err2 = ESP_OK"
      using part_write_sector [OF ok1 i, of "bytes_of_entry ?e"] wfe by auto
    have "rewrite_ota_seq env s two seq i q = Some (err2, s2)"
      using i er(1) True wr(1) by (simp add: rewrite_ota_seq_def Let_def e_eq mult.commute)
    moreover have "otadata_at (os_chip s2) (p_address q) ! i = ?e" if "err2 = ESP_OK"
    proof -
      have "fl_bytes (os_chip s2) ?a 32 = bytes_of_entry ?e"
        using wr(3) er(3) True that wfe by (intro nth_equalityI) (auto simp: flash_consts)
      then show ?thesis using i wfe by (simp add: otadata_at_nth mult.commute entry_roundtrip)
    qed
    ultimately show ?thesis using er(2,4) wr(2,4) True sector_only_trans by blast
  qed
qed

section \<open>The next sequence number\<close>

lemma next_seq_loop_finds:
  assumes "0 < n" "unat seq + n < 2 ^ 32" "b + k * n < unat seq + n"
  shows "\<exists>i. next_seq_loop seq (of_nat b) (of_nat n) (of_nat k) = Some (of_nat i) \<and>
    unat seq \<le> b + i * n \<and> b + i * n < unat seq + n"
  using assms(3)
proof (induction "unat seq - k * n" arbitrary: k rule: less_induct)
  case less
  have val: "unat (of_nat b + of_nat k * of_nat n :: u32) = b + k * n"
    using less.prems assms(2) by (simp flip: of_nat_mult of_nat_add add: unat_of_nat)
  show ?case
  proof (cases "b + k * n < unat seq")
    case True
    then have lt: "(of_nat b + of_nat k * of_nat n :: u32) < seq"
      using val by (simp add: word_less_nat_alt)
    have "b + Suc k * n < unat seq + n" "unat seq - Suc k * n < unat seq - k * n"
      using True assms(1) by simp_all
    then obtain i where "next_seq_loop seq (of_nat b) (of_nat n) (of_nat (Suc k)) = Some (of_nat i)"
        "unat seq \<le> b + i * n \<and> b + i * n < unat seq + n"
      using less.hyps by blast
    moreover have "next_seq_loop seq (of_nat b) (of_nat n) (of_nat k) =
        next_seq_loop seq (of_nat b) (of_nat n) (of_nat (Suc k))"
    proof -
      have "of_nat k + 1 = (of_nat (Suc k) :: u32)" by simp
      with lt show ?thesis
        by (simp only: next_seq_loop.simps [of seq "of_nat b" "of_nat n" "of_nat k"] if_True)
    qed
    ultimately show ?thesis by auto
  next
    case False
    then have "\<not> (of_nat b + of_nat k * of_nat n :: u32) < seq"
      using val by (simp add: word_less_nat_alt)
    then have "next_seq_loop seq (of_nat b) (of_nat n) (of_nat k) = Some (of_nat k)"
      by (subst next_seq_loop.simps) simp
    with False less.prems show ?thesis by auto
  qed
qed

text \<open>The sequence number found belongs to the slot that was asked for.\<close>

lemma seq_slot_of_nat:
  assumes "0 < n" "slot < n" "m mod n = (slot + 1) mod n" "0 < m" "m < 2 ^ 32"
  shows "seq_slot (of_nat m) n = slot"
proof -
  have "unat (of_nat m - 1 :: u32) = m - 1"
  proof -
    have "of_nat m - 1 = (of_nat (m - 1) :: u32)" using assms(4) by (simp add: of_nat_diff)
    with assms(5) show ?thesis by (simp add: unat_of_nat)
  qed
  moreover have "(m - 1) mod n = slot"
  proof -
    have "Suc (m - 1) mod n = Suc slot mod n" using assms(3,4) by simp
    with assms(1,2) show ?thesis by (simp add: mod_Suc split: if_splits)
  qed
  ultimately show ?thesis by (simp add: seq_slot_def)
qed

section \<open>What the next boot selects\<close>

lemma find_first_cong: "os_parts t = os_parts s \<Longrightarrow> find_first t = find_first s"
  by (auto simp: find_first_def fun_eq_iff)

lemma ota_count_cong:
  "os_parts t = os_parts s \<Longrightarrow> ota_count_loop t n = ota_count_loop s n"
proof (induction s n rule: ota_count_loop.induct)
  case (1 s n)
  have ff: "find_first t = find_first s" by (rule find_first_cong [OF "1.prems"])
  show ?case
  proof (cases "find_first s ESP_PARTITION_TYPE_APP (ESP_PARTITION_SUBTYPE_APP_OTA_MIN + n)")
    case None
    then show ?thesis by (simp add: ota_count_loop.simps [of s n] ota_count_loop.simps [of t n] ff)
  next
    case (Some p)
    then show ?thesis using "1.IH" [OF Some _ "1.prems"]
      by (simp add: ota_count_loop.simps [of s n] ota_count_loop.simps [of t n] ff)
  qed
qed

lemma get_ota_partition_count_cong:
  "os_parts t = os_parts s \<Longrightarrow> get_ota_partition_count t = get_ota_partition_count s"
  unfolding get_ota_partition_count_def by (rule ota_count_cong)

lemma ota_count_le: "ota_count_loop s k = Some n \<Longrightarrow> k \<le> 16 \<Longrightarrow> k \<le> n \<and> n \<le> 16"
proof (induction s k rule: ota_count_loop.induct)
  case (1 s k)
  show ?case
  proof (cases "find_first s ESP_PARTITION_TYPE_APP (ESP_PARTITION_SUBTYPE_APP_OTA_MIN + k)")
    case None
    with "1.prems" show ?thesis by (simp add: ota_count_loop.simps [of s k])
  next
    case (Some p)
    with "1.prems" have "k < 16" "ota_count_loop s (k + 1) = Some n"
      by (simp_all add: ota_count_loop.simps [of s k] split: if_splits)
    with "1.IH" [OF Some] show ?thesis by simp
  qed
qed

lemma active_of_max:
  assumes len: "length d = 2" and j: "j \<le> 1" and valid: "bootloader_common_ota_select_valid crc (d ! j)"
    and mx: "bootloader_common_ota_select_valid crc (d ! (1 - j)) \<longrightarrow> ota_seq (d ! (1 - j)) \<le> ota_seq (d ! j)"
    and i: "i = bootloader_common_get_active_otadata crc (Some d)"
  shows "i \<noteq> -1" "ota_seq (d ! nat i) = ota_seq (d ! j)"
    "\<not> (bootloader_common_ota_select_invalid (d ! 0) \<and> bootloader_common_ota_select_invalid (d ! 1))"
proof -
  have idx: "j = 0 \<or> j = 1" using j by auto
  have jin: "d ! j \<in> set d" using len j by simp
  note act = active_otadata_spec [OF len i]
  have a: "i \<noteq> -1" "nat i \<le> 1" "bootloader_common_ota_select_valid crc (d ! nat i)"
      "ota_seq (d ! j) \<le> ota_seq (d ! nat i)"
    using act valid jin by auto
  show "i \<noteq> -1" by (rule a(1))
  show "ota_seq (d ! nat i) = ota_seq (d ! j)"
  proof (cases "nat i = j")
    case False
    then have "nat i = 1 - j" using a(2) idx by auto
    then show ?thesis using mx a(3,4) by simp
  qed simp
  show "\<not> (bootloader_common_ota_select_invalid (d ! 0) \<and> bootloader_common_ota_select_invalid (d ! 1))"
    using valid idx by (auto simp: bootloader_common_ota_select_valid_def)
qed

lemma get_boot_of_max:
  assumes ok: "otadata_ok env s q" and n: "get_ota_partition_count s = Some n" "0 < n"
    and j: "j \<le> 1"
    and d: "d = otadata_at (os_chip s) (p_address q)"
    and valid: "bootloader_common_ota_select_valid (crc32_le env) (d ! j)"
    and mx: "bootloader_common_ota_select_valid (crc32_le env) (d ! (1 - j)) \<longrightarrow>
      ota_seq (d ! (1 - j)) \<le> ota_seq (d ! j)"
  shows "esp_ota_get_boot_partition env s = Some (find_first s ESP_PARTITION_TYPE_APP
    (ESP_PARTITION_SUBTYPE_APP_OTA_MIN + seq_slot (ota_seq (d ! j)) n))"
proof -
  define i where "i = bootloader_common_get_active_otadata (crc32_le env) (Some d)"
  have len: "length d = 2" by (simp add: d otadata_at_def)
  from active_of_max [OF len j valid mx i_def] n show ?thesis
    using read_otadata_ok [OF ok] by (auto simp: esp_ota_get_boot_partition_def d [symmetric] i_def [symmetric])
qed

text \<open>
  The sequence numbers that occur in practice: a valid entry is neither zero nor close to the end of
  the 32 bit range (one is added for every update of the device).
\<close>

definition seqs_in_range :: "ota_env \<Rightarrow> esp_ota_select_entry list \<Rightarrow> bool" where
  "seqs_in_range env d \<longleftrightarrow>
     list_all (\<lambda>e. bootloader_common_ota_select_valid (crc32_le env) e \<longrightarrow>
       0 < unat (ota_seq e) \<and> unat (ota_seq e) + 17 < 2 ^ 32) d"

lemma rewrite_ota_data_effect:
  assumes ok: "otadata_ok env s q" and n: "get_ota_partition_count s = Some n"
    and slot: "SUB_TYPE_ID st < n"
    and d: "d = otadata_at (os_chip s) (p_address q)" and rng: "seqs_in_range env d"
    and act: "act = bootloader_common_get_active_otadata (crc32_le env) (Some d)"
  shows "\<exists>err t j m. esp_rewrite_ota_data env s st = Some (err, t) \<and> j \<le> 1 \<and>
    (act \<noteq> -1 \<longrightarrow> j = 1 - nat act) \<and> sector_only q j s t \<and>
    (err = ESP_OK \<longrightarrow> otadata_at (os_chip t) (p_address q) ! j =
       new_entry env ((d ! j)\<lparr>ota_state := ESP_OTA_IMG_UNDEFINED\<rparr>) (of_nat m)) \<and>
    m < 2 ^ 32 - 1 \<and> seq_slot (of_nat m) n = SUB_TYPE_ID st \<and>
    (act \<noteq> -1 \<longrightarrow> unat (ota_seq (d ! nat act)) \<le> m) \<and>
    (fl_cmds (os_chip s) = [] \<longrightarrow> err = ESP_OK)"
proof -
  have n16: "n \<le> 16" using n ota_count_le [of s 0 n] by (simp add: get_ota_partition_count_def)
  have len: "length d = 2" by (simp add: d otadata_at_def)
  have wf: "entry_wf (d ! j)" if "j \<le> 1" for j using that by (simp add: d otadata_at_nth)
  have rd: "read_otadata env s = Some (q, d)" using read_otadata_ok [OF ok] d by simp
  let ?upd = "\<lambda>j. d[j := (d ! j)\<lparr>ota_state := set_new_state_otadata\<rparr>]"
  have rewrite: "\<exists>err t. rewrite_ota_seq env s (?upd j) seq j q = Some (err, t) \<and> sector_only q j s t \<and>
      (err = ESP_OK \<longrightarrow> otadata_at (os_chip t) (p_address q) ! j =
         new_entry env ((d ! j)\<lparr>ota_state := ESP_OTA_IMG_UNDEFINED\<rparr>) seq) \<and>
      (fl_cmds (os_chip s) = [] \<longrightarrow> err = ESP_OK)" if "j \<le> 1" for j seq
    using rewrite_ota_seq_effect [OF ok that, of "?upd j" seq] wf [OF that] that len
    by (simp add: set_new_state_otadata_def entry_wf_def)
  have nslot: "\<not> n \<le> SUB_TYPE_ID st" using slot by simp
  note step = esp_rewrite_ota_data_def rd n act [symmetric] nslot Let_def
  show ?thesis
  proof (cases "act = -1")
    case True
    have "seq_slot (of_nat (SUB_TYPE_ID st + 1)) n = SUB_TYPE_ID st"
      using slot n16 by (intro seq_slot_of_nat) auto
    moreover obtain err t where "rewrite_ota_seq env s (?upd 0) (of_nat (SUB_TYPE_ID st + 1)) 0 q = Some (err, t) \<and>
        sector_only q 0 s t \<and> (err = ESP_OK \<longrightarrow> otadata_at (os_chip t) (p_address q) ! 0 =
          new_entry env ((d ! 0)\<lparr>ota_state := ESP_OTA_IMG_UNDEFINED\<rparr>) (of_nat (SUB_TYPE_ID st + 1))) \<and>
        (fl_cmds (os_chip s) = [] \<longrightarrow> err = ESP_OK)"
      using rewrite [of 0] by blast
    ultimately show ?thesis
      using True slot n16
      by - (rule exI [of _ err], rule exI [of _ t], rule exI [of _ 0],
          rule exI [of _ "SUB_TYPE_ID st + 1"], simp add: step)
  next
    case False
    let ?seq = "ota_seq (d ! nat act)" and ?b = "(SUB_TYPE_ID st + 1) mod n" and ?j = "1 - nat act"
    have "act \<in> {0, 1}" and v: "bootloader_common_ota_select_valid (crc32_le env) (d ! nat act)"
      using active_otadata_spec [OF len act] False by auto
    then have seq: "0 < unat ?seq" "unat ?seq + 17 < 2 ^ 32"
      using rng len by (auto simp: seqs_in_range_def list_all_length)
    obtain i where i: "next_seq_loop ?seq (of_nat ?b) (of_nat n) 0 = Some (of_nat i)"
        "unat ?seq \<le> ?b + i * n" "?b + i * n < unat ?seq + n"
      using next_seq_loop_finds [of n ?seq ?b 0] slot seq n16 by (auto simp: trans_less_add2)
    have jle: "?j \<le> 1" by simp
    have "seq_slot (of_nat (?b + i * n)) n = SUB_TYPE_ID st"
      using slot i seq n16 by (intro seq_slot_of_nat) auto
    moreover obtain err t where "rewrite_ota_seq env s (?upd ?j) (of_nat (?b + i * n)) ?j q = Some (err, t) \<and>
        sector_only q ?j s t \<and> (err = ESP_OK \<longrightarrow> otadata_at (os_chip t) (p_address q) ! ?j =
          new_entry env ((d ! ?j)\<lparr>ota_state := ESP_OTA_IMG_UNDEFINED\<rparr>) (of_nat (?b + i * n))) \<and>
        (fl_cmds (os_chip s) = [] \<longrightarrow> err = ESP_OK)"
      using rewrite [OF jle, of "of_nat (?b + i * n)"] by blast
    ultimately show ?thesis
      using False i seq n16
      by - (rule exI [of _ err], rule exI [of _ t], rule exI [of _ ?j],
          rule exI [of _ "?b + i * n"], simp add: step)
  qed
qed

lemma get_boot_active:
  assumes ok: "otadata_ok env s q" and n: "get_ota_partition_count s = Some n" "0 < n"
    and d: "d = otadata_at (os_chip s) (p_address q)"
    and act: "act = bootloader_common_get_active_otadata (crc32_le env) (Some d)" "act \<noteq> -1"
  shows "esp_ota_get_boot_partition env s = Some (find_first s ESP_PARTITION_TYPE_APP
    (ESP_PARTITION_SUBTYPE_APP_OTA_MIN + seq_slot (ota_seq (d ! nat act)) n))"
proof -
  have len: "length d = 2" by (simp add: d otadata_at_def)
  have a: "act \<in> {0, 1}" "bootloader_common_ota_select_valid (crc32_le env) (d ! nat act)"
      "\<forall>e \<in> set d. bootloader_common_ota_select_valid (crc32_le env) e \<longrightarrow> ota_seq e \<le> ota_seq (d ! nat act)"
    using active_otadata_spec [OF len act(1)] act(2) by auto
  have "d ! (1 - nat act) \<in> set d" using len by simp
  with a show ?thesis by (intro get_boot_of_max [OF ok n _ d]) auto
qed

text \<open>The slot partition that the sequence number of slot \<open>k\<close> denotes.\<close>

definition ota_slot :: "ota_sys \<Rightarrow> nat \<Rightarrow> esp_partition \<Rightarrow> bool" where
  "ota_slot s n p \<longleftrightarrow> p_type p = ESP_PARTITION_TYPE_APP \<and>
     ESP_PARTITION_SUBTYPE_APP_OTA_MIN \<le> p_subtype p \<and> p_subtype p < ESP_PARTITION_SUBTYPE_APP_OTA_MIN + n \<and>
     find_first s ESP_PARTITION_TYPE_APP (p_subtype p) = Some p"

lemma ota_slot_id:
  assumes "get_ota_partition_count s = Some n" "ota_slot s n p"
  shows "SUB_TYPE_ID (p_subtype p) < n"
    "ESP_PARTITION_SUBTYPE_APP_OTA_MIN + SUB_TYPE_ID (p_subtype p) = p_subtype p"
    "p_subtype p \<noteq> ESP_PARTITION_SUBTYPE_APP_FACTORY"
proof -
  have "n \<le> 16" using assms(1) ota_count_le [of s 0 n] by (simp add: get_ota_partition_count_def)
  moreover have "16 \<le> p_subtype p" "p_subtype p < 16 + n"
    using assms(2) by (auto simp: ota_slot_def part_consts)
  ultimately have "p_subtype p mod 16 = p_subtype p - 16"
    by (simp add: mod_if)
  then show "SUB_TYPE_ID (p_subtype p) < n"
    "ESP_PARTITION_SUBTYPE_APP_OTA_MIN + SUB_TYPE_ID (p_subtype p) = p_subtype p"
    "p_subtype p \<noteq> ESP_PARTITION_SUBTYPE_APP_FACTORY"
    using \<open>16 \<le> p_subtype p\<close> \<open>p_subtype p < 16 + n\<close>
    by (auto simp: SUB_TYPE_ID_def part_consts)
qed

lemma set_boot_is_rewrite:
  assumes "image_verify env (os_chip s) (p_address p) (p_size p)" "p_type p = ESP_PARTITION_TYPE_APP"
    "p_subtype p \<noteq> ESP_PARTITION_SUBTYPE_APP_FACTORY"
  shows "esp_ota_set_boot_partition env s (Some p) = esp_rewrite_ota_data env s (p_subtype p)"
  using assms by (simp add: esp_ota_set_boot_partition_def image_validate_def)

text \<open>The entry of a successful switch is valid, is the newest one and denotes the requested slot.\<close>

lemma set_boot_effect:
  assumes ok: "otadata_ok env s q" and n: "get_ota_partition_count s = Some n"
    and rng: "seqs_in_range env (otadata_at (os_chip s) (p_address q))"
    and slot: "ota_slot s n p"
    and img: "image_verify env (os_chip s) (p_address p) (p_size p)"
  shows "\<exists>err t j. esp_ota_set_boot_partition env s (Some p) = Some (err, t) \<and> j \<le> 1 \<and> sector_only q j s t \<and>
    (err = ESP_OK \<longrightarrow> (let e = otadata_at (os_chip t) (p_address q) in
       bootloader_common_ota_select_valid (crc32_le env) (e ! j) \<and>
       (bootloader_common_ota_select_valid (crc32_le env) (e ! (1 - j)) \<longrightarrow> ota_seq (e ! (1 - j)) \<le> ota_seq (e ! j)) \<and>
       seq_slot (ota_seq (e ! j)) n = SUB_TYPE_ID (p_subtype p))) \<and>
    (fl_cmds (os_chip s) = [] \<longrightarrow> err = ESP_OK)"
proof -
  define d where "d = otadata_at (os_chip s) (p_address q)"
  define a where "a = bootloader_common_get_active_otadata (crc32_le env) (Some d)"
  note sid = ota_slot_id [OF n slot]
  obtain err t j m where r: "esp_rewrite_ota_data env s (p_subtype p) = Some (err, t)" "j \<le> 1"
      "sector_only q j s t" "seq_slot (of_nat m) n = SUB_TYPE_ID (p_subtype p)" "m < 2 ^ 32 - 1"
      "fl_cmds (os_chip s) = [] \<longrightarrow> err = ESP_OK"
    and new: "err = ESP_OK \<longrightarrow> otadata_at (os_chip t) (p_address q) ! j =
       new_entry env ((d ! j)\<lparr>ota_state := ESP_OTA_IMG_UNDEFINED\<rparr>) (of_nat m)"
    and act: "a \<noteq> -1 \<longrightarrow> j = 1 - nat a \<and> unat (ota_seq (d ! nat a)) \<le> m"
    using rewrite_ota_data_effect [OF ok n sid(1) d_def rng [folded d_def] a_def] by blast
  let ?e = "otadata_at (os_chip t) (p_address q)"
  have len: "length d = 2" by (simp add: d_def otadata_at_def)
  have mmax: "(of_nat m :: u32) \<noteq> UINT32_MAX"
    using r(5) by (auto simp: UINT32_MAX_def word_unat_eq_iff unat_of_nat)
  have vj: "bootloader_common_ota_select_valid (crc32_le env) (?e ! j)" if "err = ESP_OK"
    using new that mmax by (simp add: new_entry_valid ota_state_defs)
  have other: "?e ! (1 - j) = d ! (1 - j)"
    using sector_only_other [OF r(3,2)] by (simp add: d_def)
  have mx: "ota_seq (?e ! (1 - j)) \<le> ota_seq (?e ! j)"
    if "err = ESP_OK" and v: "bootloader_common_ota_select_valid (crc32_le env) (?e ! (1 - j))"
  proof -
    have "d ! (1 - j) \<in> set d" using len by simp
    then have na: "a \<noteq> -1" using active_otadata_spec [OF len a_def] v other by auto
    then have "nat a = 1 - j" using act active_otadata_spec [OF len a_def] by auto
    then show ?thesis
      using act na other new that(1) r(5) by (simp add: new_entry_def word_le_nat_alt unat_of_nat)
  qed
  have "ota_seq (?e ! j) = of_nat m" if "err = ESP_OK" using new that by (simp add: new_entry_def)
  moreover have "esp_ota_set_boot_partition env s (Some p) = Some (err, t)"
    using set_boot_is_rewrite [OF img _ sid(3)] slot r(1) by (simp add: ota_slot_def)
  ultimately show ?thesis
    using r vj mx by - (rule exI [of _ err], rule exI [of _ t], rule exI [of _ j], simp add: Let_def)
qed

text \<open>
  Choosing the boot partition. For an OTA slot with a valid image the call returns; when it
  reports success, the partition selected for the next boot is the one that was asked for, whatever
  the two entries held before; and it does succeed when no flash command fails.
\<close>

lemma set_boot_then_get_boot:
  assumes ok: "otadata_ok env s q" and n: "get_ota_partition_count s = Some n"
    and rng: "seqs_in_range env (otadata_at (os_chip s) (p_address q))"
    and slot: "ota_slot s n p"
    and img: "image_verify env (os_chip s) (p_address p) (p_size p)"
  shows "\<exists>err s'. esp_ota_set_boot_partition env s (Some p) = Some (err, s') \<and>
    (err = ESP_OK \<longrightarrow> esp_ota_get_boot_partition env s' = Some (Some p)) \<and>
    (fl_cmds (os_chip s) = [] \<longrightarrow> err = ESP_OK)"
proof -
  note sid = ota_slot_id [OF n slot]
  have npos: "0 < n" using sid(1) by simp
  obtain err t j where r: "esp_ota_set_boot_partition env s (Some p) = Some (err, t)" "j \<le> 1"
      "sector_only q j s t" "fl_cmds (os_chip s) = [] \<longrightarrow> err = ESP_OK"
      "err = ESP_OK \<longrightarrow> (let e = otadata_at (os_chip t) (p_address q) in
         bootloader_common_ota_select_valid (crc32_le env) (e ! j) \<and>
         (bootloader_common_ota_select_valid (crc32_le env) (e ! (1 - j)) \<longrightarrow> ota_seq (e ! (1 - j)) \<le> ota_seq (e ! j)) \<and>
         seq_slot (ota_seq (e ! j)) n = SUB_TYPE_ID (p_subtype p))"
    using set_boot_effect [OF assms] by blast
  have parts: "os_parts t = os_parts s" using r(3) by (simp add: sector_only_def)
  have nt: "get_ota_partition_count t = Some n" using get_ota_partition_count_cong [OF parts] n by simp
  have "esp_ota_get_boot_partition env t = Some (Some p)" if "err = ESP_OK"
    using get_boot_of_max [OF sector_only_ok [OF r(3) ok] nt npos r(2) refl] r(5) that sid(2) slot
      find_first_cong [OF parts]
    by (simp add: ota_slot_def Let_def)
  with r(1,4) show ?thesis by blast
qed

text \<open>
  C7: an interrupted switch. If the call reports an error (a flash command failed half way and left
  arbitrary bytes in the sector being rewritten) and that sector does not happen to hold a valid
  entry, then a device that had an active entry still boots the partition it would have booted before.
\<close>

theorem set_boot_failure_keeps_old:
  assumes ok: "otadata_ok env s q" and n: "get_ota_partition_count s = Some n"
    and rng: "seqs_in_range env (otadata_at (os_chip s) (p_address q))"
    and slot: "ota_slot s n p"
    and call: "esp_ota_set_boot_partition env s (Some p) = Some (err, s')" "err \<noteq> ESP_OK"
    and act: "act = bootloader_common_get_active_otadata (crc32_le env) (Some (otadata_at (os_chip s) (p_address q)))"
      "act \<noteq> -1"
    and torn: "\<not> bootloader_common_ota_select_valid (crc32_le env)
      (otadata_at (os_chip s') (p_address q) ! (1 - nat act))"
  shows "esp_ota_get_boot_partition env s' = esp_ota_get_boot_partition env s"
proof (cases "image_verify env (os_chip s) (p_address p) (p_size p)")
  case False
  then have "s' = s" using call(1) by (auto simp: esp_ota_set_boot_partition_def image_validate_def)
  then show ?thesis by simp
next
  case True
  define d where "d = otadata_at (os_chip s) (p_address q)"
  have len: "length d = 2" by (simp add: d_def otadata_at_def)
  note sid = ota_slot_id [OF n slot]
  have npos: "0 < n" using sid(1) by simp
  have call': "esp_rewrite_ota_data env s (p_subtype p) = Some (err, s')"
    using set_boot_is_rewrite [OF True _ sid(3)] slot call(1) by (simp add: ota_slot_def)
  obtain j where r: "j \<le> 1" "sector_only q j s s'" "j = 1 - nat act"
    using rewrite_ota_data_effect [OF ok n sid(1) d_def rng [folded d_def] act(1) [folded d_def]] call' act(2)
    by auto
  have a: "act \<in> {0, 1}" "bootloader_common_ota_select_valid (crc32_le env) (d ! nat act)"
    using active_otadata_spec [OF len act(1) [folded d_def]] act(2) by auto
  then have ja: "nat act = 1 - j" "nat act \<le> 1" using r(3) by auto
  let ?e = "otadata_at (os_chip s') (p_address q)"
  have same: "?e ! nat act = d ! nat act" using sector_only_other [OF r(2,1)] ja by (simp add: d_def)
  have parts: "os_parts s' = os_parts s" using r(2) by (simp add: sector_only_def)
  have nt: "get_ota_partition_count s' = Some n" using get_ota_partition_count_cong [OF parts] n by simp
  have v: "bootloader_common_ota_select_valid (crc32_le env) (?e ! nat act)" using same a by simp
  have "esp_ota_get_boot_partition env s' = Some (find_first s' ESP_PARTITION_TYPE_APP
      (ESP_PARTITION_SUBTYPE_APP_OTA_MIN + seq_slot (ota_seq (?e ! nat act)) n))"
    using torn r(3) by (intro get_boot_of_max [OF sector_only_ok [OF r(2) ok] nt npos ja(2) refl v]) simp
  then show ?thesis
    using get_boot_active [OF ok n npos d_def act(1) [folded d_def] act(2)] same find_first_cong [OF parts]
    by simp
qed

section \<open>A device in the field\<close>

text \<open>
  The product's partition table with one valid entry (sequence number 1: the device runs from the
  first slot) and an erased second entry; \<open>cmds\<close> are the outcomes of the next flash commands.
\<close>

definition demo_env :: ota_env where
  "demo_env = \<lparr>crc32_le = demo_crc, image_verify = (\<lambda>_ _ _. True), mmap_ok = (\<lambda>_ _. True),
     direct_write = True, phys_offs = 65600, flash_enc = False, calloc_ok = True\<rparr>"

definition demo_row :: "u8 \<Rightarrow> u8 \<Rightarrow> u8 \<Rightarrow> u8 \<Rightarrow> u8 \<Rightarrow> u8 \<Rightarrow> bytes" where
  "demo_row ty st a1 a2 s1 s2 = [0xAA, 0x50, ty, st, 0, a1, a2, 0, 0, s1, s2, 0] @ replicate 20 0"

definition demo_rows :: "bytes list" where
  "demo_rows = [demo_row 1 0 0xE0 0 0x20 0, demo_row 0 16 0 1 0 0x20, demo_row 0 17 0 0x21 0 0x20]"

definition demo_sys :: "cmd_outcome list \<Rightarrow> ota_sys" where
  "demo_sys cmds =
     \<lparr>os_chip = \<lparr>fl_mem = (\<lambda>x. if 57344 \<le> x \<and> x < 57376 then bytes_of_entry (demo_entry 1) ! (x - 57344)
          else if 32768 \<le> x \<and> x < 32864 then demo_rows ! ((x - 32768) div 32) ! ((x - 32768) mod 32) else 255),
        fl_size = 8388608, fl_cmds = cmds\<rparr>,
      os_parts = [demo_otadata, demo_app0, demo_app1], os_entries = [], os_last_handle = 0\<rparr>"

lemma demo_find:
  "find_first (demo_sys c) ESP_PARTITION_TYPE_DATA ESP_PARTITION_SUBTYPE_DATA_OTA = Some demo_otadata"
  "find_first (demo_sys c) ESP_PARTITION_TYPE_APP 16 = Some demo_app0"
  "find_first (demo_sys c) ESP_PARTITION_TYPE_APP 17 = Some demo_app1"
  "find_first (demo_sys c) ESP_PARTITION_TYPE_APP 18 = None"
  by (simp_all add: find_first_def demo_sys_def esp_partition_find_first_def esp_partition_find_def
      part_matches_def demo_defs part_consts)

lemma demo_running: "esp_ota_get_running_partition demo_env (demo_sys c) = Some demo_app0"
  by (simp add: esp_ota_get_running_partition_def demo_env_def demo_sys_def part_matches_def
      demo_defs part_consts)

lemma demo_count: "get_ota_partition_count (demo_sys c) = Some 2"
  by (simp add: get_ota_partition_count_def ota_count_loop.simps demo_find part_consts(4))

lemma demo_otadata_ok: "otadata_ok demo_env (demo_sys c) demo_otadata"
  by (simp add: otadata_ok_def demo_find demo_running)
    (simp add: demo_defs demo_sys_def demo_env_def part_wf_def part_consts flash_consts)

lemma demo_otadata_at:
  "otadata_at (os_chip (demo_sys c)) (p_address demo_otadata) =
     [demo_entry 1, entry_of_bytes (replicate 32 255)]"
proof -
  have wf: "entry_wf (demo_entry 1)" by (simp add: demo_entry_def entry_wf_def)
  have "fl_bytes (os_chip (demo_sys c)) 57344 32 = bytes_of_entry (demo_entry 1)"
    using wf by (intro nth_equalityI) (simp_all add: demo_sys_def)
  moreover have "fl_bytes (os_chip (demo_sys c)) 61440 32 = replicate 32 255"
    by (rule nth_equalityI) (simp_all add: demo_sys_def)
  ultimately show ?thesis
    using wf by (simp add: otadata_at_def demo_otadata_def flash_consts entry_roundtrip)
qed

lemma demo_valid:
  "bootloader_common_ota_select_valid (crc32_le demo_env) (demo_entry 1)"
  "\<not> bootloader_common_ota_select_valid (crc32_le demo_env) (entry_of_bytes (replicate 32 255))"
  by (simp add: bootloader_common_ota_select_valid_def bootloader_common_ota_select_invalid_def
        bootloader_common_ota_select_crc_def demo_entry_def demo_env_def ota_state_defs)
    (simp only: bootloader_common_ota_select_valid_def erased_entry_invalid, simp)

lemma demo_active:
  "bootloader_common_get_active_otadata (crc32_le demo_env)
     (Some (otadata_at (os_chip (demo_sys c)) (p_address demo_otadata))) = 0"
  by (simp only: demo_otadata_at get_active_cases demo_valid if_False if_True simp_thms)

lemma demo_range:
  "seqs_in_range demo_env (otadata_at (os_chip (demo_sys c)) (p_address demo_otadata))"
  by (simp only: demo_otadata_at seqs_in_range_def list.pred_inject demo_valid simp_thms)
    (simp add: demo_entry_def)

lemma demo_slot: "ota_slot (demo_sys c) 2 demo_app1"
  by (simp add: ota_slot_def part_consts(1,4) demo_app1_def)
    (simp add: demo_find(3) [unfolded part_consts demo_app1_def])

lemmas demo_facts = demo_otadata_ok demo_count demo_range demo_slot

lemma set_boot_then_get_boot_example:
  "\<exists>s'. esp_ota_set_boot_partition demo_env (demo_sys []) (Some demo_app1) = Some (ESP_OK, s') \<and>
     esp_ota_get_boot_partition demo_env s' = Some (Some demo_app1)"
proof -
  have "image_verify demo_env (os_chip (demo_sys [])) (p_address demo_app1) (p_size demo_app1)"
    by (simp add: demo_env_def)
  moreover have "fl_cmds (os_chip (demo_sys [])) = []" by (simp add: demo_sys_def)
  ultimately show ?thesis using set_boot_then_get_boot [OF demo_facts] by auto
qed

lemma demo_torn_call:
  "\<exists>s'. esp_ota_set_boot_partition demo_env (demo_sys [Cmd_Fail (\<lambda>_. 255)]) (Some demo_app1) =
      Some (ESP_ERR_TIMEOUT, s') \<and> sector_only demo_otadata 1 (demo_sys [Cmd_Fail (\<lambda>_. 255)]) s' \<and>
      fl_mem (os_chip s') = fl_mem (os_chip (demo_sys []))"
proof -
  let ?s = "demo_sys [Cmd_Fail (\<lambda>_. 255)]"
  have "chip_erase (os_chip ?s) 61440 4096 =
      (ESP_ERR_TIMEOUT, (os_chip ?s)\<lparr>fl_mem := fl_mem (os_chip ?s), fl_cmds := []\<rparr>)"
    by (auto simp: chip_erase_def chip_cmd_def demo_sys_def Let_def fun_eq_iff)
  then have "erase_loop (os_chip ?s) 61440 4096 =
      (ESP_ERR_TIMEOUT, (os_chip ?s)\<lparr>fl_mem := fl_mem (os_chip ?s), fl_cmds := []\<rparr>)"
    by (subst erase_loop.simps) (simp add: flash_consts)
  moreover have "\<not> os_prot demo_env ?s 61440 4096"
    using otadata_not_protected [OF demo_otadata_ok, of 61440 4096] by (simp add: demo_otadata_def)
  ultimately have er: "part_erase demo_env ?s demo_otadata 4096 4096 = Some (ESP_ERR_TIMEOUT,
      ?s\<lparr>os_chip := (os_chip ?s)\<lparr>fl_mem := fl_mem (os_chip ?s), fl_cmds := []\<rparr>\<rparr>)"
    using esp_partition_erase_reaches [of demo_otadata 4096 4096 "os_prot demo_env ?s" "os_chip ?s"]
      demo_otadata_ok [of "[Cmd_Fail (\<lambda>_. 255)]"]
    by (simp add: part_erase_def flash_consts otadata_ok_def demo_otadata_def)
  have "next_seq_loop 1 0 2 0 = Some 1"
    by (subst next_seq_loop.simps, subst next_seq_loop.simps) simp
  then have "esp_rewrite_ota_data demo_env ?s 17 = Some (ESP_ERR_TIMEOUT,
      ?s\<lparr>os_chip := (os_chip ?s)\<lparr>fl_mem := fl_mem (os_chip ?s), fl_cmds := []\<rparr>\<rparr>)"
    using er demo_active [of "[Cmd_Fail (\<lambda>_. 255)]"]
    by (simp add: esp_rewrite_ota_data_def read_otadata_ok [OF demo_otadata_ok] demo_count SUB_TYPE_ID_def
        demo_otadata_at demo_entry_def rewrite_ota_seq_def Let_def flash_consts)
  moreover have "esp_ota_set_boot_partition demo_env ?s (Some demo_app1) = esp_rewrite_ota_data demo_env ?s 17"
    using set_boot_is_rewrite [of demo_env ?s demo_app1] by (simp add: demo_env_def demo_app1_def part_consts)
  ultimately show ?thesis by (auto simp: sector_only_def demo_sys_def)
qed

theorem set_boot_failure_keeps_old_witness:
  "\<exists>s'. esp_ota_set_boot_partition demo_env (demo_sys [Cmd_Fail (\<lambda>_. 255)]) (Some demo_app1) =
      Some (ESP_ERR_TIMEOUT, s') \<and>
    esp_ota_get_boot_partition demo_env s' =
      esp_ota_get_boot_partition demo_env (demo_sys [Cmd_Fail (\<lambda>_. 255)])"
proof -
  let ?s = "demo_sys [Cmd_Fail (\<lambda>_. 255)]"
  obtain s' where s': "esp_ota_set_boot_partition demo_env ?s (Some demo_app1) = Some (ESP_ERR_TIMEOUT, s')"
      "fl_mem (os_chip s') = fl_mem (os_chip (demo_sys []))"
    using demo_torn_call by blast
  have "otadata_at (os_chip s') (p_address demo_otadata) = [demo_entry 1, entry_of_bytes (replicate 32 255)]"
    using demo_otadata_at [of "[]"] s'(2) by (simp add: otadata_at_def fl_bytes_def)
  then have torn: "\<not> bootloader_common_ota_select_valid (crc32_le demo_env)
      (otadata_at (os_chip s') (p_address demo_otadata) ! (1 - nat 0))"
    using demo_valid(2) by simp
  have "esp_ota_get_boot_partition demo_env s' = esp_ota_get_boot_partition demo_env ?s"
    by (rule set_boot_failure_keeps_old [OF demo_facts s'(1) _ demo_active [symmetric] _ torn]) simp_all
  with s'(1) show ?thesis by blast
qed

end
