(* ===== verification/Ota_Update.thy ===== *)
theory Ota_Update
  imports Ota_Boot
begin

text \<open>
  Correctness of the update itself: the slot that is offered for the next update, and the sequence
  \<^verbatim>\<open>esp_ota_begin\<close>, any number of \<^verbatim>\<open>esp_ota_write\<close>, \<^verbatim>\<open>esp_ota_end\<close>,
  which leaves exactly the concatenation of the written chunks at the start of a slot that is not the
  running one.
\<close>

section \<open>The slot of the next update\<close>

text \<open>The specification: the cyclic successor among the existing slots.\<close>

definition ota_slots :: "ota_sys \<Rightarrow> nat \<Rightarrow> nat \<Rightarrow> esp_partition list" where
  "ota_slots s t n = List.map_filter (find_first s ESP_PARTITION_TYPE_APP) [t..<t + n]"

definition slot_after :: "esp_partition list \<Rightarrow> esp_partition \<Rightarrow> esp_partition option" where
  "slot_after slots st =
     (case drop 1 (dropWhile (\<lambda>p. p \<noteq> st) slots) @ slots of [] \<Rightarrow> None | p # _ \<Rightarrow> Some p)"

lemma ota_slots_simps [simp]:
  "ota_slots s t 0 = []"
  "ota_slots s t (Suc n) = (case find_first s ESP_PARTITION_TYPE_APP t of
     None \<Rightarrow> ota_slots s (Suc t) n | Some p \<Rightarrow> p # ota_slots s (Suc t) n)"
proof -
  show "ota_slots s t 0 = []" by (simp add: ota_slots_def map_filter_simps)
  have "[t..<t + Suc n] = t # [t + 1..<(t + 1) + n]" using upt_rec [of t "t + Suc n"] by simp
  then show "ota_slots s t (Suc n) = (case find_first s ESP_PARTITION_TYPE_APP t of
     None \<Rightarrow> ota_slots s (Suc t) n | Some p \<Rightarrow> p # ota_slots s (Suc t) n)"
    by (simp only: ota_slots_def map_filter_simps add_Suc_right add_Suc add_0_right One_nat_def)
qed

lemma find_first_subtype:
  assumes "find_first s ty k = Some p" "k \<noteq> ESP_PARTITION_SUBTYPE_ANY"
  shows "p_subtype p = k \<and> p_type p = ty \<and> p \<in> set (os_parts s)"
proof -
  have "esp_partition_next ty k None ps = Some (p, r) \<Longrightarrow> p_subtype p = k \<and> p_type p = ty \<and> p \<in> set ps" for ps r
    using assms(2) by (induction ps) (auto simp: part_matches_def split: if_splits)
  with assms(1) show ?thesis
    by (auto simp: find_first_def esp_partition_find_first_def esp_partition_find_def)
qed

lemma ota_slots_subtype:
  "p \<in> set (ota_slots s t n) \<Longrightarrow> t + n \<le> 255 \<Longrightarrow> t \<le> p_subtype p \<and> p_type p = ESP_PARTITION_TYPE_APP
     \<and> p_subtype p < t + n"
proof (induction n arbitrary: t)
  case (Suc n)
  have "t \<noteq> ESP_PARTITION_SUBTYPE_ANY" using Suc.prems by (simp add: part_consts)
  then show ?case using Suc find_first_subtype [of s _ t]
    by (fastforce split: option.splits)
qed simp

text \<open>Once the starting slot was passed it does not occur again, so the next slot is the result.\<close>

lemma next_update_loop_after:
  assumes "st \<notin> set (ota_slots s t n)" "d \<noteq> None"
  shows "next_update_loop s st t n d True = (case ota_slots s t n of [] \<Rightarrow> d | p # _ \<Rightarrow> Some p)"
  using assms by (induction s st t n d True rule: next_update_loop.induct)
    (auto simp: Let_def split: option.splits)

lemma next_update_loop_spec:
  assumes "t + n \<le> 255" "\<not> nr"
  shows "next_update_loop s st t n d nr =
    (case drop 1 (dropWhile (\<lambda>p. p \<noteq> st) (ota_slots s t n)) of
       p # _ \<Rightarrow> Some p
     | [] \<Rightarrow> (if d \<noteq> None then d else case ota_slots s t n of [] \<Rightarrow> None | p # _ \<Rightarrow> Some p))"
  using assms
proof (induction s st t n d nr rule: next_update_loop.induct)
  case (2 s st t n d nr)
  show ?case
  proof (cases "find_first s ESP_PARTITION_TYPE_APP t")
    case None
    with 2 show ?thesis by (auto split: list.split)
  next
    case (Some p)
    let ?d = "if d = None then Some p else d"
    show ?thesis
    proof (cases "p = st")
      case False
      then have "next_update_loop s st (t + 1) n ?d nr =
        (case drop 1 (dropWhile (\<lambda>p. p \<noteq> st) (ota_slots s (t + 1) n)) of
           p # _ \<Rightarrow> Some p
         | [] \<Rightarrow> (if ?d \<noteq> None then ?d else case ota_slots s (t + 1) n of [] \<Rightarrow> None | p # _ \<Rightarrow> Some p))"
        using "2.IH"(3) [OF Some refl False "2.prems"(2)] 2 by simp
      with Some False "2.prems" show ?thesis by (auto split: list.split)
    next
      case True
      have "t \<noteq> ESP_PARTITION_SUBTYPE_ANY" using "2.prems" by (simp add: part_consts)
      with Some True have "p_subtype st = t" using find_first_subtype by blast
      then have "st \<notin> set (ota_slots s (t + 1) n)"
        using ota_slots_subtype [of st s "t + 1" n] "2.prems" by auto
      then have "next_update_loop s st (t + 1) n ?d True =
          (case ota_slots s (t + 1) n of [] \<Rightarrow> ?d | p # _ \<Rightarrow> Some p)"
        by (rule next_update_loop_after) simp
      with Some True show ?thesis by (auto split: list.split)
    qed
  qed
qed simp

lemma next_update_is_slot_after:
  assumes "esp_ota_get_running_partition env s = Some run"
  shows "esp_ota_get_next_update_partition env s None = Some (slot_after (ota_slots s 16 16) run)"
proof -
  have "next_update_loop s run 16 16 None False = slot_after (ota_slots s 16 16) run"
    using next_update_loop_spec [of 16 16 False s run None]
    by (auto simp: slot_after_def split: list.splits)
  then show ?thesis
    using assms by (simp add: esp_ota_get_next_update_partition_def part_consts)
qed

lemma dropWhile_after_neq:
  assumes "distinct xs" "drop 1 (dropWhile (\<lambda>p. p \<noteq> st) xs) = y # ys"
  shows "y \<noteq> st \<and> y \<in> set xs"
proof -
  obtain z where z: "dropWhile (\<lambda>p. p \<noteq> st) xs = z # y # ys"
    using assms(2) by (cases "dropWhile (\<lambda>p. p \<noteq> st) xs") auto
  then have "z = st" using hd_dropWhile [of "\<lambda>p. p \<noteq> st" xs] by auto
  moreover have "distinct (z # y # ys)" using assms(1) z by (metis distinct_dropWhile)
  moreover have "y \<in> set xs" using z by (metis list.set_intros set_dropWhileD)
  ultimately show ?thesis by auto
qed

lemma ota_slots_distinct: "t + n \<le> 255 \<Longrightarrow> distinct (ota_slots s t n)"
proof (induction n arbitrary: t)
  case (Suc n)
  have "t \<noteq> ESP_PARTITION_SUBTYPE_ANY" using Suc.prems by (simp add: part_consts)
  then show ?case
    using Suc find_first_subtype [of s _ t] ota_slots_subtype [of _ s "t + 1" n]
    by (fastforce split: option.splits)
qed simp

text \<open>
  The slot offered for the next update is the cyclic successor of the running partition among the
  OTA slots of the table; it is an OTA application partition, and it is not the running partition as
  soon as the table has an OTA slot besides the running one.
\<close>

lemma next_update_partition_not_running:
  assumes run: "esp_ota_get_running_partition env s = Some run"
  shows "esp_ota_get_next_update_partition env s None = Some (slot_after (ota_slots s 16 16) run) \<and>
    (\<forall>p. slot_after (ota_slots s 16 16) run = Some p \<longrightarrow>
       is_ota_partition (Some p) \<and> ((\<exists>x \<in> set (ota_slots s 16 16). x \<noteq> run) \<longrightarrow> p \<noteq> run))"
proof -
  let ?l = "ota_slots s 16 16"
  have dist: "distinct ?l" by (rule ota_slots_distinct) simp
  have "is_ota_partition (Some p) \<and> ((\<exists>x \<in> set ?l. x \<noteq> run) \<longrightarrow> p \<noteq> run)"
    if "slot_after ?l run = Some p" for p
  proof (cases "drop 1 (dropWhile (\<lambda>p. p \<noteq> run) ?l)")
    case (Cons y ys)
    with that dropWhile_after_neq [OF dist Cons] ota_slots_subtype [of p s 16 16] show ?thesis
      by (auto simp: slot_after_def is_ota_partition_def part_consts)
  next
    case Nil
    with that obtain ys where l: "?l = p # ys" by (auto simp: slot_after_def split: list.splits)
    have "p \<noteq> run" if "x \<in> set ?l" "x \<noteq> run" for x
      using Nil l that by (auto split: if_splits)
    with l ota_slots_subtype [of p s 16 16] show ?thesis
      by (auto simp: is_ota_partition_def part_consts)
  qed
  with next_update_is_slot_after [OF run] show ?thesis by blast
qed

lemma demo_slots: "ota_slots (demo_sys c) 16 16 = [demo_app0, demo_app1]"
proof -
  have none: "find_first (demo_sys c) ESP_PARTITION_TYPE_APP k = None" if "18 \<le> k" "k < 255" for k
    using that by (simp add: find_first_def demo_sys_def esp_partition_find_first_def
        esp_partition_find_def part_matches_def demo_defs part_consts)
  have "ota_slots (demo_sys c) k n = []" if "18 \<le> k" "k + n < 255" for k n
    using that by (induction n arbitrary: k) (auto simp: none)
  from this [of 18 14] show ?thesis
    using ota_slots_simps(2) [of "demo_sys c" 16 15] ota_slots_simps(2) [of "demo_sys c" 17 14]
    by (simp add: demo_find)
qed

lemma next_update_partition_not_running_example:
  "esp_ota_get_next_update_partition demo_env (demo_sys []) None = Some (Some demo_app1) \<and>
   demo_app1 \<noteq> demo_app0"
proof -
  have "demo_app0 \<noteq> demo_app1" by (simp add: demo_defs)
  moreover from this have "slot_after (ota_slots (demo_sys []) 16 16) demo_app0 = Some demo_app1"
    by (simp add: slot_after_def demo_slots)
  ultimately show ?thesis using next_update_partition_not_running [OF demo_running [of "[]"]] by auto
qed

section \<open>Writing an image\<close>

text \<open>A client writes the image in chunks and stops at the first error.\<close>

fun ota_write_all :: "ota_env \<Rightarrow> ota_sys \<Rightarrow> u32 \<Rightarrow> bytes list \<Rightarrow> (esp_err \<times> ota_sys) option" where
  "ota_write_all env s h [] = Some (ESP_OK, s)"
| "ota_write_all env s h (c # cs) =
     (case esp_ota_write env s h (Some c) of
        None \<Rightarrow> None
      | Some (err, s1) \<Rightarrow> if err \<noteq> ESP_OK then Some (err, s1) else ota_write_all env s1 h cs)"

text \<open>
  The invariant of an update in progress: the entry of the handle counts the bytes written, they
  are in flash at the start of the slot, the rest of the slot is erased, and the image starts with
  the magic byte.
\<close>

definition image_so_far :: "ota_sys \<Rightarrow> u32 \<Rightarrow> esp_partition \<Rightarrow> bytes \<Rightarrow> bool" where
  "image_so_far s h p img \<longleftrightarrow>
     (\<exists>it. find_entry h (os_entries s) = Some it \<and> oe_part it = p \<and> oe_wrote_size it = length img \<and>
        oe_partial_bytes it = 0 \<and> oe_erased_size it = p_size p) \<and>
     0 < p_size p \<and> length img \<le> p_size p \<and>
     (\<forall>i < p_size p. fl_mem (os_chip s) (p_address p + i) = (if i < length img then img ! i else 255)) \<and>
     (img \<noteq> [] \<longrightarrow> hd img = ESP_IMAGE_HEADER_MAGIC)"

definition outside_same :: "esp_partition \<Rightarrow> ota_sys \<Rightarrow> ota_sys \<Rightarrow> bool" where
  "outside_same p s t \<longleftrightarrow> os_parts t = os_parts s \<and> fl_size (os_chip t) = fl_size (os_chip s) \<and>
     (\<forall>x. \<not> in_part p x \<longrightarrow> fl_mem (os_chip t) x = fl_mem (os_chip s) x)"

lemma outside_same_trans: "outside_same p s t \<Longrightarrow> outside_same p t u \<Longrightarrow> outside_same p s u"
  by (auto simp: outside_same_def)

lemma find_entry_handle: "find_entry h es = Some e \<Longrightarrow> oe_handle e = h"
  by (induction es) (auto split: if_splits)

lemma find_entry_upd [simp]:
  "find_entry h es = Some e \<Longrightarrow> oe_handle e' = h \<Longrightarrow> find_entry h (upd_entry h e' es) = Some e'"
  by (induction es) auto

lemma part_write_effect:
  assumes wf: "part_wf p" and sz: "off + length data < 2 ^ 32" "off \<le> p_size p"
    and w: "part_write env s p off data = Some (ESP_OK, t)"
  shows "t = s\<lparr>os_chip := os_chip t\<rparr> \<and> off + length data \<le> p_size p \<and> outside_same p s t \<and>
    (\<forall>i < p_size p. fl_mem (os_chip t) (p_address p + i) =
       (if off \<le> i \<and> i < off + length data
        then fl_mem (os_chip s) (p_address p + i) AND data ! (i - off)
        else fl_mem (os_chip s) (p_address p + i)))"
proof -
  obtain c where c: "esp_partition_write (os_prot env s) (direct_write env) (os_chip s) p off data = Some (ESP_OK, c)"
      and t: "t = s\<lparr>os_chip := c\<rparr>"
    using w by (auto simp: part_write_def)
  from esp_partition_write_cases [OF wf sz(1) c] have
    "(c = os_chip s \<and> data = []) \<or> (off + length data \<le> p_size p \<and>
       range_effect (os_chip s) (p_address p + off) (length data)
         (\<lambda>x old. old AND data ! (x - (p_address p + off))) (ESP_OK, c))" by auto
  then show ?thesis
  proof
    assume "c = os_chip s \<and> data = []"
    then show ?thesis using t sz by (auto simp: outside_same_def)
  next
    assume e: "off + length data \<le> p_size p \<and> range_effect (os_chip s) (p_address p + off) (length data)
      (\<lambda>x old. old AND data ! (x - (p_address p + off))) (ESP_OK, c)"
    then have "fl_mem c (p_address p + i) = (if off \<le> i \<and> i < off + length data
        then fl_mem (os_chip s) (p_address p + i) AND data ! (i - off)
        else fl_mem (os_chip s) (p_address p + i))" for i
      by (cases "i < off") (simp_all add: range_effect_def)
    with e t show ?thesis by (auto simp: outside_same_def range_effect_def in_part_def)
  qed
qed

lemma image_write_step:
  assumes inv: "image_so_far s h p img" and wf: "part_wf p" and enc: "\<not> flash_enc env"
    and sz: "p_size p + length data < 2 ^ 32"
    and w: "esp_ota_write env s h (Some data) = Some (ESP_OK, t)"
  shows "image_so_far t h p (img @ data) \<and> outside_same p s t"
proof -
  obtain it where it: "find_entry h (os_entries s) = Some it" "oe_part it = p"
      "oe_wrote_size it = length img" "oe_partial_bytes it = 0" "oe_erased_size it = p_size p"
    using inv by (auto simp: image_so_far_def)
  have img: "0 < p_size p" "length img \<le> p_size p"
      "\<forall>i < p_size p. fl_mem (os_chip s) (p_address p + i) = (if i < length img then img ! i else 255)"
      "img \<noteq> [] \<longrightarrow> hd img = ESP_IMAGE_HEADER_MAGIC"
    using inv by (auto simp: image_so_far_def)
  have magic: "img = [] \<and> data \<noteq> [] \<longrightarrow> hd data = ESP_IMAGE_HEADER_MAGIC"
    using w it enc img(1) by (auto simp: esp_ota_write_def hd_conv_nth split: if_splits)
  have "ota_write_tail env s it data = Some (ESP_OK, t)"
    using w it enc img(1) by (simp add: esp_ota_write_def split: if_splits)
  then obtain u where u: "part_write env s p (length img) data = Some (ESP_OK, u)"
      and t: "t = set_entry u (it\<lparr>oe_wrote_size := add32 (length img) (length data)\<rparr>)"
    using it by (auto simp: ota_write_tail_def split: option.splits if_splits)
  have "length img + length data < 2 ^ 32" using img(2) sz by simp
  note eff = part_write_effect [OF wf this img(2) u]
  have ent: "os_entries u = os_entries s" using eff by (metis ota_sys.select_convs(3) ota_sys.surjective ota_sys.update_convs(1))
  have "find_entry h (os_entries t) = Some (it\<lparr>oe_wrote_size := length img + length data\<rparr>)"
    using it ent t find_entry_handle [OF it(1)] img(2) sz by (simp add: set_entry_def)
  moreover have "os_chip t = os_chip u" "os_parts t = os_parts u" using t by (simp_all add: set_entry_def)
  ultimately show ?thesis
    using it img eff magic
    by (auto simp: image_so_far_def outside_same_def nth_append hd_append)
qed

lemma image_write_all:
  assumes "image_so_far s h p img" "part_wf p" "\<not> flash_enc env"
    and "\<forall>c \<in> set cs. p_size p + length c < 2 ^ 32"
    and "ota_write_all env s h cs = Some (ESP_OK, t)"
  shows "image_so_far t h p (img @ concat cs) \<and> outside_same p s t"
  using assms
proof (induction cs arbitrary: s img)
  case Nil
  then show ?case by (simp add: outside_same_def)
next
  case (Cons c cs)
  then obtain s1 where s1: "esp_ota_write env s h (Some c) = Some (ESP_OK, s1)"
      "ota_write_all env s1 h cs = Some (ESP_OK, t)"
    by (auto split: option.splits if_splits)
  have step: "image_so_far s1 h p (img @ c) \<and> outside_same p s s1"
    using image_write_step [OF Cons.prems(1-3) _ s1(1)] Cons.prems(4) by simp
  with Cons.IH [of s1 "img @ c"] Cons.prems s1 outside_same_trans show ?case by auto
qed

lemma ota_begin_effect:
  assumes "esp_partition_verify (os_parts s) q = Some p" "part_wf p" "0 < p_size p"
    and "sz = 0 \<or> sz = OTA_SIZE_UNKNOWN"
    and b: "esp_ota_begin env s (Some q) sz = Some (ESP_OK, t)"
  shows "image_so_far t (os_last_handle t) p [] \<and> outside_same p s t \<and> is_ota_partition (Some p) \<and>
    esp_ota_get_running_partition env s \<noteq> Some p"
proof -
  obtain u where ota: "is_ota_partition (Some p)" "esp_ota_get_running_partition env s \<noteq> Some p"
      and u: "part_erase env s p 0 (p_size p) = Some (ESP_OK, u)"
      and t: "t = u\<lparr>os_entries := \<lparr>oe_handle = os_last_handle u + 1, oe_part = p,
        oe_erased_size = p_size p, oe_wrote_size = 0, oe_partial_bytes = 0,
        oe_partial_data = replicate 16 0\<rparr> # os_entries u, os_last_handle := os_last_handle u + 1\<rparr>"
    using assms(1,4) b
    by (auto simp: esp_ota_begin_def Let_def split: option.splits if_splits)
  have "0 + p_size p < 2 ^ 32" using assms(2) by (simp add: part_wf_def)
  moreover obtain c where c: "esp_partition_erase_range (os_prot env s) (os_chip s) p 0 (p_size p) = Some (ESP_OK, c)"
      "u = s\<lparr>os_chip := c\<rparr>"
    using u by (auto simp: part_erase_def)
  ultimately have "range_effect (os_chip s) (p_address p) (p_size p) (\<lambda>_ _. 255) (ESP_OK, c)"
    using esp_partition_erase_cases [OF assms(2) _ c(1)] by auto
  with t c(2) ota assms(3) show ?thesis
    by (auto simp: image_so_far_def outside_same_def range_effect_def in_part_def)
qed

lemma ota_end_effect:
  assumes "image_so_far s h p img" "esp_ota_end env s h = Some (ESP_OK, t)"
  shows "img \<noteq> [] \<and> t = s\<lparr>os_entries := del_entry h (os_entries s)\<rparr> \<and>
    image_verify env (os_chip t) (p_address p) (p_size p)"
  using assms by (auto simp: image_so_far_def esp_ota_end_def Let_def split: if_splits)


section \<open>An update succeeds\<close>

text \<open>A slot that can be written: whole sectors on the chip, away from the table and the running code.\<close>

definition slot_usable :: "ota_env \<Rightarrow> ota_sys \<Rightarrow> esp_partition \<Rightarrow> bool" where
  "slot_usable env s p \<longleftrightarrow>
     part_wf p \<and> 0 < p_size p \<and> \<not> p_encrypted p \<and> p_address p mod SPI_FLASH_SEC_SIZE = 0 \<and>
     p_size p mod SPI_FLASH_SEC_SIZE = 0 \<and> p_address p + p_size p \<le> fl_size (os_chip s) \<and>
     ESP_PARTITION_TABLE_OFFSET + ESP_PARTITION_TABLE_MAX_LEN < p_address p \<and>
     (case esp_ota_get_running_partition env s of
        None \<Rightarrow> False
      | Some r \<Rightarrow> r \<noteq> p \<and> part_wf r \<and>
          (p_address p + p_size p \<le> p_address r \<or> p_address r + p_size r \<le> p_address p))"

lemma slot_usable_cong: "outside_same p s t \<Longrightarrow> slot_usable env s p \<Longrightarrow> slot_usable env t p"
  by (simp add: slot_usable_def outside_same_def esp_ota_get_running_partition_def)

lemma slot_not_protected:
  assumes "slot_usable env s p" "off + n \<le> p_size p" "0 < n"
  shows "\<not> os_prot env s (p_address p + off) n"
  using assms by (auto simp: slot_usable_def os_prot_def main_flash_region_protected_def
      esp_partition_main_flash_region_safe_def part_wf_def split: option.splits)

lemma image_write_succeeds:
  assumes inv: "image_so_far s h p img" and us: "slot_usable env s p" and enc: "\<not> flash_enc env"
    and cmds: "fl_cmds (os_chip s) = []" and fits: "length img + length data \<le> p_size p"
    and magic: "img @ data \<noteq> [] \<longrightarrow> hd (img @ data) = ESP_IMAGE_HEADER_MAGIC"
  shows "\<exists>t. esp_ota_write env s h (Some data) = Some (ESP_OK, t) \<and> fl_cmds (os_chip t) = []"
proof -
  obtain it where it: "find_entry h (os_entries s) = Some it" "oe_part it = p"
      "oe_wrote_size it = length img" "oe_partial_bytes it = 0" "oe_erased_size it = p_size p"
    using inv by (auto simp: image_so_far_def)
  have p: "part_wf p" "\<not> p_encrypted p" "0 < p_size p" "p_address p + p_size p \<le> fl_size (os_chip s)"
    using us by (auto simp: slot_usable_def)
  let ?a = "p_address p + length img"
  have "\<exists>c. esp_partition_write (os_prot env s) (direct_write env) (os_chip s) p (length img) data =
      Some (ESP_OK, c) \<and> fl_cmds c = []"
  proof (cases "data = []")
    case True
    then show ?thesis using p fits cmds
      by (simp add: esp_partition_write_def esp_flash_write_def part_wf_def)
  next
    case False
    obtain err c where w: "write_loop (direct_write env) (os_chip s) data ?a = (err, c)" by force
    have "range_effect (os_chip s) ?a (length data) (\<lambda>x old. old AND data ! (x - ?a)) (err, c)"
      using write_loop_effect [of "os_chip s" ?a data "direct_write env"] w by simp
    then have "err = ESP_OK" "fl_cmds c = []" using cmds by (auto simp: range_effect_def)
    moreover have "\<not> os_prot env s ?a (length data)" using slot_not_protected [OF us fits] False by simp
    ultimately show ?thesis
      using w esp_partition_write_reaches [OF p(1,2) fits False, of "os_prot env s" "os_chip s"] p(4) by simp
  qed
  then obtain c where c: "part_write env s p (length img) data = Some (ESP_OK, s\<lparr>os_chip := c\<rparr>)"
      "fl_cmds c = []"
    by (auto simp: part_write_def)
  have "\<not> (length img = 0 \<and> 0 < length data \<and> data ! 0 \<noteq> ESP_IMAGE_HEADER_MAGIC)"
    using magic by (auto simp: hd_conv_nth)
  with it c enc p(3) show ?thesis
    by (auto simp: esp_ota_write_def ota_write_tail_def set_entry_def)
qed

lemma image_write_all_succeeds:
  assumes "image_so_far s h p img" "slot_usable env s p" "\<not> flash_enc env" "fl_cmds (os_chip s) = []"
    and "length (img @ concat cs) \<le> p_size p" "\<forall>c \<in> set cs. p_size p + length c < 2 ^ 32"
    and "img @ concat cs \<noteq> [] \<longrightarrow> hd (img @ concat cs) = ESP_IMAGE_HEADER_MAGIC"
  shows "\<exists>t. ota_write_all env s h cs = Some (ESP_OK, t) \<and> fl_cmds (os_chip t) = []"
  using assms
proof (induction cs arbitrary: s img)
  case (Cons c cs)
  have "img @ c \<noteq> [] \<longrightarrow> hd (img @ c) = ESP_IMAGE_HEADER_MAGIC"
    using Cons.prems(7) by (auto simp: hd_append split: if_splits)
  then obtain s1 where s1: "esp_ota_write env s h (Some c) = Some (ESP_OK, s1)" "fl_cmds (os_chip s1) = []"
    using image_write_succeeds [OF Cons.prems(1-4), of c] Cons.prems(5) by auto
  have wf: "part_wf p" using Cons.prems(2) by (simp add: slot_usable_def)
  have step: "image_so_far s1 h p (img @ c)" "outside_same p s s1"
    using image_write_step [OF Cons.prems(1) wf Cons.prems(3) _ s1(1)] Cons.prems(6) by simp_all
  have "\<exists>t. ota_write_all env s1 h cs = Some (ESP_OK, t) \<and> fl_cmds (os_chip t) = []"
    using Cons.prems by (intro Cons.IH [OF step(1) slot_usable_cong [OF step(2)] _ s1(2)]) auto
  with s1(1) show ?case by simp
qed simp

lemma ota_begin_succeeds:
  assumes "esp_partition_verify (os_parts s) q = Some p" "slot_usable env s p" "is_ota_partition (Some p)"
    and "fl_cmds (os_chip s) = []" "calloc_ok env"
  shows "\<exists>t. esp_ota_begin env s (Some q) OTA_SIZE_UNKNOWN = Some (ESP_OK, t) \<and> fl_cmds (os_chip t) = []"
proof -
  have p: "part_wf p" "p_address p mod SPI_FLASH_SEC_SIZE = 0" "p_size p mod SPI_FLASH_SEC_SIZE = 0"
      "p_address p + p_size p \<le> fl_size (os_chip s)" "0 < p_size p"
    using assms(2) by (auto simp: slot_usable_def)
  obtain r where r: "esp_ota_get_running_partition env s = Some r" "r \<noteq> p"
    using assms(2) by (auto simp: slot_usable_def split: option.splits)
  obtain err c where e: "erase_loop (os_chip s) (p_address p) (p_size p) = (err, c)" by force
  have "range_effect (os_chip s) (p_address p) (p_size p) (\<lambda>_ _. 255) (err, c)"
    using erase_loop_effect [OF p(3), of "os_chip s" "p_address p"] e by simp
  then have ok: "err = ESP_OK" "fl_cmds c = []" using assms(4) by (auto simp: range_effect_def)
  have "part_erase env s p 0 (p_size p) = Some (ESP_OK, s\<lparr>os_chip := c\<rparr>)"
    using esp_partition_erase_reaches [OF p(1) _ _ p(3,2) _ p(4), of 0 "os_prot env s"]
      slot_not_protected [OF assms(2), of 0 "p_size p"] p(5) e ok(1)
    by (simp add: part_erase_def)
  with assms r ok(2) show ?thesis by (simp add: esp_ota_begin_def Let_def)
qed

text \<open>
  C10: an update of a usable slot completes. If the image fits, starts with the magic byte, is
  accepted by the verification once it is in the slot, memory is available and no flash command
  fails, then begin, every write and end all report success, for any split into chunks.
\<close>

theorem ota_update_succeeds:
  assumes "esp_partition_verify (os_parts s) q = Some p" "slot_usable env s p" "is_ota_partition (Some p)"
    and "fl_cmds (os_chip s) = []" "calloc_ok env" "\<not> flash_enc env"
    and fits: "length (concat cs) \<le> p_size p" "\<forall>c \<in> set cs. p_size p + length c < 2 ^ 32"
    and magic: "concat cs \<noteq> []" "hd (concat cs) = ESP_IMAGE_HEADER_MAGIC"
    and ver: "\<forall>c. fl_bytes c (p_address p) (p_size p) =
        concat cs @ replicate (p_size p - length (concat cs)) 255 \<longrightarrow>
      image_verify env c (p_address p) (p_size p)"
  shows "\<exists>s0 s1 s2. esp_ota_begin env s (Some q) OTA_SIZE_UNKNOWN = Some (ESP_OK, s0) \<and>
    ota_write_all env s0 (os_last_handle s0) cs = Some (ESP_OK, s1) \<and>
    esp_ota_end env s1 (os_last_handle s0) = Some (ESP_OK, s2)"
proof -
  have p: "part_wf p" "0 < p_size p" using assms(2) by (auto simp: slot_usable_def)
  obtain s0 where s0: "esp_ota_begin env s (Some q) OTA_SIZE_UNKNOWN = Some (ESP_OK, s0)" "fl_cmds (os_chip s0) = []"
    using ota_begin_succeeds [OF assms(1-5)] by blast
  have b: "image_so_far s0 (os_last_handle s0) p []" "outside_same p s s0"
    using ota_begin_effect [OF assms(1) p disjI2 [OF refl] s0(1)] by auto
  obtain s1 where s1: "ota_write_all env s0 (os_last_handle s0) cs = Some (ESP_OK, s1)"
    using image_write_all_succeeds [OF b(1) slot_usable_cong [OF b(2) assms(2)] assms(6) s0(2)] fits magic
    by auto
  have w: "image_so_far s1 (os_last_handle s0) p (concat cs)"
    using image_write_all [OF b(1) p(1) assms(6) fits(2) s1] by simp
  have "fl_bytes (os_chip s1) (p_address p) (p_size p) = concat cs @ replicate (p_size p - length (concat cs)) 255"
    using w by (intro nth_equalityI) (auto simp: image_so_far_def nth_append)
  with ver have "image_verify env (os_chip s1) (p_address p) (p_size p)" by blast
  moreover obtain it where "find_entry (os_last_handle s0) (os_entries s1) = Some it" "oe_part it = p"
      "oe_wrote_size it = length (concat cs)" "oe_partial_bytes it = 0" "oe_erased_size it = p_size p"
    using w by (auto simp: image_so_far_def)
  ultimately have "\<exists>s2. esp_ota_end env s1 (os_last_handle s0) = Some (ESP_OK, s2)"
    using p(2) magic(1) by (auto simp: esp_ota_end_def)
  with s0(1) s1 show ?thesis by blast
qed

section \<open>Witnesses\<close>

definition demo_image :: "bytes list" where "demo_image = [[233, 1], [], [2, 3, 4]]"

lemma demo_slot_usable:
  "esp_partition_verify (os_parts (demo_sys c)) demo_app1 = Some demo_app1"
  "slot_usable demo_env (demo_sys c) demo_app1" "is_ota_partition (Some demo_app1)"
  "\<forall>x \<in> set demo_image. p_size demo_app1 + length x < 2 ^ 32"
  by (simp add: demo_sys_def esp_partition_verify_def part_matches_def demo_defs part_consts)
    (simp add: slot_usable_def demo_running,
      simp_all add: demo_sys_def demo_defs part_wf_def part_consts flash_consts is_ota_partition_def demo_image_def)

theorem ota_update_succeeds_witness:
  "\<exists>s0 s1 s2. esp_ota_begin demo_env (demo_sys []) (Some demo_app1) OTA_SIZE_UNKNOWN = Some (ESP_OK, s0) \<and>
    ota_write_all demo_env s0 (os_last_handle s0) demo_image = Some (ESP_OK, s1) \<and>
    esp_ota_end demo_env s1 (os_last_handle s0) = Some (ESP_OK, s2)"
proof (rule ota_update_succeeds [OF demo_slot_usable(1-3) _ _ _ _ demo_slot_usable(4)])
  show "fl_cmds (os_chip (demo_sys [])) = []" by (simp add: demo_sys_def)
qed (simp_all add: demo_env_def demo_image_def demo_defs ESP_IMAGE_HEADER_MAGIC_def)

lemma demo_update:
  "\<exists>s0 s1 s2. esp_ota_begin demo_env (demo_sys []) (Some demo_app1) OTA_SIZE_UNKNOWN = Some (ESP_OK, s0) \<and>
    ota_write_all demo_env s0 (os_last_handle s0) demo_image = Some (ESP_OK, s1) \<and>
    esp_ota_end demo_env s1 (os_last_handle s0) = Some (ESP_OK, s2)"
proof -
  have env: "calloc_ok demo_env" "\<not> flash_enc demo_env" "\<And>c a n. image_verify demo_env c a n"
    by (simp_all add: demo_env_def)
  have p: "part_wf demo_app1" "0 < p_size demo_app1" by (simp_all add: demo_defs part_wf_def)
  obtain s0 where s0: "esp_ota_begin demo_env (demo_sys []) (Some demo_app1) OTA_SIZE_UNKNOWN = Some (ESP_OK, s0)"
      "fl_cmds (os_chip s0) = []"
    using ota_begin_succeeds [OF demo_slot_usable(1-3) _ env(1), of "[]"] by (auto simp: demo_sys_def)
  have b: "image_so_far s0 (os_last_handle s0) demo_app1 []" "outside_same demo_app1 (demo_sys []) s0"
    using ota_begin_effect [OF demo_slot_usable(1) p disjI2 [OF refl] s0(1)] by auto
  obtain s1 where s1: "ota_write_all demo_env s0 (os_last_handle s0) demo_image = Some (ESP_OK, s1)"
    using image_write_all_succeeds [OF b(1) slot_usable_cong [OF b(2) demo_slot_usable(2)] env(2) s0(2) _ demo_slot_usable(4)]
    by (auto simp: demo_image_def demo_defs ESP_IMAGE_HEADER_MAGIC_def)
  have "image_so_far s1 (os_last_handle s0) demo_app1 (concat demo_image)"
    using image_write_all [OF b(1) p(1) env(2) demo_slot_usable(4) s1] by simp
  then have "\<exists>s2. esp_ota_end demo_env s1 (os_last_handle s0) = Some (ESP_OK, s2)"
    using env(3) by (auto simp: image_so_far_def esp_ota_end_def demo_image_def)
  with s0(1) s1 show ?thesis by blast
qed


end
