(* ===== verification/Bootloader.thy ===== *)
theory Bootloader
  imports Ota_Update
begin

text \<open>
  The second stage bootloader (\<^verbatim>\<open>bootloader_support/src/bootloader_utility.c\<close>,
  \<^verbatim>\<open>flash_partitions.c\<close>, \<^verbatim>\<open>bootloader_flash.c\<close>): verification of the partition
  table, the state built from it, the choice of the boot slot, the search for a bootable image and the
  first OTA entry that it writes on a device without one. The code of the chip's ROM (MD5, checksum,
  encrypted writes) and the image loader are parameters; the configuration is that of the product
  (no rollback monitoring, no anti-rollback, no fast boot after deep sleep).
\<close>

section \<open>State and environment\<close>

record esp_partition_pos =
  pos_offset :: u32
  pos_size :: u32

record bootloader_state =
  bs_ota_info :: esp_partition_pos
  bs_factory :: esp_partition_pos
  bs_test :: esp_partition_pos
  bs_ota :: "esp_partition_pos list"
  bs_app_count :: nat

record boot_env =
  rom_md5 :: "bytes \<Rightarrow> bytes"
  rom_crc32_le :: "u32 \<Rightarrow> bytes \<Rightarrow> u32"
  bootloader_mmap :: "u32 \<Rightarrow> u32 \<Rightarrow> bool"
  bootloader_load_image :: "flash_chip \<Rightarrow> esp_partition_pos \<Rightarrow> bool"
  flash_encryption_enabled :: bool
  rom_write_encrypted :: "flash_chip \<Rightarrow> nat \<Rightarrow> bytes \<Rightarrow> esp_err \<times> flash_chip"

definition no_pos :: esp_partition_pos where "no_pos = \<lparr>pos_offset = 0, pos_size = 0\<rparr>"

definition MAX_OTA_SLOTS :: nat where "MAX_OTA_SLOTS = 16"
definition FACTORY_INDEX :: int where "FACTORY_INDEX = -1"
definition TEST_APP_INDEX :: int where "TEST_APP_INDEX = -2"
definition INVALID_INDEX :: int where "INVALID_INDEX = -99"
definition ESP_PARTITION_MAGIC_MD5 :: u16 where "ESP_PARTITION_MAGIC_MD5 = 0xEBEB"
definition ESP_PARTITION_TABLE_MAX_ENTRIES :: nat where
  "ESP_PARTITION_TABLE_MAX_ENTRIES = ESP_PARTITION_TABLE_MAX_LEN div 32"

lemmas boot_consts = MAX_OTA_SLOTS_def FACTORY_INDEX_def TEST_APP_INDEX_def INVALID_INDEX_def
  ESP_PARTITION_MAGIC_MD5_def ESP_PARTITION_TABLE_MAX_ENTRIES_def

definition info_pos :: "esp_partition_info \<Rightarrow> esp_partition_pos" where
  "info_pos i = \<lparr>pos_offset = pi_offset i, pos_size = pi_size i\<rparr>"

definition table_entry :: "flash_chip \<Rightarrow> nat \<Rightarrow> bytes" where
  "table_entry c k = fl_bytes c (ESP_PARTITION_TABLE_OFFSET + 32 * k) 32"

abbreviation table_info :: "flash_chip \<Rightarrow> nat \<Rightarrow> esp_partition_info" where
  "table_info c k \<equiv> partition_info_of (table_entry c k)"

section \<open>The partition table\<close>

text \<open>
  The loop of \<^verbatim>\<open>esp_partition_table_verify\<close> from entry \<open>k\<close> on, with \<open>n\<close> entries to go. The
  result is an error or the number of partitions. Offsets and sizes are added with 32 bits.
\<close>

fun table_verify_loop :: "boot_env \<Rightarrow> flash_chip \<Rightarrow> nat \<Rightarrow> nat \<Rightarrow> nat \<Rightarrow> esp_err + nat" where
  "table_verify_loop env c k md5_found 0 = Inl ESP_ERR_INVALID_STATE"
| "table_verify_loop env c k md5_found (Suc n) =
     (let part = table_info c k in
      if pi_magic part = ESP_PARTITION_MAGIC then
        if fl_size c < unat (pi_offset part) \<or> fl_size c < unat (pi_offset part + pi_size part)
        then Inl ESP_ERR_INVALID_SIZE
        else table_verify_loop env c (k + 1) md5_found n
      else if pi_magic part = ESP_PARTITION_MAGIC_MD5 then
        if md5_found \<noteq> 0 then Inl ESP_ERR_INVALID_STATE
        else if take 16 (drop 16 (table_entry c k)) \<noteq>
            rom_md5 env (fl_bytes c ESP_PARTITION_TABLE_OFFSET (k * 32))
          then Inl ESP_ERR_INVALID_STATE
        else table_verify_loop env c (k + 1) 1 n
      else if pi_magic part = 0xFFFF \<and> pi_type part = 0xFF \<and> pi_subtype part = 0xFF
        then Inr (k - md5_found)
      else Inl ESP_ERR_INVALID_STATE)"

definition esp_partition_table_verify :: "boot_env \<Rightarrow> flash_chip \<Rightarrow> esp_err + nat" where
  "esp_partition_table_verify env c = table_verify_loop env c 0 0 ESP_PARTITION_TABLE_MAX_ENTRIES"

text \<open>One entry of the table: the body of the loop of \<^verbatim>\<open>bootloader_utility_load_partition_table\<close>.\<close>

definition load_table_entry :: "esp_partition_info \<Rightarrow> bootloader_state \<Rightarrow> bootloader_state" where
  "load_table_entry part bs =
     (if pi_type part = 0 then
        if pi_subtype part = 0 then bs\<lparr>bs_factory := info_pos part\<rparr>
        else if pi_subtype part = 0x20 then bs\<lparr>bs_test := info_pos part\<rparr>
        else if pi_subtype part AND NOT 0x0F = 0x10 then
          bs\<lparr>bs_ota := (bs_ota bs)[unat (pi_subtype part AND 0x0F) := info_pos part],
             bs_app_count := bs_app_count bs + 1\<rparr>
        else bs
      else if pi_type part = 1 \<and> pi_subtype part = 0 then bs\<lparr>bs_ota_info := info_pos part\<rparr>
      else bs)"

definition bootloader_utility_load_partition_table ::
  "boot_env \<Rightarrow> flash_chip \<Rightarrow> bootloader_state \<Rightarrow> bootloader_state option" where
  "bootloader_utility_load_partition_table env c bs =
     (if \<not> bootloader_mmap env (of_nat ESP_PARTITION_TABLE_OFFSET) (of_nat ESP_PARTITION_TABLE_MAX_LEN)
      then None
      else case esp_partition_table_verify env c of
             Inl err \<Rightarrow> None
           | Inr n \<Rightarrow> Some (fold load_table_entry (map (table_info c) [0..<n]) bs))"

text \<open>The state that the caller passes is zeroed.\<close>

definition bs_zero :: bootloader_state where
  "bs_zero = \<lparr>bs_ota_info = no_pos, bs_factory = no_pos, bs_test = no_pos,
     bs_ota = replicate MAX_OTA_SLOTS no_pos, bs_app_count = 0\<rparr>"

section \<open>The choice of the boot partition\<close>

definition boot_read_otadata ::
  "boot_env \<Rightarrow> flash_chip \<Rightarrow> esp_partition_pos \<Rightarrow> esp_err + esp_ota_select_entry list" where
  "boot_read_otadata env c ota_info =
     (if pos_offset ota_info = 0 then Inl ESP_ERR_NOT_FOUND
      else if unat (pos_size ota_info) < 2 * SPI_FLASH_SEC_SIZE then Inl ESP_FAIL
      else if \<not> bootloader_mmap env (pos_offset ota_info) (pos_size ota_info) then Inl ESP_FAIL
      else Inr (otadata_at c (unat (pos_offset ota_info))))"

definition index_to_partition :: "bootloader_state \<Rightarrow> int \<Rightarrow> esp_partition_pos" where
  "index_to_partition bs index =
     (if index = FACTORY_INDEX then bs_factory bs
      else if index = TEST_APP_INDEX then bs_test bs
      else if 0 \<le> index \<and> index < int MAX_OTA_SLOTS \<and> index < int (bs_app_count bs)
        then bs_ota bs ! nat index
      else no_pos)"

text \<open>
  The selected index, and the new value of the static flag \<^verbatim>\<open>ota_has_initial_contents\<close>
  (unchanged on the early returns).
\<close>

definition bootloader_utility_get_selected_boot_partition ::
  "boot_env \<Rightarrow> flash_chip \<Rightarrow> bootloader_state \<Rightarrow> bool \<Rightarrow> int \<times> bool" where
  "bootloader_utility_get_selected_boot_partition env c bs ini =
     (if pos_offset (bs_ota_info bs) = 0 then (FACTORY_INDEX, ini)
      else case boot_read_otadata env c (bs_ota_info bs) of
        Inl err \<Rightarrow> (INVALID_INDEX, ini)
      | Inr otadata \<Rightarrow>
          let empty = (\<lambda>e. ota_seq e = UINT32_MAX
                \<or> ota_crc e \<noteq> bootloader_common_ota_select_crc (rom_crc32_le env) e)
          in if (bootloader_common_ota_select_invalid (otadata ! 0)
                 \<and> bootloader_common_ota_select_invalid (otadata ! 1)) \<or> bs_app_count bs = 0 then
               if pos_offset (bs_factory bs) \<noteq> 0 then (FACTORY_INDEX, False)
               else (0, empty (otadata ! 0) \<and> empty (otadata ! 1))
             else
               let active_otadata = bootloader_common_get_active_otadata (rom_crc32_le env) (Some otadata)
               in if active_otadata \<noteq> -1
                  then (int (seq_slot (ota_seq (otadata ! nat active_otadata)) (bs_app_count bs)), False)
                  else (FACTORY_INDEX, False))"

section \<open>Booting\<close>

definition bootloader_flash_erase_sector :: "flash_chip \<Rightarrow> nat \<Rightarrow> esp_err \<times> flash_chip" where
  "bootloader_flash_erase_sector c sector = chip_erase c (sector * SPI_FLASH_SEC_SIZE) SPI_FLASH_SEC_SIZE"

definition bootloader_flash_write ::
  "boot_env \<Rightarrow> flash_chip \<Rightarrow> nat \<Rightarrow> bytes \<Rightarrow> bool \<Rightarrow> esp_err \<times> flash_chip" where
  "bootloader_flash_write env c dest_addr src write_encrypted =
     (let alignment = (if write_encrypted then 32 else 4)
      in if dest_addr mod alignment \<noteq> 0 then (ESP_FAIL, c)
         else if length src mod alignment \<noteq> 0 then (ESP_FAIL, c)
         else if write_encrypted then rom_write_encrypted env c dest_addr src
         else chip_program c dest_addr src)"

definition write_otadata ::
  "boot_env \<Rightarrow> flash_chip \<Rightarrow> esp_ota_select_entry \<Rightarrow> nat \<Rightarrow> bool \<Rightarrow> esp_err \<times> flash_chip" where
  "write_otadata env c otadata offset write_encrypted =
     (case bootloader_flash_erase_sector c (offset div SPI_FLASH_SEC_SIZE) of
        (err, c1) \<Rightarrow>
          if err = ESP_OK then bootloader_flash_write env c1 offset (bytes_of_entry otadata) write_encrypted
          else (err, c1))"

definition try_load_partition :: "boot_env \<Rightarrow> flash_chip \<Rightarrow> esp_partition_pos \<Rightarrow> bool" where
  "try_load_partition env c pos \<longleftrightarrow> pos_size pos \<noteq> 0 \<and> bootloader_load_image env c pos"

text \<open>The first entry of a device: sequence number \<open>index + 1\<close>, marked valid.\<close>

definition initial_entry :: "boot_env \<Rightarrow> int \<Rightarrow> esp_ota_select_entry" where
  "initial_entry env index =
     \<lparr>ota_seq = of_int (index + 1), seq_label = replicate 20 255, ota_state = ESP_OTA_IMG_VALID,
      ota_crc = rom_crc32_le env UINT32_MAX (le32 (of_int (index + 1)))\<rparr>"

definition set_actual_ota_seq ::
  "boot_env \<Rightarrow> flash_chip \<Rightarrow> bootloader_state \<Rightarrow> bool \<Rightarrow> int \<Rightarrow> flash_chip" where
  "set_actual_ota_seq env c bs ini index =
     (if FACTORY_INDEX < index \<and> ini
      then snd (write_otadata env c (initial_entry env index) (unat (pos_offset (bs_ota_info bs)))
             (flash_encryption_enabled env))
      else c)"

text \<open>
  The image search either starts an application (from a position of the table, with the flash as it
  was left) or resets the chip.
\<close>

datatype boot_outcome = Boots esp_partition_pos flash_chip | Resets

definition boot_try :: "boot_env \<Rightarrow> flash_chip \<Rightarrow> bootloader_state \<Rightarrow> bool \<Rightarrow> int \<Rightarrow> boot_outcome option" where
  "boot_try env c bs ini index =
     (let part = index_to_partition bs index
      in if pos_size part = 0 then None
         else if try_load_partition env c part
           then Some (Boots part (set_actual_ota_seq env c bs ini index))
         else None)"

function boot_backward ::
  "boot_env \<Rightarrow> flash_chip \<Rightarrow> bootloader_state \<Rightarrow> bool \<Rightarrow> int \<Rightarrow> boot_outcome option" where
  "boot_backward env c bs ini index =
     (if FACTORY_INDEX \<le> index then
        case boot_try env c bs ini index of
          Some r \<Rightarrow> Some r
        | None \<Rightarrow> boot_backward env c bs ini (index - 1)
      else None)"
  by pat_completeness auto
termination
  by (relation "measure (\<lambda>(env, c, bs, ini, i). nat (i + 2))") (auto simp: boot_consts)

declare boot_backward.simps [simp del]

text \<open>The comparison of the source is unsigned: a negative index is not less than the count.\<close>

function boot_forward ::
  "boot_env \<Rightarrow> flash_chip \<Rightarrow> bootloader_state \<Rightarrow> bool \<Rightarrow> int \<Rightarrow> boot_outcome option" where
  "boot_forward env c bs ini index =
     (if 0 \<le> index \<and> index < int (bs_app_count bs) then
        case boot_try env c bs ini index of
          Some r \<Rightarrow> Some r
        | None \<Rightarrow> boot_forward env c bs ini (index + 1)
      else None)"
  by pat_completeness auto
termination
  by (relation "measure (\<lambda>(env, c, bs, ini, i). nat (int (bs_app_count bs) - i))") auto

declare boot_forward.simps [simp del]

definition bootloader_utility_load_boot_image ::
  "boot_env \<Rightarrow> flash_chip \<Rightarrow> bootloader_state \<Rightarrow> bool \<Rightarrow> int \<Rightarrow> boot_outcome" where
  "bootloader_utility_load_boot_image env c bs ini start_index =
     (if start_index = TEST_APP_INDEX then
        if try_load_partition env c (bs_test bs) then Boots (bs_test bs) c else Resets
      else case boot_backward env c bs ini start_index of
        Some r \<Rightarrow> r
      | None \<Rightarrow>
          (case boot_forward env c bs ini (start_index + 1) of
             Some r \<Rightarrow> r
           | None \<Rightarrow>
               if try_load_partition env c (bs_test bs) then Boots (bs_test bs) c else Resets))"

section \<open>The search for a bootable image\<close>

lemma boot_backward_None:
  "boot_backward env c bs ini i = None \<Longrightarrow> FACTORY_INDEX \<le> k \<Longrightarrow> k \<le> i \<Longrightarrow> boot_try env c bs ini k = None"
proof (induction env c bs ini i rule: boot_backward.induct)
  case (1 env c bs ini i)
  have i: "FACTORY_INDEX \<le> i" using "1.prems" by simp
  then have t: "boot_try env c bs ini i = None" "boot_backward env c bs ini (i - 1) = None"
    using "1.prems"(1) by (simp_all add: boot_backward.simps [of env c bs ini i] split: option.splits)
  show ?case
  proof (cases "k = i")
    case False
    with "1.prems" show ?thesis by (intro "1.IH" [OF i t(1,2)]) simp_all
  qed (simp add: t)
qed

lemma boot_backward_Some:
  "boot_backward env c bs ini i = Some r \<Longrightarrow>
     \<exists>k. FACTORY_INDEX \<le> k \<and> k \<le> i \<and> boot_try env c bs ini k = Some r
       \<and> (\<forall>j. k < j \<and> j \<le> i \<longrightarrow> boot_try env c bs ini j = None)"
proof (induction env c bs ini i rule: boot_backward.induct)
  case (1 env c bs ini i)
  have i: "FACTORY_INDEX \<le> i"
    using "1.prems" by (simp add: boot_backward.simps [of env c bs ini i] split: if_splits)
  show ?case
  proof (cases "boot_try env c bs ini i")
    case None
    then have "boot_backward env c bs ini (i - 1) = Some r"
      using "1.prems" i by (simp add: boot_backward.simps [of env c bs ini i])
    then obtain k where k: "FACTORY_INDEX \<le> k" "k \<le> i - 1" "boot_try env c bs ini k = Some r"
        "\<forall>j. k < j \<and> j \<le> i - 1 \<longrightarrow> boot_try env c bs ini j = None"
      using "1.IH" [OF i None] by blast
    have "boot_try env c bs ini j = None" if "k < j" "j \<le> i" for j
      using k(4) None that by (cases "j = i") auto
    with k show ?thesis by (intro exI [of _ k]) simp
  next
    case (Some x)
    then have "boot_try env c bs ini i = Some r"
      using "1.prems" i by (simp add: boot_backward.simps [of env c bs ini i])
    with i show ?thesis by (intro exI [of _ i]) auto
  qed
qed

lemma boot_forward_None:
  "boot_forward env c bs ini i = None \<Longrightarrow> 0 \<le> i \<Longrightarrow> i \<le> k \<Longrightarrow> k < int (bs_app_count bs) \<Longrightarrow>
     boot_try env c bs ini k = None"
proof (induction env c bs ini i rule: boot_forward.induct)
  case (1 env c bs ini i)
  have i: "0 \<le> i \<and> i < int (bs_app_count bs)" using "1.prems" by simp
  then have t: "boot_try env c bs ini i = None" "boot_forward env c bs ini (i + 1) = None"
    using "1.prems"(1) by (simp_all add: boot_forward.simps [of env c bs ini i] split: option.splits)
  show ?case
  proof (cases "k = i")
    case False
    with "1.prems" show ?thesis by (intro "1.IH" [OF i t(1,2)]) simp_all
  qed (simp add: t)
qed

lemma boot_forward_Some:
  "boot_forward env c bs ini i = Some r \<Longrightarrow>
     \<exists>k. i \<le> k \<and> 0 \<le> k \<and> k < int (bs_app_count bs) \<and> boot_try env c bs ini k = Some r"
proof (induction env c bs ini i rule: boot_forward.induct)
  case (1 env c bs ini i)
  have i: "0 \<le> i \<and> i < int (bs_app_count bs)"
    using "1.prems" by (simp add: boot_forward.simps [of env c bs ini i] split: if_splits)
  show ?case
  proof (cases "boot_try env c bs ini i")
    case None
    then have "boot_forward env c bs ini (i + 1) = Some r"
      using "1.prems" i by (simp add: boot_forward.simps [of env c bs ini i])
    with "1.IH" [OF i None] obtain k where "i + 1 \<le> k" "0 \<le> k" "k < int (bs_app_count bs)"
        "boot_try env c bs ini k = Some r"
      by blast
    then show ?thesis by (intro exI [of _ k]) simp
  next
    case (Some x)
    then have "boot_try env c bs ini i = Some r"
      using "1.prems" i by (simp add: boot_forward.simps [of env c bs ini i])
    with i show ?thesis by auto
  qed
qed

lemma boot_try_Some:
  "boot_try env c bs ini k = Some r \<longleftrightarrow>
     try_load_partition env c (index_to_partition bs k) \<and>
     r = Boots (index_to_partition bs k) (set_actual_ota_seq env c bs ini k)"
  by (auto simp: boot_try_def Let_def try_load_partition_def)

lemma boot_try_None:
  "boot_try env c bs ini k = None \<longleftrightarrow> \<not> try_load_partition env c (index_to_partition bs k)"
  by (auto simp: boot_try_def Let_def try_load_partition_def)

text \<open>
  C11: the bootloader's image search, for a start index that the selection can return. The selected
  slot is booted whenever its image loads. Otherwise the bootloader starts some partition whose image
  loads, and it resets only when no partition of the table (factory, OTA slot, test) has one.
\<close>

theorem load_boot_image_finds_bootable:
  assumes start: "FACTORY_INDEX \<le> start"
  shows "(try_load_partition env c (index_to_partition bs start) \<longrightarrow>
       bootloader_utility_load_boot_image env c bs ini start =
         Boots (index_to_partition bs start) (set_actual_ota_seq env c bs ini start)) \<and>
    (case bootloader_utility_load_boot_image env c bs ini start of
       Boots pos c' \<Rightarrow> try_load_partition env c pos \<and>
         (pos = bs_test bs \<or> (\<exists>k. FACTORY_INDEX \<le> k \<and> pos = index_to_partition bs k))
     | Resets \<Rightarrow> \<not> try_load_partition env c (bs_test bs) \<and>
         (\<forall>k. FACTORY_INDEX \<le> k \<and> k < int (bs_app_count bs) \<longrightarrow>
            \<not> try_load_partition env c (index_to_partition bs k)))"
proof -
  have nt: "start \<noteq> TEST_APP_INDEX" using start by (auto simp: boot_consts)
  have first: "boot_backward env c bs ini start =
      Some (Boots (index_to_partition bs start) (set_actual_ota_seq env c bs ini start))"
    if "try_load_partition env c (index_to_partition bs start)"
    using that start boot_try_Some [of env c bs ini start, THEN iffD2, OF conjI [OF that refl]]
    by (subst boot_backward.simps) simp
  have none: "\<not> try_load_partition env c (index_to_partition bs k)"
    if "boot_backward env c bs ini start = None" "boot_forward env c bs ini (start + 1) = None"
      "FACTORY_INDEX \<le> k" "k < int (bs_app_count bs)" for k
  proof (cases "k \<le> start")
    case True
    with boot_backward_None [OF that(1,3)] show ?thesis by (simp add: boot_try_None)
  next
    case False
    with boot_forward_None [OF that(2), of k] that(4) start show ?thesis
      by (simp add: boot_try_None FACTORY_INDEX_def)
  qed
  show ?thesis
  proof (cases "boot_backward env c bs ini start")
    case (Some r)
    obtain k where "FACTORY_INDEX \<le> k" "boot_try env c bs ini k = Some r"
      using boot_backward_Some [OF Some] by blast
    with Some first nt show ?thesis
      by (auto simp: bootloader_utility_load_boot_image_def boot_try_Some)
  next
    case bk: None
    show ?thesis
    proof (cases "boot_forward env c bs ini (start + 1)")
      case (Some r)
      obtain k where "0 \<le> k" "boot_try env c bs ini k = Some r"
        using boot_forward_Some [OF Some] by blast
      then have "FACTORY_INDEX \<le> k" "try_load_partition env c (index_to_partition bs k)"
          "r = Boots (index_to_partition bs k) (set_actual_ota_seq env c bs ini k)"
        by (auto simp: boot_try_Some boot_consts)
      with Some bk first nt show ?thesis
        by (auto simp: bootloader_utility_load_boot_image_def)
    next
      case None
      with bk first none nt show ?thesis
        by (auto simp: bootloader_utility_load_boot_image_def)
    qed
  qed
qed

section \<open>One table, two readers\<close>

text \<open>
  The bootloader and the firmware read the same table in different ways: the bootloader keeps the last
  entry of each kind and counts the OTA entries, the firmware searches the first entry and counts the
  consecutive slots. On a table whose relevant entries are unique and whose OTA slots are numbered
  without gaps, both see the same slots.
\<close>

definition is_ota_info :: "esp_partition_info \<Rightarrow> bool" where
  "is_ota_info i \<longleftrightarrow> pi_type i = 0 \<and> 16 \<le> unat (pi_subtype i) \<and> unat (pi_subtype i) < 32"

definition has_kind :: "u8 \<Rightarrow> nat \<Rightarrow> esp_partition_info \<Rightarrow> bool" where
  "has_kind ty st i \<longleftrightarrow> pi_type i = ty \<and> unat (pi_subtype i) = st"

definition table_layout :: "esp_partition_info list \<Rightarrow> nat \<Rightarrow> bool" where
  "table_layout infos n \<longleftrightarrow> n < 16 \<and>
     distinct (map (\<lambda>i. unat (pi_subtype i)) (filter is_ota_info infos)) \<and>
     set (map (\<lambda>i. unat (pi_subtype i)) (filter is_ota_info infos)) = {16..<16 + n} \<and>
     length (filter (has_kind 1 0) infos) \<le> 1"

lemma and_not_low: "unat ((x :: u8) AND NOT 15) = unat x div 16 * 16"
proof -
  have "x AND NOT 15 = push_bit 4 (drop_bit 4 x)"
  proof (rule bit_word_eqI)
    fix n assume "n < LENGTH(8)"
    moreover have "bit (15 :: u8) n \<longleftrightarrow> n < 4"
      using bit_mask_iff [where 'a = u8, of 4 n] \<open>n < LENGTH(8)\<close> by (simp add: mask_eq_exp_minus_1)
    ultimately show "bit (x AND NOT 15) n = bit (push_bit 4 (drop_bit 4 x)) n"
      by (auto simp: bit_simps)
  qed
  then have "unat (x AND NOT 15) = take_bit 8 (push_bit 4 (drop_bit 4 (unat x)))"
    using unat_u8_less [of x]
    by (simp only: unsigned_push_bit_eq unsigned_drop_bit_eq) (simp add: take_bit_nat_eq_self)
  then show ?thesis
    using unat_u8_less [of x] by (simp add: take_bit_eq_mod push_bit_eq_mult drop_bit_eq_div)
qed

lemma ota_flag_iff: "(x :: u8) AND NOT 15 = 16 \<longleftrightarrow> 16 \<le> unat x \<and> unat x < 32"
proof -
  have "x AND NOT 15 = 16 \<longleftrightarrow> unat (x AND NOT 15) = unat (16 :: u8)" by (rule word_unat_eq_iff)
  also have "\<dots> \<longleftrightarrow> unat x div 16 * 16 = 16" by (simp only: and_not_low) simp
  finally show ?thesis by auto
qed

lemmas ota_flag_simp = ota_flag_iff [simplified]

lemma and_low: "unat ((x :: u8) AND 15) = unat x mod 16"
proof -
  have "x AND 15 = take_bit 4 x" by (simp add: take_bit_eq_mask mask_eq_exp_minus_1)
  then show ?thesis by (simp add: take_bit_eq_mod unat_mod_distrib)
qed

lemma load_table_entry_ota:
  assumes "length (bs_ota bs) = 16" "k < 16"
  shows "bs_ota (load_table_entry i bs) ! k = (if has_kind 0 (16 + k) i then info_pos i else bs_ota bs ! k)"
proof (cases "16 \<le> unat (pi_subtype i) \<and> unat (pi_subtype i) < 32")
  case True
  then have "unat (pi_subtype i) mod 16 = unat (pi_subtype i) - 16"
    by (auto simp: le_mod_geq)
  moreover have "pi_subtype i \<noteq> 0" "pi_subtype i \<noteq> 32" using True by auto
  ultimately show ?thesis
    using True assms
    by (auto simp: load_table_entry_def ota_flag_simp and_low has_kind_def nth_list_update)
next
  case False
  with assms show ?thesis by (auto simp: load_table_entry_def ota_flag_simp has_kind_def)
qed

lemma length_load_table_entry [simp]: "length (bs_ota (load_table_entry i bs)) = length (bs_ota bs)"
  by (simp add: load_table_entry_def)

lemma load_table_entry_fields:
  "bs_app_count (load_table_entry i bs) = bs_app_count bs + (if is_ota_info i then 1 else 0)"
  "bs_ota_info (load_table_entry i bs) = (if has_kind 1 0 i then info_pos i else bs_ota_info bs)"
proof -
  have z: "unat (pi_subtype i) = 0 \<longleftrightarrow> pi_subtype i = 0" by (simp add: unat_eq_0)
  have t: "pi_subtype i = 32 \<Longrightarrow> unat (pi_subtype i) = 32" by simp
  show "bs_app_count (load_table_entry i bs) = bs_app_count bs + (if is_ota_info i then 1 else 0)"
    by (auto simp: load_table_entry_def is_ota_info_def ota_flag_simp)
  show "bs_ota_info (load_table_entry i bs) = (if has_kind 1 0 i then info_pos i else bs_ota_info bs)"
    using z by (auto simp: load_table_entry_def has_kind_def)
qed

lemma fold_load_app_count:
  "bs_app_count (fold load_table_entry infos bs) = bs_app_count bs + length (filter is_ota_info infos)"
  by (induction infos arbitrary: bs) (auto simp: load_table_entry_fields)

lemma fold_load_ota:
  "length (bs_ota bs) = 16 \<Longrightarrow> k < 16 \<Longrightarrow>
   bs_ota (fold load_table_entry infos bs) ! k =
     (case find (has_kind 0 (16 + k)) (rev infos) of None \<Rightarrow> bs_ota bs ! k | Some i \<Rightarrow> info_pos i)"
proof (induction infos rule: rev_induct)
  case (snoc i infos)
  have "length (bs_ota (fold load_table_entry infos bs)) = 16"
    using snoc.prems by (induction infos arbitrary: bs) auto
  with snoc show ?case by (simp add: load_table_entry_ota)
qed simp

lemma fold_load_ota_info:
  "bs_ota_info (fold load_table_entry infos bs) =
     (case find (has_kind 1 0) (rev infos) of None \<Rightarrow> bs_ota_info bs | Some i \<Rightarrow> info_pos i)"
  by (induction infos rule: rev_induct) (auto simp: load_table_entry_fields)

text \<open>With a single match the last and the first one coincide.\<close>

lemma find_filter: "find Q xs = (case filter Q xs of [] \<Rightarrow> None | x # _ \<Rightarrow> Some x)"
  by (induction xs) auto

lemma find_rev_unique: "length (filter Q xs) \<le> 1 \<Longrightarrow> find Q (rev xs) = find Q xs"
  by (cases "filter Q xs") (auto simp: find_filter rev_filter [symmetric])

lemma find_first_infos:
  assumes "os_parts s = map (partition_of_info enc) infos" "st < 255"
  shows "find_first s (unat ty) st = map_option (partition_of_info enc) (find (has_kind ty st) infos)"
proof -
  have "map_option fst (esp_partition_next (unat ty) st None (map (partition_of_info enc) infos)) =
      map_option (partition_of_info enc) (find (has_kind ty st) infos)"
    using assms(2)
    by (induction infos) (auto simp: part_matches_def has_kind_def partition_of_info_def part_consts
        word_unat_eq_iff)
  with assms(1) show ?thesis
    by (simp add: find_first_def esp_partition_find_first_def esp_partition_find_def)
qed

lemma distinct_map_filter_le1:
  assumes "distinct (map f (filter P xs))" "\<And>x. Q x \<Longrightarrow> P x \<and> f x = v"
  shows "length (filter Q xs) \<le> 1"
proof -
  have "filter Q xs = filter Q (filter P xs)" using assms(2) by (auto intro: filter_cong)
  moreover have "length (filter Q ys) \<le> 1" if "distinct (map f ys)" for ys
    using that
  proof (induction ys)
    case (Cons y ys)
    have "filter Q ys = []" if "Q y"
      using Cons.prems that assms(2) by (auto simp: filter_empty_conv)
    with Cons show ?case by auto
  qed simp
  ultimately show ?thesis using assms(1) by metis
qed

lemma layout_slot:
  assumes lay: "table_layout infos n" and parts: "os_parts s = map (partition_of_info enc) infos"
    and k: "k < n"
  shows "\<exists>i. find (has_kind 0 (16 + k)) infos = Some i \<and>
    find_first s ESP_PARTITION_TYPE_APP (16 + k) = Some (partition_of_info enc i) \<and>
    bs_ota (fold load_table_entry infos bs_zero) ! k = info_pos i"
proof -
  have k16: "k < 16" using lay k by (simp add: table_layout_def)
  have "16 + k \<in> set (map (\<lambda>i. unat (pi_subtype i)) (filter is_ota_info infos))"
    using lay k unfolding table_layout_def by simp
  then have "\<exists>i \<in> set infos. has_kind 0 (16 + k) i" by (auto simp: is_ota_info_def has_kind_def)
  then obtain i where i: "find (has_kind 0 (16 + k)) infos = Some i"
    by (metis find_None_iff option.exhaust)
  have "length (filter (has_kind 0 (16 + k)) infos) \<le> 1"
    using lay k16 by (intro distinct_map_filter_le1 [of "\<lambda>i. unat (pi_subtype i)" is_ota_info _ _ "16 + k"])
      (auto simp: table_layout_def has_kind_def is_ota_info_def)
  from find_rev_unique [OF this] i
  have "bs_ota (fold load_table_entry infos bs_zero) ! k = info_pos i"
    using fold_load_ota [of bs_zero k infos] k16 by (simp add: bs_zero_def boot_consts)
  moreover have "find_first s ESP_PARTITION_TYPE_APP (16 + k) = Some (partition_of_info enc i)"
    using find_first_infos [OF parts, of "16 + k" 0] i k16 by (simp add: part_consts)
  ultimately show ?thesis using i by blast
qed

lemma layout_count:
  assumes lay: "table_layout infos n" and parts: "os_parts s = map (partition_of_info enc) infos"
  shows "get_ota_partition_count s = Some n" "bs_app_count (fold load_table_entry infos bs_zero) = n"
proof -
  have n16: "n < 16" using lay by (simp add: table_layout_def)
  have "length (filter is_ota_info infos) = card {16..<16 + n}"
    using lay distinct_card [of "map (\<lambda>i. unat (pi_subtype i)) (filter is_ota_info infos)"]
    unfolding table_layout_def by simp
  then show "bs_app_count (fold load_table_entry infos bs_zero) = n"
    by (simp add: fold_load_app_count bs_zero_def)
  have "\<not> has_kind 0 (16 + n) i" if "i \<in> set infos" for i
  proof
    assume h: "has_kind 0 (16 + n) i"
    then have "is_ota_info i" using n16 by (simp add: has_kind_def is_ota_info_def)
    then have "16 + n \<in> set (map (\<lambda>i. unat (pi_subtype i)) (filter is_ota_info infos))"
      using h that by (force simp: has_kind_def)
    with lay show False unfolding table_layout_def by auto
  qed
  then have last: "find_first s ESP_PARTITION_TYPE_APP (16 + n) = None"
    using find_first_infos [OF parts, of "16 + n" 0] n16 by (simp add: part_consts find_None_iff)
  have "ota_count_loop s k = Some n" if "k \<le> n" for k
    using that
  proof (induction "n - k" arbitrary: k)
    case 0
    then show ?case using last by (subst ota_count_loop.simps) (simp add: part_consts(4))
  next
    case (Suc m)
    then have "ota_count_loop s (k + 1) = Some n" "k < n" by simp_all
    with layout_slot [OF lay parts, of k] n16 show ?case
      by (subst ota_count_loop.simps) (auto simp: part_consts(4))
  qed
  from this [of 0] show "get_ota_partition_count s = Some n" by (simp add: get_ota_partition_count_def)
qed

text \<open>
  The table check of the bootloader reads only the table area; when it accepts the table and the
  checksum entry, if any, comes last, the firmware loads exactly the same entries.
\<close>

definition table_same :: "flash_chip \<Rightarrow> flash_chip \<Rightarrow> bool" where
  "table_same c c' \<longleftrightarrow> fl_size c' = fl_size c \<and>
     (\<forall>x. ESP_PARTITION_TABLE_OFFSET \<le> x \<and> x < ESP_PARTITION_TABLE_OFFSET + ESP_PARTITION_TABLE_MAX_LEN
        \<longrightarrow> fl_mem c' x = fl_mem c x)"

lemma table_same_bytes:
  assumes "table_same c c'" "ESP_PARTITION_TABLE_OFFSET \<le> a"
    "a + n \<le> ESP_PARTITION_TABLE_OFFSET + ESP_PARTITION_TABLE_MAX_LEN"
  shows "fl_bytes c' a n = fl_bytes c a n"
  using assms by (intro fl_bytes_eqI) (simp add: table_same_def)

lemma table_same_entry: "table_same c c' \<Longrightarrow> k < 96 \<Longrightarrow> table_entry c' k = table_entry c k"
  unfolding table_entry_def by (rule table_same_bytes) (simp_all add: part_consts)

lemma table_verify_same:
  "table_same c c' \<Longrightarrow> k + n \<le> 96 \<Longrightarrow> table_verify_loop env c' k m n = table_verify_loop env c k m n"
proof (induction env c k m n rule: table_verify_loop.induct)
  case (2 env c k m n)
  have sz: "fl_size c' = fl_size c" using "2.prems" by (simp add: table_same_def)
  have e: "table_entry c' k = table_entry c k" using table_same_entry "2.prems" by simp
  have b: "fl_bytes c' ESP_PARTITION_TABLE_OFFSET (k * 32) = fl_bytes c ESP_PARTITION_TABLE_OFFSET (k * 32)"
    using "2.prems" by (intro table_same_bytes) (simp_all add: part_consts)
  show ?case using 2 by (simp add: sz e b Let_def)
qed simp

lemma table_verify_step:
  assumes "table_verify_loop env c k m (Suc n) = Inr r"
  shows "table_verify_loop env c (k + 1) m n = Inr r \<or>
    (m = 0 \<and> table_verify_loop env c (k + 1) 1 n = Inr r) \<or> r = k - m"
  using assms by (simp only: table_verify_loop.simps Let_def split: if_splits) simp_all

lemma table_verify_lt: "table_verify_loop env c k m n = Inr r \<Longrightarrow> r < k + n"
proof (induction n arbitrary: k m)
  case (Suc n)
  from table_verify_step [OF Suc.prems] Suc.IH [of "k + 1"] show ?case by force
qed simp

lemma table_verify_ge: "table_verify_loop env c k m n = Inr r \<Longrightarrow> m \<le> 1 \<Longrightarrow> k \<le> r + m"
proof (induction n arbitrary: k m)
  case (Suc n)
  from table_verify_step [OF Suc.prems(1)] Suc.IH [of "k + 1"] Suc.prems(2) show ?case by force
qed simp

lemma table_verify_end:
  "table_verify_loop env c k 0 n = Inr r \<Longrightarrow> k \<le> r \<Longrightarrow>
   \<forall>j. k \<le> j \<and> j < r \<longrightarrow> pi_magic (table_info c j) = ESP_PARTITION_MAGIC \<Longrightarrow>
   pi_magic (table_info c r) \<noteq> ESP_PARTITION_MAGIC"
proof (induction env c k "0 :: nat" n rule: table_verify_loop.induct)
  case (2 env c k n)
  show ?case
  proof (cases "k = r")
    case True
    show ?thesis
    proof
      assume "pi_magic (table_info c r) = ESP_PARTITION_MAGIC"
      with "2.prems"(1) True have "table_verify_loop env c (r + 1) 0 n = Inr r"
        by (simp add: Let_def split: if_splits)
      from table_verify_ge [OF this] show False by simp
    qed
  next
    case False
    then have m: "pi_magic (table_info c k) = ESP_PARTITION_MAGIC" using "2.prems" by simp
    with "2.prems"(1) have "table_verify_loop env c (k + 1) 0 n = Inr r"
      by (simp add: Let_def split: if_splits)
    with "2.hyps"(1) [OF refl m] "2.prems" m False show ?thesis
      by (simp add: Let_def split: if_splits)
  qed
qed simp

lemma load_entries_prefix:
  "k \<le> r \<Longrightarrow> r < k + n \<Longrightarrow> \<forall>j. k \<le> j \<and> j < r \<longrightarrow> pi_magic (table_info c j) = ESP_PARTITION_MAGIC \<Longrightarrow>
   pi_magic (table_info c r) \<noteq> ESP_PARTITION_MAGIC \<Longrightarrow>
   load_entries enc (\<lambda>_. True) c (ESP_PARTITION_TABLE_OFFSET + 32 * k) n =
     (ESP_OK, map (\<lambda>j. partition_of_info enc (table_info c j)) [k..<r])"
proof (induction n arbitrary: k)
  case (Suc n)
  show ?case
  proof (cases "k = r")
    case True
    with Suc.prems show ?thesis by (simp add: table_entry_def Let_def)
  next
    case False
    then have "load_entries enc (\<lambda>_. True) c (ESP_PARTITION_TABLE_OFFSET + 32 * (k + 1)) n =
        (ESP_OK, map (\<lambda>j. partition_of_info enc (table_info c j)) [k + 1..<r])"
      using Suc.prems by (intro Suc.IH) simp_all
    moreover have "[k..<r] = k # [k + 1..<r]" using False Suc.prems by (simp add: upt_rec)
    moreover have "pi_magic (table_info c k) = ESP_PARTITION_MAGIC" using False Suc.prems by simp
    ultimately show ?thesis by (simp add: table_entry_def Let_def algebra_simps)
  qed
qed simp

lemma firmware_loads_same_table:
  assumes "esp_partition_table_verify benv c = Inr r"
    "\<forall>j < r. pi_magic (table_info c j) = ESP_PARTITION_MAGIC"
  shows "load_partitions enc (\<lambda>_. True) (\<lambda>_ _. True) c =
    (ESP_OK, map (partition_of_info enc) (map (table_info c) [0..<r]))"
proof -
  note v = assms(1) [unfolded esp_partition_table_verify_def]
  have "r < 128" using table_verify_lt [OF v] by (simp add: boot_consts part_consts)
  with load_entries_prefix [of 0 r 128 c enc] table_verify_end [OF v] assms(2) show ?thesis
    by (simp add: load_partitions_def flash_consts comp_def)
qed

section \<open>From the switch to the boot\<close>

definition pos_of :: "esp_partition \<Rightarrow> esp_partition_pos" where
  "pos_of p = \<lparr>pos_offset = of_nat (p_address p), pos_size = of_nat (p_size p)\<rparr>"

lemma pos_of_info [simp]: "pos_of (partition_of_info enc i) = info_pos i"
  by (simp add: pos_of_def partition_of_info_def info_pos_def)

lemma sector_only_table:
  assumes "otadata_ok env s q" "sector_only q j s t"
  shows "table_same (os_chip s) (os_chip t)"
  using assms by (auto simp: table_same_def sector_only_def otadata_ok_def)

lemma layout_ota_info:
  assumes lay: "table_layout infos n" and parts: "os_parts s = map (partition_of_info enc) infos"
    and q: "find_first s ESP_PARTITION_TYPE_DATA ESP_PARTITION_SUBTYPE_DATA_OTA = Some q"
  shows "bs_ota_info (fold load_table_entry infos bs_zero) = pos_of q"
proof -
  have "length (filter (has_kind 1 0) infos) \<le> 1" using lay by (simp add: table_layout_def)
  from find_rev_unique [OF this] show ?thesis
    using q find_first_infos [OF parts, of 0 1]
    by (auto simp: fold_load_ota_info part_consts split: option.splits)
qed

text \<open>The selection of the bootloader when the newest valid entry denotes slot \<open>k\<close>.\<close>

lemma boot_selected_of_max:
  assumes info: "bs_ota_info bs = pos_of q" "part_wf q" "0 < p_address q" "2 * SPI_FLASH_SEC_SIZE \<le> p_size q"
    and cnt: "bs_app_count bs = n" "0 < n" and mm: "\<forall>a b. bootloader_mmap benv a b"
    and e: "e = otadata_at c (p_address q)" and j: "j \<le> 1"
    and v: "bootloader_common_ota_select_valid (rom_crc32_le benv) (e ! j)"
    and mx: "bootloader_common_ota_select_valid (rom_crc32_le benv) (e ! (1 - j)) \<longrightarrow>
      ota_seq (e ! (1 - j)) \<le> ota_seq (e ! j)"
  shows "bootloader_utility_get_selected_boot_partition benv c bs ini = (int (seq_slot (ota_seq (e ! j)) n), False)"
proof -
  have u: "unat (of_nat (p_address q) :: u32) = p_address q" "unat (of_nat (p_size q) :: u32) = p_size q"
    using info(2) by (simp_all add: part_wf_def unat_of_nat)
  have nz: "(of_nat (p_address q) :: u32) \<noteq> 0" using u(1) info(3) by auto
  have len: "length e = 2" by (simp add: e otadata_at_def)
  note m = active_of_max [OF len j v mx refl]
  have "boot_read_otadata benv c (bs_ota_info bs) = Inr e"
    using info u nz mm by (simp add: boot_read_otadata_def pos_of_def e)
  with m nz info(1) cnt show ?thesis
    by (auto simp: bootloader_utility_get_selected_boot_partition_def Let_def pos_of_def)
qed

text \<open>
  C12: from the switch to the boot. The firmware and the bootloader read the same partition table
  from flash. After a call of \<^verbatim>\<open>esp_ota_set_boot_partition\<close> that reports success, the bootloader
  still accepts the table, selects the slot of the requested partition and starts its image whenever
  that image loads; the flash is not changed by the boot.
\<close>

theorem switch_then_bootloader_boots:
  assumes tab: "esp_partition_table_verify benv (os_chip s) = Inr r"
      "\<forall>j < r. pi_magic (table_info (os_chip s) j) = ESP_PARTITION_MAGIC"
    and parts: "load_partitions enc (\<lambda>_. True) (\<lambda>_ _. True) (os_chip s) = (ESP_OK, os_parts s)"
    and lay: "table_layout (map (table_info (os_chip s)) [0..<r]) n"
    and ok: "otadata_ok env s q" and rng: "seqs_in_range env (otadata_at (os_chip s) (p_address q))"
    and slot: "ota_slot s n p" and crc: "rom_crc32_le benv = crc32_le env"
    and mm: "\<forall>a b. bootloader_mmap benv a b"
    and set: "esp_ota_set_boot_partition env s (Some p) = Some (ESP_OK, s')"
    and load: "try_load_partition benv (os_chip s') (pos_of p)"
  shows "\<exists>bs. bootloader_utility_load_partition_table benv (os_chip s') bs_zero = Some bs \<and>
    (case bootloader_utility_get_selected_boot_partition benv (os_chip s') bs False of (i, ini) \<Rightarrow>
       bootloader_utility_load_boot_image benv (os_chip s') bs ini i = Boots (pos_of p) (os_chip s'))"
proof -
  let ?infos = "map (table_info (os_chip s)) [0..<r]"
  let ?bs = "fold load_table_entry ?infos bs_zero"
  have ps: "os_parts s = map (partition_of_info enc) ?infos"
    using firmware_loads_same_table [OF tab] parts by simp
  note cnt = layout_count [OF lay ps]
  note sid = ota_slot_id [OF cnt(1) slot]
  have img: "image_verify env (os_chip s) (p_address p) (p_size p)"
    using set by (auto simp: esp_ota_set_boot_partition_def image_validate_def split: if_splits)
  obtain j where j: "j \<le> 1" "sector_only q j s s'"
      and e: "bootloader_common_ota_select_valid (rom_crc32_le benv) (otadata_at (os_chip s') (p_address q) ! j)"
        "bootloader_common_ota_select_valid (rom_crc32_le benv) (otadata_at (os_chip s') (p_address q) ! (1 - j)) \<longrightarrow>
          ota_seq (otadata_at (os_chip s') (p_address q) ! (1 - j)) \<le> ota_seq (otadata_at (os_chip s') (p_address q) ! j)"
        "seq_slot (ota_seq (otadata_at (os_chip s') (p_address q) ! j)) n = SUB_TYPE_ID (p_subtype p)"
    using set_boot_effect [OF ok cnt(1) rng slot img] set by (auto simp: Let_def crc)
  have same: "table_same (os_chip s) (os_chip s')" by (rule sector_only_table [OF ok j(2)])
  have r96: "r < 96" 
    using table_verify_lt [OF tab(1) [unfolded esp_partition_table_verify_def]]
    by (simp add: boot_consts part_consts)
  have ver: "esp_partition_table_verify benv (os_chip s') = Inr r"
    using table_verify_same [OF same, of 0 96] tab(1)
    by (simp add: esp_partition_table_verify_def boot_consts part_consts)
  have infos: "map (table_info (os_chip s')) [0..<r] = ?infos"
    using table_same_entry [OF same] r96 by simp
  have bs: "bootloader_utility_load_partition_table benv (os_chip s') bs_zero = Some ?bs"
    using mm by (simp add: bootloader_utility_load_partition_table_def ver infos del: map_eq_conv)
  have q: "find_first s ESP_PARTITION_TYPE_DATA ESP_PARTITION_SUBTYPE_DATA_OTA = Some q" "part_wf q"
      "0 < p_address q" "2 * SPI_FLASH_SEC_SIZE \<le> p_size q"
    using ok by (auto simp: otadata_ok_def)
  let ?k = "SUB_TYPE_ID (p_subtype p)"
  have sel: "bootloader_utility_get_selected_boot_partition benv (os_chip s') ?bs False = (int ?k, False)"
    using boot_selected_of_max [OF layout_ota_info [OF lay ps q(1)] q(2-4) cnt(2) _ mm refl j(1) e(1,2)] e(3) sid(1)
    by simp
  obtain i where "find_first s ESP_PARTITION_TYPE_APP (16 + ?k) = Some (partition_of_info enc i)"
      "bs_ota ?bs ! ?k = info_pos i"
    using layout_slot [OF lay ps sid(1)] by blast
  moreover have "find_first s ESP_PARTITION_TYPE_APP (16 + ?k) = Some p"
    using slot sid(2) by (simp add: ota_slot_def part_consts(4))
  ultimately have "bs_ota ?bs ! ?k = pos_of p" by simp
  then have idx: "index_to_partition ?bs (int ?k) = pos_of p"
    using sid(1) cnt(2) lay by (simp add: index_to_partition_def boot_consts table_layout_def)
  have "boot_try benv (os_chip s') ?bs False (int ?k) = Some (Boots (pos_of p) (os_chip s'))"
    using boot_try_Some load idx by (simp add: set_actual_ota_seq_def)
  then have "boot_backward benv (os_chip s') ?bs False (int ?k) = Some (Boots (pos_of p) (os_chip s'))"
    by (subst boot_backward.simps) (simp add: boot_consts)
  then have "bootloader_utility_load_boot_image benv (os_chip s') ?bs False (int ?k) = Boots (pos_of p) (os_chip s')"
    by (simp add: bootloader_utility_load_boot_image_def boot_consts)
  with bs sel show ?thesis by simp
qed

section \<open>Witnesses\<close>

definition demo_benv :: boot_env where
  "demo_benv = \<lparr>rom_md5 = (\<lambda>_. replicate 16 0), rom_crc32_le = demo_crc, bootloader_mmap = (\<lambda>_ _. True),
     bootloader_load_image = (\<lambda>_ _. True), flash_encryption_enabled = False,
     rom_write_encrypted = (\<lambda>c _ _. (ESP_FAIL, c))\<rparr>"

definition demo_info :: "u8 \<Rightarrow> u8 \<Rightarrow> u32 \<Rightarrow> u32 \<Rightarrow> esp_partition_info" where
  "demo_info ty st a n = \<lparr>pi_magic = ESP_PARTITION_MAGIC, pi_type = ty, pi_subtype = st, pi_offset = a,
     pi_size = n, pi_label = replicate 16 0, pi_flags = 0\<rparr>"

abbreviation demo_infos :: "esp_partition_info list" where
  "demo_infos \<equiv> [demo_info 1 0 57344 8192, demo_info 0 16 65536 2097152, demo_info 0 17 2162688 2097152]"

lemma demo_table_entry:
  "k < 3 \<Longrightarrow> table_entry (os_chip (demo_sys c)) k = demo_rows ! k"
  "table_entry (os_chip (demo_sys c)) 3 = replicate 32 255"
proof -
  assume "k < 3"
  then have "length (demo_rows ! k) = 32"
    by (auto simp: demo_rows_def demo_row_def nth_Cons split: nat.splits)
  with \<open>k < 3\<close> show "table_entry (os_chip (demo_sys c)) k = demo_rows ! k"
    by (intro nth_equalityI) (simp_all add: table_entry_def demo_sys_def part_consts)
next
  show "table_entry (os_chip (demo_sys c)) 3 = replicate 32 255"
    by (rule nth_equalityI) (simp_all add: table_entry_def demo_sys_def part_consts)
qed

lemma demo_table_info:
  "table_info (os_chip (demo_sys c)) 0 = demo_info 1 0 57344 8192"
  "table_info (os_chip (demo_sys c)) (Suc 0) = demo_info 0 16 65536 2097152"
  "table_info (os_chip (demo_sys c)) 2 = demo_info 0 17 2162688 2097152"
  "pi_magic (table_info (os_chip (demo_sys c)) 3) = 0xFFFF"
  "pi_type (table_info (os_chip (demo_sys c)) 3) = 0xFF"
  "pi_subtype (table_info (os_chip (demo_sys c)) 3) = 0xFF"
  by (simp_all add: demo_table_entry partition_info_of_def demo_info_def demo_rows_def demo_row_def
      part_consts join16_def join32_def nth_append)

lemma demo_table_infos: "map (table_info (os_chip (demo_sys c))) [0..<3] = demo_infos"
  by (simp add: upt_rec demo_table_info demo_table_info(3) [unfolded numeral_2_eq_2])

lemma table_verify_magic:
  assumes "table_info c k = i" "pi_magic i = ESP_PARTITION_MAGIC" "unat (pi_offset i) \<le> fl_size c"
    "unat (pi_offset i + pi_size i) \<le> fl_size c" "n = Suc n'" "k' = k + 1"
  shows "table_verify_loop env c k m n = table_verify_loop env c k' m n'"
  using assms by (simp add: Let_def)

lemma demo_verify: "esp_partition_table_verify demo_benv (os_chip (demo_sys c)) = Inr 3"
proof -
  let ?c = "os_chip (demo_sys c)"
  have sz: "fl_size ?c = 8388608" by (simp add: demo_sys_def)
  have "table_verify_loop demo_benv ?c 0 0 96 = table_verify_loop demo_benv ?c (Suc 0) 0 95"
    by (rule table_verify_magic [OF demo_table_info(1)]) (simp_all add: demo_info_def sz)
  also have "\<dots> = table_verify_loop demo_benv ?c 2 0 94"
    by (rule table_verify_magic [OF demo_table_info(2)]) (simp_all add: demo_info_def sz)
  also have "\<dots> = table_verify_loop demo_benv ?c 3 0 93"
    by (rule table_verify_magic [OF demo_table_info(3)]) (simp_all add: demo_info_def sz)
  also have "93 = Suc 92" by simp
  also have "table_verify_loop demo_benv ?c 3 0 (Suc 92) = Inr 3"
    by (subst table_verify_loop.simps) (simp add: demo_table_info Let_def boot_consts part_consts)
  finally show ?thesis by (simp add: esp_partition_table_verify_def boot_consts part_consts)
qed

lemma demo_parts: "os_parts (demo_sys c) = map (partition_of_info False) demo_infos"
  by (simp add: demo_sys_def demo_defs partition_of_info_def demo_info_def)

lemma demo_layout: "table_layout demo_infos 2"
  by (auto simp: table_layout_def demo_info_def is_ota_info_def has_kind_def)

theorem load_boot_image_finds_bootable_witness:
  "bootloader_utility_load_boot_image demo_benv demo_chip (fold load_table_entry demo_infos bs_zero) False 1 =
     Boots (pos_of demo_app1) demo_chip"
proof -
  let ?bs = "fold load_table_entry demo_infos bs_zero"
  have "bs_ota ?bs ! 1 = pos_of demo_app1"
    by (simp add: load_table_entry_def demo_info_def ota_flag_simp and_low bs_zero_def boot_consts
        info_pos_def pos_of_def demo_app1_def)
  moreover have "bs_app_count ?bs = 2" using layout_count(2) [OF demo_layout demo_parts] .
  ultimately have idx: "index_to_partition ?bs 1 = pos_of demo_app1"
    by (simp add: index_to_partition_def boot_consts)
  moreover have "try_load_partition demo_benv demo_chip (pos_of demo_app1)"
    by (simp add: try_load_partition_def demo_benv_def pos_of_def demo_app1_def)
  moreover have "FACTORY_INDEX \<le> 1" by (simp add: boot_consts)
  ultimately show ?thesis
    using load_boot_image_finds_bootable [of 1 demo_benv demo_chip ?bs False]
    by (simp add: set_actual_ota_seq_def del: fold_simps)
qed

theorem switch_then_bootloader_boots_witness:
  "\<exists>s' bs. esp_ota_set_boot_partition demo_env (demo_sys []) (Some demo_app1) = Some (ESP_OK, s') \<and>
    bootloader_utility_load_partition_table demo_benv (os_chip s') bs_zero = Some bs \<and>
    (case bootloader_utility_get_selected_boot_partition demo_benv (os_chip s') bs False of (i, ini) \<Rightarrow>
       bootloader_utility_load_boot_image demo_benv (os_chip s') bs ini i = Boots (pos_of demo_app1) (os_chip s'))"
proof -
  have "image_verify demo_env (os_chip (demo_sys [])) (p_address demo_app1) (p_size demo_app1)"
    "fl_cmds (os_chip (demo_sys [])) = []"
    by (simp_all add: demo_env_def demo_sys_def)
  then obtain s' where s': "esp_ota_set_boot_partition demo_env (demo_sys []) (Some demo_app1) = Some (ESP_OK, s')"
    using set_boot_effect [OF demo_facts] by blast
  have magic: "\<forall>j < 3. pi_magic (table_info (os_chip (demo_sys [])) j) = ESP_PARTITION_MAGIC"
  proof (intro allI impI)
    fix j :: nat assume "j < 3"
    then have "j = 0 \<or> j = Suc 0 \<or> j = 2" by auto
    then show "pi_magic (table_info (os_chip (demo_sys [])) j) = ESP_PARTITION_MAGIC"
      by (auto simp: demo_table_info demo_info_def)
  qed
  have load: "load_partitions False (\<lambda>_. True) (\<lambda>_ _. True) (os_chip (demo_sys [])) = (ESP_OK, os_parts (demo_sys []))"
    using firmware_loads_same_table [OF demo_verify magic, of False] demo_parts [of "[]"] demo_table_infos [of "[]"]
    by (simp only:)
  have lay: "table_layout (map (table_info (os_chip (demo_sys []))) [0..<3]) 2"
    using demo_layout demo_table_infos [of "[]"] by (simp only:)
  have crc: "rom_crc32_le demo_benv = crc32_le demo_env" "\<forall>a b. bootloader_mmap demo_benv a b"
    "try_load_partition demo_benv (os_chip s') (pos_of demo_app1)"
    by (simp_all add: demo_benv_def demo_env_def try_load_partition_def pos_of_def demo_app1_def)
  from switch_then_bootloader_boots [OF demo_verify magic load lay demo_otadata_ok demo_range demo_slot crc(1,2) s' crc(3)]
  show ?thesis by - (rule exI [of _ s'], simp add: s')
qed

end
