(* ===== verification/Group_Table.thy ===== *)
theory Group_Table
  imports Prelude "HOL-Library.Monad_Syntax"
begin

text \<open>
  The table of the chargers of a group (\<^verbatim>\<open>coms/Gestion_Grupo.cpp\<close>, the types of
  \<^verbatim>\<open>tipos.h\<close>, and the loading of the stored group in \<^verbatim>\<open>control.cpp\<close>): a fixed array of 40
  entries and a count, its operations, the rotation that puts the master first, and the flash image
  of the group with the routines that write and read it. Fields of 8 and 16 bits are naturals, with the
  reduction modulo \<open>2 ^ 8\<close> or \<open>2 ^ 16\<close> written at the assignments that can exceed them. An access
  outside an array is \<open>None\<close>.
\<close>

section \<open>Data\<close>

abbreviation c8 :: "nat \<Rightarrow> nat" where "c8 x \<equiv> x mod 256"
abbreviation c16 :: "nat \<Rightarrow> nat" where "c16 x \<equiv> x mod 65536"

record carac_charger =
  ch_name :: string
  ch_IP :: nat
  ch_HPT :: string
  ch_Fase :: nat
  ch_Circuito :: nat
  ch_order :: nat
  ch_trifasico :: nat
  ch_Consigna :: nat
  ch_Current :: nat
  ch_CurrentB :: nat
  ch_CurrentC :: nat
  ch_Delta :: nat
  ch_Delta_timer :: nat
  ch_Period :: nat
  ch_Conected :: bool
  ch_ChargeReq :: bool

definition MAX_GROUP_SIZE :: nat where "MAX_GROUP_SIZE = 40"
definition MAX_GROUP_BUFFER_SIZE :: nat where "MAX_GROUP_BUFFER_SIZE = 9 * 40 + 2"
definition INADDR_NONE :: nat where "INADDR_NONE = 0"

lemmas group_consts = MAX_GROUP_SIZE_def MAX_GROUP_BUFFER_SIZE_def

text \<open>The first \<open>n\<close> characters of the operands agree (\<^verbatim>\<open>!memcmp(a, b, n)\<close>).\<close>

definition memeq :: "string \<Rightarrow> string \<Rightarrow> nat \<Rightarrow> bool" where
  "memeq a b n \<longleftrightarrow> take n a = take n b"

type_synonym group = "carac_charger list \<times> nat"

section \<open>Operations on the table\<close>

fun check_loop :: "string \<Rightarrow> carac_charger list \<Rightarrow> nat \<Rightarrow> nat \<Rightarrow> nat" where
  "check_loop ID g j 0 = 255"
| "check_loop ID g j (Suc n) =
     (if memeq ID (ch_name (g ! j)) 8 then c8 j else check_loop ID g (j + 1) n)"

definition check_in_group :: "string \<Rightarrow> carac_charger list \<Rightarrow> nat \<Rightarrow> nat" where
  "check_in_group ID g sz = check_loop ID g 0 sz"

definition add_to_group :: "string \<Rightarrow> nat \<Rightarrow> group \<Rightarrow> bool \<times> group" where
  "add_to_group ID ip = (\<lambda>(g, n).
     if n < MAX_GROUP_SIZE \<and> check_in_group ID g n = 255
     then (True, g[n := (g ! n)\<lparr>ch_name := take 8 ID @ [CHR 0x00], ch_IP := ip,
             ch_HPT := [CHR ''0'', CHR ''0'', CHR 0x00], ch_Current := 0, ch_Conected := False,
             ch_Delta := 0, ch_Delta_timer := 0, ch_Circuito := 0, ch_Consigna := 0, ch_Period := 0\<rparr>],
           n + 1)
     else (False, (g, n)))"

text \<open>The inner loop of a removal copies each entry over its predecessor.\<close>

fun shift_loop :: "carac_charger list \<Rightarrow> nat \<Rightarrow> nat \<Rightarrow> carac_charger list" where
  "shift_loop g i 0 = g"
| "shift_loop g i (Suc k) = shift_loop (g[i := g ! (i + 1)]) (i + 1) k"

fun remove_loop :: "string \<Rightarrow> carac_charger list \<Rightarrow> nat \<Rightarrow> nat \<Rightarrow> nat \<Rightarrow> bool \<times> group" where
  "remove_loop ID g n j 0 = (False, (g, n))"
| "remove_loop ID g n j (Suc k) =
     (if memeq ID (ch_name (g ! j)) 8 then
        let g1 = (if j \<noteq> n - 1 then shift_loop g j (n - 1 - j) else g)
        in (True, (g1[n - 1 := (g1 ! (n - 1))\<lparr>ch_IP := INADDR_NONE, ch_name := replicate 9 (CHR 0x00)\<rparr>],
                   n - 1))
      else remove_loop ID g n (j + 1) k)"

definition remove_from_group :: "string \<Rightarrow> group \<Rightarrow> bool \<times> group" where
  "remove_from_group ID = (\<lambda>(g, n). remove_loop ID g n 0 n)"

definition remove_group :: "group \<Rightarrow> group" where
  "remove_group = (\<lambda>(g, n).
     if 0 < n
     then (map (\<lambda>c. c\<lparr>ch_IP := INADDR_NONE, ch_Fase := 1, ch_Circuito := 0,
                      ch_name := replicate 9 (CHR 0x00)\<rparr>) (take n g) @ drop n g, 0)
     else (g, n))"

fun get_IP_loop :: "string \<Rightarrow> carac_charger list \<Rightarrow> nat" where
  "get_IP_loop ID [] = INADDR_NONE"
| "get_IP_loop ID (c # cs) = (if memeq ID (ch_name c) 8 then ch_IP c else get_IP_loop ID cs)"

text \<open>The device's address in the table of the network (\<open>net_group\<close>, \<open>net_group_size\<close>).\<close>

definition get_IP :: "group \<Rightarrow> string \<Rightarrow> nat" where
  "get_IP net ID = get_IP_loop ID (take (snd net) (fst net))"

text \<open>
  The rotation that makes this device the first of the table: the first entry is removed and appended
  again, and \<open>keep\<close> restores its data in the slot at the end. The loop has no bound of its own.
\<close>

definition rotate_step :: "(carac_charger \<Rightarrow> carac_charger \<Rightarrow> carac_charger) \<Rightarrow> group \<Rightarrow> group" where
  "rotate_step keep = (\<lambda>(g, n).
     let OldMaster = g ! 0;
         (_, g1) = remove_from_group (ch_name OldMaster) (g, n);
         (_, (g2, n2)) = add_to_group (ch_name OldMaster) (ch_IP OldMaster) g1
     in (g2[n2 - 1 := keep OldMaster (g2 ! (n2 - 1))], n2))"

partial_function (option) master_first ::
  "(carac_charger \<Rightarrow> carac_charger \<Rightarrow> carac_charger) \<Rightarrow> string \<Rightarrow> group \<Rightarrow> group option" where
  "master_first keep dev gn =
     (if memeq (ch_name (fst gn ! 0)) dev 8 then Some gn
      else master_first keep dev (rotate_step keep gn))"

text \<open>Storing a group assigns the whole entry; loading one assigns these fields only.\<close>

definition keep_entry :: "carac_charger \<Rightarrow> carac_charger \<Rightarrow> carac_charger" where
  "keep_entry OldMaster slot = OldMaster"

definition keep_fields :: "carac_charger \<Rightarrow> carac_charger \<Rightarrow> carac_charger" where
  "keep_fields OldMaster slot =
     slot\<lparr>ch_Fase := ch_Fase OldMaster, ch_Circuito := ch_Circuito OldMaster,
       ch_Current := ch_Current OldMaster, ch_CurrentB := ch_CurrentB OldMaster,
       ch_CurrentC := ch_CurrentC OldMaster, ch_Consigna := ch_Consigna OldMaster,
       ch_Delta := ch_Delta OldMaster, ch_Delta_timer := ch_Delta_timer OldMaster,
       ch_HPT := ch_HPT OldMaster\<rparr>"

section \<open>The flash image of the group\<close>

text \<open>The number of entries as two decimal digits.\<close>

definition digit :: "nat \<Rightarrow> char" where "digit d = char_of (48 + d)"

definition size_digits :: "nat \<Rightarrow> string" where
  "size_digits n =
     (if n < 10 then [digit 0, digit n, CHR 0x00] else [digit (n div 10), digit (n mod 10), CHR 0x00])"

definition fase_circuito_char :: "carac_charger \<Rightarrow> char" where
  "fase_circuito_char c = char_of (c8 (4 * ch_Circuito c + ch_Fase c))"

fun store_entries :: "carac_charger list \<Rightarrow> nat \<Rightarrow> string \<Rightarrow> string option" where
  "store_entries [] i buf = mem_write buf (2 + i * 9) [CHR 0x00]"
| "store_entries (c # cs) i buf =
     do { buf1 \<leftarrow> mem_write buf (2 + i * 9) (take 8 (ch_name c));
          buf2 \<leftarrow> mem_write buf1 (10 + i * 9) [fase_circuito_char c];
          store_entries cs (i + 1) buf2 }"

record group_sys =
  gs_table :: "carac_charger list"
  gs_number :: nat
  gs_buf :: string
  gs_params :: "nat list"
  gs_guardar :: bool
  gs_Conected :: bool
  gs_DeleteOrder :: bool
  gs_SendNewGroup :: bool
  gs_NewData :: bool
  gs_GroupMaster :: nat

definition store_group_in_mem :: "string \<Rightarrow> group_sys \<Rightarrow> group_sys option" where
  "store_group_in_mem dev s =
     (let n = gs_number s in
      if 0 < n then
        do { buf0 \<leftarrow> mem_write (gs_buf s) 0 (size_digits n);
             buf1 \<leftarrow> store_entries (take n (gs_table s)) 0 buf0;
             let outside = check_in_group dev (gs_table s) n = 255;
             let s1 = s\<lparr>gs_buf := buf1, gs_guardar := True,
                        gs_DeleteOrder := (if outside \<and> gs_Conected s then True else gs_DeleteOrder s)\<rparr>;
             (if gs_GroupMaster s \<noteq> 0 \<and> \<not> memeq (ch_name (gs_table s ! 0)) dev 8 \<and> \<not> outside
              then map_option (\<lambda>(g, n'). s1\<lparr>gs_table := g, gs_number := n', gs_SendNewGroup := True\<rparr>)
                     (master_first keep_entry dev (gs_table s, n))
              else Some s1) }
      else
        do { buf1 \<leftarrow> mem_write (replicate MAX_GROUP_BUFFER_SIZE (CHR 0x00)) 0 (''00_CLEAN_'' @ [CHR 0x00]);
             buf2 \<leftarrow> mem_write buf1 8 [CHR 0x00];
             Some (s\<lparr>gs_buf := buf2, gs_guardar := True\<rparr>) })"

section \<open>Loading the stored group\<close>

text \<open>\<^verbatim>\<open>atoi\<close> on a character array: the digits up to the first other character.\<close>

definition is_digit :: "char \<Rightarrow> bool" where "is_digit c \<longleftrightarrow> 48 \<le> (of_char c :: nat) \<and> (of_char c :: nat) \<le> 57"

definition atoi :: "string \<Rightarrow> nat" where
  "atoi cs = foldl (\<lambda>a c. 10 * a + (of_char c - 48)) 0 (takeWhile is_digit cs)"

text \<open>What the temporary copy keeps of an entry.\<close>

definition restore_from :: "carac_charger \<Rightarrow> carac_charger \<Rightarrow> carac_charger" where
  "restore_from t c =
     c\<lparr>ch_HPT := ch_HPT t, ch_Current := ch_Current t, ch_CurrentB := ch_CurrentB t,
       ch_CurrentC := ch_CurrentC t, ch_Delta := ch_Delta t, ch_Consigna := ch_Consigna t,
       ch_Delta_timer := ch_Delta_timer t\<rparr>"

text \<open>
  One entry of the stored group: it is added to the table, and then position \<open>i\<close> of the table (not
  the position it was added at) gets its phase, its circuit and the data kept from the old table.
\<close>

definition load_entry ::
  "string \<Rightarrow> (string \<Rightarrow> nat) \<Rightarrow> group \<Rightarrow> string \<Rightarrow> nat \<Rightarrow> group \<Rightarrow> group" where
  "load_entry dev ip temp buf i gn =
     (let ID = take 8 (drop (2 + i * 9) buf);
          value = (of_char (buf ! (10 + i * 9)) :: nat);
          (_, (g1, n1)) = add_to_group ID (ip ID) gn;
          g2 = g1[i := (g1 ! i)\<lparr>ch_Fase := value mod 4, ch_Circuito := value div 4\<rparr>];
          index = check_in_group ID (fst temp) (snd temp);
          g3 = (if index \<noteq> 255 then g2[i := restore_from (fst temp ! index) (g2 ! i)] else g2);
          g4 = (if memeq ID dev 8 then g3[i := (g3 ! i)\<lparr>ch_Conected := True\<rparr>] else g3)
      in (g4, n1))"

fun load_loop ::
  "string \<Rightarrow> (string \<Rightarrow> nat) \<Rightarrow> group \<Rightarrow> string \<Rightarrow> nat \<Rightarrow> nat \<Rightarrow> group \<Rightarrow> group" where
  "load_loop dev ip temp buf i 0 gn = gn"
| "load_loop dev ip temp buf i (Suc k) gn =
     load_loop dev ip temp buf (i + 1) k (load_entry dev ip temp buf i gn)"

text \<open>
  The array of the two digits has no terminator: \<open>after\<close> is what follows it in memory. A stored number
  above 40 leaves the arrays.
\<close>

definition Get_Stored_Group_Data ::
  "string \<Rightarrow> (string \<Rightarrow> nat) \<Rightarrow> string \<Rightarrow> group_sys \<Rightarrow> group_sys option" where
  "Get_Stored_Group_Data dev ip after s =
     (let temp = (take (gs_number s) (gs_table s), gs_number s);
          limit = c8 (atoi (take 2 (gs_buf s) @ after)) in
      if MAX_GROUP_SIZE < limit then None
      else
        let (g, n) = load_loop dev ip temp (gs_buf s) 0 limit (gs_table s, 0);
            outside = check_in_group dev g n = 255;
            s1 = s\<lparr>gs_NewData := True, gs_table := g, gs_number := n,
                   gs_DeleteOrder := (if outside \<and> gs_Conected s then True else gs_DeleteOrder s)\<rparr>
        in if gs_GroupMaster s \<noteq> 0 \<and> \<not> memeq (ch_name (g ! 0)) dev 8 \<and> 0 < n \<and> \<not> outside
           then map_option (\<lambda>(g', n'). s1\<lparr>gs_table := g', gs_number := n', gs_SendNewGroup := True\<rparr>)
                  (master_first keep_fields dev (g, n))
           else Some s1)"

section \<open>The table as a list of identifiers\<close>

text \<open>
  The invariant: 40 entries, at most 40 in use, identifiers of eight characters and a terminator, no
  identifier twice. The keys are the identifiers in use.
\<close>

definition key :: "carac_charger \<Rightarrow> string" where "key c = take 8 (ch_name c)"

definition live :: "group \<Rightarrow> carac_charger list" where "live gn = take (snd gn) (fst gn)"

definition keys :: "group \<Rightarrow> string list" where "keys gn = map key (live gn)"

definition group_wf :: "group \<Rightarrow> bool" where
  "group_wf gn \<longleftrightarrow> length (fst gn) = MAX_GROUP_SIZE \<and> snd gn \<le> MAX_GROUP_SIZE \<and>
     (\<forall>c \<in> set (live gn). length (ch_name c) = 9) \<and> distinct (keys gn)"

lemma live_nth: "j < n \<Longrightarrow> n \<le> length g \<Longrightarrow> live (g, n) ! j = g ! j"
  by (simp add: live_def)

lemma length_live: "n \<le> length g \<Longrightarrow> length (live (g, n)) = n"
  by (simp add: live_def)

lemma live_hd: "0 < n \<Longrightarrow> n \<le> length g \<Longrightarrow> live (g, n) = g ! 0 # tl (live (g, n))"
  by (cases g; cases n) (auto simp: live_def)

lemma check_loop_spec:
  "j + k \<le> 255 \<Longrightarrow>
   (check_loop ID g j k = 255 \<and> (\<forall>i. j \<le> i \<and> i < j + k \<longrightarrow> \<not> memeq ID (ch_name (g ! i)) 8)) \<or>
   (j \<le> check_loop ID g j k \<and> check_loop ID g j k < j + k \<and> memeq ID (ch_name (g ! check_loop ID g j k)) 8)"
proof (induction ID g j k rule: check_loop.induct)
  case (2 ID g j k)
  show ?case
  proof (cases "memeq ID (ch_name (g ! j)) 8")
    case True
    with 2 show ?thesis by simp
  next
    case False
    have "\<not> memeq ID (ch_name (g ! i)) 8"
      if "\<forall>i. j + 1 \<le> i \<and> i < j + 1 + k \<longrightarrow> \<not> memeq ID (ch_name (g ! i)) 8" "j \<le> i" "i < j + Suc k" for i
      using that False by (cases "i = j") auto
    with 2 False show ?thesis by (auto simp: Suc_le_eq)
  qed
qed auto

lemma key_in_keys: "n \<le> length g \<Longrightarrow> k \<in> set (keys (g, n)) \<longleftrightarrow> (\<exists>i < n. key (g ! i) = k)"
  by (simp add: keys_def live_def image_iff) (metis in_set_conv_nth length_take min.absorb2 nth_take)

lemma check_in_group_absent:
  assumes "n \<le> length g" "n \<le> 40"
  shows "check_in_group ID g n = 255 \<longleftrightarrow> take 8 ID \<notin> set (keys (g, n))"
  using check_loop_spec [of 0 n ID g] assms
  by (auto simp: check_in_group_def key_in_keys memeq_def key_def)

lemma check_in_group_found:
  assumes "n \<le> length g" "n \<le> 40" "distinct (keys (g, n))" "i < n" "take 8 ID = key (g ! i)"
  shows "check_in_group ID g n = i"
proof -
  let ?r = "check_in_group ID g n"
  have "?r < n \<and> key (g ! ?r) = key (g ! i)"
    using check_loop_spec [of 0 n ID g] assms by (auto simp: check_in_group_def memeq_def key_def)
  then have "keys (g, n) ! ?r = keys (g, n) ! i" "length (keys (g, n)) = n" "?r < n"
    using assms(1,4) by (simp_all add: keys_def live_def)
  with assms(3,4) show ?thesis using nth_eq_iff_index_eq by metis
qed

lemma shift_loop_spec:
  "i + k < length g \<Longrightarrow> shift_loop g i k = take i g @ take k (drop (i + 1) g) @ drop (i + k) g"
proof (induction g i k rule: shift_loop.induct)
  case (2 g i k)
  have g: "g[i := g ! (i + 1)] = take i g @ [g ! (i + 1)] @ drop (i + 1) g"
    using "2.prems" by (simp add: upd_conv_take_nth_drop)
  have "take (Suc k) (drop (i + 1) g) = g ! (i + 1) # take k (drop (i + 2) g)"
    using "2.prems" by (subst Cons_nth_drop_Suc [symmetric]) simp_all
  moreover have "take (i + 1) (g[i := g ! (i + 1)]) = take i g @ [g ! (i + 1)]"
    using "2.prems" unfolding g by simp
  moreover have "take k (drop (i + 1 + 1) (g[i := g ! (i + 1)])) = take k (drop (i + 2) g)"
    "drop (i + 1 + k) (g[i := g ! (i + 1)]) = drop (i + Suc k) g"
    using "2.prems" by (simp_all add: drop_update_cancel)
  ultimately show ?case using 2 by simp
qed simp

lemma remove_loop_found:
  "i < j + k \<Longrightarrow> j \<le> i \<Longrightarrow> memeq ID (ch_name (g ! i)) 8 \<Longrightarrow>
   \<forall>m. j \<le> m \<and> m < i \<longrightarrow> \<not> memeq ID (ch_name (g ! m)) 8 \<Longrightarrow>
   remove_loop ID g n j k =
     (let g1 = (if i \<noteq> n - 1 then shift_loop g i (n - 1 - i) else g)
      in (True, (g1[n - 1 := (g1 ! (n - 1))\<lparr>ch_IP := INADDR_NONE, ch_name := replicate 9 (CHR 0x00)\<rparr>], n - 1)))"
proof (induction ID g n j k rule: remove_loop.induct)
  case (2 ID g n j k)
  then show ?case by (cases "j = i") auto
qed simp

lemma remove_loop_absent:
  "\<forall>m. j \<le> m \<and> m < j + k \<longrightarrow> \<not> memeq ID (ch_name (g ! m)) 8 \<Longrightarrow> remove_loop ID g n j k = (False, (g, n))"
  by (induction ID g n j k rule: remove_loop.induct) auto

text \<open>Removing the entry at position \<open>i\<close> closes the gap and keeps the order.\<close>

lemma remove_at:
  assumes "n \<le> length g" "n \<le> 40" "distinct (keys (g, n))" "i < n" "take 8 ID = key (g ! i)"
  shows "\<exists>g'. remove_from_group ID (g, n) = (True, (g', n - 1)) \<and> length g' = length g \<and>
    live (g', n - 1) = take i (live (g, n)) @ drop (i + 1) (live (g, n)) \<and>
    drop n g' = drop n g"
proof -
  have m: "memeq ID (ch_name (g ! i)) 8" using assms(5) by (simp add: memeq_def key_def)
  have "\<not> memeq ID (ch_name (g ! j)) 8" if "j < i" for j
  proof
    assume "memeq ID (ch_name (g ! j)) 8"
    then have "keys (g, n) ! j = keys (g, n) ! i" "length (keys (g, n)) = n"
      using m assms(1,4) that by (simp_all add: keys_def live_def key_def memeq_def)
    with assms(3,4) that show False using nth_eq_iff_index_eq by (metis less_irrefl less_trans)
  qed
  then have r: "remove_from_group ID (g, n) =
     (let g1 = (if i \<noteq> n - 1 then shift_loop g i (n - 1 - i) else g)
      in (True, (g1[n - 1 := (g1 ! (n - 1))\<lparr>ch_IP := INADDR_NONE, ch_name := replicate 9 (CHR 0x00)\<rparr>], n - 1)))"
    using remove_loop_found [of i 0 n ID g n] m assms(4) by (simp add: remove_from_group_def)
  define g1 where "g1 = (if i \<noteq> n - 1 then shift_loop g i (n - 1 - i) else g)"
  note r1 = r [folded g1_def, unfolded Let_def]
  have "i + (n - 1 - i) < length g" using assms(1,4) by simp
  then have g1: "g1 = take i g @ take (n - 1 - i) (drop (i + 1) g) @ drop (n - 1) g"
    using shift_loop_spec [of i "n - 1 - i" g] assms(4) by (auto simp: g1_def)
  have "take (n - 1) g1 = take i g @ take (n - 1 - i) (drop (i + 1) g)"
    using assms(1,4) by (simp add: g1)
  also have "\<dots> = take i (live (g, n)) @ drop (i + 1) (live (g, n))"
    using assms(4) by (simp add: live_def drop_take min_def)
  finally have "take (n - 1) g1 = take i (live (g, n)) @ drop (i + 1) (live (g, n))" .
  moreover have "length g1 = length g" "drop n g1 = drop n g"
    using assms(1,4) by (simp_all add: g1 drop_append)
  ultimately show ?thesis
    using r1 assms(4) by (simp add: live_def drop_update_cancel)
qed

lemma remove_absent:
  assumes "n \<le> length g" "take 8 ID \<notin> set (keys (g, n))"
  shows "remove_from_group ID (g, n) = (False, (g, n))"
  using assms by (auto simp: remove_from_group_def key_in_keys key_def memeq_def intro!: remove_loop_absent)

lemma group_wfD:
  assumes "group_wf (g, n)"
  shows "length g = 40" "n \<le> 40" "n \<le> length g" "distinct (keys (g, n))" "length (keys (g, n)) = n"
    "c \<in> set (live (g, n)) \<Longrightarrow> length (ch_name c) = 9"
  using assms by (auto simp: group_wf_def group_consts keys_def live_def)

lemma add_new:
  assumes "length g = 40" "n < 40" "take 8 ID \<notin> set (keys (g, n))"
  shows "\<exists>c. add_to_group ID ip (g, n) = (True, (g[n := c], n + 1)) \<and>
    live (g[n := c], n + 1) = live (g, n) @ [c] \<and>
    c = (g ! n)\<lparr>ch_name := take 8 ID @ [CHR 0x00], ch_IP := ip,
          ch_HPT := [CHR ''0'', CHR ''0'', CHR 0x00], ch_Current := 0, ch_Conected := False,
          ch_Delta := 0, ch_Delta_timer := 0, ch_Circuito := 0, ch_Consigna := 0, ch_Period := 0\<rparr>"
proof -
  have "check_in_group ID g n = 255" using assms by (simp add: check_in_group_absent)
  moreover have "live (g[n := c], n + 1) = live (g, n) @ [c]" for c
    using assms(1,2) by (simp add: live_def take_Suc_conv_app_nth)
  ultimately show ?thesis using assms(2) by (simp add: add_to_group_def group_consts)
qed

lemma add_unchanged:
  assumes "n \<le> length g" "n \<le> 40" "take 8 ID \<in> set (keys (g, n)) \<or> n = 40"
  shows "add_to_group ID ip (g, n) = (False, (g, n))"
  using assms by (auto simp: add_to_group_def group_consts check_in_group_absent)

lemma keys_snoc: "live gn' = live gn @ [c] \<Longrightarrow> keys gn' = keys gn @ [key c]"
  by (simp add: keys_def)

lemma group_add:
  assumes wf: "group_wf gn" and ID: "8 \<le> length ID"
  shows "group_wf (snd (add_to_group ID ip gn)) \<and>
    keys (snd (add_to_group ID ip gn)) = reg_add 40 (take 8 ID) (keys gn)"
proof -
  obtain g n where gn: "gn = (g, n)" by force
  note w = group_wfD [OF wf [unfolded gn]]
  show ?thesis
  proof (cases "take 8 ID \<in> set (keys gn) \<or> n = 40")
    case True
    then have "add_to_group ID ip gn = (False, gn)" using add_unchanged w gn by simp
    with True wf w gn show ?thesis by (auto simp: reg_add_def)
  next
    case False
    then have n: "n < 40" "take 8 ID \<notin> set (keys (g, n))" using w gn by auto
    obtain c where c: "add_to_group ID ip (g, n) = (True, (g[n := c], n + 1))"
        "live (g[n := c], n + 1) = live (g, n) @ [c]" "ch_name c = take 8 ID @ [CHR 0x00]"
      using add_new [OF w(1) n, of ip] by auto
    have k: "keys (g[n := c], n + 1) = keys (g, n) @ [take 8 ID]"
      using keys_snoc [OF c(2)] c(3) ID by (simp add: key_def)
    then have "group_wf (g[n := c], n + 1)"
      using w c(2,3) n ID by (auto simp: group_wf_def group_consts)
    with k c(1) n w gn show ?thesis by (simp add: reg_add_def)
  qed
qed

lemma take_drop_remove1:
  "distinct xs \<Longrightarrow> i < length xs \<Longrightarrow> take i xs @ drop (i + 1) xs = remove1 (xs ! i) xs"
proof (induction xs arbitrary: i)
  case (Cons x xs)
  show ?case
  proof (cases i)
    case (Suc j)
    with Cons show ?thesis by auto
  qed simp
qed simp

lemma group_remove:
  assumes wf: "group_wf gn" and ID: "8 \<le> length ID"
  shows "group_wf (snd (remove_from_group ID gn)) \<and>
    keys (snd (remove_from_group ID gn)) = remove1 (take 8 ID) (keys gn)"
proof -
  obtain g n where gn: "gn = (g, n)" by force
  note w = group_wfD [OF wf [unfolded gn]]
  show ?thesis
  proof (cases "take 8 ID \<in> set (keys gn)")
    case False
    then have "remove_from_group ID gn = (False, gn)" using remove_absent w gn by simp
    with False wf show ?thesis by (simp add: remove1_idem)
  next
    case True
    then obtain i where i: "i < n" "take 8 ID = key (g ! i)" using w gn by (auto simp: key_in_keys)
    obtain g' where g': "remove_from_group ID (g, n) = (True, (g', n - 1))" "length g' = length g"
        "live (g', n - 1) = take i (live (g, n)) @ drop (i + 1) (live (g, n))"
      using remove_at [OF w(3,2,4) i] by blast
    have "keys (g', n - 1) = take i (keys (g, n)) @ drop (i + 1) (keys (g, n))"
      using g'(3) by (simp add: keys_def take_map drop_map)
    also have "\<dots> = remove1 (take 8 ID) (keys (g, n))"
      using take_drop_remove1 [OF w(4), of i] i w(3) by (simp add: keys_def live_def)
    finally have k: "keys (g', n - 1) = remove1 (take 8 ID) (keys (g, n))" .
    moreover have "set (live (g', n - 1)) \<subseteq> set (live (g, n))"
      using g'(3) by (auto dest: in_set_takeD in_set_dropD)
    ultimately have "group_wf (g', n - 1)"
      using w g'(2) by (auto simp: group_wf_def group_consts distinct_remove1)
    with k g'(1) gn show ?thesis by simp
  qed
qed

lemma group_wf_bounded: "group_wf gn \<Longrightarrow> distinct (keys gn) \<and> length (keys gn) \<le> 40"
  by (simp add: group_wf_def keys_def live_def group_consts)

interpretation grp: registry group_wf "\<lambda>ID. 8 \<le> length ID" keys "take 8" 40
  "\<lambda>ID g. snd (add_to_group ID (ip ID) g)" "\<lambda>ID g. snd (remove_from_group ID g)"
  for ip :: "string \<Rightarrow> nat"
  by unfold_locales (simp_all add: group_add group_remove group_wf_bounded)

text \<open>
  C13: the table of the group under any sequence of additions and removals. Seen through the
  identifiers in use it is a bounded list without duplicates: an addition appends an identifier that is
  new as long as there is room, a removal deletes it and keeps the order; the table never holds an
  identifier twice nor more than 40.
\<close>

theorem group_table_refines_registry:
  assumes "group_wf gn" "\<forall>c \<in> set cmds. case c of Reg_Add ID \<Rightarrow> 8 \<le> length ID | Reg_Del ID \<Rightarrow> 8 \<le> length ID"
    and "gn' = reg_run (\<lambda>ID g. snd (add_to_group ID (ip ID) g)) (\<lambda>ID g. snd (remove_from_group ID g)) cmds gn"
  shows "group_wf gn' \<and> distinct (keys gn') \<and> length (keys gn') \<le> MAX_GROUP_SIZE \<and>
    keys gn' = reg_run (\<lambda>ID. reg_add MAX_GROUP_SIZE (take 8 ID)) (\<lambda>ID. remove1 (take 8 ID)) cmds (keys gn)"
  using grp.run_refines [OF assms(1,2), of ip] grp.run_bounded [OF assms(1,2), of ip] assms(3)
  by (simp add: group_consts)

definition demo_charger :: "string \<Rightarrow> carac_charger" where
  "demo_charger nm = \<lparr>ch_name = nm @ [CHR 0x00], ch_IP = 0, ch_HPT = ''A1'', ch_Fase = 1, ch_Circuito = 1,
     ch_order = 0, ch_trifasico = 0, ch_Consigna = 0, ch_Current = 0, ch_CurrentB = 0, ch_CurrentC = 0,
     ch_Delta = 0, ch_Delta_timer = 0, ch_Period = 0, ch_Conected = False, ch_ChargeReq = False\<rparr>"

definition demo_group :: group where
  "demo_group = ([demo_charger ''VCD00001'', demo_charger ''VCD00002''] @ replicate 38 (demo_charger ''        ''), 2)"

lemma demo_live: "live demo_group = [demo_charger ''VCD00001'', demo_charger ''VCD00002'']"
  by (simp add: live_def demo_group_def)

lemma demo_group_wf: "group_wf demo_group"
  using demo_live by (simp add: group_wf_def keys_def key_def group_consts demo_charger_def)
    (simp add: demo_group_def)

theorem group_table_refines_registry_witness:
  "keys (reg_run (\<lambda>ID g. snd (add_to_group ID ((\<lambda>_. 7) ID) g)) (\<lambda>ID g. snd (remove_from_group ID g))
     [Reg_Add ''VCD00003'', Reg_Del ''VCD00001''] demo_group) = [''VCD00002'', ''VCD00003'']"
proof -
  have "\<forall>c \<in> set [Reg_Add ''VCD00003'', Reg_Del ''VCD00001'']. case c of Reg_Add ID \<Rightarrow> 8 \<le> length ID | Reg_Del ID \<Rightarrow> 8 \<le> length ID"
    by simp
  from group_table_refines_registry [OF demo_group_wf this refl, of "\<lambda>_. 7"] show ?thesis
    by (simp add: reg_run_def reg_add_def keys_def demo_live key_def demo_charger_def group_consts)
qed

section \<open>The master comes first\<close>

text \<open>What \<open>keep\<close> must do: the restored entry has the identifier of the old one.\<close>

definition keeps_name :: "(carac_charger \<Rightarrow> carac_charger \<Rightarrow> carac_charger) \<Rightarrow> bool" where
  "keeps_name keep \<longleftrightarrow> (\<forall>old slot. length (ch_name old) = 9 \<longrightarrow> ch_name slot = take 8 (ch_name old) @ [CHR 0x00] \<longrightarrow>
     take 8 (ch_name (keep old slot)) = take 8 (ch_name old) \<and> length (ch_name (keep old slot)) = 9)"

lemma keeps_name_variants: "keeps_name keep_entry" "keeps_name keep_fields"
  by (simp_all add: keeps_name_def keep_entry_def keep_fields_def)

lemma rotate_step_spec:
  assumes wf: "group_wf (g, n)" and n: "0 < n" and keep: "keeps_name keep"
  shows "\<exists>g' slot. rotate_step keep (g, n) = (g', n) \<and> group_wf (g', n) \<and>
    live (g', n) = tl (live (g, n)) @ [keep (g ! 0) slot] \<and> keys (g', n) = rotate1 (keys (g, n))"
proof -
  note w = group_wfD [OF wf]
  let ?old = "g ! 0"
  have ne: "live (g, n) \<noteq> []" using n w(1,2) by (auto simp: live_def)
  have hd: "hd (live (g, n)) = ?old" using live_hd [OF n w(3)] by (metis list.sel(1))
  have len9: "length (ch_name ?old) = 9" using w(6) ne hd by (metis hd_in_set)
  obtain g1 where g1: "remove_from_group (ch_name ?old) (g, n) = (True, (g1, n - 1))" "length g1 = length g"
      "live (g1, n - 1) = take 0 (live (g, n)) @ drop (0 + 1) (live (g, n))"
    using remove_at [OF w(3,2,4) n, of "ch_name ?old"] by (auto simp: key_def)
  have l1: "live (g1, n - 1) = tl (live (g, n))" using g1(3) by (simp add: drop_Suc)
  have kk: "keys (g, n) = key ?old # keys (g1, n - 1)" using ne hd l1 by (cases "live (g, n)") (auto simp: keys_def)
  then have notin: "take 8 (ch_name ?old) \<notin> set (keys (g1, n - 1))" using w(4) by (simp add: key_def)
  have "length g1 = 40" "n - 1 < 40" using g1(2) w(1,2) n by auto
  from add_new [OF this notin, of "ch_IP ?old"] obtain c where
    c: "add_to_group (ch_name ?old) (ch_IP ?old) (g1, n - 1) = (True, (g1[n - 1 := c], n))"
      "ch_name c = take 8 (ch_name ?old) @ [CHR 0x00]"
    using n by auto
  let ?g = "g1[n - 1 := keep ?old c]"
  have r: "rotate_step keep (g, n) = (?g, n)"
    using g1 c w n by (simp add: rotate_step_def)
  have nm: "take 8 (ch_name (keep ?old c)) = take 8 (ch_name ?old)" "length (ch_name (keep ?old c)) = 9"
    using keep len9 c(2) by (auto simp: keeps_name_def)
  have lv: "live (?g, n) = live (g1, n - 1) @ [keep ?old c]"
    using n w(1,2) g1(2) by (cases n) (simp_all add: live_def take_Suc_conv_app_nth)
  have kr: "keys (?g, n) = rotate1 (keys (g, n))"
    using keys_snoc [OF lv] kk nm(1) by (simp add: key_def)
  have "set (tl (live (g, n))) \<subseteq> set (live (g, n))" using ne by (metis list.set_sel(2) subsetI)
  then have "group_wf (?g, n)"
    using kr w nm(2) g1(2) lv l1 by (auto simp: group_wf_def group_consts)
  with r lv l1 kr show ?thesis by auto
qed

lemma master_first_returns:
  assumes "group_wf (g, n)" "i < n" "key (g ! i) = take 8 dev" "keeps_name keep"
  shows "\<exists>k g'. master_first keep dev (g, n) = Some (g', n) \<and> group_wf (g', n) \<and>
    keys (g', n) = rotate k (keys (g, n)) \<and> key (g' ! 0) = take 8 dev \<and>
    (keep = keep_entry \<longrightarrow> live (g', n) = rotate k (live (g, n)))"
  using assms(1-3)
proof (induction i arbitrary: g)
  case 0
  then have "master_first keep dev (g, n) = Some (g, n)"
    by (subst master_first.simps) (simp add: memeq_def key_def)
  with 0 show ?case by (intro exI [of _ 0] exI [of _ g]) simp
next
  case (Suc i)
  note w = group_wfD [OF Suc.prems(1)]
  have n: "0 < n" using Suc.prems by simp
  show ?case
  proof (cases "key (g ! 0) = take 8 dev")
    case True
    then have "master_first keep dev (g, n) = Some (g, n)"
      by (subst master_first.simps) (simp add: memeq_def key_def)
    with True Suc.prems show ?thesis by (intro exI [of _ 0] exI [of _ g]) simp
  next
    case False
    obtain g' slot where g': "rotate_step keep (g, n) = (g', n)" "group_wf (g', n)"
        "live (g', n) = tl (live (g, n)) @ [keep (g ! 0) slot]" "keys (g', n) = rotate1 (keys (g, n))"
      using rotate_step_spec [OF Suc.prems(1) n assms(4)] by blast
    have "g' ! i = live (g', n) ! i" using Suc.prems(2) group_wfD [OF g'(2)] by (simp add: live_def)
    also have "\<dots> = g ! Suc i"
      using Suc.prems(2) w(3) unfolding g'(3) by (simp add: nth_append nth_tl live_def)
    finally have "key (g' ! i) = take 8 dev" using Suc.prems(3) by simp
    with Suc.IH [OF g'(2)] Suc.prems(2) obtain k h where h: "master_first keep dev (g', n) = Some (h, n)"
        "group_wf (h, n)" "keys (h, n) = rotate k (keys (g', n))" "key (h ! 0) = take 8 dev"
        "keep = keep_entry \<longrightarrow> live (h, n) = rotate k (live (g', n))"
      by auto
    have "master_first keep dev (g, n) = master_first keep dev (g', n)"
      using False g'(1) by (subst master_first.simps) (simp add: memeq_def key_def)
    moreover have "live (g', n) = rotate1 (live (g, n))" if "keep = keep_entry"
      using g'(3) that live_hd [OF n w(3)] by (metis keep_entry_def rotate1.simps(2))
    ultimately show ?thesis
      using h g'(4) by (intro exI [of _ "Suc k"] exI [of _ h]) (simp add: rotate1_rotate_swap)
  qed
qed

text \<open>
  The loop that puts this device first, on a well formed table that contains the device. It ends,
  the device is the first entry, and the entries with all their data are a rotation of the old ones.
\<close>

lemma master_first_rotates:
  assumes "group_wf (g, n)" "take 8 dev \<in> set (keys (g, n))"
  shows "\<exists>k g'. master_first keep_entry dev (g, n) = Some (g', n) \<and> group_wf (g', n) \<and>
    live (g', n) = rotate k (live (g, n)) \<and> key (g' ! 0) = take 8 dev"
proof -
  have "n \<le> length g" using group_wfD [OF assms(1)] by simp
  then obtain i where "i < n" "key (g ! i) = take 8 dev" using assms(2) by (auto simp: key_in_keys)
  from master_first_returns [OF assms(1) this keeps_name_variants(1)] show ?thesis by blast
qed

lemma master_first_rotates_example:
  "\<exists>g'. master_first keep_entry ''VCD00002'' demo_group = Some (g', 2) \<and> key (g' ! 0) = ''VCD00002''"
proof -
  have "take 8 ''VCD00002'' \<in> set (keys demo_group)"
    by (simp add: keys_def demo_live key_def demo_charger_def)
  moreover obtain g where g: "demo_group = (g, 2)" by (simp add: demo_group_def)
  ultimately show ?thesis
    using master_first_rotates [of g 2 "''VCD00002''"] demo_group_wf by auto
qed

section \<open>Storing and loading\<close>

definition enc :: "carac_charger \<Rightarrow> string" where
  "enc c = take 8 (ch_name c) @ [fase_circuito_char c]"

lemma length_enc [simp]: "length (ch_name c) = 9 \<Longrightarrow> length (enc c) = 9"
  by (simp add: enc_def)

lemma length_concat_enc: "\<forall>c \<in> set cs. length (ch_name c) = 9 \<Longrightarrow> length (concat (map enc cs)) = 9 * length cs"
  by (induction cs) auto

lemma store_entries_blit:
  "\<forall>c \<in> set cs. length (ch_name c) = 9 \<Longrightarrow> 2 + (i + length cs) * 9 < length buf \<Longrightarrow>
   store_entries cs i buf = Some (blit buf (2 + i * 9) (concat (map enc cs) @ [CHR 0x00]))"
proof (induction cs arbitrary: i buf)
  case (Cons c cs)
  let ?b1 = "blit buf (2 + i * 9) (take 8 (ch_name c))"
  let ?b2 = "blit ?b1 (10 + i * 9) [fase_circuito_char c]"
  have len: "length (ch_name c) = 9" using Cons.prems by simp
  have b2: "?b2 = blit buf (2 + i * 9) (enc c)"
    using len Cons.prems(2) by (simp add: enc_def blit_append [symmetric] add.commute)
  have "length ?b1 = length buf" "length ?b2 = length buf" using len Cons.prems(2) by simp_all
  then have "store_entries (c # cs) i buf = store_entries cs (i + 1) (blit buf (2 + i * 9) (enc c))"
    using len Cons.prems(2) b2 by simp
  also have "\<dots> = Some (blit (blit buf (2 + i * 9) (enc c)) (2 + (i + 1) * 9) (concat (map enc cs) @ [CHR 0x00]))"
    using Cons len by (intro Cons.IH) simp_all
  also have "\<dots> = Some (blit buf (2 + i * 9) (enc c @ concat (map enc cs) @ [CHR 0x00]))"
    using len Cons.prems by (simp add: blit_append [symmetric] length_concat_enc add.commute)
  finally show ?case by simp
qed simp

lemma concat_nth_block:
  "\<forall>x \<in> set xs. length x = 9 \<Longrightarrow> i < length xs \<Longrightarrow> take 9 (drop (9 * i) (concat xs @ r)) = xs ! i"
proof (induction xs arbitrary: i)
  case (Cons x xs)
  then show ?case by (cases i) auto
qed simp

lemma of_char_digit: "d < 10 \<Longrightarrow> (of_char (digit d) :: nat) = 48 + d"
  by (simp add: digit_def)

lemma atoi_size_digits:
  assumes "n < 100" "after = [] \<or> \<not> is_digit (hd after)"
  shows "atoi (take 2 (size_digits n) @ after) = n"
proof -
  have dd: "is_digit (digit d)" if "d < 10" for d using that by (simp add: is_digit_def of_char_digit)
  have tw: "takeWhile is_digit after = []" using assms(2) by (cases after) auto
  show ?thesis
  proof (cases "n < 10")
    case True
    with True dd [of n] dd [of 0] tw show ?thesis
      by (simp add: atoi_def size_digits_def of_char_digit)
  next
    case False
    with assms(1) dd [of "n div 10"] dd [of "n mod 10"] tw show ?thesis
      by (simp add: atoi_def size_digits_def of_char_digit)
  qed
qed

text \<open>The image that holds a list of chargers.\<close>

definition image_of :: "carac_charger list \<Rightarrow> string \<Rightarrow> string" where
  "image_of cs r = take 2 (size_digits (length cs)) @ concat (map enc cs) @ CHR 0x00 # r"

lemma length_image_of:
  "\<forall>c \<in> set cs. length (ch_name c) = 9 \<Longrightarrow> length (image_of cs r) = 3 + 9 * length cs + length r"
  by (simp add: image_of_def size_digits_def length_concat_enc)

lemma stored_image:
  assumes "\<forall>c \<in> set cs. length (ch_name c) = 9" "length cs < 40" "length buf = MAX_GROUP_BUFFER_SIZE"
  shows "\<exists>r. store_entries cs 0 (blit buf 0 (size_digits (length cs))) = Some (image_of cs r) \<and>
    length (image_of cs r) = MAX_GROUP_BUFFER_SIZE"
proof -
  let ?b0 = "blit buf 0 (size_digits (length cs))"
  have sd: "length (size_digits (length cs)) = 3" by (simp add: size_digits_def)
  have l0: "length ?b0 = 362" using assms(3) sd by (simp add: group_consts)
  have st: "store_entries cs 0 ?b0 = Some (blit ?b0 2 (concat (map enc cs) @ [CHR 0x00]))"
    using store_entries_blit [OF assms(1), of 0 ?b0] l0 assms(2) by simp
  have "take 2 ?b0 = take 2 (size_digits (length cs))" using sd by (simp add: blit_def)
  then have im: "blit ?b0 2 (concat (map enc cs) @ [CHR 0x00]) =
      image_of cs (drop (2 + length (concat (map enc cs) @ [CHR 0x00])) ?b0)"
    by (simp add: blit_def image_of_def)
  have "length (image_of cs (drop (2 + length (concat (map enc cs) @ [CHR 0x00])) ?b0)) = 362"
    using l0 assms(1,2) by (simp add: length_image_of length_concat_enc)
  with st im show ?thesis by (auto simp: group_consts)
qed

lemma store_group_buffer:
  assumes wf: "group_wf (gs_table s, gs_number s)" and n: "0 < gs_number s" "gs_number s < 40"
    and len: "length (gs_buf s) = MAX_GROUP_BUFFER_SIZE" and nomaster: "gs_GroupMaster s = 0"
  shows "\<exists>s1 r. store_group_in_mem dev s = Some s1 \<and> gs_guardar s1 \<and>
    gs_buf s1 = image_of (live (gs_table s, gs_number s)) r \<and> length (gs_buf s1) = MAX_GROUP_BUFFER_SIZE"
proof -
  let ?n = "gs_number s" and ?cs = "live (gs_table s, gs_number s)"
  note w = group_wfD [OF wf]
  have len9: "\<forall>c \<in> set ?cs. length (ch_name c) = 9" using w(6) by blast
  have lcs: "length ?cs = ?n" using w(3) by (simp add: live_def)
  from stored_image [OF len9 _ len] lcs n(2) obtain r where
    r: "store_entries ?cs 0 (blit (gs_buf s) 0 (size_digits ?n)) = Some (image_of ?cs r)"
      "length (image_of ?cs r) = MAX_GROUP_BUFFER_SIZE" by auto
  moreover have "mem_write (gs_buf s) 0 (size_digits ?n) = Some (blit (gs_buf s) 0 (size_digits ?n))"
    using len by (simp add: group_consts size_digits_def)
  ultimately show ?thesis
    using n(1) nomaster by (auto simp: store_group_in_mem_def live_def Let_def)
qed

text \<open>What the flash keeps of an entry.\<close>

definition stored_view :: "carac_charger \<Rightarrow> string \<times> nat \<times> nat" where
  "stored_view c = (key c, ch_Fase c, ch_Circuito c)"

definition storable :: "carac_charger \<Rightarrow> bool" where
  "storable c \<longleftrightarrow> length (ch_name c) = 9 \<and> ch_Fase c < 4 \<and> ch_Circuito c < 64"

lemma load_entry_spec:
  assumes wf: "group_wf (g, i)" and i: "i < 40" and c: "storable c"
    and ID: "take 8 (drop (2 + i * 9) buf) = key c" "buf ! (10 + i * 9) = fase_circuito_char c"
    and new: "key c \<notin> set (keys (g, i))"
  shows "\<exists>g'. load_entry dev ip temp buf i (g, i) = (g', i + 1) \<and> group_wf (g', i + 1) \<and>
    map stored_view (live (g', i + 1)) = map stored_view (live (g, i)) @ [stored_view c] \<and>
    keys (g', i + 1) = keys (g, i) @ [key c]"
proof -
  note w = group_wfD [OF wf]
  have tk: "take 8 (key c) = key c" by (simp add: key_def)
  obtain x where x: "add_to_group (key c) (ip (key c)) (g, i) = (True, (g[i := x], i + 1))"
      "ch_name x = key c @ [CHR 0x00]"
    using add_new [OF w(1) i, of "key c" "ip (key c)"] new tk by auto
  have "(of_char (fase_circuito_char c) :: nat) = 4 * ch_Circuito c + ch_Fase c"
    using c by (simp add: fase_circuito_char_def storable_def)
  then have val: "(of_char (buf ! (10 + i * 9)) :: nat) mod 4 = ch_Fase c"
      "(of_char (buf ! (10 + i * 9)) :: nat) div 4 = ch_Circuito c"
    using c by (simp_all add: ID(2) storable_def)
  have "\<exists>y. load_entry dev ip temp buf i (g, i) = (g[i := y], i + 1) \<and> ch_name y = key c @ [CHR 0x00] \<and>
      ch_Fase y = ch_Fase c \<and> ch_Circuito y = ch_Circuito c"
    using x i w(1) unfolding load_entry_def Let_def ID(1) val by (auto simp: restore_from_def)
  then obtain y where y: "load_entry dev ip temp buf i (g, i) = (g[i := y], i + 1)" "ch_name y = key c @ [CHR 0x00]"
      "ch_Fase y = ch_Fase c" "ch_Circuito y = ch_Circuito c" by blast
  have l: "live (g[i := y], i + 1) = live (g, i) @ [y]"
    using i w(1) by (simp add: live_def take_Suc_conv_app_nth)
  have len8: "length (key c) = 8" using c by (simp add: key_def storable_def)
  then have ky: "key y = key c" using y(2) by (simp add: key_def)
  then have "keys (g[i := y], i + 1) = keys (g, i) @ [key c]" using keys_snoc [OF l] by simp
  moreover from this have "group_wf (g[i := y], i + 1)"
    using w l y(2) len8 new i by (auto simp: group_wf_def group_consts)
  moreover have "stored_view y = stored_view c" using ky y(3,4) by (simp add: stored_view_def)
  ultimately show ?thesis using y(1) l by auto
qed

lemma load_loop_spec:
  assumes "group_wf (g, i)" "i + length cs \<le> 40" "\<forall>c \<in> set cs. storable c"
    and "distinct (keys (g, i) @ map key cs)"
    and "\<forall>j < length cs. take 8 (drop (2 + (i + j) * 9) buf) = key (cs ! j) \<and>
      buf ! (10 + (i + j) * 9) = fase_circuito_char (cs ! j)"
  shows "\<exists>g'. load_loop dev ip temp buf i (length cs) (g, i) = (g', i + length cs) \<and> group_wf (g', i + length cs) \<and>
    map stored_view (live (g', i + length cs)) = map stored_view (live (g, i)) @ map stored_view cs"
  using assms
proof (induction cs arbitrary: g i)
  case (Cons c cs)
  have c: "take 8 (drop (2 + i * 9) buf) = key c" "buf ! (10 + i * 9) = fase_circuito_char c"
    using Cons.prems(5) by (auto dest: spec [of _ 0])
  have "storable c" "key c \<notin> set (keys (g, i))" "i < 40" using Cons.prems by auto
  then obtain g1 where g1: "load_entry dev ip temp buf i (g, i) = (g1, i + 1)" "group_wf (g1, i + 1)"
      "map stored_view (live (g1, i + 1)) = map stored_view (live (g, i)) @ [stored_view c]"
      "keys (g1, i + 1) = keys (g, i) @ [key c]"
    using load_entry_spec [OF Cons.prems(1) _ _ c] by blast
  have "\<forall>j < length cs. take 8 (drop (2 + (i + 1 + j) * 9) buf) = key (cs ! j) \<and>
      buf ! (10 + (i + 1 + j) * 9) = fase_circuito_char (cs ! j)"
    using Cons.prems(5) by (auto dest: spec [of _ "Suc _"])
  then obtain g' where "load_loop dev ip temp buf (i + 1) (length cs) (g1, i + 1) = (g', i + 1 + length cs)"
      "group_wf (g', i + 1 + length cs)"
      "map stored_view (live (g', i + 1 + length cs)) = map stored_view (live (g1, i + 1)) @ map stored_view cs"
    using Cons.IH [OF g1(2)] Cons.prems g1(4) by auto
  with g1 show ?case by auto
qed simp

lemma image_entry:
  assumes "\<forall>c \<in> set cs. length (ch_name c) = 9" "j < length cs"
  shows "take 8 (drop (2 + j * 9) (image_of cs r)) = key (cs ! j) \<and>
    image_of cs r ! (10 + j * 9) = fase_circuito_char (cs ! j)"
proof -
  let ?d = "drop (2 + j * 9) (image_of cs r)"
  have l9: "length (ch_name (cs ! j)) = 9" using assms by simp
  have "?d = drop (9 * j) (concat (map enc cs) @ CHR 0x00 # r)"
    by (simp add: image_of_def size_digits_def mult.commute)
  moreover have "\<forall>x \<in> set (map enc cs). length x = 9" using assms(1) by auto
  ultimately have d9: "take 9 ?d = enc (cs ! j)" using concat_nth_block [of "map enc cs" j] assms(2) by simp
  then have "9 \<le> length ?d" using l9 by (metis length_enc length_take min.cobounded1)
  have "take 8 ?d = take 8 (take 9 ?d)" by simp
  moreover have "?d ! 8 = take 9 ?d ! 8" by simp
  moreover have "?d ! 8 = image_of cs r ! (10 + j * 9)" using \<open>9 \<le> length ?d\<close> by (simp add: add.commute)
  ultimately show ?thesis using l9 unfolding d9 by (simp add: enc_def key_def nth_append)
qed

lemma load_image:
  assumes "\<forall>c \<in> set cs. storable c" "distinct (map key cs)" "length cs < 40" "gs_buf s = image_of cs r"
    and "length (gs_table s) = MAX_GROUP_SIZE" "gs_GroupMaster s = 0" "after = [] \<or> \<not> is_digit (hd after)"
  shows "\<exists>g. group_wf (g, length cs) \<and> map stored_view (live (g, length cs)) = map stored_view cs \<and>
    Get_Stored_Group_Data dev ip after s = Some (s\<lparr>gs_NewData := True, gs_table := g, gs_number := length cs,
      gs_DeleteOrder := (if check_in_group dev g (length cs) = 255 \<and> gs_Conected s then True else gs_DeleteOrder s)\<rparr>)"
proof -
  have "\<forall>c \<in> set cs. length (ch_name c) = 9" using assms(1) by (simp add: storable_def)
  note ent = image_entry [OF this]
  have lim: "atoi (take 2 (gs_buf s) @ after) = length cs"
    using atoi_size_digits [OF _ assms(7), of "length cs"] assms(3,4) by (simp add: image_of_def size_digits_def)
  have "group_wf (gs_table s, 0)" "keys (gs_table s, 0) = []" "live (gs_table s, 0) = []"
    using assms(5) by (simp_all add: group_wf_def live_def keys_def)
  then obtain g where g: "load_loop dev ip (take (gs_number s) (gs_table s), gs_number s) (gs_buf s) 0
        (length cs) (gs_table s, 0) = (g, length cs)"
      "group_wf (g, length cs)" "map stored_view (live (g, length cs)) = map stored_view cs"
    using load_loop_spec [of "gs_table s" 0 cs "gs_buf s" dev ip
        "(take (gs_number s) (gs_table s), gs_number s)"] ent assms(1-4) by auto
  then show ?thesis using lim assms(3,6) by (intro exI [of _ g]) (simp add: Get_Stored_Group_Data_def Let_def group_consts)
qed


text \<open>The terminator behind the entries of a full group falls outside the buffer.\<close>

lemma store_entries_full:
  "\<forall>c \<in> set cs. length (ch_name c) = 9 \<Longrightarrow> length buf = 2 + (i + length cs) * 9 \<Longrightarrow> store_entries cs i buf = None"
proof (induction cs arbitrary: i buf)
  case (Cons c cs)
  let ?b1 = "blit buf (2 + i * 9) (take 8 (ch_name c))"
  let ?b2 = "blit ?b1 (10 + i * 9) [fase_circuito_char c]"
  have "length (ch_name c) = 9" using Cons.prems by simp
  then have "length ?b1 = length buf" "length ?b2 = length buf" using Cons.prems(2) by simp_all
  moreover from this have "store_entries cs (i + 1) ?b2 = None" using Cons by (intro Cons.IH) simp_all
  ultimately show ?case using Cons.prems by simp
qed (simp add: mem_write_def)

text \<open>
  C16: storing a non-empty group stays inside the flash image exactly when the group has fewer than 40
  chargers; a group of the maximal size that the table admits writes its terminator one byte behind
  the buffer.
\<close>

theorem store_group_in_bounds_iff:
  assumes wf: "group_wf (gs_table s, gs_number s)" and n: "0 < gs_number s"
    and len: "length (gs_buf s) = MAX_GROUP_BUFFER_SIZE" and nomaster: "gs_GroupMaster s = 0"
  shows "store_group_in_mem dev s \<noteq> None \<longleftrightarrow> gs_number s < MAX_GROUP_SIZE"
proof (cases "gs_number s < 40")
  case True
  with store_group_buffer [OF wf n True len nomaster] show ?thesis by (auto simp: group_consts)
next
  case False
  note w = group_wfD [OF wf]
  have n40: "gs_number s = 40" using False w(2) by simp
  let ?b0 = "blit (gs_buf s) 0 (size_digits 40)"
  have "length (size_digits 40) = 3" by (simp add: size_digits_def)
  then have l0: "length ?b0 = 362" "mem_write (gs_buf s) 0 (size_digits 40) = Some ?b0"
    using len by (simp_all add: group_consts)
  have "store_entries (live (gs_table s, 40)) 0 ?b0 = None"
    using w n40 l0 by (intro store_entries_full) (auto simp: live_def)
  with l0 n40 show ?thesis by (simp add: store_group_in_mem_def live_def group_consts)
qed

definition demo_gsys :: "group \<Rightarrow> group_sys" where
  "demo_gsys gn = \<lparr>gs_table = fst gn, gs_number = snd gn, gs_buf = replicate 362 (CHR 0x00),
     gs_params = replicate 7 0, gs_guardar = False, gs_Conected = False, gs_DeleteOrder = False,
     gs_SendNewGroup = False, gs_NewData = False, gs_GroupMaster = 0\<rparr>"

lemma demo_gsys_facts:
  "group_wf (gs_table (demo_gsys demo_group), gs_number (demo_gsys demo_group))"
  "gs_number (demo_gsys demo_group) = 2" "gs_GroupMaster (demo_gsys gn) = 0"
  "length (gs_buf (demo_gsys gn)) = MAX_GROUP_BUFFER_SIZE"
  "live (gs_table (demo_gsys demo_group), gs_number (demo_gsys demo_group)) =
     [demo_charger ''VCD00001'', demo_charger ''VCD00002'']"
  "length (gs_table (demo_gsys (fst demo_group, n))) = MAX_GROUP_SIZE"
  using demo_group_wf demo_live by (simp_all add: demo_gsys_def group_consts) (simp_all add: demo_group_def)


theorem store_group_in_bounds_iff_witness:
  "store_group_in_mem ''VCD00001'' (demo_gsys demo_group) \<noteq> None"
proof -
  have n: "0 < gs_number (demo_gsys demo_group)" by (simp add: demo_gsys_facts(2))
  from store_group_in_bounds_iff [OF demo_gsys_facts(1) n demo_gsys_facts(4,3), of "''VCD00001''"]
  show ?thesis by (simp add: demo_gsys_facts(2) group_consts)
qed

end
