(* ===== verification/Group_Control.thy ===== *)
theory Group_Control
  imports Group_Table
begin

text \<open>
  The load balancing of a group of chargers (\<^verbatim>\<open>group_control.cpp\<close>): the calculation of the
  available current (\<^verbatim>\<open>Calculo_General\<close>), the eviction of the charger that started last when the
  share of a car falls below 6 A, and the state machine of the task \<^verbatim>\<open>LimiteConsumo\<close>
  (\<^verbatim>\<open>REPOSO\<close>, \<^verbatim>\<open>CALCULO\<close>, \<^verbatim>\<open>EQUILIBRADO\<close>). The \<^verbatim>\<open>float\<close> variables of
  the source only hold integers (every one is the result of integer arithmetic or of \<^verbatim>\<open>floor\<close>, and
  the values are far below \<open>2 ^ 24\<close>, where a quotient rounded to single precision has the same floor),
  so they are \<open>int\<close> here. An index outside an array is \<open>None\<close>.
\<close>

section \<open>State\<close>

record carac_fase =
  fa_corriente_total :: int
  fa_conex :: int
  fa_consigna_total :: int
  fa_corriente_sobrante :: int
  fa_corriente_disponible :: int

record carac_circuito =
  ci_limite_corriente :: nat
  ci_Fases :: "carac_fase list"
  ci_conex :: int
  ci_corriente_total :: int
  ci_consigna_total :: int

record group_control =
  gc_table :: "carac_charger list"
  gc_Charger_number :: nat
  gc_Circuitos :: "carac_circuito list"
  gc_Circuit_number :: nat
  gc_NewData :: bool
  gc_CDP :: nat
  gc_ContractPower :: nat
  gc_potencia_max :: nat
  gc_GatewayConectado :: bool
  gc_Power :: int
  gc_delta_total :: int
  gc_disponible_total :: int
  gc_disponible_limitada :: int
  gc_consumo_total :: nat
  gc_conex_delta :: nat
  gc_conex :: nat
  gc_conex_con_tri :: nat
  gc_recalc_count :: nat

text \<open>A loop over indices whose body may leave an array.\<close>

fun for_each :: "('i \<Rightarrow> 's \<Rightarrow> 's option) \<Rightarrow> 'i list \<Rightarrow> 's \<Rightarrow> 's option" where
  "for_each f [] s = Some s"
| "for_each f (i # is) s = (case f i s of None \<Rightarrow> None | Some s' \<Rightarrow> for_each f is s')"

definition hpt :: "carac_charger \<Rightarrow> string \<Rightarrow> bool" where
  "hpt c h \<longleftrightarrow> memeq (ch_HPT c) h 2"

definition set_B1 :: "carac_charger \<Rightarrow> carac_charger" where
  "set_B1 c = c\<lparr>ch_HPT := ''B1'' @ [CHR 0x00]\<rparr>"

definition set_C2 :: "carac_charger \<Rightarrow> carac_charger" where
  "set_C2 c = c\<lparr>ch_HPT := ''C2'' @ [CHR 0x00]\<rparr>"

definition en_grupo :: "carac_charger \<Rightarrow> bool" where
  "en_grupo c \<longleftrightarrow> hpt c ''C2'' \<or> hpt c ''C1'' \<or> hpt c ''B2'' \<or> hpt c ''B1''"

definition cargando :: "carac_charger \<Rightarrow> bool" where
  "cargando c \<longleftrightarrow> hpt c ''C2'' \<or> hpt c ''B2'' \<or> hpt c ''C1''"

definition es_trifasico :: "carac_charger \<Rightarrow> bool" where
  "es_trifasico c \<longleftrightarrow> 250 < ch_CurrentB c \<or> 250 < ch_CurrentC c"

definition ContadorConfigurado :: "group_control \<Rightarrow> bool" where
  "ContadorConfigurado s \<longleftrightarrow> gc_CDP s div 16 mod 2 = 1"

text \<open>Division of C: the quotient is rounded towards zero.\<close>

definition cdiv :: "int \<Rightarrow> int \<Rightarrow> int" where
  "cdiv a b = (if 0 \<le> a then a div b else - ((- a) div b))"

section \<open>\<open>Calculo_General\<close>\<close>

text \<open>The circuits in use are reset.\<close>

definition reset_fase :: "carac_fase \<Rightarrow> carac_fase" where
  "reset_fase f = f\<lparr>fa_conex := 0, fa_corriente_total := 0, fa_consigna_total := 0\<rparr>"

definition reset_circuito :: "carac_circuito \<Rightarrow> carac_circuito" where
  "reset_circuito k = k\<lparr>ci_conex := 0, ci_corriente_total := 0, ci_consigna_total := 0,
     ci_Fases := map reset_fase (ci_Fases k)\<rparr>"

definition reset_circuitos :: "group_control \<Rightarrow> group_control option" where
  "reset_circuitos s =
     (if length (gc_Circuitos s) < gc_Circuit_number s then None
      else Some (s\<lparr>gc_Circuitos := map reset_circuito (take (gc_Circuit_number s) (gc_Circuitos s))
                     @ drop (gc_Circuit_number s) (gc_Circuitos s)\<rparr>))"

text \<open>The contribution of a charger to a phase (indices as the source computes them).\<close>

definition fase_suma ::
  "nat \<Rightarrow> nat \<Rightarrow> nat \<Rightarrow> nat \<Rightarrow> carac_circuito list \<Rightarrow> carac_circuito list option" where
  "fase_suma circuito fase corriente consigna cs =
     (if 1 \<le> circuito \<and> circuito \<le> length cs \<and> fase < length (ci_Fases (cs ! (circuito - 1))) then
        let k = cs ! (circuito - 1); f = ci_Fases k ! fase;
            f' = f\<lparr>fa_conex := fa_conex f + 1, fa_corriente_total := fa_corriente_total f + int corriente,
                   fa_consigna_total := fa_consigna_total f + int consigna\<rparr>
        in Some (cs[circuito - 1 := k\<lparr>ci_Fases := (ci_Fases k)[fase := f']\<rparr>])
      else None)"

definition otras_fases :: "nat \<Rightarrow> nat \<times> nat" where
  "otras_fases faseA =
     (if faseA = 0 then (1, 2) else if faseA = 1 then (2, 0) else if faseA = 2 then (0, 1) else (0, 0))"

text \<open>The sums of the first loop: \<open>total_pc\<close>, \<open>total_consigna\<close> and \<open>conectados\<close>.\<close>

record calc =
  ca_sys :: group_control
  ca_total_pc :: nat
  ca_total_consigna :: nat
  ca_conectados :: nat

definition contar_trifasico :: "nat \<Rightarrow> calc \<Rightarrow> calc option" where
  "contar_trifasico i a =
     (let s = ca_sys a; c = gc_table s ! i; (faseB, faseC) = otras_fases (c8 (ch_Fase c + 255))
      in do {
        cs1 \<leftarrow> (if 0 < ch_CurrentB c
               then fase_suma (ch_Circuito c) faseB (ch_CurrentB c) (ch_Consigna c) (gc_Circuitos s)
               else Some (gc_Circuitos s));
        cs2 \<leftarrow> (if 0 < ch_CurrentC c
               then fase_suma (ch_Circuito c) faseC (ch_CurrentC c) (ch_Consigna c) cs1
               else Some cs1);
        Some (a\<lparr>ca_sys := s\<lparr>gc_table := (gc_table s)[i := c\<lparr>ch_trifasico := 1\<rparr>], gc_Circuitos := cs2,
                            gc_conex_con_tri := c8 (gc_conex_con_tri s + 2)\<rparr>,
                ca_total_consigna := c16 (ca_total_consigna a + ch_Consigna c * 2),
                ca_total_pc := c16 (ca_total_pc a + ch_CurrentB c + ch_CurrentC c)\<rparr>) })"

definition reset_cargador :: "carac_charger \<Rightarrow> carac_charger" where
  "reset_cargador c = c\<lparr>ch_Current := 0, ch_Delta := 0, ch_Delta_timer := 0, ch_CurrentB := 0,
     ch_CurrentC := 0, ch_order := 0, ch_trifasico := 0, ch_Consigna := 0\<rparr>"

definition contar_cargador :: "nat \<Rightarrow> calc \<Rightarrow> calc option" where
  "contar_cargador i a0 =
     (let c = gc_table (ca_sys a0) ! i;
          a = (if ch_Conected c then a0\<lparr>ca_conectados := c8 (ca_conectados a0 + 1)\<rparr> else a0);
          s = ca_sys a
      in if en_grupo c then
           do {
             cs \<leftarrow> fase_suma (ch_Circuito c) (c8 (ch_Fase c + 255)) (ch_Current c) (ch_Consigna c) (gc_Circuitos s);
             let a1 = a\<lparr>ca_sys := s\<lparr>gc_Circuitos := cs, gc_conex := c8 (gc_conex s + 1),
                                    gc_conex_con_tri := c8 (gc_conex_con_tri s + 1)\<rparr>,
                        ca_total_consigna := c16 (ca_total_consigna a + ch_Consigna c),
                        ca_total_pc := c16 (ca_total_pc a + ch_Current c)\<rparr>;
             a2 \<leftarrow> (if es_trifasico c then contar_trifasico i a1 else Some a1);
             Some (if 0 < ch_Delta c
                   then a2\<lparr>ca_sys := (ca_sys a2)\<lparr>gc_delta_total := gc_delta_total (ca_sys a2) + int (ch_Delta c),
                              gc_conex_delta := c8 (gc_conex_delta (ca_sys a2) + 1)\<rparr>\<rparr>
                   else a2) }
         else if hpt c ''A1'' \<or> hpt c ''0V'' then
           Some (a\<lparr>ca_sys := s\<lparr>gc_table := (gc_table s)[i := reset_cargador c]\<rparr>\<rparr>)
         else Some a)"

text \<open>The available current of each phase of the circuits in use.\<close>

definition fase_disponible :: "nat \<Rightarrow> carac_fase \<Rightarrow> carac_fase" where
  "fase_disponible limite f =
     f\<lparr>fa_corriente_total := cdiv (fa_corriente_total f) 100,
       fa_corriente_disponible := (if 0 < fa_conex f then int limite div fa_conex f else int limite),
       fa_corriente_sobrante := int limite - fa_consigna_total f\<rparr>"

definition circuito_disponible :: "carac_circuito \<Rightarrow> carac_circuito" where
  "circuito_disponible k = k\<lparr>ci_Fases := map (fase_disponible (ci_limite_corriente k)) (ci_Fases k)\<rparr>"

definition circuitos_disponible :: "group_control \<Rightarrow> group_control" where
  "circuitos_disponible s =
     s\<lparr>gc_Circuitos := map circuito_disponible (take (gc_Circuit_number s) (gc_Circuitos s))
         @ drop (gc_Circuit_number s) (gc_Circuitos s)\<rparr>"

text \<open>
  The limit of the group: the maximal power or, with a meter, the contracted power, reduced in
  proportion while chargers of the group are missing.
\<close>

definition limite_grupo :: "group_control \<Rightarrow> nat \<Rightarrow> int" where
  "limite_grupo s conectados =
     (let p = (if \<not> ContadorConfigurado s then gc_potencia_max s else gc_ContractPower s)
      in if conectados = gc_Charger_number s then int (p * 100 div 230)
         else int ((p * conectados div gc_Charger_number s) * 100 div 230))"

text \<open>What the meter leaves for the group (\<^verbatim>\<open>corriente_CDP__sobra\<close>), as a 16 bit value.\<close>

definition limite_cdp :: "group_control \<Rightarrow> nat" where
  "limite_cdp s =
     (let modo = gc_CDP s div 4 mod 4; contrato = int (gc_ContractPower s * 100);
          sobra = (if modo = 1 then
                     if gc_Power s < contrato then cdiv (contrato - gc_Power s) 230 else 0
                   else if modo = 2 then
                     if gc_Power s - 230 * int (gc_consumo_total s) < contrato
                     then cdiv contrato 230 + int (gc_consumo_total s) - cdiv (gc_Power s) 230 else 0
                   else 0)
      in nat (sobra mod 65536))"

text \<open>The charger that started last: the first one with the largest order, or the first of the table.\<close>

definition ultimo :: "group_control \<Rightarrow> nat" where
  "ultimo s = fst (fold (\<lambda>j (last_index, last_order).
       if cargando (gc_table s ! j) \<and> last_order < ch_order (gc_table s ! j)
       then (j, ch_order (gc_table s ! j)) else (last_index, last_order))
     [0..<gc_Charger_number s] (0, 0))"

definition expulsado :: "carac_charger \<Rightarrow> carac_charger" where
  "expulsado c = (set_B1 c)\<lparr>ch_Consigna := 0, ch_ChargeReq := False, ch_Current := 0, ch_Delta := 0,
     ch_Delta_timer := 0, ch_CurrentB := 0, ch_CurrentC := 0\<rparr>"

definition expulsar_paso :: "group_control \<Rightarrow> group_control" where
  "expulsar_paso s =
     (let i = ultimo s; c = gc_table s ! i;
          tri = c8 (gc_conex_con_tri s + 255);
          tri' = (if ch_trifasico c \<noteq> 0 then c8 (tri + 254) else tri)
      in s\<lparr>gc_table := (gc_table s)[i := expulsado c], gc_conex := c8 (gc_conex s + 255),
           gc_conex_con_tri := tri'\<rparr>)"

partial_function (option) expulsar :: "group_control \<Rightarrow> group_control option" where
  "expulsar s =
     (if gc_disponible_total s < 6 then
        let s1 = expulsar_paso s
        in if 0 < gc_conex_con_tri s1
           then expulsar (s1\<lparr>gc_disponible_total := gc_disponible_limitada s1 div int (gc_conex_con_tri s1)\<rparr>)
           else Some s1
      else Some s)"

text \<open>The part of the calculation that follows the first loop.\<close>

definition calculo_limites :: "calc \<Rightarrow> (bool \<times> group_control) option" where
  "calculo_limites a =
     (let s = circuitos_disponible (ca_sys a);
          con = ca_conectados a;
          s1 = s\<lparr>gc_disponible_limitada := limite_grupo s con, gc_consumo_total := c8 (ca_total_pc a div 100)\<rparr>
      in if 0 < gc_conex_con_tri s1 then
           let s2 = s1\<lparr>gc_disponible_total := gc_disponible_limitada s1 div int (gc_conex_con_tri s1)\<rparr>;
               medidor = ContadorConfigurado s2 \<and> gc_GatewayConectado s2;
               lim = limite_cdp s2;
               lim' = int (if con = gc_Charger_number s2 then lim else lim * con div gc_Charger_number s2);
               s3 = (if medidor then s2\<lparr>gc_disponible_limitada := lim',
                       gc_disponible_total := lim' div int (gc_conex_con_tri s2)\<rparr> else s2)
           in map_option (\<lambda>s4. (medidor \<and> lim < gc_consumo_total s2, s4)) (expulsar s3)
         else Some (False, s1))"

definition contar_recalculo :: "nat \<Rightarrow> bool \<times> group_control \<Rightarrow> bool \<times> group_control" where
  "contar_recalculo total_consigna = (\<lambda>(recalcular, s).
     if 5 < gc_disponible_limitada s - int total_consigna then
       if 25 < c16 (gc_recalc_count s + 1) then (True, s\<lparr>gc_recalc_count := 0\<rparr>)
       else (recalcular, s\<lparr>gc_recalc_count := c16 (gc_recalc_count s + 1)\<rparr>)
     else (recalcular, s))"

definition Calculo_General :: "group_control \<Rightarrow> (bool \<times> group_control) option" where
  "Calculo_General s =
     do {
       s0 \<leftarrow> reset_circuitos (s\<lparr>gc_conex := 0, gc_conex_con_tri := 0, gc_consumo_total := 0,
              gc_delta_total := 0, gc_conex_delta := 0\<rparr>);
       a \<leftarrow> for_each contar_cargador [0..<gc_Charger_number s]
             \<lparr>ca_sys = s0, ca_total_pc = 0, ca_total_consigna = 0, ca_conectados = 0\<rparr>;
       r \<leftarrow> calculo_limites a;
       Some (contar_recalculo (ca_total_consigna a) r) }"

section \<open>The task \<open>LimiteConsumo\<close>\<close>

datatype estado = REPOSO | EQUILIBRADO | CALCULO

record limite =
  lc_sys :: group_control
  lc_estado :: estado
  lc_LastConex :: nat
  lc_Start_Timer :: nat
  lc_Delta_Timer :: nat

definition upd_charger :: "nat \<Rightarrow> (carac_charger \<Rightarrow> carac_charger) \<Rightarrow> group_control \<Rightarrow> group_control" where
  "upd_charger i f s = s\<lparr>gc_table := (gc_table s)[i := f (gc_table s ! i)]\<rparr>"

text \<open>The phase that a charger is connected to.\<close>

definition fase_de :: "group_control \<Rightarrow> carac_charger \<Rightarrow> carac_fase option" where
  "fase_de s c =
     (if 1 \<le> ch_Circuito c \<and> ch_Circuito c \<le> length (gc_Circuitos s) \<and> 1 \<le> ch_Fase c
         \<and> ch_Fase c \<le> length (ci_Fases (gc_Circuitos s ! (ch_Circuito c - 1)))
      then Some (ci_Fases (gc_Circuitos s ! (ch_Circuito c - 1)) ! (ch_Fase c - 1)) else None)"

subsection \<open>\<open>REPOSO\<close>\<close>

definition reposo_cargador :: "nat \<Rightarrow> limite \<Rightarrow> limite" where
  "reposo_cargador i l =
     (let s = lc_sys l; c = gc_table s ! i
      in if hpt c ''B1'' \<and> ch_ChargeReq c then
           let reparto = (if ch_trifasico c \<noteq> 0 then gc_potencia_max s * 100 div 230 div 3
                          else gc_potencia_max s * 100 div 230)
           in if 6 \<le> reparto
              then l\<lparr>lc_sys := upd_charger i (\<lambda>c. c\<lparr>ch_order := 1\<rparr>) s, lc_estado := CALCULO\<rparr>
              else l
         else l\<lparr>lc_sys := upd_charger i (\<lambda>c. c\<lparr>ch_Consigna := 0\<rparr>) s\<rparr>)"

definition paso_reposo :: "nat \<Rightarrow> limite \<Rightarrow> limite" where
  "paso_reposo ahora l =
     (if 1000 < ahora - lc_Start_Timer l
      then fold reposo_cargador [0..<gc_Charger_number (lc_sys l)] l else l)"

subsection \<open>\<open>CALCULO\<close>\<close>

definition asignar_valor :: "int \<Rightarrow> int \<Rightarrow> nat" where
  "asignar_valor disponible tot =
     (let v = c16 (nat (if disponible \<le> tot then disponible else tot))
      in if 32 < v then 32 else v)"

definition asignar :: "nat \<Rightarrow> group_control \<Rightarrow> group_control option" where
  "asignar i s =
     (let c = gc_table s ! i
      in if hpt c ''C2'' \<or> memeq (ch_HPT c) ''B'' 1 then
           (case fase_de s c of
              None \<Rightarrow> None
            | Some f \<Rightarrow>
                let v = asignar_valor (fa_corriente_disponible f) (gc_disponible_total s);
                    s1 = upd_charger i (\<lambda>c. c\<lparr>ch_Consigna := v\<rparr>) s
                in if es_trifasico c \<and> v < 6
                   then Some ((upd_charger i (\<lambda>c. (expulsado c)\<lparr>ch_trifasico := 1\<rparr>) s1)
                          \<lparr>gc_conex := c8 (gc_conex s + 255), gc_conex_con_tri := c8 (gc_conex_con_tri s + 253)\<rparr>)
                   else Some s1)
         else Some s)"

definition paso_calculo :: "limite \<Rightarrow> limite option" where
  "paso_calculo l =
     (case Calculo_General (lc_sys l) of
        None \<Rightarrow> None
      | Some (_, s) \<Rightarrow>
          if gc_conex s = 0 then Some (l\<lparr>lc_sys := s, lc_estado := REPOSO\<rparr>)
          else map_option (\<lambda>s'. l\<lparr>lc_sys := s', lc_estado := EQUILIBRADO\<rparr>)
                 (for_each asignar [0..<gc_Charger_number s] s))"

subsection \<open>\<open>EQUILIBRADO\<close>\<close>

definition fases_excedidas :: "group_control \<Rightarrow> bool" where
  "fases_excedidas s \<longleftrightarrow>
     list_ex (\<lambda>k. list_ex (\<lambda>f. int (ci_limite_corriente k) < fa_corriente_total f
                               \<or> int (ci_limite_corriente k) < fa_consigna_total f) (ci_Fases k))
       (take (gc_Circuit_number s) (gc_Circuitos s))"

definition siguiente_orden :: "group_control \<Rightarrow> nat" where
  "siguiente_orden s =
     c8 (fold (\<lambda>j last_order. if hpt (gc_table s ! j) ''C2'' \<or> hpt (gc_table s ! j) ''B2''
                then max last_order (ch_order (gc_table s ! j)) else last_order)
          [0..<gc_Charger_number s] 0 + 1)"

text \<open>Would one more charger fit into the group and into its circuit?\<close>

definition cabe :: "group_control \<Rightarrow> carac_charger \<Rightarrow> bool option" where
  "cabe s c =
     (let k = gc_Circuitos s ! (ch_Circuito c - 1);
          circuito_ok = (1 \<le> ch_Circuito c \<and> ch_Circuito c \<le> length (gc_Circuitos s));
          libre = (\<lambda>f. 6 < int (ci_limite_corriente k) div (fa_conex f + 1))
      in if ch_trifasico c \<noteq> 0 then
           if 6 * (int (gc_conex_con_tri s) + 3) \<le> gc_disponible_limitada s
           then if circuito_ok then Some (list_all libre (ci_Fases k)) else None
           else Some False
         else if 6 * (int (gc_conex_con_tri s) + 1) \<le> gc_disponible_limitada s then
           if circuito_ok \<and> 1 \<le> ch_Fase c \<and> ch_Fase c \<le> length (ci_Fases k)
           then Some (libre (ci_Fases k ! (ch_Fase c - 1))) else None
         else Some False)"

text \<open>The first charger that asks for a charge and fits is admitted and ends the loop.\<close>

fun admitir :: "nat list \<Rightarrow> group_control \<Rightarrow> (bool \<times> group_control) option" where
  "admitir [] s = Some (False, s)"
| "admitir (i # is) s =
     (if ch_ChargeReq (gc_table s ! i) then
        (case cabe s (gc_table s ! i) of
           None \<Rightarrow> None
         | Some True \<Rightarrow>
             let s1 = upd_charger i set_C2 s
             in Some (True, upd_charger i (\<lambda>c. c\<lparr>ch_order := siguiente_orden s1\<rparr>) s1)
         | Some False \<Rightarrow> admitir is (upd_charger i (\<lambda>c. c\<lparr>ch_Consigna := 0\<rparr>) s))
      else admitir is s)"

text \<open>The timer of a charger that does not use its current.\<close>

definition delta_cargador :: "nat \<Rightarrow> nat \<Rightarrow> bool \<times> group_control \<Rightarrow> bool \<times> group_control" where
  "delta_cargador transcurrido i = (\<lambda>(recalculo, s).
     let c = gc_table s ! i
     in if cargando c then
          let d = c8 (ch_Consigna c - ch_Current c div 100);
              c1 = (if 2 < d then c\<lparr>ch_Delta_timer := c16 (ch_Delta_timer c + transcurrido)\<rparr>
                    else c\<lparr>ch_Delta_timer := 0, ch_Delta := 0\<rparr>);
              vence = 10000 < ch_Delta_timer c1;
              c2 = (if vence then c1\<lparr>ch_Delta := d, ch_Delta_timer := 0\<rparr> else c1)
          in (recalculo \<or> vence, upd_charger i (\<lambda>_. c2) s)
        else (recalculo, s))"

definition paso_equilibrado :: "nat \<Rightarrow> limite \<Rightarrow> limite option" where
  "paso_equilibrado ahora l =
     (case Calculo_General (lc_sys l) of
        None \<Rightarrow> None
      | Some (recalcular, s) \<Rightarrow>
          if recalcular \<or> gc_NewData s
          then Some (l\<lparr>lc_sys := s\<lparr>gc_NewData := False\<rparr>, lc_estado := CALCULO\<rparr>)
          else if lc_LastConex l \<noteq> gc_conex s \<or> gc_conex s = 0
          then Some (l\<lparr>lc_sys := s, lc_estado := (if gc_conex s = 0 then REPOSO else CALCULO),
                       lc_LastConex := gc_conex s\<rparr>)
          else if gc_disponible_limitada s < int (gc_consumo_total s) \<or> fases_excedidas s
          then Some (l\<lparr>lc_sys := s, lc_estado := CALCULO, lc_LastConex := gc_conex s\<rparr>)
          else
            (case admitir [0..<gc_Charger_number s] s of
               None \<Rightarrow> None
             | Some (admitido, s1) \<Rightarrow>
                 let transcurrido = c16 (ahora - lc_Delta_Timer l);
                     (recalculo, s2) = (if 1 < gc_conex s1
                       then fold (delta_cargador transcurrido) [0..<gc_Charger_number s1] (False, s1)
                       else (False, s1))
                 in Some (l\<lparr>lc_sys := s2, lc_LastConex := gc_conex s,
                            lc_estado := (if admitido \<or> recalculo then CALCULO else EQUILIBRADO),
                            lc_Delta_Timer := ahora\<rparr>)))"

text \<open>One turn of the task; \<open>ahora\<close> is the time in milliseconds.\<close>

definition LimiteConsumo_paso :: "nat \<Rightarrow> limite \<Rightarrow> limite option" where
  "LimiteConsumo_paso ahora l =
     (case lc_estado l of
        REPOSO \<Rightarrow> Some (paso_reposo ahora l)
      | CALCULO \<Rightarrow> paso_calculo l
      | EQUILIBRADO \<Rightarrow> paso_equilibrado ahora l)"

end
