(* ===== verification/Group_Balance.thy ===== *)
theory Group_Balance
  imports Group_Control
begin

text \<open>
  Lemmas on the calculation of the load balancing (\<^verbatim>\<open>Calculo_General\<close>): the eviction loop ends and keeps
  the group within its limit, the counting loop never leaves the arrays, and what the calculation
  establishes as a whole (\<open>calculo_post\<close>).
\<close>

section \<open>The eviction loop ends\<close>

definition con_orden :: "group_control \<Rightarrow> nat \<Rightarrow> bool" where
  "con_orden s j \<longleftrightarrow> cargando (gc_table s ! j) \<and> 0 < ch_order (gc_table s ! j)"

lemma ultimo_fold:
  fixes s :: group_control
  defines "step \<equiv> (\<lambda>j (last_index, last_order).
       if cargando (gc_table s ! j) \<and> last_order < ch_order (gc_table s ! j)
       then (j, ch_order (gc_table s ! j)) else (last_index, last_order))"
  shows "(\<forall>j < n. \<not> con_orden s j) \<and> fold step [0..<n] (0, 0) = (0, 0) \<or>
    (\<exists>i < n. fold step [0..<n] (0, 0) = (i, ch_order (gc_table s ! i)) \<and> con_orden s i)"
proof (induction n)
  case (Suc n)
  have f: "fold step [0..<Suc n] (0, 0) = step n (fold step [0..<n] (0, 0))" by simp
  from Suc show ?case
  proof
    assume h: "(\<forall>j < n. \<not> con_orden s j) \<and> fold step [0..<n] (0, 0) = (0, 0)"
    show ?thesis
    proof (cases "con_orden s n")
      case True
      then have "step n (0, 0) = (n, ch_order (gc_table s ! n))" by (simp add: step_def con_orden_def)
      with True h f show ?thesis by auto
    next
      case False
      then have "step n (0, 0) = (0, 0)" by (auto simp: step_def con_orden_def)
      with False h f show ?thesis by (auto simp: less_Suc_eq)
    qed
  next
    assume "\<exists>i < n. fold step [0..<n] (0, 0) = (i, ch_order (gc_table s ! i)) \<and> con_orden s i"
    then obtain i where i: "i < n" "fold step [0..<n] (0, 0) = (i, ch_order (gc_table s ! i))" "con_orden s i"
      by blast
    show ?thesis
    proof (cases "cargando (gc_table s ! n) \<and> ch_order (gc_table s ! i) < ch_order (gc_table s ! n)")
      case True
      then have "step n (i, ch_order (gc_table s ! i)) = (n, ch_order (gc_table s ! n))" by (simp add: step_def)
      with True f i(2) show ?thesis by (auto simp: con_orden_def)
    next
      case False
      then have "step n (i, ch_order (gc_table s ! i)) = (i, ch_order (gc_table s ! i))"
        unfolding step_def by simp
      with f i show ?thesis by (metis less_SucI)
    qed
  qed
qed simp

lemma ultimo_cases:
  "(\<forall>j < gc_Charger_number s. \<not> con_orden s j) \<and> ultimo s = 0 \<or>
   ultimo s < gc_Charger_number s \<and> con_orden s (ultimo s)"
  using ultimo_fold [of "gc_Charger_number s" s] by (auto simp: ultimo_def)

lemma hpt_simps [simp]:
  "hpt (set_B1 c) h \<longleftrightarrow> take 2 h = ''B1''" "hpt (c\<lparr>ch_Consigna := x\<rparr>) h = hpt c h"
  "hpt (c\<lparr>ch_trifasico := t\<rparr>) h = hpt c h" "hpt (expulsado c) h \<longleftrightarrow> take 2 h = ''B1''"
  by (auto simp: hpt_def set_B1_def expulsado_def memeq_def)

lemma expulsado_no_cargando [simp]: "\<not> cargando (expulsado c)"
  by (simp add: cargando_def)

lemma expulsado_fields [simp]:
  "ch_trifasico (expulsado c) = ch_trifasico c" "ch_Circuito (expulsado c) = ch_Circuito c"
  "ch_Fase (expulsado c) = ch_Fase c" "ch_Consigna (expulsado c) = 0" "ch_order (expulsado c) = ch_order c"
  by (simp_all add: expulsado_def set_B1_def)

definition pendientes :: "group_control \<Rightarrow> nat" where
  "pendientes s = card {j. j < gc_Charger_number s \<and> con_orden s j}"

abbreviation con_disponible :: "group_control \<Rightarrow> group_control" where
  "con_disponible s \<equiv> s\<lparr>gc_disponible_total := gc_disponible_limitada s div int (gc_conex_con_tri s)\<rparr>"

lemma expulsar_paso_fields [simp]:
  "gc_Charger_number (expulsar_paso s) = gc_Charger_number s"
  "gc_disponible_limitada (expulsar_paso s) = gc_disponible_limitada s"
  "gc_Circuitos (expulsar_paso s) = gc_Circuitos s" "gc_Circuit_number (expulsar_paso s) = gc_Circuit_number s"
  "length (gc_table (expulsar_paso s)) = length (gc_table s)"
  "gc_table (expulsar_paso s) = (gc_table s)[ultimo s := expulsado (gc_table s ! ultimo s)]"
  by (simp_all add: expulsar_paso_def Let_def)

lemma nth_upd_self: "t[u := f (t ! u)] ! j = t ! j \<or> t[u := f (t ! u)] ! j = f (t ! j)"
  by (cases "u = j"; cases "u < length t") (auto simp: list_update_beyond)

lemma expulsar_paso_pendientes:
  assumes "con_orden s (ultimo s)" "ultimo s < gc_Charger_number s" "gc_Charger_number s \<le> length (gc_table s)"
  shows "pendientes (expulsar_paso s) < pendientes s"
proof -
  have "{j. j < gc_Charger_number s \<and> con_orden (expulsar_paso s) j} \<subset>
      {j. j < gc_Charger_number s \<and> con_orden s j}"
    using assms by (auto simp: con_orden_def nth_list_update split: if_splits)
  then show ?thesis by (simp add: pendientes_def psubset_card_mono)
qed

text \<open>Without a charger to evict, the first entry is counted down: in steps of one or of three.\<close>

definition paso_tri :: "group_control \<Rightarrow> nat" where
  "paso_tri s = (if ch_trifasico (gc_table s ! ultimo s) \<noteq> 0 then 3 else 1)"

lemma expulsar_paso_tri: "gc_conex_con_tri (expulsar_paso s) = c8 (gc_conex_con_tri s + (256 - paso_tri s))"
proof -
  have "c8 (c8 (x + 255) + 254) = c8 (x + 253)" for x
    using mod_add_self2 [of "x + 253" 256] by (simp add: mod_add_left_eq)
  then show ?thesis by (simp add: expulsar_paso_def paso_tri_def Let_def add.commute)
qed

lemma expulsar_step:
  "expulsar s =
     (if gc_disponible_total s < 6 then
        if 0 < gc_conex_con_tri (expulsar_paso s) then expulsar (con_disponible (expulsar_paso s))
        else Some (expulsar_paso s)
      else Some s)"
  by (subst expulsar.simps) (simp add: Let_def)

lemma disponible_total_simps [simp]:
  "con_orden (s\<lparr>gc_disponible_total := x\<rparr>) j = con_orden s j" "ultimo (s\<lparr>gc_disponible_total := x\<rparr>) = ultimo s"
  "paso_tri (s\<lparr>gc_disponible_total := x\<rparr>) = paso_tri s" "pendientes (s\<lparr>gc_disponible_total := x\<rparr>) = pendientes s"
  by (simp_all add: con_orden_def ultimo_def paso_tri_def pendientes_def cong: if_cong)

lemma ultimo_ninguno: "\<forall>j < gc_Charger_number s. \<not> con_orden s j \<Longrightarrow> ultimo s = 0"
  using ultimo_cases [of s] by auto

lemma expulsar_ninguno:
  assumes "\<forall>j < gc_Charger_number s. \<not> con_orden s j" "0 < length (gc_table s)"
    and "gc_conex_con_tri s = c8 (paso_tri s * m)" "0 < gc_conex_con_tri s"
  shows "expulsar s \<noteq> None"
  using assms
proof (induction m arbitrary: s)
  case (Suc m)
  let ?t = "expulsar_paso s"
  note u = ultimo_ninguno [OF Suc.prems(1)]
  have none: "\<forall>j < gc_Charger_number ?t. \<not> con_orden ?t j"
    using Suc.prems(1,2) u by (auto simp: con_orden_def nth_list_update)
  have p: "paso_tri ?t = paso_tri s"
    using ultimo_ninguno [OF none] u Suc.prems(2) by (simp add: paso_tri_def nth_list_update)
  have "paso_tri s \<le> 256" by (simp add: paso_tri_def)
  then have "gc_conex_con_tri ?t = c8 (paso_tri s * Suc m + (256 - paso_tri s))"
    by (simp only: expulsar_paso_tri Suc.prems(3) mod_add_left_eq)
  also have "\<dots> = c8 (paso_tri s * m + 256)" using \<open>paso_tri s \<le> 256\<close> by simp
  finally have tri: "gc_conex_con_tri ?t = c8 (paso_tri s * m)" by simp
  show ?case
  proof (cases "gc_disponible_total s < 6 \<and> 0 < gc_conex_con_tri ?t")
    case True
    have "expulsar (con_disponible ?t) \<noteq> None"
      using none p tri True Suc.prems(2) by (intro Suc.IH) simp_all
    with True show ?thesis by (simp add: expulsar_step [of s])
  qed (auto simp: expulsar_step [of s])
qed simp

lemma expulsar_total:
  assumes "0 < length (gc_table s)" "gc_Charger_number s \<le> length (gc_table s)"
    and "0 < gc_conex_con_tri s" "gc_conex_con_tri s < 256"
  shows "expulsar s \<noteq> None"
  using assms
proof (induction "pendientes s" arbitrary: s rule: less_induct)
  case less
  show ?case
  proof (cases "\<forall>j < gc_Charger_number s. \<not> con_orden s j")
    case True
    have "\<exists>m. gc_conex_con_tri s = c8 (paso_tri s * m)"
    proof (cases "paso_tri s = 1")
      case True
      then have "gc_conex_con_tri s = c8 (paso_tri s * gc_conex_con_tri s)" using less.prems(4) by simp
      then show ?thesis by blast
    next
      case False
      then have "paso_tri s = 3" by (simp add: paso_tri_def split: if_splits)
      moreover have "c8 (3 * (171 * gc_conex_con_tri s)) = gc_conex_con_tri s"
        using less.prems(4) by (simp add: mod_mult_left_eq [of 513, symmetric, simplified])
      ultimately show ?thesis by metis
    qed
    with expulsar_ninguno [OF True less.prems(1)] less.prems(3) show ?thesis by blast
  next
    case False
    then have u: "ultimo s < gc_Charger_number s" "con_orden s (ultimo s)" using ultimo_cases [of s] by auto
    let ?t = "expulsar_paso s"
    have "pendientes (con_disponible ?t) < pendientes s"
      using expulsar_paso_pendientes [OF u(2,1) less.prems(2)] by simp
    moreover have "gc_conex_con_tri ?t < 256" by (simp add: expulsar_paso_tri)
    ultimately have "0 < gc_conex_con_tri ?t \<Longrightarrow> expulsar (con_disponible ?t) \<noteq> None"
      using less.prems by (intro less.hyps) simp_all
    then show ?thesis by (simp add: expulsar_step [of s])
  qed
qed

section \<open>The eviction keeps the group within its limit\<close>

definition peso :: "carac_charger \<Rightarrow> nat" where "peso c = (if es_trifasico c then 3 else 1)"

definition carga :: "group_control \<Rightarrow> nat" where
  "carga s = (\<Sum>j < gc_Charger_number s. if cargando (gc_table s ! j) then peso (gc_table s ! j) else 0)"

text \<open>Every charging charger has its order and the right three-phase mark.\<close>

definition marcas_ok :: "group_control \<Rightarrow> bool" where
  "marcas_ok s \<longleftrightarrow> (\<forall>j < gc_Charger_number s. cargando (gc_table s ! j) \<longrightarrow>
     0 < ch_order (gc_table s ! j) \<and> (ch_trifasico (gc_table s ! j) \<noteq> 0 \<longleftrightarrow> es_trifasico (gc_table s ! j)))"

lemma sum_update:
  fixes f :: "'a \<Rightarrow> nat"
  assumes "u < n" "n \<le> length t"
  shows "(\<Sum>j < n. f (t[u := x] ! j)) + f (t ! u) = (\<Sum>j < n. f (t ! j)) + f x"
proof -
  have "(\<Sum>j < n. f (t[u := x] ! j)) = f x + (\<Sum>j \<in> {..<n} - {u}. f (t[u := x] ! j))"
    using assms by (simp add: sum.remove [of _ u])
  moreover have "(\<Sum>j \<in> {..<n} - {u}. f (t[u := x] ! j)) = (\<Sum>j \<in> {..<n} - {u}. f (t ! j))"
    using assms by (intro sum.cong) auto
  moreover have "(\<Sum>j < n. f (t ! j)) = f (t ! u) + (\<Sum>j \<in> {..<n} - {u}. f (t ! j))"
    using assms by (simp add: sum.remove [of _ u])
  ultimately show ?thesis by simp
qed

lemma paso_carga:
  assumes "marcas_ok s" "ultimo s < gc_Charger_number s" "con_orden s (ultimo s)"
    "gc_Charger_number s \<le> length (gc_table s)"
  shows "carga (expulsar_paso s) + paso_tri s = carga s"
proof -
  let ?c = "gc_table s ! ultimo s" and ?f = "\<lambda>c. if cargando c then peso c else 0"
  have "?f ?c = paso_tri s" "?f (expulsado ?c) = 0"
    using assms(1-3) by (auto simp: con_orden_def marcas_ok_def peso_def paso_tri_def)
  then show ?thesis
    using sum_update [OF assms(2,4), of ?f "expulsado ?c"] by (simp add: carga_def cong: if_cong)
qed

lemma carga_ninguno: "marcas_ok s \<Longrightarrow> \<forall>j < gc_Charger_number s. \<not> con_orden s j \<Longrightarrow> carga s = 0"
  by (auto simp: carga_def marcas_ok_def con_orden_def)

lemma carga_simps [simp]:
  "carga (s\<lparr>gc_disponible_total := x\<rparr>) = carga s" "marcas_ok (s\<lparr>gc_disponible_total := x\<rparr>) = marcas_ok s"
  by (simp_all add: carga_def marcas_ok_def cong: if_cong)

definition tabla_expulsada :: "group_control \<Rightarrow> group_control \<Rightarrow> bool" where
  "tabla_expulsada s s' \<longleftrightarrow> length (gc_table s') = length (gc_table s) \<and>
     (\<forall>j < length (gc_table s). gc_table s' ! j = gc_table s ! j \<or> gc_table s' ! j = expulsado (gc_table s ! j)) \<and>
     gc_Charger_number s' = gc_Charger_number s \<and> gc_Circuitos s' = gc_Circuitos s \<and>
     gc_Circuit_number s' = gc_Circuit_number s \<and> gc_disponible_limitada s' = gc_disponible_limitada s"

lemma expulsado_idem [simp]: "expulsado (expulsado c) = expulsado c"
  by (simp add: expulsado_def set_B1_def)

lemma tabla_expulsada_refl [simp]: "tabla_expulsada s s"
  by (simp add: tabla_expulsada_def)

lemma tabla_expulsada_trans: "tabla_expulsada s t \<Longrightarrow> tabla_expulsada t u \<Longrightarrow> tabla_expulsada s u"
  unfolding tabla_expulsada_def by (metis expulsado_idem)

lemma tabla_expulsada_paso: "tabla_expulsada s ((expulsar_paso s)\<lparr>gc_disponible_total := x\<rparr>)"
  "tabla_expulsada s (expulsar_paso s)"
  using nth_upd_self [of "gc_table s" "ultimo s" expulsado] by (auto simp: tabla_expulsada_def)

lemma marcas_paso:
  assumes "marcas_ok s" "gc_Charger_number s \<le> length (gc_table s)"
  shows "marcas_ok (expulsar_paso s)"
proof -
  have "gc_table (expulsar_paso s) ! j = gc_table s ! j \<or> gc_table (expulsar_paso s) ! j = expulsado (gc_table s ! j)"
    if "j < gc_Charger_number s" for j
    using that assms(2) tabla_expulsada_paso(2) [of s] unfolding tabla_expulsada_def by simp
  with assms(1) show ?thesis
    unfolding marcas_ok_def expulsar_paso_fields(1) by (metis expulsado_no_cargando)
qed

lemma expulsar_induct [consumes 1, case_names stop agota sigue]:
  assumes "expulsar s = Some s'"
    and "\<And>s. 6 \<le> gc_disponible_total s \<Longrightarrow> P s s"
    and "\<And>s. gc_disponible_total s < 6 \<Longrightarrow> gc_conex_con_tri (expulsar_paso s) = 0 \<Longrightarrow> P s (expulsar_paso s)"
    and "\<And>s s'. gc_disponible_total s < 6 \<Longrightarrow> 0 < gc_conex_con_tri (expulsar_paso s) \<Longrightarrow>
      P (con_disponible (expulsar_paso s)) s' \<Longrightarrow> P s s'"
  shows "P s s'"
proof (rule expulsar.raw_induct [where P = P, OF _ assms(1)])
  fix rec s y
  assume IH: "\<And>x y. rec x = Some y \<Longrightarrow> P x y"
    and r: "(if gc_disponible_total s < 6 then
        let s1 = expulsar_paso s
        in if 0 < gc_conex_con_tri s1
           then rec (s1\<lparr>gc_disponible_total := gc_disponible_limitada s1 div int (gc_conex_con_tri s1)\<rparr>)
           else Some s1
      else Some s) = Some y"
  show "P s y"
  proof (cases "gc_disponible_total s < 6")
    case False
    with r assms(2) show ?thesis by simp
  next
    case True
    then show ?thesis using r IH assms(3,4) by (auto simp: Let_def split: if_splits)
  qed
qed

lemma expulsar_tabla: "expulsar s = Some s' \<Longrightarrow> tabla_expulsada s s'"
  by (induction rule: expulsar_induct) (auto simp: tabla_expulsada_paso intro: tabla_expulsada_trans [OF tabla_expulsada_paso(1)])

text \<open>The state at the head of the eviction loop.\<close>

definition dentro :: "group_control \<Rightarrow> bool" where
  "dentro s \<longleftrightarrow> 0 \<le> gc_disponible_limitada s \<and> 0 < gc_conex_con_tri s \<and> gc_conex_con_tri s < 256 \<and>
     gc_disponible_total s = gc_disponible_limitada s div int (gc_conex_con_tri s) \<and>
     carga s \<le> gc_conex_con_tri s \<and> marcas_ok s \<and> gc_Charger_number s \<le> length (gc_table s)"

lemma paso_tri_bounds: "0 < paso_tri s" "paso_tri s \<le> 3"
  by (simp_all add: paso_tri_def)

lemma dentro_paso:
  assumes "dentro s"
  shows "carga (expulsar_paso s) \<le> gc_conex_con_tri (expulsar_paso s)"
proof (cases "\<forall>j < gc_Charger_number s. \<not> con_orden s j")
  case True
  have "\<forall>j < gc_Charger_number (expulsar_paso s). \<not> con_orden (expulsar_paso s) j"
    using True nth_upd_self [of "gc_table s" "ultimo s" expulsado] unfolding con_orden_def
    by (metis expulsado_no_cargando expulsar_paso_fields(1,6))
  then have "carga (expulsar_paso s) = 0"
    using assms marcas_paso by (intro carga_ninguno) (auto simp: dentro_def)
  then show ?thesis by simp
next
  case False
  then have u: "ultimo s < gc_Charger_number s" "con_orden s (ultimo s)" using ultimo_cases [of s] by auto
  have c: "carga (expulsar_paso s) + paso_tri s = carga s"
    using paso_carga [OF _ u] assms by (simp add: dentro_def)
  have le: "paso_tri s \<le> gc_conex_con_tri s" "gc_conex_con_tri s < 256" using c assms by (auto simp: dentro_def)
  have "gc_conex_con_tri s + (256 - paso_tri s) = (gc_conex_con_tri s - paso_tri s) + 256"
    using le paso_tri_bounds [of s] by simp
  then have "gc_conex_con_tri (expulsar_paso s) = gc_conex_con_tri s - paso_tri s"
    using le unfolding expulsar_paso_tri by (simp only: mod_add_self2) simp
  with c le assms show ?thesis by (auto simp: dentro_def)
qed

lemma expulsar_bound:
  "expulsar s = Some s' \<Longrightarrow> dentro s \<Longrightarrow> int (carga s') * max 0 (gc_disponible_total s') \<le> gc_disponible_limitada s'"
proof (induction rule: expulsar_induct)
  case (stop s)
  have "int (carga s) * (gc_disponible_limitada s div int (gc_conex_con_tri s)) \<le>
      int (gc_conex_con_tri s) * (gc_disponible_limitada s div int (gc_conex_con_tri s))"
    using stop by (intro mult_right_mono) (auto simp: dentro_def pos_imp_zdiv_nonneg_iff)
  also have "\<dots> \<le> gc_disponible_limitada s"
    using zmod_int stop by (simp add: dentro_def minus_mod_eq_mult_div [symmetric])
  finally show ?case using stop by (simp add: dentro_def max_def)
next
  case (agota s)
  then have "carga (expulsar_paso s) = 0" using dentro_paso [of s] by simp
  then show ?case using agota by (simp add: dentro_def)
next
  case (sigue s s')
  have "dentro (con_disponible (expulsar_paso s))"
    using sigue dentro_paso [of s] marcas_paso [of s] by (simp add: dentro_def expulsar_paso_tri)
  with sigue show ?case by blast
qed

section \<open>The first loop of the calculation\<close>

definition forma :: "carac_circuito list \<Rightarrow> bool" where
  "forma cs \<longleftrightarrow> length cs = 40 \<and> (\<forall>k \<in> set cs. length (ci_Fases k) = 3)"

text \<open>
  The invariant of the group: arrays of the declared sizes, every charger of the group on an existing
  phase of one of the 40 circuits, no assigned current above 32 A.
\<close>

definition gc_wf :: "group_control \<Rightarrow> bool" where
  "gc_wf s \<longleftrightarrow> length (gc_table s) = 40 \<and> gc_Charger_number s \<le> 40 \<and> forma (gc_Circuitos s) \<and>
     gc_Circuit_number s \<le> 40 \<and>
     (\<forall>j < gc_Charger_number s. 1 \<le> ch_Circuito (gc_table s ! j) \<and>
        ch_Circuito (gc_table s ! j) \<le> 40 \<and> 1 \<le> ch_Fase (gc_table s ! j) \<and>
        ch_Fase (gc_table s ! j) \<le> 3 \<and> ch_Consigna (gc_table s ! j) \<le> 32)"

definition conex_en :: "carac_circuito list \<Rightarrow> nat \<Rightarrow> nat \<Rightarrow> int" where
  "conex_en cs k f = fa_conex (ci_Fases (cs ! k) ! f)"

definition mismos :: "carac_circuito list \<Rightarrow> carac_circuito list \<Rightarrow> bool" where
  "mismos cs cs' \<longleftrightarrow> forma cs' \<and> map ci_limite_corriente cs' = map ci_limite_corriente cs \<and>
     (\<forall>k < 40. \<forall>f < 3. conex_en cs k f \<le> conex_en cs' k f)"

lemma mismos_trans: "mismos a b \<Longrightarrow> mismos b c \<Longrightarrow> mismos a c"
  unfolding mismos_def by (metis order_trans)

lemma mismos_refl: "forma cs \<Longrightarrow> mismos cs cs"
  by (simp add: mismos_def)

lemma fase_suma_spec:
  assumes "forma cs" "1 \<le> circ" "circ \<le> 40" "fase < 3"
  shows "\<exists>cs'. fase_suma circ fase x y cs = Some cs' \<and> mismos cs cs' \<and>
    conex_en cs' (circ - 1) fase = conex_en cs (circ - 1) fase + 1"
proof -
  let ?k = "cs ! (circ - 1)" and ?f = "ci_Fases (cs ! (circ - 1)) ! fase"
  have in_cs: "?k \<in> set cs" "circ - 1 < length cs" using assms by (auto simp: forma_def)
  then have l3: "length (ci_Fases ?k) = 3" using assms by (auto simp: forma_def)
  define k' where "k' = ?k\<lparr>ci_Fases := (ci_Fases ?k)[fase := ?f\<lparr>fa_conex := fa_conex ?f + 1,
    fa_corriente_total := fa_corriente_total ?f + int x, fa_consigna_total := fa_consigna_total ?f + int y\<rparr>]\<rparr>"
  have r: "fase_suma circ fase x y cs = Some (cs[circ - 1 := k'])"
    using assms l3 by (simp add: fase_suma_def Let_def k'_def forma_def)
  have "length (ci_Fases k') = 3" "ci_limite_corriente k' = ci_limite_corriente ?k"
    using l3 by (simp_all add: k'_def)
  moreover have "conex_en cs k f \<le> conex_en (cs[circ - 1 := k']) k f" for k f
  proof (cases "k = circ - 1")
    case True
    then show ?thesis
      using in_cs(2) l3 assms(4) by (cases "f = fase") (auto simp: conex_en_def k'_def)
  qed (simp add: conex_en_def)
  ultimately have "mismos cs (cs[circ - 1 := k'])"
    using assms(1) in_cs by (auto simp: mismos_def forma_def map_update intro!: list_update_same_conv [THEN iffD2] dest: set_update_subset_insert [THEN subsetD])
  moreover have "conex_en (cs[circ - 1 := k']) (circ - 1) fase = conex_en cs (circ - 1) fase + 1"
    using in_cs(2) l3 assms(4) by (simp add: conex_en_def k'_def)
  ultimately show ?thesis using r by blast
qed

definition contado :: "carac_charger \<Rightarrow> carac_charger" where
  "contado c = (if en_grupo c then (if es_trifasico c then c\<lparr>ch_trifasico := 1\<rparr> else c)
     else if hpt c ''A1'' \<or> hpt c ''0V'' then reset_cargador c else c)"

definition en_fase :: "nat \<Rightarrow> nat \<Rightarrow> carac_charger \<Rightarrow> bool" where
  "en_fase k f c \<longleftrightarrow> en_grupo c \<and> ch_Circuito c = k + 1 \<and> ch_Fase c = f + 1"

text \<open>What the loop has established after the chargers before \<open>i\<close>.\<close>

definition contar_inv :: "group_control \<Rightarrow> nat \<Rightarrow> calc \<Rightarrow> bool" where
  "contar_inv s0 i a \<longleftrightarrow>
     (\<exists>cs cx dt cd. ca_sys a = s0\<lparr>gc_table := map contado (take i (gc_table s0)) @ drop i (gc_table s0),
        gc_Circuitos := cs, gc_conex := cx, gc_delta_total := dt, gc_conex_delta := cd,
        gc_conex_con_tri := (\<Sum>j < i. if en_grupo (gc_table s0 ! j) then peso (gc_table s0 ! j) else 0)\<rparr> \<and>
      mismos (gc_Circuitos s0) cs \<and>
      (\<forall>k < 40. \<forall>f < 3. conex_en (gc_Circuitos s0) k f
         + (\<Sum>j < i. if en_fase k f (gc_table s0 ! j) then 1 else 0) \<le> conex_en cs k f))"

lemma otras_fases_ok: "faseA < 3 \<Longrightarrow> otras_fases faseA = (b, c) \<Longrightarrow> b < 3 \<and> c < 3"
  by (auto simp: otras_fases_def split: if_splits)

lemma contar_trifasico_spec:
  assumes "forma (gc_Circuitos (ca_sys a))" "1 \<le> ch_Circuito c" "ch_Circuito c \<le> 40" "1 \<le> ch_Fase c"
    "ch_Fase c \<le> 3" "c = gc_table (ca_sys a) ! i"
  shows "\<exists>cs tc tp. contar_trifasico i a = Some (a\<lparr>ca_sys := (ca_sys a)\<lparr>
      gc_table := (gc_table (ca_sys a))[i := c\<lparr>ch_trifasico := 1\<rparr>], gc_Circuitos := cs,
      gc_conex_con_tri := c8 (gc_conex_con_tri (ca_sys a) + 2)\<rparr>, ca_total_consigna := tc, ca_total_pc := tp\<rparr>) \<and>
    mismos (gc_Circuitos (ca_sys a)) cs"
proof -
  obtain b d where bd: "otras_fases (c8 (ch_Fase c + 255)) = (b, d)" by force
  have "c8 (ch_Fase c + 255) = ch_Fase c - 1" using assms(4,5) by (simp add: mod_if)
  then have lt: "b < 3" "d < 3" using otras_fases_ok [OF _ bd] assms(5) by auto
  obtain cs1 where cs1: "(if 0 < ch_CurrentB c then fase_suma (ch_Circuito c) b (ch_CurrentB c) (ch_Consigna c)
      (gc_Circuitos (ca_sys a)) else Some (gc_Circuitos (ca_sys a))) = Some cs1" "mismos (gc_Circuitos (ca_sys a)) cs1"
    using fase_suma_spec [OF assms(1-3) lt(1)] mismos_refl [OF assms(1)] by (cases "0 < ch_CurrentB c") auto
  have f1: "forma cs1" using cs1(2) by (simp add: mismos_def)
  obtain cs2 where cs2: "(if 0 < ch_CurrentC c then fase_suma (ch_Circuito c) d (ch_CurrentC c) (ch_Consigna c) cs1
      else Some cs1) = Some cs2" "mismos cs1 cs2"
    using fase_suma_spec [OF f1 assms(2,3) lt(2)] mismos_refl [OF f1] by (cases "0 < ch_CurrentC c") auto
  have "contar_trifasico i a = Some (a\<lparr>ca_sys := (ca_sys a)\<lparr>
      gc_table := (gc_table (ca_sys a))[i := c\<lparr>ch_trifasico := 1\<rparr>], gc_Circuitos := cs2,
      gc_conex_con_tri := c8 (gc_conex_con_tri (ca_sys a) + 2)\<rparr>,
      ca_total_consigna := c16 (ca_total_consigna a + ch_Consigna c * 2),
      ca_total_pc := c16 (ca_total_pc a + ch_CurrentB c + ch_CurrentC c)\<rparr>)"
    unfolding contar_trifasico_def Let_def assms(6) [symmetric] bd prod.case cs1(1) bind.bind_lunit cs2(1) ..
  with mismos_trans [OF cs1(2) cs2(2)] show ?thesis by blast
qed

lemma tabla_step_gen:
  assumes "i < length T"
  shows "(map g (take i T) @ drop i T)[i := g (T ! i)] = map g (take (i + 1) T) @ drop (i + 1) T"
    "(map g (take i T) @ drop i T) ! i = T ! i"
proof -
  have "drop i T = T ! i # drop (i + 1) T" using assms by (simp add: Cons_nth_drop_Suc)
  moreover have "take (i + 1) T = take i T @ [T ! i]" using assms by (simp add: take_Suc_conv_app_nth)
  ultimately show "(map g (take i T) @ drop i T)[i := g (T ! i)] = map g (take (i + 1) T) @ drop (i + 1) T"
      "(map g (take i T) @ drop i T) ! i = T ! i"
    using assms by (simp_all add: list_update_append nth_append)
qed

lemmas tabla_step = tabla_step_gen [where g = contado]

lemma contar_inv_delta:
  assumes "contar_inv s0 i a"
  shows "contar_inv s0 i (a\<lparr>ca_sys := (ca_sys a)\<lparr>gc_delta_total := x, gc_conex_delta := y\<rparr>\<rparr>)"
    "contar_inv s0 i (a\<lparr>ca_total_consigna := u, ca_total_pc := v\<rparr>)" "contar_inv s0 i (a\<lparr>ca_conectados := w\<rparr>)"
proof -
  from assms obtain cs cx dt cd where h: "ca_sys a = s0\<lparr>gc_table := map contado (take i (gc_table s0)) @ drop i (gc_table s0),
        gc_Circuitos := cs, gc_conex := cx, gc_delta_total := dt, gc_conex_delta := cd,
        gc_conex_con_tri := (\<Sum>j < i. if en_grupo (gc_table s0 ! j) then peso (gc_table s0 ! j) else 0)\<rparr>"
      "mismos (gc_Circuitos s0) cs \<and>
      (\<forall>k < 40. \<forall>f < 3. conex_en (gc_Circuitos s0) k f
         + (\<Sum>j < i. if en_fase k f (gc_table s0 ! j) then 1 else 0) \<le> conex_en cs k f)"
    unfolding contar_inv_def by blast
  show "contar_inv s0 i (a\<lparr>ca_sys := (ca_sys a)\<lparr>gc_delta_total := x, gc_conex_delta := y\<rparr>\<rparr>)"
    unfolding contar_inv_def by (rule exI [of _ cs], rule exI [of _ cx], rule exI [of _ x], rule exI [of _ y])
      (simp add: h)
  show "contar_inv s0 i (a\<lparr>ca_total_consigna := u, ca_total_pc := v\<rparr>)" "contar_inv s0 i (a\<lparr>ca_conectados := w\<rparr>)"
    using assms by (simp_all add: contar_inv_def)
qed

lemma peso_le: "peso c \<le> 3" by (simp add: peso_def)

lemma suma_pesos_le: "(\<Sum>j < (i :: nat). if P j then peso (t ! j) else 0) \<le> 3 * i"
proof (induction i)
  case (Suc i)
  then show ?case using peso_le [of "t ! i"] by auto
qed simp

text \<open>The state after the body of the loop for a charger that counts.\<close>

lemma contar_en_grupo:
  assumes inv: "contar_inv s0 i a" and wf: "gc_wf s0" and i: "i < gc_Charger_number s0"
    and c: "c = gc_table s0 ! i" and g: "en_grupo c"
  shows "\<exists>cs. fase_suma (ch_Circuito c) (c8 (ch_Fase c + 255)) (ch_Current c) (ch_Consigna c) (gc_Circuitos (ca_sys a)) = Some cs \<and>
    (\<forall>cs' x u v. mismos cs cs' \<longrightarrow> contar_inv s0 (i + 1) (a\<lparr>ca_sys := (ca_sys a)\<lparr>
       gc_table := (gc_table (ca_sys a))[i := contado c], gc_Circuitos := cs', gc_conex := x,
       gc_conex_con_tri := gc_conex_con_tri (ca_sys a) + peso c\<rparr>, ca_total_consigna := u, ca_total_pc := v\<rparr>)) \<and>
    mismos (gc_Circuitos (ca_sys a)) cs"
proof -
  let ?T = "gc_table s0"
  from inv obtain cs0 cx dt cd where h: "ca_sys a = s0\<lparr>gc_table := map contado (take i ?T) @ drop i ?T,
        gc_Circuitos := cs0, gc_conex := cx, gc_delta_total := dt, gc_conex_delta := cd,
        gc_conex_con_tri := (\<Sum>j < i. if en_grupo (?T ! j) then peso (?T ! j) else 0)\<rparr>"
      "mismos (gc_Circuitos s0) cs0"
      "\<forall>k < 40. \<forall>f < 3. conex_en (gc_Circuitos s0) k f
         + (\<Sum>j < i. if en_fase k f (?T ! j) then 1 else 0) \<le> conex_en cs0 k f"
    unfolding contar_inv_def by blast
  have len: "i < length ?T" using wf i by (simp add: gc_wf_def)
  have w: "1 \<le> ch_Circuito c" "ch_Circuito c \<le> 40" "1 \<le> ch_Fase c" "ch_Fase c \<le> 3"
    using wf i c by (auto simp: gc_wf_def)
  have fa: "c8 (ch_Fase c + 255) = ch_Fase c - 1" "ch_Fase c - 1 < 3" using w(3,4) by (auto simp: mod_if)
  have f0: "forma cs0" using h(2) by (simp add: mismos_def)
  obtain cs where cs: "fase_suma (ch_Circuito c) (ch_Fase c - 1) (ch_Current c) (ch_Consigna c) cs0 = Some cs"
      "mismos cs0 cs" "conex_en cs (ch_Circuito c - 1) (ch_Fase c - 1) = conex_en cs0 (ch_Circuito c - 1) (ch_Fase c - 1) + 1"
    using fase_suma_spec [OF f0 w(1,2) fa(2)] by blast
  have "contar_inv s0 (i + 1) (a\<lparr>ca_sys := (ca_sys a)\<lparr>gc_table := (gc_table (ca_sys a))[i := contado c],
      gc_Circuitos := cs', gc_conex := x, gc_conex_con_tri := gc_conex_con_tri (ca_sys a) + peso c\<rparr>,
      ca_total_consigna := u, ca_total_pc := v\<rparr>)"
    if m: "mismos cs cs'" for cs' x u v
  proof -
    have "conex_en (gc_Circuitos s0) k f + (\<Sum>j < i + 1. if en_fase k f (?T ! j) then 1 else 0) \<le> conex_en cs' k f"
      if kf: "k < 40" "f < 3" for k f
    proof -
      have "(if en_fase k f c then 1 else 0) + conex_en cs0 k f \<le> conex_en cs k f"
        using cs(2,3) kf w by (auto simp: en_fase_def mismos_def)
      also have "\<dots> \<le> conex_en cs' k f" using m kf by (simp add: mismos_def)
      finally show ?thesis using h(3) kf c by force
    qed
    moreover have "mismos (gc_Circuitos s0) cs'" using mismos_trans h(2) cs(2) m by blast
    ultimately show ?thesis
      unfolding contar_inv_def
      by - (rule exI [of _ cs'], rule exI [of _ x], rule exI [of _ dt], rule exI [of _ cd],
          simp add: h(1) tabla_step(1) [OF len, simplified] c g [unfolded c])
  qed
  with cs(1,2) h(1) fa(1) show ?thesis by auto
qed

lemma contar_cargador_spec:
  assumes inv: "contar_inv s0 i a" and wf: "gc_wf s0" and i: "i < gc_Charger_number s0"
  shows "\<exists>a'. contar_cargador i a = Some a' \<and> contar_inv s0 (i + 1) a'"
proof -
  define c where "c = gc_table s0 ! i"
  have i40: "i < 40" "i < length (gc_table s0)" using wf i by (auto simp: gc_wf_def)
  define a1 where "a1 = (if ch_Conected c then a\<lparr>ca_conectados := c8 (ca_conectados a + 1)\<rparr> else a)"
  have inv1: "contar_inv s0 i a1" using inv contar_inv_delta(3) by (simp add: a1_def)
  obtain cs0 cx dt cd where h: "ca_sys a1 = s0\<lparr>gc_table := map contado (take i (gc_table s0)) @ drop i (gc_table s0),
        gc_Circuitos := cs0, gc_conex := cx, gc_delta_total := dt, gc_conex_delta := cd,
        gc_conex_con_tri := (\<Sum>j < i. if en_grupo (gc_table s0 ! j) then peso (gc_table s0 ! j) else 0)\<rparr>"
      "mismos (gc_Circuitos s0) cs0"
      "\<forall>k < 40. \<forall>f < 3. conex_en (gc_Circuitos s0) k f
         + (\<Sum>j < i. if en_fase k f (gc_table s0 ! j) then 1 else 0) \<le> conex_en cs0 k f"
    using inv1 unfolding contar_inv_def by blast
  have tri: "gc_conex_con_tri (ca_sys a1) \<le> 3 * i" using suma_pesos_le by (simp add: h(1))
  have ca: "gc_table (ca_sys a1) ! i = c" "gc_table (ca_sys a) ! i = c"
    using tabla_step(2) [OF i40(2)] h(1) by (simp_all add: c_def a1_def split: if_splits)
  show ?thesis
  proof (cases "en_grupo c")
    case True
    obtain cs where cs: "fase_suma (ch_Circuito c) (c8 (ch_Fase c + 255)) (ch_Current c) (ch_Consigna c) (gc_Circuitos (ca_sys a1)) = Some cs"
        "mismos (gc_Circuitos (ca_sys a1)) cs"
      and post: "\<And>cs' x u v. mismos cs cs' \<Longrightarrow> contar_inv s0 (i + 1) (a1\<lparr>ca_sys := (ca_sys a1)\<lparr>
         gc_table := (gc_table (ca_sys a1))[i := contado c], gc_Circuitos := cs', gc_conex := x,
         gc_conex_con_tri := gc_conex_con_tri (ca_sys a1) + peso c\<rparr>, ca_total_consigna := u, ca_total_pc := v\<rparr>)"
      using contar_en_grupo [OF inv1 wf i c_def True] by blast
    have fcs: "forma cs" using cs(2) by (simp add: mismos_def)
    define a2 where "a2 = a1\<lparr>ca_sys := (ca_sys a1)\<lparr>gc_Circuitos := cs, gc_conex := c8 (gc_conex (ca_sys a1) + 1),
         gc_conex_con_tri := c8 (gc_conex_con_tri (ca_sys a1) + 1)\<rparr>,
       ca_total_consigna := c16 (ca_total_consigna a1 + ch_Consigna c), ca_total_pc := c16 (ca_total_pc a1 + ch_Current c)\<rparr>"
    have "\<exists>a3. (if es_trifasico c then contar_trifasico i a2 else Some a2) = Some a3 \<and> contar_inv s0 (i + 1) a3"
    proof (cases "es_trifasico c")
      case tf: True
      have w: "1 \<le> ch_Circuito c" "ch_Circuito c \<le> 40" "1 \<le> ch_Fase c" "ch_Fase c \<le> 3"
        using wf i by (auto simp: gc_wf_def c_def)
      have a2: "gc_Circuitos (ca_sys a2) = cs" "c = gc_table (ca_sys a2) ! i" using ca(1) by (simp_all add: a2_def)
      obtain cs' tc tp where t: "contar_trifasico i a2 = Some (a2\<lparr>ca_sys := (ca_sys a2)\<lparr>
          gc_table := (gc_table (ca_sys a2))[i := c\<lparr>ch_trifasico := 1\<rparr>], gc_Circuitos := cs',
          gc_conex_con_tri := c8 (gc_conex_con_tri (ca_sys a2) + 2)\<rparr>, ca_total_consigna := tc, ca_total_pc := tp\<rparr>)"
          "mismos cs cs'"
        using contar_trifasico_spec [OF fcs [folded a2(1)] w a2(2)] a2(1) by blast
      have "contado c = c\<lparr>ch_trifasico := 1\<rparr>" using True tf by (simp add: contado_def)
      moreover have "c8 (c8 (gc_conex_con_tri (ca_sys a1) + 1) + 2) = gc_conex_con_tri (ca_sys a1) + peso c"
        using tri i40(1) tf by (simp add: peso_def)
      ultimately have "a2\<lparr>ca_sys := (ca_sys a2)\<lparr>gc_table := (gc_table (ca_sys a2))[i := c\<lparr>ch_trifasico := 1\<rparr>],
          gc_Circuitos := cs', gc_conex_con_tri := c8 (gc_conex_con_tri (ca_sys a2) + 2)\<rparr>,
          ca_total_consigna := tc, ca_total_pc := tp\<rparr> =
        a1\<lparr>ca_sys := (ca_sys a1)\<lparr>gc_table := (gc_table (ca_sys a1))[i := contado c], gc_Circuitos := cs',
          gc_conex := c8 (gc_conex (ca_sys a1) + 1), gc_conex_con_tri := gc_conex_con_tri (ca_sys a1) + peso c\<rparr>,
          ca_total_consigna := tc, ca_total_pc := tp\<rparr>"
        by (simp add: a2_def)
      with post [OF t(2), where x = "c8 (gc_conex (ca_sys a1) + 1)" and u = tc and v = tp] t(1) tf
      show ?thesis by metis
    next
      case tf: False
      have "contado c = c" using True tf by (simp add: contado_def)
      then have "(gc_table (ca_sys a1))[i := contado c] = gc_table (ca_sys a1)" using ca(1) by (metis list_update_id)
      moreover have "c8 (gc_conex_con_tri (ca_sys a1) + 1) = gc_conex_con_tri (ca_sys a1) + peso c"
        using tri i40(1) tf by (simp add: peso_def)
      ultimately have "a2 = a1\<lparr>ca_sys := (ca_sys a1)\<lparr>gc_table := (gc_table (ca_sys a1))[i := contado c],
          gc_Circuitos := cs, gc_conex := c8 (gc_conex (ca_sys a1) + 1),
          gc_conex_con_tri := gc_conex_con_tri (ca_sys a1) + peso c\<rparr>,
          ca_total_consigna := c16 (ca_total_consigna a1 + ch_Consigna c), ca_total_pc := c16 (ca_total_pc a1 + ch_Current c)\<rparr>"
        by (simp add: a2_def)
      with post [OF mismos_refl [OF fcs], where x = "c8 (gc_conex (ca_sys a1) + 1)" and
          u = "c16 (ca_total_consigna a1 + ch_Consigna c)" and v = "c16 (ca_total_pc a1 + ch_Current c)"] tf
      show ?thesis by metis
    qed
    then obtain a3 where a3: "(if es_trifasico c then contar_trifasico i a2 else Some a2) = Some a3" "contar_inv s0 (i + 1) a3"
      by blast
    have "contar_cargador i a = Some (if 0 < ch_Delta c
        then a3\<lparr>ca_sys := (ca_sys a3)\<lparr>gc_delta_total := gc_delta_total (ca_sys a3) + int (ch_Delta c),
          gc_conex_delta := c8 (gc_conex_delta (ca_sys a3) + 1)\<rparr>\<rparr> else a3)"
      unfolding contar_cargador_def Let_def ca(2) a1_def [symmetric] using True cs(1) a3(1)
      by (auto simp: a2_def [symmetric, simplified] split: if_splits)
    with contar_inv_delta(1) [OF a3(2)] a3(2) show ?thesis by auto
  next
    case False
    let ?a = "if hpt c ''A1'' \<or> hpt c ''0V'' then a1\<lparr>ca_sys := (ca_sys a1)\<lparr>gc_table := (gc_table (ca_sys a1))[i := reset_cargador c]\<rparr>\<rparr> else a1"
    have r: "contar_cargador i a = Some ?a"
      unfolding contar_cargador_def Let_def ca(2) a1_def [symmetric] using False by simp
    have "(gc_table (ca_sys a1))[i := contado c] = map contado (take (i + 1) (gc_table s0)) @ drop (i + 1) (gc_table s0)"
      using tabla_step(1) [OF i40(2)] h(1) by (simp add: c_def)
    moreover have "?a = a1\<lparr>ca_sys := (ca_sys a1)\<lparr>gc_table := (gc_table (ca_sys a1))[i := contado c]\<rparr>\<rparr>"
      using False ca(1) list_update_id [of "gc_table (ca_sys a1)" i] by (simp add: contado_def)
    ultimately have t: "?a = a1\<lparr>ca_sys := (ca_sys a1)\<lparr>gc_table := map contado (take (i + 1) (gc_table s0)) @ drop (i + 1) (gc_table s0)\<rparr>\<rparr>"
      by simp
    have "\<not> en_fase k f c" for k f using False by (simp add: en_fase_def)
    then have "contar_inv s0 (i + 1) ?a"
      unfolding contar_inv_def t
      by - (rule exI [of _ cs0], rule exI [of _ cx], rule exI [of _ dt], rule exI [of _ cd],
          use h False in \<open>simp add: c_def\<close>)
    with r show ?thesis by blast
  qed
qed

lemma for_each_inv:
  assumes "\<And>i s. i < n \<Longrightarrow> Q i s \<Longrightarrow> \<exists>s'. f i s = Some s' \<and> Q (i + 1) s'" "Q 0 s"
  shows "\<exists>s'. for_each f [0..<n] s = Some s' \<and> Q n s'"
proof -
  have "\<exists>s'. for_each f [k..<n] t = Some s' \<and> Q n s'" if "k \<le> n" "Q k t" for k t
    using that
  proof (induction "n - k" arbitrary: k t)
    case 0
    then show ?case by simp
  next
    case (Suc m)
    then have k: "k < n" by simp
    with assms(1) Suc.prems(2) obtain t' where t': "f k t = Some t'" "Q (k + 1) t'" by blast
    have "[k..<n] = k # [k + 1..<n]" using k by (simp add: upt_rec)
    with t' Suc.hyps(1) [of "k + 1" t'] Suc.hyps(2) k show ?case by simp
  qed
  with assms(2) show ?thesis by blast
qed

lemma contar_todos:
  assumes "gc_wf s0" "gc_conex_con_tri s0 = 0"
  shows "\<exists>a. for_each contar_cargador [0..<gc_Charger_number s0]
      \<lparr>ca_sys = s0, ca_total_pc = 0, ca_total_consigna = 0, ca_conectados = 0\<rparr> = Some a \<and>
    contar_inv s0 (gc_Charger_number s0) a"
proof (rule for_each_inv)
  fix i a assume "i < gc_Charger_number s0" "contar_inv s0 i a"
  then show "\<exists>a'. contar_cargador i a = Some a' \<and> contar_inv s0 (i + 1) a'"
    using contar_cargador_spec [OF _ assms(1)] by blast
next
  show "contar_inv s0 0 \<lparr>ca_sys = s0, ca_total_pc = 0, ca_total_consigna = 0, ca_conectados = 0\<rparr>"
    unfolding contar_inv_def
    by (rule exI [of _ "gc_Circuitos s0"], rule exI [of _ "gc_conex s0"], rule exI [of _ "gc_delta_total s0"],
        rule exI [of _ "gc_conex_delta s0"])
      (use assms in \<open>simp add: gc_wf_def mismos_refl\<close>)
qed

section \<open>The whole calculation\<close>

text \<open>The reset of the circuits in use.\<close>

lemma reset_circuitos_spec:
  assumes "gc_wf s"
  shows "\<exists>cs. reset_circuitos s = Some (s\<lparr>gc_Circuitos := cs\<rparr>) \<and> forma cs \<and>
    map ci_limite_corriente cs = map ci_limite_corriente (gc_Circuitos s) \<and>
    (\<forall>k < gc_Circuit_number s. \<forall>f < 3. conex_en cs k f = 0)"
proof -
  let ?n = "gc_Circuit_number s" and ?C = "gc_Circuitos s"
  define cs where "cs = map reset_circuito (take ?n ?C) @ drop ?n ?C"
  have l: "length ?C = 40" "?n \<le> 40" "\<forall>k \<in> set ?C. length (ci_Fases k) = 3"
    using assms by (auto simp: gc_wf_def forma_def)
  have "reset_circuitos s = Some (s\<lparr>gc_Circuitos := cs\<rparr>)" using l by (simp add: reset_circuitos_def cs_def)
  moreover have "forma cs"
    using l by (auto simp: forma_def cs_def reset_circuito_def dest: in_set_takeD in_set_dropD)
  moreover have "map ci_limite_corriente cs = map ci_limite_corriente ?C"
    using append_take_drop_id [of ?n "map ci_limite_corriente ?C"]
    by (simp add: cs_def reset_circuito_def comp_def take_map drop_map)
  moreover have "conex_en cs k f = 0" if "k < ?n" "f < 3" for k f
    using that l by (simp add: conex_en_def cs_def nth_append reset_circuito_def reset_fase_def)
  ultimately show ?thesis by blast
qed

definition disponible_en :: "group_control \<Rightarrow> nat \<Rightarrow> nat \<Rightarrow> int" where
  "disponible_en s k f = fa_corriente_disponible (ci_Fases (gc_Circuitos s ! k) ! f)"

lemma circuitos_disponible_spec:
  assumes "forma (gc_Circuitos s)" "gc_Circuit_number s \<le> 40"
  shows "forma (gc_Circuitos (circuitos_disponible s))"
    "map ci_limite_corriente (gc_Circuitos (circuitos_disponible s)) = map ci_limite_corriente (gc_Circuitos s)"
    "k < gc_Circuit_number s \<Longrightarrow> f < 3 \<Longrightarrow> 0 \<le> m \<Longrightarrow> m \<le> conex_en (gc_Circuitos s) k f \<Longrightarrow>
       0 \<le> disponible_en (circuitos_disponible s) k f \<and>
       disponible_en (circuitos_disponible s) k f * m \<le> int (ci_limite_corriente (gc_Circuitos s ! k))"
proof -
  let ?n = "gc_Circuit_number s" and ?C = "gc_Circuitos s"
  have l: "length ?C = 40" "\<forall>k \<in> set ?C. length (ci_Fases k) = 3" using assms by (auto simp: forma_def)
  show "forma (gc_Circuitos (circuitos_disponible s))"
    using l assms(2) by (auto simp: forma_def circuitos_disponible_def circuito_disponible_def dest: in_set_takeD in_set_dropD)
  show "map ci_limite_corriente (gc_Circuitos (circuitos_disponible s)) = map ci_limite_corriente ?C"
    using append_take_drop_id [of ?n "map ci_limite_corriente ?C"]
    by (simp add: circuitos_disponible_def circuito_disponible_def comp_def take_map drop_map)
  show "0 \<le> disponible_en (circuitos_disponible s) k f \<and>
      disponible_en (circuitos_disponible s) k f * m \<le> int (ci_limite_corriente (?C ! k))"
    if h: "k < ?n" "f < 3" "0 \<le> m" "m \<le> conex_en ?C k f"
  proof -
    let ?L = "int (ci_limite_corriente (?C ! k))" and ?cx = "conex_en ?C k f"
    have d: "disponible_en (circuitos_disponible s) k f = (if 0 < ?cx then ?L div ?cx else ?L)"
      using h l assms(2) by (simp add: disponible_en_def circuitos_disponible_def circuito_disponible_def
          nth_append fase_disponible_def conex_en_def)
    have "?L div ?cx * m \<le> ?L" if "0 < ?cx"
    proof -
      have "?L div ?cx * m \<le> ?L div ?cx * ?cx"
        using h(4) that by (intro mult_left_mono) (auto simp: pos_imp_zdiv_nonneg_iff)
      also have "\<dots> \<le> ?L" using that by (simp add: minus_mod_eq_div_mult [symmetric])
      finally show ?thesis .
    qed
    moreover have "m = 0" if "\<not> 0 < ?cx" using that h(3,4) by simp
    ultimately show ?thesis using d by (auto simp: pos_imp_zdiv_nonneg_iff)
  qed
qed

lemma contar_recalculo_frame: "\<exists>r' k. contar_recalculo x (r, s) = (r', s\<lparr>gc_recalc_count := k\<rparr>)"
proof (cases "5 < gc_disponible_limitada s - int x")
  case True
  then show ?thesis by (auto simp: contar_recalculo_def)
next
  case False
  then have "contar_recalculo x (r, s) = (r, s\<lparr>gc_recalc_count := gc_recalc_count s\<rparr>)"
    by (simp add: contar_recalculo_def)
  then show ?thesis by blast
qed

lemma contado_fields [simp]:
  "ch_Circuito (contado c) = ch_Circuito c" "ch_Fase (contado c) = ch_Fase c"
  "ch_Consigna (contado c) \<le> ch_Consigna c"
  by (auto simp: contado_def reset_cargador_def)

lemma contado_cargando:
  assumes "cargando (contado c)"
  shows "en_grupo c" "peso (contado c) = peso c" "cargando c" "ch_order (contado c) = ch_order c"
    "es_trifasico (contado c) = es_trifasico c" "ch_trifasico (contado c) = (if es_trifasico c then 1 else ch_trifasico c)"
proof -
  have "hpt (reset_cargador c) h = hpt c h" for h by (simp add: hpt_def reset_cargador_def)
  then show g: "en_grupo c" using assms by (auto simp: contado_def cargando_def en_grupo_def split: if_splits)
  show "peso (contado c) = peso c" "cargando c" "ch_order (contado c) = ch_order c"
    "es_trifasico (contado c) = es_trifasico c" "ch_trifasico (contado c) = (if es_trifasico c then 1 else ch_trifasico c)"
    using g assms by (auto simp: contado_def peso_def es_trifasico_def cargando_def split: if_splits)
qed

text \<open>Before the calculation: every charging charger has an order and no stale three-phase mark.\<close>

definition marcas_ini :: "group_control \<Rightarrow> bool" where
  "marcas_ini s \<longleftrightarrow> (\<forall>j < gc_Charger_number s. cargando (gc_table s ! j) \<longrightarrow>
     0 < ch_order (gc_table s ! j) \<and> (ch_trifasico (gc_table s ! j) \<noteq> 0 \<longrightarrow> es_trifasico (gc_table s ! j)))"

definition calculo_post :: "group_control \<Rightarrow> group_control \<Rightarrow> bool" where
  "calculo_post s s' \<longleftrightarrow> gc_wf s' \<and> gc_Charger_number s' = gc_Charger_number s \<and>
     gc_Circuit_number s' = gc_Circuit_number s \<and>
     map ci_limite_corriente (gc_Circuitos s') = map ci_limite_corriente (gc_Circuitos s) \<and>
     (\<forall>j < gc_Charger_number s. gc_table s' ! j = contado (gc_table s ! j)
        \<or> gc_table s' ! j = expulsado (contado (gc_table s ! j))) \<and>
     (\<forall>k < gc_Circuit_number s. \<forall>f < 3. 0 \<le> disponible_en s' k f \<and>
        disponible_en s' k f * (\<Sum>j < gc_Charger_number s. if en_fase k f (gc_table s ! j) then 1 else 0)
          \<le> int (ci_limite_corriente (gc_Circuitos s ! k))) \<and>
     (marcas_ini s \<longrightarrow> int (carga s') * max 0 (gc_disponible_total s') \<le> gc_disponible_limitada s')"

lemma carga_contados:
  assumes T: "\<forall>j < gc_Charger_number s. gc_table s ! j = contado (T ! j)"
  shows "carga s \<le> (\<Sum>j < gc_Charger_number s. if en_grupo (T ! j) then peso (T ! j) else 0)"
  unfolding carga_def
proof (rule sum_mono)
  fix j assume "j \<in> {..<gc_Charger_number s}"
  then have "gc_table s ! j = contado (T ! j)" using T by simp
  then show "(if cargando (gc_table s ! j) then peso (gc_table s ! j) else 0) \<le> (if en_grupo (T ! j) then peso (T ! j) else 0)"
    using contado_cargando [of "T ! j"] by simp
qed

lemma gc_wf_tabla:
  assumes "gc_wf s" "length (gc_table s') = 40" "gc_Charger_number s' = gc_Charger_number s"
    "gc_Circuit_number s' = gc_Circuit_number s" "forma (gc_Circuitos s')"
    "\<forall>j < gc_Charger_number s. gc_table s' ! j = contado (gc_table s ! j) \<or> gc_table s' ! j = expulsado (contado (gc_table s ! j))"
  shows "gc_wf s'"
proof -
  have "1 \<le> ch_Circuito (gc_table s' ! j) \<and> ch_Circuito (gc_table s' ! j) \<le> 40 \<and>
      1 \<le> ch_Fase (gc_table s' ! j) \<and> ch_Fase (gc_table s' ! j) \<le> 3 \<and> ch_Consigna (gc_table s' ! j) \<le> 32"
    if "j < gc_Charger_number s" for j
  proof -
    have "1 \<le> ch_Circuito (gc_table s ! j)" "ch_Circuito (gc_table s ! j) \<le> 40"
      "1 \<le> ch_Fase (gc_table s ! j)" "ch_Fase (gc_table s ! j) \<le> 3" "ch_Consigna (gc_table s ! j) \<le> 32"
      using assms(1) that by (auto simp: gc_wf_def)
    moreover have "ch_Consigna (contado (gc_table s ! j)) \<le> 32"
      using calculation(5) contado_fields(3) le_trans by blast
    ultimately show ?thesis using assms(6) that by auto
  qed
  then show ?thesis using assms by (simp add: gc_wf_def)
qed

lemma calculo_post_recalc [simp]: "calculo_post s (s'\<lparr>gc_recalc_count := k\<rparr>) = calculo_post s s'"
  by (simp add: calculo_post_def gc_wf_def disponible_en_def carga_def cong: if_cong)

lemma limites_nth:
  assumes "map ci_limite_corriente cs = map ci_limite_corriente ds" "forma ds" "k < 40"
  shows "ci_limite_corriente (cs ! k) = ci_limite_corriente (ds ! k)"
proof -
  have "length ds = 40" using assms(2) by (simp add: forma_def)
  moreover have "length cs = length ds" using assms(1) by (rule map_eq_imp_length_eq)
  ultimately show ?thesis using assms(1,3) by (metis nth_map)
qed

lemma calculo_limites_spec:
  assumes wf: "gc_wf s" and inv: "contar_inv s0 (gc_Charger_number s) a"
    and s0: "gc_table s0 = gc_table s" "gc_Charger_number s0 = gc_Charger_number s" "gc_Circuit_number s0 = gc_Circuit_number s"
      "map ci_limite_corriente (gc_Circuitos s0) = map ci_limite_corriente (gc_Circuitos s)"
      "\<forall>k < gc_Circuit_number s. \<forall>f < 3. conex_en (gc_Circuitos s0) k f = 0"
  shows "\<exists>r s'. calculo_limites a = Some (r, s') \<and> calculo_post s s'"
proof -
  let ?n = "gc_Charger_number s" and ?T = "gc_table s"
  obtain cs cx dt cd where h: "ca_sys a = s0\<lparr>gc_table := map contado (take ?n ?T) @ drop ?n ?T,
        gc_Circuitos := cs, gc_conex := cx, gc_delta_total := dt, gc_conex_delta := cd,
        gc_conex_con_tri := (\<Sum>j < ?n. if en_grupo (?T ! j) then peso (?T ! j) else 0)\<rparr>"
      "mismos (gc_Circuitos s0) cs"
      "\<forall>k < 40. \<forall>f < 3. conex_en (gc_Circuitos s0) k f
         + (\<Sum>j < ?n. if en_fase k f (?T ! j) then 1 else 0) \<le> conex_en cs k f"
    using inv unfolding contar_inv_def s0(1) by blast
  have w: "length ?T = 40" "?n \<le> 40" "gc_Circuit_number s \<le> 40" using wf by (auto simp: gc_wf_def)
  have fcs: "forma cs" using h(2) by (simp add: mismos_def)
  define t where "t = circuitos_disponible (ca_sys a)"
  have tf: "gc_table t = map contado (take ?n ?T) @ drop ?n ?T" "gc_Charger_number t = ?n"
      "gc_Circuit_number t = gc_Circuit_number s"
      "gc_conex_con_tri t = (\<Sum>j < ?n. if en_grupo (?T ! j) then peso (?T ! j) else 0)"
    by (simp_all add: t_def circuitos_disponible_def h(1) s0)
  have sp: "forma (gc_Circuitos (ca_sys a))" "gc_Circuit_number (ca_sys a) \<le> 40"
    using fcs w s0 by (simp_all add: h(1))
  note cd = circuitos_disponible_spec [OF sp, folded t_def]
  have lim: "map ci_limite_corriente (gc_Circuitos t) = map ci_limite_corriente (gc_Circuitos s)"
    using cd(2) h(1,2) s0(4) by (simp add: mismos_def)
  have tabla: "\<forall>j < ?n. gc_table t ! j = contado (?T ! j)" using w by (simp add: tf(1) nth_append)
  have fases: "0 \<le> disponible_en t k f \<and> disponible_en t k f * (\<Sum>j < ?n. if en_fase k f (?T ! j) then 1 else 0)
      \<le> int (ci_limite_corriente (gc_Circuitos s ! k))" if "k < gc_Circuit_number s" "f < 3" for k f
  proof -
    have "conex_en (gc_Circuitos s0) k f + (\<Sum>j < ?n. if en_fase k f (?T ! j) then 1 else 0) \<le> conex_en cs k f"
      using h(3) that w by simp
    then have "(\<Sum>j < ?n. if en_fase k f (?T ! j) then 1 else 0) \<le> conex_en (gc_Circuitos (ca_sys a)) k f"
      using s0(5) that by (simp add: h(1))
    moreover have "ci_limite_corriente (gc_Circuitos (ca_sys a) ! k) = ci_limite_corriente (gc_Circuitos s ! k)"
      using limites_nth [of cs "gc_Circuitos s" k] h(1,2) s0(4) wf that(1) w(3)
      by (simp add: mismos_def gc_wf_def)
    ultimately show ?thesis
      using cd(3) [of k f "\<Sum>j < ?n. if en_fase k f (?T ! j) then 1 else 0"] that s0(3) h(1)
      by (simp add: sum_nonneg)
  qed
  have tri: "gc_conex_con_tri t \<le> 120"
    using suma_pesos_le [where i = ?n and t = ?T and P = "\<lambda>j. en_grupo (?T ! j)"] w(2) tf(4) by simp
  have carga: "carga t \<le> gc_conex_con_tri t" using carga_contados [of t ?T] tabla tf by simp
  have marcas: "marcas_ini s \<Longrightarrow> marcas_ok t"
    using tabla tf(2) contado_cargando by (auto simp: marcas_ini_def marcas_ok_def split: if_splits)
  have post: "calculo_post s u"
    if "gc_Charger_number u = ?n" "gc_Circuit_number u = gc_Circuit_number s" "gc_Circuitos u = gc_Circuitos t"
      "length (gc_table u) = 40"
      "\<forall>j < ?n. gc_table u ! j = gc_table t ! j \<or> gc_table u ! j = expulsado (gc_table t ! j)"
      "marcas_ini s \<longrightarrow> int (carga u) * max 0 (gc_disponible_total u) \<le> gc_disponible_limitada u" for u
  proof -
    have tu: "\<forall>j < ?n. gc_table u ! j = contado (?T ! j) \<or> gc_table u ! j = expulsado (contado (?T ! j))"
      using that(5) tabla by simp
    have "gc_wf u" using gc_wf_tabla [OF wf that(4,1,2) _ tu] cd(1) that(3) by simp
    moreover have "disponible_en u k f = disponible_en t k f" for k f using that(3) by (simp add: disponible_en_def)
    ultimately show ?thesis using that tu lim fases by (simp add: calculo_post_def)
  qed
  have lt: "length (gc_table t) = 40" using w by (simp add: tf(1))
  define t1 where "t1 = t\<lparr>gc_disponible_limitada := limite_grupo t (ca_conectados a), gc_consumo_total := c8 (ca_total_pc a div 100)\<rparr>"
  have l0: "0 \<le> gc_disponible_limitada t1" by (simp add: t1_def limite_grupo_def Let_def)
  show ?thesis
  proof (cases "0 < gc_conex_con_tri t1")
    case False
    then have r: "calculo_limites a = Some (False, t1)"
      by (simp add: calculo_limites_def Let_def t_def [symmetric] t1_def)
    have "carga t1 = 0" using False carga by (simp add: t1_def carga_def cong: if_cong)
    then have "calculo_post s t1" using l0 lt tf by (intro post) (simp_all add: t1_def)
    with r show ?thesis by blast
  next
    case True
    obtain t3 rc where t3: "calculo_limites a = map_option (\<lambda>s4. (rc, s4)) (expulsar t3)"
        "0 \<le> gc_disponible_limitada t3" "gc_disponible_total t3 = gc_disponible_limitada t3 div int (gc_conex_con_tri t3)"
        "\<exists>x y. t3 = t1\<lparr>gc_disponible_limitada := x, gc_disponible_total := y\<rparr>"
    proof -
      let ?t2 = "t1\<lparr>gc_disponible_total := gc_disponible_limitada t1 div int (gc_conex_con_tri t1)\<rparr>"
      let ?m = "ContadorConfigurado ?t2 \<and> gc_GatewayConectado ?t2"
      let ?l = "int (if ca_conectados a = gc_Charger_number ?t2 then limite_cdp ?t2
                else limite_cdp ?t2 * ca_conectados a div gc_Charger_number ?t2)"
      let ?t3 = "if ?m then ?t2\<lparr>gc_disponible_limitada := ?l, gc_disponible_total := ?l div int (gc_conex_con_tri ?t2)\<rparr> else ?t2"
      have "calculo_limites a = map_option (\<lambda>s4. (?m \<and> limite_cdp ?t2 < gc_consumo_total ?t2, s4)) (expulsar ?t3)"
        unfolding calculo_limites_def Let_def t_def [symmetric] t1_def [symmetric] if_P [OF True] ..
      moreover have "\<exists>x y. ?t3 = t1\<lparr>gc_disponible_limitada := x, gc_disponible_total := y\<rparr>"
      proof (cases ?m)
        case True
        then show ?thesis by (intro exI [of _ ?l] exI [of _ "?l div int (gc_conex_con_tri ?t2)"]) simp
      next
        case False
        have "t1\<lparr>gc_disponible_limitada := gc_disponible_limitada t1\<rparr> = t1" by simp
        then have "?t3 = t1\<lparr>gc_disponible_limitada := gc_disponible_limitada t1,
            gc_disponible_total := gc_disponible_limitada t1 div int (gc_conex_con_tri t1)\<rparr>"
          by (simp only: if_not_P [OF False])
        then show ?thesis by blast
      qed
      moreover have "0 \<le> gc_disponible_limitada ?t3"
          "gc_disponible_total ?t3 = gc_disponible_limitada ?t3 div int (gc_conex_con_tri ?t3)"
        using l0 by (cases ?m; simp)+
      ultimately show thesis using that by blast
    qed
    then obtain x y where xy: "t3 = t1\<lparr>gc_disponible_limitada := x, gc_disponible_total := y\<rparr>" by blast
    have c3: "carga t3 = carga t" "marcas_ok t3 = marcas_ok t"
      by (simp_all add: xy t1_def carga_def marcas_ok_def cong: if_cong)
    have f3: "gc_table t3 = gc_table t" "gc_Charger_number t3 = ?n" "gc_Circuitos t3 = gc_Circuitos t"
        "gc_Circuit_number t3 = gc_Circuit_number s" "gc_conex_con_tri t3 = gc_conex_con_tri t" "0 < gc_conex_con_tri t3"
      using tf True by (simp_all add: xy t1_def)
    obtain u where u: "expulsar t3 = Some u"
      using expulsar_total [of t3] f3 lt w tri by auto
    have tu: "tabla_expulsada t3 u" by (rule expulsar_tabla [OF u])
    have "dentro t3" if "marcas_ini s"
      using that marcas c3 carga f3 t3(2,3) tri lt w(2) by (simp add: dentro_def)
    then have "marcas_ini s \<longrightarrow> int (carga u) * max 0 (gc_disponible_total u) \<le> gc_disponible_limitada u"
      using expulsar_bound [OF u] by blast
    then have "calculo_post s u"
      using tu f3 lt w(2) by (intro post) (auto simp: tabla_expulsada_def)
    with t3(1) u show ?thesis by simp
  qed
qed

lemma Calculo_General_spec:
  assumes wf: "gc_wf s"
  shows "\<exists>r s'. Calculo_General s = Some (r, s') \<and> calculo_post s s'"
proof -
  define si where "si = s\<lparr>gc_conex := 0, gc_conex_con_tri := 0, gc_consumo_total := 0, gc_delta_total := 0, gc_conex_delta := 0\<rparr>"
  have wfi: "gc_wf si" using wf by (simp add: gc_wf_def si_def)
  obtain cs where cs: "reset_circuitos si = Some (si\<lparr>gc_Circuitos := cs\<rparr>)" "forma cs"
      "map ci_limite_corriente cs = map ci_limite_corriente (gc_Circuitos s)"
      "\<forall>k < gc_Circuit_number s. \<forall>f < 3. conex_en cs k f = 0"
    using reset_circuitos_spec [OF wfi] by (auto simp: si_def)
  let ?s0 = "si\<lparr>gc_Circuitos := cs\<rparr>"
  have wf0: "gc_wf ?s0" using wfi cs(2) by (simp add: gc_wf_def)
  have s0: "gc_table ?s0 = gc_table s" "gc_Charger_number ?s0 = gc_Charger_number s" "gc_Circuit_number ?s0 = gc_Circuit_number s"
      "gc_Circuitos ?s0 = cs" "gc_conex_con_tri ?s0 = 0"
    by (simp_all add: si_def)
  obtain a where a: "for_each contar_cargador [0..<gc_Charger_number s]
      \<lparr>ca_sys = ?s0, ca_total_pc = 0, ca_total_consigna = 0, ca_conectados = 0\<rparr> = Some a"
      "contar_inv ?s0 (gc_Charger_number s) a"
    using contar_todos [OF wf0 s0(5)] s0(2) by auto
  obtain r t where t: "calculo_limites a = Some (r, t)" "calculo_post s t"
    using calculo_limites_spec [OF wf a(2) s0(1-3)] cs(3,4) s0(4) by auto
  obtain r' k where "contar_recalculo (ca_total_consigna a) (r, t) = (r', t\<lparr>gc_recalc_count := k\<rparr>)"
    using contar_recalculo_frame by blast
  then have "Calculo_General s = Some (r', t\<lparr>gc_recalc_count := k\<rparr>)"
    unfolding Calculo_General_def si_def [symmetric] cs(1) bind.bind_lunit a(1) t(1) by simp
  with t(2) show ?thesis by auto
qed

end
