(* ===== verification/Group_Messages.thy ===== *)
theory Group_Messages
  imports Group_Balance
begin

text \<open>
  The messages a charger of a group receives (\<^verbatim>\<open>group_control.cpp\<close>) and the parameters and
  circuits it keeps in flash (\<^verbatim>\<open>Gestion_Grupo.cpp\<close>, \<^verbatim>\<open>control.cpp\<close>). A message
  arrives as a JSON object: the map from its keys to the items that \<^verbatim>\<open>cJSON_Parse\<close> returns, empty
  when the text is not JSON. A read through a null pointer or outside an object is \<open>None\<close>.
\<close>

section \<open>JSON objects and the state of a node\<close>

datatype jval = JNum int | JStr string

type_synonym json = "string \<rightharpoonup> jval"

text \<open>The fields \<open>valueint\<close> and \<open>valuestring\<close> of an item; a string has the number 0 and a number has no string.\<close>

definition valueint :: "json \<Rightarrow> string \<Rightarrow> int option" where
  "valueint j k = (case j k of None \<Rightarrow> None | Some (JNum v) \<Rightarrow> Some v | Some (JStr _) \<Rightarrow> Some 0)"

definition valuestring :: "json \<Rightarrow> string \<Rightarrow> nat \<Rightarrow> string option" where
  "valuestring j k n =
     (case j k of
        Some (JStr v) \<Rightarrow> if n \<le> length v + 1 then Some (take n (v @ [CHR 0x00])) else None
      | _ \<Rightarrow> None)"

abbreviation to8 :: "int \<Rightarrow> nat" where "to8 v \<equiv> nat (v mod 256)"
abbreviation to16 :: "int \<Rightarrow> nat" where "to16 v \<equiv> nat (v mod 65536)"

datatype psoc_handle = BLOQUEO_CARGA | MEASURES_CURRENT_COMMAND

record nodo =
  no_gc :: group_control
  no_GroupMaster :: nat
  no_GroupActive :: nat
  no_StopOrder :: bool
  no_params :: "nat list"
  no_circuits :: "nat list"
  no_guardar :: bool
  no_Device_Id :: string
  no_ChargPerm :: bool
  no_AskPerm :: bool
  no_desired_current :: nat
  no_HPT_status :: string
  no_psoc :: "(nat \<times> psoc_handle) list"

section \<open>The parameters of the group\<close>

definition store_params_in_mem :: "nodo \<Rightarrow> nodo" where
  "store_params_in_mem d =
     (let g = no_gc d
      in d\<lparr>no_params := [no_GroupMaster d, no_GroupActive d, gc_CDP g,
             gc_ContractPower g mod 256, gc_ContractPower g div 256 mod 256,
             gc_potencia_max g mod 256, gc_potencia_max g div 256 mod 256],
           no_guardar := True\<rparr>)"

definition Get_Stored_Group_Params :: "nodo \<Rightarrow> nodo" where
  "Get_Stored_Group_Params d =
     (let b = no_params d
      in d\<lparr>no_GroupMaster := b ! 0,
           no_StopOrder := (if no_GroupActive d \<noteq> 0 \<and> b ! 1 = 0 then True else no_StopOrder d),
           no_GroupActive := b ! 1,
           no_gc := (no_gc d)\<lparr>gc_NewData := True, gc_CDP := b ! 2,
             gc_ContractPower := c16 (b ! 3 + b ! 4 * 256), gc_potencia_max := c16 (b ! 5 + b ! 6 * 256)\<rparr>\<rparr>)"

definition New_Params :: "json \<Rightarrow> nodo \<Rightarrow> nodo option" where
  "New_Params j d0 =
     (let d = d0\<lparr>no_gc := (no_gc d0)\<lparr>gc_NewData := True\<rparr>\<rparr>
      in if j ''cdp'' = None then Some d
         else do {
           cdp \<leftarrow> valueint j ''cdp'';
           contract \<leftarrow> valueint j ''contract'';
           pot_max \<leftarrow> valueint j ''pot_max'';
           active \<leftarrow> valueint j ''active'';
           let d1 = (if no_GroupMaster d \<noteq> 0
                     then d\<lparr>no_gc := (no_gc d)\<lparr>gc_CDP := to8 cdp, gc_ContractPower := to16 contract,
                              gc_potencia_max := to8 pot_max\<rparr>\<rparr>
                     else d);
           let Contratada = to16 contract;
           let Maxima = to8 pot_max;
           Some (d1\<lparr>no_params := [no_GroupMaster d1, to8 active, to8 cdp, Contratada mod 256,
                        Contratada div 256 mod 256, Maxima mod 256, Maxima div 256 mod 256],
                    no_guardar := True\<rparr>) })"

section \<open>The circuits\<close>

text \<open>The limits of the first circuits are those of the buffer after its length byte.\<close>

definition set_limites :: "nat \<Rightarrow> nat list \<Rightarrow> group_control \<Rightarrow> group_control option" where
  "set_limites n buffer s =
     (if n \<le> length (gc_Circuitos s) \<and> n < length buffer
      then Some (s\<lparr>gc_Circuit_number := n,
             gc_Circuitos := map2 (\<lambda>k l. k\<lparr>ci_limite_corriente := l\<rparr>) (take n (gc_Circuitos s)) (tl buffer)
                @ drop n (gc_Circuitos s)\<rparr>)
      else None)"

text \<open>
  \<open>after\<close> is what follows the two characters of \<open>size_char\<close> on the stack: \<^verbatim>\<open>atoi\<close> reads on.
\<close>

definition New_Circuit :: "string \<Rightarrow> string \<Rightarrow> nodo \<Rightarrow> nodo option" where
  "New_Circuit after Buffer d =
     (if Buffer = [] then Some d
      else if length Buffer < 2 then None
      else let sz = c8 (atoi (take 2 Buffer @ after))
           in if length Buffer < sz + 2 then None
              else let buffer = sz # map of_char (take sz (drop 2 Buffer))
                   in do {
                     g \<leftarrow> (if no_GroupMaster d \<noteq> 0 then set_limites sz buffer (no_gc d) else Some (no_gc d));
                     c \<leftarrow> mem_write (no_circuits d) 0 (take sz buffer);
                     Some (d\<lparr>no_gc := g, no_circuits := c, no_guardar := True\<rparr>) })"

definition Get_Stored_Group_Circuits :: "nodo \<Rightarrow> nodo option" where
  "Get_Stored_Group_Circuits d =
     (let b = take MAX_GROUP_SIZE (no_circuits d)
      in map_option (\<lambda>g. d\<lparr>no_gc := g\<rparr>) (set_limites (b ! 0) b ((no_gc d)\<lparr>gc_NewData := True\<rparr>)))"

section \<open>The data of the chargers and the assigned current\<close>

text \<open>
  The local variable \<open>Cargador\<close>: the initialisers of the structure give its numbers; its name and
  its state are not initialised and are an argument.
\<close>

definition cargador_nuevo :: "string \<Rightarrow> string \<Rightarrow> carac_charger" where
  "cargador_nuevo name HPT = \<lparr>ch_name = name, ch_IP = 0, ch_HPT = HPT, ch_Fase = 1, ch_Circuito = 1, ch_order = 0,
     ch_trifasico = 0, ch_Consigna = 0, ch_Current = 0, ch_CurrentB = 0, ch_CurrentC = 0, ch_Delta = 0,
     ch_Delta_timer = 0, ch_Period = 0, ch_Conected = False, ch_ChargeReq = False\<rparr>"

definition leer :: "json \<Rightarrow> string \<Rightarrow> nat" where
  "leer j k = (case valueint j k of None \<Rightarrow> 0 | Some v \<Rightarrow> to16 v)"

definition actualizar :: "carac_charger \<Rightarrow> carac_charger \<Rightarrow> carac_charger" where
  "actualizar Cargador c = c\<lparr>ch_Current := ch_Current Cargador, ch_CurrentB := ch_CurrentB Cargador,
     ch_CurrentC := ch_CurrentC Cargador, ch_HPT := ch_HPT Cargador\<rparr>"

definition leer_cargador :: "json \<Rightarrow> string \<Rightarrow> carac_charger option" where
  "leer_cargador j name0 =
     do {
       HPT \<leftarrow> valuestring j ''HPT'' 3;
       name \<leftarrow> (if j ''device_id'' = None then Some name0 else valuestring j ''device_id'' 9);
       Some ((cargador_nuevo name HPT)\<lparr>ch_Current := leer j ''current'', ch_CurrentB := leer j ''currentB'',
               ch_CurrentC := leer j ''currentC'',
               ch_ChargeReq := (case valueint j ''Perm'' of None \<Rightarrow> False | Some v \<Rightarrow> v \<noteq> 0)\<rparr>) }"

definition New_Data :: "string \<Rightarrow> string \<Rightarrow> json \<Rightarrow> group_control \<Rightarrow> (carac_charger \<times> group_control) option" where
  "New_Data name0 HPT0 j s =
     (if j ''HPT'' = None then Some (cargador_nuevo name0 HPT0, s)
      else do {
        Cargador \<leftarrow> leer_cargador j name0;
        let index = check_in_group (ch_name Cargador) (gc_table s) (gc_Charger_number s);
        Some (if index < 255 then
                let c1 = (gc_table s ! index)\<lparr>ch_Conected := True, ch_ChargeReq := ch_ChargeReq Cargador\<rparr>;
                    c2 = (if \<not> ch_ChargeReq Cargador then
                            if \<not> (hpt Cargador ''B1'' \<and> hpt c1 ''C2'') then actualizar Cargador c1 else c1
                          else if \<not> hpt c1 ''B1'' \<and> \<not> hpt c1 ''C2'' then actualizar Cargador c1 else c1);
                    c3 = c2\<lparr>ch_Period := 0\<rparr>
                in (c3, s\<lparr>gc_table := (gc_table s)[index := c3]\<rparr>)
              else (Cargador, s)) })"

definition New_Current :: "json \<Rightarrow> nodo \<Rightarrow> nodo option" where
  "New_Current j d =
     (if j ''DC'' = None then Some d
      else case j ''N'' of
        Some (JStr N) \<Rightarrow>
          if \<not> memeq (no_Device_Id d) (N @ [CHR 0x00]) 9 then Some d
          else do {
            dc \<leftarrow> valueint j ''DC'';
            let desired = to8 dc;
            let perm = (case valueint j ''P'' of None \<Rightarrow> no_ChargPerm d | Some v \<Rightarrow> v \<noteq> 0);
            let C2 = memeq (no_HPT_status d) ''C2'' 2;
            let parar = (if desired = 0 \<and> \<not> perm \<and> C2
                         then [(1, BLOQUEO_CARGA), (desired, MEASURES_CURRENT_COMMAND)] else []);
            let cambiar = (if desired \<noteq> no_desired_current d \<and> (C2 \<or> perm)
                           then (desired, MEASURES_CURRENT_COMMAND) # (if perm then [(0, BLOQUEO_CARGA)] else [])
                           else []);
            Some (d\<lparr>no_ChargPerm := perm, no_AskPerm := (if perm then False else no_AskPerm d),
                    no_psoc := no_psoc d @ parar @ cambiar\<rparr>) }
      | _ \<Rightarrow> None)"

section \<open>Parameters and circuits survive a restart\<close>

text \<open>What a charger stores of the parameters of its group is what it reads back after a restart:
  in any state whose flash holds the stored bytes, loading gives the master and active flags, the mode
  of the meter, and both powers with all their 16 bits.\<close>

lemma group_params_roundtrip:
  assumes "gc_ContractPower (no_gc d) < 65536" "gc_potencia_max (no_gc d) < 65536"
    and "no_params e = no_params (store_params_in_mem d)"
  shows "no_GroupMaster (Get_Stored_Group_Params e) = no_GroupMaster d \<and>
    no_GroupActive (Get_Stored_Group_Params e) = no_GroupActive d \<and>
    gc_CDP (no_gc (Get_Stored_Group_Params e)) = gc_CDP (no_gc d) \<and>
    gc_ContractPower (no_gc (Get_Stored_Group_Params e)) = gc_ContractPower (no_gc d) \<and>
    gc_potencia_max (no_gc (Get_Stored_Group_Params e)) = gc_potencia_max (no_gc d)"
proof -
  have "c16 (x mod 256 + x div 256 mod 256 * 256) = x" if "x < 65536" for x :: nat
  proof -
    have "x div 256 mod 256 = x div 256" using that by simp
    then show ?thesis using that mod_div_mult_eq [of x 256] by simp
  qed
  then show ?thesis using assms by (simp add: Get_Stored_Group_Params_def store_params_in_mem_def Let_def)
qed

definition demo_gc :: group_control where
  "demo_gc = \<lparr>gc_table = replicate 40 (cargador_nuevo [] ''A1''), gc_Charger_number = 0,
     gc_Circuitos = replicate 40 \<lparr>ci_limite_corriente = 32,
       ci_Fases = replicate 3 \<lparr>fa_corriente_total = 0, fa_conex = 0, fa_consigna_total = 0,
         fa_corriente_sobrante = 0, fa_corriente_disponible = 0\<rparr>,
       ci_conex = 0, ci_corriente_total = 0, ci_consigna_total = 0\<rparr>,
     gc_Circuit_number = 1, gc_NewData = False, gc_CDP = 0, gc_ContractPower = 400, gc_potencia_max = 300,
     gc_GatewayConectado = False, gc_Power = 0, gc_delta_total = 0, gc_disponible_total = 0,
     gc_disponible_limitada = 0, gc_consumo_total = 0, gc_conex_delta = 0, gc_conex = 0,
     gc_conex_con_tri = 0, gc_recalc_count = 0\<rparr>"

definition demo_nodo :: nodo where
  "demo_nodo = \<lparr>no_gc = demo_gc, no_GroupMaster = 1, no_GroupActive = 1, no_StopOrder = False,
     no_params = replicate 7 0, no_circuits = replicate 362 0, no_guardar = False, no_Device_Id = ''31380001'' @ [CHR 0x00],
     no_ChargPerm = False, no_AskPerm = True, no_desired_current = 32, no_HPT_status = ''C2'', no_psoc = []\<rparr>"

lemma group_params_roundtrip_example:
  "gc_potencia_max (no_gc (Get_Stored_Group_Params (demo_nodo\<lparr>no_params := no_params (store_params_in_mem demo_nodo)\<rparr>))) = 300"
  using group_params_roundtrip [of demo_nodo "demo_nodo\<lparr>no_params := no_params (store_params_in_mem demo_nodo)\<rparr>"]
  by (simp add: demo_nodo_def demo_gc_def)

text \<open>The limits of the circuits in use.\<close>

definition limites :: "nodo \<Rightarrow> nat list" where
  "limites d = map ci_limite_corriente (take (gc_Circuit_number (no_gc d)) (gc_Circuitos (no_gc d)))"

lemma set_limites_limites:
  assumes "set_limites n b s = Some s'"
  shows "gc_Circuit_number s' = n" "map ci_limite_corriente (take n (gc_Circuitos s')) = take n (tl b)"
proof -
  let ?k = "map2 (\<lambda>k l. k\<lparr>ci_limite_corriente := l\<rparr>) (take n (gc_Circuitos s)) (tl b)"
  have n: "n \<le> length (gc_Circuitos s)" "n < length b"
    and s': "s' = s\<lparr>gc_Circuit_number := n, gc_Circuitos := ?k @ drop n (gc_Circuitos s)\<rparr>"
    using assms by (simp_all add: set_limites_def split: if_splits)
  have "length ?k = n" using n by simp
  then have "take n (gc_Circuitos s') = ?k" by (simp add: s')
  moreover have "map ci_limite_corriente ?k = take n (tl b)"
    using n by (intro nth_equalityI) simp_all
  ultimately show "gc_Circuit_number s' = n" "map ci_limite_corriente (take n (gc_Circuitos s')) = take n (tl b)"
    by (simp_all add: s')
qed

text \<open>The message with the circuits gives the master the limits of all of them, but the copy for
  the flash is one byte short: after a restart the limits of all circuits but the last are those of the
  message, and the limit of the last one is the byte that the flash held at its place before.\<close>

lemma circuits_last_limit_not_stored:
  assumes "New_Circuit after B d = Some d'" "B \<noteq> []" "no_GroupMaster d \<noteq> 0" "length (no_circuits d) = MAX_GROUP_BUFFER_SIZE"
    and n: "gc_Circuit_number (no_gc d') = n" "1 \<le> n" "n < MAX_GROUP_SIZE"
    and "Get_Stored_Group_Circuits (e\<lparr>no_circuits := no_circuits d'\<rparr>) = Some e'"
  shows "limites d' = map of_char (take n (drop 2 B)) \<and> limites e' = butlast (limites d') @ [no_circuits d ! n]"
proof -
  define sz where "sz = c8 (atoi (take 2 B @ after))"
  define b :: "nat list" where "b = sz # map of_char (take sz (drop 2 B))"
  have B: "2 \<le> length B" "sz + 2 \<le> length B" and
    "do { g \<leftarrow> set_limites sz b (no_gc d); c \<leftarrow> mem_write (no_circuits d) 0 (take sz b);
          Some (d\<lparr>no_gc := g, no_circuits := c, no_guardar := True\<rparr>) } = Some d'"
    using assms(1-3) unfolding New_Circuit_def sz_def [symmetric] b_def Let_def
    by (auto split: if_splits)
  then obtain g c where g: "set_limites sz b (no_gc d) = Some g" and c: "mem_write (no_circuits d) 0 (take sz b) = Some c"
    and d': "d' = d\<lparr>no_gc := g, no_circuits := c, no_guardar := True\<rparr>"
    by (auto simp: bind_eq_Some_conv)
  have sz: "sz = n" using set_limites_limites(1) [OF g] n(1) by (simp add: d')
  have lb: "length b = n + 1" using B sz by (simp add: b_def)
  have lim: "limites d' = take n (tl b)" using set_limites_limites [OF g] sz by (simp add: limites_def d')
  have cc: "c = take n b @ drop n (no_circuits d)"
    using c lb sz by (auto simp: mem_write_def blit_def split: if_splits)
  have "n < 40" using n(3) by (simp add: group_consts)
  then have t40: "take MAX_GROUP_SIZE c = take n b @ take (40 - n) (drop n (no_circuits d))"
    using lb by (simp add: cc group_consts min_def)
  obtain g' where g': "set_limites (take MAX_GROUP_SIZE c ! 0) (take MAX_GROUP_SIZE c) ((no_gc e)\<lparr>gc_NewData := True\<rparr>) = Some g'"
    and e': "no_gc e' = g'"
    using assms(8) by (auto simp: Get_Stored_Group_Circuits_def Let_def d')
  have "take MAX_GROUP_SIZE c ! 0 = n" using t40 n(2) lb sz by (simp add: nth_append b_def)
  then have "limites e' = take n (tl (take MAX_GROUP_SIZE c))"
    using set_limites_limites [OF g'] by (simp add: limites_def e')
  also have "tl (take MAX_GROUP_SIZE c) = tl (take n b) @ take (40 - n) (drop n (no_circuits d))"
    using t40 n(2) lb by (simp add: tl_append split: list.split) (metis Zero_not_Suc list.size(3) take_eq_Nil zero_less_iff_neq_zero not_one_le_zero)
  also have "take n \<dots> = tl (take n b) @ [no_circuits d ! n]"
    using lb n(2) \<open>n < 40\<close> assms(4) by (simp add: group_consts min_def take_Suc_conv_app_nth)
  also have "tl (take n b) = butlast (take n (tl b))"
    using lb n(2) by (intro nth_equalityI) (simp_all add: nth_tl nth_butlast)
  finally show ?thesis using lim sz by (simp add: b_def)
qed

definition demo_circuits :: string where
  "demo_circuits = ''02'' @ [CHR 0x28, CHR 0x19]"

lemma circuits_last_limit_not_stored_example:
  "\<exists>d' e'. New_Circuit [CHR 0x00] demo_circuits demo_nodo = Some d' \<and> limites d' = [40, 25] \<and>
     Get_Stored_Group_Circuits (demo_nodo\<lparr>no_circuits := no_circuits d'\<rparr>) = Some e' \<and> limites e' = [40, 0]"
proof -
  have a: "c8 (atoi (take 2 demo_circuits @ [CHR 0x00])) = 2"
    by (simp add: demo_circuits_def atoi_def is_digit_def)
  obtain d' where d': "New_Circuit [CHR 0x00] demo_circuits demo_nodo = Some d'" "gc_Circuit_number (no_gc d') = 2"
      "no_circuits d' = 2 # 40 # replicate 360 0"
    using a by (simp add: New_Circuit_def Let_def demo_circuits_def demo_nodo_def demo_gc_def set_limites_def
        mem_write_def blit_def numeral_2_eq_2)
  obtain e' where e': "Get_Stored_Group_Circuits (demo_nodo\<lparr>no_circuits := no_circuits d'\<rparr>) = Some e'"
    using d'(3) by (auto simp: Get_Stored_Group_Circuits_def Let_def group_consts demo_nodo_def demo_gc_def set_limites_def)
  have "limites d' = map of_char (take 2 (drop 2 demo_circuits)) \<and> limites e' = butlast (limites d') @ [no_circuits demo_nodo ! 2]"
    by (intro circuits_last_limit_not_stored [OF d'(1) _ _ _ d'(2) _ _ e'])
      (simp_all add: demo_circuits_def demo_nodo_def group_consts)
  with d' e' show ?thesis by (auto simp: demo_circuits_def demo_nodo_def)
qed

end
