(* ===== verification/Group_Limits.thy ===== *)
theory Group_Limits
  imports Group_Messages
begin

text \<open>
  Properties of the load balancing task: every step of it succeeds and keeps the invariant, the
  assigned currents respect the limit of the group and of the phases; and the situations in which the
  code does not meet its purpose.
\<close>

section \<open>The assignment of the currents\<close>

definition asignado :: "group_control \<Rightarrow> carac_charger \<Rightarrow> carac_charger" where
  "asignado s c =
     (if hpt c ''C2'' \<or> memeq (ch_HPT c) ''B'' 1 then
        let v = asignar_valor (disponible_en s (ch_Circuito c - 1) (ch_Fase c - 1)) (gc_disponible_total s)
        in if es_trifasico c \<and> v < 6 then (expulsado (c\<lparr>ch_Consigna := v\<rparr>))\<lparr>ch_trifasico := 1\<rparr>
           else c\<lparr>ch_Consigna := v\<rparr>
      else c)"

definition asignar_inv :: "group_control \<Rightarrow> nat \<Rightarrow> group_control \<Rightarrow> bool" where
  "asignar_inv s i t \<longleftrightarrow> (\<exists>cx ct. t = s\<lparr>gc_table := map (asignado s) (take i (gc_table s)) @ drop i (gc_table s),
     gc_conex := cx, gc_conex_con_tri := ct\<rparr>)"

lemma asignar_spec:
  assumes wf: "gc_wf s" and inv: "asignar_inv s i t" and i: "i < gc_Charger_number s"
  shows "\<exists>t'. asignar i t = Some t' \<and> asignar_inv s (i + 1) t'"
proof -
  let ?T = "gc_table s"
  obtain cx ct where t: "t = s\<lparr>gc_table := map (asignado s) (take i ?T) @ drop i ?T, gc_conex := cx, gc_conex_con_tri := ct\<rparr>"
    using inv by (auto simp: asignar_inv_def)
  have len: "i < length ?T" using wf i by (simp add: gc_wf_def)
  define c where "c = ?T ! i"
  have c: "gc_table t ! i = c" using tabla_step_gen(2) [OF len] by (simp add: t c_def)
  have w: "1 \<le> ch_Circuito c" "ch_Circuito c \<le> 40" "1 \<le> ch_Fase c" "ch_Fase c \<le> 3"
    using wf i by (auto simp: gc_wf_def c_def)
  have "forma (gc_Circuitos s)" using wf by (simp add: gc_wf_def)
  then have "length (gc_Circuitos s) = 40" "length (ci_Fases (gc_Circuitos s ! (ch_Circuito c - 1))) = 3"
    using w by (auto simp: forma_def)
  then have fd: "fase_de t c = Some (ci_Fases (gc_Circuitos s ! (ch_Circuito c - 1)) ! (ch_Fase c - 1))"
    using w by (simp add: fase_de_def t)
  have "\<exists>cx' ct'. asignar i t = Some (t\<lparr>gc_table := (gc_table t)[i := asignado s c], gc_conex := cx', gc_conex_con_tri := ct'\<rparr>)"
  proof (cases "hpt c ''C2'' \<or> memeq (ch_HPT c) ''B'' 1")
    case False
    have "(gc_table t)[i := c] = gc_table t" using c by (metis list_update_id)
    then have "t\<lparr>gc_table := (gc_table t)[i := c], gc_conex := gc_conex t, gc_conex_con_tri := gc_conex_con_tri t\<rparr> = t" by simp
    moreover have "asignar i t = Some t" "asignado s c = c" using False c by (simp_all add: asignar_def asignado_def)
    ultimately show ?thesis by metis
  next
    case True
    define v where "v = asignar_valor (disponible_en s (ch_Circuito c - 1) (ch_Fase c - 1)) (gc_disponible_total s)"
    have v: "asignar_valor (fa_corriente_disponible (ci_Fases (gc_Circuitos s ! (ch_Circuito c - 1)) ! (ch_Fase c - 1)))
        (gc_disponible_total t) = v"
      by (simp add: v_def disponible_en_def t)
    show ?thesis
    proof (cases "es_trifasico c \<and> v < 6")
      case tri: True
      then have "asignado s c = (expulsado (c\<lparr>ch_Consigna := v\<rparr>))\<lparr>ch_trifasico := 1\<rparr>"
        using True unfolding asignado_def v_def [symmetric] Let_def by simp
      then show ?thesis
        using True tri fd v c len by (auto simp: asignar_def Let_def upd_charger_def t c_def [symmetric])
    next
      case nt: False
      then have "asignado s c = c\<lparr>ch_Consigna := v\<rparr>"
        using True unfolding asignado_def v_def [symmetric] Let_def by auto
      moreover have "asignar i t = Some (t\<lparr>gc_table := (gc_table t)[i := c\<lparr>ch_Consigna := v\<rparr>]\<rparr>)"
        using True nt fd v c unfolding asignar_def Let_def upd_charger_def c by auto
      moreover have "t\<lparr>gc_table := x\<rparr> = t\<lparr>gc_table := x, gc_conex := gc_conex t, gc_conex_con_tri := gc_conex_con_tri t\<rparr>" for x
        by simp
      ultimately show ?thesis by metis
    qed
  qed
  then obtain cx' ct' where r: "asignar i t = Some (t\<lparr>gc_table := (gc_table t)[i := asignado s c], gc_conex := cx', gc_conex_con_tri := ct'\<rparr>)"
    by blast
  have "(gc_table t)[i := asignado s c] = map (asignado s) (take (i + 1) ?T) @ drop (i + 1) ?T"
    using tabla_step_gen(1) [OF len, of "asignado s"] by (simp add: t c_def)
  then have "asignar_inv s (i + 1) (t\<lparr>gc_table := (gc_table t)[i := asignado s c], gc_conex := cx', gc_conex_con_tri := ct'\<rparr>)"
    by (auto simp: asignar_inv_def t)
  with r show ?thesis by blast
qed

lemma asignar_todos:
  assumes wf: "gc_wf s"
  shows "\<exists>t. for_each asignar [0..<gc_Charger_number s] s = Some t \<and> asignar_inv s (gc_Charger_number s) t"
proof (rule for_each_inv)
  fix i t assume "i < gc_Charger_number s" "asignar_inv s i t"
  then show "\<exists>t'. asignar i t = Some t' \<and> asignar_inv s (i + 1) t'" using asignar_spec [OF wf] by blast
next
  have "s = s\<lparr>gc_table := map (asignado s) (take 0 (gc_table s)) @ drop 0 (gc_table s),
      gc_conex := gc_conex s, gc_conex_con_tri := gc_conex_con_tri s\<rparr>" by simp
  then show "asignar_inv s 0 s" unfolding asignar_inv_def by blast
qed

text \<open>The result of a step in \<open>CALCULO\<close>: the calculation, and the assignment of every charger.\<close>

lemma paso_calculo_spec:
  assumes wf: "gc_wf (lc_sys l)"
  shows "\<exists>l' s. paso_calculo l = Some l' \<and> calculo_post (lc_sys l) s \<and>
    (lc_estado l' = REPOSO \<and> lc_sys l' = s \<or>
     lc_estado l' = EQUILIBRADO \<and> length (gc_table (lc_sys l')) = 40 \<and>
       (\<forall>j < gc_Charger_number s. gc_table (lc_sys l') ! j = asignado s (gc_table s ! j)) \<and>
       gc_Charger_number (lc_sys l') = gc_Charger_number s \<and> gc_Circuitos (lc_sys l') = gc_Circuitos s \<and>
       gc_Circuit_number (lc_sys l') = gc_Circuit_number s \<and>
       gc_disponible_limitada (lc_sys l') = gc_disponible_limitada s)"
proof -
  obtain r s where s: "Calculo_General (lc_sys l) = Some (r, s)" "calculo_post (lc_sys l) s"
    using Calculo_General_spec [OF wf] by blast
  have wfs: "gc_wf s" using s(2) by (simp add: calculo_post_def)
  show ?thesis
  proof (cases "gc_conex s = 0")
    case True
    then have "paso_calculo l = Some (l\<lparr>lc_sys := s, lc_estado := REPOSO\<rparr>)" by (simp add: paso_calculo_def s)
    with s(2) show ?thesis by auto
  next
    case False
    obtain t where t: "for_each asignar [0..<gc_Charger_number s] s = Some t" "asignar_inv s (gc_Charger_number s) t"
      using asignar_todos [OF wfs] by blast
    then obtain cx ct where ts: "t = s\<lparr>gc_table := map (asignado s) (take (gc_Charger_number s) (gc_table s)) @
        drop (gc_Charger_number s) (gc_table s), gc_conex := cx, gc_conex_con_tri := ct\<rparr>"
      by (auto simp: asignar_inv_def)
    have w: "length (gc_table s) = 40" "gc_Charger_number s \<le> 40" using wfs by (auto simp: gc_wf_def)
    have "paso_calculo l = Some (l\<lparr>lc_sys := t, lc_estado := EQUILIBRADO\<rparr>)"
      using False by (simp add: paso_calculo_def s t)
    moreover have "\<forall>j < gc_Charger_number s. gc_table t ! j = asignado s (gc_table s ! j)"
      using w by (simp add: ts nth_append)
    moreover have "length (gc_table t) = 40" using w by (simp add: ts)
    ultimately show ?thesis using s(2)
      by - (rule exI [of _ "l\<lparr>lc_sys := t, lc_estado := EQUILIBRADO\<rparr>"], rule exI [of _ s], simp add: ts)
  qed
qed

lemma asignar_valor_le: "asignar_valor d t \<le> 32" "int (asignar_valor d t) \<le> max 0 t" "int (asignar_valor d t) \<le> max 0 d"
proof -
  have "int (c16 (nat x)) \<le> max 0 x" for x
    using mod_less_eq_dividend [of "nat x" 65536] by linarith
  then show "asignar_valor d t \<le> 32" "int (asignar_valor d t) \<le> max 0 t" "int (asignar_valor d t) \<le> max 0 d"
    by (fastforce simp: asignar_valor_def Let_def max_def split: if_splits)+
qed

lemma asignado_fields [simp]:
  "ch_Circuito (asignado s c) = ch_Circuito c" "ch_Fase (asignado s c) = ch_Fase c"
  by (simp_all add: asignado_def Let_def)

section \<open>The limits\<close>

text \<open>The chargers that deliver current.\<close>

definition carga_activa :: "carac_charger \<Rightarrow> bool" where
  "carga_activa c \<longleftrightarrow> hpt c ''C2'' \<or> hpt c ''B2''"

text \<open>An active charger after the assignment was one before it, and its value respects both shares.\<close>

lemma asignado_activo:
  assumes "carga_activa (asignado s c)"
  shows "carga_activa c" "peso (asignado s c) = peso c"
    "int (ch_Consigna (asignado s c)) \<le> max 0 (gc_disponible_total s)"
    "int (ch_Consigna (asignado s c)) \<le> max 0 (disponible_en s (ch_Circuito c - 1) (ch_Fase c - 1))"
proof -
  let ?v = "asignar_valor (disponible_en s (ch_Circuito c - 1) (ch_Fase c - 1)) (gc_disponible_total s)"
  have B: "memeq (ch_HPT c) ''B'' 1" if "hpt c ''B2''"
  proof -
    have "take 1 (take 2 (ch_HPT c)) = take 1 (take 2 ''B2'')" using that by (simp only: hpt_def memeq_def)
    then show ?thesis by (simp add: memeq_def)
  qed
  have "asignado s c = c\<lparr>ch_Consigna := ?v\<rparr>"
  proof (cases "hpt c ''C2'' \<or> memeq (ch_HPT c) ''B'' 1")
    case True
    then show ?thesis using assms unfolding asignado_def Let_def carga_activa_def by (auto split: if_splits)
  next
    case False
    then have "asignado s c = c" by (simp add: asignado_def)
    with False B assms show ?thesis by (auto simp: carga_activa_def)
  qed
  then show "carga_activa c" "peso (asignado s c) = peso c"
    "int (ch_Consigna (asignado s c)) \<le> max 0 (gc_disponible_total s)"
    "int (ch_Consigna (asignado s c)) \<le> max 0 (disponible_en s (ch_Circuito c - 1) (ch_Fase c - 1))"
    using assms asignar_valor_le by (simp_all add: carga_activa_def peso_def es_trifasico_def)
qed

definition suma_grupo :: "group_control \<Rightarrow> nat" where
  "suma_grupo s = (\<Sum>j < gc_Charger_number s. if carga_activa (gc_table s ! j)
     then peso (gc_table s ! j) * ch_Consigna (gc_table s ! j) else 0)"

definition suma_fase :: "group_control \<Rightarrow> nat \<Rightarrow> nat \<Rightarrow> nat" where
  "suma_fase s k f = (\<Sum>j < gc_Charger_number s. if carga_activa (gc_table s ! j) \<and>
     ch_Circuito (gc_table s ! j) = k + 1 \<and> ch_Fase (gc_table s ! j) = f + 1 then ch_Consigna (gc_table s ! j) else 0)"

lemma suma_grupo_le:
  assumes t: "\<forall>j < gc_Charger_number s. gc_table t ! j = asignado s (gc_table s ! j)"
    "gc_Charger_number t = gc_Charger_number s"
  shows "int (suma_grupo t) \<le> int (carga s) * max 0 (gc_disponible_total s)"
proof -
  have "(if carga_activa (gc_table t ! j) then int (peso (gc_table t ! j)) * int (ch_Consigna (gc_table t ! j)) else 0)
      \<le> int (if cargando (gc_table s ! j) then peso (gc_table s ! j) else 0) * max 0 (gc_disponible_total s)"
    if "j < gc_Charger_number s" for j
  proof (cases "carga_activa (gc_table t ! j)")
    case True
    have tj: "gc_table t ! j = asignado s (gc_table s ! j)" using t(1) that by blast
    note a = asignado_activo [OF True [unfolded tj]]
    have "cargando (gc_table s ! j)" using a(1) by (auto simp: carga_activa_def cargando_def)
    then show ?thesis using a(2,3) True tj by (simp add: mult_left_mono)
  qed simp
  then have "(\<Sum>j < gc_Charger_number s. if carga_activa (gc_table t ! j) then int (peso (gc_table t ! j)) * int (ch_Consigna (gc_table t ! j)) else 0)
      \<le> (\<Sum>j < gc_Charger_number s. int (if cargando (gc_table s ! j) then peso (gc_table s ! j) else 0) * max 0 (gc_disponible_total s))"
    by (intro sum_mono) simp
  moreover have "int (suma_grupo t) =
      (\<Sum>j < gc_Charger_number s. if carga_activa (gc_table t ! j) then int (peso (gc_table t ! j)) * int (ch_Consigna (gc_table t ! j)) else 0)"
    unfolding suma_grupo_def t(2) of_nat_sum by (intro sum.cong) auto
  ultimately show ?thesis by (simp add: carga_def sum_distrib_right)
qed

lemma contado_activo: "carga_activa (contado c) \<Longrightarrow> en_grupo c"
  using contado_cargando(1) by (auto simp: carga_activa_def cargando_def)

lemma suma_fase_le:
  assumes post: "calculo_post s0 s" and kf: "k < gc_Circuit_number s0" "f < 3"
    and t: "\<forall>j < gc_Charger_number s. gc_table t ! j = asignado s (gc_table s ! j)" "gc_Charger_number t = gc_Charger_number s"
  shows "suma_fase t k f \<le> ci_limite_corriente (gc_Circuitos s0 ! k)"
proof -
  have p: "gc_Charger_number s = gc_Charger_number s0"
      "\<And>j. j < gc_Charger_number s0 \<Longrightarrow> gc_table s ! j = contado (gc_table s0 ! j) \<or> gc_table s ! j = expulsado (contado (gc_table s0 ! j))"
      "0 \<le> disponible_en s k f" "disponible_en s k f * (\<Sum>j < gc_Charger_number s0. if en_fase k f (gc_table s0 ! j) then 1 else 0)
        \<le> int (ci_limite_corriente (gc_Circuitos s0 ! k))"
    using post kf unfolding calculo_post_def by auto
  let ?P = "\<lambda>j. carga_activa (gc_table t ! j) \<and> ch_Circuito (gc_table t ! j) = k + 1 \<and> ch_Fase (gc_table t ! j) = f + 1"
  have "(if ?P j then int (ch_Consigna (gc_table t ! j)) else 0) \<le> disponible_en s k f * (if en_fase k f (gc_table s0 ! j) then 1 else 0)"
    if j: "j < gc_Charger_number s0" for j
  proof (cases "?P j")
    case True
    have tj: "gc_table t ! j = asignado s (gc_table s ! j)" using t(1) p(1) j by simp
    note a = asignado_activo [OF conjunct1 [OF True, unfolded tj]]
    have "gc_table s ! j \<noteq> expulsado c" for c using a(1) by (auto simp: carga_activa_def)
    then have sj: "gc_table s ! j = contado (gc_table s0 ! j)" using p(2) [OF j] by metis
    then have "en_fase k f (gc_table s0 ! j)"
      using True a(1) contado_activo [of "gc_table s0 ! j"] by (simp add: tj en_fase_def)
    moreover have "int (ch_Consigna (gc_table t ! j)) \<le> max 0 (disponible_en s k f)"
      using a(4) True by (simp add: tj)
    ultimately show ?thesis using True p(3) by simp
  qed (use p(3) in auto)
  then have "(\<Sum>j < gc_Charger_number s0. if ?P j then int (ch_Consigna (gc_table t ! j)) else 0) \<le>
      (\<Sum>j < gc_Charger_number s0. disponible_en s k f * (if en_fase k f (gc_table s0 ! j) then 1 else 0))"
    by (intro sum_mono) simp
  moreover have "int (suma_fase t k f) = (\<Sum>j < gc_Charger_number s0. if ?P j then int (ch_Consigna (gc_table t ! j)) else 0)"
    unfolding suma_fase_def t(2) p(1) of_nat_sum by (intro sum.cong) auto
  ultimately show ?thesis using p(4) by (simp add: sum_distrib_left)
qed

text \<open>C19: From a well-formed state in which every charging charger has its order and no stale three-phase
  mark, a step of the calculation returns, and when it goes on to \<open>EQUILIBRADO\<close> the currents assigned
  to the active chargers, three times that of a three-phase one, sum up to no more than the limit of the group.\<close>

theorem calculo_respects_group_limit:
  assumes "gc_wf (lc_sys l)" "marcas_ini (lc_sys l)"
  shows "\<exists>l'. paso_calculo l = Some l' \<and> lc_estado l' \<in> {REPOSO, EQUILIBRADO} \<and>
    (lc_estado l' = EQUILIBRADO \<longrightarrow> int (suma_grupo (lc_sys l')) \<le> gc_disponible_limitada (lc_sys l'))"
proof -
  obtain l' s where h: "paso_calculo l = Some l'" "calculo_post (lc_sys l) s"
    "lc_estado l' = REPOSO \<or> lc_estado l' = EQUILIBRADO \<and>
       (\<forall>j < gc_Charger_number s. gc_table (lc_sys l') ! j = asignado s (gc_table s ! j)) \<and>
       gc_Charger_number (lc_sys l') = gc_Charger_number s \<and> gc_disponible_limitada (lc_sys l') = gc_disponible_limitada s"
    using paso_calculo_spec [OF assms(1)] by blast
  have "int (carga s) * max 0 (gc_disponible_total s) \<le> gc_disponible_limitada s"
    using h(2) assms(2) by (simp add: calculo_post_def)
  with h suma_grupo_le [of s "lc_sys l'"] show ?thesis by fastforce
qed

text \<open>C20: When a step of the calculation goes on to \<open>EQUILIBRADO\<close>, the currents assigned to the active
  chargers whose main phase is phase \<open>f\<close> of circuit \<open>k\<close> sum up to no more than the limit of the
  circuit, for every circuit in use and each of its phases.\<close>

theorem calculo_respects_phase_limit:
  assumes "gc_wf (lc_sys l)" "paso_calculo l = Some l'" "lc_estado l' = EQUILIBRADO"
    and "k < gc_Circuit_number (lc_sys l)" "f < 3"
  shows "suma_fase (lc_sys l') k f \<le> ci_limite_corriente (gc_Circuitos (lc_sys l) ! k)"
proof -
  obtain s where "calculo_post (lc_sys l) s"
    "\<forall>j < gc_Charger_number s. gc_table (lc_sys l') ! j = asignado s (gc_table s ! j)"
    "gc_Charger_number (lc_sys l') = gc_Charger_number s"
    using paso_calculo_spec [OF assms(1)] assms(2,3) by auto
  then show ?thesis using suma_fase_le assms(4,5) by blast
qed

section \<open>Every step keeps the invariant\<close>

definition ch_ok :: "carac_charger \<Rightarrow> bool" where
  "ch_ok c \<longleftrightarrow> 1 \<le> ch_Circuito c \<and> ch_Circuito c \<le> 40 \<and> 1 \<le> ch_Fase c \<and> ch_Fase c \<le> 3 \<and> ch_Consigna c \<le> 32"

lemma gc_wf_ok:
  "gc_wf s \<longleftrightarrow> length (gc_table s) = 40 \<and> gc_Charger_number s \<le> 40 \<and> forma (gc_Circuitos s) \<and>
     gc_Circuit_number s \<le> 40 \<and> (\<forall>j < gc_Charger_number s. ch_ok (gc_table s ! j))"
  by (simp add: gc_wf_def ch_ok_def)

lemma gc_wf_upd:
  assumes "gc_wf s" "ch_ok (gc_table s ! i) \<Longrightarrow> ch_ok c"
  shows "gc_wf (s\<lparr>gc_table := (gc_table s)[i := c]\<rparr>)"
proof -
  have "ch_ok ((gc_table s)[i := c] ! j)" if "j < gc_Charger_number s" for j
    using assms that by (cases "i = j") (auto simp: gc_wf_ok)
  then show ?thesis using assms(1) by (simp add: gc_wf_ok)
qed

lemma ch_ok_simps [simp]:
  "ch_ok (c\<lparr>ch_order := x\<rparr>) = ch_ok c" "ch_ok (set_C2 c) = ch_ok c" "ch_ok (c\<lparr>ch_Delta := d\<rparr>) = ch_ok c"
  "ch_ok (c\<lparr>ch_Delta_timer := d\<rparr>) = ch_ok c" "ch_ok (c\<lparr>ch_Period := d\<rparr>) = ch_ok c" "ch_ok (c\<lparr>ch_Conected := b\<rparr>) = ch_ok c"
  "ch_ok (c\<lparr>ch_ChargeReq := b\<rparr>) = ch_ok c" "ch_ok (actualizar c' c) = ch_ok c"
  by (simp_all add: ch_ok_def set_C2_def actualizar_def)

lemma gc_wf_simps [simp]:
  "gc_wf (s\<lparr>gc_NewData := b\<rparr>) = gc_wf s" "gc_wf (s\<lparr>gc_CDP := x\<rparr>) = gc_wf s"
  "gc_wf (s\<lparr>gc_ContractPower := x\<rparr>) = gc_wf s" "gc_wf (s\<lparr>gc_potencia_max := x\<rparr>) = gc_wf s"
  by (simp_all add: gc_wf_ok)

lemma reposo_wf: "gc_wf (lc_sys l) \<Longrightarrow> gc_wf (lc_sys (paso_reposo ahora l))"
proof -
  have step: "gc_wf (lc_sys l) \<Longrightarrow> gc_wf (lc_sys (reposo_cargador i l))" for i l
    using gc_wf_upd by (auto simp: reposo_cargador_def Let_def upd_charger_def ch_ok_def)
  have "gc_wf (lc_sys l) \<Longrightarrow> gc_wf (lc_sys (fold reposo_cargador is l))" for "is" l
    by (induction "is" arbitrary: l) (simp_all add: step)
  then show "gc_wf (lc_sys l) \<Longrightarrow> gc_wf (lc_sys (paso_reposo ahora l))" by (simp add: paso_reposo_def)
qed

lemma asignado_ok: "ch_ok c \<Longrightarrow> ch_ok (asignado s c)"
  using asignar_valor_le(1) by (simp add: asignado_def ch_ok_def Let_def)

lemma calculo_wf:
  assumes "gc_wf (lc_sys l)"
  shows "\<exists>l'. paso_calculo l = Some l' \<and> gc_wf (lc_sys l')"
proof -
  obtain l' s where h: "paso_calculo l = Some l'" "calculo_post (lc_sys l) s"
    "lc_sys l' = s \<or> length (gc_table (lc_sys l')) = 40 \<and>
       (\<forall>j < gc_Charger_number s. gc_table (lc_sys l') ! j = asignado s (gc_table s ! j)) \<and>
       gc_Charger_number (lc_sys l') = gc_Charger_number s \<and> gc_Circuitos (lc_sys l') = gc_Circuitos s \<and>
       gc_Circuit_number (lc_sys l') = gc_Circuit_number s"
    using paso_calculo_spec [OF assms] by blast
  have "gc_wf s" using h(2) by (simp add: calculo_post_def)
  then have "gc_wf (lc_sys l')" using h(3) asignado_ok by (auto simp: gc_wf_ok)
  with h(1) show ?thesis by blast
qed

lemma cabe_some:
  assumes "gc_wf s" "i < gc_Charger_number s"
  shows "\<exists>b. cabe s (gc_table s ! i) = Some b"
proof -
  let ?c = "gc_table s ! i"
  have w: "1 \<le> ch_Circuito ?c" "ch_Circuito ?c \<le> 40" "1 \<le> ch_Fase ?c" "ch_Fase ?c \<le> 3" "length (gc_Circuitos s) = 40"
    using assms by (auto simp: gc_wf_def forma_def)
  moreover have "gc_Circuitos s ! (ch_Circuito ?c - 1) \<in> set (gc_Circuitos s)" using w by simp
  then have "length (ci_Fases (gc_Circuitos s ! (ch_Circuito ?c - 1))) = 3"
    using assms(1) by (auto simp: gc_wf_def forma_def)
  ultimately show ?thesis by (auto simp: cabe_def Let_def)
qed

lemma admitir_wf:
  "gc_wf s \<Longrightarrow> \<forall>i \<in> set is. i < gc_Charger_number s \<Longrightarrow> \<exists>b s'. admitir is s = Some (b, s') \<and> gc_wf s'"
proof (induction "is" arbitrary: s)
  case (Cons i "is")
  have up: "gc_wf (upd_charger i f s')" if "gc_wf s'" "\<And>c. ch_ok c \<Longrightarrow> ch_ok (f c)" for f s'
    using gc_wf_upd [OF that(1)] that(2) by (simp add: upd_charger_def)
  obtain b where b: "cabe s (gc_table s ! i) = Some b" using cabe_some [of s i] Cons.prems by auto
  have z: "gc_wf (upd_charger i (\<lambda>c. c\<lparr>ch_Consigna := 0\<rparr>) s)" using Cons.prems by (intro up) (simp_all add: ch_ok_def)
  have "\<exists>b' s'. admitir is (upd_charger i (\<lambda>c. c\<lparr>ch_Consigna := 0\<rparr>) s) = Some (b', s') \<and> gc_wf s'"
      "\<exists>b' s'. admitir is s = Some (b', s') \<and> gc_wf s'"
    using Cons.IH [OF z] Cons.IH [OF Cons.prems(1)] Cons.prems(2) by (simp_all add: upd_charger_def)
  moreover have "gc_wf (upd_charger i (\<lambda>c. c\<lparr>ch_order := x\<rparr>) (upd_charger i set_C2 s))" for x
    using Cons.prems by (intro up) simp_all
  ultimately show ?case using b by (cases b) (auto simp: Let_def)
qed auto

lemma delta_wf: "gc_wf s \<Longrightarrow> gc_wf (snd (fold (delta_cargador t) is (b, s)))"
proof (induction "is" arbitrary: b s)
  case (Cons i "is")
  obtain b' s' where d: "delta_cargador t i (b, s) = (b', s')" by force
  have "gc_wf s'"
    using d Cons.prems gc_wf_upd by (auto simp: delta_cargador_def Let_def upd_charger_def split: if_splits)
  with Cons.IH d show ?case by simp
qed simp

lemma equilibrado_wf:
  assumes "gc_wf (lc_sys l)"
  shows "\<exists>l'. paso_equilibrado ahora l = Some l' \<and> gc_wf (lc_sys l')"
proof -
  obtain r s where s: "Calculo_General (lc_sys l) = Some (r, s)" "gc_wf s"
    using Calculo_General_spec [OF assms] by (auto simp: calculo_post_def)
  obtain b s1 where a: "admitir [0..<gc_Charger_number s] s = Some (b, s1)" "gc_wf s1"
    using admitir_wf [OF s(2), of "[0..<gc_Charger_number s]"] by auto
  have "gc_wf (snd (if 1 < gc_conex s1 then fold (delta_cargador t) [0..<gc_Charger_number s1] (False, s1) else (False, s1)))" for t
    using a(2) delta_wf by simp
  then show ?thesis
    using s a by (simp add: paso_equilibrado_def Let_def split_beta)
qed

lemma paso_wf:
  assumes "gc_wf (lc_sys l)"
  shows "\<exists>l'. LimiteConsumo_paso ahora l = Some l' \<and> gc_wf (lc_sys l')"
  using reposo_wf [OF assms] calculo_wf [OF assms] equilibrado_wf [OF assms]
  by (cases "lc_estado l") (simp_all add: LimiteConsumo_paso_def)

lemma New_Data_wf:
  assumes "gc_wf s" "New_Data name0 HPT0 j s = Some (c, s')"
  shows "gc_wf s'"
  using assms gc_wf_upd [OF assms(1)]
  by (auto simp: New_Data_def Let_def bind_eq_Some_conv split: if_splits)

lemma set_limites_wf:
  assumes "gc_wf s" "set_limites n b s = Some s'"
  shows "gc_wf s'"
proof -
  let ?k = "map2 (\<lambda>k l. k\<lparr>ci_limite_corriente := l\<rparr>) (take n (gc_Circuitos s)) (tl b)"
  have n: "n \<le> length (gc_Circuitos s)" "n < length b"
    and s': "s' = s\<lparr>gc_Circuit_number := n, gc_Circuitos := ?k @ drop n (gc_Circuitos s)\<rparr>"
    using assms(2) by (simp_all add: set_limites_def split: if_splits)
  have F: "length (gc_Circuitos s) = 40" "\<And>k. k \<in> set (gc_Circuitos s) \<Longrightarrow> length (ci_Fases k) = 3"
    using assms(1) by (auto simp: gc_wf_def forma_def)
  have "length (ci_Fases k) = 3" if kk: "k \<in> set ?k" for k
  proof -
    obtain k0 l where "k = k0\<lparr>ci_limite_corriente := l\<rparr>" "(k0, l) \<in> set (zip (take n (gc_Circuitos s)) (tl b))"
      using kk by auto
    then show ?thesis using F(2) by (auto dest!: set_zip_leftD in_set_takeD)
  qed
  then have "forma (gc_Circuitos s')"
    using F n by (auto simp: forma_def s' dest: in_set_dropD)
  then show ?thesis using assms(1) n F by (simp add: gc_wf_ok s')
qed

text \<open>
  The runs of the balancing task: turns of the task at any time, interleaved with the data that the
  chargers report and with new circuit limits for the group.
\<close>

inductive balance_step :: "limite \<Rightarrow> limite \<Rightarrow> bool" where
  turno: "LimiteConsumo_paso ahora l = Some l' \<Longrightarrow> balance_step l l'"
| datos: "New_Data name0 HPT0 j (lc_sys l) = Some (c, s') \<Longrightarrow> balance_step l (l\<lparr>lc_sys := s'\<rparr>)"
| circuitos: "set_limites n b (lc_sys l) = Some s' \<Longrightarrow> balance_step l (l\<lparr>lc_sys := s'\<rparr>)"

inductive_cases balance_stepE: "balance_step l l'"

lemma balance_steps_wf: "balance_step\<^sup>*\<^sup>* l l' \<Longrightarrow> gc_wf (lc_sys l) \<Longrightarrow> gc_wf (lc_sys l')"
proof (induction rule: rtranclp_induct)
  case (step l1 l2)
  have wf: "gc_wf (lc_sys l1)" using step by simp
  show ?case using step(2)
  proof (cases rule: balance_step.cases)
    case (turno ahora)
    then show ?thesis using paso_wf [OF wf, of ahora] by auto
  qed (use New_Data_wf [OF wf] set_limites_wf [OF wf] in auto)
qed simp

text \<open>C21: Whatever the chargers report, whatever limits the circuits get and whenever the task runs: from
  a well-formed state the balancing task is never stuck (it never leaves an array and the eviction
  loop ends) and the state stays well-formed; in particular no charger of the group is ever given more
  than 32 A.\<close>

theorem balancing_never_stuck:
  assumes "balance_step\<^sup>*\<^sup>* l l'" "gc_wf (lc_sys l)"
  shows "(\<exists>l''. LimiteConsumo_paso ahora l' = Some l'' \<and> gc_wf (lc_sys l'')) \<and>
    (\<forall>j < gc_Charger_number (lc_sys l'). ch_Consigna (gc_table (lc_sys l') ! j) \<le> 32)"
proof -
  have "gc_wf (lc_sys l')" by (rule balance_steps_wf [OF assms])
  then show ?thesis using paso_wf by (auto simp: gc_wf_ok ch_ok_def)
qed

section \<open>Two chargers and 11 A\<close>

text \<open>Two chargers that charge on different phases of a circuit of 32 A, in a group that may draw 11 A.\<close>

definition demo_cargador :: "string \<Rightarrow> nat \<Rightarrow> nat \<Rightarrow> carac_charger" where
  "demo_cargador name fase orden = (cargador_nuevo (name @ [CHR 0x00]) (''C2'' @ [CHR 0x00]))
     \<lparr>ch_Fase := fase, ch_order := orden, ch_Consigna := 5, ch_Conected := True\<rparr>"

definition demo_grupo :: group_control where
  "demo_grupo = demo_gc\<lparr>gc_potencia_max := 27, gc_Charger_number := 2,
     gc_table := demo_cargador ''31380001'' 1 1 # demo_cargador ''31380002'' 2 2 # replicate 38 (cargador_nuevo [] [])\<rparr>"

definition demo_limite :: limite where
  "demo_limite = \<lparr>lc_sys = demo_grupo, lc_estado = CALCULO, lc_LastConex = 2, lc_Start_Timer = 0, lc_Delta_Timer = 0\<rparr>"

lemma upt_0_2: "[0..<2] = [0, 1 :: nat]" by (simp add: upt_rec)
lemma replicate_40: "replicate 40 x = x # replicate 39 x" by (simp add: numeral_eq_Suc)
lemma replicate_3: "replicate 3 x = [x, x, x]" by (simp add: numeral_eq_Suc)

lemmas demo_defs = demo_limite_def demo_grupo_def demo_cargador_def demo_gc_def cargador_nuevo_def

lemmas eval_defs = paso_calculo_def Calculo_General_def reset_circuitos_def replicate_40 replicate_3 upt_0_2 reset_circuito_def reset_fase_def
  contar_cargador_def Let_def en_grupo_def hpt_def memeq_def es_trifasico_def fase_suma_def contar_trifasico_def otras_fases_def
  calculo_limites_def circuitos_disponible_def circuito_disponible_def fase_disponible_def limite_grupo_def
  ContadorConfigurado_def cdiv_def expulsar.simps expulsar_paso_def ultimo_def cargando_def expulsado_def set_B1_def
  contar_recalculo_def asignar_def fase_de_def asignar_valor_def upd_charger_def carga_activa_def

lemma demo_grupo_wf: "gc_wf (lc_sys demo_limite)" "marcas_ini (lc_sys demo_limite)"
  by (auto simp: gc_wf_def forma_def marcas_ini_def demo_defs nth_Cons less_2_cases_iff)

theorem calculo_respects_group_limit_witness:
  "\<exists>l'. paso_calculo demo_limite = Some l' \<and> lc_estado l' = EQUILIBRADO \<and>
     int (suma_grupo (lc_sys l')) \<le> gc_disponible_limitada (lc_sys l')"
proof -
  have "\<exists>l'. paso_calculo demo_limite = Some l' \<and> lc_estado l' = EQUILIBRADO"
    by (simp add: demo_defs eval_defs)
  then show ?thesis using calculo_respects_group_limit [OF demo_grupo_wf] by auto
qed

theorem calculo_respects_phase_limit_witness:
  "\<exists>l'. paso_calculo demo_limite = Some l' \<and> suma_fase (lc_sys l') 0 1 \<le> 32"
proof -
  obtain l' where "paso_calculo demo_limite = Some l'" "lc_estado l' = EQUILIBRADO"
    by (simp add: demo_defs eval_defs)
  then show ?thesis
    using calculo_respects_phase_limit [OF demo_grupo_wf(1), of l' 0 1] by (simp add: demo_defs replicate_40)
qed

theorem balancing_never_stuck_witness:
  "\<exists>l' l''. paso_calculo demo_limite = Some l' \<and> LimiteConsumo_paso 500 l' = Some l'' \<and> gc_wf (lc_sys l'')"
proof -
  obtain l' where l': "paso_calculo demo_limite = Some l'" by (simp add: demo_defs eval_defs)
  then have "LimiteConsumo_paso 0 demo_limite = Some l'" by (simp add: LimiteConsumo_paso_def demo_limite_def)
  then have "balance_step\<^sup>*\<^sup>* demo_limite l'" by (intro r_into_rtranclp balance_step.turno)
  then show ?thesis using balancing_never_stuck [OF _ demo_grupo_wf(1), where ahora = 500] l' by blast
qed


text \<open>
  A three-phase charger on the phases 1, 2 and 3 and another charger on phase 2 of a circuit of 32 A,
  with enough power for the group.
\<close>

definition demo_tri :: limite where
  "demo_tri = demo_limite\<lparr>lc_sys := demo_grupo\<lparr>gc_potencia_max := 300, gc_table :=
     (demo_cargador ''31380001'' 1 1)\<lparr>ch_Current := 500, ch_CurrentB := 500, ch_CurrentC := 500\<rparr>
     # demo_cargador ''31380002'' 2 2 # replicate 38 (cargador_nuevo [] [])\<rparr>\<rparr>"

text \<open>The current on a phase with the three-phase chargers of the circuit, which draw it on every phase.\<close>

definition corriente_fase :: "group_control \<Rightarrow> nat \<Rightarrow> nat \<Rightarrow> nat" where
  "corriente_fase s k f = sum_list (map (\<lambda>c. if carga_activa c \<and> ch_Circuito c = k + 1 \<and> (ch_Fase c = f + 1 \<or> es_trifasico c)
     then ch_Consigna c else 0) (take (gc_Charger_number s) (gc_table s)))"

text \<open>The limit of a circuit holds for the main phases only: a three-phase charger is given the share of
  its main phase, whatever the other phases leave. Here its 32 A and the 16 A of the other charger make
  48 A on phase 2 of a circuit of 32 A, from a well-formed state.\<close>

lemma three_phase_charger_overloads_circuit:
  "\<exists>l'. gc_wf (lc_sys demo_tri) \<and> marcas_ini (lc_sys demo_tri) \<and> paso_calculo demo_tri = Some l' \<and>
     lc_estado l' = EQUILIBRADO \<and> corriente_fase (lc_sys l') 0 1 = 48 \<and>
     ci_limite_corriente (gc_Circuitos (lc_sys l') ! 0) = 32"
proof -
  have "gc_wf (lc_sys demo_tri)" "marcas_ini (lc_sys demo_tri)"
    by (auto simp: gc_wf_def forma_def marcas_ini_def demo_tri_def demo_defs nth_Cons less_2_cases_iff)
  moreover have "\<exists>l'. paso_calculo demo_tri = Some l' \<and>
     lc_estado l' = EQUILIBRADO \<and> corriente_fase (lc_sys l') 0 1 = 48 \<and>
     ci_limite_corriente (gc_Circuitos (lc_sys l') ! 0) = 32"
    by (simp add: demo_tri_def demo_defs eval_defs corriente_fase_def)
  ultimately show ?thesis by blast
qed

end
