(* ===== verification/Group_Orders.thy ===== *)
theory Group_Orders
  imports Group_Table
begin

text \<open>
  The message with the chargers of a group: how the master writes it (\<^verbatim>\<open>Send_Chargers\<close> of
  \<^verbatim>\<open>coms/COAP_Nativo.cpp\<close>) and what a charger does with it (\<^verbatim>\<open>New_Group\<close> of
  \<^verbatim>\<open>group_control.cpp\<close>). An access outside the message or a table is \<open>None\<close>.
\<close>

section \<open>Writing the message\<close>

definition value_digits :: "nat \<Rightarrow> string" where
  "value_digits v =
     (if v < 10 then [digit 0, digit 0, digit v]
      else if v < 100 then [digit 0, digit (v div 10), digit (v mod 10)]
      else [digit (v div 100), digit (v div 10 mod 10), digit (v mod 10)])"

definition message_entry :: "carac_charger \<Rightarrow> string" where
  "message_entry c = take 8 (ch_name c) @ value_digits (c8 (4 * ch_Circuito c + ch_Fase c))"

text \<open>The message is sent as a C string: a zero in a name would end it.\<close>

definition Send_Chargers :: "group_sys \<Rightarrow> string option" where
  "Send_Chargers s =
     (let n = gs_number s;
          buffer = take 2 (size_digits n) @ concat (map message_entry (take n (gs_table s)))
      in if 500 < length buffer + 1 then None else Some (takeWhile (\<lambda>c. c \<noteq> CHR 0x00) buffer))"

section \<open>Receiving it\<close>

text \<open>
  \<open>after\<close> and \<open>afterv\<close> are what follows the arrays of two and three digits in memory, which have no
  terminator. As when the group is loaded from flash, an entry is added to the table and then position \<open>i\<close> of the table gets
  its phase, its circuit and the data kept from the old table.
\<close>

definition new_group_entry :: "string \<Rightarrow> (string \<Rightarrow> nat) \<Rightarrow> string \<Rightarrow> group \<Rightarrow> string \<Rightarrow> nat \<Rightarrow> group \<Rightarrow> group" where
  "new_group_entry dev ip afterv temp Data i gn =
     (let ID = take 8 (drop (2 + i * 11) Data);
          (_, (g1, n1)) = add_to_group ID (ip ID) gn;
          value = c8 (atoi (take 3 (drop (10 + i * 11) Data) @ afterv));
          g2 = g1[i := (g1 ! i)\<lparr>ch_Fase := value mod 4, ch_Circuito := value div 4\<rparr>];
          index = check_in_group ID (fst temp) (snd temp);
          g3 = (if index \<noteq> 255 then g2[i := restore_from (fst temp ! index) (g2 ! i)] else g2);
          g4 = (if memeq ID dev 8 then g3[i := (g3 ! i)\<lparr>ch_Conected := True\<rparr>] else g3)
      in (g4, n1))"

fun new_group_loop :: "string \<Rightarrow> (string \<Rightarrow> nat) \<Rightarrow> string \<Rightarrow> group \<Rightarrow> string \<Rightarrow> nat \<Rightarrow> nat \<Rightarrow> group \<Rightarrow> group" where
  "new_group_loop dev ip afterv temp Data i 0 gn = gn"
| "new_group_loop dev ip afterv temp Data i (Suc k) gn =
     new_group_loop dev ip afterv temp Data (i + 1) k (new_group_entry dev ip afterv temp Data i gn)"

definition New_Group :: "string \<Rightarrow> (string \<Rightarrow> nat) \<Rightarrow> string \<Rightarrow> string \<Rightarrow> string \<Rightarrow> group_sys \<Rightarrow> group_sys option" where
  "New_Group dev ip after afterv Data s =
     (if Data = [] then Some s
      else if length Data < 2 then None
      else let numero_de_cargadores = c8 (atoi (take 2 Data @ after));
               temp = (take (gs_number s) (gs_table s), gs_number s)
           in if MAX_GROUP_SIZE < numero_de_cargadores \<or> length Data < 2 + numero_de_cargadores * 11 then None
              else let (g, n) = new_group_loop dev ip afterv temp Data 0 numero_de_cargadores (gs_table s, 0)
                   in store_group_in_mem dev (s\<lparr>gs_NewData := True, gs_table := g, gs_number := n\<rparr>))"

section \<open>The message and the flash image carry the same entries\<close>

text \<open>An entry of the message is an entry of the flash image when both have the same name and value.\<close>

lemma new_group_entry_load:
  assumes "take 8 (drop (2 + i * 11) Data) = take 8 (drop (2 + i * 9) buf)"
    and "c8 (atoi (take 3 (drop (10 + i * 11) Data) @ afterv)) = of_char (buf ! (10 + i * 9))"
  shows "new_group_entry dev ip afterv temp Data i gn = load_entry dev ip temp buf i gn"
  unfolding new_group_entry_def load_entry_def Let_def assms by simp

lemma new_group_loop_load:
  assumes "\<forall>j. i \<le> j \<and> j < i + k \<longrightarrow> take 8 (drop (2 + j * 11) Data) = take 8 (drop (2 + j * 9) buf) \<and>
      c8 (atoi (take 3 (drop (10 + j * 11) Data) @ afterv)) = of_char (buf ! (10 + j * 9))"
  shows "new_group_loop dev ip afterv temp Data i k gn = load_loop dev ip temp buf i k gn"
  using assms
proof (induction k arbitrary: i gn)
  case (Suc k)
  have "new_group_entry dev ip afterv temp Data i gn = load_entry dev ip temp buf i gn"
    using Suc.prems by (intro new_group_entry_load) auto
  then show ?case using Suc.IH [of "i + 1"] Suc.prems by simp
qed simp

lemma atoi_value_digits:
  assumes "v < 1000" "after = [] \<or> \<not> is_digit (hd after)"
  shows "atoi (value_digits v @ after) = v"
proof -
  have dd: "is_digit (digit d)" "(of_char (digit d) :: nat) = 48 + d" if "d < 10" for d
    using that by (simp_all add: is_digit_def of_char_digit)
  have tw: "takeWhile is_digit after = []" using assms(2) by (cases after) auto
  define a b c where "a = v div 100" and "b = v div 10 mod 10" and "c = v mod 10"
  have "a = v div 10 div 10" by (simp add: a_def div_mult2_eq [symmetric])
  then have q: "10 * a + b = v div 10" using div_mult_mod_eq [of "v div 10" 10] unfolding b_def by linarith
  have r: "10 * (v div 10) + c = v" using div_mult_mod_eq [of v 10] unfolding c_def by linarith
  have "b < 10" "c < 10" by (simp_all add: b_def c_def)
  then have abc: "a < 10" "b < 10" "c < 10" "100 * a + 10 * b + c = v" using assms(1) q r by linarith+
  have "value_digits v = [digit a, digit b, digit c]"
    using assms(1) unfolding value_digits_def a_def b_def c_def by auto
  then show ?thesis using abc dd [OF abc(1)] dd [OF abc(2)] dd [OF abc(3)] tw by (simp add: atoi_def)
qed

lemma length_message_entry: "length (ch_name c) = 9 \<Longrightarrow> length (message_entry c) = 11"
  by (simp add: message_entry_def value_digits_def)

lemma length_concat_blocks: "\<forall>x \<in> set xs. length x = m \<Longrightarrow> length (concat xs) = m * length xs"
  by (induction xs) auto

lemma concat_block:
  "\<forall>x \<in> set xs. length x = m \<Longrightarrow> i < length xs \<Longrightarrow> take m (drop (m * i) (concat xs @ r)) = xs ! i"
proof (induction xs arbitrary: i)
  case (Cons x xs)
  then show ?case by (cases i) (auto simp: drop_append)
qed simp

section \<open>The message arrives\<close>

lemma store_group_keeps_table:
  "store_group_in_mem dev s = Some s1 \<Longrightarrow> gs_GroupMaster s = 0 \<Longrightarrow> gs_table s1 = gs_table s \<and> gs_number s1 = gs_number s"
  by (auto simp: store_group_in_mem_def Let_def bind_eq_Some_conv split: if_splits)

lemma value_digits_no_zero: "c \<in> set (value_digits v) \<Longrightarrow> v < 1000 \<Longrightarrow> c \<noteq> CHR 0x00"
proof -
  assume "c \<in> set (value_digits v)" "v < 1000"
  then obtain d where "c = digit d" "d < 10" by (auto simp: value_digits_def split: if_splits)
  then show ?thesis using of_char_digit [of d] by force
qed

lemma c8_less_1000: "c8 x < 1000"
  by (rule less_trans [of _ 256]) simp_all

lemma Send_Chargers_text:
  assumes "group_wf (gs_table s, gs_number s)" "\<forall>c \<in> set (live (gs_table s, gs_number s)). CHR 0x00 \<notin> set (key c)"
  shows "Send_Chargers s = Some (take 2 (size_digits (gs_number s)) @ concat (map message_entry (live (gs_table s, gs_number s))))"
proof -
  let ?cs = "live (gs_table s, gs_number s)"
  let ?b = "take 2 (size_digits (gs_number s)) @ concat (map message_entry ?cs)"
  note w = group_wfD [OF assms(1)]
  have n: "gs_number s \<le> 40" "length ?cs = gs_number s" using w(2,3) by (simp_all add: live_def)
  have "length (concat (map message_entry ?cs)) = 11 * length (map message_entry ?cs)"
    using w(6) by (intro length_concat_blocks) (auto simp: length_message_entry)
  then have len: "length ?b + 1 \<le> 500" using n by (simp add: size_digits_def)
  have "c \<noteq> CHR 0x00" if "c \<in> set (message_entry x)" "x \<in> set ?cs" for c x
    using that assms(2) value_digits_no_zero [of c, OF _ c8_less_1000] by (auto simp: message_entry_def key_def)
  moreover have "c \<noteq> CHR 0x00" if c: "c \<in> set (take 2 (size_digits (gs_number s)))" for c
  proof -
    obtain d where "c = digit d" "d < 10" using c n(1) by (auto simp: size_digits_def split: if_splits)
    then show ?thesis using of_char_digit [of d] by force
  qed
  ultimately have "\<forall>c \<in> set ?b. c \<noteq> CHR 0x00" by fastforce
  then have "takeWhile (\<lambda>c. c \<noteq> CHR 0x00) ?b = ?b" by (simp only: takeWhile_eq_all_conv)
  then show ?thesis using len by (simp add: Send_Chargers_def Let_def live_def)
qed

text \<open>The flash image with the same entries, and the entries of both.\<close>

lemma message_entries:
  assumes "\<forall>c \<in> set cs. storable c" "j < length cs" "length hd2 = 2" "afterv = [] \<or> \<not> is_digit (hd afterv)"
  defines "Data \<equiv> hd2 @ concat (map message_entry cs)" and "buf \<equiv> hd2 @ concat (map enc cs) @ [CHR 0x00]"
  shows "take 8 (drop (2 + j * 11) Data) = key (cs ! j) \<and> take 8 (drop (2 + j * 9) buf) = key (cs ! j) \<and>
    buf ! (10 + j * 9) = fase_circuito_char (cs ! j) \<and>
    c8 (atoi (take 3 (drop (10 + j * 11) Data) @ afterv)) = of_char (fase_circuito_char (cs ! j))"
proof -
  let ?c = "cs ! j"
  have st: "length (ch_name ?c) = 9" using assms(1,2) by (simp add: storable_def)
  have l: "\<forall>x \<in> set (map message_entry cs). length x = 11" "\<forall>x \<in> set (map enc cs). length x = 9"
    using assms(1) by (auto simp: storable_def length_message_entry)
  have d: "take 11 (drop (2 + j * 11) Data) = message_entry ?c" "take 9 (drop (2 + j * 9) buf) = enc ?c"
    using concat_block [OF l(1), of j "[]"] concat_block [OF l(2), of j "[CHR 0x00]"] assms(2,3)
    by (simp_all add: Data_def buf_def mult.commute)
  have k: "take 8 (drop (2 + j * 11) Data) = take 8 (take 11 (drop (2 + j * 11) Data))"
    "take 8 (drop (2 + j * 9) buf) = take 8 (take 9 (drop (2 + j * 9) buf))"
    "take 3 (drop (10 + j * 11) Data) = drop 8 (take 11 (drop (2 + j * 11) Data))"
    by (simp_all add: drop_take add.commute)
  have "length (take 9 (drop (2 + j * 9) buf)) = 9" using d(2) st by simp
  then have "buf ! (10 + j * 9) = take 9 (drop (2 + j * 9) buf) ! 8" by (simp add: add.commute)
  then have b: "buf ! (10 + j * 9) = fase_circuito_char ?c" using st unfolding d by (simp add: enc_def nth_append)
  define v where "v = c8 (4 * ch_Circuito ?c + ch_Fase ?c)"
  have "v < 1000" by (simp add: v_def c8_less_1000)
  then have "c8 (atoi (drop 8 (message_entry ?c) @ afterv)) = of_char (fase_circuito_char ?c)"
    using atoi_value_digits [OF _ assms(4), of v] st
    by (simp add: message_entry_def v_def [symmetric] fase_circuito_char_def)
  then show ?thesis using b st unfolding k d by (simp add: message_entry_def enc_def key_def)
qed

lemma new_group_loop_message:
  assumes "\<forall>c \<in> set cs. storable c" "distinct (map key cs)" "length cs \<le> 40" "length hd2 = 2" "length g = 40"
    and "afterv = [] \<or> \<not> is_digit (hd afterv)"
  shows "\<exists>g'. new_group_loop dev ip afterv temp (hd2 @ concat (map message_entry cs)) 0 (length cs) (g, 0) = (g', length cs) \<and>
    group_wf (g', length cs) \<and> map stored_view (live (g', length cs)) = map stored_view cs"
proof -
  let ?D = "hd2 @ concat (map message_entry cs)" and ?b = "hd2 @ concat (map enc cs) @ [CHR 0x00]"
  note e = message_entries [OF assms(1) _ assms(4,6)]
  have "new_group_loop dev ip afterv temp ?D 0 (length cs) (g, 0) = load_loop dev ip temp ?b 0 (length cs) (g, 0)"
    by (rule new_group_loop_load) (use e in auto)
  moreover have "group_wf (g, 0)" using assms(5) by (simp add: group_wf_def live_def keys_def group_consts)
  moreover have "live (g, 0) = []" "keys (g, 0) = []" by (simp_all add: live_def keys_def)
  ultimately show ?thesis using load_loop_spec [of g 0 cs ?b dev ip temp] assms(1-3) e by auto
qed

lemma New_Group_store:
  assumes "length Data = 2 + n * 11" "atoi (take 2 Data @ after) = n" "n \<le> 40"
    and "new_group_loop dev ip afterv (take (gs_number s) (gs_table s), gs_number s) Data 0 n (gs_table s, 0) = (g, m)"
  shows "New_Group dev ip after afterv Data s = store_group_in_mem dev (s\<lparr>gs_NewData := True, gs_table := g, gs_number := m\<rparr>)"
proof -
  have "Data \<noteq> []" using assms(1) by auto
  moreover have "c8 n = n" using assms(3) by simp
  ultimately show ?thesis using assms by (simp add: New_Group_def Let_def group_consts)
qed



end
