(* ===== verification/Discovery.thy ===== *)
theory Discovery
  imports Group_Table
begin

text \<open>
  The discovery of the chargers of a network and the choice of the master of a group
  (\<^verbatim>\<open>coms/Gestion_Grupo.cpp\<close>: the packet handler of \<^verbatim>\<open>start_udp\<close>,
  \<^verbatim>\<open>broadcast_a_grupo\<close>, \<^verbatim>\<open>send_to\<close>, \<^verbatim>\<open>close_udp\<close>; and the
  substitution cipher of \<^verbatim>\<open>coms/encriptado.cpp\<close>). What a handler sends is a list of outputs;
  a read past the end of a string is \<open>None\<close>.
\<close>

section \<open>The cipher\<close>

fun indexOf :: "string \<Rightarrow> char \<Rightarrow> nat option" where
  "indexOf [] c = None"
| "indexOf (a # as) c = (if a = c then Some 0 else map_option Suc (indexOf as c))"

definition Cipher :: "string \<Rightarrow> string \<Rightarrow> string \<Rightarrow> string" where
  "Cipher input oldAlphabet newAlphabet =
     map (\<lambda>c. case indexOf oldAlphabet c of Some i \<Rightarrow> newAlphabet ! i | None \<Rightarrow> c) input"

definition plainAlphabet :: string where
  "plainAlphabet = ''ABCDEFGHIJKLMNOPQRSTUVWXYZ1234567890abcdefghijklmnopqrstuvwxyz''"

definition cipherAlphabet :: string where
  "cipherAlphabet = ''y5aPZAjw067QklpgMLW4qOf3SbXm9IErcvK1DhNCxsFJdunViR2eotTUYGH8zB''"

definition Encipher :: "string \<Rightarrow> string" where
  "Encipher input = Cipher input plainAlphabet cipherAlphabet"

definition Decipher :: "string \<Rightarrow> string" where
  "Decipher input = Cipher input cipherAlphabet plainAlphabet"

section \<open>The state of a node and its outputs\<close>

record red =
  rd_Device_Id :: string
  rd_net :: group
  rd_table :: group
  rd_GroupMaster :: bool
  rd_GroupActive :: bool
  rd_Conected :: bool
  rd_StartClient :: bool
  rd_StopOrder :: bool
  rd_DeleteOrder :: bool
  rd_MasterIP :: nat
  rd_PARAR_CLIENTE :: bool

datatype salida =
    Enviar nat string
  | Difundir string
  | Responder string
  | Notificar "nat list"
  | Guardar_Params
  | Arrancar_Cliente

record paquete =
  pk_data :: string
  pk_IP :: nat
  pk_broadcast :: bool

definition IPADDR_NONE :: nat where "IPADDR_NONE = 4294967295"
definition IPADDR_ANY :: nat where "IPADDR_ANY = 0"

definition con_ip :: "nat \<Rightarrow> bool" where
  "con_ip ip \<longleftrightarrow> ip \<noteq> IPADDR_NONE \<and> ip \<noteq> IPADDR_ANY"

text \<open>The string that a character array holds, and the characters of a string with its terminator.\<close>

definition String_of :: "string \<Rightarrow> string" where
  "String_of buffer = takeWhile (\<lambda>c. c \<noteq> CHR 0x00) buffer"

abbreviation c_str :: "string \<Rightarrow> string" where "c_str s \<equiv> s @ [CHR 0x00]"

section \<open>Sending\<close>

text \<open>
  The inner loop of \<^verbatim>\<open>broadcast_a_grupo\<close>: \<open>j\<close> runs over the table of the group, but its test
  is on the name of the network entry \<open>i\<close> only.
\<close>

fun broadcast_inner :: "string \<Rightarrow> carac_charger \<Rightarrow> nat \<Rightarrow> nat \<Rightarrow> group \<Rightarrow> salida list \<times> group" where
  "broadcast_inner Mensaje e j 0 t = ([], t)"
| "broadcast_inner Mensaje e j (Suc k) t =
     (if check_in_group (ch_name e) (fst t) (snd t) \<noteq> 255
      then (if con_ip (ch_IP e) then [Enviar (ch_IP e) Mensaje] else [],
            ((fst t)[j := (fst t ! j)\<lparr>ch_IP := ch_IP e\<rparr>], snd t))
      else broadcast_inner Mensaje e (j + 1) k t)"

fun broadcast_outer :: "string \<Rightarrow> carac_charger list \<Rightarrow> group \<Rightarrow> salida list \<times> group" where
  "broadcast_outer Mensaje [] t = ([], t)"
| "broadcast_outer Mensaje (e # es) t =
     (let (out1, t1) = broadcast_inner Mensaje e 0 (snd t) t;
          (out2, t2) = broadcast_outer Mensaje es t1
      in (out1 @ out2, t2))"

definition broadcast_a_grupo :: "string \<Rightarrow> red \<Rightarrow> salida list \<times> red" where
  "broadcast_a_grupo Mensaje d =
     (let (out, t) = broadcast_outer (Encipher Mensaje) (take (snd (rd_net d)) (fst (rd_net d))) (rd_table d)
      in (out, d\<lparr>rd_table := t\<rparr>))"

text \<open>\<open>send_to\<close> sends 13 bytes into a message of the length of the text.\<close>

definition send_to :: "nat \<Rightarrow> string \<Rightarrow> salida list" where
  "send_to ip Mensaje =
     (if con_ip ip then [Enviar ip (take (min 13 (length Mensaje)) (c_str (Encipher Mensaje)))] else [])"

section \<open>Receiving\<close>

text \<open>The list of the network devices for the Bluetooth client.\<close>

definition net_devices :: "string \<Rightarrow> group \<Rightarrow> nat list" where
  "net_devices dev g =
     (snd g + 1) mod 256 # map of_char (take 8 dev) @ [0]
       @ concat (map (\<lambda>c. map of_char (take 8 (ch_name c)) @ [0]) (take (snd g) (fst g)))"

text \<open>\<open>coap_start_client\<close> gives up the role of the master and starts the client task.\<close>

definition coap_start_client :: "red \<Rightarrow> salida list \<times> red" where
  "coap_start_client d =
     ((if rd_GroupMaster d then [Guardar_Params] else []) @ [Arrancar_Cliente], d\<lparr>rd_GroupMaster := False\<rparr>)"

text \<open>A packet of at most eight bytes announces a device.\<close>

definition packet_announce :: "paquete \<Rightarrow> string \<Rightarrow> red \<Rightarrow> (salida list \<times> red) option" where
  "packet_announce p Desencriptado d =
     (let dev = String_of (rd_Device_Id d); ID = c_str Desencriptado;
          out1 = (if pk_broadcast p then [Responder (Encipher dev)] else [])
      in if length ID < 8 then None
         else
           let net1 = (if check_in_group ID (fst (rd_net d)) (snd (rd_net d)) \<noteq> 255
                       then snd (remove_from_group ID (rd_net d)) else rd_net d)
           in if pk_IP p = 0 then Some (out1 @ [Difundir (take 8 (Encipher dev))], d\<lparr>rd_net := net1\<rparr>)
              else
                let net2 = snd (add_to_group ID (pk_IP p) net1);
                    d1 = d\<lparr>rd_net := net2\<rparr>;
                    out2 = out1 @ [Notificar (net_devices (rd_Device_Id d) net2)]
                in if rd_GroupMaster d \<and> rd_Conected d
                      \<and> check_in_group ID (fst (rd_table d)) (snd net2) \<noteq> 255
                   then let (out3, d2) = broadcast_a_grupo ''Start client'' d1
                        in Some (out2 @ out3 @ [Enviar (pk_IP p) (take 13 (c_str (Encipher ''Start client'')))], d2)
                   else Some (out2, d1))"

text \<open>A longer packet is an order or a question.\<close>

definition packet_order :: "paquete \<Rightarrow> string \<Rightarrow> red \<Rightarrow> salida list \<times> red" where
  "packet_order p Desencriptado d =
     (let es = (\<lambda>texto n. memeq (c_str Desencriptado) texto n)
      in if es ''Start client'' 12 then
           if \<not> rd_Conected d \<and> \<not> rd_StartClient d
           then ([], d\<lparr>rd_StartClient := True, rd_GroupMaster := False, rd_GroupActive := True, rd_MasterIP := pk_IP p\<rparr>)
           else if rd_Conected d then
             if rd_PARAR_CLIENTE d
             then let (out, d1) = coap_start_client d in (out, d1\<lparr>rd_PARAR_CLIENTE := False\<rparr>)
             else ([], d\<lparr>rd_PARAR_CLIENTE := True\<rparr>)
           else ([], d)
         else if es ''Master here?'' 12 then
           (if rd_Conected d \<and> rd_GroupMaster d then [Responder (Encipher ''Yes, Master here'')] else [], d)
         else if es ''Yes, Master here'' 16 then
           if rd_Conected d \<and> rd_GroupMaster d
           then ([], d\<lparr>rd_StartClient := True, rd_GroupMaster := False, rd_GroupActive := True, rd_MasterIP := pk_IP p\<rparr>)
           else ([], d)
         else if es ''Delete group'' 12 then
           ([], if rd_Conected d then d\<lparr>rd_DeleteOrder := True\<rparr> else d)
         else if es ''Pause group'' 11 then
           ([], if rd_Conected d then d\<lparr>rd_StopOrder := True\<rparr> else d)
         else ([], d))"

definition onPacket :: "paquete \<Rightarrow> red \<Rightarrow> (salida list \<times> red) option" where
  "onPacket p d =
     (let Desencriptado = Decipher (String_of (pk_data p))
      in if length (pk_data p) \<le> 8 then packet_announce p Desencriptado d
         else Some (packet_order p Desencriptado d))"

text \<open>
  Closing the connection: \<^verbatim>\<open>remove_group\<close> ignores its first argument and clears entries of
  \<^verbatim>\<open>charger_table\<close>, as many as the size it is given.
\<close>

definition close_udp :: "red \<Rightarrow> red" where
  "close_udp d =
     (let (t, _) = remove_group (fst (rd_table d), snd (rd_net d))
      in d\<lparr>rd_table := (t, snd (rd_table d)), rd_net := (fst (rd_net d), 0)\<rparr>)"

section \<open>The cipher is a bijection\<close>

lemma indexOf_nth:
  "distinct as \<Longrightarrow> i < length as \<Longrightarrow> indexOf as (as ! i) = Some i"
proof (induction as arbitrary: i)
  case (Cons a as)
  then show ?case by (cases i) auto
qed simp

lemma indexOf_Some: "indexOf as c = Some i \<Longrightarrow> i < length as \<and> as ! i = c"
  by (induction as arbitrary: i) (auto split: if_splits)

lemma indexOf_None: "indexOf as c = None \<longleftrightarrow> c \<notin> set as"
  by (induction as) auto

lemma Cipher_inverse:
  assumes "distinct a" "distinct b" "set b = set a" "length b = length a"
  shows "Cipher (Cipher s a b) b a = s"
proof -
  let ?f = "\<lambda>old new c. case indexOf old c of Some i \<Rightarrow> new ! i | None \<Rightarrow> c"
  have "?f b a (?f a b c) = c" for c
  proof (cases "indexOf a c")
    case None
    then have "indexOf b c = None" using assms(3) by (simp add: indexOf_None)
    with None show ?thesis by simp
  next
    case (Some i)
    then have i: "i < length a" "a ! i = c" using indexOf_Some by auto
    then have "indexOf b (b ! i) = Some i" using indexOf_nth [OF assms(2)] assms(4) by simp
    with Some i show ?thesis by simp
  qed
  then show ?thesis by (simp add: Cipher_def o_def)
qed

lemma alphabets:
  "distinct plainAlphabet" "distinct cipherAlphabet" "set cipherAlphabet = set plainAlphabet"
  "length cipherAlphabet = length plainAlphabet"
  by code_simp+

lemma Decipher_Encipher [simp]: "Decipher (Encipher s) = s" "Encipher (Decipher s) = s"
  unfolding Encipher_def Decipher_def using alphabets by (simp_all add: Cipher_inverse)

text \<open>The substitution that protects the packets is a bijection on all strings: deciphering an
  enciphered text gives the text back, and the other way round, so no two texts are confused.\<close>

lemma cipher_roundtrip: "Decipher (Encipher s) = s \<and> Encipher (Decipher s) = s"
  by simp

section \<open>The directory of the network\<close>

lemma memeq_key: "memeq ID (ch_name c) 8 \<longleftrightarrow> key c = take 8 ID"
  by (auto simp: memeq_def key_def)

lemma get_IP_append:
  "get_IP_loop ID (cs @ [c]) =
     (if \<exists>x \<in> set cs. key x = take 8 ID then get_IP_loop ID cs
      else if key c = take 8 ID then ch_IP c else INADDR_NONE)"
  by (induction cs) (auto simp: memeq_key)

lemma get_IP_filter:
  "take 8 ID \<noteq> k \<Longrightarrow> get_IP_loop ID (filter (\<lambda>c. key c \<noteq> k) cs) = get_IP_loop ID cs"
  by (induction cs) (auto simp: memeq_key)

lemma get_IP_absent: "take 8 ID \<notin> key ` set cs \<Longrightarrow> get_IP_loop ID cs = INADDR_NONE"
  by (induction cs) (auto simp: memeq_key)

lemma take_drop_filter:
  "distinct (map f xs) \<Longrightarrow> i < length xs \<Longrightarrow> take i xs @ drop (i + 1) xs = filter (\<lambda>x. f x \<noteq> f (xs ! i)) xs"
proof (induction xs arbitrary: i)
  case (Cons x xs)
  show ?case
  proof (cases i)
    case 0
    have "\<forall>y \<in> set xs. f y \<noteq> f x" using Cons.prems(1) by (metis distinct.simps(2) image_eqI list.simps(9) set_map)
    then have "filter (\<lambda>y. f y \<noteq> f x) xs = xs" by simp
    with 0 show ?thesis by simp
  next
    case (Suc j)
    with Cons show ?thesis by auto
  qed
qed simp

lemma remove_live:
  assumes wf: "group_wf gn"
  shows "live (snd (remove_from_group ID gn)) = filter (\<lambda>c. key c \<noteq> take 8 ID) (live gn)"
proof -
  obtain g n where gn: "gn = (g, n)" by force
  note w = group_wfD [OF wf [unfolded gn]]
  show ?thesis
  proof (cases "take 8 ID \<in> set (keys gn)")
    case False
    then have "remove_from_group ID gn = (False, gn)" using remove_absent w gn by simp
    moreover have "filter (\<lambda>c. key c \<noteq> take 8 ID) (live gn) = live gn"
      using False by (simp add: keys_def filter_id_conv) (metis image_eqI)
    ultimately show ?thesis by simp
  next
    case True
    then obtain i where i: "i < n" "take 8 ID = key (g ! i)" using w gn by (auto simp: key_in_keys)
    obtain g' where g': "remove_from_group ID (g, n) = (True, (g', n - 1))"
        "live (g', n - 1) = take i (live (g, n)) @ drop (i + 1) (live (g, n))"
      using remove_at [OF w(3,2,4) i] by blast
    have "take i (live (g, n)) @ drop (i + 1) (live (g, n)) = filter (\<lambda>c. key c \<noteq> key (live (g, n) ! i)) (live (g, n))"
      using w(3,4) i by (intro take_drop_filter) (simp_all add: keys_def live_def)
    with g' i w(3) gn show ?thesis by (simp add: live_nth)
  qed
qed

text \<open>The directory after a device has announced itself.\<close>

definition announced :: "string \<Rightarrow> nat \<Rightarrow> group \<Rightarrow> group" where
  "announced ID ip net = snd (add_to_group ID ip
     (if check_in_group ID (fst net) (snd net) \<noteq> 255 then snd (remove_from_group ID net) else net))"

lemma announced_spec:
  assumes wf: "group_wf net" and ID: "8 \<le> length ID"
  shows "group_wf (announced ID ip net)"
    "snd net < 40 \<or> take 8 ID \<in> set (keys net) \<Longrightarrow> get_IP (announced ID ip net) ID = ip"
    "take 8 ID' \<noteq> take 8 ID \<Longrightarrow> get_IP (announced ID ip net) ID' = get_IP net ID'"
proof -
  define r where "r = snd (remove_from_group ID net)"
  have n: "snd net \<le> length (fst net)" "snd net \<le> 40" using wf by (auto simp: group_wf_def group_consts)
  have rwf: "group_wf r" and rk: "keys r = remove1 (take 8 ID) (keys net)"
    using group_remove [OF wf ID] by (simp_all add: r_def)
  have rl: "live r = filter (\<lambda>c. key c \<noteq> take 8 ID) (live net)" using remove_live [OF wf] by (simp add: r_def)
  have "check_in_group ID (fst net) (snd net) = 255 \<Longrightarrow> r = net"
    using remove_absent [of "snd net" "fst net" ID] n check_in_group_absent [OF n, of ID] by (simp add: r_def)
  then have a: "announced ID ip net = snd (add_to_group ID ip r)" by (auto simp: announced_def r_def)
  show "group_wf (announced ID ip net)" using group_add [OF rwf ID] by (simp add: a)
  obtain g m where gm: "r = (g, m)" by force
  note w = group_wfD [OF rwf [unfolded gm]]
  have dk: "distinct (keys net)" using wf by (simp add: group_wf_def)
  have new: "take 8 ID \<notin> set (keys (g, m))" using rk dk gm by simp
  have lm: "length (keys r) = m" using w gm by (simp add: keys_def length_live)
  have ln: "length (keys net) = snd net" using n by (cases net) (simp add: keys_def length_live)
  show "get_IP (announced ID ip net) ID = ip" if "snd net < 40 \<or> take 8 ID \<in> set (keys net)"
  proof -
    have "m < 40" using that lm rk ln n by (auto simp: length_remove1 split: if_splits)
    from add_new [OF w(1) this new, of ip] obtain c where c: "add_to_group ID ip (g, m) = (True, (g[m := c], m + 1))"
      "live (g[m := c], m + 1) = live (g, m) @ [c]" "ch_name c = take 8 ID @ [CHR 0x00]" "ch_IP c = ip" by auto
    have "key c = take 8 ID" using c(3) ID by (simp add: key_def)
    moreover have "\<not> (\<exists>x \<in> set (live (g, m)). key x = take 8 ID)" using new by (simp add: keys_def) (metis image_eqI)
    ultimately have "get_IP_loop ID (live (g[m := c], m + 1)) = ip" using c(2,4) by (simp add: get_IP_append)
    then show ?thesis using c(1) by (simp add: a gm get_IP_def live_def)
  qed
  show "get_IP (announced ID ip net) ID' = get_IP net ID'" if ne: "take 8 ID' \<noteq> take 8 ID"
  proof -
    have r': "get_IP r ID' = get_IP net ID'" using get_IP_filter [OF ne] rl by (simp add: get_IP_def live_def)
    show ?thesis
    proof (cases "m < 40")
      case True
      from add_new [OF w(1) this new, of ip] obtain c where c: "add_to_group ID ip (g, m) = (True, (g[m := c], m + 1))"
        "live (g[m := c], m + 1) = live (g, m) @ [c]" "ch_name c = take 8 ID @ [CHR 0x00]" by auto
      have "key c \<noteq> take 8 ID'" using c(3) ID ne by (simp add: key_def)
      then have "get_IP_loop ID' (live (g, m) @ [c]) = get_IP_loop ID' (live (g, m))"
        using get_IP_absent [of ID' "live (g, m)"] by (simp add: get_IP_append image_iff) metis
      with c r' show ?thesis by (simp add: a gm get_IP_def live_def)
    next
      case False
      then have "add_to_group ID ip r = (False, r)" using add_unchanged [of m g ID ip] w gm by simp
      then show ?thesis using r' by (simp add: a)
    qed
  qed
qed

lemma packet_announce_net:
  assumes "8 \<le> length (c_str t)" "pk_IP p \<noteq> 0"
  shows "\<exists>out d'. packet_announce p t d = Some (out, d') \<and> rd_net d' = announced (c_str t) (pk_IP p) (rd_net d)"
  using assms
  by (auto simp: packet_announce_def Let_def announced_def broadcast_a_grupo_def split: prod.split)

text \<open>The directory of the network. A well formed packet of eight characters from a device with an
  address is handled whatever the state of the receiver; the directory stays free of duplicates and
  within 40 entries, the address found for the sender is the one it has just used, unless the directory
  was full and did not know it, and the address of every other device is unchanged.\<close>

lemma announce_updates_directory:
  assumes wf: "group_wf (rd_net d)" and pk: "length (pk_data p) = 8" "CHR 0x00 \<notin> set (pk_data p)" "pk_IP p \<noteq> 0"
  shows "\<exists>out d'. onPacket p d = Some (out, d') \<and> group_wf (rd_net d') \<and>
    (snd (rd_net d) < 40 \<or> Decipher (pk_data p) \<in> set (keys (rd_net d)) \<longrightarrow>
       get_IP (rd_net d') (Decipher (pk_data p)) = pk_IP p) \<and>
    (\<forall>ID'. take 8 ID' \<noteq> Decipher (pk_data p) \<longrightarrow> get_IP (rd_net d') ID' = get_IP (rd_net d) ID')"
proof -
  let ?t = "Decipher (pk_data p)" and ?n = "announced (c_str (Decipher (pk_data p))) (pk_IP p) (rd_net d)"
  have s: "String_of (pk_data p) = pk_data p" using pk(2) by (auto simp: String_of_def takeWhile_eq_all_conv)
  have l: "length ?t = 8" using pk(1) by (simp add: Decipher_def Cipher_def)
  obtain out d' where d': "packet_announce p ?t d = Some (out, d')" "rd_net d' = ?n"
    using packet_announce_net [of ?t p d] l pk(3) by auto
  note a = announced_spec [OF wf, where ID = "c_str ?t" and ip = "pk_IP p"]
  have "get_IP ?n ?t = get_IP ?n (c_str ?t)"
  proof -
    have "get_IP_loop ID cs = get_IP_loop ID' cs" if "take 8 ID = take 8 ID'" for ID ID' cs
      using that by (induction cs) (auto simp: memeq_key)
    then show ?thesis using l by (simp add: get_IP_def)
  qed
  moreover have "onPacket p d = Some (out, d')" using d'(1) s pk(1) by (simp add: onPacket_def)
  ultimately show ?thesis using a l d'(2) by simp
qed

section \<open>Sending to the group\<close>

definition miembro :: "group \<Rightarrow> carac_charger \<Rightarrow> bool" where
  "miembro t e \<longleftrightarrow> key e \<in> set (keys t)"

lemma broadcast_inner_spec:
  assumes "group_wf t"
  shows "broadcast_inner M e 0 (snd t) t =
    (if miembro t e then (if con_ip (ch_IP e) then [Enviar (ch_IP e) M] else [],
       ((fst t)[0 := (fst t ! 0)\<lparr>ch_IP := ch_IP e\<rparr>], snd t)) else ([], t))"
proof -
  have no: "broadcast_inner M e j k t = ([], t)" if "check_in_group (ch_name e) (fst t) (snd t) = 255" for j k
    using that by (induction k arbitrary: j) auto
  have "check_in_group (ch_name e) (fst t) (snd t) = 255 \<longleftrightarrow> \<not> miembro t e"
    using check_in_group_absent [of "snd t" "fst t" "ch_name e"] assms
    by (simp add: group_wf_def group_consts miembro_def key_def)
  moreover have "miembro t e \<Longrightarrow> \<exists>k. snd t = Suc k"
    by (cases "snd t") (auto simp: miembro_def keys_def live_def)
  ultimately show ?thesis using no by auto
qed

text \<open>Entries that differ in the address only are the same for the table.\<close>

lemma set_IP_wf:
  assumes "group_wf (g, n)"
  shows "group_wf (g[0 := (g ! 0)\<lparr>ch_IP := ip\<rparr>], n)" "keys (g[0 := (g ! 0)\<lparr>ch_IP := ip\<rparr>], n) = keys (g, n)"
proof -
  let ?g = "g[0 := (g ! 0)\<lparr>ch_IP := ip\<rparr>]"
  have nm: "ch_name (?g ! j) = ch_name (g ! j)" if "j < length g" for j
    using that by (cases j) auto
  show k: "keys (?g, n) = keys (g, n)"
    by (rule nth_equalityI) (simp_all add: keys_def live_def key_def nm)
  have "map ch_name (live (?g, n)) = map ch_name (live (g, n))"
    by (rule nth_equalityI) (simp_all add: live_def nm)
  then have "set (map ch_name (live (?g, n))) = set (map ch_name (live (g, n)))" by simp
  moreover have "\<forall>s \<in> set (map ch_name (live (g, n))). length s = 9" using assms by (simp add: group_wf_def)
  ultimately have "\<forall>s \<in> set (map ch_name (live (?g, n))). length s = 9" by (simp only:)
  then have "\<forall>c \<in> set (live (?g, n)). length (ch_name c) = 9" by simp
  then show "group_wf (?g, n)" using assms k by (simp add: group_wf_def)
qed

lemma broadcast_outer_spec:
  "group_wf (g, n) \<Longrightarrow> broadcast_outer M es (g, n) =
     (map (\<lambda>e. Enviar (ch_IP e) M) (filter (\<lambda>e. miembro (g, n) e \<and> con_ip (ch_IP e)) es),
      (if filter (miembro (g, n)) es = [] then g
       else g[0 := (g ! 0)\<lparr>ch_IP := ch_IP (last (filter (miembro (g, n)) es))\<rparr>], n))"
proof (induction es arbitrary: g)
  case (Cons e es)
  let ?g = "if miembro (g, n) e then g[0 := (g ! 0)\<lparr>ch_IP := ch_IP e\<rparr>] else g"
  have wf: "group_wf (?g, n)" "keys (?g, n) = keys (g, n)" using set_IP_wf Cons.prems by auto
  have m: "miembro (g[0 := (g ! 0)\<lparr>ch_IP := ip\<rparr>], n) = miembro (g, n)" for ip
    using set_IP_wf(2) [OF Cons.prems] by (auto simp: miembro_def fun_eq_iff)
  have i: "broadcast_inner M e 0 n (g, n) =
      (if miembro (g, n) e \<and> con_ip (ch_IP e) then [Enviar (ch_IP e) M] else [], (?g, n))"
    using broadcast_inner_spec [OF Cons.prems, of M e] by auto
  have l: "0 < length g" using Cons.prems by (auto simp: group_wf_def group_consts)
  show ?case
    using Cons.IH [OF wf(1)] l by (auto simp: i m)
qed auto

text \<open>A broadcast to the group sends the message once to every device of the network that is a member
  of the group and has an address, in the order of the directory, and to no one else. It does not
  record the addresses of the members: the only entry of the table it changes is the first one, which
  gets the address of the last member in the directory, whoever that is.\<close>

lemma broadcast_reaches_members:
  assumes wf: "group_wf (rd_table d)" and r: "broadcast_a_grupo M d = (out, d')"
  shows "out = map (\<lambda>e. Enviar (ch_IP e) (Encipher M)) (filter (\<lambda>e. miembro (rd_table d) e \<and> con_ip (ch_IP e)) (live (rd_net d))) \<and>
    (\<forall>j. 0 < j \<longrightarrow> fst (rd_table d') ! j = fst (rd_table d) ! j) \<and>
    (filter (miembro (rd_table d)) (live (rd_net d)) \<noteq> [] \<longrightarrow>
       ch_IP (fst (rd_table d') ! 0) = ch_IP (last (filter (miembro (rd_table d)) (live (rd_net d)))))"
proof -
  obtain g n where gn: "rd_table d = (g, n)" by force
  have l: "0 < length g" using wf gn by (auto simp: group_wf_def group_consts)
  show ?thesis
    using broadcast_outer_spec [of g n "Encipher M" "live (rd_net d)"] wf r gn l
    by (auto simp: broadcast_a_grupo_def live_def [symmetric])
qed

section \<open>Closing the connection\<close>

text \<open>Closing the discovery connection damages the charging group: with at least as many devices in the
  directory as chargers in the group, every charger of the group loses its name and its circuit while
  the number of chargers stays, so that this device is no longer found in its own group.\<close>

lemma close_udp_erases_group:
  assumes wf: "group_wf (rd_table d)" and n: "snd (rd_table d) \<le> snd (rd_net d)" "snd (rd_net d) \<le> 40"
    and dev: "rd_Device_Id d ! 0 \<noteq> CHR 0x00" "8 \<le> length (rd_Device_Id d)"
  shows "snd (rd_table (close_udp d)) = snd (rd_table d) \<and>
    (\<forall>c \<in> set (live (rd_table (close_udp d))). ch_name c = replicate 9 (CHR 0x00) \<and> ch_Circuito c = 0) \<and>
    check_in_group (rd_Device_Id d) (fst (rd_table (close_udp d))) (snd (rd_table (close_udp d))) = 255"
proof -
  obtain g m where gm: "rd_table d = (g, m)" by force
  let ?k = "snd (rd_net d)"
  let ?z = "\<lambda>c. c\<lparr>ch_IP := INADDR_NONE, ch_Fase := 1, ch_Circuito := 0, ch_name := replicate 9 (CHR 0x00)\<rparr>"
  have w: "length g = 40" using wf gm by (simp add: group_wf_def group_consts)
  obtain t where t: "rd_table (close_udp d) = (t, m)" "length t = 40"
      "\<forall>c \<in> set (take m t). ch_name c = replicate 9 (CHR 0x00) \<and> ch_Circuito c = 0"
  proof (cases "0 < ?k")
    case True
    let ?t = "map ?z (take ?k g) @ drop ?k g"
    have "rd_table (close_udp d) = (?t, m)" using True by (simp add: close_udp_def remove_group_def gm)
    moreover have "take m ?t = map ?z (take m g)" using n gm w by (simp add: take_map min_def)
    then have "\<forall>c \<in> set (take m ?t). ch_name c = replicate 9 (CHR 0x00) \<and> ch_Circuito c = 0" by auto
    moreover have "length ?t = 40" using w n by simp
    ultimately show thesis using that by blast
  next
    case False
    then have "m = 0" using n gm by simp
    with False have "rd_table (close_udp d) = (g, m)" by (simp add: close_udp_def remove_group_def gm)
    with \<open>m = 0\<close> w show thesis using that by auto
  qed
  have "take 8 (rd_Device_Id d) \<notin> set (keys (t, m))"
  proof
    assume "take 8 (rd_Device_Id d) \<in> set (keys (t, m))"
    then have "take 8 (rd_Device_Id d) = replicate 8 (CHR 0x00)" using t(3) by (auto simp: keys_def live_def key_def)
    then have "take 8 (rd_Device_Id d) ! 0 = CHR 0x00" by simp
    with dev show False by simp
  qed
  then have "check_in_group (rd_Device_Id d) t m = 255"
    using check_in_group_absent [of m t] t(2) n gm by simp
  with t gm show ?thesis by (simp add: live_def)
qed

section \<open>The choice of the master\<close>

definition pregunta :: "nat \<Rightarrow> paquete" where
  "pregunta ip = \<lparr>pk_data = Encipher ''Master here?'', pk_IP = ip, pk_broadcast = False\<rparr>"

definition respuesta :: "nat \<Rightarrow> string \<Rightarrow> paquete" where
  "respuesta ip texto = \<lparr>pk_data = texto, pk_IP = ip, pk_broadcast = False\<rparr>"

lemma orders_longer [simp]:
  "String_of (Encipher ''Master here?'') = Encipher ''Master here?''"
  "String_of (Encipher ''Yes, Master here'') = Encipher ''Yes, Master here''"
  "length (Encipher ''Master here?'') = 12" "length (Encipher ''Yes, Master here'') = 16"
  by code_simp+

lemma onPacket_pregunta:
  "onPacket (pregunta ip) d =
     Some (if rd_Conected d \<and> rd_GroupMaster d then [Responder (Encipher ''Yes, Master here'')] else [], d)"
  by (simp add: onPacket_def pregunta_def packet_order_def Let_def memeq_def)

lemma onPacket_respuesta:
  "onPacket (respuesta ip (Encipher ''Yes, Master here'')) d =
     Some ([], if rd_Conected d \<and> rd_GroupMaster d
       then d\<lparr>rd_StartClient := True, rd_GroupMaster := False, rd_GroupActive := True, rd_MasterIP := ip\<rparr> else d)"
  by (simp add: onPacket_def respuesta_def packet_order_def Let_def memeq_def)

text \<open>Two masters that ask each other at the same time. Each answers the question of the other, and on
  the answer each gives up its role: the group is left without a master, and each waits for the other
  one as its master, and neither answers a further question.\<close>

lemma two_masters_both_step_down:
  assumes "rd_Conected a" "rd_GroupMaster a" "rd_Conected b" "rd_GroupMaster b"
  shows "\<exists>ra rb a' b'. onPacket (pregunta ipb) a = Some ([Responder ra], a) \<and> onPacket (pregunta ipa) b = Some ([Responder rb], b) \<and>
      onPacket (respuesta ipb rb) a = Some ([], a') \<and> onPacket (respuesta ipa ra) b = Some ([], b') \<and>
      \<not> rd_GroupMaster a' \<and> \<not> rd_GroupMaster b' \<and> rd_MasterIP a' = ipb \<and> rd_MasterIP b' = ipa \<and>
      onPacket (pregunta ipb) a' = Some ([], a') \<and> onPacket (pregunta ipa) b' = Some ([], b')"
  using assms by (simp add: onPacket_pregunta onPacket_respuesta)

section \<open>A network of two chargers\<close>

definition demo_entry_net :: "string \<Rightarrow> nat \<Rightarrow> carac_charger" where
  "demo_entry_net name ip = \<lparr>ch_name = name @ [CHR 0x00], ch_IP = ip, ch_HPT = [], ch_Fase = 1, ch_Circuito = 1, ch_order = 0,
     ch_trifasico = 0, ch_Consigna = 0, ch_Current = 0, ch_CurrentB = 0, ch_CurrentC = 0, ch_Delta = 0,
     ch_Delta_timer = 0, ch_Period = 0, ch_Conected = False, ch_ChargeReq = False\<rparr>"

definition demo_red :: "red" where
  "demo_red = \<lparr>rd_Device_Id = ''31380001'' @ [CHR 0x00],
     rd_net = (demo_entry_net ''31380002'' 7 # replicate 39 (demo_entry_net [] 0), 1),
     rd_table = (demo_entry_net ''31380001'' 5 # replicate 39 (demo_entry_net [] 0), 1),
     rd_GroupMaster = True, rd_GroupActive = True, rd_Conected = True, rd_StartClient = False, rd_StopOrder = False,
     rd_DeleteOrder = False, rd_MasterIP = 0, rd_PARAR_CLIENTE = False\<rparr>"

lemma demo_red_wf: "group_wf (rd_net demo_red)" "group_wf (rd_table demo_red)"
  by (simp_all add: demo_red_def group_wf_def group_consts live_def keys_def demo_entry_net_def)

lemma announce_updates_directory_example:
  "\<exists>out d'. onPacket \<lparr>pk_data = Encipher ''31380002'', pk_IP = 9, pk_broadcast = False\<rparr> demo_red = Some (out, d') \<and>
     get_IP (rd_net d') ''31380002'' = 9"
proof -
  have "length (Encipher ''31380002'') = 8" "CHR 0x00 \<notin> set (Encipher ''31380002'')" by code_simp+
  then show ?thesis
    using announce_updates_directory [OF demo_red_wf(1), of "\<lparr>pk_data = Encipher ''31380002'', pk_IP = 9, pk_broadcast = False\<rparr>"]
    by (auto simp: demo_red_def)
qed

lemma broadcast_reaches_members_example:
  "fst (broadcast_a_grupo ''Start client'' (demo_red\<lparr>rd_table := rd_net demo_red\<rparr>)) = [Enviar 7 (Encipher ''Start client'')]"
proof -
  let ?d = "demo_red\<lparr>rd_table := rd_net demo_red\<rparr>"
  obtain out d' where r: "broadcast_a_grupo ''Start client'' ?d = (out, d')" by force
  have wf: "group_wf (rd_table ?d)" using demo_red_wf by simp
  show ?thesis
    using conjunct1 [OF broadcast_reaches_members [OF wf r]] r
    by (simp add: demo_red_def demo_entry_net_def live_def miembro_def keys_def con_ip_def IPADDR_NONE_def IPADDR_ANY_def)
qed

lemma close_udp_erases_group_example:
  "check_in_group (rd_Device_Id demo_red) (fst (rd_table demo_red)) (snd (rd_table demo_red)) = 0 \<and>
   check_in_group (rd_Device_Id demo_red) (fst (rd_table (close_udp demo_red))) (snd (rd_table (close_udp demo_red))) = 255"
proof -
  have "check_in_group (rd_Device_Id demo_red) (fst (rd_table demo_red)) (snd (rd_table demo_red)) = 0"
    by (simp add: demo_red_def check_in_group_def memeq_def demo_entry_net_def)
  moreover have "snd (rd_table demo_red) \<le> snd (rd_net demo_red)" "snd (rd_net demo_red) \<le> 40"
      "rd_Device_Id demo_red ! 0 \<noteq> CHR 0x00" "8 \<le> length (rd_Device_Id demo_red)"
    by (simp_all add: demo_red_def)
  ultimately show ?thesis using close_udp_erases_group [OF demo_red_wf(2)] by blast
qed

lemma two_masters_both_step_down_example:
  "\<exists>ra rb a' b'. onPacket (pregunta 2) demo_red = Some ([Responder ra], demo_red) \<and>
     onPacket (respuesta 2 rb) demo_red = Some ([], a') \<and> onPacket (respuesta 1 ra) demo_red = Some ([], b') \<and>
     \<not> rd_GroupMaster a' \<and> \<not> rd_GroupMaster b'"
proof -
  have "rd_Conected demo_red" "rd_GroupMaster demo_red" by (simp_all add: demo_red_def)
  then show ?thesis using two_masters_both_step_down [of demo_red demo_red 2 1] by blast
qed

end
