(* ===== verification/Psoc_State.thy ===== *)
theory Psoc_State
  imports Prelude
begin

text \<open>
  The state that the blocks of the PSoC work on (the globals of control.cpp and the structures of
  tipos.h, with the fields that the block handler and the control task use), the handles of the
  characteristics and block types, the effects of a handler, and the small helpers of helpers.cpp
  and helpers_coms.cpp: \<open>Update_Status_Coms\<close>, \<open>Convert_To_Epoch\<close>, \<open>ParseFirmwareVersion\<close>,
  \<open>convertSN\<close>, \<open>ContadorConfigurado\<close>, \<open>WaitForValue\<close>.
\<close>

section \<open>Handles and block types\<close>

definition STATUS_HPT_STATUS_CHAR_HANDLE :: u16 where "STATUS_HPT_STATUS_CHAR_HANDLE = 0x000E"
definition STATUS_ICP_STATUS_CHAR_HANDLE :: u16 where "STATUS_ICP_STATUS_CHAR_HANDLE = 0x0011"
definition STATUS_RCD_STATUS_CHAR_HANDLE :: u16 where "STATUS_RCD_STATUS_CHAR_HANDLE = 0x0015"
definition STATUS_CONN_LOCK_STATUS_CHAR_HANDLE :: u16 where "STATUS_CONN_LOCK_STATUS_CHAR_HANDLE = 0x0017"
definition MEASURES_MAX_CURRENT_CABLE_CHAR_HANDLE :: u16 where "MEASURES_MAX_CURRENT_CABLE_CHAR_HANDLE = 0x001A"
definition MEASURES_INSTALATION_CURRENT_LIMIT_CHAR_HANDLE :: u16 where "MEASURES_INSTALATION_CURRENT_LIMIT_CHAR_HANDLE = 0x001C"
definition MEASURES_CURRENT_COMMAND_CHAR_HANDLE :: u16 where "MEASURES_CURRENT_COMMAND_CHAR_HANDLE = 0x001E"
definition MEASURES_INST_CURRENT_CHAR_HANDLE :: u16 where "MEASURES_INST_CURRENT_CHAR_HANDLE = 0x0020"
definition MEASURES_INST_VOLTAGE_CHAR_HANDLE :: u16 where "MEASURES_INST_VOLTAGE_CHAR_HANDLE = 0x0023"
definition MEASURES_ACTIVE_POWER_CHAR_HANDLE :: u16 where "MEASURES_ACTIVE_POWER_CHAR_HANDLE = 0x0025"
definition MEASURES_ACTIVE_ENERGY_CHAR_HANDLE :: u16 where "MEASURES_ACTIVE_ENERGY_CHAR_HANDLE = 0x0029"
definition MEASURES_APPARENT_POWER_CHAR_HANDLE :: u16 where "MEASURES_APPARENT_POWER_CHAR_HANDLE = 0x002D"
definition ENERGY_RECORD_RECORD_CHAR_HANDLE :: u16 where "ENERGY_RECORD_RECORD_CHAR_HANDLE = 0x0032"
definition TIME_DATE_DATE_TIME_CHAR_HANDLE :: u16 where "TIME_DATE_DATE_TIME_CHAR_HANDLE = 0x0039"
definition TIME_DATE_CONNECTION_DATE_TIME_CHAR_HANDLE :: u16 where "TIME_DATE_CONNECTION_DATE_TIME_CHAR_HANDLE = 0x003B"
definition TIME_DATE_DISCONNECTION_DATE_TIME_CHAR_HANDLE :: u16 where "TIME_DATE_DISCONNECTION_DATE_TIME_CHAR_HANDLE = 0x003D"
definition TIME_DATE_CHARGING_START_TIME_CHAR_HANDLE :: u16 where "TIME_DATE_CHARGING_START_TIME_CHAR_HANDLE = 0x0041"
definition TIME_DATE_CHARGING_STOP_TIME_CHAR_HANDLE :: u16 where "TIME_DATE_CHARGING_STOP_TIME_CHAR_HANDLE = 0x0043"
definition CHARGING_INSTANT_DELAYED_CHAR_HANDLE :: u16 where "CHARGING_INSTANT_DELAYED_CHAR_HANDLE = 0x0046"
definition CHARGING_START_STOP_START_MODE_CHAR_HANDLE :: u16 where "CHARGING_START_STOP_START_MODE_CHAR_HANDLE = 0x0048"
definition CHARGING_BLE_MANUAL_START_CHAR_HANDLE :: u16 where "CHARGING_BLE_MANUAL_START_CHAR_HANDLE = 0x004A"
definition CHARGING_BLE_MANUAL_STOP_CHAR_HANDLE :: u16 where "CHARGING_BLE_MANUAL_STOP_CHAR_HANDLE = 0x004C"
definition SCHED_CHARGING_SCHEDULE_MATRIX_CHAR_HANDLE :: u16 where "SCHED_CHARGING_SCHEDULE_MATRIX_CHAR_HANDLE = 0x004F"
definition VCD_NAME_USERS_CHARGER_DEVICE_ID_CHAR_HANDLE :: u16 where "VCD_NAME_USERS_CHARGER_DEVICE_ID_CHAR_HANDLE = 0x0052"
definition VCD_NAME_USERS_USERS_NUMBER_CHAR_HANDLE :: u16 where "VCD_NAME_USERS_USERS_NUMBER_CHAR_HANDLE = 0x0054"
definition VCD_NAME_USERS_USER_TYPE_CHAR_HANDLE :: u16 where "VCD_NAME_USERS_USER_TYPE_CHAR_HANDLE = 0x0056"
definition VCD_NAME_USERS_USER_INDEX_CHAR_HANDLE :: u16 where "VCD_NAME_USERS_USER_INDEX_CHAR_HANDLE = 0x0058"
definition TEST_LAUNCH_RCD_PE_TEST_CHAR_HANDLE :: u16 where "TEST_LAUNCH_RCD_PE_TEST_CHAR_HANDLE = 0x005B"
definition TEST_RCD_PE_TEST_RESULT_CHAR_HANDLE :: u16 where "TEST_RCD_PE_TEST_RESULT_CHAR_HANDLE = 0x005D"
definition MAN_LOCK_UNLOCK_LOCKING_MECHANISM_ON_OFF_CHAR_HANDLE :: u16 where "MAN_LOCK_UNLOCK_LOCKING_MECHANISM_ON_OFF_CHAR_HANDLE = 0x0064"
definition BOOT_LOADER_LOAD_SW_APP_CHAR_HANDLE :: u16 where "BOOT_LOADER_LOAD_SW_APP_CHAR_HANDLE = 0x0069"
definition LED_LUMIN_COLOR_LUMINOSITY_LEVEL_CHAR_HANDLE :: u16 where "LED_LUMIN_COLOR_LUMINOSITY_LEVEL_CHAR_HANDLE = 0x006F"
definition RESET_RESET_CHAR_HANDLE :: u16 where "RESET_RESET_CHAR_HANDLE = 0x0078"
definition RECORDING_REC_CAPACITY_CHAR_HANDLE :: u16 where "RECORDING_REC_CAPACITY_CHAR_HANDLE = 0x007E"
definition RECORDING_REC_LAST_CHAR_HANDLE :: u16 where "RECORDING_REC_LAST_CHAR_HANDLE = 0x0080"
definition RECORDING_REC_INDEX_CHAR_HANDLE :: u16 where "RECORDING_REC_INDEX_CHAR_HANDLE = 0x0082"
definition RECORDING_REC_LAPS_CHAR_HANDLE :: u16 where "RECORDING_REC_LAPS_CHAR_HANDLE = 0x0084"
definition VERSIONES_VERSION_FIRMWARE_CHAR_HANDLE :: u16 where "VERSIONES_VERSION_FIRMWARE_CHAR_HANDLE = 0x0087"
definition VERSIONES_VERSION_FIRM_BLE_CHAR_HANDLE :: u16 where "VERSIONES_VERSION_FIRM_BLE_CHAR_HANDLE = 0x0089"
definition CONFIGURACION_AUTENTICATION_MODES_CHAR_HANDLE :: u16 where "CONFIGURACION_AUTENTICATION_MODES_CHAR_HANDLE = 0x008C"
definition DOMESTIC_CONSUMPTION_REAL_CURRENT_LIMIT_CHAR_HANDLE :: u16 where "DOMESTIC_CONSUMPTION_REAL_CURRENT_LIMIT_CHAR_HANDLE = 0x0096"
definition DOMESTIC_CONSUMPTION_DOMESTIC_CURRENT_CHAR_HANDLE :: u16 where "DOMESTIC_CONSUMPTION_DOMESTIC_CURRENT_CHAR_HANDLE = 0x0098"
definition DOMESTIC_CONSUMPTION_POTENCIA_CONTRATADA_P1_CHAR_HANDLE :: u16 where "DOMESTIC_CONSUMPTION_POTENCIA_CONTRATADA_P1_CHAR_HANDLE = 0x00A0"
definition DOMESTIC_CONSUMPTION_DPC_MODE_CHAR_HANDLE :: u16 where "DOMESTIC_CONSUMPTION_DPC_MODE_CHAR_HANDLE = 0x00A2"
definition ERROR_STATUS_ERROR_CODE_CHAR_HANDLE :: u16 where "ERROR_STATUS_ERROR_CODE_CHAR_HANDLE = 0x00A5"
definition TIME_DATE_COUNTRY_CHAR_HANDLE :: u16 where "TIME_DATE_COUNTRY_CHAR_HANDLE = 0x00A9"
definition TIME_DATE_CALENDAR_CHAR_HANDLE :: u16 where "TIME_DATE_CALENDAR_CHAR_HANDLE = 0x00AB"
definition COMS_CONFIGURATION_WIFI_ON :: u16 where "COMS_CONFIGURATION_WIFI_ON = 0x00B1"
definition COMS_CONFIGURATION_ETH_ON :: u16 where "COMS_CONFIGURATION_ETH_ON = 0x00B9"
definition COMS_CONFIGURATION_LAN_IP :: u16 where "COMS_CONFIGURATION_LAN_IP = 0x00BB"
definition COMS_CONFIGURATION_ETH_AUTO :: u16 where "COMS_CONFIGURATION_ETH_AUTO = 0x00BC"
definition GROUPS_PARAMS :: u16 where "GROUPS_PARAMS = 0x00BF"
definition GROUPS_CIRCUITS :: u16 where "GROUPS_CIRCUITS = 0x00C1"
definition DOMESTIC_CONSUMPTION_POTENCIA_CONTRATADA_P2_CHAR_HANDLE :: u16 where "DOMESTIC_CONSUMPTION_POTENCIA_CONTRATADA_P2_CHAR_HANDLE = 0x00C3"
definition MEASURES_INST_CURRENTB_CHAR_HANDLE :: u16 where "MEASURES_INST_CURRENTB_CHAR_HANDLE = 0x00C5"
definition MEASURES_INST_CURRENTC_CHAR_HANDLE :: u16 where "MEASURES_INST_CURRENTC_CHAR_HANDLE = 0x00C7"
definition SEARCH_EXTERNAL_METER :: u16 where "SEARCH_EXTERNAL_METER = 0x00D2"
definition COMS_FW_UPDATEMODE_CHAR_HANDLE :: u16 where "COMS_FW_UPDATEMODE_CHAR_HANDLE = 0x00D4"
definition CHARGE_USER_ID :: u16 where "CHARGE_USER_ID = 0x00D5"
definition GROUPS_DEVICES_PART_1 :: u16 where "GROUPS_DEVICES_PART_1 = 0x00D6"
definition GROUPS_DEVICES_PART_2 :: u16 where "GROUPS_DEVICES_PART_2 = 0x00D8"
definition BLOQUEO_CARGA :: u16 where "BLOQUEO_CARGA = 0x00DD"
definition CLEAR_FLASH_SPACE :: u16 where "CLEAR_FLASH_SPACE = 0x00E5"
definition PHOTOVOLTAIC_TOTAL_POWER :: u16 where "PHOTOVOLTAIC_TOTAL_POWER = 0x00E7"
definition PHOTOVOLTAIC_NET_POWER :: u16 where "PHOTOVOLTAIC_NET_POWER = 0x00E9"
definition EXTERNAL_METER_POWER :: u16 where "EXTERNAL_METER_POWER = 0x00EB"
definition STATUS_COMS :: u16 where "STATUS_COMS = 0x00E3"
definition BLOQUE_INICIALIZACION :: u16 where "BLOQUE_INICIALIZACION = 0xFFFF"
definition BLOQUE_STATUS :: u16 where "BLOQUE_STATUS = 0xFFFE"
definition BLOQUE_DATE_TIME :: u16 where "BLOQUE_DATE_TIME = 0xFFFD"
definition BLOQUE_APN :: u16 where "BLOQUE_APN = 0xFFFA"
definition CHARGING_GROUP_BLE_NET_DEVICES :: u16 where "CHARGING_GROUP_BLE_NET_DEVICES = 0x00DF"
definition CHARGING_GROUP_BLE_CHARGING_GROUP :: u16 where "CHARGING_GROUP_BLE_CHARGING_GROUP = 0x00E1"

lemmas handle_consts =
  STATUS_HPT_STATUS_CHAR_HANDLE_def STATUS_ICP_STATUS_CHAR_HANDLE_def
  STATUS_RCD_STATUS_CHAR_HANDLE_def STATUS_CONN_LOCK_STATUS_CHAR_HANDLE_def
  MEASURES_MAX_CURRENT_CABLE_CHAR_HANDLE_def MEASURES_INSTALATION_CURRENT_LIMIT_CHAR_HANDLE_def
  MEASURES_CURRENT_COMMAND_CHAR_HANDLE_def MEASURES_INST_CURRENT_CHAR_HANDLE_def
  MEASURES_INST_VOLTAGE_CHAR_HANDLE_def MEASURES_ACTIVE_POWER_CHAR_HANDLE_def
  MEASURES_ACTIVE_ENERGY_CHAR_HANDLE_def MEASURES_APPARENT_POWER_CHAR_HANDLE_def
  ENERGY_RECORD_RECORD_CHAR_HANDLE_def TIME_DATE_DATE_TIME_CHAR_HANDLE_def
  TIME_DATE_CONNECTION_DATE_TIME_CHAR_HANDLE_def TIME_DATE_DISCONNECTION_DATE_TIME_CHAR_HANDLE_def
  TIME_DATE_CHARGING_START_TIME_CHAR_HANDLE_def TIME_DATE_CHARGING_STOP_TIME_CHAR_HANDLE_def
  CHARGING_INSTANT_DELAYED_CHAR_HANDLE_def CHARGING_START_STOP_START_MODE_CHAR_HANDLE_def
  CHARGING_BLE_MANUAL_START_CHAR_HANDLE_def CHARGING_BLE_MANUAL_STOP_CHAR_HANDLE_def
  SCHED_CHARGING_SCHEDULE_MATRIX_CHAR_HANDLE_def VCD_NAME_USERS_CHARGER_DEVICE_ID_CHAR_HANDLE_def
  VCD_NAME_USERS_USERS_NUMBER_CHAR_HANDLE_def VCD_NAME_USERS_USER_TYPE_CHAR_HANDLE_def
  VCD_NAME_USERS_USER_INDEX_CHAR_HANDLE_def TEST_LAUNCH_RCD_PE_TEST_CHAR_HANDLE_def
  TEST_RCD_PE_TEST_RESULT_CHAR_HANDLE_def MAN_LOCK_UNLOCK_LOCKING_MECHANISM_ON_OFF_CHAR_HANDLE_def
  BOOT_LOADER_LOAD_SW_APP_CHAR_HANDLE_def LED_LUMIN_COLOR_LUMINOSITY_LEVEL_CHAR_HANDLE_def
  RESET_RESET_CHAR_HANDLE_def RECORDING_REC_CAPACITY_CHAR_HANDLE_def
  RECORDING_REC_LAST_CHAR_HANDLE_def RECORDING_REC_INDEX_CHAR_HANDLE_def
  RECORDING_REC_LAPS_CHAR_HANDLE_def VERSIONES_VERSION_FIRMWARE_CHAR_HANDLE_def
  VERSIONES_VERSION_FIRM_BLE_CHAR_HANDLE_def CONFIGURACION_AUTENTICATION_MODES_CHAR_HANDLE_def
  DOMESTIC_CONSUMPTION_REAL_CURRENT_LIMIT_CHAR_HANDLE_def DOMESTIC_CONSUMPTION_DOMESTIC_CURRENT_CHAR_HANDLE_def
  DOMESTIC_CONSUMPTION_POTENCIA_CONTRATADA_P1_CHAR_HANDLE_def DOMESTIC_CONSUMPTION_DPC_MODE_CHAR_HANDLE_def
  ERROR_STATUS_ERROR_CODE_CHAR_HANDLE_def TIME_DATE_COUNTRY_CHAR_HANDLE_def
  TIME_DATE_CALENDAR_CHAR_HANDLE_def COMS_CONFIGURATION_WIFI_ON_def
  COMS_CONFIGURATION_ETH_ON_def COMS_CONFIGURATION_LAN_IP_def
  COMS_CONFIGURATION_ETH_AUTO_def GROUPS_PARAMS_def
  GROUPS_CIRCUITS_def DOMESTIC_CONSUMPTION_POTENCIA_CONTRATADA_P2_CHAR_HANDLE_def
  MEASURES_INST_CURRENTB_CHAR_HANDLE_def MEASURES_INST_CURRENTC_CHAR_HANDLE_def
  SEARCH_EXTERNAL_METER_def COMS_FW_UPDATEMODE_CHAR_HANDLE_def
  CHARGE_USER_ID_def GROUPS_DEVICES_PART_1_def
  GROUPS_DEVICES_PART_2_def BLOQUEO_CARGA_def
  CLEAR_FLASH_SPACE_def PHOTOVOLTAIC_TOTAL_POWER_def
  PHOTOVOLTAIC_NET_POWER_def EXTERNAL_METER_POWER_def
  STATUS_COMS_def BLOQUE_INICIALIZACION_def
  BLOQUE_STATUS_def BLOQUE_DATE_TIME_def
  BLOQUE_APN_def

section \<open>The structures of tipos.h\<close>

record caract_measures =
  max_current_cable :: u8
  consumo_domestico :: u16
  instant_current :: u16
  instant_voltage :: u16
  active_power :: u16
  active_energy :: u32

record caract_date_time =
  hora :: u8
  actual_time :: int
  connect_date_time :: int
  disconnect_date_time :: int
  charge_start_time :: int
  charge_stop_time :: int

record carac_Status =
  ICP_status :: bool
  DC_Leack_status :: bool
  Con_Lock :: bool
  Trifasico :: bool
  error_code :: u8
  current_limit :: u8
  HPT_status :: bytes
  Measures :: caract_measures
  MeasuresB :: caract_measures
  MeasuresC :: caract_measures
  Time :: caract_date_time
  net_power :: u32
  total_power :: u32
  external_meter_power :: u32
  Photovoltaic :: bool

record carac_Params =
  Tipo_Sensor :: bool
  pa_Fw_Update_mode :: bytes
  pa_autentication_mode :: bytes
  pa_CDP :: u8
  pa_install_current_limit :: u8
  pa_potencia_contratada1 :: u16
  pa_potencia_contratada2 :: u16

record carac_Comands =
  cmd_start :: bool
  cmd_stop :: bool
  cmd_reset :: bool
  desired_current :: u8
  cmd_Newdata :: bool

record carac_ETH =
  eth_ON :: bool
  eth_Auto :: bool
  eth_DHCP :: bool
  eth_Internet :: bool
  eth_Wifi_Perm :: bool
  eth_restart :: bool
  eth_conectado :: bool
  eth_medidor :: bool
  eth_IP :: bytes
  eth_Gateway :: bytes
  eth_Mask :: bytes

record carac_Coms =
  StartConnection :: bool
  Wifi_ON :: bool
  ETH :: carac_ETH

record carac_Contador =
  GatewayConectado :: bool
  ConexionPerdida :: bool
  MedidorConectado :: bool
  cont_Power :: u32

record carac_Firebase =
  WriteStatus :: bool
  ResetUser :: bool
  UserReseted :: bool
  WriteUser :: bool
  WriteTime :: bool
  Device_Ser_num :: bytes
  Device_Id :: bytes
  Device_Db_ID :: bytes
  InternetConection :: bool
  ClientAuthenticated :: bool
  FirebaseConnState :: u8
  LastConnState :: u8

record carac_permiso =
  AskPerm :: bool
  gr_Conected :: bool
  ChargPerm :: bool
  gr_Finding :: bool
  gr_GroupMaster :: u8
  gr_GroupActive :: u8
  gr_CDP :: u8

record carac_config =
  cfg_device_ID :: bytes
  cfg_deviceSerNum :: bytes
  cfg_autentication_mode :: bytes
  FirmwareESP :: u16
  FirmwarePSOC :: u16
  Data_cleared :: u8
  cfg_CDP :: u8
  cfg_install_current_limit :: u8
  count_reinicios_malos :: u8
  cfg_potencia_contratada1 :: u16
  cfg_potencia_contratada2 :: u16
  velt_v :: u8
  medidor485 :: u8

section \<open>Effects and the global state\<close>

text \<open>
  What the handler does to the rest of the system, in order: a value of a characteristic
  (\<open>modifyCharacteristic\<close>), a notification to the BLE client, a frame given to \<open>SendToPSOC5\<close> (which
  drops it while the update task runs, theory \<open>Psoc_Link\<close>), the advertised
  name, the initialisation of the authentication, the reset line of the PSoC, the start of the
  update task, a restart of the processor.
\<close>

datatype efecto =
    Modifica u16 bytes
  | Notifica u16 bytes
  | Envia u16 bytes
  | Nombre bytes
  | Auth_Init bytes
  | Reset_Main u8
  | Lanza_Update
  | Reinicia

record registros =
  new_record_received :: bool
  record_pending_for_write :: bool
  ask_for_new_record :: bool
  record_index :: u8
  record_lap :: u8
  last_record_in_mem :: u8
  last_record_lap :: u8
  records_trigger :: bool
  record_received_buffer :: bytes
  record_received_buffer_for_fb :: bytes
  ask_for_new_record_start_timeout :: u32

record arranque =
  systemStarted :: bool
  dispositivo_inicializado :: u8
  PSOC_inicializado :: bool
  cnt_timeout_inicio :: u8
  cnt_repeticiones_inicio :: u16
  emergencyState :: bool
  mainFwUpdateActive :: u8
  updateTaskrunning :: u8
  psocUpdateCounter :: u8
  PSoCUpdateRequest :: u8
  TimeoutMainDisconnect :: int

record control =
  device_ID :: bytes
  deviceSerNum :: bytes
  deviceSerNumFlash :: bytes
  PSOC_version_firmware :: bytes
  user_index :: u8
  user_index_arrived :: bool
  conexion_trigger :: bool
  aut_semilla :: int
  status_hpt_anterior :: bytes
  inst_current_anterior :: u16
  cnt_diferencia :: u16
  Bloqueo_de_carga :: u8
  Bloqueo_de_carga_old :: u8
  flag_schedule_ack :: bool
  global_schedule_buffer :: bytes
  Status_Coms :: u16
  Last_Status :: u16
  Arranque :: arranque
  Registros :: registros
  Status :: carac_Status
  Params :: carac_Params
  Comands :: carac_Comands
  Coms :: carac_Coms
  ContadorExt :: carac_Contador
  ConfigFirebase :: carac_Firebase
  ChargingGroup :: carac_permiso
  Configuracion :: carac_config
  salida :: "efecto list"

text \<open>What the handler asks of the rest of the system while it runs.\<close>

record entorno_ctl =
  ble_conectado :: bool
  conexion_ok :: bool

definition emite :: "efecto list \<Rightarrow> control \<Rightarrow> control" where
  "emite fx c = c\<lparr>salida := salida c @ fx\<rparr>"

text \<open>
  A run of \<open>modifyCharacteristic(&buf[off], len, handle)\<close>, and \<open>SendToPSOC5\<close> of one byte.
\<close>

definition modifyCharacteristics :: "(nat \<times> nat \<times> u16) list \<Rightarrow> bytes \<Rightarrow> control \<Rightarrow> control" where
  "modifyCharacteristics ts buf =
     emite (map (\<lambda>(off, len, handle). Modifica handle (take len (drop off buf))) ts)"

definition envia :: "u8 \<Rightarrow> u16 \<Rightarrow> control \<Rightarrow> control" where
  "envia b handle = emite [Envia handle [b]]"

section \<open>Helpers\<close>

definition w16 :: "bytes \<Rightarrow> nat \<Rightarrow> u16" where
  "w16 buf i = ucast (buf ! i) + ucast (buf ! (i + 1)) * 0x100"

definition bit_de :: "u8 \<Rightarrow> nat \<Rightarrow> bool" where
  "bit_de b n \<longleftrightarrow> drop_bit n b AND 1 = 1"

fun memcmp :: "bytes \<Rightarrow> bytes \<Rightarrow> int" where
  "memcmp (a # as) (b # bs) = (if a = b then memcmp as bs else uint a - uint b)"
| "memcmp _ _ = 0"

definition ContadorConfigurado :: "carac_permiso \<Rightarrow> bool" where
  "ContadorConfigurado g = bit_de (gr_CDP g) 4"

definition MED_BUSCANDO_GATEWAY :: u16 where "MED_BUSCANDO_GATEWAY = 0x20"
definition MED_BUSCANDO_MEDIDOR :: u16 where "MED_BUSCANDO_MEDIDOR = 0x40"
definition MED_LEYENDO_MEDIDOR :: u16 where "MED_LEYENDO_MEDIDOR = 0x80"
definition MED_BLOCK :: u8 where "MED_BLOCK = 2"

lemmas med_consts = MED_BUSCANDO_GATEWAY_def MED_BUSCANDO_MEDIDOR_def MED_LEYENDO_MEDIDOR_def
  MED_BLOCK_def

text \<open>
  The status word of the communications: four groups of bits, of which a code replaces its own.
\<close>

definition nuevo_status :: "u16 \<Rightarrow> u8 \<Rightarrow> u16 \<Rightarrow> u16" where
  "nuevo_status Code block st =
     (if 0 < Code
      then (if Code \<le> 2 then st AND 0b1111111111111100
            else if Code \<le> 16 then st AND 0b1111111111100011
            else if Code \<le> 0x200 then st AND 0b1111111100011111
            else if Code \<le> 0x1000 then st AND 0b0000001111111111
            else st) OR Code
      else if block = 0 then st AND 0b1111111111111100
      else if block = 1 then st AND 0b1111111111100011
      else if block = 2 then st AND 0b1111110000011111
      else if block = 3 then st AND 0b0000001111111111
      else st)"

definition Update_Status_Coms :: "u16 \<Rightarrow> u8 \<Rightarrow> control \<Rightarrow> control" where
  "Update_Status_Coms Code block c =
     (let st = nuevo_status Code block (Status_Coms c) in
      if Last_Status c \<noteq> st
      then emite [Notifica STATUS_COMS [ucast (st AND 0x00FF), ucast (drop_bit 8 st AND 0x00FF)]]
             (c\<lparr>Status_Coms := st, Last_Status := st\<rparr>)
      else c\<lparr>Status_Coms := st\<rparr>)"

text \<open>
  \<open>mktime\<close> of the C library in universal time (the firmware sets no time zone): the month is
  normalised, the other fields are added as they are. \<open>Convert_To_Epoch\<close> returns it as an
  \<open>int\<close> of 32 bits.
\<close>

definition bisiesto :: "int \<Rightarrow> bool" where
  "bisiesto y \<longleftrightarrow> (y mod 4 = 0 \<and> y mod 100 \<noteq> 0) \<or> y mod 400 = 0"

definition dias_antes_de_mes :: "int \<Rightarrow> nat \<Rightarrow> int" where
  "dias_antes_de_mes y m =
     [0, 31, 59, 90, 120, 151, 181, 212, 243, 273, 304, 334] ! m
     + (if 2 \<le> m \<and> bisiesto y then 1 else 0)"

definition dias_antes_de_ano :: "int \<Rightarrow> int" where
  "dias_antes_de_ano y =
     365 * (y - 1970) + ((y - 1) div 4 - (y - 1) div 100 + (y - 1) div 400 - 477)"

definition mktime :: "int \<Rightarrow> int \<Rightarrow> int \<Rightarrow> int \<Rightarrow> int \<Rightarrow> int \<Rightarrow> int" where
  "mktime tm_year tm_mon tm_mday tm_hour tm_min tm_sec =
     (let y = 1900 + tm_year + tm_mon div 12
      in (dias_antes_de_ano y + dias_antes_de_mes y (nat (tm_mon mod 12)) + tm_mday - 1) * 86400
         + tm_hour * 3600 + tm_min * 60 + tm_sec)"

definition Convert_To_Epoch :: "bytes \<Rightarrow> int" where
  "Convert_To_Epoch data =
     sint (of_int (mktime ((2000 + uint (data ! 2)) - 1900)
                          (if data ! 1 \<noteq> 0 then uint (data ! 1) - 1 else 0)
                          (uint (data ! 0)) (uint (data ! 3)) (uint (data ! 4))
                          (uint (data ! 5))) :: u32)"

text \<open>
  \<open>String::toInt\<close> of characters 6 to 9 of a version such as \<open>VELT1_0619\<close>: the decimal digits
  up to the first other character (\<open>atol\<close>, with blanks and a sign before them), kept in 16 bits.
\<close>

fun digitos :: "bytes \<Rightarrow> int \<Rightarrow> int" where
  "digitos (b # bs) n = (if 48 \<le> b \<and> b \<le> 57 then digitos bs (10 * n + (uint b - 48)) else n)"
| "digitos [] n = n"

definition atol :: "bytes \<Rightarrow> int" where
  "atol bs =
     (let s = dropWhile (\<lambda>b. b = 32 \<or> (9 \<le> b \<and> b \<le> 13)) bs
      in case s of
           [] \<Rightarrow> 0
         | b # r \<Rightarrow> if b = 45 then - digitos r 0 else if b = 43 then digitos r 0 else digitos s 0)"

definition c_cadena :: "bytes \<Rightarrow> bytes" where
  "c_cadena bs = takeWhile (\<lambda>b. b \<noteq> 0) bs"

definition ParseFirmwareVersion :: "bytes \<Rightarrow> u16" where
  "ParseFirmwareVersion Texto = of_int (atol (take 4 (drop 6 (c_cadena Texto))))"

text \<open>
  The serial number as text: \<open>sprintf("%02X...")\<close> of its ten bytes, and back by \<open>convertSN\<close>.
  The two characters given to \<open>strtol\<close> are not followed by a terminator, so the characters that
  follow them in memory, \<open>tras\<close>, are read as well.
\<close>

definition hexa :: "nat \<Rightarrow> u8" where
  "hexa d = (if d < 10 then of_nat (48 + d) else of_nat (55 + d))"

definition sprintf_02X :: "bytes \<Rightarrow> bytes" where
  "sprintf_02X bs = concat (map (\<lambda>b. [hexa (unat b div 16), hexa (unat b mod 16)]) bs)"

definition valor_hexa :: "u8 \<Rightarrow> int option" where
  "valor_hexa b =
     (if 48 \<le> b \<and> b \<le> 57 then Some (uint b - 48)
      else if 65 \<le> b \<and> b \<le> 70 then Some (uint b - 55)
      else if 97 \<le> b \<and> b \<le> 102 then Some (uint b - 87) else None)"

fun strtol16 :: "bytes \<Rightarrow> int \<Rightarrow> int" where
  "strtol16 [] n = n"
| "strtol16 (b # bs) n = (case valor_hexa b of Some d \<Rightarrow> strtol16 bs (16 * n + d) | None \<Rightarrow> n)"

definition convertSN :: "bytes \<Rightarrow> bytes \<Rightarrow> bytes" where
  "convertSN texto tras =
     map (\<lambda>j. of_int (strtol16 (take 2 (drop (2 * j) texto) @ tras) 0)) [0..<10]"

text \<open>
  \<open>WaitForValue\<close>, the same loop for each type of variable. The variable is changed by other
  tasks: \<open>v n\<close> is what its \<open>n\<close>-th read gives. Not returning is \<open>None\<close>.
\<close>

partial_function (option) WaitForValue_loop ::
  "(nat \<Rightarrow> 'a) \<Rightarrow> 'a \<Rightarrow> u16 \<Rightarrow> nat \<Rightarrow> nat option" where
  "WaitForValue_loop v objetivo timeout n =
     (if v n \<noteq> objetivo then WaitForValue_loop v objetivo timeout (n + 1)
      else if 0 < timeout - 1 then WaitForValue_loop v objetivo (timeout - 1) (n + 1)
      else Some (n + 1))"

definition WaitForValue :: "(nat \<Rightarrow> 'a) \<Rightarrow> 'a \<Rightarrow> u16 \<Rightarrow> bool option" where
  "WaitForValue v objetivo timeout =
     (case WaitForValue_loop v objetivo timeout 0 of
        None \<Rightarrow> None
      | Some n \<Rightarrow> Some (v n = objetivo))"

section \<open>Facts of the helpers\<close>

text \<open>
  The wait of \<open>WaitForValue\<close> returns only after the variable has had its target value: the
  timeout does not end it.
\<close>

lemma WaitForValue_loop_reached:
  "WaitForValue_loop v objetivo timeout n = Some m \<Longrightarrow> n < m \<and> v (m - 1) = objetivo"
proof (rule WaitForValue_loop.raw_induct [where P = "\<lambda>v objetivo timeout n m. n < m \<and> v (m - 1) = objetivo"])
  fix f :: "(nat \<Rightarrow> 'a) \<Rightarrow> 'a \<Rightarrow> u16 \<Rightarrow> nat \<Rightarrow> nat option"
    and v :: "nat \<Rightarrow> 'a" and objetivo timeout n m
  assume IH: "\<And>v objetivo timeout n m. f v objetivo timeout n = Some m \<Longrightarrow> n < m \<and> v (m - 1) = objetivo"
    and step: "(if v n \<noteq> objetivo then f v objetivo timeout (n + 1)
        else if 0 < timeout - 1 then f v objetivo (timeout - 1) (n + 1) else Some (n + 1)) = Some m"
  show "n < m \<and> v (m - 1) = objetivo"
  proof (cases "v n \<noteq> objetivo \<or> 0 < timeout - 1")
    case True
    with step obtain t where "f v objetivo t (n + 1) = Some m" by (auto split: if_splits)
    from IH [OF this] show ?thesis by simp
  next
    case False
    with step show ?thesis by auto
  qed
qed

lemma WaitForValue_no_timeout:
  assumes "\<forall>n. v n \<noteq> objetivo"
  shows "WaitForValue v objetivo timeout = None"
proof (cases "WaitForValue_loop v objetivo timeout 0")
  case (Some m)
  with assms WaitForValue_loop_reached [OF Some] show ?thesis by blast
qed (simp add: WaitForValue_def)

lemma hexa_valor: "d < 16 \<Longrightarrow> valor_hexa (hexa d) = Some (int d)"
proof -
  assume "d < 16"
  then have "d \<in> set [0..<16]" by simp
  moreover have "\<forall>d \<in> set [0..<16]. valor_hexa (hexa d) = Some (int d)" by code_simp
  ultimately show ?thesis by blast
qed

lemma sprintf_02X_drop:
  "j < length sn \<Longrightarrow>
     take 2 (drop (2 * j) (sprintf_02X sn @ resto)) = [hexa (unat (sn ! j) div 16), hexa (unat (sn ! j) mod 16)]"
  by (induction sn arbitrary: j) (auto simp: sprintf_02X_def less_Suc_eq_0_disj numeral_2_eq_2)

text \<open>
  The serial number that the start-up stored as text is decoded again, when what follows the two
  characters in memory does not continue a number.
\<close>

lemma convertSN_sprintf:
  assumes "length sn = 10" "tras = [] \<or> valor_hexa (hd tras) = None"
  shows "convertSN (sprintf_02X sn @ resto) tras = sn"
proof (rule nth_equalityI)
  fix j assume "j < length (convertSN (sprintf_02X sn @ resto) tras)"
  then have j: "j < 10" by (simp add: convertSN_def)
  have "unat (sn ! j) div 16 < 16" using unat_u8_less [of "sn ! j"] by linarith
  then have v: "valor_hexa (hexa (unat (sn ! j) div 16)) = Some (int (unat (sn ! j) div 16))"
    "valor_hexa (hexa (unat (sn ! j) mod 16)) = Some (int (unat (sn ! j) mod 16))"
    by (simp_all add: hexa_valor)
  have t: "strtol16 tras n = n" for n using assms(2) by (cases tras) auto
  have "int 16 * int (unat (sn ! j) div 16) + int (unat (sn ! j) mod 16) = int (unat (sn ! j))"
    unfolding of_nat_mult [symmetric] of_nat_add [symmetric] by simp
  then have "strtol16 ([hexa (unat (sn ! j) div 16), hexa (unat (sn ! j) mod 16)] @ tras) 0 = int (unat (sn ! j))"
    by (simp add: v t)
  then show "convertSN (sprintf_02X sn @ resto) tras ! j = sn ! j"
    using j assms(1) sprintf_02X_drop [of j sn resto] by (simp add: convertSN_def del: take_append drop_append)
qed (simp add: convertSN_def assms(1))

end
