(* ===== verification/Psoc_Link.thy ===== *)
theory Psoc_Link
  imports Prelude
begin

text \<open>
  The serial link between the communications processor and the PSoC (control.cpp,
  helpers.cpp, HardwareSerialMOD.cpp). \<open>proceso_recepcion\<close> polls the UART and rebuilds the
  frames \<open>':' type(2) length(1) data\<close> with a four-state automaton; the 10 ms timer returns it to
  the first state after a silence; \<open>SendToPSOC5\<close> and its variants write frames. The block
  handler \<open>procesar_bloque\<close> and the flag \<open>updateTaskrunning\<close> are parameters here: the interface
  \<open>block_handler\<close> states what the receiver needs of them, and the theory of the handler
  interprets it. The reference definition of the protocol is \<open>trocear\<close>, which cuts a complete
  byte stream into its frames.
\<close>

section \<open>The receiver\<close>

definition HEADER_RX :: u8 where "HEADER_RX = 58"
definition HEADER_TX :: u8 where "HEADER_TX = 58"
definition ESPERANDO_HEADER :: int where "ESPERANDO_HEADER = 0"
definition ESPERANDO_TIPO :: int where "ESPERANDO_TIPO = 1"
definition ESPERANDO_LONGITUD :: int where "ESPERANDO_LONGITUD = 2"
definition RECIBIENDO_BLOQUE :: int where "RECIBIENDO_BLOQUE = 3"
definition TIMEOUT_RX_BLOQUE :: u8 where "TIMEOUT_RX_BLOQUE = 10"

lemmas link_consts = HEADER_RX_def HEADER_TX_def ESPERANDO_HEADER_def ESPERANDO_TIPO_def
  ESPERANDO_LONGITUD_def RECIBIENDO_BLOQUE_def TIMEOUT_RX_BLOQUE_def

text \<open>
  The globals and the locals of the receiver task, and the link as a whole: the receiver, the
  bytes that wait in the UART, and the state \<open>'s\<close> that the block handler works on.
\<close>

record receptor =
  estado_recepcion :: int
  cnt_fin_bloque :: u8
  puntero_rx_local :: u16
  longitud_bloque :: u16
  tipo_bloque :: u16
  buffer_rx_local :: bytes

record 's enlace =
  rx :: receptor
  serie :: bytes
  nucleo :: 's

type_synonym 's handler = "u16 \<Rightarrow> bytes \<Rightarrow> 's \<Rightarrow> bytes \<times> 's"

text \<open>
  \<open>HardwareSerialMOD::read\<close>: at most as many bytes as are pending; the rest of the buffer keeps
  its contents. The result is the number of bytes, the buffer and the bytes still pending.
\<close>

definition serial_read :: "bytes \<Rightarrow> nat \<Rightarrow> bytes \<Rightarrow> nat \<times> bytes \<times> bytes" where
  "serial_read buf n fifo =
     (let avail = min n (length fifo)
      in (avail, blit buf 0 (take avail fifo), drop avail fifo))"

text \<open>The timer interrupt.\<close>

definition onTimer10ms :: "receptor \<Rightarrow> receptor" where
  "onTimer10ms r =
     (if cnt_fin_bloque r \<noteq> 0 then r\<lparr>cnt_fin_bloque := cnt_fin_bloque r - 1\<rparr> else r)"

text \<open>
  The body of the state \<open>RECIBIENDO_BLOQUE\<close>: the \<open>do\<close> loop over the \<open>len\<close> bytes that were
  available. A write outside \<open>buffer_rx_local\<close> is undefined behaviour, \<open>None\<close>.
\<close>

fun recibir_bytes :: "'s handler \<Rightarrow> nat \<Rightarrow> 's enlace \<Rightarrow> 's enlace option" where
  "recibir_bytes procesar 0 e = Some e"
| "recibir_bytes procesar (Suc len) e =
     (if 0 < longitud_bloque (rx e)
      then (case mem_write (buffer_rx_local (rx e)) (unat (puntero_rx_local (rx e)))
                   (take 1 (serie e)) of
          None \<Rightarrow> None
        | Some buf \<Rightarrow>
            (let r = (rx e)\<lparr>buffer_rx_local := buf,
                       puntero_rx_local := puntero_rx_local (rx e) + 1,
                       longitud_bloque := longitud_bloque (rx e) - 1\<rparr>;
                 fifo = drop 1 (serie e)
             in if longitud_bloque r = 0
                then (let (buf', s') = procesar (tipo_bloque r) buf (nucleo e)
                      in Some \<lparr>rx = r\<lparr>buffer_rx_local := buf', puntero_rx_local := 0,
                                  estado_recepcion := ESPERANDO_HEADER\<rparr>,
                               serie = fifo, nucleo = s'\<rparr>)
                else recibir_bytes procesar len (e\<lparr>rx := r, serie := fifo\<rparr>)))
      else recibir_bytes procesar len (e\<lparr>serie := drop 1 (serie e)\<rparr>))"

text \<open>
  One iteration of the task, after its delay. \<open>len\<close> is a 16 bit counter in the code.
\<close>

definition proceso_recepcion ::
  "('s \<Rightarrow> bool) \<Rightarrow> 's handler \<Rightarrow> 's enlace \<Rightarrow> 's enlace option" where
  "proceso_recepcion updateTaskrunning procesar e =
     (if updateTaskrunning (nucleo e) then Some e
      else
        let len = (of_nat (length (serie e)) :: u16) in
        if len = 0
        then if cnt_fin_bloque (rx e) = 0
             then Some (e\<lparr>rx := (rx e)\<lparr>puntero_rx_local := 0,
                                      estado_recepcion := ESPERANDO_HEADER\<rparr>\<rparr>)
             else Some e
        else
          let r = (rx e)\<lparr>cnt_fin_bloque := TIMEOUT_RX_BLOQUE\<rparr> in
          if estado_recepcion r = ESPERANDO_HEADER
          then let byte = serie e ! 0
               in Some (e\<lparr>serie := drop 1 (serie e),
                        rx := if byte \<noteq> HEADER_RX then r
                              else r\<lparr>estado_recepcion := ESPERANDO_TIPO\<rparr>\<rparr>)
          else if estado_recepcion r = ESPERANDO_TIPO
          then if len < 2 then Some (e\<lparr>rx := r\<rparr>)
               else Some (e\<lparr>serie := drop 2 (serie e),
                          rx := r\<lparr>tipo_bloque := 256 * ucast (serie e ! 0) + ucast (serie e ! 1),
                                  estado_recepcion := ESPERANDO_LONGITUD\<rparr>\<rparr>)
          else if estado_recepcion r = ESPERANDO_LONGITUD
          then let l = (ucast (serie e ! 0) :: u16)
               in Some (e\<lparr>serie := drop 1 (serie e),
                        rx := r\<lparr>longitud_bloque := if l = 0 then 256 else l,
                                puntero_rx_local := 0,
                                estado_recepcion := RECIBIENDO_BLOQUE\<rparr>\<rparr>)
          else if estado_recepcion r = RECIBIENDO_BLOQUE
          then recibir_bytes procesar (unat len) (e\<lparr>rx := r\<rparr>)
          else Some (e\<lparr>rx := r\<lparr>puntero_rx_local := 0,
                                estado_recepcion := ESPERANDO_HEADER\<rparr>\<rparr>))"

text \<open>
  What happens on the link, in any order: bytes arrive at the UART, the timer fires, the task
  polls. The UART buffer is shorter than 65536 bytes, so an arrival that would pass it is lost.
\<close>

datatype suceso = Llegan bytes | Tick | Sondeo

definition MAX_SERIE :: nat where "MAX_SERIE = 65535"

definition paso_enlace ::
  "('s \<Rightarrow> bool) \<Rightarrow> 's handler \<Rightarrow> suceso \<Rightarrow> 's enlace \<Rightarrow> 's enlace option" where
  "paso_enlace parado procesar ev e =
     (case ev of
        Llegan bs \<Rightarrow> Some (e\<lparr>serie := take MAX_SERIE (serie e @ bs)\<rparr>)
      | Tick \<Rightarrow> Some (e\<lparr>rx := onTimer10ms (rx e)\<rparr>)
      | Sondeo \<Rightarrow> proceso_recepcion parado procesar e)"

fun correr ::
  "('s \<Rightarrow> bool) \<Rightarrow> 's handler \<Rightarrow> suceso list \<Rightarrow> 's enlace \<Rightarrow> 's enlace option" where
  "correr parado procesar [] e = Some e"
| "correr parado procesar (ev # evs) e =
     (case paso_enlace parado procesar ev e of
        None \<Rightarrow> None
      | Some e' \<Rightarrow> correr parado procesar evs e')"

lemma correr_append:
  "correr p h (xs @ ys) e =
     (case correr p h xs e of None \<Rightarrow> None | Some e' \<Rightarrow> correr p h ys e')"
  by (induction xs arbitrary: e) (auto split: option.splits)

section \<open>The sender\<close>

text \<open>
  \<open>controlSendToSerialLocal\<close> writes one byte more than it is asked to (a compatibility measure
  of the code). The byte that follows the array of the caller in memory is a parameter,
  \<open>tras\<close>. Nothing is written while the PSoC is being updated.
\<close>

definition controlSendToSerialLocal :: "bool \<Rightarrow> bytes \<Rightarrow> nat \<Rightarrow> u8 \<Rightarrow> bytes" where
  "controlSendToSerialLocal updateTaskrunning data len tras =
     (if \<not> updateTaskrunning then take (len + 1) (data @ [tras]) else [])"

definition SendToPSOC5_byte :: "bool \<Rightarrow> u8 \<Rightarrow> u16 \<Rightarrow> u8 \<Rightarrow> bytes" where
  "SendToPSOC5_byte updateTaskrunning data attrHandle tras =
     controlSendToSerialLocal updateTaskrunning
       [HEADER_TX, ucast (drop_bit 8 attrHandle), ucast attrHandle, 1, data] 5 tras"

definition SendToPSOC5 :: "bool \<Rightarrow> bytes \<Rightarrow> u16 \<Rightarrow> u16 \<Rightarrow> u8 \<Rightarrow> bytes" where
  "SendToPSOC5 updateTaskrunning data len attrHandle tras =
     controlSendToSerialLocal updateTaskrunning
       ([HEADER_TX, ucast (drop_bit 8 attrHandle), ucast attrHandle, ucast len]
          @ take (unat len) data) (unat len + 4) tras"

text \<open>
  \<open>SendStatusToPSOC5\<close> declares an array of six bytes and writes seven: the write of
  \<open>comm_type\<close> is outside of it.
\<close>

definition SendStatusToPSOC5 :: "bool \<Rightarrow> u16 \<Rightarrow> u8 \<Rightarrow> u8 \<Rightarrow> u8 \<Rightarrow> u8 \<Rightarrow> bytes option" where
  "SendStatusToPSOC5 updateTaskrunning BLOQUE_STATUS connected inicializado comm_type tras =
     (case mem_write (replicate 6 0) 0
             [HEADER_TX, ucast (drop_bit 8 BLOQUE_STATUS), ucast BLOQUE_STATUS, 3, connected,
              inicializado, comm_type] of
        None \<Rightarrow> None
      | Some buffer_tx_local \<Rightarrow>
          Some (controlSendToSerialLocal updateTaskrunning buffer_tx_local 7 tras))"

section \<open>Reference definition of the protocol\<close>

definition tipo_de :: "u8 \<Rightarrow> u8 \<Rightarrow> u16" where
  "tipo_de hi lo = 256 * ucast hi + ucast lo"

definition tamano :: "u8 \<Rightarrow> nat" where
  "tamano n = (if n = 0 then 256 else unat n)"

function trocear :: "bytes \<Rightarrow> (u16 \<times> bytes) list \<times> bytes" where
  "trocear bs =
     (case dropWhile (\<lambda>b. b \<noteq> HEADER_RX) bs of
        h # hi # lo # n # ds \<Rightarrow>
          (if length ds < tamano n then ([], h # hi # lo # n # ds)
           else let (fs, r) = trocear (drop (tamano n) ds)
                in ((tipo_de hi lo, take (tamano n) ds) # fs, r))
      | r \<Rightarrow> ([], r))"
  by pat_completeness auto
termination
proof (relation "measure length", goal_cases)
  case (2 bs h x2 hi x3 lo x4 n ds)
  then have "dropWhile (\<lambda>b. b \<noteq> HEADER_RX) bs = h # hi # lo # n # ds" by simp
  moreover have "length (dropWhile (\<lambda>b. b \<noteq> HEADER_RX) bs) \<le> length bs"
    by (rule length_dropWhile_le)
  ultimately show ?case by simp
qed simp

declare trocear.simps [simp del]

definition trama :: "u16 \<times> bytes \<Rightarrow> bytes" where
  "trama f = [HEADER_TX, ucast (drop_bit 8 (fst f)), ucast (fst f), of_nat (length (snd f))]
               @ snd f"

definition trama_ok :: "u16 \<times> bytes \<Rightarrow> bool" where
  "trama_ok f \<longleftrightarrow> 1 \<le> length (snd f) \<and> length (snd f) \<le> 256"

text \<open>
  What the frames do: each is laid over the buffer, whose tail still holds older bytes, and
  handed to the block handler.
\<close>

fun entregar :: "'s handler \<Rightarrow> (u16 \<times> bytes) list \<Rightarrow> bytes \<times> 's \<Rightarrow> bytes \<times> 's" where
  "entregar procesar [] bs = bs"
| "entregar procesar ((t, ds) # fs) (buf, s) = entregar procesar fs (procesar t (blit buf 0 ds) s)"

section \<open>Lemmas on the reference definition\<close>

lemma tipo_de_join16: "tipo_de hi lo = join16 lo hi"
proof -
  have m: "256 * ucast hi = push_bit 8 (ucast hi :: u16)" by (simp add: push_bit_eq_mult)
  have "push_bit 8 (ucast hi :: u16) AND ucast lo = 0"
    by (rule bit_word_eqI) (auto simp: bit_simps dest: bit_imp_le_length)
  then have "push_bit 8 (ucast hi :: u16) + ucast lo = push_bit 8 (ucast hi) OR ucast lo"
    by (rule disjunctive_add_eq_or)
  then show ?thesis by (simp add: tipo_de_def join16_def m or.commute)
qed

lemma tipo_de_bytes [simp]: "tipo_de (ucast (drop_bit 8 w)) (ucast w) = w"
  by (simp add: tipo_de_join16 join16_le16)

lemma tamano_bounds: "0 < tamano n" "tamano n \<le> 256"
  using less_imp_le [OF unat_u8_less [of n]] by (auto simp: tamano_def unat_gt_0)

lemma tamano_of_nat: "1 \<le> k \<Longrightarrow> k \<le> 256 \<Longrightarrow> tamano (of_nat k) = k"
proof -
  assume k: "1 \<le> k" "k \<le> 256"
  show ?thesis
  proof (cases "k = 256")
    case False
    with k have "unat (of_nat k :: u8) = k" by (simp add: unat_of_nat)
    with k show ?thesis by (auto simp: tamano_def)
  qed (simp add: tamano_def)
qed

lemma trocear_cong:
  "dropWhile (\<lambda>b. b \<noteq> HEADER_RX) a = dropWhile (\<lambda>b. b \<noteq> HEADER_RX) b \<Longrightarrow> trocear a = trocear b"
  by (simp add: trocear.simps [of a] trocear.simps [of b])

lemma trocear_skip [simp]: "b \<noteq> HEADER_RX \<Longrightarrow> trocear (b # bs) = trocear bs"
  by (rule trocear_cong) simp

lemma trocear_short [simp]:
  "trocear [] = ([], [])" "trocear [HEADER_RX] = ([], [HEADER_RX])"
  "trocear [HEADER_RX, hi] = ([], [HEADER_RX, hi])"
  "trocear [HEADER_RX, hi, lo] = ([], [HEADER_RX, hi, lo])"
  by (simp_all add: trocear.simps)

lemma trocear_frame:
  "trocear (HEADER_RX # hi # lo # n # ds) =
     (if length ds < tamano n then ([], HEADER_RX # hi # lo # n # ds)
      else let (fs, r) = trocear (drop (tamano n) ds)
           in ((tipo_de hi lo, take (tamano n) ds) # fs, r))"
  by (simp add: trocear.simps [of "HEADER_RX # hi # lo # n # ds"])

lemma dropWhile_append_nonempty:
  "dropWhile P c \<noteq> [] \<Longrightarrow> dropWhile P (c @ d) = dropWhile P c @ d"
  by (induction c) auto

text \<open>The unread rest of a stream starts with a header and holds no complete frame.\<close>

lemma trocear_append:
  "trocear c = (fs, r) \<Longrightarrow>
     trocear (c @ d) = (let (gs, r') = trocear (r @ d) in (fs @ gs, r'))"
proof (induction c arbitrary: fs r rule: trocear.induct)
  case (1 c)
  let ?P = "\<lambda>b. b \<noteq> HEADER_RX"
  show ?case
  proof (cases "dropWhile ?P c")
    case Nil
    then have "\<forall>x \<in> set c. ?P x" by (simp add: dropWhile_eq_Nil_conv)
    then have "trocear (c @ d) = trocear d" by (intro trocear_cong) (simp add: dropWhile_append)
    moreover have "fs = [] \<and> r = []" using 1(2) trocear.simps [of c] unfolding Nil by simp
    ultimately show ?thesis by (simp split: prod.splits)
  next
    case (Cons h xs)
    have h: "h = HEADER_RX" using hd_dropWhile [of ?P c] unfolding Cons by simp
    have dd: "dropWhile ?P (c @ d) = h # xs @ d"
      using dropWhile_append_nonempty [of ?P c d] unfolding Cons by simp
    have ca: "trocear (c @ d) = trocear (h # xs @ d)" by (rule trocear_cong) (simp add: dd h)
    have cc: "trocear c = trocear (h # xs)" by (rule trocear_cong) (simp add: Cons h)
    show ?thesis
    proof (cases "\<exists>hi lo n ds. xs = hi # lo # n # ds \<and> tamano n \<le> length ds")
      case True
      then obtain hi lo n ds where xs: "xs = hi # lo # n # ds" "tamano n \<le> length ds" by blast
      obtain gs r0 where g: "trocear (drop (tamano n) ds) = (gs, r0)" by force
      have fr: "fs = (tipo_de hi lo, take (tamano n) ds) # gs" "r = r0"
        using 1(2) xs g by (auto simp: cc h trocear_frame)
      have "trocear (drop (tamano n) ds @ d) = (let (gs', r') = trocear (r0 @ d) in (gs @ gs', r'))"
        by (rule 1(1)) (use Cons xs g in auto)
      with xs fr show ?thesis by (simp add: ca h trocear_frame split: prod.splits)
    next
      case False
      then have "trocear (h # xs) = ([], h # xs)"
        by (auto simp: h trocear.simps [of "HEADER_RX # xs"] split: list.splits)
      with 1(2) cc have "fs = []" "r = h # xs" by auto
      then show ?thesis by (simp add: ca split: prod.splits)
    qed
  qed
qed

lemma trocear_trama: "trama_ok f \<Longrightarrow> trocear (trama f @ bs) = (let (fs, r) = trocear bs in (f # fs, r))"
proof -
  assume ok: "trama_ok f"
  have hd: "HEADER_TX = HEADER_RX" by (simp add: link_consts)
  have "tamano (of_nat (length (snd f))) = length (snd f)"
    using ok by (simp add: trama_ok_def tamano_of_nat)
  then show ?thesis
    unfolding trama_def hd by (simp add: trocear_frame split: prod.splits)
qed

lemma trocear_tramas:
  "\<forall>f \<in> set fs. trama_ok f \<Longrightarrow> trocear (concat (map trama fs)) = (fs, [])"
  by (induction fs) (simp_all add: trocear_trama)

lemma entregar_append: "entregar p (xs @ ys) bs = entregar p ys (entregar p xs bs)"
  by (induction p xs bs rule: entregar.induct) simp_all

section \<open>Correctness of the receiver\<close>

text \<open>
  The type invariant of the receiver: one of the four states, and while a block is being received
  the bytes that are still expected fit behind the pointer.
\<close>

definition inv_receptor :: "receptor \<Rightarrow> bool" where
  "inv_receptor r \<longleftrightarrow>
     estado_recepcion r \<in> {ESPERANDO_HEADER, ESPERANDO_TIPO, ESPERANDO_LONGITUD, RECIBIENDO_BLOQUE}
     \<and> length (buffer_rx_local r) = 256
     \<and> cnt_fin_bloque r \<le> TIMEOUT_RX_BLOQUE
     \<and> (estado_recepcion r = RECIBIENDO_BLOQUE \<longrightarrow>
          0 < longitud_bloque r \<and> unat (puntero_rx_local r) + unat (longitud_bloque r) \<le> 256)"

text \<open>
  How the unread rest of the stream is held in the receiver, \<open>buf\<close> being the buffer as the last
  complete frame left it.
\<close>

definition refleja :: "bytes \<Rightarrow> bytes \<Rightarrow> receptor \<Rightarrow> bool" where
  "refleja r buf x \<longleftrightarrow> length buf = 256 \<and>
     (case r of
        [] \<Rightarrow> estado_recepcion x = ESPERANDO_HEADER \<and> buffer_rx_local x = buf
      | [h] \<Rightarrow> h = HEADER_RX \<and> estado_recepcion x = ESPERANDO_TIPO \<and> buffer_rx_local x = buf
      | [h, hi] \<Rightarrow> False
      | [h, hi, lo] \<Rightarrow> h = HEADER_RX \<and> estado_recepcion x = ESPERANDO_LONGITUD
          \<and> tipo_bloque x = tipo_de hi lo \<and> buffer_rx_local x = buf
      | h # hi # lo # n # ds \<Rightarrow> h = HEADER_RX \<and> estado_recepcion x = RECIBIENDO_BLOQUE
          \<and> tipo_bloque x = tipo_de hi lo \<and> length ds < tamano n
          \<and> puntero_rx_local x = of_nat (length ds)
          \<and> longitud_bloque x = of_nat (tamano n - length ds)
          \<and> buffer_rx_local x = blit buf 0 ds)"

text \<open>
  The link is up to date with the bytes \<open>c\<close> consumed since the state \<open>ini\<close>: the complete frames
  have been delivered, in order, and the rest is in the receiver.
\<close>

definition al_dia :: "'s handler \<Rightarrow> bytes \<times> 's \<Rightarrow> bytes \<Rightarrow> 's enlace \<Rightarrow> bool" where
  "al_dia procesar ini c e \<longleftrightarrow>
     refleja (snd (trocear c)) (fst (entregar procesar (fst (trocear c)) ini)) (rx e)
     \<and> nucleo e = snd (entregar procesar (fst (trocear c)) ini)"

lemma al_dia_extend:
  assumes "trocear c = (fs, r)" "trocear (r @ d) = (gs, r')"
  shows "al_dia p ini (c @ d) e \<longleftrightarrow>
    refleja r' (fst (entregar p gs (entregar p fs ini))) (rx e)
    \<and> nucleo e = snd (entregar p gs (entregar p fs ini))"
  by (simp add: al_dia_def trocear_append [OF assms(1)] assms(2) entregar_append)

lemma refleja_states:
  "estado_recepcion x = ESPERANDO_HEADER \<Longrightarrow> refleja r buf x \<longleftrightarrow>
     r = [] \<and> length buf = 256 \<and> buffer_rx_local x = buf"
  "estado_recepcion x = ESPERANDO_TIPO \<Longrightarrow> refleja r buf x \<longleftrightarrow>
     r = [HEADER_RX] \<and> length buf = 256 \<and> buffer_rx_local x = buf"
  "estado_recepcion x = ESPERANDO_LONGITUD \<Longrightarrow> refleja r buf x \<longleftrightarrow>
     (\<exists>hi lo. r = [HEADER_RX, hi, lo] \<and> tipo_bloque x = tipo_de hi lo) \<and> length buf = 256
     \<and> buffer_rx_local x = buf"
  "estado_recepcion x = RECIBIENDO_BLOQUE \<Longrightarrow> refleja r buf x \<longleftrightarrow>
     (\<exists>hi lo n ds. r = HEADER_RX # hi # lo # n # ds \<and> tipo_bloque x = tipo_de hi lo
        \<and> length ds < tamano n \<and> puntero_rx_local x = of_nat (length ds)
        \<and> longitud_bloque x = of_nat (tamano n - length ds) \<and> buffer_rx_local x = blit buf 0 ds)
     \<and> length buf = 256"
  by (auto simp: refleja_def link_consts split: list.splits)

lemma refleja_estado:
  "refleja r buf x \<Longrightarrow> estado_recepcion x \<in>
     {ESPERANDO_HEADER, ESPERANDO_TIPO, ESPERANDO_LONGITUD, RECIBIENDO_BLOQUE}"
  by (auto simp: refleja_def split: list.splits)

lemma refleja_timer [simp]:
  "refleja r buf (x\<lparr>cnt_fin_bloque := k\<rparr>) = refleja r buf x"
  by (simp add: refleja_def split: list.splits)

text \<open>
  The timing under which a stream is not cut: no poll finds the UART empty and the timer expired
  in the middle of a frame, and the UART buffer does not overflow. Nothing is asked of the sizes
  of the pieces in which the bytes arrive, nor of the number of polls between them.
\<close>

fun llegadas :: "suceso list \<Rightarrow> bytes" where
  "llegadas [] = []"
| "llegadas (Llegan bs # evs) = bs @ llegadas evs"
| "llegadas (ev # evs) = llegadas evs"

definition sin_corte :: "('s \<Rightarrow> bool) \<Rightarrow> suceso \<Rightarrow> 's enlace \<Rightarrow> bool" where
  "sin_corte parado ev e =
     (case ev of
        Llegan bs \<Rightarrow> length (serie e) + length bs \<le> MAX_SERIE
      | Tick \<Rightarrow> True
      | Sondeo \<Rightarrow> parado (nucleo e) \<or> serie e \<noteq> [] \<or> cnt_fin_bloque (rx e) \<noteq> 0
                  \<or> estado_recepcion (rx e) = ESPERANDO_HEADER)"

fun en_plazo ::
  "('s \<Rightarrow> bool) \<Rightarrow> 's handler \<Rightarrow> suceso list \<Rightarrow> 's enlace \<Rightarrow> bool" where
  "en_plazo parado procesar [] e = True"
| "en_plazo parado procesar (ev # evs) e =
     (sin_corte parado ev e \<and>
      (case paso_enlace parado procesar ev e of
         None \<Rightarrow> False
       | Some e' \<Rightarrow> en_plazo parado procesar evs e'))"

text \<open>No frame of the list starts an update of the PSoC, which stops the receiver.\<close>

definition sin_parada ::
  "('s \<Rightarrow> bool) \<Rightarrow> 's handler \<Rightarrow> (u16 \<times> bytes) list \<Rightarrow> bytes \<times> 's \<Rightarrow> bool" where
  "sin_parada parado procesar fs ini =
     list_all (\<lambda>n. \<not> parado (snd (entregar procesar (take n fs) ini))) [0..<Suc (length fs)]"

lemma sin_paradaD:
  "sin_parada p h (fs @ gs) ini \<Longrightarrow> \<not> p (snd (entregar h fs ini))"
  unfolding sin_parada_def list_all_iff by (auto dest!: bspec [of _ _ "length fs"])

lemma inv_onTimer10ms: "inv_receptor r \<Longrightarrow> inv_receptor (onTimer10ms r)"
proof -
  assume i: "inv_receptor r"
  have "cnt_fin_bloque r \<noteq> 0 \<Longrightarrow> cnt_fin_bloque r - 1 \<le> cnt_fin_bloque r"
    by (simp add: word_le_nat_alt unat_minus_one)
  with i show ?thesis by (auto simp: inv_receptor_def onTimer10ms_def)
qed

text \<open>One poll that finds bytes, per state of the receiver.\<close>

lemma sondeo_paso:
  fixes e :: "'s enlace"
  assumes "\<not> parado (nucleo e)" "serie e = b # bs" "length (serie e) \<le> MAX_SERIE"
  defines "r \<equiv> (rx e)\<lparr>cnt_fin_bloque := TIMEOUT_RX_BLOQUE\<rparr>"
  shows "estado_recepcion (rx e) = ESPERANDO_HEADER \<Longrightarrow> proceso_recepcion parado procesar e =
      Some (e\<lparr>serie := bs, rx := if b \<noteq> HEADER_RX then r
                                else r\<lparr>estado_recepcion := ESPERANDO_TIPO\<rparr>\<rparr>)"
    and "estado_recepcion (rx e) = ESPERANDO_TIPO \<Longrightarrow> proceso_recepcion parado procesar e =
      (case bs of [] \<Rightarrow> Some (e\<lparr>rx := r\<rparr>)
       | b2 # bs2 \<Rightarrow> Some (e\<lparr>serie := bs2, rx := r\<lparr>tipo_bloque := tipo_de b b2,
                              estado_recepcion := ESPERANDO_LONGITUD\<rparr>\<rparr>))"
    and "estado_recepcion (rx e) = ESPERANDO_LONGITUD \<Longrightarrow> proceso_recepcion parado procesar e =
      Some (e\<lparr>serie := bs, rx := r\<lparr>longitud_bloque := of_nat (tamano b),
                 puntero_rx_local := 0, estado_recepcion := RECIBIENDO_BLOQUE\<rparr>\<rparr>)"
    and "estado_recepcion (rx e) = RECIBIENDO_BLOQUE \<Longrightarrow> proceso_recepcion parado procesar e =
      recibir_bytes procesar (length (serie e)) (e\<lparr>rx := r\<rparr>)"
proof -
  have l: "unat (of_nat (Suc (length bs)) :: u16) = Suc (length bs)"
    using assms(2,3) by (simp add: unat_of_nat MAX_SERIE_def del: of_nat_Suc)
  have n0: "(of_nat (Suc (length bs)) :: u16) \<noteq> 0" using l by (metis nat.distinct(1) unat_0)
  have n2: "((of_nat (Suc (length bs)) :: u16) < 2) = (bs = [])"
    unfolding word_less_nat_alt l by simp
  have "unat (ucast b :: u16) = unat b"
    by (simp add: unsigned_ucast_eq take_bit_nat_eq_self_iff less_trans [OF unat_u8_less])
  then have "(ucast b = (0 :: u16)) = (b = 0)" by (simp add: word_unat_eq_iff)
  then have lb: "(if ucast b = (0 :: u16) then 256 else ucast b :: u16) = of_nat (tamano b)"
    by (simp add: tamano_def)
  note defs = assms(1,2) r_def n0 n2 l proceso_recepcion_def Let_def
  show "estado_recepcion (rx e) = ESPERANDO_HEADER \<Longrightarrow> proceso_recepcion parado procesar e =
      Some (e\<lparr>serie := bs, rx := if b \<noteq> HEADER_RX then r
                                else r\<lparr>estado_recepcion := ESPERANDO_TIPO\<rparr>\<rparr>)"
    by (simp add: defs del: of_nat_Suc)
  show "estado_recepcion (rx e) = ESPERANDO_TIPO \<Longrightarrow> proceso_recepcion parado procesar e =
      (case bs of [] \<Rightarrow> Some (e\<lparr>rx := r\<rparr>)
       | b2 # bs2 \<Rightarrow> Some (e\<lparr>serie := bs2, rx := r\<lparr>tipo_bloque := tipo_de b b2,
                              estado_recepcion := ESPERANDO_LONGITUD\<rparr>\<rparr>))"
    by (simp add: defs tipo_de_def link_consts del: of_nat_Suc split: list.splits)
  show "estado_recepcion (rx e) = ESPERANDO_LONGITUD \<Longrightarrow> proceso_recepcion parado procesar e =
      Some (e\<lparr>serie := bs, rx := r\<lparr>longitud_bloque := of_nat (tamano b),
                 puntero_rx_local := 0, estado_recepcion := RECIBIENDO_BLOQUE\<rparr>\<rparr>)"
    using lb by (simp add: defs link_consts del: of_nat_Suc)
  show "estado_recepcion (rx e) = RECIBIENDO_BLOQUE \<Longrightarrow> proceso_recepcion parado procesar e =
      recibir_bytes procesar (length (serie e)) (e\<lparr>rx := r\<rparr>)"
    by (simp add: defs link_consts del: of_nat_Suc recibir_bytes.simps)
qed

lemma sondeo_vacio:
  "serie e = [] \<Longrightarrow> proceso_recepcion parado procesar e =
     Some (if parado (nucleo e) \<or> cnt_fin_bloque (rx e) \<noteq> 0 then e
           else e\<lparr>rx := (rx e)\<lparr>puntero_rx_local := 0, estado_recepcion := ESPERANDO_HEADER\<rparr>\<rparr>)"
  by (simp add: proceso_recepcion_def)

text \<open>The interface of the block handler: it keeps the size of the receive buffer.\<close>

locale block_handler =
  fixes parado :: "'s \<Rightarrow> bool"
    and procesar :: "'s handler"
  assumes length_procesar: "length b = 256 \<Longrightarrow> length (fst (procesar t b s)) = 256"
begin

lemma recibir_bytes_inv:
  "inv_receptor (rx e) \<Longrightarrow> estado_recepcion (rx e) = RECIBIENDO_BLOQUE \<Longrightarrow>
     k \<le> length (serie e) \<Longrightarrow> \<exists>e'. recibir_bytes procesar k e = Some e' \<and> inv_receptor (rx e')"
proof (induction k arbitrary: e)
  case (Suc k)
  let ?r = "rx e"
  let ?l = "longitud_bloque ?r" and ?p = "puntero_rx_local ?r"
  from Suc.prems have inv: "0 < ?l" "unat ?p + unat ?l \<le> 256" "length (buffer_rx_local ?r) = 256"
      "cnt_fin_bloque ?r \<le> TIMEOUT_RX_BLOQUE"
    by (auto simp: inv_receptor_def)
  obtain b bs where ser: "serie e = b # bs" using Suc.prems(3) by (cases "serie e") auto
  have l: "0 < unat ?l" "unat (?l - 1) = unat ?l - 1"
    using inv(1) by (simp_all add: unat_gt_0 word_neq_0_conv unat_minus_one)
  have p: "unat (?p + 1) = unat ?p + 1"
    using inv(2) l(1) by (simp add: unat_word_ariths)
  define buf where "buf = blit (buffer_rx_local ?r) (unat ?p) [b]"
  have w: "mem_write (buffer_rx_local ?r) (unat ?p) [b] = Some buf" and lb: "length buf = 256"
    using inv l(1) by (simp_all add: buf_def)
  show ?case
  proof (cases "?l - 1 = 0")
    case True
    obtain buf' s' where pr: "procesar (tipo_bloque ?r) buf (nucleo e) = (buf', s')" by force
    with length_procesar [OF lb] have "length buf' = 256" by (metis fst_conv)
    with True pr inv(1,4) ser w show ?thesis
      by (simp add: inv_receptor_def link_consts)
  next
    case False
    let ?e = "e\<lparr>rx := ?r\<lparr>buffer_rx_local := buf, puntero_rx_local := ?p + 1,
                 longitud_bloque := ?l - 1\<rparr>, serie := bs\<rparr>"
    have "0 < ?l - 1" using False word_gt_0 [of "?l - 1"] by metis
    then have "inv_receptor (rx ?e)"
      using Suc.prems(2) inv l p lb by (auto simp: inv_receptor_def)
    from Suc.IH [OF this] Suc.prems(2,3) ser
    obtain e' where "recibir_bytes procesar k ?e = Some e'" "inv_receptor (rx e')" by auto
    with False inv(1) ser w show ?thesis by simp
  qed
qed simp

lemma recibir_bytes_sim:
  "al_dia procesar ini c e \<Longrightarrow> estado_recepcion (rx e) = RECIBIENDO_BLOQUE \<Longrightarrow>
     k \<le> length (serie e) \<Longrightarrow>
     \<exists>e' d. recibir_bytes procesar k e = Some e' \<and> serie e = d @ serie e' \<and> (0 < k \<longrightarrow> d \<noteq> [])
       \<and> al_dia procesar ini (c @ d) e'"
proof (induction k arbitrary: e c)
  case 0
  then show ?case by (intro exI [of _ e] exI [of _ "[]"]) simp
next
  case (Suc k)
  let ?r = "rx e"
  obtain fs r where c: "trocear c = (fs, r)" by force
  obtain buf0 s0 where ini: "entregar procesar fs ini = (buf0, s0)" by force
  from Suc.prems(1,2) obtain hi lo n ds where
      r: "r = HEADER_RX # hi # lo # n # ds" "tipo_bloque ?r = tipo_de hi lo"
        "length ds < tamano n" "puntero_rx_local ?r = of_nat (length ds)"
        "longitud_bloque ?r = of_nat (tamano n - length ds)"
        "buffer_rx_local ?r = blit buf0 0 ds" "length buf0 = 256" "nucleo e = s0"
    by (auto simp: al_dia_def c ini refleja_states(4))
  obtain b bs where ser: "serie e = b # bs" using Suc.prems(3) by (cases "serie e") auto
  have t: "tamano n \<le> 256" by (rule tamano_bounds)
  have up: "unat (puntero_rx_local ?r) = length ds"
    using r(3,4) t by (simp add: unat_of_nat)
  have ll: "longitud_bloque ?r - 1 = of_nat (tamano n - Suc (length ds))"
    using r(3,5) by (simp add: of_nat_diff)
  have pp: "puntero_rx_local ?r + 1 = of_nat (length (ds @ [b]))" using r(4) by simp
  have l0: "0 < longitud_bloque ?r"
  proof -
    have "unat (longitud_bloque ?r) = tamano n - length ds" using r(5) t by (simp add: unat_of_nat)
    with r(3) show ?thesis by (simp add: word_neq_0_conv [symmetric] unat_gt_0 [symmetric])
  qed
  have w: "mem_write (blit buf0 0 ds) (length ds) [b] = Some (blit buf0 0 (ds @ [b]))"
    using r(3,7) t blit_append [of 0 ds "[b]" buf0] by simp
  show ?case
  proof (cases "tamano n = Suc (length ds)")
    case True
    obtain buf' s' where pr: "procesar (tipo_de hi lo) (blit buf0 0 (ds @ [b])) s0 = (buf', s')"
      by force
    have "length (blit buf0 0 (ds @ [b])) = 256" using r(7) True t by simp
    from length_procesar [OF this] pr have lb: "length buf' = 256" by (metis fst_conv)
    have tr: "trocear (r @ [b]) = ([(tipo_de hi lo, ds @ [b])], [])"
      by (simp add: r(1) trocear_frame True)
    let ?e = "\<lparr>rx = ?r\<lparr>buffer_rx_local := buf', puntero_rx_local := 0,
                 longitud_bloque := 0, estado_recepcion := ESPERANDO_HEADER\<rparr>,
              serie = bs, nucleo = s'\<rparr>"
    have "recibir_bytes procesar (Suc k) e = Some ?e"
      using True l0 ser w r(2,6,8) up ll pr by simp
    moreover have "al_dia procesar ini (c @ [b]) ?e"
      by (simp add: al_dia_extend [OF c tr] ini pr lb refleja_def)
    ultimately show ?thesis using ser by auto
  next
    case False
    then have lt: "length (ds @ [b]) < tamano n" using r(3) by simp
    have tr: "trocear (r @ [b]) = ([], HEADER_RX # hi # lo # n # ds @ [b])"
      using lt by (simp add: r(1) trocear_frame)
    let ?e = "e\<lparr>rx := ?r\<lparr>buffer_rx_local := blit buf0 0 (ds @ [b]),
                 puntero_rx_local := puntero_rx_local ?r + 1,
                 longitud_bloque := longitud_bloque ?r - 1\<rparr>, serie := bs\<rparr>"
    have ld: "longitud_bloque ?r - 1 = of_nat (tamano n - length (ds @ [b]))" using ll by simp
    have al: "al_dia procesar ini (c @ [b]) ?e"
      using Suc.prems(2) r(2,7,8) lt ld pp
      by (simp add: al_dia_extend [OF c tr] ini refleja_def)
    have nz: "longitud_bloque ?r - 1 \<noteq> 0"
    proof -
      have "unat (longitud_bloque ?r - 1) = tamano n - Suc (length ds)"
        unfolding ll using t by (simp add: unat_of_nat)
      with lt show ?thesis by auto
    qed
    have eq: "recibir_bytes procesar (Suc k) e = recibir_bytes procesar k ?e"
      using l0 ser w r(6) up nz by simp
    from Suc.IH [OF al] Suc.prems(2,3) ser obtain e' d where
      "recibir_bytes procesar k ?e = Some e'" "bs = d @ serie e'"
      "al_dia procesar ini ((c @ [b]) @ d) e'" by auto
    then show ?thesis unfolding eq ser by (intro exI [of _ e'] exI [of _ "b # d"]) simp
  qed
qed

lemma recibir_bytes_serie:
  "recibir_bytes procesar k e = Some e' \<Longrightarrow> length (serie e') \<le> length (serie e)"
proof (induction k arbitrary: e)
  case (Suc k)
  then show ?case
    by (fastforce simp: Let_def split: if_splits option.splits prod.splits dest!: Suc.IH)
qed simp

lemma proceso_recepcion_inv:
  assumes "inv_receptor (rx e)" "length (serie e) \<le> MAX_SERIE"
  shows "\<exists>e'. proceso_recepcion parado procesar e = Some e' \<and> inv_receptor (rx e')
    \<and> length (serie e') \<le> length (serie e)"
proof (cases "parado (nucleo e) \<or> serie e = []")
  case True
  have "parado (nucleo e) \<Longrightarrow> proceso_recepcion parado procesar e = Some e"
    by (simp add: proceso_recepcion_def)
  with True assms(1) show ?thesis
    by (cases "parado (nucleo e)") (auto simp: sondeo_vacio inv_receptor_def link_consts)
next
  case False
  then obtain b bs where ser: "serie e = b # bs" by (cases "serie e") auto
  let ?r = "(rx e)\<lparr>cnt_fin_bloque := TIMEOUT_RX_BLOQUE\<rparr>"
  note paso = sondeo_paso [where parado = parado and procesar = procesar, OF _ ser assms(2)]
  have ir: "inv_receptor ?r" using assms(1) by (simp add: inv_receptor_def)
  consider "estado_recepcion (rx e) = ESPERANDO_HEADER" | "estado_recepcion (rx e) = ESPERANDO_TIPO"
    | "estado_recepcion (rx e) = ESPERANDO_LONGITUD" | "estado_recepcion (rx e) = RECIBIENDO_BLOQUE"
    using assms(1) by (auto simp: inv_receptor_def)
  then show ?thesis
  proof cases
    case 1
    with paso(1) False ir ser show ?thesis by (auto simp: inv_receptor_def link_consts)
  next
    case 2
    with paso(2) False ir ser show ?thesis
      by (auto simp: inv_receptor_def link_consts split: list.splits)
  next
    case 3
    have "unat (of_nat (tamano b) :: u16) = tamano b"
      using tamano_bounds(2) [of b] by (simp add: unat_of_nat)
    moreover from this tamano_bounds(1) [of b] have "0 < (of_nat (tamano b) :: u16)"
      by (metis unat_gt_0 word_gt_0)
    ultimately show ?thesis using 3 paso(3) False ir ser tamano_bounds(2) [of b]
      by (auto simp: inv_receptor_def link_consts)
  next
    case 4
    with recibir_bytes_inv [of "e\<lparr>rx := ?r\<rparr>" "length (serie e)"] ir obtain e' where
      e': "recibir_bytes procesar (length (serie e)) (e\<lparr>rx := ?r\<rparr>) = Some e'" "inv_receptor (rx e')"
      by auto
    with paso(4) False 4 have "proceso_recepcion parado procesar e = Some e'" by simp
    with e' recibir_bytes_serie [OF e'(1)] show ?thesis by auto
  qed
qed

lemma proceso_recepcion_sim:
  assumes al: "al_dia procesar ini c e" and len: "length (serie e) \<le> MAX_SERIE"
    and sc: "sin_corte parado Sondeo e"
  shows "\<exists>e' d. proceso_recepcion parado procesar e = Some e' \<and> serie e = d @ serie e'
    \<and> al_dia procesar ini (c @ d) e'
    \<and> (d = [] \<longrightarrow> parado (nucleo e) \<or> serie e = []
        \<or> (estado_recepcion (rx e) = ESPERANDO_TIPO \<and> length (serie e) = 1))"
proof (cases "parado (nucleo e) \<or> serie e = []")
  case True
  have "\<exists>e'. proceso_recepcion parado procesar e = Some e' \<and> serie e' = serie e
    \<and> al_dia procesar ini c e'"
    using True al sc
    by (cases "parado (nucleo e) \<or> cnt_fin_bloque (rx e) \<noteq> 0")
      (auto simp: proceso_recepcion_def sin_corte_def al_dia_def refleja_states)
  with True show ?thesis by auto
next
  case False
  then obtain b bs where ser: "serie e = b # bs" by (cases "serie e") auto
  let ?r = "(rx e)\<lparr>cnt_fin_bloque := TIMEOUT_RX_BLOQUE\<rparr>"
  note paso = sondeo_paso [where parado = parado and procesar = procesar, OF _ ser len]
  obtain fs r where c: "trocear c = (fs, r)" by force
  obtain buf s where ini: "entregar procesar fs ini = (buf, s)" by force
  have ref: "refleja r buf (rx e)" "nucleo e = s" using al by (simp_all add: al_dia_def c ini)
  consider "estado_recepcion (rx e) = ESPERANDO_HEADER" | "estado_recepcion (rx e) = ESPERANDO_TIPO"
    | "estado_recepcion (rx e) = ESPERANDO_LONGITUD" | "estado_recepcion (rx e) = RECIBIENDO_BLOQUE"
    using refleja_estado [OF ref(1)] by auto
  then show ?thesis
  proof cases
    case 1
    with ref(1) have r: "r = []" "length buf = 256" "buffer_rx_local (rx e) = buf"
      by (auto simp: refleja_states)
    have tr: "trocear (r @ [b]) = ([], if b = HEADER_RX then [HEADER_RX] else [])"
      by (simp add: r)
    let ?e = "e\<lparr>serie := bs, rx := if b \<noteq> HEADER_RX then ?r
                                  else ?r\<lparr>estado_recepcion := ESPERANDO_TIPO\<rparr>\<rparr>"
    have "al_dia procesar ini (c @ [b]) ?e"
      using 1 r ref(2) by (simp add: al_dia_extend [OF c tr] ini refleja_def)
    then show ?thesis using paso(1) False 1 ser
      by (intro exI [of _ ?e] exI [of _ "[b]"]) simp
  next
    case 2
    with ref(1) have r: "r = [HEADER_RX]" "length buf = 256" "buffer_rx_local (rx e) = buf"
      by (auto simp: refleja_states)
    show ?thesis
    proof (cases bs)
      case Nil
      have "al_dia procesar ini (c @ []) (e\<lparr>rx := ?r\<rparr>)" using al by (simp add: al_dia_def)
      then show ?thesis using ser Nil 2 paso(2) False
        by (intro exI [of _ "e\<lparr>rx := ?r\<rparr>"] exI [of _ "[]"]) simp
    next
      case (Cons b2 bs2)
      have tr: "trocear (r @ [b, b2]) = ([], [HEADER_RX, b, b2])" by (simp add: r)
      let ?e = "e\<lparr>serie := bs2, rx := ?r\<lparr>tipo_bloque := tipo_de b b2,
                   estado_recepcion := ESPERANDO_LONGITUD\<rparr>\<rparr>"
      have "al_dia procesar ini (c @ [b, b2]) ?e"
        using r ref(2) by (simp add: al_dia_extend [OF c tr] ini refleja_def)
      then show ?thesis using ser Cons 2 paso(2) False
        by (intro exI [of _ ?e] exI [of _ "[b, b2]"]) simp
    qed
  next
    case 3
    with ref(1) obtain hi lo where r: "r = [HEADER_RX, hi, lo]" "tipo_bloque (rx e) = tipo_de hi lo"
        "length buf = 256" "buffer_rx_local (rx e) = buf"
      by (auto simp: refleja_states)
    have tr: "trocear (r @ [b]) = ([], [HEADER_RX, hi, lo, b])"
      using tamano_bounds [of b] by (simp add: r trocear_frame)
    let ?e = "e\<lparr>serie := bs, rx := ?r\<lparr>longitud_bloque := of_nat (tamano b),
                 puntero_rx_local := 0, estado_recepcion := RECIBIENDO_BLOQUE\<rparr>\<rparr>"
    have "al_dia procesar ini (c @ [b]) ?e"
      using r ref(2) tamano_bounds(1) [of b]
      by (simp add: al_dia_extend [OF c tr] ini refleja_def blit_def)
    then show ?thesis using ser 3 paso(3) False
      by (intro exI [of _ ?e] exI [of _ "[b]"]) simp
  next
    case 4
    have "al_dia procesar ini c (e\<lparr>rx := ?r\<rparr>)" using al by (simp add: al_dia_def)
    from recibir_bytes_sim [OF this, of "length (serie e)"] 4 ser obtain e' d where
      "recibir_bytes procesar (length (serie e)) (e\<lparr>rx := ?r\<rparr>) = Some e'" "serie e = d @ serie e'"
      "d \<noteq> []" "al_dia procesar ini (c @ d) e'" by auto
    then show ?thesis using 4 paso(4) False
      by (intro exI [of _ e'] exI [of _ d]) simp
  qed
qed

text \<open>Whole runs: the type invariant, and the simulation by the reference definition.\<close>

lemma correr_inv:
  "inv_receptor (rx e) \<Longrightarrow> length (serie e) \<le> MAX_SERIE \<Longrightarrow>
     \<exists>e'. correr parado procesar evs e = Some e' \<and> inv_receptor (rx e')
       \<and> length (serie e') \<le> MAX_SERIE"
proof (induction evs arbitrary: e)
  case (Cons ev evs)
  have "\<exists>e1. paso_enlace parado procesar ev e = Some e1 \<and> inv_receptor (rx e1)
    \<and> length (serie e1) \<le> MAX_SERIE"
  proof (cases ev)
    case Sondeo
    with proceso_recepcion_inv [OF Cons.prems] Cons.prems(2) show ?thesis
      by (force simp: paso_enlace_def)
  qed (use Cons.prems inv_onTimer10ms in \<open>auto simp: paso_enlace_def inv_receptor_def\<close>)
  then obtain e1 where "paso_enlace parado procesar ev e = Some e1" "inv_receptor (rx e1)"
    "length (serie e1) \<le> MAX_SERIE" by blast
  with Cons.IH [of e1] show ?case by simp
qed simp

lemma correr_sim:
  "al_dia procesar ini c e \<Longrightarrow> length (serie e) \<le> MAX_SERIE \<Longrightarrow> en_plazo parado procesar evs e \<Longrightarrow>
     \<exists>e' d. correr parado procesar evs e = Some e' \<and> serie e @ llegadas evs = d @ serie e'
       \<and> al_dia procesar ini (c @ d) e' \<and> length (serie e') \<le> MAX_SERIE"
proof (induction evs arbitrary: e c)
  case Nil
  then show ?case by (intro exI [of _ e] exI [of _ "[]"]) simp
next
  case (Cons ev evs)
  have "\<exists>e1 d. paso_enlace parado procesar ev e = Some e1
    \<and> serie e @ llegadas (ev # evs) = d @ serie e1 @ llegadas evs
    \<and> al_dia procesar ini (c @ d) e1 \<and> length (serie e1) \<le> MAX_SERIE"
  proof (cases ev)
    case (Llegan bs)
    with Cons.prems show ?thesis
      by (intro exI [of _ "e\<lparr>serie := serie e @ bs\<rparr>"] exI [of _ "[]"])
        (auto simp: paso_enlace_def sin_corte_def al_dia_def)
  next
    case Tick
    with Cons.prems show ?thesis
      by (intro exI [of _ "e\<lparr>rx := onTimer10ms (rx e)\<rparr>"] exI [of _ "[]"])
        (auto simp: paso_enlace_def al_dia_def onTimer10ms_def)
  next
    case Sondeo
    with Cons.prems(3) have "sin_corte parado Sondeo e" by simp
    from proceso_recepcion_sim [OF Cons.prems(1,2) this] obtain e1 d where
      p: "proceso_recepcion parado procesar e = Some e1" "serie e = d @ serie e1"
        "al_dia procesar ini (c @ d) e1" by blast
    moreover have "length (serie e1) \<le> MAX_SERIE" using Cons.prems(2) p(2) by simp
    ultimately show ?thesis using Sondeo by (auto simp: paso_enlace_def)
  qed
  then obtain e1 d where e1: "paso_enlace parado procesar ev e = Some e1"
      "serie e @ llegadas (ev # evs) = d @ serie e1 @ llegadas evs"
      "al_dia procesar ini (c @ d) e1" "length (serie e1) \<le> MAX_SERIE" by blast
  have "en_plazo parado procesar evs e1" using Cons.prems(3) e1(1) by simp
  from Cons.IH [OF e1(3,4) this] obtain e' d' where
    "correr parado procesar evs e1 = Some e'" "serie e1 @ llegadas evs = d' @ serie e'"
    "al_dia procesar ini ((c @ d) @ d') e'" "length (serie e') \<le> MAX_SERIE" by blast
  with e1 show ?case by (intro exI [of _ e'] exI [of _ "d @ d'"]) simp
qed

text \<open>A pending complete stream is consumed by as many polls as it has bytes.\<close>

lemma sondeos_vacian:
  "al_dia procesar ini c e \<Longrightarrow> trocear (c @ serie e) = (fs, []) \<Longrightarrow> sin_parada parado procesar fs ini \<Longrightarrow>
     length (serie e) \<le> k \<Longrightarrow> k \<le> MAX_SERIE \<Longrightarrow>
     \<exists>e'. correr parado procesar (replicate k Sondeo) e = Some e' \<and> serie e' = []
       \<and> al_dia procesar ini (c @ serie e) e'"
proof (induction k arbitrary: e c)
  case (Suc k)
  obtain gs r where c: "trocear c = (gs, r)" by force
  obtain hs r' where d: "trocear (r @ serie e) = (hs, r')" by force
  have fs: "fs = gs @ hs" "r' = []" using Suc.prems(2) trocear_append [OF c, of "serie e"] d by auto
  have act: "\<not> parado (nucleo e)"
    using sin_paradaD [of parado procesar gs hs ini] Suc.prems(1,3) c fs by (simp add: al_dia_def)
  have len: "length (serie e) \<le> MAX_SERIE" using Suc.prems(4,5) by simp
  have est: "refleja r (fst (entregar procesar gs ini)) (rx e)"
    using Suc.prems(1) c by (simp add: al_dia_def)
  have "serie e = [] \<Longrightarrow> estado_recepcion (rx e) = ESPERANDO_HEADER"
    using c Suc.prems(2) est by (auto simp: refleja_def)
  then have "sin_corte parado Sondeo e" by (auto simp: sin_corte_def)
  from proceso_recepcion_sim [OF Suc.prems(1) len this] obtain e1 d1 where
    e1: "proceso_recepcion parado procesar e = Some e1" "serie e = d1 @ serie e1"
      "al_dia procesar ini (c @ d1) e1"
      "d1 = [] \<Longrightarrow> serie e = [] \<or> (estado_recepcion (rx e) = ESPERANDO_TIPO \<and> length (serie e) = 1)"
    using act by blast
  have "\<not> (estado_recepcion (rx e) = ESPERANDO_TIPO \<and> length (serie e) = 1)"
  proof
    assume a: "estado_recepcion (rx e) = ESPERANDO_TIPO \<and> length (serie e) = 1"
    then obtain x where "serie e = [x]" by (cases "serie e") auto
    moreover have "r = [HEADER_RX]" using est a by (simp add: refleja_states)
    ultimately show False using d fs(2) by simp
  qed
  with e1(2,4) Suc.prems(4) have "length (serie e1) \<le> k" by (cases d1) auto
  from Suc.IH [OF e1(3) _ Suc.prems(3) this] e1(2) Suc.prems(2,5) obtain e' where
    "correr parado procesar (replicate k Sondeo) e1 = Some e'" "serie e' = []"
    "al_dia procesar ini ((c @ d1) @ serie e1) e'" by auto
  with e1(1,2) show ?case by (auto simp: paso_enlace_def)
qed simp

theorem entrega_completa:
  assumes "estado_recepcion (rx e) = ESPERANDO_HEADER" "length (buffer_rx_local (rx e)) = 256"
    "serie e = []" "en_plazo parado procesar evs e"
    "llegadas evs = concat (map trama fs)" "\<forall>f \<in> set fs. trama_ok f"
    "sin_parada parado procesar fs (buffer_rx_local (rx e), nucleo e)"
    "length (llegadas evs) \<le> k" "k \<le> MAX_SERIE"
  shows "\<exists>e'. correr parado procesar (evs @ replicate k Sondeo) e = Some e' \<and> serie e' = []
    \<and> estado_recepcion (rx e') = ESPERANDO_HEADER
    \<and> (buffer_rx_local (rx e'), nucleo e') =
        entregar procesar fs (buffer_rx_local (rx e), nucleo e)"
proof -
  let ?ini = "(buffer_rx_local (rx e), nucleo e)"
  have "al_dia procesar ?ini [] e" using assms(1,2) by (simp add: al_dia_def refleja_def)
  from correr_sim [OF this _ assms(4)] assms(3) obtain e1 d where
    e1: "correr parado procesar evs e = Some e1" "llegadas evs = d @ serie e1"
      "al_dia procesar ?ini d e1" by auto
  have tr: "trocear (d @ serie e1) = (fs, [])"
    using trocear_tramas [OF assms(6)] e1(2) assms(5) by simp
  have "length (serie e1) \<le> k" using assms(8) e1(2) by simp
  from sondeos_vacian [OF e1(3) tr assms(7) this assms(9)] obtain e' where
    e': "correr parado procesar (replicate k Sondeo) e1 = Some e'" "serie e' = []"
      "al_dia procesar ?ini (d @ serie e1) e'" by blast
  from e'(3) have "estado_recepcion (rx e') = ESPERANDO_HEADER \<and>
    (buffer_rx_local (rx e'), nucleo e') = entregar procesar fs ?ini"
    by (auto simp: al_dia_def tr refleja_def)
  with e1(1) e'(1,2) show ?thesis by (auto simp: correr_append)
qed

lemma ticks_agotan:
  "unat (cnt_fin_bloque (rx e)) \<le> n \<Longrightarrow>
     correr parado procesar (replicate n Tick) e = Some (e\<lparr>rx := (rx e)\<lparr>cnt_fin_bloque := 0\<rparr>\<rparr>)"
proof (induction n arbitrary: e)
  case (Suc n)
  let ?e = "e\<lparr>rx := onTimer10ms (rx e)\<rparr>"
  have "unat (cnt_fin_bloque (onTimer10ms (rx e))) \<le> n"
    using Suc.prems by (auto simp: onTimer10ms_def unat_minus_one)
  with Suc.IH [of ?e] show ?case by (simp add: paso_enlace_def onTimer10ms_def)
next
  case 0
  obtain r fifo s where e: "e = \<lparr>rx = r, serie = fifo, nucleo = s\<rparr>" by (cases e)
  from 0 have "cnt_fin_bloque r = 0" by (simp add: e unat_eq_0)
  then have "r\<lparr>cnt_fin_bloque := 0\<rparr> = r" by (cases r) simp
  with e show ?case by simp
qed

text \<open>
  A silence of ten timer periods and a poll bring the receiver back to the start of a frame, in
  whatever state line noise or a lost byte has left it.
\<close>

lemma resincroniza:
  assumes "inv_receptor (rx e)" "serie e = []" "\<not> parado (nucleo e)"
  shows "correr parado procesar (replicate 10 Tick @ [Sondeo]) e =
    Some (e\<lparr>rx := (rx e)\<lparr>cnt_fin_bloque := 0, puntero_rx_local := 0,
                          estado_recepcion := ESPERANDO_HEADER\<rparr>\<rparr>)"
proof -
  have "unat (cnt_fin_bloque (rx e)) \<le> 10"
    using assms(1) by (simp add: inv_receptor_def TIMEOUT_RX_BLOQUE_def word_le_nat_alt)
  from ticks_agotan [OF this] assms(2,3) show ?thesis
    by (simp add: correr_append paso_enlace_def sondeo_vacio)
qed

end

text \<open>A handler that also keeps an invariant of its own state: the link keeps it for any events.\<close>

locale typed_handler = block_handler +
  fixes tipado :: "'s \<Rightarrow> bool"
  assumes tipado_procesar: "tipado s \<Longrightarrow> length b = 256 \<Longrightarrow> tipado (snd (procesar t b s))"
begin

lemma recibir_bytes_tipado:
  "recibir_bytes procesar k e = Some e' \<Longrightarrow> length (buffer_rx_local (rx e)) = 256 \<Longrightarrow>
     tipado (nucleo e) \<Longrightarrow> tipado (nucleo e')"
proof (induction k arbitrary: e)
  case (Suc k)
  show ?case
  proof (cases "0 < longitud_bloque (rx e)")
    case True
    with Suc.prems(1) obtain buf where w: "mem_write (buffer_rx_local (rx e))
        (unat (puntero_rx_local (rx e))) (take 1 (serie e)) = Some buf"
      by (auto split: option.splits)
    from mem_write_SomeD [OF w] Suc.prems(2) have l: "length buf = 256" by simp
    have t: "tipado (snd (procesar (tipo_bloque (rx e)) buf (nucleo e)))"
      using Suc.prems(3) l by (rule tipado_procesar)
    show ?thesis
    proof (cases "longitud_bloque (rx e) - 1 = 0")
      case c0: True
      with True w Suc.prems(1) t show ?thesis by (auto simp: Let_def split: prod.splits)
    next
      case c1: False
      let ?e = "e\<lparr>rx := (rx e)\<lparr>buffer_rx_local := buf,
          puntero_rx_local := puntero_rx_local (rx e) + 1,
          longitud_bloque := longitud_bloque (rx e) - 1\<rparr>, serie := drop 1 (serie e)\<rparr>"
      have "recibir_bytes procesar k ?e = Some e'" using c1 True w Suc.prems(1) by (simp add: Let_def)
      from Suc.IH [OF this] Suc.prems(3) l show ?thesis by simp
    qed
  next
    case False
    with Suc.prems(1) have "recibir_bytes procesar k (e\<lparr>serie := drop 1 (serie e)\<rparr>) = Some e'" by simp
    from Suc.IH [OF this] Suc.prems(2,3) show ?thesis by simp
  qed
qed simp

lemma paso_tipado:
  assumes "inv_receptor (rx e)" "tipado (nucleo e)" "paso_enlace parado procesar ev e = Some e'"
  shows "tipado (nucleo e')"
proof -
  have l: "length (buffer_rx_local (rx e)) = 256" using assms(1) by (simp add: inv_receptor_def)
  have "tipado (nucleo e')" if "proceso_recepcion parado procesar e = Some e'"
    using that assms(2) l
    by (auto simp: proceso_recepcion_def Let_def split: if_splits dest: recibir_bytes_tipado)
  with assms(2,3) show ?thesis by (cases ev) (auto simp: paso_enlace_def)
qed

lemma correr_tipado:
  "inv_receptor (rx e) \<Longrightarrow> length (serie e) \<le> MAX_SERIE \<Longrightarrow> tipado (nucleo e) \<Longrightarrow>
     \<exists>e'. correr parado procesar evs e = Some e' \<and> inv_receptor (rx e')
       \<and> length (serie e') \<le> MAX_SERIE \<and> tipado (nucleo e')"
proof (induction evs arbitrary: e)
  case (Cons ev evs)
  from correr_inv [OF Cons.prems(1,2), of "[ev]"] obtain e1 where
    e1: "paso_enlace parado procesar ev e = Some e1" "inv_receptor (rx e1)"
      "length (serie e1) \<le> MAX_SERIE" by (auto split: option.splits)
  with Cons.IH [of e1] paso_tipado [OF Cons.prems(1,3) e1(1)] show ?case by simp
qed simp

end

section \<open>Correctness of the sender\<close>

lemma SendToPSOC5_trama:
  assumes "length data = unat len" "trama_ok (h, data)"
  shows "SendToPSOC5 False data len h tras = trama (h, data) @ [tras]"
proof -
  have "(of_nat (length data) :: u8) = ucast len"
    unfolding assms(1) by simp
  then show ?thesis
    using assms by (simp add: SendToPSOC5_def controlSendToSerialLocal_def trama_def)
qed

lemma SendToPSOC5_byte_trama: "SendToPSOC5_byte False b h tras = trama (h, [b]) @ [tras]"
  by (simp add: SendToPSOC5_byte_def controlSendToSerialLocal_def trama_def)

lemma trocear_enviadas:
  "\<forall>(f, tras) \<in> set fs. trama_ok f \<and> tras \<noteq> HEADER_RX \<Longrightarrow>
     trocear (concat (map (\<lambda>(f, tras). trama f @ [tras]) fs)) = (map fst fs, [])"
  by (induction fs) (auto simp: trocear_trama)

end
