(* ===== verification/Psoc_Blocks.thy ===== *)
theory Psoc_Blocks
  imports Psoc_State Psoc_Link
begin

text \<open>
  The handler of the blocks that the PSoC sends, \<open>procesar_bloque\<close> of control.cpp: one definition
  per block type, composed by the type as the \<open>switch\<close> of the code does. A handler gives the
  receive buffer (which two of the blocks change) and the state with the effects appended.
\<close>

section \<open>Start of the system\<close>

definition ESP_version_firmware :: bytes where
  "ESP_version_firmware = [86, 66, 76, 69, 51, 95, 48, 54, 49, 57, 0]"

text \<open>\<open>startSystem\<close>, called at the end of the initialisation block.\<close>

definition startSystem :: "control \<Rightarrow> control" where
  "startSystem c =
     (let texto = sprintf_02X (deviceSerNum c);
          cfg = (Configuracion c)\<lparr>FirmwareESP := ParseFirmwareVersion ESP_version_firmware,
                   FirmwarePSOC := ParseFirmwareVersion (PSOC_version_firmware c),
                   cfg_device_ID := take 12 (device_ID c),
                   cfg_deviceSerNum := blit (cfg_deviceSerNum (Configuracion c)) 0 (texto @ [0])\<rparr>;
          db = blit (Device_Db_ID (ConfigFirebase c)) 0 (texto @ [0]);
          fb = (ConfigFirebase c)\<lparr>
                 Device_Ser_num := blit (Device_Ser_num (ConfigFirebase c)) 0 (take 20 db),
                 Device_Db_ID := blit db 20 (take 8 (drop 3 (device_ID c))),
                 Device_Id := blit (Device_Id (ConfigFirebase c)) 0 (take 8 (drop 3 (device_ID c)))\<rparr>
      in emite [Auth_Init (deviceSerNum c)]
           (c\<lparr>Configuracion := cfg, ConfigFirebase := fb,
              Arranque := (if FirmwarePSOC cfg \<le> 510
                           then (Arranque c)\<lparr>dispositivo_inicializado := 2\<rparr> else Arranque c),
              Coms := (Coms c)\<lparr>StartConnection := True\<rparr>\<rparr>))"

section \<open>Block of initialisation\<close>

text \<open>The three authentication modes: ''AA'', ''WA'', ''MA''.\<close>

definition modo_valido :: "bytes \<Rightarrow> bool" where
  "modo_valido m \<longleftrightarrow> take 2 m = [65, 65] \<or> take 2 m = [87, 65] \<or> take 2 m = [77, 65]"

text \<open>
  The check of the authentication mode at position \<open>i\<close> of the buffer, shared by two blocks. The
  second component is \<open>False\<close> where the code leaves the block with \<open>break\<close>.
\<close>

definition comprobar_modo :: "nat \<Rightarrow> bytes \<Rightarrow> control \<Rightarrow> bytes \<times> bool \<times> control" where
  "comprobar_modo i buf c =
     (if \<not> modo_valido (take 2 (drop i buf))
      then if \<not> modo_valido (cfg_autentication_mode (Configuracion c))
           then (blit buf i (take 2 (cfg_autentication_mode (Configuracion c))), True, c)
           else (blit buf i [87, 65], False,
                 emite [Envia CONFIGURACION_AUTENTICATION_MODES_CHAR_HANDLE [87, 65]] c)
      else (buf, True, c\<lparr>Configuracion := (Configuracion c)\<lparr>cfg_autentication_mode :=
              blit (cfg_autentication_mode (Configuracion c)) 0 (take 2 (drop i buf))\<rparr>\<rparr>))"

text \<open>
  \<open>memcpy(Params.Fw_Update_mode, p, 2); Params.Fw_Update_mode[2] = 0\<close>: the array has two
  characters, so the terminator is written to the next member, \<open>autentication_mode[0]\<close>.
\<close>

definition poner_Fw_Update_mode :: "bytes \<Rightarrow> carac_Params \<Rightarrow> carac_Params" where
  "poner_Fw_Update_mode m p =
     p\<lparr>pa_Fw_Update_mode := take 2 m,
       pa_autentication_mode := (pa_autentication_mode p)[0 := 0]\<rparr>"

definition inicio_caracteristicas :: "(nat \<times> nat \<times> u16) list" where
  "inicio_caracteristicas =
     [(11, 1, MEASURES_INSTALATION_CURRENT_LIMIT_CHAR_HANDLE),
      (12, 6, TIME_DATE_CHARGING_START_TIME_CHAR_HANDLE),
      (18, 6, TIME_DATE_CHARGING_STOP_TIME_CHAR_HANDLE),
      (24, 1, CHARGING_INSTANT_DELAYED_CHAR_HANDLE),
      (25, 1, CHARGING_START_STOP_START_MODE_CHAR_HANDLE),
      (26, 168, SCHED_CHARGING_SCHEDULE_MATRIX_CHAR_HANDLE),
      (194, 1, VCD_NAME_USERS_USERS_NUMBER_CHAR_HANDLE),
      (195, 1, VCD_NAME_USERS_USER_TYPE_CHAR_HANDLE),
      (196, 1, VCD_NAME_USERS_USER_INDEX_CHAR_HANDLE),
      (197, 10, VERSIONES_VERSION_FIRMWARE_CHAR_HANDLE)]"

text \<open>Identity, characteristics, firmware version and record counters (first part of the block).\<close>

definition inicio_datos :: "bytes \<Rightarrow> control \<Rightarrow> control" where
  "inicio_datos buf c =
     (let c1 = c\<lparr>device_ID := blit (device_ID c) 0 (take 11 buf)\<rparr>;
          c2 = emite [Nombre (device_ID c1),
                      Modifica VCD_NAME_USERS_CHARGER_DEVICE_ID_CHAR_HANDLE (take 11 (device_ID c1))] c1;
          c3 = modifyCharacteristics inicio_caracteristicas buf c2;
          version = blit (PSOC_version_firmware c) 0 (take 10 (drop 197 buf));
          c4 = c3\<lparr>user_index := buf ! 196, PSOC_version_firmware := version,
                  Configuracion := (Configuracion c3)\<lparr>velt_v := version ! 4 - 48\<rparr>\<rparr>;
          c5 = emite [Modifica VERSIONES_VERSION_FIRM_BLE_CHAR_HANDLE (take 10 ESP_version_firmware)] c4;
          c6 = modifyCharacteristics [(207, 2, RECORDING_REC_CAPACITY_CHAR_HANDLE),
                 (209, 2, RECORDING_REC_LAST_CHAR_HANDLE)] buf c5;
          n = ucast (w16 buf 209);
          c7 = c6\<lparr>Registros := (Registros c6)\<lparr>last_record_in_mem := n, record_index := n\<rparr>\<rparr>;
          c8 = modifyCharacteristics [(211, 1, RECORDING_REC_LAPS_CHAR_HANDLE)] buf c7
      in c8\<lparr>Registros := (Registros c8)\<lparr>last_record_lap := buf ! 211, record_lap := buf ! 211\<rparr>\<rparr>)"

text \<open>Configuration and parameters (second part, after the authentication mode).\<close>

definition inicio_config :: "bytes \<Rightarrow> control \<Rightarrow> control" where
  "inicio_config buf c =
     (let c1 = modifyCharacteristics [(212, 2, CONFIGURACION_AUTENTICATION_MODES_CHAR_HANDLE)] buf c;
          c2 = modifyCharacteristics
                 [(229, 2, DOMESTIC_CONSUMPTION_POTENCIA_CONTRATADA_P1_CHAR_HANDLE),
                  (231, 1, LED_LUMIN_COLOR_LUMINOSITY_LEVEL_CHAR_HANDLE),
                  (232, 1, DOMESTIC_CONSUMPTION_DPC_MODE_CHAR_HANDLE),
                  (233, 1, MEASURES_CURRENT_COMMAND_CHAR_HANDLE),
                  (234, 2, COMS_FW_UPDATEMODE_CHAR_HANDLE),
                  (241, 2, DOMESTIC_CONSUMPTION_POTENCIA_CONTRATADA_P2_CHAR_HANDLE),
                  (243, 2, TIME_DATE_COUNTRY_CHAR_HANDLE)] buf
                 (c1\<lparr>deviceSerNum := take 10 (drop 219 buf)\<rparr>);
          cdp = buf ! 232
      in c2\<lparr>Configuracion := (Configuracion c2)\<lparr>cfg_potencia_contratada1 := w16 buf 229,
               cfg_potencia_contratada2 := w16 buf 241,
               cfg_install_current_limit := buf ! 11, cfg_CDP := cdp\<rparr>,
            Params := (Params c2)\<lparr>pa_autentication_mode := take 2 (drop 212 buf),
               pa_install_current_limit := buf ! 11, pa_potencia_contratada1 := w16 buf 229,
               pa_potencia_contratada2 := w16 buf 241, pa_CDP := cdp\<rparr>\<rparr>)"

text \<open>Sensor, meter and communications (third part).\<close>

definition inicio_sensor :: "bytes \<Rightarrow> control \<Rightarrow> control" where
  "inicio_sensor buf c =
     (let cdp = buf ! 232;
          c1 = (if bit_de cdp 1
                then envia 1 SEARCH_EXTERNAL_METER
                       (c\<lparr>Params := (Params c)\<lparr>Tipo_Sensor := bit_de cdp 4\<rparr>\<rparr>)
                else c\<lparr>Params := (Params c)\<lparr>Tipo_Sensor := False\<rparr>\<rparr>);
          c2 = c1\<lparr>Status := (Status c1)\<lparr>Photovoltaic := drop_bit 5 (buf ! 0) AND 3 \<noteq> 0\<rparr>\<rparr>
      in if Tipo_Sensor (Params c2) \<and> \<not> MedidorConectado (ContadorExt c2)
         then envia 1 BLOQUEO_CARGA
                ((Update_Status_Coms 0 (ucast MED_BUSCANDO_GATEWAY)
                   (c2\<lparr>Coms := (Coms c2)\<lparr>ETH := (ETH (Coms c2))\<lparr>eth_medidor := True\<rparr>\<rparr>\<rparr>))
                 \<lparr>Bloqueo_de_carga := 1\<rparr>)
         else c2)"

definition inicio_coms :: "bytes \<Rightarrow> control \<Rightarrow> control" where
  "inicio_coms buf c =
     (let c1 = modifyCharacteristics [(234, 2, COMS_FW_UPDATEMODE_CHAR_HANDLE)] buf
                 (c\<lparr>Params := poner_Fw_Update_mode (take 2 (drop 234 buf)) (Params c)\<rparr>)
      in modifyCharacteristics [(236, 1, COMS_CONFIGURATION_WIFI_ON)] buf
           (c1\<lparr>Comands := (Comands c1)\<lparr>desired_current := buf ! 233\<rparr>,
               Coms := (Coms c1)\<lparr>Wifi_ON := buf ! 236 \<noteq> 0,
                                 ETH := (ETH (Coms c1))\<lparr>eth_ON := buf ! 237 \<noteq> 0\<rparr>\<rparr>\<rparr>))"

definition not_delete_group :: "bytes list" where
  "not_delete_group =
     [[0xCD, 0x01, 0x21, 0x07, 0x16, 0x00, 0x00, 0x04, 0x98, 0x08],
      [0xCD, 0x01, 0x21, 0x07, 0x16, 0x00, 0x00, 0x05, 0x29, 0x51],
      [0xCD, 0x01, 0x21, 0x09, 0x16, 0x00, 0x00, 0x06, 0x14, 0x54],
      [0xCD, 0x01, 0x21, 0x09, 0x16, 0x00, 0x00, 0x06, 0x14, 0x58]]"

definition borrar_flash :: "control \<Rightarrow> control" where
  "borrar_flash c =
     (if Data_cleared (Configuracion c) = 0
      then emite (map (\<lambda>n. Envia CLEAR_FLASH_SPACE [n])
                   ((if \<not> list_ex (\<lambda>sn. sn = take 10 (deviceSerNum c)) not_delete_group
                     then [41, 45, 3, 6] else []) @ [46, 47, 48, 23, 24])) c
      else c)"

definition TIMEOUT_INICIO :: u8 where "TIMEOUT_INICIO = 10"

definition bloque_inicializacion :: "bytes \<Rightarrow> control \<Rightarrow> bytes \<times> control" where
  "bloque_inicializacion buf c =
     (if \<not> systemStarted (Arranque c) \<and> (buf ! 239 = 0x36 \<or> buf ! 238 = 0x36)
      then (case comprobar_modo 212 buf (inicio_datos buf c) of
              (buf', sigue, c1) \<Rightarrow>
                if \<not> sigue then (buf', c1)
                else (let c2 = startSystem (inicio_coms buf' (inicio_sensor buf' (inicio_config buf' c1)))
                      in (buf', borrar_flash
                            (c2\<lparr>Arranque := (Arranque c2)\<lparr>systemStarted := True,
                                cnt_timeout_inicio := TIMEOUT_INICIO,
                                PSOC_inicializado := True\<rparr>\<rparr>))))
      else (buf, c))"

section \<open>Block of status\<close>

text \<open>''0V'', ''A1'', ''A2'', ''B1'', ''B2'', ''C1'', ''C2'', ''E1'', ''F1''.\<close>

definition HPT_estados :: "bytes list" where
  "HPT_estados = [[48, 86], [65, 49], [65, 50], [66, 49], [66, 50], [67, 49], [67, 50],
                  [69, 49], [70, 49]]"

text \<open>A change of the control pilot (the branch \<open>hilo piloto\<close> of the block).\<close>

definition hpt_inicializa :: "control \<Rightarrow> control" where
  "hpt_inicializa c =
     (if dispositivo_inicializado (Arranque c) \<noteq> 2
      then (envia 1 BLOQUE_APN c)
             \<lparr>Arranque := (Arranque c)\<lparr>dispositivo_inicializado := 2\<rparr>,
              Configuracion := (Configuracion c)\<lparr>count_reinicios_malos := 0\<rparr>\<rparr>
      else c)"

definition hpt_notifica :: "bool \<Rightarrow> bytes \<Rightarrow> control \<Rightarrow> control" where
  "hpt_notifica ble hpt c =
     (let c1 = emite [Modifica STATUS_HPT_STATUS_CHAR_HANDLE hpt] c
      in if ble
         then if hpt ! 0 \<noteq> 69 \<and> hpt ! 0 \<noteq> 70
              then emite [Notifica STATUS_HPT_STATUS_CHAR_HANDLE hpt] (c1\<lparr>Bloqueo_de_carga := 1\<rparr>)
              else emite [Notifica STATUS_HPT_STATUS_CHAR_HANDLE (take 1 hpt)] c1
         else c1)"

definition hpt_firebase :: "bytes \<Rightarrow> control \<Rightarrow> control" where
  "hpt_firebase hpt c =
     (let ant = status_hpt_anterior c;
          fb = (ConfigFirebase c)\<lparr>WriteStatus := True\<rparr>;
          fb' = (if hpt ! 0 = 67 \<or> ant ! 0 = 66 then fb\<lparr>WriteUser := True, ResetUser := False\<rparr> else fb)
      in c\<lparr>ConfigFirebase := fb',
           ChargingGroup := (if hpt ! 0 = 65 \<or> ant ! 0 = 48
                             then (ChargingGroup c)\<lparr>ChargPerm := False, AskPerm := False\<rparr>
                             else ChargingGroup c)\<rparr>)"

text \<open>Leaving the states B2 and C2 locks the next charge of a charger with a meter or a group.\<close>

definition hpt_bloquea :: "bytes \<Rightarrow> control \<Rightarrow> control" where
  "hpt_bloquea hpt c =
     (let ant = status_hpt_anterior c
      in if hpt \<noteq> [67, 50] \<and> hpt \<noteq> [66, 50]
            \<and> (Tipo_Sensor (Params c) \<or> gr_Conected (ChargingGroup c))
            \<and> (ant ! 0 = 67 \<or> ant ! 0 = 66)
         then envia 1 BLOQUEO_CARGA
                (c\<lparr>Bloqueo_de_carga := 1,
                   ChargingGroup := (ChargingGroup c)\<lparr>ChargPerm := False, AskPerm := False\<rparr>\<rparr>)
         else c)"

definition hpt_cambio :: "bool \<Rightarrow> bytes \<Rightarrow> control \<Rightarrow> control" where
  "hpt_cambio ble hpt c =
     (if hpt \<noteq> status_hpt_anterior c
      then (hpt_bloquea hpt (hpt_firebase hpt (hpt_notifica ble hpt (hpt_inicializa c))))
             \<lparr>status_hpt_anterior := hpt\<rparr>
      else c)"

text \<open>The instantaneous current, notified to a connected client when it changes.\<close>

definition notifica_corriente :: "bool \<Rightarrow> bytes \<Rightarrow> control \<Rightarrow> control" where
  "notifica_corriente ble buf c =
     (if instant_current (Measures (Status c)) \<noteq> inst_current_anterior c \<and> ble
      then let c1 = c\<lparr>cnt_diferencia := cnt_diferencia c - 1\<rparr>
           in if cnt_diferencia c1 = 0
              then let c2 = modifyCharacteristics [(14, 2, MEASURES_INST_CURRENT_CHAR_HANDLE)] buf c1;
                       c3 = emite ([Notifica MEASURES_INST_CURRENT_CHAR_HANDLE (take 2 (drop 14 buf))]
                              @ (if Trifasico (Status c2)
                                 then [Notifica MEASURES_INST_CURRENTB_CHAR_HANDLE (take 2 (drop 24 buf)),
                                       Notifica MEASURES_INST_CURRENTC_CHAR_HANDLE (take 2 (drop 34 buf))]
                                 else []))
                              (c2\<lparr>cnt_diferencia := 2,
                                  inst_current_anterior := instant_current (Measures (Status c2))\<rparr>)
                   in c3\<lparr>ConfigFirebase := (ConfigFirebase c3)\<lparr>WriteStatus := True\<rparr>\<rparr>
              else c1
      else c)"

definition energia :: "bytes \<Rightarrow> nat \<Rightarrow> u32" where
  "energia buf i = ucast (buf ! i) + ucast (buf ! (i + 1)) * 0x100 + ucast (buf ! (i + 2)) * 0x1000
     + ucast (buf ! (i + 3)) * 0x10000"

definition medidas_fase :: "bytes \<Rightarrow> nat \<Rightarrow> caract_measures \<Rightarrow> caract_measures" where
  "medidas_fase buf i m =
     m\<lparr>instant_current := w16 buf i, instant_voltage := w16 buf (i + 2),
       active_power := w16 buf (i + 4), active_energy := energia buf (i + 6)\<rparr>"

definition palabra32 :: "bytes \<Rightarrow> nat \<Rightarrow> u32" where
  "palabra32 buf i = join32 (buf ! i) (buf ! (i + 1)) (buf ! (i + 2)) (buf ! (i + 3))"

text \<open>The measures of the block, stored in \<open>Status\<close> and in the external meter.\<close>

definition status_medidas :: "bytes \<Rightarrow> control \<Rightarrow> control" where
  "status_medidas buf c =
     (let st = Status c;
          tri = buf ! 44 = 3;
          st1 = st\<lparr>error_code := buf ! 13,
                   ICP_status := memcmp (take 2 (drop 3 buf)) [67, 76] = 0,
                   DC_Leack_status := 0 < memcmp (take 2 (drop 5 buf)) [84, 82],
                   Con_Lock := memcmp (take 3 (drop 7 buf)) [85, 76, 0] = 0,
                   Measures := (Measures st)\<lparr>max_current_cable := buf ! 9,
                     instant_voltage := w16 buf 16, active_power := w16 buf 18,
                     active_energy := energia buf 20\<rparr>,
                   total_power := palabra32 buf 46, net_power := palabra32 buf 50,
                   external_meter_power := palabra32 buf 55, Trifasico := tri\<rparr>;
          st2 = (if tri then st1\<lparr>MeasuresB := medidas_fase buf 24 (MeasuresB st1),
                                 MeasuresC := medidas_fase buf 34 (MeasuresC st1)\<rparr>
                 else st1)
      in c\<lparr>Status := st2,
           ContadorExt := (ContadorExt c)\<lparr>cont_Power := external_meter_power st1\<rparr>\<rparr>)"

definition bloque_status :: "entorno_ctl \<Rightarrow> bytes \<Rightarrow> control \<Rightarrow> control" where
  "bloque_status en buf c =
     (let hpt = take 2 (drop 1 buf) in
      if buf ! 45 = 0x36 \<and> systemStarted (Arranque c) \<and> list_ex (\<lambda>h. h = hpt) HPT_estados
      then
        let c1 = modifyCharacteristics [(0, 1, LED_LUMIN_COLOR_LUMINOSITY_LEVEL_CHAR_HANDLE)] buf
                   (c\<lparr>Arranque := (Arranque c)\<lparr>TimeoutMainDisconnect := 0\<rparr>\<rparr>);
            c2 = hpt_cambio (ble_conectado en) hpt
                   (c1\<lparr>Status := (Status c1)\<lparr>HPT_status := hpt @ [0]\<rparr>\<rparr>);
            c3 = modifyCharacteristics
                   [(3, 2, STATUS_ICP_STATUS_CHAR_HANDLE), (5, 2, STATUS_RCD_STATUS_CHAR_HANDLE),
                    (7, 2, STATUS_CONN_LOCK_STATUS_CHAR_HANDLE),
                    (9, 1, MEASURES_MAX_CURRENT_CABLE_CHAR_HANDLE),
                    (10, 2, DOMESTIC_CONSUMPTION_DOMESTIC_CURRENT_CHAR_HANDLE),
                    (12, 1, DOMESTIC_CONSUMPTION_REAL_CURRENT_LIMIT_CHAR_HANDLE),
                    (13, 1, ERROR_STATUS_ERROR_CODE_CHAR_HANDLE)] buf c2;
            c4 = notifica_corriente (ble_conectado en) buf
                   (c3\<lparr>Status := (Status c3)\<lparr>current_limit := buf ! 12,
                       Measures := (Measures (Status c3))\<lparr>consumo_domestico := w16 buf 10,
                                     instant_current := w16 buf 14\<rparr>\<rparr>\<rparr>);
            c5 = modifyCharacteristics
                   [(16, 2, MEASURES_INST_VOLTAGE_CHAR_HANDLE), (18, 2, MEASURES_ACTIVE_POWER_CHAR_HANDLE),
                    (20, 4, MEASURES_ACTIVE_ENERGY_CHAR_HANDLE), (46, 4, PHOTOVOLTAIC_TOTAL_POWER),
                    (50, 4, PHOTOVOLTAIC_NET_POWER), (54, 1, MEASURES_APPARENT_POWER_CHAR_HANDLE),
                    (55, 4, EXTERNAL_METER_POWER)] buf c4
        in status_medidas buf c5
      else c)"

section \<open>Block of dates\<close>

text \<open>Each stored time is replaced, and Firebase told, when the received one differs.\<close>

definition poner_tiempo ::
  "(caract_date_time \<Rightarrow> int) \<Rightarrow> (int \<Rightarrow> caract_date_time \<Rightarrow> caract_date_time) \<Rightarrow> int \<Rightarrow> control \<Rightarrow> control"
where
  "poner_tiempo lee pone t c =
     (if t \<noteq> lee (Time (Status c))
      then c\<lparr>Status := (Status c)\<lparr>Time := pone t (Time (Status c))\<rparr>,
             ConfigFirebase := (ConfigFirebase c)\<lparr>WriteTime := True\<rparr>\<rparr>
      else c)"

definition bloque_date_time :: "bytes \<Rightarrow> control \<Rightarrow> control" where
  "bloque_date_time buf c =
     (let c1 = modifyCharacteristics [(0, 6, TIME_DATE_DATE_TIME_CHAR_HANDLE)] buf c;
          c2 = c1\<lparr>Status := (Status c1)\<lparr>Time := (Time (Status c1))\<lparr>hora := buf ! 3\<rparr>\<rparr>,
                  aut_semilla := uint (buf ! 4) * 0x100 + uint (buf ! 5)\<rparr>;
          c3 = modifyCharacteristics
                 [(6, 6, TIME_DATE_CONNECTION_DATE_TIME_CHAR_HANDLE),
                  (12, 6, TIME_DATE_DISCONNECTION_DATE_TIME_CHAR_HANDLE),
                  (18, 6, TIME_DATE_CHARGING_START_TIME_CHAR_HANDLE),
                  (24, 6, TIME_DATE_CHARGING_STOP_TIME_CHAR_HANDLE)] buf c2;
          c4 = poner_tiempo connect_date_time (\<lambda>t. connect_date_time_update (\<lambda>_. t))
                 (Convert_To_Epoch (take 6 (drop 6 buf))) c3;
          c5 = poner_tiempo disconnect_date_time (\<lambda>t. disconnect_date_time_update (\<lambda>_. t))
                 (Convert_To_Epoch (take 6 (drop 12 buf))) c4;
          c6 = poner_tiempo charge_start_time (\<lambda>t. charge_start_time_update (\<lambda>_. t))
                 (Convert_To_Epoch (take 6 (drop 18 buf))) c5;
          c7 = poner_tiempo charge_stop_time (\<lambda>t. charge_stop_time_update (\<lambda>_. t))
                 (Convert_To_Epoch (take 6 (drop 24 buf))) c6
      in c7\<lparr>Status := (Status c7)\<lparr>Time := (Time (Status c7))
              \<lparr>actual_time := Convert_To_Epoch (take 6 buf)\<rparr>\<rparr>\<rparr>)"

section \<open>Schedule and charge records\<close>

text \<open>
  The PSoC returns the schedule that it has stored; it is compared with the one that was sent.
\<close>

definition bloque_schedule :: "bytes \<Rightarrow> control \<Rightarrow> control" where
  "bloque_schedule buf c =
     modifyCharacteristics [(0, 168, SCHED_CHARGING_SCHEDULE_MATRIX_CHAR_HANDLE)] buf
       (c\<lparr>flag_schedule_ack := take 168 (global_schedule_buffer c) = take 168 buf\<rparr>)"

text \<open>
  A charge record: 20 bytes of header and up to 116 power samples of two bytes, spread to four
  bytes each. A sample of \<open>FFFF\<close> ends the list, and samples out of range are cleared. The loop
  of the code runs over \<open>i = 20, 24, ..., 508\<close>.
\<close>

fun record_loop :: "bytes \<Rightarrow> nat \<Rightarrow> nat \<Rightarrow> nat \<Rightarrow> bool \<Rightarrow> bytes \<Rightarrow> bytes option" where
  "record_loop buf 0 i j fin rec = Some rec"
| "record_loop buf (Suc n) i j fin rec =
     (if j < 252
      then (let fin' = (fin \<or> buf ! j = 255 \<and> buf ! (j + 1) = 255);
                PotLeida = uint (buf ! j) * 0x100 + uint (buf ! (j + 1))
            in case mem_write rec i
                      (if 0 < PotLeida \<and> PotLeida < 5900 \<and> \<not> fin'
                       then [buf ! j, buf ! (j + 1), 0, 0] else [0, 0, 0, 0]) of
                 None \<Rightarrow> None
               | Some rec' \<Rightarrow> record_loop buf n (i + 4) (j + 2) fin' rec')
      else (case mem_write rec i [0, 0, 0, 0] of
              None \<Rightarrow> None
            | Some rec' \<Rightarrow> record_loop buf n (i + 4) j fin rec'))"

definition convertir_registro :: "bytes \<Rightarrow> bytes \<Rightarrow> bytes option" where
  "convertir_registro buf rec =
     (case mem_write rec 0 (take 20 buf) of
        None \<Rightarrow> None
      | Some rec' \<Rightarrow> record_loop buf 123 20 20 False rec')"

definition bloque_energy_record :: "bytes \<Rightarrow> control \<Rightarrow> control option" where
  "bloque_energy_record buf c =
     (case convertir_registro buf (record_received_buffer (Registros c)) of
        None \<Rightarrow> None
      | Some rec \<Rightarrow>
          (case mem_write (record_received_buffer_for_fb (Registros c)) 0 buf of
             None \<Rightarrow> None
           | Some fb \<Rightarrow>
              (let c1 = c\<lparr>Registros := (Registros c)\<lparr>record_received_buffer := rec,
                          record_received_buffer_for_fb := fb, new_record_received := True,
                          ask_for_new_record := False\<rparr>\<rparr>;
                   hpt = take 2 (HPT_status (Status c1));
                   c2 = (if InternetConection (ConfigFirebase c1)
                            \<and> (eth_ON (ETH (Coms c1)) \<or> Wifi_ON (Coms c1))
                            \<and> (hpt = [65, 49] \<or> hpt = [65, 50] \<or> hpt = [48, 86])
                            \<and> \<not> UserReseted (ConfigFirebase c1)
                         then c1\<lparr>ConfigFirebase := (ConfigFirebase c1)\<lparr>ResetUser := True\<rparr>\<rparr>
                         else c1)
               in Some (emite [Modifica ENERGY_RECORD_RECORD_CHAR_HANDLE (take 512 rec)] c2))))"

definition bloque_rec_last :: "bytes \<Rightarrow> control \<Rightarrow> control" where
  "bloque_rec_last buf c =
     (let n = ucast (w16 buf 0)
      in modifyCharacteristics [(0, 2, RECORDING_REC_LAST_CHAR_HANDLE)] buf
           (c\<lparr>Registros := (Registros c)\<lparr>last_record_in_mem := n, record_index := n\<rparr>\<rparr>))"

text \<open>
  A lap of the record memory is accepted when it is the known one or the next: a comparison of
  \<open>int\<close>s in the code, so that lap 0 after lap 255 is not the next one.
\<close>

definition bloque_rec_laps :: "bytes \<Rightarrow> control \<Rightarrow> control" where
  "bloque_rec_laps buf c =
     (let r = Registros c;
          received_lap = (ucast (w16 buf 0) :: u8);
          lap = (if uint received_lap = uint (last_record_lap r)
                    \<or> uint received_lap = uint (last_record_lap r) + 1
                 then received_lap else last_record_lap r)
      in emite [Envia RECORDING_REC_INDEX_CHAR_HANDLE [last_record_in_mem r, 0]]
           (modifyCharacteristics [(0, 2, RECORDING_REC_LAPS_CHAR_HANDLE)] buf
             (c\<lparr>Registros := r\<lparr>last_record_lap := lap, record_lap := lap\<rparr>\<rparr>)))"

section \<open>Meter, sensor and configuration\<close>

definition bloque_search_meter :: "bytes \<Rightarrow> control \<Rightarrow> control" where
  "bloque_search_meter buf c =
     (let c1 = c\<lparr>ContadorExt := (ContadorExt c)\<lparr>MedidorConectado := True\<rparr>,
                 Configuracion := (Configuracion c)\<lparr>medidor485 := buf ! 0\<rparr>\<rparr>
      in if buf ! 0 \<noteq> 0
         then Update_Status_Coms MED_LEYENDO_MEDIDOR 0
                (Update_Status_Coms MED_BUSCANDO_MEDIDOR 0
                  (Update_Status_Coms MED_BUSCANDO_GATEWAY 0
                    (c1\<lparr>ContadorExt := (ContadorExt c1)\<lparr>GatewayConectado := True\<rparr>\<rparr>)))
         else let c2 = Update_Status_Coms 0 MED_BLOCK (Update_Status_Coms MED_BUSCANDO_GATEWAY 0 c1)
              in c2\<lparr>ContadorExt := (ContadorExt c2)\<lparr>GatewayConectado := False,
                                      MedidorConectado := False\<rparr>\<rparr>)"

definition bloque_autentication_modes :: "bytes \<Rightarrow> control \<Rightarrow> bytes \<times> control" where
  "bloque_autentication_modes buf c =
     (case comprobar_modo 0 buf c of
        (buf', sigue, c1) \<Rightarrow>
          if \<not> sigue then (buf', c1)
          else (let c2 = modifyCharacteristics [(0, 2, CONFIGURACION_AUTENTICATION_MODES_CHAR_HANDLE)] buf' c1
                in (buf', c2\<lparr>Configuracion := (Configuracion c2)\<lparr>cfg_autentication_mode :=
                              blit (cfg_autentication_mode (Configuracion c2)) 0 (take 2 buf')\<rparr>,
                            Params := (Params c2)\<lparr>pa_autentication_mode := take 2 buf'\<rparr>\<rparr>)))"

text \<open>The mode of the dynamic power control: which sensor limits the charge.\<close>

definition dpc_sensor :: "u8 \<Rightarrow> control \<Rightarrow> control" where
  "dpc_sensor cdp c =
     (let sin_medidor = (\<lambda>d. d\<lparr>Coms := (Coms d)\<lparr>ETH := (ETH (Coms d))\<lparr>eth_medidor := False\<rparr>\<rparr>,
                               Configuracion := (Configuracion d)\<lparr>medidor485 := 0\<rparr>,
                               ContadorExt := (ContadorExt d)\<lparr>MedidorConectado := False\<rparr>\<rparr>)
      in if bit_de cdp 1
         then let c1 = c\<lparr>Params := (Params c)\<lparr>Tipo_Sensor := bit_de cdp 4\<rparr>\<rparr>
              in if bit_de cdp 4
                 then if medidor485 (Configuracion c1) = 0
                      then envia 1 SEARCH_EXTERNAL_METER
                             (Update_Status_Coms 0 (ucast MED_BUSCANDO_GATEWAY)
                               (c1\<lparr>Coms := (Coms c1)\<lparr>ETH := (ETH (Coms c1))\<lparr>eth_medidor := True\<rparr>\<rparr>\<rparr>))
                      else c1
                 else sin_medidor c1
         else sin_medidor (c\<lparr>Params := (Params c)\<lparr>Tipo_Sensor := False\<rparr>\<rparr>))"

definition bloque_dpc_mode :: "bytes \<Rightarrow> control \<Rightarrow> control" where
  "bloque_dpc_mode buf c =
     (let cdp = buf ! 0;
          c1 = modifyCharacteristics [(0, 1, DOMESTIC_CONSUMPTION_DPC_MODE_CHAR_HANDLE)] buf c;
          c2 = dpc_sensor cdp (c1\<lparr>Configuracion := (Configuracion c1)\<lparr>cfg_CDP := cdp\<rparr>,
                                  Params := (Params c1)\<lparr>pa_CDP := cdp\<rparr>\<rparr>);
          c3 = c2\<lparr>Status := (Status c2)\<lparr>Photovoltaic := drop_bit 5 cdp AND 3 \<noteq> 0\<rparr>\<rparr>
      in if \<not> Tipo_Sensor (Params c3)
         then let c4 = Update_Status_Coms 0 MED_BLOCK
                         (c3\<lparr>Coms := (Coms c3)\<lparr>ETH := (ETH (Coms c3))\<lparr>eth_medidor := False\<rparr>\<rparr>\<rparr>);
                  c5 = c4\<lparr>ContadorExt := (ContadorExt c4)\<lparr>ConexionPerdida := False\<rparr>\<rparr>
              in if eth_DHCP (ETH (Coms c5)) \<and> gr_GroupActive (ChargingGroup c5) = 0
                 then c5\<lparr>Coms := (Coms c5)\<lparr>ETH := (ETH (Coms c5))\<lparr>eth_restart := True\<rparr>\<rparr>\<rparr>
                 else c5
         else c3)"

text \<open>Switching the wired interface on or off.\<close>

definition DISCONNECTED :: u8 where "DISCONNECTED = 0"

definition bloque_eth_on :: "entorno_ctl \<Rightarrow> bytes \<Rightarrow> control \<Rightarrow> control" where
  "bloque_eth_on en buf c =
     (let b = (buf ! 0 \<noteq> 0);
          e = ETH (Coms c);
          reinicia = eth_medidor e \<and> eth_ON e \<noteq> b \<and> \<not> eth_conectado e;
          e1 = e\<lparr>eth_restart := eth_restart e \<or> reinicia, eth_ON := b\<rparr>;
          e2 = (if b then (if conexion_ok en then e1\<lparr>eth_Internet := True, eth_Wifi_Perm := False\<rparr> else e1)
                else e1\<lparr>eth_Wifi_Perm := True, eth_Internet := False\<rparr>);
          f = ConfigFirebase c;
          f1 = (if b then (if conexion_ok en
                           then f\<lparr>LastConnState := FirebaseConnState f, FirebaseConnState := DISCONNECTED\<rparr>
                           else f)
                else if \<not> Wifi_ON (Coms c) then f\<lparr>InternetConection := False\<rparr> else f);
          ip_Array = (if b then eth_IP e1 else [0, 0, 0, 0])
      in modifyCharacteristics [(0, 1, COMS_CONFIGURATION_ETH_ON)] buf
           (emite [Modifica COMS_CONFIGURATION_LAN_IP ip_Array]
             (c\<lparr>Coms := (Coms c)\<lparr>ETH := e2\<rparr>, ConfigFirebase := f1\<rparr>)))"

definition bloque_lan_ip :: "bytes \<Rightarrow> control \<Rightarrow> control" where
  "bloque_lan_ip buf c =
     c\<lparr>Coms := (Coms c)\<lparr>ETH := (ETH (Coms c))\<lparr>eth_IP := take 4 buf,
         eth_Gateway := take 4 (drop 4 buf), eth_Mask := take 4 (drop 8 buf)\<rparr>\<rparr>\<rparr>"

section \<open>Lock of the charge\<close>

text \<open>
  The PSoC asks whether the charge is locked. The decision, as a function of the flags; the
  answer is sent only when it differs from the last value of the variable.
\<close>

definition decide_bloqueo :: "control \<Rightarrow> u8 \<times> bool" where
  "decide_bloqueo c =
     (let g = ChargingGroup c in
      if dispositivo_inicializado (Arranque c) \<noteq> 2 then (1, AskPerm g)
      else if gr_GroupActive g \<noteq> 0 \<or> gr_Finding g
      then if gr_Conected g
           then if ChargPerm g then (0, False) else (1, True)
           else (1, AskPerm g)
      else if Tipo_Sensor (Params c) \<or> (gr_GroupMaster g \<noteq> 0 \<and> ContadorConfigurado g)
      then (if MedidorConectado (ContadorExt c) then 0 else 1, AskPerm g)
      else (0, AskPerm g))"

definition bloque_bloqueo_carga :: "control \<Rightarrow> control" where
  "bloque_bloqueo_carga c =
     (case decide_bloqueo c of
        (b, ask) \<Rightarrow>
          let c1 = c\<lparr>Bloqueo_de_carga_old := Bloqueo_de_carga c, Bloqueo_de_carga := b,
                     ChargingGroup := (ChargingGroup c)\<lparr>AskPerm := ask\<rparr>\<rparr>
          in if Bloqueo_de_carga c1 \<noteq> Bloqueo_de_carga_old c1 then envia b BLOQUEO_CARGA c1 else c1)"

section \<open>The dispatcher\<close>

text \<open>The blocks that only mirror their data in the characteristic of the same handle.\<close>

definition bloques_espejo :: "(u16 \<times> nat) list" where
  "bloques_espejo =
     [(TIME_DATE_CHARGING_START_TIME_CHAR_HANDLE, 6), (TIME_DATE_CHARGING_STOP_TIME_CHAR_HANDLE, 6),
      (CHARGING_INSTANT_DELAYED_CHAR_HANDLE, 1), (CHARGING_START_STOP_START_MODE_CHAR_HANDLE, 1),
      (VCD_NAME_USERS_USERS_NUMBER_CHAR_HANDLE, 1), (VCD_NAME_USERS_USER_TYPE_CHAR_HANDLE, 1),
      (TEST_LAUNCH_RCD_PE_TEST_CHAR_HANDLE, 1), (TEST_RCD_PE_TEST_RESULT_CHAR_HANDLE, 1),
      (MAN_LOCK_UNLOCK_LOCKING_MECHANISM_ON_OFF_CHAR_HANDLE, 1), (CHARGE_USER_ID, 1),
      (RECORDING_REC_INDEX_CHAR_HANDLE, 2), (TIME_DATE_COUNTRY_CHAR_HANDLE, 2),
      (TIME_DATE_CALENDAR_CHAR_HANDLE, 41)]"

text \<open>The blocks that store one value besides.\<close>

definition bloque_simple :: "u16 \<Rightarrow> bytes \<Rightarrow> control \<Rightarrow> control option" where
  "bloque_simple tipo buf c =
     (let espejo = (\<lambda>n. modifyCharacteristics [(0, n, tipo)] buf) in
      if tipo = MEASURES_INSTALATION_CURRENT_LIMIT_CHAR_HANDLE
      then Some ((espejo 1 c)\<lparr>
             Configuracion := (Configuracion c)\<lparr>cfg_install_current_limit := buf ! 0\<rparr>,
             Params := (Params c)\<lparr>pa_install_current_limit := buf ! 0\<rparr>\<rparr>)
      else if tipo = MEASURES_CURRENT_COMMAND_CHAR_HANDLE
      then Some (espejo 1 (c\<lparr>Comands := (Comands c)\<lparr>desired_current := buf ! 0, cmd_Newdata := False\<rparr>\<rparr>))
      else if tipo = CHARGING_BLE_MANUAL_START_CHAR_HANDLE
      then Some (espejo 1 (c\<lparr>Comands := (Comands c)\<lparr>cmd_start := False\<rparr>\<rparr>))
      else if tipo = CHARGING_BLE_MANUAL_STOP_CHAR_HANDLE
      then Some (espejo 1 (c\<lparr>Comands := (Comands c)\<lparr>cmd_stop := False\<rparr>\<rparr>))
      else if tipo = VCD_NAME_USERS_USER_INDEX_CHAR_HANDLE
      then Some ((espejo 1 c)\<lparr>user_index := buf ! 0, user_index_arrived := True\<rparr>)
      else if tipo = RESET_RESET_CHAR_HANDLE then Some (emite [Reinicia] c)
      else if tipo = DOMESTIC_CONSUMPTION_POTENCIA_CONTRATADA_P1_CHAR_HANDLE
      then Some ((espejo 2 c)\<lparr>
             Configuracion := (Configuracion c)\<lparr>cfg_potencia_contratada1 := w16 buf 0\<rparr>,
             Params := (Params c)\<lparr>pa_potencia_contratada1 := w16 buf 0\<rparr>\<rparr>)
      else if tipo = DOMESTIC_CONSUMPTION_POTENCIA_CONTRATADA_P2_CHAR_HANDLE
      then Some ((espejo 2 c)\<lparr>
             Configuracion := (Configuracion c)\<lparr>cfg_potencia_contratada2 := w16 buf 0\<rparr>,
             Params := (Params c)\<lparr>pa_potencia_contratada2 := w16 buf 0\<rparr>\<rparr>)
      else if tipo = ERROR_STATUS_ERROR_CODE_CHAR_HANDLE
      then Some ((espejo 1 c)\<lparr>Status := (Status c)\<lparr>error_code := buf ! 0\<rparr>\<rparr>)
      else if tipo = COMS_CONFIGURATION_WIFI_ON
      then Some (espejo 1 (c\<lparr>Coms := (Coms c)\<lparr>Wifi_ON := buf ! 0 \<noteq> 0\<rparr>\<rparr>))
      else if tipo = COMS_CONFIGURATION_ETH_AUTO
      then Some (c\<lparr>Coms := (Coms c)\<lparr>ETH := (ETH (Coms c))\<lparr>eth_Auto := buf ! 0 \<noteq> 0\<rparr>\<rparr>\<rparr>)
      else if tipo = COMS_FW_UPDATEMODE_CHAR_HANDLE
      then Some (c\<lparr>Params := poner_Fw_Update_mode (take 2 buf) (Params c)\<rparr>)
      else if tipo = BOOT_LOADER_LOAD_SW_APP_CHAR_HANDLE
      then Some (emite [Lanza_Update]
             (c\<lparr>Arranque := (Arranque c)\<lparr>psocUpdateCounter := 0, updateTaskrunning := 1,
                                         PSoCUpdateRequest := 0\<rparr>\<rparr>))
      else if tipo = CLEAR_FLASH_SPACE
      then Some (c\<lparr>Configuracion := (Configuracion c)\<lparr>Data_cleared := 1\<rparr>\<rparr>)
      else map_option (\<lambda>n. espejo n c) (map_of bloques_espejo tipo))"

text \<open>
  \<open>procesar_bloque\<close>. A block of an unknown type (and the group blocks, whose branches are empty)
  changes nothing. The record block writes to two arrays; \<open>inv_bloque_energy_record\<close> of \<open>Psoc_Types\<close> shows
  that it stays inside them, so the handler is total.
\<close>

definition procesar_bloque :: "entorno_ctl \<Rightarrow> control handler" where
  "procesar_bloque en tipo buf c =
     (if tipo = BLOQUE_INICIALIZACION then bloque_inicializacion buf c
      else if tipo = CONFIGURACION_AUTENTICATION_MODES_CHAR_HANDLE
      then bloque_autentication_modes buf c
      else (buf,
        if tipo = BLOQUE_STATUS then bloque_status en buf c
        else if tipo = BLOQUE_DATE_TIME then bloque_date_time buf c
        else if tipo = SCHED_CHARGING_SCHEDULE_MATRIX_CHAR_HANDLE then bloque_schedule buf c
        else if tipo = ENERGY_RECORD_RECORD_CHAR_HANDLE
        then (case bloque_energy_record buf c of None \<Rightarrow> c | Some c' \<Rightarrow> c')
        else if tipo = RECORDING_REC_LAST_CHAR_HANDLE then bloque_rec_last buf c
        else if tipo = RECORDING_REC_LAPS_CHAR_HANDLE then bloque_rec_laps buf c
        else if tipo = SEARCH_EXTERNAL_METER then bloque_search_meter buf c
        else if tipo = DOMESTIC_CONSUMPTION_DPC_MODE_CHAR_HANDLE then bloque_dpc_mode buf c
        else if tipo = COMS_CONFIGURATION_ETH_ON then bloque_eth_on en buf c
        else if tipo = COMS_CONFIGURATION_LAN_IP then bloque_lan_ip buf c
        else if tipo = BLOQUEO_CARGA then bloque_bloqueo_carga c
        else (case bloque_simple tipo buf c of None \<Rightarrow> c | Some c' \<Rightarrow> c')))"

end
