(* ===== verification/Psoc_Types.thy ===== *)
theory Psoc_Types
  imports Psoc_Blocks
begin

text \<open>
  The type invariant of the control state (the sizes of its arrays), its preservation by every
  block of the PSoC, the conversion of the charge records, and the composition of the receiver
  with the block handler: the interface \<open>block_handler\<close> of the link is interpreted on
  \<open>procesar_bloque\<close>.
\<close>

section \<open>Sizes of the arrays\<close>

definition inv_registros :: "registros \<Rightarrow> bool" where
  "inv_registros r \<longleftrightarrow>
     length (record_received_buffer r) = 550 \<and> length (record_received_buffer_for_fb r) = 550"

definition inv_params :: "carac_Params \<Rightarrow> bool" where
  "inv_params p \<longleftrightarrow> length (pa_autentication_mode p) = 2 \<and> length (pa_Fw_Update_mode p) = 2"

definition inv_config :: "carac_config \<Rightarrow> bool" where
  "inv_config g \<longleftrightarrow>
     length (cfg_autentication_mode g) = 3 \<and> length (cfg_device_ID g) = 12
     \<and> length (cfg_deviceSerNum g) = 30"

definition inv_firebase :: "carac_Firebase \<Rightarrow> bool" where
  "inv_firebase f \<longleftrightarrow>
     length (Device_Ser_num f) = 30 \<and> length (Device_Id f) = 12 \<and> length (Device_Db_ID f) = 30"

definition inv_control :: "control \<Rightarrow> bool" where
  "inv_control c \<longleftrightarrow>
     length (device_ID c) = 16 \<and> length (deviceSerNum c) = 10
     \<and> length (PSOC_version_firmware c) = 11 \<and> length (status_hpt_anterior c) = 2
     \<and> length (global_schedule_buffer c) = 168
     \<and> inv_registros (Registros c) \<and> inv_params (Params c) \<and> inv_config (Configuracion c)
     \<and> inv_firebase (ConfigFirebase c) \<and> length (HPT_status (Status c)) = 3
     \<and> length (eth_IP (ETH (Coms c))) = 4"

text \<open>The parts of a well-typed state, and what an assignment to a part asks.\<close>

lemma inv_asigna [simp]:
  assumes "inv_control c"
  shows "inv_control (c\<lparr>Registros := r\<rparr>) = inv_registros r"
    "inv_control (c\<lparr>Params := p\<rparr>) = inv_params p"
    "inv_control (c\<lparr>Configuracion := g\<rparr>) = inv_config g"
    "inv_control (c\<lparr>ConfigFirebase := f\<rparr>) = inv_firebase f"
    "inv_control (c\<lparr>Status := s\<rparr>) = (length (HPT_status s) = 3)"
    "inv_control (c\<lparr>Coms := m\<rparr>) = (length (eth_IP (ETH m)) = 4)"
    "inv_control (c\<lparr>device_ID := d\<rparr>) = (length d = 16)"
    "inv_control (c\<lparr>deviceSerNum := d\<rparr>) = (length d = 10)"
    "inv_control (c\<lparr>PSOC_version_firmware := d\<rparr>) = (length d = 11)"
    "inv_control (c\<lparr>status_hpt_anterior := d\<rparr>) = (length d = 2)"
  using assms by (simp_all add: inv_control_def)

lemma inv_ajenos [simp]:
  "inv_control (c\<lparr>salida := v1\<rparr>) = inv_control c"
  "inv_control (c\<lparr>user_index := v2\<rparr>) = inv_control c"
  "inv_control (c\<lparr>user_index_arrived := v3\<rparr>) = inv_control c"
  "inv_control (c\<lparr>aut_semilla := v4\<rparr>) = inv_control c"
  "inv_control (c\<lparr>inst_current_anterior := v5\<rparr>) = inv_control c"
  "inv_control (c\<lparr>cnt_diferencia := v5\<rparr>) = inv_control c"
  "inv_control (c\<lparr>Bloqueo_de_carga := v2\<rparr>) = inv_control c"
  "inv_control (c\<lparr>Bloqueo_de_carga_old := v2\<rparr>) = inv_control c"
  "inv_control (c\<lparr>flag_schedule_ack := v3\<rparr>) = inv_control c"
  "inv_control (c\<lparr>Status_Coms := v5\<rparr>) = inv_control c"
  "inv_control (c\<lparr>Last_Status := v5\<rparr>) = inv_control c"
  "inv_control (c\<lparr>Arranque := v6\<rparr>) = inv_control c"
  "inv_control (c\<lparr>Comands := v7\<rparr>) = inv_control c"
  "inv_control (c\<lparr>ContadorExt := v8\<rparr>) = inv_control c"
  "inv_control (c\<lparr>ChargingGroup := v9\<rparr>) = inv_control c"
  by (simp_all add: inv_control_def)

lemma inv_partes [simp]:
  assumes "inv_control c"
  shows "inv_registros (Registros c)" "inv_params (Params c)" "inv_config (Configuracion c)"
    "inv_firebase (ConfigFirebase c)" "length (HPT_status (Status c)) = 3"
    "length (eth_IP (ETH (Coms c))) = 4" "length (device_ID c) = 16" "length (deviceSerNum c) = 10"
    "length (PSOC_version_firmware c) = 11" "length (status_hpt_anterior c) = 2"
  using assms by (simp_all add: inv_control_def)

lemma inv_registros_miembros [simp]:
  "inv_registros (r\<lparr>last_record_in_mem := x\<rparr>) = inv_registros r"
  "inv_registros (r\<lparr>record_index := x\<rparr>) = inv_registros r"
  "inv_registros (r\<lparr>last_record_lap := x\<rparr>) = inv_registros r"
  "inv_registros (r\<lparr>record_lap := x\<rparr>) = inv_registros r"
  "inv_registros (r\<lparr>new_record_received := y\<rparr>) = inv_registros r"
  "inv_registros (r\<lparr>ask_for_new_record := y\<rparr>) = inv_registros r"
  by (simp_all add: inv_registros_def)

lemma inv_params_miembros [simp]:
  "inv_params (p\<lparr>pa_CDP := x\<rparr>) = inv_params p"
  "inv_params (p\<lparr>pa_install_current_limit := x\<rparr>) = inv_params p"
  "inv_params (p\<lparr>pa_potencia_contratada1 := y\<rparr>) = inv_params p"
  "inv_params (p\<lparr>pa_potencia_contratada2 := y\<rparr>) = inv_params p"
  "inv_params (p\<lparr>Tipo_Sensor := z\<rparr>) = inv_params p"
  "inv_params p \<Longrightarrow> length m = 2 \<Longrightarrow> inv_params (p\<lparr>pa_autentication_mode := m\<rparr>)"
  "inv_params p \<Longrightarrow> length m = 2 \<Longrightarrow> inv_params (poner_Fw_Update_mode m p)"
  by (simp_all add: inv_params_def poner_Fw_Update_mode_def)

lemma inv_config_miembros [simp]:
  "inv_config (g\<lparr>cfg_CDP := x\<rparr>) = inv_config g"
  "inv_config (g\<lparr>cfg_install_current_limit := x\<rparr>) = inv_config g"
  "inv_config (g\<lparr>velt_v := x\<rparr>) = inv_config g"
  "inv_config (g\<lparr>medidor485 := x\<rparr>) = inv_config g"
  "inv_config (g\<lparr>Data_cleared := x\<rparr>) = inv_config g"
  "inv_config (g\<lparr>count_reinicios_malos := x\<rparr>) = inv_config g"
  "inv_config (g\<lparr>cfg_potencia_contratada1 := y\<rparr>) = inv_config g"
  "inv_config (g\<lparr>cfg_potencia_contratada2 := y\<rparr>) = inv_config g"
  "inv_config g \<Longrightarrow> length m = 2 \<Longrightarrow>
     inv_config (g\<lparr>cfg_autentication_mode := blit (cfg_autentication_mode g) 0 m\<rparr>)"
  by (simp_all add: inv_config_def)

lemma inv_firebase_miembros [simp]:
  "inv_firebase (f\<lparr>WriteStatus := x\<rparr>) = inv_firebase f"
  "inv_firebase (f\<lparr>WriteUser := x\<rparr>) = inv_firebase f"
  "inv_firebase (f\<lparr>ResetUser := x\<rparr>) = inv_firebase f"
  "inv_firebase (f\<lparr>WriteTime := x\<rparr>) = inv_firebase f"
  "inv_firebase (f\<lparr>InternetConection := x\<rparr>) = inv_firebase f"
  "inv_firebase (f\<lparr>FirebaseConnState := y\<rparr>) = inv_firebase f"
  "inv_firebase (f\<lparr>LastConnState := y\<rparr>) = inv_firebase f"
  by (simp_all add: inv_firebase_def)

lemmas efectos = emite_def modifyCharacteristics_def envia_def

lemma inv_status_coms [simp]: "inv_control (Update_Status_Coms k b c) = inv_control c"
  by (simp add: Update_Status_Coms_def Let_def efectos)

lemma status_coms_partes [simp]:
  "Registros (Update_Status_Coms k b c) = Registros c" "Params (Update_Status_Coms k b c) = Params c"
  "Configuracion (Update_Status_Coms k b c) = Configuracion c"
  "Coms (Update_Status_Coms k b c) = Coms c" "ContadorExt (Update_Status_Coms k b c) = ContadorExt c"
  "ChargingGroup (Update_Status_Coms k b c) = ChargingGroup c"
  by (simp_all add: Update_Status_Coms_def Let_def efectos)

lemma length_sprintf_02X [simp]: "length (sprintf_02X bs) = 2 * length bs"
  by (induction bs) (simp_all add: sprintf_02X_def)

lemma inv_startSystem: "inv_control c \<Longrightarrow> inv_control (startSystem c)"
  using inv_partes [of c]
  by (simp add: startSystem_def Let_def efectos inv_config_def inv_firebase_def)

lemma inv_comprobar_modo:
  "inv_control c \<Longrightarrow> length buf = 256 \<Longrightarrow> i \<le> 254 \<Longrightarrow> comprobar_modo i buf c = (buf', sigue, c') \<Longrightarrow>
     inv_control c' \<and> length buf' = 256"
  using inv_partes(3) [of c]
  by (auto simp: comprobar_modo_def efectos inv_config_def split: if_splits)

lemma inv_inicio_datos: "inv_control c \<Longrightarrow> length buf = 256 \<Longrightarrow> inv_control (inicio_datos buf c)"
  by (simp add: inicio_datos_def Let_def efectos)

lemma inv_inicio_config: "inv_control c \<Longrightarrow> length buf = 256 \<Longrightarrow> inv_control (inicio_config buf c)"
  by (simp add: inicio_config_def Let_def efectos)

lemma inv_inicio_sensor: "inv_control c \<Longrightarrow> inv_control (inicio_sensor buf c)"
  by (simp add: inicio_sensor_def Let_def efectos)

lemma inv_inicio_coms: "inv_control c \<Longrightarrow> length buf = 256 \<Longrightarrow> inv_control (inicio_coms buf c)"
  by (simp add: inicio_coms_def Let_def efectos)

lemma inv_bloque_inicializacion:
  assumes "inv_control c" "length buf = 256"
  shows "inv_control (snd (bloque_inicializacion buf c)) \<and> length (fst (bloque_inicializacion buf c)) = 256"
proof -
  obtain buf' sigue c1 where m: "comprobar_modo 212 buf (inicio_datos buf c) = (buf', sigue, c1)"
    by (metis prod_cases3)
  have i: "inv_control c1" "length buf' = 256"
    using inv_comprobar_modo [OF inv_inicio_datos [OF assms] assms(2) _ m] by simp_all
  moreover have "inv_control (borrar_flash d) = inv_control d" for d
    by (simp add: borrar_flash_def efectos)
  ultimately show ?thesis using assms
    by (auto simp: bloque_inicializacion_def m Let_def
        intro!: inv_startSystem inv_inicio_coms inv_inicio_sensor inv_inicio_config)
qed

lemma inv_hpt_cambio: "inv_control c \<Longrightarrow> length h = 2 \<Longrightarrow> inv_control (hpt_cambio ble h c)"
proof -
  assume i: "inv_control c" and h: "length h = 2"
  have 1: "inv_control (hpt_inicializa d)" if "inv_control d" for d
    using that by (simp add: hpt_inicializa_def efectos)
  have 2: "inv_control (hpt_notifica ble h d)" if "inv_control d" for d
    using that by (simp add: hpt_notifica_def Let_def efectos)
  have 3: "inv_control (hpt_firebase h d)" if "inv_control d" for d
    using that by (simp add: hpt_firebase_def Let_def)
  have 4: "inv_control (hpt_bloquea h d)" if "inv_control d" for d
    using that by (simp add: hpt_bloquea_def Let_def efectos)
  show ?thesis using i h 1 2 3 4 by (simp add: hpt_cambio_def)
qed

lemma inv_bloque_status:
  assumes "inv_control c" "length buf = 256"
  shows "inv_control (bloque_status en buf c)"
proof -
  have cor: "inv_control d \<Longrightarrow> inv_control (notifica_corriente ble buf d)" for ble d
    by (simp add: notifica_corriente_def Let_def efectos)
  have med: "inv_control d \<Longrightarrow> inv_control (status_medidas buf d)" for d
    by (simp add: status_medidas_def Let_def)
  have mod: "inv_control (modifyCharacteristics ts buf d) = inv_control d" for ts d
    by (simp add: efectos)
  have l: "length (take 2 (drop 1 buf)) = 2" using assms(2) by simp
  show ?thesis
    unfolding bloque_status_def Let_def
    using assms(1) l by (simp add: cor med mod inv_hpt_cambio)
qed

lemma inv_poner_tiempo: "inv_control d \<Longrightarrow> inv_control (poner_tiempo lee pone t d)"
  by (simp add: poner_tiempo_def)

lemma inv_bloque_date_time: "inv_control c \<Longrightarrow> inv_control (bloque_date_time buf c)"
  by (simp add: bloque_date_time_def Let_def efectos inv_poner_tiempo)

lemma inv_bloques:
  assumes "inv_control c" "length buf = 256"
  shows "inv_control (bloque_schedule buf c)" "inv_control (bloque_rec_last buf c)"
    "inv_control (bloque_rec_laps buf c)" "inv_control (bloque_search_meter buf c)"
    "inv_control (bloque_eth_on en buf c)" "inv_control (bloque_lan_ip buf c)"
    "inv_control (bloque_bloqueo_carga c)"
proof -
  show "inv_control (bloque_eth_on en buf c)"
    using assms by (simp add: bloque_eth_on_def Let_def efectos)
  show "inv_control (bloque_bloqueo_carga c)"
    using assms by (cases "decide_bloqueo c") (simp add: bloque_bloqueo_carga_def Let_def efectos)
  show "inv_control (bloque_search_meter buf c)"
    using assms by (simp add: bloque_search_meter_def Let_def)
  show "inv_control (bloque_schedule buf c)" "inv_control (bloque_rec_last buf c)"
    "inv_control (bloque_rec_laps buf c)" "inv_control (bloque_lan_ip buf c)"
    using assms by (simp_all add: bloque_schedule_def bloque_rec_last_def bloque_rec_laps_def
        bloque_lan_ip_def efectos Let_def)
qed

lemma inv_bloque_dpc_mode: "inv_control c \<Longrightarrow> inv_control (bloque_dpc_mode buf c)"
proof -
  have d: "inv_control d \<Longrightarrow> inv_control (dpc_sensor cdp d)" for cdp d
    by (simp add: dpc_sensor_def Let_def efectos)
  assume "inv_control c"
  then show ?thesis by (simp add: bloque_dpc_mode_def Let_def efectos d)
qed

lemma inv_bloque_simple:
  assumes "inv_control c" "length buf = 256" "bloque_simple tipo buf c = Some c'"
  shows "inv_control c'"
  using assms(3,1,2) unfolding bloque_simple_def Let_def
  by (auto simp: efectos split: if_splits)

section \<open>Charge records\<close>

text \<open>
  The reference definition of the converted record: sample by sample, without the running flag
  and the two indices of the loop.
\<close>

definition muestra_fin :: "bytes \<Rightarrow> nat \<Rightarrow> bool" where
  "muestra_fin buf k \<longleftrightarrow> buf ! (20 + 2 * k) = 255 \<and> buf ! (21 + 2 * k) = 255"

definition muestra :: "bytes \<Rightarrow> nat \<Rightarrow> bytes" where
  "muestra buf k =
     (let pot = uint (buf ! (20 + 2 * k)) * 0x100 + uint (buf ! (21 + 2 * k))
      in if k < 116 \<and> 0 < pot \<and> pot < 5900 \<and> \<not> list_ex (muestra_fin buf) [0..<Suc k]
         then [buf ! (20 + 2 * k), buf ! (21 + 2 * k), 0, 0] else [0, 0, 0, 0])"

definition registro :: "bytes \<Rightarrow> bytes" where
  "registro buf = take 20 buf @ concat (map (muestra buf) [0..<123])"

lemma length_muestra [simp]: "length (muestra buf k) = 4"
  by (simp add: muestra_def Let_def)

lemma length_muestras [simp]: "length (concat (map (muestra buf) ks)) = 4 * length ks"
  by (induction ks) simp_all

lemma record_loop_muestra:
  assumes "j = 20 + 2 * min k 116" "fin = list_ex (muestra_fin buf) [0..<min k 116]"
    and "length rec = 550" "i + 4 \<le> 550"
  shows "record_loop buf (Suc n) i j fin rec =
    record_loop buf n (i + 4) (20 + 2 * min (Suc k) 116)
      (list_ex (muestra_fin buf) [0..<min (Suc k) 116]) (blit rec i (muestra buf k))"
proof (cases "k < 116")
  case True
  then have j: "j = 20 + 2 * k" "min (Suc k) 116 = Suc k" "min k 116 = k" using assms(1) by simp_all
  have "(fin \<or> buf ! j = 255 \<and> buf ! (j + 1) = 255) = list_ex (muestra_fin buf) [0..<Suc k]"
    using j assms(2) by (simp add: muestra_fin_def)
  with True j assms(3,4) show ?thesis by (simp add: Let_def muestra_def)
next
  case False
  then have "min k 116 = 116" "min (Suc k) 116 = 116" by simp_all
  with False assms show ?thesis by (simp add: muestra_def)
qed

lemma record_loop_registro:
  "length rec = 550 \<Longrightarrow> i + 4 * n \<le> 550 \<Longrightarrow>
     record_loop buf n i (20 + 2 * min k 116) (list_ex (muestra_fin buf) [0..<min k 116]) rec =
     Some (blit rec i (concat (map (muestra buf) [k..<k + n])))"
proof (induction n arbitrary: i k rec)
  case 0
  then show ?case by (simp add: blit_def)
next
  case (Suc n)
  let ?rec = "blit rec i (muestra buf k)"
  have "record_loop buf (Suc n) i (20 + 2 * min k 116) (list_ex (muestra_fin buf) [0..<min k 116]) rec
      = record_loop buf n (i + 4) (20 + 2 * min (Suc k) 116)
          (list_ex (muestra_fin buf) [0..<min (Suc k) 116]) ?rec"
    using Suc.prems by (intro record_loop_muestra) simp_all
  also have "\<dots> = Some (blit ?rec (i + 4) (concat (map (muestra buf) [Suc k..<Suc k + n])))"
    using Suc.prems by (intro Suc.IH) simp_all
  also have "blit ?rec (i + 4) (concat (map (muestra buf) [Suc k..<Suc k + n])) =
      blit rec i (muestra buf k @ concat (map (muestra buf) [Suc k..<Suc k + n]))"
    using blit_append [of i "muestra buf k" "concat (map (muestra buf) [Suc k..<Suc k + n])" rec]
      Suc.prems by simp
  also have "muestra buf k @ concat (map (muestra buf) [Suc k..<Suc k + n]) =
      concat (map (muestra buf) [k..<k + Suc n])"
    by (simp add: upt_conv_Cons del: upt_Suc)
  finally show ?case .
qed

lemma convertir_registro_registro:
  assumes "length buf = 256" "length rec = 550"
  shows "convertir_registro buf rec = Some (registro buf @ drop 512 rec)"
proof -
  let ?rec = "blit rec 0 (take 20 buf)"
  have "record_loop buf 123 20 20 False ?rec =
      Some (blit ?rec 20 (concat (map (muestra buf) [0..<0 + 123])))"
    using record_loop_registro [of ?rec 20 123 buf 0] assms by simp
  also have "blit ?rec 20 (concat (map (muestra buf) [0..<0 + 123])) =
      blit rec 0 (registro buf)"
    using blit_append [of 0 "take 20 buf" "concat (map (muestra buf) [0..<123])" rec] assms
    by (simp add: registro_def)
  also have "blit rec 0 (registro buf) = registro buf @ drop 512 rec"
    using assms by (simp add: blit_def registro_def)
  finally show ?thesis using assms by (simp add: convertir_registro_def)
qed

lemma inv_bloque_energy_record:
  assumes "inv_control c" "length buf = 256"
  shows "\<exists>c'. bloque_energy_record buf c = Some c' \<and> inv_control c'"
proof -
  have r: "inv_registros (Registros c)" using assms(1) by simp
  then have "length (record_received_buffer (Registros c)) = 550" by (simp add: inv_registros_def)
  note conv = convertir_registro_registro [OF assms(2) this]
  have w: "mem_write (record_received_buffer_for_fb (Registros c)) 0 buf =
      Some (blit (record_received_buffer_for_fb (Registros c)) 0 buf)"
    using r assms(2) by (simp add: inv_registros_def)
  have "inv_registros ((Registros c)\<lparr>record_received_buffer := registro buf @
      drop 512 (record_received_buffer (Registros c)),
      record_received_buffer_for_fb := blit (record_received_buffer_for_fb (Registros c)) 0 buf\<rparr>)"
    using r assms(2) by (simp add: inv_registros_def registro_def)
  with assms(1) show ?thesis by (simp add: bloque_energy_record_def conv w Let_def efectos)
qed

section \<open>The handler as a whole, and the link that calls it\<close>

lemma despacho:
  "procesar_bloque en BLOQUE_INICIALIZACION buf c = bloque_inicializacion buf c"
  "procesar_bloque en CONFIGURACION_AUTENTICATION_MODES_CHAR_HANDLE buf c =
     bloque_autentication_modes buf c"
  "procesar_bloque en BLOQUE_STATUS buf c = (buf, bloque_status en buf c)"
  "procesar_bloque en BLOQUEO_CARGA buf c = (buf, bloque_bloqueo_carga c)"
  by (simp_all add: procesar_bloque_def handle_consts)

lemma inv_bloque_autentication_modes:
  assumes "inv_control c" "length buf = 256"
  shows "inv_control (snd (bloque_autentication_modes buf c))
    \<and> length (fst (bloque_autentication_modes buf c)) = 256"
proof -
  obtain buf' sigue c1 where m: "comprobar_modo 0 buf c = (buf', sigue, c1)" by (metis prod_cases3)
  from inv_comprobar_modo [OF assms _ m] have "inv_control c1" "length buf' = 256" by simp_all
  then show ?thesis by (simp add: bloque_autentication_modes_def m Let_def efectos)
qed

theorem inv_procesar_bloque:
  assumes "inv_control c" "length buf = 256"
  shows "inv_control (snd (procesar_bloque en tipo buf c))
    \<and> length (fst (procesar_bloque en tipo buf c)) = 256"
proof (cases "tipo = BLOQUE_INICIALIZACION \<or> tipo = CONFIGURACION_AUTENTICATION_MODES_CHAR_HANDLE")
  case True
  with inv_bloque_autentication_modes [OF assms] inv_bloque_inicializacion [OF assms] show ?thesis
    by (elim disjE) (simp_all only: despacho)
next
  case False
  from inv_bloque_energy_record [OF assms] obtain c1 where
    "bloque_energy_record buf c = Some c1" "inv_control c1" by blast
  moreover have "inv_control (case bloque_simple tipo buf c of None \<Rightarrow> c | Some c' \<Rightarrow> c')"
    using assms inv_bloque_simple [OF assms] by (simp split: option.splits)
  ultimately show ?thesis
    using False assms inv_bloques [OF assms] inv_bloque_status [OF assms] inv_bloque_dpc_mode [OF assms(1)]
      inv_bloque_date_time [OF assms(1)]
    by (simp add: procesar_bloque_def)
qed

definition actualizando :: "control \<Rightarrow> bool" where
  "actualizando c \<longleftrightarrow> updateTaskrunning (Arranque c) \<noteq> 0"

lemma length_bloque:
  "length buf = 256 \<Longrightarrow> length (fst (procesar_bloque en tipo buf c)) = 256"
  by (auto simp: procesar_bloque_def bloque_inicializacion_def bloque_autentication_modes_def
      comprobar_modo_def Let_def)

interpretation psoc: typed_handler actualizando "procesar_bloque en" inv_control for en
proof unfold_locales
  show "length (fst (procesar_bloque en t b s)) = 256" if "length b = 256" for b t s
    using that by (rule length_bloque)
  show "inv_control (snd (procesar_bloque en t b s))" if "inv_control s" "length b = 256" for b t s
    using inv_procesar_bloque [OF that] by blast
qed

text \<open>The receiver at power-up, with the state \<open>c\<close> of the rest of the firmware.\<close>

definition enlace_inicial :: "control \<Rightarrow> control enlace" where
  "enlace_inicial c =
     \<lparr>rx = \<lparr>estado_recepcion = 0, cnt_fin_bloque = 0, puntero_rx_local = 0, longitud_bloque = 0,
             tipo_bloque = 0, buffer_rx_local = replicate 256 0\<rparr>, serie = [], nucleo = c\<rparr>"

lemma inv_enlace_inicial: "inv_receptor (rx (enlace_inicial c))" "serie (enlace_inicial c) = []"
  "nucleo (enlace_inicial c) = c" "buffer_rx_local (rx (enlace_inicial c)) = replicate 256 0"
  "estado_recepcion (rx (enlace_inicial c)) = ESPERANDO_HEADER"
  by (simp_all add: enlace_inicial_def inv_receptor_def link_consts)

text \<open>A state of the firmware at power-up, for the examples.\<close>

definition demo_control :: control where
  "demo_control =
     (let m = \<lparr>max_current_cable = 0, consumo_domestico = 0, instant_current = 0, instant_voltage = 0,
               active_power = 0, active_energy = 0\<rparr>
      in \<lparr>device_ID = replicate 16 0, deviceSerNum = replicate 10 255,
          deviceSerNumFlash = replicate 10 255, PSOC_version_firmware = replicate 11 0,
          user_index = 0, user_index_arrived = False, conexion_trigger = False, aut_semilla = 0,
          status_hpt_anterior = [70, 70], inst_current_anterior = 0, cnt_diferencia = 1,
          Bloqueo_de_carga = 1, Bloqueo_de_carga_old = 1, flag_schedule_ack = False,
          global_schedule_buffer = replicate 168 0, Status_Coms = 0, Last_Status = 0,
          Arranque = \<lparr>systemStarted = False, dispositivo_inicializado = 1, PSOC_inicializado = False,
            cnt_timeout_inicio = 1, cnt_repeticiones_inicio = 120, emergencyState = False,
            mainFwUpdateActive = 0, updateTaskrunning = 0, psocUpdateCounter = 0,
            PSoCUpdateRequest = 0, TimeoutMainDisconnect = 0\<rparr>,
          Registros = \<lparr>new_record_received = False, record_pending_for_write = False,
            ask_for_new_record = False, record_index = 0, record_lap = 0, last_record_in_mem = 0,
            last_record_lap = 0, records_trigger = False, record_received_buffer = replicate 550 0,
            record_received_buffer_for_fb = replicate 550 0, ask_for_new_record_start_timeout = 0\<rparr>,
          Status = \<lparr>ICP_status = False, DC_Leack_status = False, Con_Lock = False, Trifasico = False,
            error_code = 0, current_limit = 0, HPT_status = [0, 0, 0], Measures = m, MeasuresB = m,
            MeasuresC = m, Time = \<lparr>hora = 0, actual_time = 0, connect_date_time = 0,
              disconnect_date_time = 0, charge_start_time = 0, charge_stop_time = 0\<rparr>,
            net_power = 0, total_power = 0, external_meter_power = 0, Photovoltaic = False\<rparr>,
          Params = \<lparr>Tipo_Sensor = False, pa_Fw_Update_mode = [65, 65],
            pa_autentication_mode = [87, 65], pa_CDP = 0, pa_install_current_limit = 32,
            pa_potencia_contratada1 = 0, pa_potencia_contratada2 = 0\<rparr>,
          Comands = \<lparr>cmd_start = False, cmd_stop = False, cmd_reset = False, desired_current = 0,
            cmd_Newdata = False\<rparr>,
          Coms = \<lparr>StartConnection = False, Wifi_ON = False,
            ETH = \<lparr>eth_ON = False, eth_Auto = True, eth_DHCP = False, eth_Internet = False,
              eth_Wifi_Perm = False, eth_restart = False, eth_conectado = False, eth_medidor = False,
              eth_IP = [0, 0, 0, 0], eth_Gateway = [0, 0, 0, 0], eth_Mask = [0, 0, 0, 0]\<rparr>\<rparr>,
          ContadorExt = \<lparr>GatewayConectado = False, ConexionPerdida = False, MedidorConectado = False,
            cont_Power = 0\<rparr>,
          ConfigFirebase = \<lparr>WriteStatus = False, ResetUser = False, UserReseted = True,
            WriteUser = False, WriteTime = False, Device_Ser_num = replicate 30 0,
            Device_Id = replicate 12 0, Device_Db_ID = replicate 30 0, InternetConection = False,
            ClientAuthenticated = False, FirebaseConnState = 0, LastConnState = 0\<rparr>,
          ChargingGroup = \<lparr>AskPerm = False, gr_Conected = False, ChargPerm = False,
            gr_Finding = False, gr_GroupMaster = 0, gr_GroupActive = 0, gr_CDP = 0\<rparr>,
          Configuracion = \<lparr>cfg_device_ID = replicate 12 0, cfg_deviceSerNum = replicate 30 0,
            cfg_autentication_mode = [87, 65, 0], FirmwareESP = 500, FirmwarePSOC = 500,
            Data_cleared = 0, cfg_CDP = 0, cfg_install_current_limit = 32,
            count_reinicios_malos = 0, cfg_potencia_contratada1 = 32,
            cfg_potencia_contratada2 = 32, velt_v = 0, medidor485 = 0\<rparr>,
          salida = []\<rparr>)"

lemma inv_demo_control: "inv_control demo_control"
  by (simp add: demo_control_def inv_control_def inv_registros_def inv_params_def inv_config_def
      inv_firebase_def Let_def del: inv_partes)




definition demo_env :: entorno_ctl where
  "demo_env = \<lparr>ble_conectado = False, conexion_ok = False\<rparr>"

lemma demo_corriente:
  "procesar_bloque en MEASURES_CURRENT_COMMAND_CHAR_HANDLE buf c =
     (buf, modifyCharacteristics [(0, 1, MEASURES_CURRENT_COMMAND_CHAR_HANDLE)] buf
       (c\<lparr>Comands := (Comands c)\<lparr>desired_current := buf ! 0, cmd_Newdata := False\<rparr>\<rparr>))"
  by (simp add: procesar_bloque_def bloque_simple_def Let_def handle_consts)

text \<open>The frame of a current of 16 A, in two pieces.\<close>

lemma demo_trama: "trama (MEASURES_CURRENT_COMMAND_CHAR_HANDLE, [16]) = [58, 0, 30, 1, 16]"
  by (simp add: trama_def link_consts handle_consts)




text \<open>
  C23: a charge record of the PSoC is published as its header of 20 bytes followed by 123 samples
  of four bytes: the two bytes of each power reading before the end mark that is positive and below
  5900, and zeros for every other one. The conversion with its two indices and its running flag is
  equal to this sample-by-sample definition, and stays inside the record array.
\<close>

theorem charge_record_converted:
  assumes "inv_control c" "length buf = 256"
    "c' = snd (procesar_bloque en ENERGY_RECORD_RECORD_CHAR_HANDLE buf c)"
  shows "salida c' = salida c @ [Modifica ENERGY_RECORD_RECORD_CHAR_HANDLE (registro buf)]
    \<and> take 512 (record_received_buffer (Registros c')) = registro buf
    \<and> new_record_received (Registros c') \<and> \<not> ask_for_new_record (Registros c')"
proof -
  have r: "inv_registros (Registros c)" using assms(1) by simp
  then have "length (record_received_buffer (Registros c)) = 550" by (simp add: inv_registros_def)
  note conv = convertir_registro_registro [OF assms(2) this]
  have w: "mem_write (record_received_buffer_for_fb (Registros c)) 0 buf =
      Some (blit (record_received_buffer_for_fb (Registros c)) 0 buf)"
    using r assms(2) by (simp add: inv_registros_def)
  have l: "length (registro buf) = 512" using assms(2) by (simp add: registro_def)
  have p: "procesar_bloque en ENERGY_RECORD_RECORD_CHAR_HANDLE buf c =
      (buf, case bloque_energy_record buf c of None \<Rightarrow> c | Some c' \<Rightarrow> c')"
    by (simp add: procesar_bloque_def handle_consts)
  show ?thesis
    using assms(3) unfolding p
    by (simp add: bloque_energy_record_def conv w l Let_def efectos)
qed

theorem charge_record_converted_witness:
  "salida (snd (procesar_bloque demo_env ENERGY_RECORD_RECORD_CHAR_HANDLE
      (replicate 20 7 @ [1, 2, 255, 255] @ replicate 232 1) demo_control)) =
     [Modifica ENERGY_RECORD_RECORD_CHAR_HANDLE
       (registro (replicate 20 7 @ [1, 2, 255, 255] @ replicate 232 1))]"
  using charge_record_converted [OF inv_demo_control _ refl,
      of "replicate 20 7 @ [1, 2, 255, 255] @ replicate 232 1" demo_env]
  by (simp add: demo_control_def Let_def)

text \<open>
  The check of the authentication mode does the opposite of its comment. When the mode that
  the PSoC sends at start-up is not one of the three valid ones and the stored mode is valid, the
  stored mode is not used: the default is sent to the PSoC and the block is abandoned, so that
  neither the system nor the link counts as started; when the stored mode is invalid as well, the
  system starts with the invalid one.
\<close>

lemma invalid_mode_stops_start:
  assumes "\<not> systemStarted (Arranque c)" "buf ! 239 = 0x36" "length buf = 256"
    "\<not> modo_valido (take 2 (drop 212 buf))"
    "c' = snd (procesar_bloque en BLOQUE_INICIALIZACION buf c)"
  shows "if modo_valido (cfg_autentication_mode (Configuracion c))
    then \<not> systemStarted (Arranque c') \<and> PSOC_inicializado (Arranque c') = PSOC_inicializado (Arranque c)
         \<and> last (salida c') = Envia CONFIGURACION_AUTENTICATION_MODES_CHAR_HANDLE [87, 65]
         \<and> cfg_autentication_mode (Configuracion c') = cfg_autentication_mode (Configuracion c)
    else systemStarted (Arranque c') \<and> \<not> modo_valido (cfg_autentication_mode (Configuracion c'))"
proof -
  have ini: "Arranque (inicio_datos buf c) = Arranque c"
    "cfg_autentication_mode (Configuracion (inicio_datos buf c)) = cfg_autentication_mode (Configuracion c)"
    by (simp_all add: inicio_datos_def Let_def efectos)
  have cfg: "cfg_autentication_mode (Configuracion (startSystem d)) = cfg_autentication_mode (Configuracion d)"
    "cfg_autentication_mode (Configuracion (inicio_coms b d)) = cfg_autentication_mode (Configuracion d)"
    "cfg_autentication_mode (Configuracion (inicio_sensor b d)) = cfg_autentication_mode (Configuracion d)"
    "cfg_autentication_mode (Configuracion (inicio_config b d)) = cfg_autentication_mode (Configuracion d)"
    for b d
    by (simp_all add: startSystem_def inicio_coms_def inicio_sensor_def inicio_config_def Let_def efectos)
  have flash: "Arranque (borrar_flash d) = Arranque d" "Configuracion (borrar_flash d) = Configuracion d" for d
    by (simp_all add: borrar_flash_def efectos)
  show ?thesis
    using assms(1,2,4) unfolding assms(5) despacho
    by (simp add: bloque_inicializacion_def comprobar_modo_def Let_def ini cfg flash)
      (simp add: efectos ini)
qed

lemma invalid_mode_stops_start_example:
  "\<not> systemStarted (Arranque (snd (procesar_bloque demo_env BLOQUE_INICIALIZACION
      (replicate 239 0 @ [0x36] @ replicate 16 0) demo_control)))"
proof -
  let ?b = "replicate 239 0 @ [0x36] @ replicate 16 (0 :: u8)"
  have d: "\<not> systemStarted (Arranque demo_control)" and
    v: "modo_valido (cfg_autentication_mode (Configuracion demo_control))"
    by (simp_all add: demo_control_def modo_valido_def Let_def)
  have "take 2 (drop 212 ?b) = [0, 0]" by (simp add: numeral_2_eq_2)
  then have m: "\<not> modo_valido (take 2 (drop 212 ?b))" by (simp add: modo_valido_def)
  have b: "?b ! 239 = 0x36" "length ?b = 256" by (simp_all add: nth_append)
  from invalid_mode_stops_start [OF d b m refl, of demo_env] show ?thesis
    unfolding v [THEN eqTrueI] if_True by (elim conjE)
qed

end
