(* ===== verification/Psoc_Charge.thy ===== *)
theory Psoc_Charge
  imports Psoc_Types
begin

text \<open>
  Who may unlock the charge. The PSoC charges only while it is not told to lock, and the only
  frame that unlocks it is \<open>BLOQUEO_CARGA\<close> with data 0. These lemmas follow that frame, and the
  variable \<open>Bloqueo_de_carga\<close>, through every block of \<open>procesar_bloque\<close>.
\<close>

section \<open>Effects of the blocks on the lock\<close>

definition desbloqueo :: efecto where
  "desbloqueo = Envia BLOQUEO_CARGA [0]"

text \<open>
  From \<open>c\<close> to \<open>d\<close> the effects only grow, none of \<open>X\<close> is among the new ones, and the lock is
  kept or set.
\<close>

definition sin_efectos :: "efecto set \<Rightarrow> control \<Rightarrow> control \<Rightarrow> bool" where
  "sin_efectos X c d \<longleftrightarrow>
     (\<exists>fx. salida d = salida c @ fx \<and> X \<inter> set fx = {})
     \<and> (Bloqueo_de_carga d = Bloqueo_de_carga c \<or> Bloqueo_de_carga d = 1)"

text \<open>
  The frames that are followed: only frames to the PSoC, and only those of the lock. The second
  interface leaves out the frames that lock, which some blocks send.
\<close>

locale tramas_de_bloqueo =
  fixes X :: "efecto set"
  assumes solo_bloqueo: "ef \<in> X \<Longrightarrow> \<exists>d. ef = Envia BLOQUEO_CARGA d"
begin

lemma sd_refl [simp]: "sin_efectos X c c"
  by (simp add: sin_efectos_def)

lemma sd_trans: "sin_efectos X a b \<Longrightarrow> sin_efectos X b c \<Longrightarrow> sin_efectos X a c"
  by (force simp: sin_efectos_def)

lemma sd_same:
  "salida d = salida c \<Longrightarrow> Bloqueo_de_carga d = Bloqueo_de_carga c \<Longrightarrow>
     sin_efectos X a d = sin_efectos X a c"
  by (simp add: sin_efectos_def)

lemma otros [simp]: "Modifica h d \<notin> X" "Notifica h d \<notin> X" "Nombre d \<notin> X" "Auth_Init d \<notin> X"
  "Lanza_Update \<notin> X" "Reinicia \<notin> X" "h \<noteq> BLOQUEO_CARGA \<Longrightarrow> Envia h d \<notin> X"
  using solo_bloqueo by blast+

lemma sd_emite [simp]:
  "X \<inter> set fx = {} \<Longrightarrow> sin_efectos X a c \<Longrightarrow> sin_efectos X a (emite fx c)"
  by (force simp: sin_efectos_def emite_def)

lemma sd_modify [simp]:
  "sin_efectos X a c \<Longrightarrow> sin_efectos X a (modifyCharacteristics ts buf c)"
  unfolding modifyCharacteristics_def by (rule sd_emite) auto

lemma sd_envia [simp]:
  "Envia h [b] \<notin> X \<Longrightarrow> sin_efectos X a c \<Longrightarrow> sin_efectos X a (envia b h c)"
  by (simp add: envia_def)

lemma sd_status_coms [simp]:
  "sin_efectos X a c \<Longrightarrow> sin_efectos X a (Update_Status_Coms k b c)"
proof -
  assume s: "sin_efectos X a c"
  have "sin_efectos X a (c\<lparr>Status_Coms := u, Last_Status := v\<rparr>)" "sin_efectos X a (c\<lparr>Status_Coms := u\<rparr>)"
    for u v using s by (simp_all add: sin_efectos_def)
  then show ?thesis by (simp add: Update_Status_Coms_def Let_def)
qed

text \<open>The members that the lock does not depend on.\<close>

lemma sd_members [simp]:
  "sin_efectos X a (c\<lparr>device_ID := v1\<rparr>) = sin_efectos X a c"
  "sin_efectos X a (c\<lparr>deviceSerNum := v1\<rparr>) = sin_efectos X a c"
  "sin_efectos X a (c\<lparr>PSOC_version_firmware := v1\<rparr>) = sin_efectos X a c"
  "sin_efectos X a (c\<lparr>user_index := v2\<rparr>) = sin_efectos X a c"
  "sin_efectos X a (c\<lparr>user_index_arrived := v3\<rparr>) = sin_efectos X a c"
  "sin_efectos X a (c\<lparr>aut_semilla := v4\<rparr>) = sin_efectos X a c"
  "sin_efectos X a (c\<lparr>status_hpt_anterior := v1\<rparr>) = sin_efectos X a c"
  "sin_efectos X a (c\<lparr>inst_current_anterior := v5\<rparr>) = sin_efectos X a c"
  "sin_efectos X a (c\<lparr>cnt_diferencia := v5\<rparr>) = sin_efectos X a c"
  "sin_efectos X a (c\<lparr>flag_schedule_ack := v3\<rparr>) = sin_efectos X a c"
  "sin_efectos X a (c\<lparr>Arranque := v6\<rparr>) = sin_efectos X a c"
  "sin_efectos X a (c\<lparr>Registros := v7\<rparr>) = sin_efectos X a c"
  "sin_efectos X a (c\<lparr>Status := v8\<rparr>) = sin_efectos X a c"
  "sin_efectos X a (c\<lparr>Params := v9\<rparr>) = sin_efectos X a c"
  "sin_efectos X a (c\<lparr>Comands := v10\<rparr>) = sin_efectos X a c"
  "sin_efectos X a (c\<lparr>Coms := v11\<rparr>) = sin_efectos X a c"
  "sin_efectos X a (c\<lparr>ContadorExt := v12\<rparr>) = sin_efectos X a c"
  "sin_efectos X a (c\<lparr>ConfigFirebase := v13\<rparr>) = sin_efectos X a c"
  "sin_efectos X a (c\<lparr>ChargingGroup := v14\<rparr>) = sin_efectos X a c"
  "sin_efectos X a (c\<lparr>Configuracion := v15\<rparr>) = sin_efectos X a c"
  by (rule sd_same; simp)+

lemma sd_bloquear [simp]: "sin_efectos X a c \<Longrightarrow> sin_efectos X a (c\<lparr>Bloqueo_de_carga := 1\<rparr>)"
  by (auto simp: sin_efectos_def)

text \<open>The status block, when the change of the control pilot does not lock.\<close>

lemma sd_status:
  assumes "Envia BLOQUEO_CARGA [1] \<notin> X
    \<or> \<not> (Tipo_Sensor (Params c) \<or> gr_Conected (ChargingGroup c))
    \<or> \<not> (status_hpt_anterior c ! 0 = 67 \<or> status_hpt_anterior c ! 0 = 66)"
  shows "sin_efectos X c (bloque_status en buf c)"
proof -
  let ?h = "take 2 (drop 1 buf)"
  have ini: "sin_efectos X d (hpt_inicializa d)" for d
    by (simp add: hpt_inicializa_def handle_consts)
  have noti: "sin_efectos X d (hpt_notifica ble hpt d)" for ble hpt d
    by (simp add: hpt_notifica_def Let_def)
  have fire: "sin_efectos X d (hpt_firebase hpt d)" for hpt d
    by (simp add: hpt_firebase_def Let_def)
  have igual: "Params (hpt_firebase hpt (hpt_notifica ble hpt (hpt_inicializa d))) = Params d"
    "gr_Conected (ChargingGroup (hpt_firebase hpt (hpt_notifica ble hpt (hpt_inicializa d)))) =
       gr_Conected (ChargingGroup d)"
    "status_hpt_anterior (hpt_firebase hpt (hpt_notifica ble hpt (hpt_inicializa d))) =
       status_hpt_anterior d" for hpt ble d
    by (simp_all add: hpt_firebase_def hpt_notifica_def hpt_inicializa_def Let_def efectos)
  have cambio: "sin_efectos X d (hpt_cambio ble ?h d)" if "Params d = Params c"
    "gr_Conected (ChargingGroup d) = gr_Conected (ChargingGroup c)"
    "status_hpt_anterior d = status_hpt_anterior c" for ble d
  proof -
    let ?d = "hpt_firebase ?h (hpt_notifica ble ?h (hpt_inicializa d))"
    have "sin_efectos X ?d (hpt_bloquea ?h ?d)"
      using assms that igual [of ?h ble d] by (auto simp: hpt_bloquea_def Let_def)
    from sd_trans [OF sd_trans [OF sd_trans [OF ini noti] fire] this] show ?thesis
      by (simp add: hpt_cambio_def)
  qed
  have cor0: "sin_efectos X d (notifica_corriente ble buf d)" for ble d
    by (simp add: notifica_corriente_def Let_def)
  have cor: "sin_efectos X a d \<Longrightarrow> sin_efectos X a (notifica_corriente ble buf d)" for a ble d
    by (rule sd_trans [OF _ cor0])
  have med: "sin_efectos X a (status_medidas buf d) = sin_efectos X a d" for a d
    by (simp add: status_medidas_def Let_def)
  let ?m = "\<lambda>d. modifyCharacteristics [(0, 1, LED_LUMIN_COLOR_LUMINOSITY_LEVEL_CHAR_HANDLE)] buf d"
  have cambio': "sin_efectos X c (hpt_cambio ble ?h ((?m (c\<lparr>Arranque := x\<rparr>))\<lparr>Status := y\<rparr>))" for ble x y
  proof -
    let ?d = "(?m (c\<lparr>Arranque := x\<rparr>))\<lparr>Status := y\<rparr>"
    have "sin_efectos X c ?d" by simp
    moreover have "Params ?d = Params c" "ChargingGroup ?d = ChargingGroup c"
      "status_hpt_anterior ?d = status_hpt_anterior c" by (simp_all add: efectos)
    ultimately show ?thesis using sd_trans [of c ?d] cambio [of ?d ble] by metis
  qed
  show ?thesis
    by (simp add: bloque_status_def Let_def med cambio' [unfolded One_nat_def] cor)
qed

end

locale tramas_de_desbloqueo = tramas_de_bloqueo +
  assumes bloquear_no: "Envia BLOQUEO_CARGA [1] \<notin> X"
begin

lemma sd_comprobar_modo:
  "comprobar_modo i buf c = (buf', sigue, c') \<Longrightarrow> sin_efectos X c c'"
  by (auto simp: comprobar_modo_def handle_consts split: if_splits)

lemma sd_inicializacion: "sin_efectos X c (snd (bloque_inicializacion buf c))"
proof -
  have datos: "sin_efectos X d (inicio_datos buf' d)" for buf' d
    by (simp add: inicio_datos_def Let_def)
  have config: "sin_efectos X d (inicio_config buf' d)" for buf' d
    by (simp add: inicio_config_def Let_def)
  have sensor: "sin_efectos X d (inicio_sensor buf' d)" for buf' d
    by (simp add: inicio_sensor_def Let_def handle_consts bloquear_no [unfolded handle_consts])
  have coms: "sin_efectos X d (inicio_coms buf' d)" for buf' d
    by (simp add: inicio_coms_def Let_def)
  have start: "sin_efectos X d (startSystem d)" for d
    by (simp add: startSystem_def Let_def)
  have flash: "sin_efectos X d (borrar_flash d)" for d
    by (simp add: borrar_flash_def handle_consts)
  obtain buf' sigue c1 where m: "comprobar_modo 212 buf (inicio_datos buf c) = (buf', sigue, c1)"
    by (metis prod_cases3)
  let ?c2 = "startSystem (inicio_coms buf' (inicio_sensor buf' (inicio_config buf' c1)))"
  let ?c3 = "?c2\<lparr>Arranque := (Arranque ?c2)\<lparr>systemStarted := True,
              cnt_timeout_inicio := TIMEOUT_INICIO, PSOC_inicializado := True\<rparr>\<rparr>"
  have c1: "sin_efectos X c c1" using sd_trans [OF datos sd_comprobar_modo [OF m]] .
  have "sin_efectos X c ?c2"
    by (rule sd_trans [OF c1 sd_trans [OF config sd_trans [OF sensor sd_trans [OF coms start]]]])
  then have "sin_efectos X c ?c3" by simp
  then have "sin_efectos X c (borrar_flash ?c3)" by (rule sd_trans [OF _ flash])
  with c1 show ?thesis by (simp add: bloque_inicializacion_def m Let_def)
qed

lemma sd_otros:
  "sin_efectos X c (bloque_date_time buf c)" "sin_efectos X c (bloque_schedule buf c)"
  "sin_efectos X c (bloque_rec_last buf c)" "sin_efectos X c (bloque_rec_laps buf c)"
  "sin_efectos X c (bloque_search_meter buf c)" "sin_efectos X c (bloque_eth_on en buf c)"
  "sin_efectos X c (bloque_lan_ip buf c)" "sin_efectos X c (bloque_dpc_mode buf c)"
  "bloque_energy_record buf c = Some c' \<Longrightarrow> sin_efectos X c c'"
proof -
  have t: "sin_efectos X a (poner_tiempo lee pone x d) = sin_efectos X a d" for a lee pone x d
    by (simp add: poner_tiempo_def)
  have dpc: "sin_efectos X a d \<Longrightarrow> sin_efectos X a (dpc_sensor cdp d)" for a cdp d
    by (simp add: dpc_sensor_def Let_def handle_consts)
  show "sin_efectos X c (bloque_date_time buf c)" by (simp add: bloque_date_time_def Let_def t)
  show "sin_efectos X c (bloque_dpc_mode buf c)" by (simp add: bloque_dpc_mode_def Let_def dpc)
  show "sin_efectos X c (bloque_schedule buf c)" "sin_efectos X c (bloque_rec_last buf c)"
    "sin_efectos X c (bloque_rec_laps buf c)" "sin_efectos X c (bloque_search_meter buf c)"
    "sin_efectos X c (bloque_eth_on en buf c)" "sin_efectos X c (bloque_lan_ip buf c)"
    by (simp_all add: bloque_schedule_def bloque_rec_last_def bloque_rec_laps_def
        bloque_search_meter_def bloque_eth_on_def bloque_lan_ip_def handle_consts Let_def)
  show "bloque_energy_record buf c = Some c' \<Longrightarrow> sin_efectos X c c'"
    by (auto simp: bloque_energy_record_def Let_def split: option.splits if_splits)
qed

lemma sd_simple: "bloque_simple tipo buf c = Some c' \<Longrightarrow> sin_efectos X c c'"
  unfolding bloque_simple_def Let_def
  by (auto split: if_splits)

lemma sd_autentication: "sin_efectos X c (snd (bloque_autentication_modes buf c))"
proof -
  obtain buf' sigue c1 where m: "comprobar_modo 0 buf c = (buf', sigue, c1)" by (metis prod_cases3)
  from sd_comprobar_modo [OF m] show ?thesis by (simp add: bloque_autentication_modes_def m Let_def)
qed

text \<open>No block but the question of the PSoC itself can unlock.\<close>

lemma sd_procesar_bloque:
  assumes "tipo \<noteq> BLOQUEO_CARGA"
  shows "sin_efectos X c (snd (procesar_bloque en tipo buf c))"
proof -
  have rec: "sin_efectos X c (case bloque_energy_record buf c of None \<Rightarrow> c | Some c' \<Rightarrow> c')"
    by (cases "bloque_energy_record buf c") (simp_all add: sd_otros(9))
  have sim: "sin_efectos X c (case bloque_simple tipo buf c of None \<Rightarrow> c | Some c' \<Rightarrow> c')"
    by (cases "bloque_simple tipo buf c") (simp_all add: sd_simple)
  have st: "sin_efectos X c (bloque_status en buf c)" by (rule sd_status) (simp add: bloquear_no)
  show ?thesis
    using assms
    by (simp add: procesar_bloque_def rec sim st sd_inicializacion sd_autentication sd_otros(1-8))
qed

end

interpretation desbloqueo: tramas_de_desbloqueo "{desbloqueo}"
  by unfold_locales (simp_all add: desbloqueo_def)

interpretation bloqueo: tramas_de_bloqueo "range (Envia BLOQUEO_CARGA)"
  by unfold_locales auto

section \<open>The decision\<close>

text \<open>
  When a charge is allowed: the charger is initialised; in a group (or looking for one) it is
  connected to its master and has been given permission; outside a group, a configured meter is
  connected.
\<close>

definition permiso_de_carga :: "control \<Rightarrow> bool" where
  "permiso_de_carga c \<longleftrightarrow>
     dispositivo_inicializado (Arranque c) = 2
     \<and> (if gr_GroupActive (ChargingGroup c) \<noteq> 0 \<or> gr_Finding (ChargingGroup c)
        then gr_Conected (ChargingGroup c) \<and> ChargPerm (ChargingGroup c)
        else Tipo_Sensor (Params c)
               \<or> gr_GroupMaster (ChargingGroup c) \<noteq> 0 \<and> ContadorConfigurado (ChargingGroup c)
             \<longrightarrow> MedidorConectado (ContadorExt c))"

lemma decide_bloqueo_permiso: "fst (decide_bloqueo c) = (if permiso_de_carga c then 0 else 1)"
  by (auto simp: decide_bloqueo_def permiso_de_carga_def Let_def)

lemma bloqueo_carga_efectos:
  "salida (bloque_bloqueo_carga c) = salida c @
     (let b = (if permiso_de_carga c then 0 else 1)
      in if b \<noteq> Bloqueo_de_carga c then [Envia BLOQUEO_CARGA [b]] else [])"
  "Bloqueo_de_carga (bloque_bloqueo_carga c) = (if permiso_de_carga c then 0 else 1)"
proof -
  obtain b ask where d: "decide_bloqueo c = (b, ask)" by force
  with decide_bloqueo_permiso [of c] have b: "b = (if permiso_de_carga c then 0 else 1)" by simp
  show "salida (bloque_bloqueo_carga c) = salida c @
     (let b = (if permiso_de_carga c then 0 else 1)
      in if b \<noteq> Bloqueo_de_carga c then [Envia BLOQUEO_CARGA [b]] else [])"
    unfolding bloque_bloqueo_carga_def d b [symmetric] by (simp add: Let_def efectos)
  show "Bloqueo_de_carga (bloque_bloqueo_carga c) = (if permiso_de_carga c then 0 else 1)"
    unfolding bloque_bloqueo_carga_def d b [symmetric] by (simp add: Let_def efectos)
qed

section \<open>Properties of the lock\<close>

definition nuevos :: "control \<Rightarrow> control \<Rightarrow> efecto list" where
  "nuevos c d = drop (length (salida c)) (salida d)"

text \<open>
  C1: the charge is unlocked exactly when it may be. Over all types and contents of blocks, the
  handler sends the frame that unlocks the PSoC, and clears the lock, if and only if the block is
  the question of the PSoC, the charge is locked, and the charger is initialised with the permission
  of its group, or outside a group with its meter connected when one is configured.
\<close>

theorem charge_unlocked_iff_permitted:
  "(desbloqueo \<in> set (nuevos c (snd (procesar_bloque en tipo buf c))) \<longleftrightarrow>
      tipo = BLOQUEO_CARGA \<and> Bloqueo_de_carga c \<noteq> 0 \<and> permiso_de_carga c)
   \<and> (Bloqueo_de_carga c \<noteq> 0 \<and> Bloqueo_de_carga (snd (procesar_bloque en tipo buf c)) = 0 \<longleftrightarrow>
      tipo = BLOQUEO_CARGA \<and> Bloqueo_de_carga c \<noteq> 0 \<and> permiso_de_carga c)"
proof (cases "tipo = BLOQUEO_CARGA")
  case True
  then show ?thesis
    by (auto simp: despacho nuevos_def bloqueo_carga_efectos desbloqueo_def Let_def split: if_splits)
next
  case False
  from desbloqueo.sd_procesar_bloque [OF this, of c en buf] False show ?thesis
    by (auto simp: sin_efectos_def nuevos_def)
qed

lemma Bloqueo_status:
  assumes "systemStarted (Arranque c)" "buf ! 45 = 0x36" "length buf = 256"
    "take 2 (drop 1 buf) \<in> set HPT_estados" "take 2 (drop 1 buf) \<noteq> status_hpt_anterior c"
    "buf ! 1 \<noteq> 69" "buf ! 1 \<noteq> 70" "ble_conectado en"
  shows "Bloqueo_de_carga (bloque_status en buf c) = 1"
proof -
  let ?h = "take 2 (drop 1 buf)"
  have h0: "?h ! 0 = buf ! 1" using assms(3) by simp
  have camb: "Bloqueo_de_carga (hpt_cambio True ?h d) = 1"
    if "status_hpt_anterior d = status_hpt_anterior c" for d
    using assms(5-7) h0 that
    by (simp add: hpt_cambio_def hpt_bloquea_def hpt_firebase_def hpt_notifica_def Let_def efectos)
  have cor: "Bloqueo_de_carga (notifica_corriente ble buf d) = Bloqueo_de_carga d" for ble d
    by (simp add: notifica_corriente_def Let_def efectos)
  have med: "Bloqueo_de_carga (status_medidas buf d) = Bloqueo_de_carga d" for d
    by (simp add: status_medidas_def Let_def)
  have mod: "Bloqueo_de_carga (modifyCharacteristics ts buf d) = Bloqueo_de_carga d"
    "status_hpt_anterior (modifyCharacteristics ts buf d) = status_hpt_anterior d" for ts d
    by (simp_all add: efectos)
  have "list_ex (\<lambda>h. h = ?h) HPT_estados" using assms(4) by (auto simp: list_ex_iff)
  with assms(1,2,8) show ?thesis
    by (simp add: bloque_status_def Let_def cor med mod camb [unfolded One_nat_def])
qed

lemma status_grupo:
  "gr_GroupActive (ChargingGroup (bloque_status en buf c)) = gr_GroupActive (ChargingGroup c)"
  "gr_Conected (ChargingGroup (bloque_status en buf c)) = gr_Conected (ChargingGroup c)"
proof -
  have cor: "ChargingGroup (notifica_corriente ble buf d) = ChargingGroup d"
    "ChargingGroup (modifyCharacteristics ts buf d) = ChargingGroup d"
    "ChargingGroup (status_medidas buf d) = ChargingGroup d" for ble ts d
    by (simp_all add: notifica_corriente_def status_medidas_def Let_def efectos)
  have hpt: "gr_GroupActive (ChargingGroup (hpt_cambio ble h d)) = gr_GroupActive (ChargingGroup d)"
    "gr_Conected (ChargingGroup (hpt_cambio ble h d)) = gr_Conected (ChargingGroup d)" for ble h d
    by (simp_all add: hpt_cambio_def hpt_bloquea_def hpt_firebase_def hpt_notifica_def
        hpt_inicializa_def Let_def efectos)
  show "gr_GroupActive (ChargingGroup (bloque_status en buf c)) = gr_GroupActive (ChargingGroup c)"
    "gr_Conected (ChargingGroup (bloque_status en buf c)) = gr_Conected (ChargingGroup c)"
    by (simp_all add: bloque_status_def Let_def cor hpt)
qed

text \<open>
  The lock can be lost. With a client connected by BLE, a change of the control pilot sets the
  variable \<open>Bloqueo_de_carga\<close> without telling the PSoC. When the PSoC then asks and the charge is not
  permitted, the answer equals the variable and is not sent: no frame of the lock goes out in either
  block, so that a PSoC that was told to unlock stays unlocked.
\<close>

lemma lock_not_told_to_psoc:
  assumes "systemStarted (Arranque c)" "buf ! 45 = 0x36" "length buf = 256"
    "take 2 (drop 1 buf) \<in> set HPT_estados" "take 2 (drop 1 buf) \<noteq> status_hpt_anterior c"
    "buf ! 1 \<noteq> 69" "buf ! 1 \<noteq> 70" "ble_conectado en"
    "\<not> Tipo_Sensor (Params c)" "\<not> gr_Conected (ChargingGroup c)"
    "c1 = snd (procesar_bloque en BLOQUE_STATUS buf c)" "\<not> permiso_de_carga c1"
    "c2 = snd (procesar_bloque en BLOQUEO_CARGA buf' c1)"
  shows "Bloqueo_de_carga c2 = 1 \<and> (\<forall>d. Envia BLOQUEO_CARGA d \<notin> set (nuevos c c2))"
proof -
  have c1: "c1 = bloque_status en buf c" using assms(11) by (simp add: despacho)
  have "sin_efectos (range (Envia BLOQUEO_CARGA)) c c1"
    unfolding c1 by (rule bloqueo.sd_status) (use assms(9,10) in simp)
  then obtain fx where fx: "salida c1 = salida c @ fx" "range (Envia BLOQUEO_CARGA) \<inter> set fx = {}"
    by (auto simp: sin_efectos_def)
  have b1: "Bloqueo_de_carga c1 = 1" unfolding c1 using assms(1-8) by (rule Bloqueo_status)
  have c2: "c2 = bloque_bloqueo_carga c1" using assms(13) by (simp add: despacho)
  have "salida c2 = salida c1" "Bloqueo_de_carga c2 = 1"
    unfolding c2 bloqueo_carga_efectos using assms(12) b1 by simp_all
  with fx show ?thesis by (auto simp: nuevos_def)
qed

definition demo_miembro :: control where
  "demo_miembro = demo_control\<lparr>Bloqueo_de_carga := 0, status_hpt_anterior := [65, 49],
     Arranque := (Arranque demo_control)\<lparr>systemStarted := True, dispositivo_inicializado := 2\<rparr>,
     ChargingGroup := (ChargingGroup demo_control)\<lparr>gr_GroupActive := 1\<rparr>\<rparr>"

definition demo_status :: bytes where
  "demo_status = [0, 66, 49] @ replicate 42 0 @ [0x36] @ replicate 210 0"

lemma lock_not_told_to_psoc_example:
  "let en = \<lparr>ble_conectado = True, conexion_ok = False\<rparr>;
       c1 = snd (procesar_bloque en BLOQUE_STATUS demo_status demo_miembro);
       c2 = snd (procesar_bloque en BLOQUEO_CARGA [0] c1)
   in Bloqueo_de_carga demo_miembro = 0 \<and> Bloqueo_de_carga c2 = 1
     \<and> Envia BLOQUEO_CARGA [1] \<notin> set (nuevos demo_miembro c2)"
proof -
  let ?en = "\<lparr>ble_conectado = True, conexion_ok = False\<rparr>"
  let ?c1 = "snd (procesar_bloque ?en BLOQUE_STATUS demo_status demo_miembro)"
  have h: "take 2 (drop 1 demo_status) = [66, 49]" "demo_status ! 45 = 0x36" "demo_status ! 1 = 66"
    "length demo_status = 256" by (simp_all add: demo_status_def nth_append)
  have m: "systemStarted (Arranque demo_miembro)" "status_hpt_anterior demo_miembro = [65, 49]"
    "\<not> Tipo_Sensor (Params demo_miembro)" "\<not> gr_Conected (ChargingGroup demo_miembro)"
    "Bloqueo_de_carga demo_miembro = 0" "gr_GroupActive (ChargingGroup demo_miembro) = 1"
    by (simp_all add: demo_miembro_def demo_control_def Let_def)
  have "\<not> permiso_de_carga ?c1"
    using status_grupo [of ?en demo_status demo_miembro] m by (simp add: despacho permiso_de_carga_def)
  with lock_not_told_to_psoc [of demo_miembro demo_status ?en ?c1 _ "[0]"] h m show ?thesis
    by (simp add: Let_def HPT_estados_def)
qed

end
