(* ===== verification/Psoc_Schedule.thy ===== *)
theory Psoc_Schedule
  imports Psoc_Charge
begin

text \<open>
  The transmission of the weekly schedule to the PSoC (helpers.cpp) and its acknowledgement by the
  block that the PSoC returns.
\<close>

section \<open>The weekly schedule\<close>

text \<open>
  \<open>SendScheduleMatrixToPSOC5\<close> (helpers.cpp) sends the schedule, one frame for each day, and
  waits two seconds; it does so three times at most, until the receiver has found the answer of the
  PSoC equal to what was sent (\<open>bloque_schedule\<close>). \<open>resp k\<close> is the schedule block that
  arrives during attempt \<open>k\<close>.
\<close>

definition trama_dia :: "bytes \<Rightarrow> nat \<Rightarrow> efecto" where
  "trama_dia data day =
     Envia SCHED_CHARGING_SCHEDULE_MATRIX_CHAR_HANDLE (of_nat day # take 24 (drop (day * 24) data))"

definition schedule_dia :: "bytes \<Rightarrow> nat \<Rightarrow> control \<Rightarrow> control" where
  "schedule_dia data day c = emite [trama_dia data day]
     (c\<lparr>global_schedule_buffer :=
          blit (global_schedule_buffer c) (day * 24) (take 24 (drop (day * 24) data))\<rparr>)"

fun schedule_intentos :: "bytes option list \<Rightarrow> bytes \<Rightarrow> control \<Rightarrow> control" where
  "schedule_intentos [] data c = c"
| "schedule_intentos (r # rs) data c =
     (if flag_schedule_ack c then c
      else let c1 = fold (schedule_dia data) [0..<7] c
           in schedule_intentos rs data (case r of None \<Rightarrow> c1 | Some buf \<Rightarrow> bloque_schedule buf c1))"

definition SendScheduleMatrixToPSOC5 :: "(nat \<Rightarrow> bytes option) \<Rightarrow> bytes \<Rightarrow> control \<Rightarrow> control" where
  "SendScheduleMatrixToPSOC5 resp data c =
     (schedule_intentos [resp 0, resp 1, resp 2] data c)\<lparr>flag_schedule_ack := False\<rparr>"

lemma schedule_dias:
  assumes "length data = 168" "length (global_schedule_buffer c) = 168" "n \<le> 7"
  shows "fold (schedule_dia data) [0..<n] c =
    c\<lparr>salida := salida c @ map (trama_dia data) [0..<n],
      global_schedule_buffer := take (n * 24) data @ drop (n * 24) (global_schedule_buffer c)\<rparr>"
  using assms(3)
proof (induction n)
  case (Suc n)
  have "take (n * 24) data @ take 24 (drop (n * 24) data) = take (Suc n * 24) data"
    using take_add [of "n * 24" 24 data] by (simp add: add.commute)
  with Suc assms(1,2) show ?case
    by (simp add: schedule_dia_def emite_def blit_def add.commute)
qed simp

lemma schedule_envio:
  assumes "length data = 168" "length (global_schedule_buffer c) = 168"
  shows "fold (schedule_dia data) [0..<7] c =
    c\<lparr>salida := salida c @ map (trama_dia data) [0..<7], global_schedule_buffer := data\<rparr>"
  using schedule_dias [OF assms, of 7] assms by simp

text \<open>
  A schedule whose answer comes during the first attempt is sent once, and without an answer it is
  sent three times. An acknowledgement left over from an earlier answer suppresses the transmission:
  nothing is sent.
\<close>

lemma schedule_answered:
  assumes "length data = 168" "length (global_schedule_buffer c) = 168" "\<not> flag_schedule_ack c"
    "resp 0 = Some buf" "take 168 buf = data"
  shows "nuevos c (SendScheduleMatrixToPSOC5 resp data c) =
      map (trama_dia data) [0..<7] @ [Modifica SCHED_CHARGING_SCHEDULE_MATRIX_CHAR_HANDLE data]
    \<and> global_schedule_buffer (SendScheduleMatrixToPSOC5 resp data c) = data
    \<and> \<not> flag_schedule_ack (SendScheduleMatrixToPSOC5 resp data c)"
  using assms
  by (simp add: SendScheduleMatrixToPSOC5_def schedule_envio bloque_schedule_def nuevos_def
      modifyCharacteristics_def emite_def)

lemma schedule_unanswered:
  assumes "length data = 168" "length (global_schedule_buffer c) = 168" "\<not> flag_schedule_ack c"
    "\<forall>k. resp k = None"
  shows "nuevos c (SendScheduleMatrixToPSOC5 resp data c) =
      concat (replicate 3 (map (trama_dia data) [0..<7]))"
  using assms
  by (simp add: SendScheduleMatrixToPSOC5_def schedule_envio nuevos_def numeral_3_eq_3)

lemma schedule_stale_ack:
  "flag_schedule_ack c \<Longrightarrow>
     SendScheduleMatrixToPSOC5 resp data c = c\<lparr>flag_schedule_ack := False\<rparr>"
  by (simp add: SendScheduleMatrixToPSOC5_def)

end
