(* ===== verification/Ble_Orders.thy ===== *)
theory Ble_Orders
  imports Group_Messages Discovery Ble_Session Psoc_Schedule
begin

text \<open>
  What the writes of a BLE client do to the charger (\<^verbatim>\<open>onWrite\<close> of \<^verbatim>\<open>ble/serverble.cpp\<close>): the
  orders of an authorised client through the omnibus characteristic (the group with its parameters and circuits,
  the operations on the group, the policy, the hidden selector, and everything else, which is sent on to the
  PSoC), and the two characteristics of their own for the schedule and the group. \<^verbatim>\<open>New_Control\<close> of
  \<^verbatim>\<open>group_control.cpp\<close> carries out the orders to pause and to delete a group.
\<close>

section \<open>State\<close>

definition TEST_LAUNCH_MCB_TEST_CHAR_HANDLE :: u16 where "TEST_LAUNCH_MCB_TEST_CHAR_HANDLE = 0x005F"
definition DOMESTIC_CONSUMPTION_KS_CHAR_HANDLE :: u16 where "DOMESTIC_CONSUMPTION_KS_CHAR_HANDLE = 0x009A"
definition DOMESTIC_CONSUMPTION_FCT_CHAR_HANDLE :: u16 where "DOMESTIC_CONSUMPTION_FCT_CHAR_HANDLE = 0x009C"
definition DOMESTIC_CONSUMPTION_FS_CHAR_HANDLE :: u16 where "DOMESTIC_CONSUMPTION_FS_CHAR_HANDLE = 0x009E"
definition COMS_CONFIGURATION_WIFI_START_PROV :: u16 where "COMS_CONFIGURATION_WIFI_START_PROV = 0x00B7"
definition GROUPS_OPERATIONS :: u16 where "GROUPS_OPERATIONS = 0x00BD"
definition POLICY :: u16 where "POLICY = 0x00D3"
definition SIZE_OF_GROUP_PARAMS :: nat where "SIZE_OF_GROUP_PARAMS = 7"
definition BACKDOOR_ACTION_NO_ACTION :: u8 where "BACKDOOR_ACTION_NO_ACTION = 0"
definition BACKDOOR_ACTION_DELETE_GROUP :: u8 where "BACKDOOR_ACTION_DELETE_GROUP = 69"

text \<open>
  The group as theory \<open>Group_Messages\<close> has it, with the image of the table in flash, the flags that only the
  orders use, the table of the network, and what the orders send: values and frames, and UDP messages.
\<close>

record ordenes =
  od_nodo :: nodo
  od_group :: string
  od_Conected :: bool
  od_DeleteOrder :: bool
  od_SendNewGroup :: bool
  od_SendNewParams :: bool
  od_SendNewCircuits :: bool
  od_Creando :: bool
  od_StartProvisioning :: bool
  od_policy :: bytes
  od_backdoor_selector :: u8
  od_net :: group
  od_fx :: "efecto list"
  od_udp :: "Discovery.salida list"

text \<open>The part of the state that storing and loading a group work on (theory \<open>Group_Table\<close>).\<close>

definition grupo_de :: "ordenes \<Rightarrow> group_sys" where
  "grupo_de w = (let d = od_nodo w in
     \<lparr>gs_table = gc_table (no_gc d), gs_number = gc_Charger_number (no_gc d), gs_buf = od_group w,
      gs_params = no_params d, gs_guardar = no_guardar d, gs_Conected = od_Conected w,
      gs_DeleteOrder = od_DeleteOrder w, gs_SendNewGroup = od_SendNewGroup w,
      gs_NewData = gc_NewData (no_gc d), gs_GroupMaster = no_GroupMaster d\<rparr>)"

definition pon_grupo :: "group_sys \<Rightarrow> ordenes \<Rightarrow> ordenes" where
  "pon_grupo g w =
     w\<lparr>od_nodo := (od_nodo w)\<lparr>no_gc := (no_gc (od_nodo w))\<lparr>gc_table := gs_table g,
          gc_Charger_number := gs_number g, gc_NewData := gs_NewData g\<rparr>,
        no_params := gs_params g, no_guardar := gs_guardar g, no_GroupMaster := gs_GroupMaster g\<rparr>,
       od_group := gs_buf g, od_Conected := gs_Conected g, od_DeleteOrder := gs_DeleteOrder g,
       od_SendNewGroup := gs_SendNewGroup g\<rparr>"

definition emite_od :: "efecto list \<Rightarrow> ordenes \<Rightarrow> ordenes" where
  "emite_od fx w = w\<lparr>od_fx := od_fx w @ fx\<rparr>"

section \<open>Orders to the group\<close>

text \<open>\<^verbatim>\<open>broadcast_a_grupo\<close> of theory \<open>Discovery\<close>, on this state.\<close>

definition difunde :: "string \<Rightarrow> ordenes \<Rightarrow> ordenes" where
  "difunde Mensaje w =
     (let g = no_gc (od_nodo w);
          (out, t) = broadcast_outer (Encipher Mensaje) (take (snd (od_net w)) (fst (od_net w)))
                       (gc_table g, gc_Charger_number g)
      in w\<lparr>od_nodo := (od_nodo w)\<lparr>no_gc := g\<lparr>gc_table := fst t, gc_Charger_number := snd t\<rparr>\<rparr>,
           od_udp := od_udp w @ out\<rparr>)"

definition New_Control :: "string \<Rightarrow> ordenes \<Rightarrow> ordenes option" where
  "New_Control Data w =
     (if memeq Data ''Pause'' 5
      then let w1 = difunde ''Pause group'' w
           in Some (w1\<lparr>od_nodo := store_params_in_mem
                ((od_nodo w1)\<lparr>no_StopOrder := True, no_GroupActive := 0\<rparr>)\<rparr>)
      else if memeq Data ''Delete'' 6
      then let g = no_gc (od_nodo w);
               t = remove_group (gc_table g, gc_Charger_number g);
               w1 = w\<lparr>od_nodo := (od_nodo w)\<lparr>no_GroupActive := 0, no_GroupMaster := 0, no_StopOrder := True,
                        no_gc := g\<lparr>gc_ContractPower := 0, gc_CDP := 0, gc_potencia_max := 0,
                                   gc_table := fst t, gc_Charger_number := snd t\<rparr>\<rparr>,
                      od_DeleteOrder := False, od_Conected := False\<rparr>
           in do { s \<leftarrow> store_group_in_mem (no_Device_Id (od_nodo w1)) (grupo_de w1);
                   let w2 = pon_grupo s w1;
                   Some (w2\<lparr>od_nodo := store_params_in_mem (od_nodo w2)\<rparr>) }
      else Some w)"

text \<open>The parameters of the group. The test for \<^verbatim>\<open>SendNewParams\<close> in the middle can never hold; it is set at the end.\<close>

definition orden_params :: "bytes \<Rightarrow> ordenes \<Rightarrow> ordenes option" where
  "orden_params payload w =
     (if length payload < SIZE_OF_GROUP_PARAMS - 1 then None
      else let p = map unat payload;
               d = od_nodo w;
               master = (if \<not> od_Conected w \<and> p ! 0 \<noteq> 0 then 1 else no_GroupMaster d);
               stop = (if no_GroupActive d \<noteq> 0 \<and> p ! 0 = 0 then True else no_StopOrder d);
               g = (no_gc d)\<lparr>gc_CDP := p ! 1, gc_ContractPower := p ! 2 + p ! 3 * 0x100,
                             gc_potencia_max := p ! 4 + p ! 5 * 0x100, gc_NewData := True\<rparr>
           in do { params \<leftarrow> mem_write (no_params d) 0 [master];
                   params \<leftarrow> mem_write params 1 (take (SIZE_OF_GROUP_PARAMS - 1) p);
                   Some (w\<lparr>od_nodo := d\<lparr>no_GroupMaster := master, no_StopOrder := stop, no_GroupActive := p ! 0,
                                        no_gc := g, no_params := params, no_guardar := True\<rparr>,
                           od_SendNewParams := True\<rparr>) })"

text \<open>The limits of the circuits: a count and one limit for each.\<close>

definition orden_circuits :: "bytes \<Rightarrow> ordenes \<Rightarrow> ordenes option" where
  "orden_circuits payload w =
     (if payload = [] then None
      else let p = map unat payload; d = od_nodo w
           in do { g \<leftarrow> set_limites (p ! 0) p (no_gc d);
                   circuits \<leftarrow> mem_write (no_circuits d) 0 (take (c8 (p ! 0 + 1)) p);
                   Some (w\<lparr>od_nodo := d\<lparr>no_gc := g\<lparr>gc_NewData := True\<rparr>, no_circuits := circuits,
                                        no_guardar := True\<rparr>,
                           od_SendNewCircuits := True\<rparr>) })"

text \<open>The values that the client is given to read: the devices of the network, the group, its parameters and circuits.\<close>

definition valor_net :: "ordenes \<Rightarrow> bytes" where
  "valor_net w = map of_nat (net_devices (no_Device_Id (od_nodo w)) (od_net w))"

definition valor_entrada :: "carac_charger \<Rightarrow> bytes" where
  "valor_entrada c = map a_byte (take 8 (ch_name c)) @ [of_nat (4 * ch_Circuito c + ch_Fase c)]"

definition valor_grupo :: "group_control \<Rightarrow> bytes" where
  "valor_grupo g = of_nat (gc_Charger_number g)
     # concat (map valor_entrada (take (gc_Charger_number g) (gc_table g)))"

definition valor_params :: "nodo \<Rightarrow> bytes" where
  "valor_params d =
     [of_nat (no_GroupActive d), of_nat (gc_CDP (no_gc d)),
      of_nat (gc_ContractPower (no_gc d) mod 256), of_nat (gc_ContractPower (no_gc d) div 256 mod 256),
      of_nat (gc_potencia_max (no_gc d) mod 256), of_nat (gc_potencia_max (no_gc d) div 256 mod 256)]"

definition valor_circuits :: "nodo \<Rightarrow> bytes" where
  "valor_circuits d = of_nat (gc_Circuit_number (no_gc d)) # map of_nat (limites d)"

definition ser_maestro :: "ordenes \<Rightarrow> ordenes" where
  "ser_maestro w =
     (if \<not> od_Conected w then w\<lparr>od_nodo := (od_nodo w)\<lparr>no_GroupMaster := 1\<rparr>\<rparr> else w)"

definition orden_operacion :: "bytes \<Rightarrow> ordenes \<Rightarrow> ordenes option" where
  "orden_operacion payload w =
     (if payload = [] then None
      else if payload ! 0 = 1
      then Some (emite_od [Notifica CHARGING_GROUP_BLE_NET_DEVICES (valor_net w)]
             ((ser_maestro w)\<lparr>od_Creando := \<not> od_Conected w \<or> od_Creando w\<rparr>))
      else if payload ! 0 = 2
      then Some (emite_od
             [Notifica CHARGING_GROUP_BLE_NET_DEVICES (valor_net w),
              Modifica CHARGING_GROUP_BLE_CHARGING_GROUP (valor_grupo (no_gc (od_nodo w))),
              Modifica GROUPS_PARAMS (valor_params (od_nodo w)),
              Modifica GROUPS_CIRCUITS (valor_circuits (od_nodo w))] (ser_maestro w))
      else if payload ! 0 = 3 then New_Control ''Delete'' (difunde ''Delete group'' w)
      else Some w)"

section \<open>The other orders\<close>

definition orden_policy :: "bytes \<Rightarrow> ordenes \<Rightarrow> ordenes option" where
  "orden_policy payload w =
     (if length payload < 3 then None
      else if take 3 payload \<notin> set [[65, 76, 76], [65, 85, 84], [78, 79, 78]] then Some w
      else let policy = blit (od_policy w) 0 (take 3 payload)
           in Some (emite_od [Modifica POLICY (take 3 policy)] (w\<lparr>od_policy := policy\<rparr>)))"

definition muestra_grupo :: "ordenes \<Rightarrow> ordenes" where
  "muestra_grupo w = emite_od
     [Modifica DOMESTIC_CONSUMPTION_FCT_CHAR_HANDLE [of_nat (no_GroupActive (od_nodo w))],
      Modifica DOMESTIC_CONSUMPTION_FS_CHAR_HANDLE [of_nat (no_GroupMaster (od_nodo w))]] w"

text \<open>The hidden selector: an action is chosen with one characteristic and confirmed with another.\<close>

definition backdoor_select :: "bytes \<Rightarrow> ordenes \<Rightarrow> ordenes" where
  "backdoor_select payload w =
     (let w1 = emite_od [Modifica DOMESTIC_CONSUMPTION_KS_CHAR_HANDLE [payload ! 0]]
                 (w\<lparr>od_backdoor_selector := payload ! 0\<rparr>)
      in if payload ! 0 = BACKDOOR_ACTION_DELETE_GROUP then muestra_grupo w1 else w1)"

definition backdoor_confirm :: "ordenes \<Rightarrow> ordenes option" where
  "backdoor_confirm w =
     do { w1 \<leftarrow> (if od_backdoor_selector w = BACKDOOR_ACTION_DELETE_GROUP
                  then map_option muestra_grupo (New_Control ''Delete'' (difunde ''Delete group'' w))
                  else Some w);
          Some (emite_od [Modifica DOMESTIC_CONSUMPTION_KS_CHAR_HANDLE [BACKDOOR_ACTION_NO_ACTION]]
                 (w1\<lparr>od_backdoor_selector := BACKDOOR_ACTION_NO_ACTION\<rparr>)) }"

text \<open>What is left goes to the PSoC, with the size that the table gives for the selector.\<close>

definition orden_psoc :: "u16 \<Rightarrow> nat \<Rightarrow> bytes \<Rightarrow> ordenes \<Rightarrow> ordenes option" where
  "orden_psoc handle len payload w =
     (if length payload < len then None else Some (emite_od [Envia handle (take len payload)] w))"

text \<open>The orders of an authorised client. The payload has at least one byte.\<close>

definition orden :: "u8 \<Rightarrow> bytes \<Rightarrow> ordenes \<Rightarrow> ordenes option" where
  "orden selector payload w =
     (let handle = rcs_handle_for_idx selector in
      if handle = COMS_CONFIGURATION_WIFI_START_PROV then Some (w\<lparr>od_StartProvisioning := True\<rparr>)
      else if handle = COMS_CONFIGURATION_ETH_ON \<or> handle = COMS_CONFIGURATION_WIFI_ON
      then Some (emite_od [Envia handle [payload ! 0]] w)
      else if handle = GROUPS_PARAMS then orden_params payload w
      else if handle = GROUPS_CIRCUITS then orden_circuits payload w
      else if handle = GROUPS_OPERATIONS then orden_operacion payload w
      else if handle = POLICY then orden_policy payload w
      else do {
        let w1 = (if handle = DOMESTIC_CONSUMPTION_KS_CHAR_HANDLE then backdoor_select payload w else w);
        w2 \<leftarrow> (if handle = TEST_LAUNCH_MCB_TEST_CHAR_HANDLE \<and> od_backdoor_selector w1 \<noteq> 0
                then backdoor_confirm w1 else Some w1);
        orden_psoc handle (unat (rcs_get_size selector)) payload w2 })"

section \<open>The characteristic of the group\<close>

text \<open>
  The group that a client writes: a count, and for each charger eight characters and a byte with its circuit and
  phase. It becomes the image in flash, from which the table is then loaded.
\<close>

definition size_texto :: "nat \<Rightarrow> string" where
  "size_texto n =
     (if n < 100 then size_digits n
      else [digit (n div 100), digit (n div 10 mod 10), digit (n mod 10), CHR 0x00])"

fun group_entries :: "bytes \<Rightarrow> nat \<Rightarrow> nat \<Rightarrow> string \<Rightarrow> string option" where
  "group_entries data i 0 buf = mem_write buf (2 + i * 9) [CHR 0x00]"
| "group_entries data i (Suc k) buf =
     (if length data < 10 + i * 9 then None
      else do { buf1 \<leftarrow> mem_write buf (2 + i * 9) (map a_char (take 8 (drop (1 + i * 9) data)));
                buf2 \<leftarrow> mem_write buf1 (10 + i * 9) [a_char (data ! (9 + i * 9))];
                group_entries data (i + 1) k buf2 })"

definition group_image :: "bytes \<Rightarrow> string \<Rightarrow> string option" where
  "group_image data buf =
     (let sz = (if data = [] then 0 else unat (data ! 0))
      in if 0 < sz
         then do { buf0 \<leftarrow> mem_write buf 0 (size_texto sz);
                   group_entries data 0 sz buf0 }
         else do { buf0 \<leftarrow> mem_write (replicate MAX_GROUP_BUFFER_SIZE (CHR 0x00)) 0 (''00_CLEAN'' @ [CHR 0x00]);
                   mem_write buf0 8 [CHR 0x00] })"

definition write_charging_group :: "string \<Rightarrow> bytes \<Rightarrow> ordenes \<Rightarrow> ordenes option" where
  "write_charging_group after data w =
     do { buf \<leftarrow> group_image data (od_group w);
          let w1 = w\<lparr>od_group := buf, od_nodo := (od_nodo w)\<lparr>no_guardar := True\<rparr>\<rparr>;
          s \<leftarrow> Get_Stored_Group_Data (no_Device_Id (od_nodo w1)) (get_IP (od_net w1)) after (grupo_de w1);
          Some ((pon_grupo s w1)\<lparr>od_SendNewGroup := True\<rparr>) }"

section \<open>The write callback\<close>

datatype caracteristica = SELECTOR | OMNIBUS | RCS_SCH_MAT | FW_DATA | RCS_CHARGING_GROUP

record equipo =
  eq_sesion :: sesion
  eq_ordenes :: ordenes
  eq_control :: control

text \<open>An order passes the check of the authentication.\<close>

definition aceptada :: "bytes \<Rightarrow> sesion \<Rightarrow> bool" where
  "aceptada data s \<longleftrightarrow>
     5 \<le> length data \<and> rcs_handle_for_idx (data ! 0) \<notin> {TOKEN, PROLOG, EPILOG} \<and> authorizedOK s"

text \<open>
  \<^verbatim>\<open>onWrite\<close>. \<open>e\<close> and \<open>resp\<close> are the results of the file system and the answers of the PSoC to the
  schedule; \<open>after\<close> is what follows the two digits of the stored number in memory.
\<close>

definition onWrite ::
  "entorno \<Rightarrow> (nat \<Rightarrow> bytes option) \<Rightarrow> string \<Rightarrow> caracteristica \<Rightarrow> bytes \<Rightarrow> equipo \<Rightarrow> equipo option" where
  "onWrite e resp after ch data q =
     (case ch of
        SELECTOR \<Rightarrow> Some (q\<lparr>eq_sesion := write_selector data (eq_sesion q)\<rparr>)
      | OMNIBUS \<Rightarrow>
          do { s \<leftarrow> write_omnibus e data (eq_sesion q);
               w \<leftarrow> (if aceptada data (eq_sesion q) then orden (data ! 0) (drop 4 data) (eq_ordenes q)
                      else Some (eq_ordenes q));
               Some (q\<lparr>eq_sesion := s, eq_ordenes := w\<rparr>) }
      | RCS_SCH_MAT \<Rightarrow>
          if length data < 168 then None
          else Some (q\<lparr>eq_control := SendScheduleMatrixToPSOC5 resp data (eq_control q)\<rparr>)
      | FW_DATA \<Rightarrow> map_option (\<lambda>s. q\<lparr>eq_sesion := s\<rparr>) (write_fwdata e data (eq_sesion q))
      | RCS_CHARGING_GROUP \<Rightarrow>
          map_option (\<lambda>w. q\<lparr>eq_ordenes := w\<rparr>) (write_charging_group after data (eq_ordenes q)))"

section \<open>The group as the client writes and reads it\<close>

definition mensaje_grupo :: "carac_charger list \<Rightarrow> bytes" where
  "mensaje_grupo cs = of_nat (length cs) # concat (map valor_entrada cs)"

lemma a_char_of_nat: "a_char (of_nat v) = char_of (c8 v)"
  by (simp add: a_char_def unat_of_nat)

lemma length_valor_entrada [simp]: "length (ch_name c) = 9 \<Longrightarrow> length (valor_entrada c) = 9"
  by (simp add: valor_entrada_def)

lemma group_entries_store:
  assumes "\<forall>c \<in> set cs. length (ch_name c) = 9" "length pre = 1 + i * 9"
  shows "group_entries (pre @ concat (map valor_entrada cs)) i (length cs) buf = store_entries cs i buf"
  using assms
proof (induction cs arbitrary: pre i buf)
  case (Cons c cs)
  define D where "D = pre @ concat (map valor_entrada (c # cs))"
  have c: "length (ch_name c) = 9" using Cons.prems(1) by simp
  have l: "\<not> length D < 10 + i * 9" using c Cons.prems(2) by (simp add: D_def)
  have n: "map a_char (take 8 (drop (1 + i * 9) D)) = take 8 (ch_name c)"
    using c Cons.prems(2) by (simp add: D_def valor_entrada_def comp_def)
  have "D ! (9 + i * 9) = of_nat (4 * ch_Circuito c + ch_Fase c)"
    using c Cons.prems(2) by (simp add: D_def valor_entrada_def nth_append)
  then have v: "[a_char (D ! (9 + i * 9))] = [fase_circuito_char c]"
    by (simp only: a_char_of_nat fase_circuito_char_def)
  have r: "group_entries D (i + 1) (length cs) = store_entries cs (i + 1)"
    using Cons.IH [of "pre @ valor_entrada c" "i + 1"] Cons.prems c by (intro ext) (simp add: D_def)
  have "group_entries D i (length (c # cs)) buf = store_entries (c # cs) i buf"
    unfolding length_Cons group_entries.simps store_entries.simps if_not_P [OF l] n v r by (rule refl)
  then show ?case by (simp only: D_def)
qed simp

lemma group_image_mensaje:
  assumes "\<forall>c \<in> set cs. length (ch_name c) = 9" "0 < length cs" "length cs < 40"
    "length buf = MAX_GROUP_BUFFER_SIZE"
  shows "\<exists>r. group_image (mensaje_grupo cs) buf = Some (image_of cs r)"
proof -
  have n: "unat (of_nat (length cs) :: u8) = length cs" using assms(3) by (simp add: unat_of_nat)
  have "group_entries (mensaje_grupo cs) 0 (length cs) b = store_entries cs 0 b" for b
    using group_entries_store [OF assms(1), of "[of_nat (length cs)]" 0 b] by (simp add: mensaje_grupo_def)
  moreover have "mem_write buf 0 (size_digits (length cs)) = Some (blit buf 0 (size_digits (length cs)))"
    using assms(4) by (simp add: group_consts size_digits_def)
  ultimately show ?thesis
    using stored_image [OF assms(1,3,4)] assms(2,3) n
    by (auto simp: group_image_def Let_def size_texto_def mensaje_grupo_def)
qed

text \<open>What a client reads of an entry depends only on what the image keeps of it.\<close>

lemma valor_entrada_view:
  "map stored_view cs = map stored_view ds \<Longrightarrow> map valor_entrada cs = map valor_entrada ds"
proof -
  have "valor_entrada c = (case stored_view c of (k, f, ci) \<Rightarrow> map a_byte k @ [of_nat (4 * ci + f)])" for c
    by (simp add: valor_entrada_def stored_view_def key_def)
  then have "map valor_entrada xs =
      map (\<lambda>v. case v of (k, f, ci) \<Rightarrow> map a_byte k @ [of_nat (4 * ci + f)]) (map stored_view xs)" for xs
    by simp
  then show "map stored_view cs = map stored_view ds \<Longrightarrow> ?thesis" by metis
qed

lemma write_charging_group_ok:
  assumes "\<forall>c \<in> set cs. storable c" "distinct (map key cs)" "0 < length cs" "length cs < 40"
    "length (od_group w) = MAX_GROUP_BUFFER_SIZE" "length (gc_table (no_gc (od_nodo w))) = MAX_GROUP_SIZE"
    "no_GroupMaster (od_nodo w) = 0" "after = [] \<or> \<not> is_digit (hd after)"
  shows "\<exists>g b del. write_charging_group after (mensaje_grupo cs) w = Some (w\<lparr>od_group := b, od_DeleteOrder := del,
      od_SendNewGroup := True, od_nodo := (od_nodo w)\<lparr>no_guardar := True, no_gc := (no_gc (od_nodo w))
        \<lparr>gc_table := g, gc_Charger_number := length cs, gc_NewData := True\<rparr>\<rparr>\<rparr>)
    \<and> group_wf (g, length cs) \<and> map stored_view (live (g, length cs)) = map stored_view cs"
proof -
  have "\<forall>c \<in> set cs. length (ch_name c) = 9" using assms(1) by (simp add: storable_def)
  from group_image_mensaje [OF this assms(3-5)] obtain r where
    r: "group_image (mensaje_grupo cs) (od_group w) = Some (image_of cs r)" by blast
  let ?w = "w\<lparr>od_group := image_of cs r, od_nodo := (od_nodo w)\<lparr>no_guardar := True\<rparr>\<rparr>"
  have s: "gs_buf (grupo_de ?w) = image_of cs r" "length (gs_table (grupo_de ?w)) = MAX_GROUP_SIZE"
    "gs_GroupMaster (grupo_de ?w) = 0" using assms(6,7) by (simp_all add: grupo_de_def Let_def)
  from load_image [OF assms(1,2,4) s assms(8), of "no_Device_Id (od_nodo ?w)" "get_IP (od_net ?w)"]
  obtain g where g: "group_wf (g, length cs)" "map stored_view (live (g, length cs)) = map stored_view cs"
    and ld: "\<exists>del. Get_Stored_Group_Data (no_Device_Id (od_nodo ?w)) (get_IP (od_net ?w)) after (grupo_de ?w) =
      Some ((grupo_de ?w)\<lparr>gs_NewData := True, gs_table := g, gs_number := length cs, gs_DeleteOrder := del\<rparr>)"
    by blast
  from ld obtain del where "write_charging_group after (mensaje_grupo cs) w =
      Some ((pon_grupo ((grupo_de ?w)\<lparr>gs_NewData := True, gs_table := g, gs_number := length cs,
        gs_DeleteOrder := del\<rparr>) ?w)\<lparr>od_SendNewGroup := True\<rparr>)"
    using r by (auto simp: write_charging_group_def Let_def)
  then have "write_charging_group after (mensaje_grupo cs) w = Some (w\<lparr>od_group := image_of cs r,
      od_DeleteOrder := del, od_SendNewGroup := True, od_nodo := (od_nodo w)\<lparr>no_guardar := True,
        no_gc := (no_gc (od_nodo w))\<lparr>gc_table := g, gc_Charger_number := length cs, gc_NewData := True\<rparr>\<rparr>\<rparr>)"
    by (simp add: pon_grupo_def grupo_de_def Let_def)
  with g show ?thesis by blast
qed


definition demo_ordenes :: ordenes where
  "demo_ordenes = \<lparr>od_nodo = demo_nodo\<lparr>no_GroupMaster := 0\<rparr>, od_group = replicate 362 (CHR 0x00),
     od_Conected = False, od_DeleteOrder = False, od_SendNewGroup = False, od_SendNewParams = False,
     od_SendNewCircuits = False, od_Creando = False, od_StartProvisioning = False, od_policy = [65, 76, 76, 0],
     od_backdoor_selector = 0, od_net = demo_group, od_fx = [], od_udp = []\<rparr>"

definition demo_equipo :: equipo where
  "demo_equipo = \<lparr>eq_sesion = demo_sesion, eq_ordenes = demo_ordenes, eq_control = demo_control\<rparr>"

definition demo_lista :: "carac_charger list" where
  "demo_lista = [demo_charger ''VCD00007'', demo_charger ''VCD00008'']"

lemma demo_equipo_facts:
  "length (od_group (eq_ordenes demo_equipo)) = MAX_GROUP_BUFFER_SIZE"
  "length (gc_table (no_gc (od_nodo (eq_ordenes demo_equipo)))) = MAX_GROUP_SIZE"
  "no_GroupMaster (od_nodo (eq_ordenes demo_equipo)) = 0" "\<not> authorizedOK (eq_sesion demo_equipo)"
  by (simp_all add: demo_equipo_def demo_ordenes_def demo_nodo_def demo_gc_def group_consts demo_sesion_def authorizedOK_def)

lemma demo_lista_facts:
  "\<forall>c \<in> set demo_lista. storable c" "distinct (map key demo_lista)" "0 < length demo_lista"
  "length demo_lista < MAX_GROUP_SIZE" "map stored_view demo_lista = [(''VCD00007'', 1, 1), (''VCD00008'', 1, 1)]"
  by (simp_all add: demo_lista_def demo_charger_def storable_def key_def group_consts stored_view_def)


section \<open>The parameters and the circuits\<close>

text \<open>The orders of the group are registered: each selector leads back to its handle.\<close>

lemma group_selectors:
  "rcs_handle_for_idx (rcs_idx_for_handle GROUPS_PARAMS) = GROUPS_PARAMS"
  "rcs_handle_for_idx (rcs_idx_for_handle GROUPS_CIRCUITS) = GROUPS_CIRCUITS"
  "rcs_handle_for_idx (rcs_idx_for_handle GROUPS_OPERATIONS) = GROUPS_OPERATIONS"
  by (simp_all add: rcs_handle_for_idx_def rcs_idx_for_handle_def rcs_consts table_idx_for_handle_def
      table_handle_for_idx_def GROUPS_PARAMS_def GROUPS_CIRCUITS_def GROUPS_OPERATIONS_def)

lemma orden_circuits_ok:
  assumes "length ls \<le> 40" "length (gc_Circuitos (no_gc (od_nodo w))) = 40"
    "length (no_circuits (od_nodo w)) = MAX_GROUP_BUFFER_SIZE"
  shows "\<exists>g c. orden_circuits (of_nat (length ls) # ls) w = Some (w\<lparr>od_nodo := (od_nodo w)
        \<lparr>no_gc := g, no_circuits := c, no_guardar := True\<rparr>, od_SendNewCircuits := True\<rparr>)
    \<and> gc_table g = gc_table (no_gc (od_nodo w)) \<and> gc_Charger_number g = gc_Charger_number (no_gc (od_nodo w))
    \<and> gc_Circuit_number g = length ls
    \<and> map ci_limite_corriente (take (length ls) (gc_Circuitos g)) = map unat ls"
proof -
  let ?p = "map unat (of_nat (length ls) # ls)" and ?g = "no_gc (od_nodo w)"
  have n: "unat (of_nat (length ls) :: u8) = length ls" using assms(1) by (simp add: unat_of_nat)
  obtain g where g: "set_limites (length ls) ?p ?g = Some g" using assms(1,2) by (simp add: set_limites_def)
  have "gc_table g = gc_table ?g" "gc_Charger_number g = gc_Charger_number ?g"
    using g by (auto simp: set_limites_def split: if_splits)
  moreover note set_limites_limites [OF g]
  moreover have "\<exists>c. mem_write (no_circuits (od_nodo w)) 0 (take (c8 (length ls + 1)) ?p) = Some c"
    using assms(1,3) by (simp add: group_consts)
  ultimately obtain c where "gc_table g = gc_table ?g \<and> gc_Charger_number g = gc_Charger_number ?g
      \<and> gc_Circuit_number g = length ls
      \<and> map ci_limite_corriente (take (length ls) (gc_Circuitos g)) = map unat ls"
    and "orden_circuits (of_nat (length ls) # ls) w = Some (w\<lparr>od_nodo := (od_nodo w)
        \<lparr>no_gc := g\<lparr>gc_NewData := True\<rparr>, no_circuits := c, no_guardar := True\<rparr>, od_SendNewCircuits := True\<rparr>)"
    using g n by (auto simp: orden_circuits_def Let_def)
  then show ?thesis by (intro exI [of _ "g\<lparr>gc_NewData := True\<rparr>"] exI [of _ c]) simp
qed

lemma orden_params_ok:
  assumes "length p = 6" "length (no_params (od_nodo w)) = 7"
  shows "\<exists>m st ps. orden_params p w = Some (w\<lparr>
      od_nodo := (od_nodo w)\<lparr>no_GroupMaster := m, no_StopOrder := st, no_GroupActive := unat (p ! 0),
        no_gc := (no_gc (od_nodo w))\<lparr>gc_CDP := unat (p ! 1), gc_ContractPower := unat (p ! 2) + unat (p ! 3) * 256,
          gc_potencia_max := unat (p ! 4) + unat (p ! 5) * 256, gc_NewData := True\<rparr>,
        no_params := ps, no_guardar := True\<rparr>, od_SendNewParams := True\<rparr>)"
proof -
  define m where "m = (if \<not> od_Conected w \<and> map unat p ! 0 \<noteq> 0 then 1 else no_GroupMaster (od_nodo w))"
  obtain ps where "mem_write (blit (no_params (od_nodo w)) 0 [m]) 1 (take 6 (map unat p)) = Some ps"
    using assms by simp
  moreover have "mem_write (no_params (od_nodo w)) 0 [m] = Some (blit (no_params (od_nodo w)) 0 [m])"
    using assms by simp
  ultimately have "orden_params p w = Some (w\<lparr>
      od_nodo := (od_nodo w)\<lparr>no_GroupMaster := m, no_StopOrder := no_GroupActive (od_nodo w) \<noteq> 0 \<and>
          map unat p ! 0 = 0 \<or> no_StopOrder (od_nodo w), no_GroupActive := unat (p ! 0),
        no_gc := (no_gc (od_nodo w))\<lparr>gc_CDP := unat (p ! 1), gc_ContractPower := unat (p ! 2) + unat (p ! 3) * 256,
          gc_potencia_max := unat (p ! 4) + unat (p ! 5) * 256, gc_NewData := True\<rparr>,
        no_params := ps, no_guardar := True\<rparr>, od_SendNewParams := True\<rparr>)"
    using assms(1) unfolding m_def by (simp add: orden_params_def SIZE_OF_GROUP_PARAMS_def Let_def)
  then show ?thesis by blast
qed

lemma valor_params_ok:
  assumes "length p = 6" "no_GroupActive d = unat (p ! 0)" "gc_CDP (no_gc d) = unat (p ! 1)"
    "gc_ContractPower (no_gc d) = unat (p ! 2) + unat (p ! 3) * 256"
    "gc_potencia_max (no_gc d) = unat (p ! 4) + unat (p ! 5) * 256"
  shows "valor_params d = p"
proof -
  have "(unat x + unat y * 256) mod 256 = unat x" "(unat x + unat y * 256) div 256 mod 256 = unat y" for x y :: u8
    by simp_all
  moreover have "p = [p ! 0, p ! 1, p ! 2, p ! 3, p ! 4, p ! 5]"
    using assms(1) by (simp add: list_eq_iff_nth_eq less_Suc_eq numeral_eq_Suc)
  ultimately show ?thesis unfolding valor_params_def assms(2-5) by simp
qed

fun onWrites ::
  "entorno \<Rightarrow> (nat \<Rightarrow> bytes option) \<Rightarrow> string \<Rightarrow> (caracteristica \<times> bytes) list \<Rightarrow> equipo \<Rightarrow> equipo option" where
  "onWrites e resp after [] q = Some q"
| "onWrites e resp after ((ch, data) # ws) q = Option.bind (onWrite e resp after ch data q) (onWrites e resp after ws)"

text \<open>An order as a client writes it: selector, three bytes that are ignored, payload.\<close>

definition pedido :: "u16 \<Rightarrow> bytes \<Rightarrow> caracteristica \<times> bytes" where
  "pedido handle payload = (OMNIBUS, [rcs_idx_for_handle handle, 0, 0, 0] @ payload)"

lemma onWrite_pedido:
  assumes "authorizedOK (eq_sesion q)" "payload \<noteq> []" "rcs_handle_for_idx (rcs_idx_for_handle h) = h"
    "h \<notin> {TOKEN, PROLOG, EPILOG}" "orden (rcs_idx_for_handle h) payload (eq_ordenes q) = Some w"
  shows "onWrites e resp after (pedido h payload # ws) q = onWrites e resp after ws
    (q\<lparr>eq_sesion := (eq_sesion q)\<lparr>bs_orders := bs_orders (eq_sesion q) @ [(h, payload)]\<rparr>, eq_ordenes := w\<rparr>)"
  using assms by (cases payload) (simp_all add: pedido_def onWrite_def write_omnibus_def aceptada_def Let_def)

lemma orden_grupo:
  "orden (rcs_idx_for_handle GROUPS_PARAMS) payload w = orden_params payload w"
  "orden (rcs_idx_for_handle GROUPS_CIRCUITS) payload w = orden_circuits payload w"
  "orden (rcs_idx_for_handle GROUPS_OPERATIONS) payload w = orden_operacion payload w"
  unfolding orden_def group_selectors Let_def
  by (simp_all add: GROUPS_PARAMS_def GROUPS_CIRCUITS_def GROUPS_OPERATIONS_def COMS_CONFIGURATION_WIFI_START_PROV_def
      COMS_CONFIGURATION_ETH_ON_def COMS_CONFIGURATION_WIFI_ON_def)

lemma grupo_no_especial:
  "GROUPS_PARAMS \<notin> {TOKEN, PROLOG, EPILOG}" "GROUPS_CIRCUITS \<notin> {TOKEN, PROLOG, EPILOG}"
  "GROUPS_OPERATIONS \<notin> {TOKEN, PROLOG, EPILOG}"
  by (simp_all add: GROUPS_PARAMS_def GROUPS_CIRCUITS_def GROUPS_OPERATIONS_def)

lemma authorizedOK_orders [simp]: "authorizedOK (s\<lparr>bs_orders := l\<rparr>) = authorizedOK s"
  by (simp add: authorizedOK_def)

text \<open>The state of the group after the three writes of a client, and what the operation of reading then shows.\<close>

lemma group_written:
  assumes "\<forall>c \<in> set cs. storable c" "distinct (map key cs)" "0 < length cs" "length cs < MAX_GROUP_SIZE"
    "length (od_group (eq_ordenes q)) = MAX_GROUP_BUFFER_SIZE"
    "length (gc_table (no_gc (od_nodo (eq_ordenes q)))) = MAX_GROUP_SIZE"
    "no_GroupMaster (od_nodo (eq_ordenes q)) = 0" "after = [] \<or> \<not> is_digit (hd after)"
    "length ls \<le> 40" "length (gc_Circuitos (no_gc (od_nodo (eq_ordenes q)))) = 40"
    "length (no_circuits (od_nodo (eq_ordenes q))) = MAX_GROUP_BUFFER_SIZE"
    "length p = 6" "length (no_params (od_nodo (eq_ordenes q))) = 7" "authorizedOK (eq_sesion q)"
  shows "\<exists>q'. onWrites e resp after ((RCS_CHARGING_GROUP, mensaje_grupo cs)
        # pedido GROUPS_CIRCUITS (of_nat (length ls) # ls) # pedido GROUPS_PARAMS p # ws) q = onWrites e resp after ws q'
    \<and> authorizedOK (eq_sesion q') \<and> od_fx (eq_ordenes q') = od_fx (eq_ordenes q)
    \<and> valor_net (eq_ordenes q') = valor_net (eq_ordenes q)
    \<and> valor_grupo (no_gc (od_nodo (eq_ordenes q'))) = mensaje_grupo cs
    \<and> valor_params (od_nodo (eq_ordenes q')) = p
    \<and> valor_circuits (od_nodo (eq_ordenes q')) = of_nat (length ls) # ls"
proof -
  let ?w = "eq_ordenes q"
  have n: "length cs < 40" using assms(4) by (simp add: group_consts)
  from write_charging_group_ok [OF assms(1-3) n assms(5-8)] obtain g b del where
    w1: "write_charging_group after (mensaje_grupo cs) ?w = Some (?w\<lparr>od_group := b, od_DeleteOrder := del,
        od_SendNewGroup := True, od_nodo := (od_nodo ?w)\<lparr>no_guardar := True, no_gc := (no_gc (od_nodo ?w))
          \<lparr>gc_table := g, gc_Charger_number := length cs, gc_NewData := True\<rparr>\<rparr>\<rparr>)" (is "_ = Some ?w1")
    and g: "map stored_view (live (g, length cs)) = map stored_view cs" by blast
  from orden_circuits_ok [OF assms(9), of ?w1] assms(10,11) obtain g2 c2 where
    w2: "orden_circuits (of_nat (length ls) # ls) ?w1 = Some (?w1\<lparr>od_nodo := (od_nodo ?w1)
        \<lparr>no_gc := g2, no_circuits := c2, no_guardar := True\<rparr>, od_SendNewCircuits := True\<rparr>)" (is "_ = Some ?w2")
    and g2: "gc_table g2 = g" "gc_Charger_number g2 = length cs" "gc_Circuit_number g2 = length ls"
      "map ci_limite_corriente (take (length ls) (gc_Circuitos g2)) = map unat ls" by auto
  from orden_params_ok [OF assms(12), of ?w2] assms(13) obtain m st ps where
    w3: "orden_params p ?w2 = Some (?w2\<lparr>
        od_nodo := (od_nodo ?w2)\<lparr>no_GroupMaster := m, no_StopOrder := st, no_GroupActive := unat (p ! 0),
          no_gc := (no_gc (od_nodo ?w2))\<lparr>gc_CDP := unat (p ! 1), gc_ContractPower := unat (p ! 2) + unat (p ! 3) * 256,
            gc_potencia_max := unat (p ! 4) + unat (p ! 5) * 256, gc_NewData := True\<rparr>,
          no_params := ps, no_guardar := True\<rparr>, od_SendNewParams := True\<rparr>)" (is "_ = Some ?w3") by auto
  define q1 where "q1 = q\<lparr>eq_ordenes := ?w1\<rparr>"
  define q2 where "q2 = q1\<lparr>eq_sesion := (eq_sesion q1)\<lparr>bs_orders := bs_orders (eq_sesion q1)
      @ [(GROUPS_CIRCUITS, of_nat (length ls) # ls)]\<rparr>, eq_ordenes := ?w2\<rparr>"
  define q3 where "q3 = q2\<lparr>eq_sesion := (eq_sesion q2)\<lparr>bs_orders := bs_orders (eq_sesion q2)
      @ [(GROUPS_PARAMS, p)]\<rparr>, eq_ordenes := ?w3\<rparr>"
  have p: "p \<noteq> []" using assms(12) by auto
  have a: "authorizedOK (eq_sesion q1)" "authorizedOK (eq_sesion q2)" "authorizedOK (eq_sesion q3)"
    using assms(14) by (simp_all add: q1_def q2_def q3_def)
  have o2: "orden (rcs_idx_for_handle GROUPS_CIRCUITS) (of_nat (length ls) # ls) (eq_ordenes q1) = Some ?w2"
    unfolding orden_grupo using w2 by (simp add: q1_def)
  have o3: "orden (rcs_idx_for_handle GROUPS_PARAMS) p (eq_ordenes q2) = Some ?w3"
    unfolding orden_grupo using w3 by (simp add: q2_def)
  have 1: "onWrite e resp after RCS_CHARGING_GROUP (mensaje_grupo cs) q = Some q1"
    using w1 by (simp add: onWrite_def q1_def)
  have run: "onWrites e resp after ((RCS_CHARGING_GROUP, mensaje_grupo cs)
        # pedido GROUPS_CIRCUITS (of_nat (length ls) # ls) # pedido GROUPS_PARAMS p # ws) q = onWrites e resp after ws q3"
    unfolding onWrites.simps(2) 1 bind.bind_lunit
      onWrite_pedido [OF a(1) list.distinct(2) group_selectors(2) grupo_no_especial(2) o2] q2_def [symmetric]
      onWrite_pedido [OF a(2) p group_selectors(1) grupo_no_especial(1) o3] q3_def [symmetric] ..
  have o: "eq_ordenes q3 = ?w3" by (simp add: q3_def)
  have "valor_params (od_nodo ?w3) = p" by (rule valor_params_ok [OF assms(12)]) simp_all
  moreover have "valor_circuits (od_nodo ?w3) = of_nat (length ls) # ls"
    using g2(3,4) by (simp add: valor_circuits_def limites_def comp_def)
  moreover have "valor_grupo (no_gc (od_nodo ?w3)) = mensaje_grupo cs"
    using g2(1,2) valor_entrada_view [OF g] by (simp add: valor_grupo_def mensaje_grupo_def live_def)
  moreover have "od_fx ?w3 = od_fx ?w" "valor_net ?w3 = valor_net ?w" by (simp_all add: valor_net_def)
  ultimately show ?thesis using run a(3) unfolding o [symmetric] by blast
qed



section \<open>Deleting the group\<close>

text \<open>
  The order to delete the group, from a client, the hidden selector or another charger, always succeeds and leaves no
  charger in the table, parameters that are all zero, in memory and in flash, and an image that loads as an empty group.
\<close>

lemma delete_group:
  "\<exists>w'. New_Control ''Delete'' w = Some w' \<and> gc_Charger_number (no_gc (od_nodo w')) = 0
    \<and> no_params (od_nodo w') = [0, 0, 0, 0, 0, 0, 0] \<and> no_GroupActive (od_nodo w') = 0
    \<and> no_GroupMaster (od_nodo w') = 0 \<and> \<not> od_Conected w' \<and> no_guardar (od_nodo w')
    \<and> take 2 (od_group w') = ''00''"
proof -
  let ?g = "no_gc (od_nodo w)"
  define t where "t = remove_group (gc_table ?g, gc_Charger_number ?g)"
  have 0: "snd t = 0" by (simp add: t_def remove_group_def)
  define w1 where "w1 = w\<lparr>od_nodo := (od_nodo w)\<lparr>no_GroupActive := 0, no_GroupMaster := 0, no_StopOrder := True,
      no_gc := ?g\<lparr>gc_ContractPower := 0, gc_CDP := 0, gc_potencia_max := 0, gc_table := fst t,
        gc_Charger_number := snd t\<rparr>\<rparr>, od_DeleteOrder := False, od_Conected := False\<rparr>"
  have "\<exists>b. store_group_in_mem (no_Device_Id (od_nodo w1)) (grupo_de w1) =
      Some ((grupo_de w1)\<lparr>gs_buf := b, gs_guardar := True\<rparr>) \<and> take 2 b = ''00''"
    using 0 by (simp add: store_group_in_mem_def Let_def group_consts blit_def grupo_de_def w1_def)
  then obtain b where b: "take 2 b = ''00''" and
    st: "store_group_in_mem (no_Device_Id (od_nodo w1)) (grupo_de w1) =
      Some ((grupo_de w1)\<lparr>gs_buf := b, gs_guardar := True\<rparr>)" by blast
  have dev: "no_Device_Id (od_nodo w1) = no_Device_Id (od_nodo w)" by (simp add: w1_def)
  define w2 where "w2 = pon_grupo ((grupo_de w1)\<lparr>gs_buf := b, gs_guardar := True\<rparr>) w1"
  have "New_Control ''Delete'' w = Some (w2\<lparr>od_nodo := store_params_in_mem (od_nodo w2)\<rparr>)"
    using st dev by (simp add: New_Control_def memeq_def Let_def t_def [symmetric] w1_def [symmetric] w2_def)
  moreover have "gc_Charger_number (no_gc (od_nodo w2)) = 0" "no_GroupActive (od_nodo w2) = 0"
    "no_GroupMaster (od_nodo w2) = 0" "\<not> od_Conected w2" "od_group w2 = b" "gc_CDP (no_gc (od_nodo w2)) = 0"
    "gc_ContractPower (no_gc (od_nodo w2)) = 0" "gc_potencia_max (no_gc (od_nodo w2)) = 0"
    using 0 by (simp_all add: w2_def pon_grupo_def grupo_de_def Let_def w1_def)
  ultimately show ?thesis using b by (simp add: store_params_in_mem_def Let_def)
qed

end
