(* ===== verification/Group_Exchange.thy ===== *)
theory Group_Exchange
  imports Group_Orders Ble_Orders
begin

text \<open>
  The exchange of a group over CoAP (\<^verbatim>\<open>coms/COAP_Nativo.cpp\<close>): the master keeps six topics that the other
  chargers observe, answers their requests, asks each of them in turn for its data and sends it the current that it
  may use. The CoAP library, its sessions and DTLS are outside the sources; a request or a notification is given by
  its topic and its text. What \<^verbatim>\<open>cJSON_Print\<close> and \<^verbatim>\<open>cJSON_Parse\<close> do with an object is a parameter.
\<close>

section \<open>State\<close>

definition GROUP_PARAMS :: nat where "GROUP_PARAMS = 1"
definition GROUP_CONTROL :: nat where "GROUP_CONTROL = 2"
definition GROUP_CHARGERS :: nat where "GROUP_CHARGERS = 3"
definition TURNO :: nat where "TURNO = 4"
definition CURRENT_COMMAND :: nat where "CURRENT_COMMAND = 6"
definition GROUP_CIRCUITS :: nat where "GROUP_CIRCUITS = 7"

lemmas codigos = GROUP_PARAMS_def GROUP_CONTROL_def GROUP_CHARGERS_def TURNO_def CURRENT_COMMAND_def GROUP_CIRCUITS_def

type_synonym objeto = "(string \<times> jval) list"

text \<open>
  The state of theory \<open>Ble_Orders\<close> with what the exchange adds: the turn, the last order and the last answer, the
  topics whose observers have been notified, and the requests sent to the master.
\<close>

record intercambio =
  ex_w :: ordenes
  ex_turno :: u8
  ex_LastControl :: string
  ex_LastData :: string
  ex_avisos :: "string list"
  ex_enviados :: "(string \<times> string) list"

text \<open>
  What a step finds: the JSON library, the memory behind the local arrays, the measured currents (those of the
  other phases for a three-phase charger), whether the meter is connected.
\<close>

record entorno_ex =
  ee_print :: "objeto \<Rightarrow> string"
  ee_parse :: "string \<Rightarrow> json"
  ee_after :: string
  ee_afterv :: string
  ee_pila :: string
  ee_name0 :: string
  ee_HPT0 :: string
  ee_corriente :: nat
  ee_trifasico :: "(nat \<times> nat) option"
  ee_Medidor :: bool

definition con_w :: "(ordenes \<Rightarrow> ordenes option) \<Rightarrow> intercambio \<Rightarrow> intercambio option" where
  "con_w f x = map_option (\<lambda>w. x\<lparr>ex_w := w\<rparr>) (f (ex_w x))"

definition en_od :: "(nodo \<Rightarrow> nodo option) \<Rightarrow> ordenes \<Rightarrow> ordenes option" where
  "en_od f w = map_option (\<lambda>d. w\<lparr>od_nodo := d\<rparr>) (f (od_nodo w))"

definition notifica :: "string \<Rightarrow> intercambio \<Rightarrow> intercambio" where
  "notifica topic x = x\<lparr>ex_avisos := ex_avisos x @ [topic]\<rparr>"

definition nodo_de :: "intercambio \<Rightarrow> nodo" where "nodo_de x = od_nodo (ex_w x)"

text \<open>\<^verbatim>\<open>New_Group\<close> of theory \<open>Group_Orders\<close> on this state.\<close>

definition grupo_nuevo :: "entorno_ex \<Rightarrow> string \<Rightarrow> ordenes \<Rightarrow> ordenes option" where
  "grupo_nuevo e Data w =
     map_option (\<lambda>g. pon_grupo g w)
       (New_Group (no_Device_Id (od_nodo w)) (get_IP (od_net w)) (ee_after e) (ee_afterv e) Data (grupo_de w))"

section \<open>The texts of the topics\<close>

definition sin_fin :: "string \<Rightarrow> string" where "sin_fin = takeWhile (\<lambda>c. c \<noteq> CHR 0x00)"

definition texto_chargers :: "nodo \<Rightarrow> string option" where
  "texto_chargers d =
     (let n = gc_Charger_number (no_gc d);
          buffer = digit GROUP_CHARGERS # take 2 (size_digits n) @ concat (map message_entry (take n (gc_table (no_gc d))))
      in if 500 < length buffer + 1 then None else Some (sin_fin buffer))"

text \<open>
  The limits of the circuits are written over the terminator of the count, and no other is written: the text goes on with what
  the array held before.
\<close>

definition texto_circuits :: "entorno_ex \<Rightarrow> string \<Rightarrow> nodo \<Rightarrow> string option" where
  "texto_circuits e codigo d =
     (let g = no_gc d; n = gc_Circuit_number g;
          buffer = codigo @ take 2 (size_digits n) @ map (\<lambda>k. char_of (ci_limite_corriente k)) (take n (gc_Circuitos g))
      in if length (gc_Circuitos g) < n \<or> 500 < length buffer then None
         else Some (sin_fin (buffer @ (if n = 0 then [CHR 0x00] else drop (length buffer) (ee_pila e)))))"

definition objeto_params :: "nodo \<Rightarrow> objeto" where
  "objeto_params d =
     (let g = no_gc d; si = (\<lambda>v. JNum (if v \<noteq> 0 then 1 else 0))
      in [(''cdp'', JNum (int (gc_CDP g))), (''contract'', JNum (int (gc_ContractPower g))),
          (''active'', si (no_GroupActive d)), (''master'', si (no_GroupMaster d)),
          (''pot_max'', JNum (int (gc_potencia_max g)))])"

definition texto_turno :: "nat \<Rightarrow> string" where
  "texto_turno t = digit TURNO # (if t < 10 then [digit t] else if t < 100 then [digit (t div 10), digit (t mod 10)] else value_digits t)"

definition en_buffer :: "nat \<Rightarrow> string \<Rightarrow> string option" where
  "en_buffer sz t = (if sz < length t + 1 then None else Some t)"

text \<open>\<^verbatim>\<open>hnd_get\<close>: what an observer is sent.\<close>

definition hnd_get :: "entorno_ex \<Rightarrow> string \<Rightarrow> intercambio \<Rightarrow> string option" where
  "hnd_get e topic x =
     (let d = nodo_de x in
      if topic = ''CHARGERS'' then texto_chargers d
      else if topic = ''CIRCUITS'' then texto_circuits e [digit GROUP_CIRCUITS] d
      else if topic = ''PARAMS'' then en_buffer 500 (digit GROUP_PARAMS # ee_print e (objeto_params d))
      else if topic = ''CONTROL'' then en_buffer 500 (digit GROUP_CONTROL # sin_fin (ex_LastControl x))
      else if topic = ''TURN'' then Some (texto_turno (unat (ex_turno x)))
      else if topic = ''DATA'' then en_buffer 500 (digit CURRENT_COMMAND # sin_fin (ex_LastData x))
      else Some [])"

section \<open>The data of a charger and the answer of the master\<close>

definition objeto_datos :: "entorno_ex \<Rightarrow> nodo \<Rightarrow> objeto" where
  "objeto_datos e d =
     [(''device_id'', JStr (sin_fin (no_Device_Id d))), (''current'', JNum (int (ee_corriente e)))]
     @ (case ee_trifasico e of None \<Rightarrow> []
        | Some (b, c) \<Rightarrow> [(''currentB'', JNum (int b)), (''currentC'', JNum (int c))])
     @ [(''HPT'', JStr (sin_fin (no_HPT_status d))), (''Perm'', JNum (if no_AskPerm d then 1 else 0))]"

definition permiso_de :: "carac_charger \<Rightarrow> bool" where
  "permiso_de c \<longleftrightarrow> 0 < ch_Consigna c \<and> \<not> hpt c ''C1'' \<and> (hpt c ''B1'' \<longrightarrow> ch_ChargeReq c)"

definition objeto_orden :: "carac_charger \<Rightarrow> objeto" where
  "objeto_orden c =
     [(''N'', JStr (sin_fin (ch_name c))), (''DC'', JNum (int (ch_Consigna c))), (''P'', JNum (if permiso_de c then 1 else 0))]"

definition recibe_datos :: "entorno_ex \<Rightarrow> string \<Rightarrow> ordenes \<Rightarrow> (carac_charger \<times> ordenes) option" where
  "recibe_datos e Data w =
     (if Data = [] then Some (cargador_nuevo (ee_name0 e) (ee_HPT0 e), w)
      else map_option (\<lambda>(c, g). (c, w\<lparr>od_nodo := (od_nodo w)\<lparr>no_gc := g\<rparr>\<rparr>))
             (New_Data (ee_name0 e) (ee_HPT0 e) (ee_parse e Data) (no_gc (od_nodo w))))"

text \<open>An empty text of parameters is ignored.\<close>

definition recibe_params :: "entorno_ex \<Rightarrow> string \<Rightarrow> ordenes \<Rightarrow> ordenes option" where
  "recibe_params e Data = en_od (\<lambda>d. if Data = [] then Some d else New_Params (ee_parse e Data) d)"

text \<open>The last order is copied without its terminator.\<close>

definition guarda_control :: "string \<Rightarrow> intercambio \<Rightarrow> intercambio option" where
  "guarda_control Message x =
     map_option (\<lambda>b. x\<lparr>ex_LastControl := b\<rparr>) (mem_write (ex_LastControl x) 0 Message)"

text \<open>\<^verbatim>\<open>hnd_espressif_put\<close>: a request of another charger; the text of the answer is that of the topic \<open>DATA\<close> only.\<close>

definition contiene :: "string \<Rightarrow> string \<Rightarrow> bool" where
  "contiene t p \<longleftrightarrow> (\<exists>i \<in> {0..length t}. take (length p) (drop i t) = p)"

definition hnd_put :: "entorno_ex \<Rightarrow> string \<Rightarrow> string \<Rightarrow> intercambio \<Rightarrow> (string \<times> intercambio) option" where
  "hnd_put e topic data x =
     (if topic = ''CHARGERS'' then map_option (\<lambda>x. ([], notifica topic x)) (con_w (grupo_nuevo e data) x)
      else if topic = ''PARAMS''
      then map_option (\<lambda>x. ([], notifica topic x)) (con_w (recibe_params e data) x)
      else if topic = ''CONTROL''
      then (let orden = (if contiene (sin_fin data) ''Delete'' then ''Delete'' else if contiene (sin_fin data) ''Pause'' then ''Pause'' else [])
            in if data = [] \<or> orden = [] then Some ([], x)
               else do { x1 \<leftarrow> guarda_control orden x;
                         x2 \<leftarrow> con_w (New_Control orden) (notifica topic x1);
                         Some ([], x2) })
      else if topic = ''CIRCUITS''
      then map_option (\<lambda>x. ([], notifica topic x)) (con_w (en_od (New_Circuit (ee_after e) data)) x)
      else if topic = ''DATA''
      then do { (c, w) \<leftarrow> recibe_datos e data (ex_w x);
                let t = ee_print e (objeto_orden c);
                r \<leftarrow> en_buffer 50 (digit CURRENT_COMMAND # t);
                last \<leftarrow> mem_write (ex_LastData x) 0 t;
                Some (r, x\<lparr>ex_w := w, ex_LastData := last\<rparr>) }
      else Some ([], x))"

section \<open>Sending\<close>

text \<open>The data that the master sends are its own, and it takes the answer itself.\<close>

definition datos_maestro :: "entorno_ex \<Rightarrow> carac_charger \<Rightarrow> nodo \<Rightarrow> nodo" where
  "datos_maestro e c d =
     (let perm = 0 < ch_Consigna c;
          sin_medidor = Group_Control.ContadorConfigurado (no_gc d) \<and> \<not> ee_Medidor e;
          d1 = (if no_AskPerm d \<and> perm
                then d\<lparr>no_ChargPerm := \<not> sin_medidor, no_AskPerm := sin_medidor,
                       no_psoc := no_psoc d @ [(if sin_medidor then 1 else 0, psoc_handle.BLOQUEO_CARGA)]\<rparr>
                else d\<lparr>no_ChargPerm := perm\<rparr>)
      in if ch_Consigna c mod 256 \<noteq> no_desired_current d1 \<and> ch_Consigna c \<noteq> 0
         then d1\<lparr>no_psoc := no_psoc d1 @ [(ch_Consigna c mod 256, MEASURES_CURRENT_COMMAND)]\<rparr> else d1)"

definition coap_put :: "entorno_ex \<Rightarrow> string \<Rightarrow> string \<Rightarrow> intercambio \<Rightarrow> intercambio option" where
  "coap_put e topic Message x =
     (if no_GroupMaster (nodo_de x) = 0 then Some (x\<lparr>ex_enviados := ex_enviados x @ [(topic, Message)]\<rparr>)
      else if topic = ''DATA''
      then map_option (\<lambda>(c, w). x\<lparr>ex_w := w\<lparr>od_nodo := datos_maestro e c (od_nodo w)\<rparr>\<rparr>) (recibe_datos e Message (ex_w x))
      else if topic = ''PARAMS''
      then map_option (notifica topic) (con_w (recibe_params e Message) x)
      else if topic = ''CONTROL''
      then do { x1 \<leftarrow> guarda_control Message x; con_w (New_Control Message) (notifica topic x1) }
      else if topic = ''CHARGERS'' then map_option (notifica topic) (con_w (grupo_nuevo e Message) x)
      else if topic = ''CIRCUITS''
      then map_option (notifica topic) (con_w (en_od (New_Circuit (ee_after e) Message)) x)
      else Some x)"

definition Send_Data :: "entorno_ex \<Rightarrow> intercambio \<Rightarrow> intercambio option" where
  "Send_Data e x = coap_put e ''DATA'' (ee_print e (objeto_datos e (nodo_de x))) x"

definition Send_Params :: "entorno_ex \<Rightarrow> intercambio \<Rightarrow> intercambio option" where
  "Send_Params e x = coap_put e ''PARAMS'' (ee_print e (objeto_params (nodo_de x))) x"

definition Send_Circuits :: "entorno_ex \<Rightarrow> intercambio \<Rightarrow> intercambio option" where
  "Send_Circuits e x = Option.bind (texto_circuits e [] (nodo_de x)) (\<lambda>t. coap_put e ''CIRCUITS'' t x)"

definition Send_Group :: "entorno_ex \<Rightarrow> intercambio \<Rightarrow> intercambio option" where
  "Send_Group e x = Option.bind (Send_Chargers (grupo_de (ex_w x))) (\<lambda>t. coap_put e ''CHARGERS'' t x)"

section \<open>Receiving\<close>

text \<open>
  \<^verbatim>\<open>message_handler\<close>: the first character of an answer or a notification is its code. Two characters of a turn
  are copied, whatever its length; what comes after a shorter one, and after the array, is \<open>ee_after\<close>.
\<close>

definition es_mi_turno :: "entorno_ex \<Rightarrow> string \<Rightarrow> nodo \<Rightarrow> bool option" where
  "es_mi_turno e payload d =
     (let k = atoi (take 2 (payload @ ee_after e) @ ee_after e)
      in if k < length (gc_table (no_gc d)) then Some (memeq (ch_name (gc_table (no_gc d) ! k)) (no_Device_Id d) 8) else None)"

definition message_handler :: "entorno_ex \<Rightarrow> string \<Rightarrow> intercambio \<Rightarrow> intercambio option" where
  "message_handler e data x =
     (case data of
        [] \<Rightarrow> Some x
      | c # payload \<Rightarrow>
          if c = digit GROUP_PARAMS then con_w (recibe_params e payload) x
          else if c = digit GROUP_CONTROL then con_w (New_Control payload) x
          else if c = digit GROUP_CHARGERS then con_w (grupo_nuevo e payload) x
          else if c = digit TURNO
          then do { yo \<leftarrow> es_mi_turno e payload (nodo_de x); if yo then Send_Data e x else Some x }
          else if c = digit CURRENT_COMMAND
          then con_w (en_od (\<lambda>d. if payload = [] then Some d else New_Current (ee_parse e payload) d)) x
          else if c = digit GROUP_CIRCUITS then con_w (en_od (New_Circuit (ee_after e) payload)) x
          else Some x)"

section \<open>The task of the master\<close>

text \<open>
  The orders that wait, one in each pass. \<open>True\<close> says that the task ends. The master sends \<open>Pause\<close> and \<open>Delete\<close>
  to itself only.
\<close>

definition pide_od :: "(ordenes \<Rightarrow> ordenes) \<Rightarrow> (entorno_ex \<Rightarrow> intercambio \<Rightarrow> intercambio option)
    \<Rightarrow> entorno_ex \<Rightarrow> intercambio \<Rightarrow> (bool \<times> intercambio) option" where
  "pide_od limpia f e x = map_option (\<lambda>x. (False, x\<lparr>ex_w := limpia (ex_w x)\<rparr>)) (f e x)"

definition ordenes_internas :: "intercambio \<Rightarrow> (bool \<times> intercambio) option" where
  "ordenes_internas x =
     (if no_StopOrder (nodo_de x)
      then map_option (\<lambda>x. (True, x\<lparr>ex_w := (ex_w x)\<lparr>od_nodo := (nodo_de x)\<lparr>no_StopOrder := False\<rparr>\<rparr>\<rparr>)) (con_w (New_Control ''Pause'') x)
      else if od_DeleteOrder (ex_w x)
      then map_option (\<lambda>x. (True, x\<lparr>ex_w := (ex_w x)\<lparr>od_DeleteOrder := False\<rparr>\<rparr>)) (con_w (New_Control ''Delete'') x)
      else Some (False, x))"

definition ordenes_servidor :: "entorno_ex \<Rightarrow> intercambio \<Rightarrow> (bool \<times> intercambio) option" where
  "ordenes_servidor e x =
     (let w = ex_w x in
      if od_SendNewParams w then pide_od (\<lambda>w. w\<lparr>od_SendNewParams := False\<rparr>) Send_Params e x
      else if od_SendNewGroup w then pide_od (\<lambda>w. w\<lparr>od_SendNewGroup := False\<rparr>) Send_Group e x
      else if od_SendNewCircuits w then pide_od (\<lambda>w. w\<lparr>od_SendNewCircuits := False\<rparr>) Send_Circuits e x
      else ordenes_internas x)"

text \<open>The turn, every 250 ms: the master sends its own data at the end of each round.\<close>

definition siguiente_turno :: "nat \<Rightarrow> u8 \<Rightarrow> u8 \<times> bool" where
  "siguiente_turno n t = (let t1 = t + 1 in if unat t1 = n then (1, True) else (t1, False))"

definition turno_servidor :: "entorno_ex \<Rightarrow> intercambio \<Rightarrow> intercambio option" where
  "turno_servidor e x =
     (case siguiente_turno (gc_Charger_number (no_gc (nodo_de x))) (ex_turno x) of
        (t, yo) \<Rightarrow> map_option (notifica ''TURN'') (if yo then Send_Data e (x\<lparr>ex_turno := t\<rparr>) else Some (x\<lparr>ex_turno := t\<rparr>)))"

text \<open>Every 15 s: a charger that has not sent data for 32 s is told to start its client.\<close>

definition despierta :: "nat \<Rightarrow> nat \<Rightarrow> intercambio \<Rightarrow> intercambio" where
  "despierta Transcurrido i x =
     (let w = ex_w x; d = od_nodo w; g = no_gc d;
          c = (gc_table g ! i)\<lparr>ch_Period := (ch_Period (gc_table g ! i) + Transcurrido) mod 2 ^ 32\<rparr>
      in x\<lparr>ex_w := w\<lparr>od_nodo := d\<lparr>no_gc := g\<lparr>gc_table := (gc_table g)[i := c]\<rparr>\<rparr>,
             od_udp := od_udp w @ (if 32000 < ch_Period c then send_to (get_IP (od_net w) (ch_name c)) ''Start client'' else [])\<rparr>\<rparr>)"

definition comprueba_clientes :: "nat \<Rightarrow> intercambio \<Rightarrow> intercambio" where
  "comprueba_clientes Transcurrido x = fold (despierta Transcurrido) [0..<gc_Charger_number (no_gc (nodo_de x))] x"

definition coap_server :: "entorno_ex \<Rightarrow> bool \<Rightarrow> nat \<Rightarrow> intercambio \<Rightarrow> (bool \<times> intercambio) option" where
  "coap_server e toca Transcurrido x =
     do { (fin, x1) \<leftarrow> ordenes_servidor e x;
          if fin then Some (True, x1\<lparr>ex_w := (ex_w x1)\<lparr>od_Conected := False\<rparr>\<rparr>)
          else do { x2 \<leftarrow> (if toca then turno_servidor e x1 else Some x1);
                    Some (False, if 15000 < Transcurrido then comprueba_clientes Transcurrido x2 else x2) } }"

section \<open>The task of the other chargers\<close>

text \<open>
  \<^verbatim>\<open>start_client\<close> gives up the role of the master; then the running task of the client is deleted and a new
  one is made. The beginning of the task is \<open>arranca_cliente\<close>.
\<close>

definition con_master :: "nat \<Rightarrow> ordenes \<Rightarrow> ordenes" where
  "con_master v w = w\<lparr>od_nodo := store_params_in_mem ((od_nodo w)\<lparr>no_GroupMaster := v\<rparr>)\<rparr>"

definition start_client :: "intercambio \<Rightarrow> intercambio" where
  "start_client x = (if no_GroupMaster (nodo_de x) \<noteq> 0 then x\<lparr>ex_w := con_master 0 (ex_w x)\<rparr> else x)"

definition arranca_cliente :: "intercambio \<Rightarrow> intercambio" where
  "arranca_cliente x =
     (let w = ex_w x
      in x\<lparr>ex_w := w\<lparr>od_Conected := True, od_nodo := (od_nodo w)\<lparr>no_StopOrder := False, no_GroupMaster := 0\<rparr>\<rparr>\<rparr>)"

text \<open>
  One pass. \<open>silencio\<close> says that the master has not been heard for 30 s: then \<^verbatim>\<open>PARAR_CLIENTE\<close> is set, and the
  task ends at the end of the pass. Where it is already set (by a packet of the master, see \<open>Discovery\<close>) the task
  calls \<^verbatim>\<open>start_client\<close>, which deletes the task that calls it: nothing after that call is run. The result says
  whether the task has ended, and the value of \<^verbatim>\<open>PARAR_CLIENTE\<close>.
\<close>

definition coap_client :: "entorno_ex \<Rightarrow> bool \<Rightarrow> bool \<Rightarrow> intercambio \<Rightarrow> (bool \<times> bool \<times> intercambio) option" where
  "coap_client e silencio PARAR_CLIENTE x =
     do { (_, x1) \<leftarrow>
            (let w = ex_w x in
             if od_SendNewParams w
             then pide_od (\<lambda>w. w\<lparr>od_SendNewParams := False, od_nodo := (if no_GroupActive (od_nodo w) = 0
                     then (od_nodo w)\<lparr>no_StopOrder := True\<rparr> else od_nodo w)\<rparr>) Send_Params e x
             else if od_SendNewGroup w then pide_od (\<lambda>w. w\<lparr>od_SendNewGroup := False\<rparr>) Send_Group e x
             else if od_SendNewCircuits w then pide_od (\<lambda>w. w\<lparr>od_SendNewCircuits := False\<rparr>) Send_Circuits e x
             else Some (False, x));
          if silencio \<and> PARAR_CLIENTE then Some (True, True, start_client x1)
          else do { (fin, x2) \<leftarrow> (if silencio then Some (False, x1) else ordenes_internas x1);
                    let acaba = fin \<or> silencio \<or> PARAR_CLIENTE;
                    Some (acaba, fin \<and> PARAR_CLIENTE,
                          if acaba then x2\<lparr>ex_w := (ex_w x2)\<lparr>od_Conected := False\<rparr>\<rparr> else x2) } }"

section \<open>Starting the tasks\<close>

text \<open>
  \<^verbatim>\<open>coap_start_server\<close>: ten times the network is asked for a master; \<open>otro\<close> is the time at which another
  one has answered. Then this charger is put first in the table, the others are told to start, and the task begins by
  locking the charge.
\<close>

definition keep_fase :: "carac_charger \<Rightarrow> carac_charger \<Rightarrow> carac_charger" where
  "keep_fase OldMaster slot = slot\<lparr>ch_Fase := ch_Fase OldMaster, ch_Circuito := ch_Circuito OldMaster\<rparr>"

definition arranca_servidor :: "intercambio \<Rightarrow> intercambio option" where
  "arranca_servidor x =
     (let w = ex_w x; d = od_nodo w
      in map_option (\<lambda>l. x\<lparr>ex_LastControl := l,
             ex_w := w\<lparr>od_Conected := True,
               od_nodo := d\<lparr>no_gc := (no_gc d)\<lparr>gc_NewData := False\<rparr>, no_StopOrder := False,
                 no_psoc := no_psoc d @ [(1, psoc_handle.BLOQUEO_CARGA)]\<rparr>\<rparr>\<rparr>) (mem_write (ex_LastControl x) 0 ''NOTHING''))"

definition coap_start_server :: "nat option \<Rightarrow> intercambio \<Rightarrow> (bool \<times> intercambio) option" where
  "coap_start_server otro x =
     (let w = ex_w x;
          w1 = (if no_GroupMaster (od_nodo w) = 0 then con_master 1 w else w)\<lparr>od_Conected := True\<rparr>;
          veces = (case otro of None \<Rightarrow> 10 | Some k \<Rightarrow> min 10 (k + 1));
          w2 = (difunde ''Master here?'' ^^ veces) w1;
          g = no_gc (od_nodo w2); dev = no_Device_Id (od_nodo w2)
      in if otro \<noteq> None \<and> the otro < 10
         then Some (False, x\<lparr>ex_w := (con_master 0 w2)\<lparr>od_Conected := False\<rparr>\<rparr>)
         else if 0 < gc_Charger_number g \<and> check_in_group dev (gc_table g) (gc_Charger_number g) \<noteq> 255
         then do { t \<leftarrow> master_first keep_fase dev (gc_table g, gc_Charger_number g);
                   let w3 = difunde ''Start client'' (w2\<lparr>od_nodo := (od_nodo w2)\<lparr>no_gc := g\<lparr>gc_table := fst t, gc_Charger_number := snd t\<rparr>\<rparr>\<rparr>);
                   map_option (Pair True) (arranca_servidor (x\<lparr>ex_w := w3\<rparr>)) }
         else Some (False, x\<lparr>ex_w := (con_master 0 (w2\<lparr>od_nodo := (od_nodo w2)\<lparr>no_GroupActive := 0\<rparr>\<rparr>))\<lparr>od_Conected := False\<rparr>\<rparr>))"

section \<open>The turn goes round\<close>

definition turno_tras :: "nat \<Rightarrow> nat \<Rightarrow> u8 \<Rightarrow> u8" where
  "turno_tras n k t = ((\<lambda>t. fst (siguiente_turno n t)) ^^ k) t"

lemma siguiente_turno_unat:
  assumes "n \<le> 255" "1 \<le> unat t" "unat t < n"
  shows "unat (fst (siguiente_turno n t)) = (if unat t + 1 = n then 1 else unat t + 1)"
    "snd (siguiente_turno n t) \<longleftrightarrow> unat t + 1 = n"
proof -
  have "unat t + 1 < 2 ^ LENGTH(8)" using assms by simp
  then have "unat (t + 1) = unat t + 1" by (simp add: unat_word_ariths)
  then show "unat (fst (siguiente_turno n t)) = (if unat t + 1 = n then 1 else unat t + 1)"
    "snd (siguiente_turno n t) \<longleftrightarrow> unat t + 1 = n"
    by (simp_all add: siguiente_turno_def Let_def)
qed

text \<open>A round of a group with a master and at least one other charger: every place but that of the master gets its turn once.\<close>

lemma turn_round:
  assumes "2 \<le> n" "n \<le> 255" "1 \<le> unat t" "unat t < n"
  shows "unat (turno_tras n k t) = (unat t - 1 + k) mod (n - 1) + 1"
proof (induction k)
  case 0
  then show ?case using assms by (simp add: turno_tras_def)
next
  case (Suc k)
  let ?r = "(unat t - 1 + k) mod (n - 1)"
  have r: "?r < n - 1" using assms(1) by simp
  have "unat (turno_tras n (Suc k) t) = (if ?r + 1 + 1 = n then 1 else ?r + 1 + 1)"
    using siguiente_turno_unat(1) [of n "turno_tras n k t"] Suc r assms(2) by (simp add: turno_tras_def)
  moreover have "(unat t - 1 + Suc k) mod (n - 1) = (if ?r + 1 = n - 1 then 0 else ?r + 1)"
    by (simp add: mod_Suc)
  ultimately show ?case using r by auto
qed

lemma every_charger_gets_its_turn:
  assumes "2 \<le> n" "n \<le> 255" "1 \<le> unat t" "unat t < n" "1 \<le> i" "i < n"
  shows "\<exists>!k. k < n - 1 \<and> unat (turno_tras n k t) = i"
proof -
  define m a where "m = n - 1" and "a = unat t - 1"
  have m: "0 < m" "a < m" "i - 1 < m" using assms by (auto simp: m_def a_def)
  have e: "unat (turno_tras n k t) = i \<longleftrightarrow> (a + k) mod m = i - 1" for k
    using turn_round [OF assms(1-4), of k] assms(5) by (auto simp: m_def a_def)
  let ?k = "(i - 1 + (m - a)) mod m"
  have "(a + ?k) mod m = (a + (i - 1 + (m - a))) mod m" by (rule mod_add_right_eq)
  also have "\<dots> = i - 1" using m by simp
  finally have k: "(a + ?k) mod m = i - 1" .
  have u: "j = ?k" if "j < m" "(a + j) mod m = i - 1" for j
  proof -
    have "?k = ((a + j) mod m + (m - a)) mod m" by (simp only: that(2))
    also have "\<dots> = (a + j + (m - a)) mod m" by (rule mod_add_left_eq)
    also have "a + j + (m - a) = j + m" using m(2) by simp
    finally show ?thesis using that(1) by simp
  qed
  show ?thesis unfolding e m_def [symmetric]
    by (rule ex1I [of _ ?k]) (use k m(1) u in auto)
qed

text \<open>A master without other chargers passes its own place: its data come once in 256 turns, when the counter wraps.\<close>

lemma lone_master_turn: "snd (siguiente_turno 1 t) \<longleftrightarrow> t = 0"
proof -
  have "t + 1 = 1" if "unat (t + 1) = 1" using that word_eq_iff_unsigned [of "t + 1" 1, where ?'a = nat] by simp
  then show ?thesis by (auto simp: siguiente_turno_def Let_def)
qed

text \<open>A turn beyond the table is read outside it.\<close>

lemma turn_outside_table:
  assumes "length (gc_table (no_gc d)) = MAX_GROUP_SIZE" "40 \<le> k" "k < 100" "ee_after e = [] \<or> \<not> is_digit (hd (ee_after e))"
  shows "es_mi_turno e [digit (k div 10), digit (k mod 10)] d = None"
proof -
  have "k div 10 < 10" "k mod 10 < 10" using assms(3) by linarith+
  then have "is_digit (digit (k div 10))" "is_digit (digit (k mod 10))"
    "(of_char (digit (k div 10)) :: nat) = 48 + k div 10" "(of_char (digit (k mod 10)) :: nat) = 48 + k mod 10"
    by (simp_all add: is_digit_def of_char_digit)
  moreover have "takeWhile is_digit (ee_after e) = []" using assms(4) by (cases "ee_after e") auto
  ultimately have "atoi ([digit (k div 10), digit (k mod 10)] @ ee_after e) = k" by (simp add: atoi_def)
  then show ?thesis using assms(1,2) by (simp add: es_mi_turno_def group_consts)
qed

section \<open>The exchange of a charger with its master\<close>

definition identidad :: "nodo \<Rightarrow> string \<Rightarrow> string \<Rightarrow> bool" where
  "identidad d dev h \<longleftrightarrow> no_Device_Id d = dev @ [CHR 0x00] \<and> length dev = 8 \<and> CHR 0x00 \<notin> set dev
     \<and> no_HPT_status d = h @ [CHR 0x00] \<and> length h = 2 \<and> CHR 0x00 \<notin> set h"

lemma sin_fin_c_str: "CHR 0x00 \<notin> set t \<Longrightarrow> sin_fin (t @ [CHR 0x00]) = t"
  unfolding sin_fin_def by (subst takeWhile_append2) auto

lemma objeto_datos_lee:
  assumes "identidad d dev h"
  shows "map_of (objeto_datos e d) ''HPT'' = Some (JStr h)" "map_of (objeto_datos e d) ''device_id'' = Some (JStr dev)"
    "map_of (objeto_datos e d) ''Perm'' = Some (JNum (if no_AskPerm d then 1 else 0))"
  using assms by (auto simp: objeto_datos_def identidad_def sin_fin_c_str split: option.split)

lemma New_Data_miembro:
  assumes g: "group_wf (gc_table g, gc_Charger_number g)" "i < gc_Charger_number g"
    and d: "identidad d dev h" "ch_name (gc_table g ! i) = dev @ [CHR 0x00]"
  shows "\<exists>c. New_Data n0 H0 (map_of (objeto_datos e d)) g = Some (c, g\<lparr>gc_table := (gc_table g)[i := c]\<rparr>)
    \<and> ch_name c = ch_name (gc_table g ! i) \<and> ch_Consigna c = ch_Consigna (gc_table g ! i) \<and> ch_ChargeReq c = no_AskPerm d"
proof -
  note o = objeto_datos_lee [OF d(1), of e]
  have l: "length dev = 8" "length h = 2" using d(1) by (simp_all add: identidad_def)
  let ?j = "map_of (objeto_datos e d)"
  obtain k where k: "leer_cargador ?j n0 = Some k" "ch_name k = dev @ [CHR 0x00]" "ch_ChargeReq k = no_AskPerm d"
    using l by (simp add: leer_cargador_def valuestring_def valueint_def o cargador_nuevo_def)
  have "length (gc_table g) = 40" "gc_Charger_number g \<le> 40" "distinct (keys (gc_table g, gc_Charger_number g))"
    using g(1) by (simp_all add: group_wf_def group_consts)
  then have i: "check_in_group (ch_name k) (gc_table g) (gc_Charger_number g) = i"
    using g(2) d(2) k(2) by (intro check_in_group_found) (simp_all add: key_def)
  have "i < 255" using g(2) \<open>gc_Charger_number g \<le> 40\<close> by simp
  then show ?thesis
    using i k by (auto simp: New_Data_def o Let_def actualizar_def)
qed

lemma orden_lee:
  "valueint (map_of (objeto_orden c)) ''DC'' = Some (int (ch_Consigna c))"
  "map_of (objeto_orden c) ''DC'' \<noteq> None" "map_of (objeto_orden c) ''N'' = Some (JStr (sin_fin (ch_name c)))"
  "valueint (map_of (objeto_orden c)) ''P'' = Some (if permiso_de c then 1 else 0)"
  by (simp_all add: objeto_orden_def valueint_def)

lemma New_Current_orden:
  assumes "identidad d dev h" "ch_name c = dev @ [CHR 0x00]"
  shows "\<exists>d'. New_Current (map_of (objeto_orden c)) d = Some d' \<and> no_ChargPerm d' = permiso_de c
    \<and> no_AskPerm d' = (no_AskPerm d \<and> \<not> permiso_de c)
    \<and> (permiso_de c \<and> ch_Consigna c mod 256 \<noteq> no_desired_current d \<longrightarrow>
         no_psoc d' = no_psoc d @ [(ch_Consigna c mod 256, MEASURES_CURRENT_COMMAND), (0, psoc_handle.BLOQUEO_CARGA)])
    \<and> (\<not> permiso_de c \<longrightarrow> (0, psoc_handle.BLOQUEO_CARGA) \<notin> set (drop (length (no_psoc d)) (no_psoc d')))"
proof -
  have n: "sin_fin (ch_name c) = dev" using assms by (simp add: identidad_def sin_fin_c_str)
  have m: "memeq (no_Device_Id d) (dev @ [CHR 0x00]) 9" using assms(1) by (simp add: identidad_def memeq_def)
  have "nat (int (ch_Consigna c) mod 256) = ch_Consigna c mod 256"
    using nat_mod_distrib [of "int (ch_Consigna c)" 256] by simp
  then show ?thesis
    using m by (simp add: New_Current_def orden_lee n Let_def)
qed

text \<open>A client that hears nothing while \<^verbatim>\<open>PARAR_CLIENTE\<close> is set deletes itself and still counts as connected.\<close>

lemma silent_client_dies_connected:
  assumes "\<not> od_SendNewParams (ex_w x)" "\<not> od_SendNewGroup (ex_w x)" "\<not> od_SendNewCircuits (ex_w x)" "od_Conected (ex_w x)"
  shows "\<exists>x'. coap_client e True True x = Some (True, True, x') \<and> od_Conected (ex_w x')"
  using assms by (simp add: coap_client_def start_client_def con_master_def)

text \<open>
  C25: a charger of a group charges only as the master says. The data that a charger sends when it is its turn reach
  the entry of the master's table with its name; the answer of the master carries the current assigned there, and when
  the charger takes it in, it has the permission to charge exactly if that current is positive, the vehicle is not
  finishing, and a vehicle that waits has been reported to ask; only with the permission is its PSoC unlocked, and with
  a new current it is told the current and unlocked. The texts of the two messages are assumed to be read as written,
  and the answer to fit its array.
\<close>

theorem charger_obeys_master:
  assumes "group_wf (gc_table (no_gc (nodo_de m)), gc_Charger_number (no_gc (nodo_de m)))"
    "i < gc_Charger_number (no_gc (nodo_de m))" "identidad (nodo_de x) dev h"
    "ch_name (gc_table (no_gc (nodo_de m)) ! i) = dev @ [CHR 0x00]" "length (ex_LastData m) = 100"
    "t = ee_print e (objeto_datos e (nodo_de x))" "t \<noteq> []" "ee_parse em t = map_of (objeto_datos e (nodo_de x))"
    "\<And>c w. recibe_datos em t (ex_w m) = Some (c, w) \<Longrightarrow>
       ee_print em (objeto_orden c) \<noteq> [] \<and> length (ee_print em (objeto_orden c)) \<le> 48 \<and>
       ee_parse e (ee_print em (objeto_orden c)) = map_of (objeto_orden c)"
  shows "\<exists>c r m' x' perm. hnd_put em ''DATA'' t m = Some (r, m') \<and> recibe_datos em t (ex_w m) = Some (c, ex_w m')
    \<and> gc_table (no_gc (nodo_de m')) ! i = c \<and> ch_Consigna c = ch_Consigna (gc_table (no_gc (nodo_de m)) ! i)
    \<and> ch_ChargeReq c = no_AskPerm (nodo_de x)
    \<and> perm = (0 < ch_Consigna c \<and> \<not> hpt c ''C1'' \<and> (hpt c ''B1'' \<longrightarrow> ch_ChargeReq c))
    \<and> message_handler e r x = Some x' \<and> no_ChargPerm (nodo_de x') = perm
    \<and> no_AskPerm (nodo_de x') = (no_AskPerm (nodo_de x) \<and> \<not> perm)
    \<and> (perm \<and> ch_Consigna c mod 256 \<noteq> no_desired_current (nodo_de x) \<longrightarrow> no_psoc (nodo_de x') =
         no_psoc (nodo_de x) @ [(ch_Consigna c mod 256, MEASURES_CURRENT_COMMAND), (0, psoc_handle.BLOQUEO_CARGA)])
    \<and> (\<not> perm \<longrightarrow>
         (0, psoc_handle.BLOQUEO_CARGA) \<notin> set (drop (length (no_psoc (nodo_de x))) (no_psoc (nodo_de x'))))"
proof -
  let ?g = "no_gc (nodo_de m)"
  from New_Data_miembro [OF assms(1-4), of "ee_name0 em" "ee_HPT0 em" e] obtain c where
    c: "New_Data (ee_name0 em) (ee_HPT0 em) (map_of (objeto_datos e (nodo_de x))) ?g = Some (c, ?g\<lparr>gc_table := (gc_table ?g)[i := c]\<rparr>)"
      "ch_name c = dev @ [CHR 0x00]" "ch_Consigna c = ch_Consigna (gc_table ?g ! i)" "ch_ChargeReq c = no_AskPerm (nodo_de x)"
    using assms(4) by (elim exE conjE) simp
  let ?w = "(ex_w m)\<lparr>od_nodo := (nodo_de m)\<lparr>no_gc := ?g\<lparr>gc_table := (gc_table ?g)[i := c]\<rparr>\<rparr>\<rparr>"
  have rd: "recibe_datos em t (ex_w m) = Some (c, ?w)"
    using c(1) assms(7) by (simp add: recibe_datos_def assms(8) nodo_de_def)
  define r where "r = ee_print em (objeto_orden c)"
  have r: "r \<noteq> []" "length r \<le> 48" "ee_parse e r = map_of (objeto_orden c)"
    using assms(9) [OF rd] by (simp_all add: r_def)
  obtain l where l: "mem_write (ex_LastData m) 0 r = Some l"
    using assms(5) r(2) by (simp add: mem_write_def)
  let ?m' = "m\<lparr>ex_w := ?w, ex_LastData := l\<rparr>"
  have p: "hnd_put em ''DATA'' t m = Some (digit CURRENT_COMMAND # r, ?m')"
    using r(2) rd l by (simp add: hnd_put_def en_buffer_def r_def [symmetric])
  have "i < length (gc_table ?g)" using assms(1,2) by (simp add: group_wf_def)
  then have ci: "gc_table (no_gc (nodo_de ?m')) ! i = c" by (simp add: nodo_de_def)
  from New_Current_orden [OF assms(3) c(2)] obtain d' where
    d': "New_Current (map_of (objeto_orden c)) (nodo_de x) = Some d'" "no_ChargPerm d' = permiso_de c"
      "no_AskPerm d' = (no_AskPerm (nodo_de x) \<and> \<not> permiso_de c)"
      "permiso_de c \<and> ch_Consigna c mod 256 \<noteq> no_desired_current (nodo_de x) \<longrightarrow>
         no_psoc d' = no_psoc (nodo_de x) @ [(ch_Consigna c mod 256, MEASURES_CURRENT_COMMAND), (0, psoc_handle.BLOQUEO_CARGA)]"
      "\<not> permiso_de c \<longrightarrow> (0, psoc_handle.BLOQUEO_CARGA) \<notin> set (drop (length (no_psoc (nodo_de x))) (no_psoc d'))"
    by (elim exE conjE)
  let ?x' = "x\<lparr>ex_w := (ex_w x)\<lparr>od_nodo := d'\<rparr>\<rparr>"
  have "digit CURRENT_COMMAND \<notin> {digit GROUP_PARAMS, digit GROUP_CONTROL, digit GROUP_CHARGERS, digit TURNO}"
    by (simp add: codigos digit_def)
  then have h: "message_handler e (digit CURRENT_COMMAND # r) x = Some ?x'"
    using d'(1) r(1) by (simp add: message_handler_def Let_def con_w_def en_od_def r(3) nodo_de_def)
  have n: "nodo_de ?x' = d'" by (simp add: nodo_de_def)
  show ?thesis
    by (rule exI [of _ c], rule exI [of _ "digit CURRENT_COMMAND # r"], rule exI [of _ ?m'], rule exI [of _ ?x'],
        rule exI [of _ "permiso_de c"])
      (use p rd ci c(3,4) h d'(2-) n permiso_de_def [of c] in simp)
qed

text \<open>The master of the example has assigned 10 A to the second charger, whose vehicle waits and asks.\<close>

definition demo_tabla_ex :: "carac_charger list" where
  "demo_tabla_ex = [demo_charger ''VCD00001'', (demo_charger ''VCD00002'')\<lparr>ch_Consigna := 10\<rparr>] @ replicate 38 (demo_charger ''        '')"

definition demo_ex :: "nodo \<Rightarrow> intercambio" where
  "demo_ex d = \<lparr>ex_w = demo_ordenes\<lparr>od_nodo := d\<rparr>, ex_turno = 1, ex_LastControl = replicate 50 (CHR 0x00),
     ex_LastData = replicate 100 (CHR 0x00), ex_avisos = [], ex_enviados = []\<rparr>"

definition demo_maestro :: nodo where
  "demo_maestro = demo_nodo\<lparr>no_gc := demo_gc\<lparr>gc_table := demo_tabla_ex, gc_Charger_number := 2\<rparr>,
     no_Device_Id := ''VCD00001'' @ [CHR 0x00]\<rparr>"

definition demo_esclavo :: nodo where
  "demo_esclavo = demo_nodo\<lparr>no_GroupMaster := 0, no_Device_Id := ''VCD00002'' @ [CHR 0x00],
     no_HPT_status := ''B1'' @ [CHR 0x00]\<rparr>"

definition demo_entorno_ex :: entorno_ex where
  "demo_entorno_ex = \<lparr>ee_print = (\<lambda>ob. if map_of ob ''HPT'' = None then ''C'' else ''D''),
     ee_parse = (\<lambda>t. if t = ''D''
       then map_of [(''device_id'', JStr ''VCD00002''), (''current'', JNum 0), (''HPT'', JStr ''B1''), (''Perm'', JNum 1)]
       else map_of [(''N'', JStr ''VCD00002''), (''DC'', JNum 10), (''P'', JNum 1)]),
     ee_after = [], ee_afterv = [], ee_pila = [], ee_name0 = [], ee_HPT0 = [], ee_corriente = 0, ee_trifasico = None,
     ee_Medidor = False\<rparr>"

lemma demo_ex_wf: "group_wf (demo_tabla_ex, 2)"
  by (simp add: group_wf_def keys_def key_def group_consts demo_charger_def live_def demo_tabla_ex_def)

theorem charger_obeys_master_witness:
  "\<exists>r m' x'. hnd_put demo_entorno_ex ''DATA'' ''D'' (demo_ex demo_maestro) = Some (r, m') \<and>
     message_handler demo_entorno_ex r (demo_ex demo_esclavo) = Some x' \<and> no_ChargPerm (nodo_de x') \<and>
     no_psoc (nodo_de x') = [(10, MEASURES_CURRENT_COMMAND), (0, psoc_handle.BLOQUEO_CARGA)]"
proof -
  let ?m = "demo_ex demo_maestro" and ?x = "demo_ex demo_esclavo" and ?e = demo_entorno_ex
  have n: "nodo_de ?m = demo_maestro" "nodo_de ?x = demo_esclavo" by (simp_all add: demo_ex_def nodo_de_def)
  have g: "gc_table (no_gc demo_maestro) = demo_tabla_ex" "gc_Charger_number (no_gc demo_maestro) = 2"
    by (simp_all add: demo_maestro_def)
  have i: "identidad demo_esclavo ''VCD00002'' ''B1''" by (simp add: identidad_def demo_esclavo_def)
  have s: "no_AskPerm demo_esclavo" "no_desired_current demo_esclavo = 32" "no_psoc demo_esclavo = []"
    by (simp_all add: demo_esclavo_def demo_nodo_def)
  have nm: "ch_name (demo_tabla_ex ! 1) = ''VCD00002'' @ [CHR 0x00]" "ch_Consigna (demo_tabla_ex ! 1) = 10"
    by (simp_all add: demo_tabla_ex_def demo_charger_def)
  have o: "objeto_datos ?e demo_esclavo =
      [(''device_id'', JStr ''VCD00002''), (''current'', JNum 0), (''HPT'', JStr ''B1''), (''Perm'', JNum 1)]"
    using s(1) by (simp add: objeto_datos_def demo_entorno_ex_def demo_esclavo_def sin_fin_def)
  have j: "''D'' = ee_print ?e (objeto_datos ?e demo_esclavo)" "ee_parse ?e ''D'' = map_of (objeto_datos ?e demo_esclavo)"
    unfolding o by (simp_all add: demo_entorno_ex_def)
  have ci: "check_in_group (''VCD00002'' @ [CHR 0x00]) demo_tabla_ex 2 = 1"
    by (simp add: check_in_group_def numeral_2_eq_2 memeq_def demo_tabla_ex_def demo_charger_def)
  have law: "(ee_print ?e (objeto_orden c) \<noteq> [] \<and> length (ee_print ?e (objeto_orden c)) \<le> 48 \<and>
      ee_parse ?e (ee_print ?e (objeto_orden c)) = map_of (objeto_orden c)) \<and> permiso_de c"
    if "recibe_datos ?e ''D'' (ex_w ?m) = Some (c, w)" for c w
  proof -
    have c: "ch_name c = ''VCD00002'' @ [CHR 0x00]" "ch_Consigna c = 10" "ch_HPT c = ''B1'' @ [CHR 0x00]" "ch_ChargeReq c"
      using that ci nm
      by (auto simp: recibe_datos_def New_Data_def leer_cargador_def j(2) o g demo_ex_def demo_maestro_def
          valuestring_def valueint_def cargador_nuevo_def Let_def hpt_def memeq_def actualizar_def
          demo_tabla_ex_def demo_charger_def)
    then have "permiso_de c" by (simp add: permiso_de_def hpt_def memeq_def)
    then show ?thesis using c by (simp add: objeto_orden_def sin_fin_def demo_entorno_ex_def)
  qed
  have l: "length (ex_LastData ?m) = 100" by (simp add: demo_ex_def)
  have d: "1 < (2::nat)" "''D'' \<noteq> []" by simp_all
  note T = charger_obeys_master [where m = ?m and x = ?x and i = 1 and e = ?e and em = ?e and t = "''D''", unfolded n g,
      OF demo_ex_wf d(1) i nm(1) l j(1) d(2) j(2)]
  obtain c r m' x' perm where r: "hnd_put ?e ''DATA'' ''D'' ?m = Some (r, m')" "message_handler ?e r ?x = Some x'"
      "no_ChargPerm (nodo_de x') = perm" "recibe_datos ?e ''D'' (ex_w ?m) = Some (c, ex_w m')"
      "ch_Consigna c = ch_Consigna (demo_tabla_ex ! 1)"
      "perm = (0 < ch_Consigna c \<and> \<not> hpt c ''C1'' \<and> (hpt c ''B1'' \<longrightarrow> ch_ChargeReq c))"
      "perm \<and> ch_Consigna c mod 256 \<noteq> no_desired_current demo_esclavo \<longrightarrow> no_psoc (nodo_de x') =
         no_psoc demo_esclavo @ [(ch_Consigna c mod 256, MEASURES_CURRENT_COMMAND), (0, psoc_handle.BLOQUEO_CARGA)]"
    by (rule T [OF law [THEN conjunct1], THEN exE], assumption, elim exE conjE) (rule that; assumption)
  have "perm" using law [OF r(4)] r(6) by (simp add: permiso_de_def)
  moreover have "no_psoc (nodo_de x') = [(10, MEASURES_CURRENT_COMMAND), (0, psoc_handle.BLOQUEO_CARGA)]"
    using r(5,7) \<open>perm\<close> s nm(2) by simp
  ultimately show ?thesis using r(1,2,3) by (intro exI [of _ r] exI [of _ m'] exI [of _ x']) simp
qed

end
