(* ===== verification/Dfu_Packet.thy ===== *)
theory Dfu_Packet
  imports Prelude
begin

text \<open>
  The packets of the protocol that updates the firmware of the PSoC processor of the charger
  (\<^verbatim>\<open>cybtldr/cybtldr_command.cpp\<close>): the two checksums of a packet, the checksum of a row, the
  commands and the checks of the answers. A command is built in a buffer of \<^verbatim>\<open>MAX_COMMAND_SIZE\<close>
  bytes; one that does not fit is \<open>None\<close>. A command is given with the size of the answer that the caller
  waits for.
\<close>

section \<open>Codes\<close>

type_synonym err = u32

definition CYRET_SUCCESS :: err where "CYRET_SUCCESS = 0x00"
definition CYRET_ERR_FILE :: err where "CYRET_ERR_FILE = 0x01"
definition CYRET_ERR_EOF :: err where "CYRET_ERR_EOF = 0x02"
definition CYRET_ERR_LENGTH :: err where "CYRET_ERR_LENGTH = 0x03"
definition CYRET_ERR_DATA :: err where "CYRET_ERR_DATA = 0x04"
definition CYRET_ERR_CMD :: err where "CYRET_ERR_CMD = 0x05"
definition CYRET_ERR_DEVICE :: err where "CYRET_ERR_DEVICE = 0x06"
definition CYRET_ERR_CHECKSUM :: err where "CYRET_ERR_CHECKSUM = 0x08"
definition CYRET_ABORT :: err where "CYRET_ABORT = 0xAB"
definition CYRET_ERR_COMM_MASK :: err where "CYRET_ERR_COMM_MASK = 0x2000"
definition CYRET_ERR_BTLDR_MASK :: err where "CYRET_ERR_BTLDR_MASK = 0x4000"
definition CYBTLDR_STAT_ERR_UNK :: err where "CYBTLDR_STAT_ERR_UNK = 0x0F"

lemmas err_codes = CYRET_SUCCESS_def CYRET_ERR_FILE_def CYRET_ERR_EOF_def CYRET_ERR_LENGTH_def CYRET_ERR_DATA_def
  CYRET_ERR_CMD_def CYRET_ERR_DEVICE_def CYRET_ERR_CHECKSUM_def CYRET_ABORT_def CYRET_ERR_COMM_MASK_def
  CYRET_ERR_BTLDR_MASK_def CYBTLDR_STAT_ERR_UNK_def

definition MAX_COMMAND_SIZE :: nat where "MAX_COMMAND_SIZE = 512"
definition BASE_CMD_SIZE :: nat where "BASE_CMD_SIZE = 7"
definition CMD_START :: u8 where "CMD_START = 0x01"
definition CMD_STOP :: u8 where "CMD_STOP = 0x17"

datatype checksum_type = SUM_CHECKSUM | CRC_CHECKSUM

section \<open>Checksums\<close>

definition crc16_bit :: "u16 \<times> u16 \<Rightarrow> u16 \<times> u16" where
  "crc16_bit = (\<lambda>(crc, tmp).
     (if (crc AND 1) XOR (tmp AND 1) \<noteq> 0 then drop_bit 1 crc XOR 0x8408 else drop_bit 1 crc, drop_bit 1 tmp))"

definition crc16_byte :: "u8 \<Rightarrow> u16 \<Rightarrow> u16" where
  "crc16_byte b crc = fst ((crc16_bit ^^ 8) (crc, ucast b))"

definition CyBtldr_ComputeChecksum16bit :: "checksum_type \<Rightarrow> bytes \<Rightarrow> u16" where
  "CyBtldr_ComputeChecksum16bit ct buf =
     (case ct of
        CRC_CHECKSUM \<Rightarrow>
          if buf = [] then NOT 0xFFFF
          else let crc = NOT (fold crc16_byte buf 0xFFFF)
               in push_bit 8 crc OR (drop_bit 8 crc AND 0xFF)
      | SUM_CHECKSUM \<Rightarrow> 1 + NOT (fold (\<lambda>b sum. sum + ucast b) buf 0))"

definition crc_g0 :: u32 where "crc_g0 = 0x82F63B78"
definition crc_g1 :: u32 where "crc_g1 = drop_bit 1 crc_g0 AND 0x7FFFFFFF"
definition crc_g2 :: u32 where "crc_g2 = drop_bit 2 crc_g0 AND 0x3FFFFFFF"
definition crc_g3 :: u32 where "crc_g3 = drop_bit 3 crc_g0 AND 0x1FFFFFFF"

definition crc_table :: "u32 list" where
  "crc_table = [0, crc_g3, crc_g2, crc_g2 XOR crc_g3, crc_g1, crc_g1 XOR crc_g3, crc_g1 XOR crc_g2,
     crc_g1 XOR crc_g2 XOR crc_g3, crc_g0, crc_g0 XOR crc_g3, crc_g0 XOR crc_g2, crc_g0 XOR crc_g2 XOR crc_g3,
     crc_g0 XOR crc_g1, crc_g0 XOR crc_g1 XOR crc_g3, crc_g0 XOR crc_g1 XOR crc_g2,
     crc_g0 XOR crc_g1 XOR crc_g2 XOR crc_g3]"

definition crc32_nibble :: "u32 \<Rightarrow> u32" where
  "crc32_nibble crc = drop_bit 4 crc XOR crc_table ! unat (crc AND 0xF)"

definition crc32_byte :: "u8 \<Rightarrow> u32 \<Rightarrow> u32" where
  "crc32_byte b crc = crc32_nibble (crc32_nibble (crc XOR ucast b))"

definition CyBtldr_ComputeChecksum32bit :: "bytes \<Rightarrow> u32" where
  "CyBtldr_ComputeChecksum32bit buf = NOT (fold crc32_byte buf 0xFFFFFFFF)"

section \<open>Commands\<close>

text \<open>The header, the data, the checksum of both and the stop byte.\<close>

definition CreateCmd :: "checksum_type \<Rightarrow> u8 \<Rightarrow> bytes \<Rightarrow> bytes option" where
  "CreateCmd ct cmdCode data =
     (let head = [CMD_START, cmdCode] @ le16 (of_nat (length data)) @ data
      in if MAX_COMMAND_SIZE < length data + BASE_CMD_SIZE then None
         else Some (head @ le16 (CyBtldr_ComputeChecksum16bit ct head) @ [CMD_STOP]))"

definition with_size :: "nat \<Rightarrow> bytes option \<Rightarrow> (bytes \<times> nat) option" where
  "with_size resSize cmd = map_option (\<lambda>c. (c, resSize)) cmd"

definition CyBtldr_CreateEnterBootLoaderCmd :: "checksum_type \<Rightarrow> u32 \<Rightarrow> (bytes \<times> nat) option" where
  "CyBtldr_CreateEnterBootLoaderCmd ct productID =
     with_size (BASE_CMD_SIZE + 8) (CreateCmd ct 0x38 (le32 productID @ le16 0))"

definition CyBtldr_CreateExitBootLoaderCmd :: "checksum_type \<Rightarrow> (bytes \<times> nat) option" where
  "CyBtldr_CreateExitBootLoaderCmd ct = with_size BASE_CMD_SIZE (CreateCmd ct 0x3B [])"

definition CyBtldr_CreateSendDataCmd :: "checksum_type \<Rightarrow> bytes \<Rightarrow> (bytes \<times> nat) option" where
  "CyBtldr_CreateSendDataCmd ct buf = with_size BASE_CMD_SIZE (CreateCmd ct 0x37 buf)"

definition CyBtldr_CreateProgramDataCmd :: "checksum_type \<Rightarrow> u32 \<Rightarrow> u32 \<Rightarrow> bytes \<Rightarrow> (bytes \<times> nat) option" where
  "CyBtldr_CreateProgramDataCmd ct address chksum buf =
     with_size BASE_CMD_SIZE (CreateCmd ct 0x49 (le32 address @ le32 chksum @ buf))"

definition CyBtldr_CreateVerifyDataCmd :: "checksum_type \<Rightarrow> u32 \<Rightarrow> u32 \<Rightarrow> bytes \<Rightarrow> (bytes \<times> nat) option" where
  "CyBtldr_CreateVerifyDataCmd ct address chksum buf =
     with_size BASE_CMD_SIZE (CreateCmd ct 0x4A (le32 address @ le32 chksum @ buf))"

definition CyBtldr_CreateEraseDataCmd :: "checksum_type \<Rightarrow> u32 \<Rightarrow> (bytes \<times> nat) option" where
  "CyBtldr_CreateEraseDataCmd ct address = with_size BASE_CMD_SIZE (CreateCmd ct 0x44 (le32 address))"

definition CyBtldr_CreateVerifyChecksumCmd :: "checksum_type \<Rightarrow> u8 \<Rightarrow> (bytes \<times> nat) option" where
  "CyBtldr_CreateVerifyChecksumCmd ct appId = with_size (BASE_CMD_SIZE + 1) (CreateCmd ct 0x31 [appId])"

definition CyBtldr_CreateSetApplicationMetadataCmd :: "checksum_type \<Rightarrow> u8 \<Rightarrow> bytes \<Rightarrow> (bytes \<times> nat) option" where
  "CyBtldr_CreateSetApplicationMetadataCmd ct appID buf =
     with_size BASE_CMD_SIZE (CreateCmd ct 0x4C (appID # take 8 buf))"

definition CyBtldr_CreateSetEncryptionInitialVectorCmd :: "checksum_type \<Rightarrow> bytes \<Rightarrow> (bytes \<times> nat) option" where
  "CyBtldr_CreateSetEncryptionInitialVectorCmd ct buf = with_size BASE_CMD_SIZE (CreateCmd ct 0x4D buf)"

section \<open>Answers\<close>

text \<open>The result of a check and the status byte of the answer.\<close>

definition ParseGenericCmdResult :: "bytes \<Rightarrow> nat \<Rightarrow> nat \<Rightarrow> err \<times> u8" where
  "ParseGenericCmdResult cmdBuf dataSize expectedSize =
     (let cmdSize = dataSize + BASE_CMD_SIZE; status = cmdBuf ! 1
      in (if cmdSize \<noteq> expectedSize then CYRET_ERR_LENGTH
          else if status \<noteq> 0 then CYRET_ERR_BTLDR_MASK OR ucast status
          else if cmdBuf ! 0 \<noteq> CMD_START \<or> cmdBuf ! 2 \<noteq> of_nat dataSize \<or> cmdBuf ! 3 \<noteq> of_nat (dataSize div 256)
              \<or> cmdBuf ! (cmdSize - 1) \<noteq> CMD_STOP then CYRET_ERR_DATA
          else CYRET_SUCCESS, status))"

definition CyBtldr_ParseDefaultCmdResult :: "bytes \<Rightarrow> nat \<Rightarrow> err \<times> u8" where
  "CyBtldr_ParseDefaultCmdResult cmdBuf cmdSize = ParseGenericCmdResult cmdBuf 0 cmdSize"

text \<open>The silicon identification, its revision and the version of the bootloader.\<close>

definition CyBtldr_ParseEnterBootLoaderCmdResult :: "bytes \<Rightarrow> nat \<Rightarrow> err \<times> u8 \<times> (u32 \<times> u8 \<times> u32) option" where
  "CyBtldr_ParseEnterBootLoaderCmdResult cmdBuf cmdSize =
     (let (err, status) = ParseGenericCmdResult cmdBuf 8 cmdSize
      in (err, status,
          if err = CYRET_SUCCESS
          then Some (join32 (cmdBuf ! 4) (cmdBuf ! 5) (cmdBuf ! 6) (cmdBuf ! 7), cmdBuf ! 8,
                     join32 (cmdBuf ! 9) (cmdBuf ! 10) (cmdBuf ! 11) 0)
          else None))"

definition CyBtldr_ParseVerifyChecksumCmdResult :: "bytes \<Rightarrow> nat \<Rightarrow> err \<times> u8 \<times> u8 option" where
  "CyBtldr_ParseVerifyChecksumCmdResult cmdBuf cmdSize =
     (let (err, status) = ParseGenericCmdResult cmdBuf 1 cmdSize
      in (err, status, if err = CYRET_SUCCESS then Some (cmdBuf ! 4) else None))"

text \<open>The check of a whole packet; the packet is the start of a longer buffer.\<close>

definition CyBtldr_TryParseParketStatus :: "checksum_type \<Rightarrow> bytes \<Rightarrow> nat \<Rightarrow> (err \<times> u8 option) option" where
  "CyBtldr_TryParseParketStatus ct packet packetSize =
     (if packetSize < BASE_CMD_SIZE \<or> packet ! 0 \<noteq> CMD_START then Some (CYBTLDR_STAT_ERR_UNK, None)
      else
        let status = packet ! 1; dataSize = unat (join16 (packet ! 2) (packet ! 3))
        in if length packet < dataSize + BASE_CMD_SIZE then None
           else let readChecksum = join16 (packet ! (dataSize + 4)) (packet ! (dataSize + 5));
                    computedChecksum = CyBtldr_ComputeChecksum16bit ct (take (BASE_CMD_SIZE + dataSize - 3) packet)
                in Some (if packet ! (dataSize + BASE_CMD_SIZE - 1) \<noteq> CMD_STOP \<or> readChecksum \<noteq> computedChecksum
                         then CYBTLDR_STAT_ERR_UNK else CYRET_SUCCESS, Some status))"

section \<open>A packet that is built is a packet that is read\<close>

lemma CreateCmd_shape:
  assumes "CreateCmd ct code data = Some p"
  defines "n \<equiv> of_nat (length data) :: u16"
  defines "c \<equiv> CyBtldr_ComputeChecksum16bit ct ([CMD_START, code, ucast n, ucast (drop_bit 8 n)] @ data)"
  shows "length data \<le> 505 \<and> p = [CMD_START, code, ucast n, ucast (drop_bit 8 n)] @ data @
    [ucast c, ucast (drop_bit 8 c), CMD_STOP]"
  using assms(1) unfolding c_def n_def
  by (simp add: CreateCmd_def Let_def MAX_COMMAND_SIZE_def BASE_CMD_SIZE_def le16_def split: if_splits)

lemma CreateCmd_total: "length data \<le> 505 \<Longrightarrow> \<exists>p. CreateCmd ct code data = Some p"
  by (simp add: CreateCmd_def Let_def MAX_COMMAND_SIZE_def BASE_CMD_SIZE_def)

lemma CreateCmd_length: "CreateCmd ct code data = Some p \<Longrightarrow> length p = length data + 7"
  using CreateCmd_shape by fastforce

lemma join16_length: "m < 65536 \<Longrightarrow> unat (join16 (ucast (of_nat m :: u16)) (ucast (drop_bit 8 (of_nat m :: u16)))) = m"
  by (simp add: join16_le16 unat_of_nat)

text \<open>Every command that fits its buffer is a packet that the reader of packets accepts, with either kind
  of checksum and whatever follows it in the buffer: the status it reports is the code of the command,
  and the length field and the data can be read back unchanged.\<close>

lemma command_packet_roundtrip:
  assumes "CreateCmd ct code data = Some p"
  shows "CyBtldr_TryParseParketStatus ct (p @ rest) (length p) = Some (CYRET_SUCCESS, Some code) \<and>
    unat (join16 (p ! 2) (p ! 3)) = length data \<and> take (length data) (drop 4 p) = data"
proof -
  define n :: u16 where "n = of_nat (length data)"
  define h where "h = [CMD_START, code, ucast n, ucast (drop_bit 8 n)]"
  define c where "c = CyBtldr_ComputeChecksum16bit ct (h @ data)"
  have p: "p = h @ data @ [ucast c, ucast (drop_bit 8 c), CMD_STOP]" "length data \<le> 505"
    using CreateCmd_shape [OF assms] by (simp_all add: n_def h_def c_def)
  have lh: "length h = 4" by (simp add: h_def)
  have nth: "p ! 0 = CMD_START" "p ! 1 = code" "p ! 2 = ucast n" "p ! 3 = ucast (drop_bit 8 n)"
    by (simp_all add: p h_def)
  have len: "unat (join16 (p ! 2) (p ! 3)) = length data"
    using join16_length [of "length data"] p(2) by (simp add: nth n_def)
  have un: "unat n = length data" using p(2) by (simp add: n_def unat_of_nat)
  have tail: "(p @ rest) ! (length data + 4) = ucast c" "(p @ rest) ! (length data + 5) = ucast (drop_bit 8 c)"
      "(p @ rest) ! (length data + 6) = CMD_STOP" "take (length data + 4) (p @ rest) = h @ data" "length p = length data + 7"
    by (simp_all add: p lh nth_append)
  have four: "(p @ rest) ! i = p ! i" if "i < 4" for i using that tail(5) by (simp add: nth_append)
  have "CyBtldr_TryParseParketStatus ct (p @ rest) (length p) = Some (CYRET_SUCCESS, Some code)"
    using tail(1-4) by (simp add: CyBtldr_TryParseParketStatus_def Let_def BASE_CMD_SIZE_def four nth [simplified] un tail(5)
        add.commute c_def [symmetric] join16_le16)
  moreover have "take (length data) (drop 4 p) = data" by (simp add: p h_def)
  ultimately show ?thesis using len by simp
qed

lemma command_packet_roundtrip_example:
  "\<exists>p. CreateCmd CRC_CHECKSUM 0x44 (le32 0x10000) = Some p \<and>
     CyBtldr_TryParseParketStatus CRC_CHECKSUM (p @ [7, 7]) 11 = Some (CYRET_SUCCESS, Some 0x44)"
proof -
  obtain p where p: "CreateCmd CRC_CHECKSUM 0x44 (le32 0x10000) = Some p" using CreateCmd_total by force
  then show ?thesis using command_packet_roundtrip [OF p, of "[7, 7]"] CreateCmd_length [OF p] by simp
qed

section \<open>The checksum of a row is CRC-32C\<close>

text \<open>The reference: one bit at a time, with the reversed polynomial.\<close>

definition crc32c_bit :: "u32 \<Rightarrow> u32" where
  "crc32c_bit crc = drop_bit 1 crc XOR (if bit crc 0 then 0x82F63B78 else 0)"

definition crc32c :: "bytes \<Rightarrow> u32" where
  "crc32c buf = NOT (fold (\<lambda>b crc. (crc32c_bit ^^ 8) (crc XOR ucast b)) buf 0xFFFFFFFF)"

lemma crc32c_bit_xor: "crc32c_bit (a XOR b) = crc32c_bit a XOR crc32c_bit b"
  by (auto simp: crc32c_bit_def bit_xor_iff xor.assoc xor.left_commute xor.commute)

lemma crc32c_bits_xor: "(crc32c_bit ^^ n) (a XOR b) = (crc32c_bit ^^ n) a XOR (crc32c_bit ^^ n) b"
  by (induction n) (simp_all add: crc32c_bit_xor)

lemma crc32c_bits_zero: "(crc32c_bit ^^ n) (push_bit n (a :: u32)) = take_bit (32 - n) a"
proof (induction n arbitrary: a)
  case (Suc n)
  have "crc32c_bit (push_bit (Suc n) a) = drop_bit 1 (push_bit (Suc n) a)"
    unfolding crc32c_bit_def bit_push_bit_iff by simp
  also have "\<dots> = push_bit n (take_bit (31 - n) a)"
    by (rule bit_word_eqI) (auto simp only: bit_drop_bit_eq bit_push_bit_iff bit_take_bit_iff o_apply, simp_all)
  finally show ?case using Suc.IH [of "take_bit (31 - n) a"]
    by (simp add: funpow_swap1 min_def)
qed (simp add: take_bit_word_eq_self)

lemma nibble_table:
  fixes m :: nat
  assumes "m < 16"
  shows "(crc32c_bit ^^ 4) (of_nat m) = crc_table ! m"
proof -
  have "m = 0 \<or> m = 1 \<or> m = 2 \<or> m = 3 \<or> m = 4 \<or> m = 5 \<or> m = 6 \<or> m = 7 \<or> m = 8 \<or> m = 9 \<or> m = 10 \<or>
      m = 11 \<or> m = 12 \<or> m = 13 \<or> m = 14 \<or> m = 15" using assms by presburger
  then show ?thesis
    by (elim disjE; simp only:; code_simp)
qed

lemma crc32_nibble_bits: "crc32_nibble crc = (crc32c_bit ^^ 4) crc"
proof -
  have bits: "mask 4 = (0xF :: u32)" by (simp add: mask_eq_exp_minus_1)
  have split: "crc = push_bit 4 (drop_bit 4 crc) XOR (crc AND 0xF)"
    unfolding bits [symmetric] by (rule bit_word_eqI) (auto simp: bit_simps)
  have low: "unat (crc AND 0xF) < 16"
    unfolding bits [symmetric] take_bit_eq_mask [symmetric] unsigned_take_bit_eq
    using take_bit_nat_less_exp [of 4 "unat crc"] by simp
  have "(crc32c_bit ^^ 4) (push_bit 4 (drop_bit 4 crc)) = drop_bit 4 crc"
    unfolding crc32c_bits_zero by (rule bit_word_eqI) (auto simp: bit_simps dest: bit_imp_le_length)
  moreover have "(crc32c_bit ^^ 4) (crc AND 0xF) = crc_table ! unat (crc AND 0xF)"
    using nibble_table [OF low] by simp
  ultimately show ?thesis
    by (subst (2) split) (simp only: crc32c_bits_xor crc32_nibble_def)
qed

text \<open>C30: the checksum of a row, computed four bits at a time with the table of 16 words, is the CRC-32C of the
  row, computed one bit at a time with the reversed Castagnoli polynomial.\<close>

theorem row_checksum_is_crc32c: "CyBtldr_ComputeChecksum32bit buf = crc32c buf"
proof -
  have "crc32_byte b crc = (crc32c_bit ^^ 8) (crc XOR ucast b)" for b crc
  proof -
    have "(crc32c_bit ^^ 8) x = (crc32c_bit ^^ 4) ((crc32c_bit ^^ 4) x)" for x
      using funpow_add [of 4 4 crc32c_bit] by simp
    then show ?thesis by (simp add: crc32_byte_def crc32_nibble_bits)
  qed
  then have "crc32_byte = (\<lambda>b crc. (crc32c_bit ^^ 8) (crc XOR ucast b))" by blast
  then show ?thesis by (simp add: CyBtldr_ComputeChecksum32bit_def crc32c_def)
qed

end
