(* ===== verification/Dfu_File.thy ===== *)
theory Dfu_File
  imports Dfu_Packet "HOL-Library.Monad_Syntax"
begin

text \<open>
  The reader of the firmware file of the PSoC processor (\<^verbatim>\<open>cybtldr/cybtldr_parse.cpp\<close>): lines of
  hexadecimal text, the header, the rows of data and the information on the application. The file is
  the text that is still to be read. A line is read into a fixed array of characters that keeps its old
  contents where a line does not reach; an access outside an array is \<open>None\<close>.
\<close>

section \<open>Hexadecimal text\<close>

definition CyBtldr_FromHex :: "char \<Rightarrow> u8" where
  "CyBtldr_FromHex value =
     (let v = of_char value :: nat
      in if 48 \<le> v \<and> v \<le> 57 then of_nat (v - 48)
         else if 97 \<le> v \<and> v \<le> 102 then of_nat (10 + v - 97)
         else if 65 \<le> v \<and> v \<le> 70 then of_nat (10 + v - 65)
         else 0)"

definition MAX_BUFFER_SIZE :: nat where "MAX_BUFFER_SIZE = 768"

definition hex_byte :: "string \<Rightarrow> nat \<Rightarrow> u8" where
  "hex_byte buffer i = push_bit 4 (CyBtldr_FromHex (buffer ! (i * 2))) OR CyBtldr_FromHex (buffer ! (i * 2 + 1))"

definition CyBtldr_FromAscii :: "nat \<Rightarrow> string \<Rightarrow> (err \<times> bytes) option" where
  "CyBtldr_FromAscii bufSize buffer =
     (if odd bufSize then Some (CYRET_ERR_LENGTH, [])
      else if MAX_BUFFER_SIZE < bufSize div 2 \<or> length buffer < bufSize then None
      else Some (CYRET_SUCCESS, map (hex_byte buffer) [0..<bufSize div 2]))"

section \<open>Lines\<close>

definition LINE_SIZE :: nat where "LINE_SIZE = MAX_BUFFER_SIZE * 2"

definition newline :: char where "newline = CHR 0x0A"

text \<open>\<^verbatim>\<open>readStringUntil\<close>: the characters up to the terminator, which is consumed.\<close>

definition readStringUntil :: "string \<Rightarrow> string \<times> string" where
  "readStringUntil fich = (takeWhile (\<lambda>c. c \<noteq> newline) fich, tl (dropWhile (\<lambda>c. c \<noteq> newline) fich))"

text \<open>
  \<^verbatim>\<open>toCharArray(buffer, len)\<close> with the length of the string itself: all characters but the last, and
  the terminator; nothing at all for an empty string.
\<close>

definition toCharArray :: "string \<Rightarrow> string \<Rightarrow> string option" where
  "toCharArray line buffer =
     (if line = [] then Some buffer else mem_write buffer 0 (butlast line @ [CHR 0x00]))"

record lectura =
  lr_err :: err
  lr_size :: nat
  lr_buffer :: string
  lr_file :: string

lemma dropWhile_shorter: "length (dropWhile P xs) \<le> length xs"
  by (induction xs) auto

lemma readStringUntil_shorter: "fich \<noteq> [] \<Longrightarrow> length (snd (readStringUntil fich)) < length fich"
proof -
  assume "fich \<noteq> []"
  then have "length (dropWhile (\<lambda>c. c \<noteq> newline) fich) - 1 < length fich"
    using dropWhile_shorter [of "\<lambda>c. c \<noteq> newline" fich] by (cases fich) auto
  then show ?thesis by (simp add: readStringUntil_def)
qed

function CyBtldr_ReadLine :: "string \<Rightarrow> string \<Rightarrow> lectura option" where
  "CyBtldr_ReadLine buffer fich =
     (if fich = [] then Some \<lparr>lr_err = CYRET_ERR_EOF, lr_size = 4294967295, lr_buffer = buffer, lr_file = []\<rparr>
      else
        let (line, rest) = readStringUntil fich
        in case toCharArray line buffer of
             None \<Rightarrow> None
           | Some buffer' \<Rightarrow>
               if buffer' ! 0 = CHR ''#'' then CyBtldr_ReadLine buffer' rest
               else Some \<lparr>lr_err = CYRET_SUCCESS, lr_size = (length line + 4294967295) mod 4294967296,
                          lr_buffer = buffer', lr_file = rest\<rparr>)"
  by pat_completeness auto
termination
  by (relation "measure (\<lambda>(buffer, fich). length fich)") (auto simp: readStringUntil_shorter dest!: sym [of _ "readStringUntil _"], metis readStringUntil_shorter snd_conv)

declare CyBtldr_ReadLine.simps [simp del]

text \<open>
  \<^verbatim>\<open>CyBtldr_OpenDataFile\<close>: \<open>contents i\<close> is what the \<open>i\<close>-th attempt to open the file finds, the empty text
  when the file system does not give the file or gives an empty one. There is one second attempt.
\<close>

definition CyBtldr_OpenDataFile :: "(nat \<Rightarrow> string) \<Rightarrow> err \<times> string" where
  "CyBtldr_OpenDataFile contents =
     (if contents 0 \<noteq> [] then (CYRET_SUCCESS, contents 0)
      else if contents 1 \<noteq> [] then (CYRET_SUCCESS, contents 1)
      else (CYRET_ERR_FILE, []))"

lemma ReadLine_step:
  assumes "fich \<noteq> []" "readStringUntil fich = (line, rest)" "toCharArray line buffer = Some buffer'"
  shows "CyBtldr_ReadLine buffer fich =
    (if buffer' ! 0 = CHR ''#'' then CyBtldr_ReadLine buffer' rest
     else Some \<lparr>lr_err = CYRET_SUCCESS, lr_size = (length line + 4294967295) mod 4294967296,
                lr_buffer = buffer', lr_file = rest\<rparr>)"
  using assms by (subst CyBtldr_ReadLine.simps) simp

lemma ReadLine_shorter:
  "CyBtldr_ReadLine buffer fich = Some r \<Longrightarrow> lr_err r = CYRET_SUCCESS \<Longrightarrow> length (lr_file r) < length fich"
proof (induction buffer fich rule: CyBtldr_ReadLine.induct)
  case (1 buffer fich)
  show ?case
  proof (cases "fich = []")
    case True
    then show ?thesis using 1(2,3) by (auto simp: CyBtldr_ReadLine.simps err_codes)
  next
    case False
    obtain line rest where lr: "readStringUntil fich = (line, rest)" by force
    have sh: "length rest < length fich" using readStringUntil_shorter [OF False] lr by simp
    obtain buffer' where b: "toCharArray line buffer = Some buffer'"
      using 1(2) False lr by (subst (asm) CyBtldr_ReadLine.simps) (auto split: option.splits)
    note st = ReadLine_step [OF False lr b]
    show ?thesis
    proof (cases "buffer' ! 0 = CHR ''#''")
      case True
      then show ?thesis using 1(1) [OF False lr [symmetric] refl b True] 1(2,3) st sh by simp
    next
      case nc: False
      then show ?thesis using 1(2) st sh by auto
    qed
  qed
qed

section \<open>The header and the rows\<close>

definition CyBtldr_CheckCyacdFileVersion :: "nat \<Rightarrow> string \<Rightarrow> err" where
  "CyBtldr_CheckCyacdFileVersion bufSize header =
     (if bufSize < 2 then CYRET_ERR_FILE
      else if hex_byte header 0 \<noteq> 1 then CYRET_ERR_DATA else CYRET_SUCCESS)"

record cabecera =
  cb_siliconId :: u32
  cb_siliconRev :: u8
  cb_chksum :: u8
  cb_appID :: u8
  cb_productID :: u32

definition parse4 :: "bytes \<Rightarrow> nat \<Rightarrow> u32" where
  "parse4 buf i = join32 (buf ! i) (buf ! (i + 1)) (buf ! (i + 2)) (buf ! (i + 3))"

definition CyBtldr_ParseHeader :: "nat \<Rightarrow> string \<Rightarrow> (err + cabecera) option" where
  "CyBtldr_ParseHeader bufSize buffer =
     do {
       (err, rowData) \<leftarrow> CyBtldr_FromAscii bufSize buffer;
       Some (if err \<noteq> CYRET_SUCCESS then Inl err
             else if length rowData = 12
             then Inr \<lparr>cb_siliconId = parse4 rowData 1, cb_siliconRev = rowData ! 5, cb_chksum = rowData ! 6,
                        cb_appID = rowData ! 7, cb_productID = parse4 rowData 8\<rparr>
             else Inl CYRET_ERR_LENGTH) }"

text \<open>The address, the data and the sum of the data of a row.\<close>

definition CyBtldr_ParseCyAcd2RowData :: "nat \<Rightarrow> string \<Rightarrow> (err + u32 \<times> bytes \<times> u8) option" where
  "CyBtldr_ParseCyAcd2RowData bufSize buffer =
     (if bufSize \<le> 4 then Some (Inl CYRET_ERR_LENGTH)
      else if buffer ! 0 = CHR '':'' then
        do {
          (err, hexData) \<leftarrow> CyBtldr_FromAscii (bufSize - 1) (tl buffer);
          Some (if err \<noteq> CYRET_SUCCESS then Inl err
                else if 4 < length hexData
                then Inr (parse4 hexData 0, drop 4 hexData, sum_list (drop 4 hexData))
                else Inl CYRET_ERR_DATA) }
      else Some (Inl CYRET_ERR_CMD))"

section \<open>Start and size of the application\<close>

text \<open>\<^verbatim>\<open>strncmp(buf, s, n) == 0\<close> for a text \<open>s\<close> of \<open>n\<close> characters; \<^verbatim>\<open>strcspn(buf, ",")\<close>.\<close>

definition starts :: "string \<Rightarrow> string \<Rightarrow> bool" where
  "starts buf s \<longleftrightarrow> take (length s) buf = s"

definition strcspn :: "string \<Rightarrow> nat" where
  "strcspn buf = length (takeWhile (\<lambda>c. c \<noteq> CHR '','' \<and> c \<noteq> CHR 0x00) buf)"

definition hex_number :: "string \<Rightarrow> nat list \<Rightarrow> u32" where
  "hex_number buf = (\<lambda>is. fold (\<lambda>i n. push_bit 4 n + ucast (CyBtldr_FromHex (buf ! i))) is 0)"

record appinfo =
  ai_start :: u32
  ai_size :: u32
  ai_lines :: u32
  ai_found :: bool

definition appinfo_row :: "nat \<Rightarrow> string \<Rightarrow> appinfo \<Rightarrow> (err + appinfo) option" where
  "appinfo_row rowLength buf a =
     (if ai_found a then Some (Inr (a\<lparr>ai_lines := ai_lines a + 1\<rparr>))
      else case CyBtldr_ParseCyAcd2RowData rowLength buf of
             None \<Rightarrow> None
           | Some (Inl err) \<Rightarrow> Some (Inl err)
           | Some (Inr (addr, rowData, _)) \<Rightarrow>
               Some (Inr (a\<lparr>ai_start := (if addr < ai_start a then addr else ai_start a),
                            ai_size := ai_size a + of_nat (length rowData), ai_lines := ai_lines a + 1\<rparr>)))"

definition appinfo_line :: "nat \<Rightarrow> string \<Rightarrow> appinfo \<Rightarrow> (err + appinfo) option" where
  "appinfo_line rowLength buf a =
     (if buf ! 0 = CHR '':'' then appinfo_row rowLength buf a
      else if 11 \<le> rowLength \<and> starts buf ''@APPINFO:0x'' then
        let sep = strcspn buf
        in if starts (drop sep buf) '',0x''
           then if length buf < rowLength then None
                else Some (Inr (a\<lparr>ai_start := hex_number buf [11..<sep],
                                  ai_size := hex_number buf [sep + 3..<rowLength], ai_found := True\<rparr>))
           else Some (Inl CYRET_ERR_FILE)
      else if \<not> starts buf ''@EIV:'' then Some (Inl CYRET_ERR_FILE)
      else Some (Inr a))"

function appinfo_loop :: "string \<Rightarrow> string \<Rightarrow> appinfo \<Rightarrow> (err \<times> appinfo \<times> string) option" where
  "appinfo_loop buf fich a =
     (case CyBtldr_ReadLine buf fich of
        None \<Rightarrow> None
      | Some r \<Rightarrow>
          if lr_err r \<noteq> CYRET_SUCCESS then Some (lr_err r, a, lr_buffer r)
          else (case appinfo_line (lr_size r) (lr_buffer r) a of
                 None \<Rightarrow> None
               | Some (Inl err) \<Rightarrow> Some (err, a, lr_buffer r)
               | Some (Inr a') \<Rightarrow> appinfo_loop (lr_buffer r) (lr_file r) a'))"
  by pat_completeness auto
termination
  by (relation "measure (\<lambda>(buf, fich, a). length fich)") (auto simp: ReadLine_shorter)

declare appinfo_loop.simps [simp del]

text \<open>The whole file is read and the position restored; the buffer keeps the last line.\<close>

definition CyBtldr_ParseCyAcdAppStartAndSize :: "string \<Rightarrow> string \<Rightarrow> (err \<times> appinfo \<times> string) option" where
  "CyBtldr_ParseCyAcdAppStartAndSize buf fich =
     map_option (\<lambda>(err, a, buf'). (if err = CYRET_ERR_EOF then CYRET_SUCCESS else err, a, buf'))
       (appinfo_loop buf fich \<lparr>ai_start = 0xFFFFFFFF, ai_size = 0, ai_lines = 0, ai_found = False\<rparr>)"

section \<open>Rows survive the text format\<close>

text \<open>The text of a sequence of bytes, as a tool writes it: two upper case digits for each byte.\<close>

definition hex_digit :: "nat \<Rightarrow> char" where
  "hex_digit d = (if d < 10 then char_of (48 + d) else char_of (55 + d))"

definition hex_text :: "bytes \<Rightarrow> string" where
  "hex_text bs = concat (map (\<lambda>b. [hex_digit (unat b div 16), hex_digit (unat b mod 16)]) bs)"

lemma FromHex_digit: "d < 16 \<Longrightarrow> CyBtldr_FromHex (hex_digit d) = of_nat d"
  by (auto simp: CyBtldr_FromHex_def hex_digit_def Let_def)

lemma length_hex_text [simp]: "length (hex_text bs) = 2 * length bs"
  by (induction bs) (simp_all add: hex_text_def)

lemma hex_text_nth:
  "i < length bs \<Longrightarrow> hex_text bs ! (i * 2) = hex_digit (unat (bs ! i) div 16) \<and>
     hex_text bs ! (i * 2 + 1) = hex_digit (unat (bs ! i) mod 16)"
proof (induction bs arbitrary: i)
  case (Cons b bs)
  then show ?case by (cases i) (auto simp: hex_text_def)
qed simp

lemma byte_of_nibbles: "push_bit 4 (of_nat (unat (b :: u8) div 16)) OR of_nat (unat b mod 16) = b"
proof -
  have "of_nat (unat b div 16) = drop_bit 4 b"
  proof -
    have "b div 16 = of_nat (unat b div 16)" using word_arith_nat_div [of b 16] by simp
    then show ?thesis by (simp add: drop_bit_eq_div)
  qed
  moreover have "of_nat (unat b mod 16) = take_bit 4 b"
  proof -
    have "b mod 16 = of_nat (unat b mod 16)" using word_arith_nat_mod [of b 16] by simp
    then show ?thesis by (simp add: take_bit_eq_mod)
  qed
  moreover have "push_bit 4 (drop_bit 4 b) OR take_bit 4 b = b"
    by (rule bit_word_eqI) (auto simp: bit_simps)
  ultimately show ?thesis by simp
qed

lemma hex_byte_text: "i < length bs \<Longrightarrow> hex_byte (hex_text bs @ rest) i = bs ! i"
proof -
  assume i: "i < length bs"
  have "unat (bs ! i) div 16 < 16" using unat_u8_less [where x = "bs ! i"] less_mult_imp_div_less [of "unat (bs ! i)" 16 16] by simp
  with hex_text_nth [OF i] i show ?thesis
    by (simp add: hex_byte_def nth_append FromHex_digit byte_of_nibbles)
qed

lemma FromAscii_text:
  assumes "length bs \<le> 768"
  shows "CyBtldr_FromAscii (2 * length bs) (hex_text bs @ rest) = Some (CYRET_SUCCESS, bs)"
proof -
  have "map (hex_byte (hex_text bs @ rest)) [0..<length bs] = bs"
    by (rule nth_equalityI) (simp_all add: hex_byte_text)
  then show ?thesis using assms by (simp add: CyBtldr_FromAscii_def MAX_BUFFER_SIZE_def)
qed

lemma parse4_le32: "parse4 (le32 w @ r) 0 = w"
  by (simp add: parse4_def le32_def join32_le32 numeral_2_eq_2 numeral_3_eq_3)

text \<open>A row of up to 764 bytes that is written as text (a colon, the address with its low byte first, the
  data, two digits for each byte) is read back with the same address and the same data, whatever the rest
  of the line buffer holds; and its sum is the sum of the data modulo 256.\<close>

lemma row_text_roundtrip:
  assumes "data \<noteq> []" "length data \<le> 764"
  shows "CyBtldr_ParseCyAcd2RowData (1 + 2 * (4 + length data)) (CHR '':'' # hex_text (le32 addr @ data) @ rest) =
    Some (Inr (addr, data, sum_list data))"
proof -
  have "CyBtldr_FromAscii (2 * length (le32 addr @ data)) (hex_text (le32 addr @ data) @ rest) =
      Some (CYRET_SUCCESS, le32 addr @ data)"
    using assms(2) by (intro FromAscii_text) simp
  then show ?thesis using assms(1) by (simp add: CyBtldr_ParseCyAcd2RowData_def parse4_le32)
qed

lemma row_text_roundtrip_example:
  "CyBtldr_ParseCyAcd2RowData 15 (CHR '':'' # hex_text (le32 0x10000 @ [1, 2, 255]) @ [CHR 0x00]) =
     Some (Inr (0x10000, [1, 2, 255], 2))"
  using row_text_roundtrip [where data = "[1, 2, 255]" and addr = "0x10000" and rest = "[CHR 0x00]"] by simp

end
