(* ===== verification/Dfu_Transfer.thy ===== *)
theory Dfu_Transfer
  imports Dfu_File
begin

text \<open>
  The update of the PSoC processor (\<^verbatim>\<open>cybtldr/cybtldr_api.cpp\<close>, \<^verbatim>\<open>cybtldr_api2.cpp\<close>):
  the exchange of a command and its answer over the serial line, with its retransmissions, the commands
  on a row, and the run over the whole file. The serial line is a list: what each poll finds, either
  nothing or an answer (the contents of the answer buffer after the read); when the list ends the line
  stays silent. Every exchange is recorded with the number of times its packet was sent.
\<close>

section \<open>State\<close>

record dfu =
  df_polls :: "(nat \<Rightarrow> u8) option list"
  df_sent :: "(bytes \<times> nat) list"
  df_ct :: checksum_type
  df_aborts :: "bool list"

section \<open>One exchange\<close>

definition valid_answer :: "bytes \<Rightarrow> bool" where
  "valid_answer outBuf \<longleftrightarrow> outBuf ! 0 = 1 \<and> outBuf ! (length outBuf - 1) = 0x17 \<and> outBuf ! 1 = 0"

text \<open>
  The loop of \<^verbatim>\<open>CyBtldr_TransferData\<close>: the packet is sent at the first turn and at every 25th turn
  after it; once 4001 transmissions have been made the loop gives up with the code 68, unless the answer
  of that last turn is accepted. The counter starts at 1 and is never 0 at the head of the loop.
\<close>

function transfer_loop :: "nat \<Rightarrow> nat \<Rightarrow> nat \<Rightarrow> (nat \<Rightarrow> u8) option list \<Rightarrow> bytes
    \<Rightarrow> err \<times> nat \<times> bytes \<times> (nat \<Rightarrow> u8) option list" where
  "transfer_loop outSize timeout cnt polls outBuf =
     (let (cnt', timeout') = (if cnt \<le> 1 then (25, timeout + 1) else (cnt - 1, timeout));
          outBuf' = (case polls of Some f # _ \<Rightarrow> map f [0..<outSize] | _ \<Rightarrow> outBuf);
          ok = (case polls of Some f # _ \<Rightarrow> valid_answer outBuf' | _ \<Rightarrow> False)
      in if ok then (0, timeout', outBuf', tl polls)
         else if 4000 < timeout then (68, timeout', outBuf', tl polls)
         else transfer_loop outSize timeout' cnt' (tl polls) outBuf')"
  by pat_completeness auto
termination
  by (relation "measure (\<lambda>(outSize, timeout, cnt, polls, outBuf). (4001 - timeout) * 26 + cnt)") (auto split: if_splits)

declare transfer_loop.simps [simp del]

definition CyBtldr_TransferData :: "bytes \<Rightarrow> nat \<Rightarrow> dfu \<Rightarrow> err \<times> bytes \<times> dfu" where
  "CyBtldr_TransferData inBuf outSize d =
     (let (err, n, outBuf, polls) = transfer_loop outSize 0 1 (df_polls d) [of_char CHR ''a'']
      in (if err \<noteq> CYRET_SUCCESS then err OR CYRET_ERR_COMM_MASK else err, outBuf,
          d\<lparr>df_polls := polls, df_sent := df_sent d @ [(inBuf, n)]\<rparr>))"

text \<open>
  A command whose answer carries a status only: the pattern of most functions of the interface. The
  check of the status after the exchange repeats what the check of the answer has returned.
\<close>

definition exchange :: "(bytes \<times> nat) option \<Rightarrow> dfu \<Rightarrow> (err \<times> dfu) option" where
  "exchange cmd d =
     do {
       (inBuf, outSize) \<leftarrow> cmd;
       let (err, outBuf, d1) = CyBtldr_TransferData inBuf outSize d;
       Some (if err = CYRET_SUCCESS then
               let (err', status) = CyBtldr_ParseDefaultCmdResult outBuf outSize
               in (if status \<noteq> 0 then ucast status OR CYRET_ERR_BTLDR_MASK else err', d1)
             else (err, d1)) }"

section \<open>Sending the data of a row\<close>

text \<open>
  \<^verbatim>\<open>SendData\<close>: pieces of at most 121 bytes until no more than \<open>maxRemaining\<close> are left; \<open>rest\<close> is
  what has not been sent yet.
\<close>

function send_loop :: "nat \<Rightarrow> nat \<Rightarrow> bytes \<Rightarrow> dfu \<Rightarrow> (err \<times> bytes \<times> dfu) option" where
  "send_loop subBufSize maxRemaining rest d =
     (if length rest \<le> maxRemaining \<or> subBufSize = 0 then Some (CYRET_SUCCESS, rest, d)
      else let cmdLen = (if subBufSize < length rest then subBufSize else length rest)
           in case exchange (CyBtldr_CreateSendDataCmd (df_ct d) (take cmdLen rest)) d of
                None \<Rightarrow> None
              | Some (err, d1) \<Rightarrow>
                  if err \<noteq> CYRET_SUCCESS then Some (err, drop cmdLen rest, d1)
                  else send_loop subBufSize maxRemaining (drop cmdLen rest) d1)"
  by pat_completeness auto
termination
  by (relation "measure (\<lambda>(s, m, rest, d). length rest)") auto

declare send_loop.simps [simp del]

definition SendData :: "bytes \<Rightarrow> nat \<Rightarrow> dfu \<Rightarrow> (err \<times> bytes \<times> dfu) option" where
  "SendData buf maxRemaining d = send_loop (min (128 - 7) (length buf)) maxRemaining buf d"

section \<open>The commands\<close>

definition CyBtldr_ProgramRow :: "u32 \<Rightarrow> bytes \<Rightarrow> dfu \<Rightarrow> (err \<times> dfu) option" where
  "CyBtldr_ProgramRow address buf d =
     (let chksum = CyBtldr_ComputeChecksum32bit buf
      in case SendData buf (128 - 15) d of
           None \<Rightarrow> None
         | Some (err, rest, d1) \<Rightarrow>
             if err \<noteq> CYRET_SUCCESS then Some (err, d1)
             else exchange (CyBtldr_CreateProgramDataCmd (df_ct d) address chksum rest) d1)"

definition CyBtldr_VerifyRow :: "u32 \<Rightarrow> bytes \<Rightarrow> dfu \<Rightarrow> (err \<times> dfu) option" where
  "CyBtldr_VerifyRow address buf d =
     (let chksum = CyBtldr_ComputeChecksum32bit buf
      in case SendData buf (128 - 15) d of
           None \<Rightarrow> None
         | Some (err, rest, d1) \<Rightarrow>
             if err \<noteq> CYRET_SUCCESS then Some (err, d1)
             else exchange (CyBtldr_CreateVerifyDataCmd (df_ct d) address chksum rest) d1)"

definition CyBtldr_EraseRow :: "u32 \<Rightarrow> dfu \<Rightarrow> (err \<times> dfu) option" where
  "CyBtldr_EraseRow address d = exchange (CyBtldr_CreateEraseDataCmd (df_ct d) address) d"

definition CyBtldr_SetApplicationMetaData :: "u8 \<Rightarrow> u32 \<Rightarrow> u32 \<Rightarrow> dfu \<Rightarrow> (err \<times> dfu) option" where
  "CyBtldr_SetApplicationMetaData appId appStartAddr appSize d =
     exchange (CyBtldr_CreateSetApplicationMetadataCmd (df_ct d) appId (le32 appStartAddr @ le32 appSize)) d"

definition CyBtldr_SetEncryptionInitialVector :: "bytes \<Rightarrow> dfu \<Rightarrow> (err \<times> dfu) option" where
  "CyBtldr_SetEncryptionInitialVector buf d =
     exchange (CyBtldr_CreateSetEncryptionInitialVectorCmd (df_ct d) buf) d"

definition CyBtldr_VerifyApplication :: "u8 \<Rightarrow> dfu \<Rightarrow> (err \<times> dfu) option" where
  "CyBtldr_VerifyApplication appId d =
     do {
       (inBuf, outSize) \<leftarrow> CyBtldr_CreateVerifyChecksumCmd (df_ct d) appId;
       let (err, outBuf, d1) = CyBtldr_TransferData inBuf outSize d;
       Some (if err = CYRET_SUCCESS then
               let (err', status, valid) = CyBtldr_ParseVerifyChecksumCmdResult outBuf outSize;
                   err'' = (if status \<noteq> 0 then ucast status OR CYRET_ERR_BTLDR_MASK else err')
               in (if err'' = CYRET_SUCCESS \<and> (valid = None \<or> valid = Some 0) then CYRET_ERR_CHECKSUM else err'', d1)
             else (err, d1)) }"

definition CyBtldr_StartBootloadOperation :: "u32 \<Rightarrow> u8 \<Rightarrow> u32 \<Rightarrow> dfu \<Rightarrow> (err \<times> dfu) option" where
  "CyBtldr_StartBootloadOperation expSiId expSiRev productID d =
     do {
       (inBuf, outSize) \<leftarrow> CyBtldr_CreateEnterBootLoaderCmd (df_ct d) productID;
       let (err, outBuf, d1) = CyBtldr_TransferData inBuf outSize d;
       if err = CYRET_SUCCESS then
         let (err', status, ids) = CyBtldr_ParseEnterBootLoaderCmdResult outBuf outSize
         in Some (if err' \<noteq> CYRET_SUCCESS then err'
                  else if map_option (\<lambda>(si, rev, _). (si, rev)) ids \<noteq> Some (expSiId, expSiRev) then CYRET_ERR_DEVICE
                  else if status \<noteq> 0 then ucast status OR CYRET_ERR_BTLDR_MASK else CYRET_SUCCESS, d1)
       else
         map_option (\<lambda>(e, status). (case status of
             Some s \<Rightarrow> if e = CYRET_SUCCESS then ucast s OR CYRET_ERR_BTLDR_MASK else err
           | None \<Rightarrow> err, d1)) (CyBtldr_TryParseParketStatus (df_ct d) outBuf outSize) }"

text \<open>The end of the operation is sent once and not acknowledged; its result is not used.\<close>

definition CyBtldr_EndBootloadOperation :: "dfu \<Rightarrow> dfu option" where
  "CyBtldr_EndBootloadOperation d =
     map_option (\<lambda>(inBuf, _). d\<lparr>df_sent := df_sent d @ [(inBuf, 1)]\<rparr>) (CyBtldr_CreateExitBootLoaderCmd (df_ct d))"

section \<open>The run over the file\<close>

datatype action = ERASE | PROGRAM | VERIFY

definition ProcessDataRow :: "action \<Rightarrow> nat \<Rightarrow> string \<Rightarrow> dfu \<Rightarrow> (err \<times> dfu) option" where
  "ProcessDataRow act rowSize rowData d =
     (case CyBtldr_ParseCyAcd2RowData rowSize rowData of
        None \<Rightarrow> None
      | Some (Inl err) \<Rightarrow> Some (err, d)
      | Some (Inr (address, buffer, _)) \<Rightarrow>
          (case act of
             ERASE \<Rightarrow> CyBtldr_EraseRow address d
           | PROGRAM \<Rightarrow> CyBtldr_ProgramRow address buffer d
           | VERIFY \<Rightarrow> CyBtldr_VerifyRow address buffer d))"

definition ProcessMetaRow :: "nat \<Rightarrow> string \<Rightarrow> dfu \<Rightarrow> (err \<times> dfu) option" where
  "ProcessMetaRow rowSize rowData d =
     (if 5 \<le> rowSize \<and> starts rowData ''@EIV:'' then
        do {
          (err, buffer) \<leftarrow> CyBtldr_FromAscii (rowSize - 5) (drop 5 rowData);
          if err = CYRET_SUCCESS then CyBtldr_SetEncryptionInitialVector buffer d else Some (err, d) }
      else Some (CYRET_SUCCESS, d))"

definition process_line :: "action \<Rightarrow> nat \<Rightarrow> string \<Rightarrow> dfu \<Rightarrow> (err \<times> dfu) option" where
  "process_line act lineLen line d =
     (if line ! 0 = CHR ''@'' then ProcessMetaRow lineLen line d
      else if line ! 0 = CHR '':'' then ProcessDataRow act lineLen line d
      else Some (CYRET_SUCCESS, d))"

text \<open>\<open>df_aborts\<close> is what each turn of the loop finds in the flag that another task may set.\<close>

function run_loop :: "action \<Rightarrow> string \<Rightarrow> string \<Rightarrow> dfu \<Rightarrow> (err \<times> dfu) option" where
  "run_loop act line fich d =
     (if df_aborts d \<noteq> [] \<and> hd (df_aborts d) then Some (CYRET_ABORT, d)
      else case CyBtldr_ReadLine line fich of
             None \<Rightarrow> None
           | Some r \<Rightarrow>
               if lr_err r = CYRET_ERR_EOF then Some (CYRET_SUCCESS, d)
               else if lr_err r \<noteq> CYRET_SUCCESS then Some (lr_err r, d)
               else (case process_line act (lr_size r) (lr_buffer r) (d\<lparr>df_aborts := tl (df_aborts d)\<rparr>) of
                      None \<Rightarrow> None
                    | Some (err, d1) \<Rightarrow>
                        if err = CYRET_SUCCESS then run_loop act (lr_buffer r) (lr_file r) d1 else Some (err, d1)))"
  by pat_completeness auto
termination
  by (relation "measure (\<lambda>(act, line, fich, d). length fich)") (auto simp: ReadLine_shorter)

declare run_loop.simps [simp del]

definition start_and_run :: "action \<Rightarrow> cabecera \<Rightarrow> appinfo \<Rightarrow> string \<Rightarrow> string \<Rightarrow> dfu \<Rightarrow> (err \<times> dfu) option" where
  "start_and_run act h ai line fich d =
     do {
       (err1, d1) \<leftarrow> CyBtldr_StartBootloadOperation (cb_siliconId h) (cb_siliconRev h) (cb_productID h) d;
       (err2, d2) \<leftarrow> (if err1 = CYRET_SUCCESS
          then CyBtldr_SetApplicationMetaData (cb_appID h) (ai_start ai) (ai_size ai) d1 else Some (err1, d1));
       (err3, d3) \<leftarrow> (if err2 = CYRET_SUCCESS then run_loop act line fich d2 else Some (err2, d2));
       if err3 = CYRET_SUCCESS \<and> (act = PROGRAM \<or> act = VERIFY) then
         do {
           (err4, d4) \<leftarrow> CyBtldr_VerifyApplication (cb_appID h) d3;
           d5 \<leftarrow> CyBtldr_EndBootloadOperation d4;
           Some (err4, d5) }
       else if CYRET_ERR_COMM_MASK AND err3 \<noteq> CYRET_ERR_COMM_MASK then
         map_option (\<lambda>d4. (err3, d4)) (CyBtldr_EndBootloadOperation d3)
       else Some (err3, d3) }"

text \<open>The part of \<^verbatim>\<open>CyBtldr_RunAction\<close> on an open file: \<open>line\<close> is the initial contents of the line buffer.\<close>

definition run_open_file :: "action \<Rightarrow> string \<Rightarrow> string \<Rightarrow> dfu \<Rightarrow> (err \<times> dfu) option" where
  "run_open_file act line fich d =
     do {
       r \<leftarrow> CyBtldr_ReadLine line fich;
       let err = (if lr_err r \<noteq> CYRET_SUCCESS then lr_err r else CyBtldr_CheckCyacdFileVersion (lr_size r) (lr_buffer r));
       if err \<noteq> CYRET_SUCCESS then Some (err, d)
       else do {
         hr \<leftarrow> CyBtldr_ParseHeader (lr_size r) (lr_buffer r);
         (case hr of
            Inl e \<Rightarrow> Some (e, d)
          | Inr h \<Rightarrow> do {
              (e, ai, buf) \<leftarrow> CyBtldr_ParseCyAcdAppStartAndSize (lr_buffer r) (lr_file r);
              if e \<noteq> CYRET_SUCCESS then Some (e, d)
              else start_and_run act h ai buf (lr_file r)
                     (d\<lparr>df_ct := (if cb_chksum h = 1 then CRC_CHECKSUM else SUM_CHECKSUM)\<rparr>) }) } }"

definition CyBtldr_RunAction :: "action \<Rightarrow> (nat \<Rightarrow> string) \<Rightarrow> string \<Rightarrow> dfu \<Rightarrow> (err \<times> dfu) option" where
  "CyBtldr_RunAction act contents line d =
     (let (err, fich) = CyBtldr_OpenDataFile contents
      in if err = CYRET_SUCCESS then run_open_file act line fich d else Some (err, d))"

definition CyBtldr_Program :: "(nat \<Rightarrow> string) \<Rightarrow> string \<Rightarrow> dfu \<Rightarrow> (err \<times> dfu) option" where
  "CyBtldr_Program contents line d = CyBtldr_RunAction PROGRAM contents line d"

definition CyBtldr_Erase :: "(nat \<Rightarrow> string) \<Rightarrow> string \<Rightarrow> dfu \<Rightarrow> (err \<times> dfu) option" where
  "CyBtldr_Erase contents line d = CyBtldr_RunAction ERASE contents line d"

definition CyBtldr_Verify :: "(nat \<Rightarrow> string) \<Rightarrow> string \<Rightarrow> dfu \<Rightarrow> (err \<times> dfu) option" where
  "CyBtldr_Verify contents line d = CyBtldr_RunAction VERIFY contents line d"

end
