(* ===== verification/Dfu_Program.thy ===== *)
theory Dfu_Program
  imports Dfu_Transfer
begin

text \<open>
  What the update of the PSoC processor does: an exchange always ends and is bounded; programming a row is
  a script of commands that carries the row in pieces that fit the protocol; a run over a file sends the
  script of the file. A script is a list of commands that is executed until the first error; its laws are
  proved once for every channel that records what it is given, and interpreted for the exchange of packets.
\<close>

section \<open>Scripts over a channel that records its commands\<close>

fun script :: "('c \<Rightarrow> 's \<Rightarrow> (err \<times> 's) option) \<Rightarrow> 'c list \<Rightarrow> 's \<Rightarrow> (err \<times> 's) option" where
  "script exec [] s = Some (CYRET_SUCCESS, s)"
| "script exec (c # cs) s =
     (case exec c s of
        None \<Rightarrow> None
      | Some (err, s1) \<Rightarrow> if err \<noteq> CYRET_SUCCESS then Some (err, s1) else script exec cs s1)"

lemma script_append:
  "script exec (as @ bs) s =
     (case script exec as s of
        None \<Rightarrow> None
      | Some (err, s1) \<Rightarrow> if err \<noteq> CYRET_SUCCESS then Some (err, s1) else script exec bs s1)"
  by (induction "as" arbitrary: s) (auto split: option.splits)

locale recording_channel =
  fixes exec :: "'c \<Rightarrow> 's \<Rightarrow> (err \<times> 's) option"
    and sent :: "'s \<Rightarrow> 'l list"
    and enc :: "'c \<Rightarrow> 'l"
    and mode :: "'s \<Rightarrow> 'm"
    and inbox :: "'s \<Rightarrow> 'i set"
  assumes exec_total: "\<exists>err s'. exec c s = Some (err, s')"
    and exec_records: "exec c s = Some (err, s') \<Longrightarrow> sent s' = sent s @ [enc c]"
    and exec_mode: "exec c s = Some (err, s') \<Longrightarrow> mode s' = mode s"
    and exec_inbox: "exec c s = Some (err, s') \<Longrightarrow> inbox s' \<subseteq> inbox s"
begin

lemma script_total: "\<exists>err s'. script exec cs s = Some (err, s')"
proof (induction cs arbitrary: s)
  case (Cons c cs)
  obtain err s1 where "exec c s = Some (err, s1)" using exec_total by blast
  then show ?case using Cons [of s1] by simp
qed simp

lemma script_mode: "script exec cs s = Some (err, s') \<Longrightarrow> mode s' = mode s"
  by (induction cs arbitrary: s) (auto split: option.splits if_splits dest: exec_mode)

lemma script_inbox: "script exec cs s = Some (err, s') \<Longrightarrow> inbox s' \<subseteq> inbox s"
proof (induction cs arbitrary: s)
  case (Cons c cs)
  then show ?case using exec_inbox [of c s] by (fastforce split: option.splits if_splits)
qed simp

lemma script_records:
  "script exec cs s = Some (err, s') \<Longrightarrow>
     \<exists>n. n \<le> length cs \<and> sent s' = sent s @ map enc (take n cs) \<and> (err = CYRET_SUCCESS \<longrightarrow> n = length cs)"
proof (induction cs arbitrary: s)
  case (Cons c cs)
  obtain e s1 where e: "exec c s = Some (e, s1)" using exec_total by blast
  have s1: "sent s1 = sent s @ [enc c]" using exec_records [OF e] .
  show ?case
  proof (cases "e = CYRET_SUCCESS")
    case True
    then obtain n where "n \<le> length cs" "sent s' = sent s1 @ map enc (take n cs)" "err = CYRET_SUCCESS \<longrightarrow> n = length cs"
      using Cons e by auto
    then show ?thesis using s1 by (intro exI [of _ "Suc n"]) simp
  next
    case False
    then show ?thesis using Cons.prems e s1 by (intro exI [of _ 1]) auto
  qed
qed simp

lemma script_success:
  "script exec cs s = Some (CYRET_SUCCESS, s') \<Longrightarrow> sent s' = sent s @ map enc cs"
  using script_records by fastforce

end

section \<open>One exchange ends\<close>

text \<open>The turns of the loop that are left when the counters are \<open>t\<close> and \<open>c\<close>.\<close>

definition turns_left :: "nat \<Rightarrow> nat \<Rightarrow> nat" where
  "turns_left t c = (if 4000 < t then 1 else c + 1 + 25 * (4000 - t))"

definition answered :: "nat \<Rightarrow> (nat \<Rightarrow> u8) option \<Rightarrow> bool" where
  "answered outSize p = (case p of None \<Rightarrow> False | Some f \<Rightarrow> valid_answer (map f [0..<outSize]))"

lemma transfer_loop_answer:
  assumes "answered outSize (Some f)"
  shows "transfer_loop outSize t c (Some f # ps) b = (0, if c \<le> 1 then t + 1 else t, map f [0..<outSize], ps)"
  using assms by (subst transfer_loop.simps) (simp add: answered_def)

lemma transfer_loop_turn:
  assumes "polls = [] \<or> \<not> answered outSize (hd polls)"
  shows "\<exists>b'. transfer_loop outSize t c polls b =
    (if 4000 < t then (68, if c \<le> 1 then t + 1 else t, b', tl polls)
     else if c \<le> 1 then transfer_loop outSize (t + 1) 25 (tl polls) b'
     else transfer_loop outSize t (c - 1) (tl polls) b')"
proof (cases "\<exists>f ps. polls = Some f # ps")
  case True
  then obtain f ps where "polls = Some f # ps" by blast
  with assms show ?thesis
    by (intro exI [of _ "map f [0..<outSize]"], subst transfer_loop.simps) (simp add: answered_def)
next
  case False
  then have "polls = [] \<or> (\<exists>ps. polls = None # ps)" by (cases polls) auto
  then show ?thesis by (intro exI [of _ b], subst transfer_loop.simps) auto
qed

lemma transfer_loop_spec:
  assumes "transfer_loop outSize t c polls b = (err, n, outBuf, polls')" "t \<le> 4001" "t = 4001 \<longrightarrow> 1 < c" "1 \<le> c"
  shows "n \<le> 4001 \<and> t \<le> n \<and> (c = 1 \<longrightarrow> t < n) \<and> length polls \<le> length polls' + turns_left t c \<and> set polls' \<subseteq> set polls \<and>
    (err = 0 \<and> (\<exists>f. Some f \<in> set polls \<and> answered outSize (Some f) \<and> outBuf = map f [0..<outSize]) \<or> err = 68) \<and>
    ((\<forall>p \<in> set polls. \<not> answered outSize p) \<longrightarrow> n = 4001)"
  using assms
proof (induction "turns_left t c" arbitrary: t c polls b rule: less_induct)
  case less
  show ?case
  proof (cases "polls = [] \<or> \<not> answered outSize (hd polls)")
    case False
    then obtain f ps where "polls = Some f # ps" "answered outSize (Some f)"
      by (cases polls; cases "hd polls") (auto simp: answered_def)
    then show ?thesis using less.prems transfer_loop_answer [of outSize f t c ps b] by (auto simp: turns_left_def)
  next
    case True
    then obtain b' where st: "transfer_loop outSize t c polls b =
        (if 4000 < t then (68, if c \<le> 1 then t + 1 else t, b', tl polls)
         else if c \<le> 1 then transfer_loop outSize (t + 1) 25 (tl polls) b'
         else transfer_loop outSize t (c - 1) (tl polls) b')"
      using transfer_loop_turn by blast
    have tl: "set (tl polls) \<subseteq> set polls" "length polls \<le> Suc (length (tl polls))" by (cases polls; auto)+
    show ?thesis
    proof (cases "4000 < t")
      case True
      then show ?thesis using st less.prems tl by (auto simp: turns_left_def)
    next
      case t: False
      define t' c' where "t' = (if c \<le> 1 then t + 1 else t)" and "c' = (if c \<le> 1 then 25 else c - 1)"
      have nx: "transfer_loop outSize t' c' (tl polls) b' = (err, n, outBuf, polls')"
        using st t less.prems(1) by (simp add: t'_def c'_def split: if_splits)
      have m: "turns_left t' c' + 1 = turns_left t c" using t less.prems(4) by (auto simp: turns_left_def t'_def c'_def)
      have c: "t \<le> t'" "c = 1 \<longrightarrow> t < t'" "t' \<le> 4001" "t' = 4001 \<longrightarrow> 1 < c'" "1 \<le> c'"
        using t less.prems by (auto simp: t'_def c'_def)
      have "turns_left t' c' < turns_left t c" using m by simp
      from less.hyps [OF this nx c(3-5)] show ?thesis using c(1,2) m tl by auto
    qed
  qed
qed

text \<open>The result of one exchange, as the difference it makes to the state.\<close>

lemma TransferData_spec:
  assumes "CyBtldr_TransferData inBuf outSize d = (err, outBuf, d')"
  obtains n polls where "d' = d\<lparr>df_polls := polls, df_sent := df_sent d @ [(inBuf, n)]\<rparr>"
    "set polls \<subseteq> set (df_polls d)" "1 \<le> n" "n \<le> 4001" "length (df_polls d) \<le> length polls + 100002"
    "err = CYRET_SUCCESS \<and> (\<exists>f. Some f \<in> set (df_polls d) \<and> answered outSize (Some f) \<and> outBuf = map f [0..<outSize])
       \<or> err = 0x2044"
    "(\<forall>p \<in> set (df_polls d). \<not> answered outSize p) \<longrightarrow> n = 4001 \<and> err = 0x2044"
proof -
  obtain e n b polls where t: "transfer_loop outSize 0 1 (df_polls d) [of_char CHR ''a''] = (e, n, b, polls)"
    by (metis prod_cases4)
  note sp = transfer_loop_spec [OF t, simplified]
  have "e = 68 \<longrightarrow> err = 0x2044" "e = 0 \<longrightarrow> err = CYRET_SUCCESS" "b = outBuf"
    "d' = d\<lparr>df_polls := polls, df_sent := df_sent d @ [(inBuf, n)]\<rparr>"
    using assms t by (auto simp: CyBtldr_TransferData_def err_codes)
  with sp that [of n polls] show ?thesis by (fastforce simp: turns_left_def)
qed

text \<open>C32: an exchange with the PSoC always ends: after at most 4001 transmissions of the packet and 100002 turns
  of its loop it returns success with an accepted answer, or the code of a lost communication (0x2044).
  When no poll brings a well-formed answer with status 0 (silence, noise, or a processor that reports an
  error in its status byte), the packet is sent exactly 4001 times before the exchange gives up.\<close>

theorem exchange_is_bounded:
  assumes "CyBtldr_TransferData inBuf outSize d = (err, outBuf, d')"
  shows "\<exists>n. df_sent d' = df_sent d @ [(inBuf, n)] \<and> 1 \<le> n \<and> n \<le> 4001 \<and>
    length (df_polls d) \<le> length (df_polls d') + 100002 \<and>
    (err = CYRET_SUCCESS \<and> valid_answer outBuf \<or> err = 0x2044) \<and>
    ((\<forall>f. Some f \<in> set (df_polls d) \<longrightarrow> \<not> valid_answer (map f [0..<outSize])) \<longrightarrow> n = 4001 \<and> err = 0x2044)"
proof -
  obtain n polls where *: "d' = d\<lparr>df_polls := polls, df_sent := df_sent d @ [(inBuf, n)]\<rparr>"
    "set polls \<subseteq> set (df_polls d)" "1 \<le> n" "n \<le> 4001" "length (df_polls d) \<le> length polls + 100002"
    "err = CYRET_SUCCESS \<and> (\<exists>f. Some f \<in> set (df_polls d) \<and> answered outSize (Some f) \<and> outBuf = map f [0..<outSize])
       \<or> err = 0x2044"
    "(\<forall>p \<in> set (df_polls d). \<not> answered outSize p) \<longrightarrow> n = 4001 \<and> err = 0x2044"
    by (rule TransferData_spec [OF assms])
  have "(\<forall>f. Some f \<in> set (df_polls d) \<longrightarrow> \<not> valid_answer (map f [0..<outSize])) \<longrightarrow>
      (\<forall>p \<in> set (df_polls d). \<not> answered outSize p)" by (auto simp: answered_def split: option.splits)
  with * show ?thesis by (intro exI [of _ n]) (auto simp: answered_def)
qed

text \<open>The state of the examples: an answer whose fields are the first bytes of a list.\<close>

definition demo_dfu :: "(nat \<Rightarrow> u8) option list \<Rightarrow> dfu" where
  "demo_dfu polls = \<lparr>df_polls = polls, df_sent = [], df_ct = SUM_CHECKSUM, df_aborts = []\<rparr>"

theorem exchange_is_bounded_witness:
  "\<exists>err outBuf d'. CyBtldr_TransferData [1, 0x3B] 7 (demo_dfu [None, Some (\<lambda>i. 4)]) = (err, outBuf, d') \<and>
     err = 0x2044 \<and> df_sent d' = [([1, 0x3B], 4001)]"
proof -
  obtain err outBuf d' where *: "CyBtldr_TransferData [1, 0x3B] 7 (demo_dfu [None, Some (\<lambda>i. 4)]) = (err, outBuf, d')"
    by (rule prod_cases3)
  have "\<not> valid_answer (map (\<lambda>i. 4) [0..<7])" by (simp add: valid_answer_def)
  then have "\<forall>f. Some f \<in> set (df_polls (demo_dfu [None, Some (\<lambda>i. 4)])) \<longrightarrow> \<not> valid_answer (map f [0..<7])"
    by (auto simp: demo_dfu_def)
  with exchange_is_bounded [OF *] * show ?thesis by (auto simp: demo_dfu_def)
qed

section \<open>Commands as a channel\<close>

definition pkt :: "checksum_type \<Rightarrow> u8 \<Rightarrow> bytes \<Rightarrow> bytes" where
  "pkt ct code data = (case CreateCmd ct code data of Some p \<Rightarrow> p | None \<Rightarrow> [])"

lemma CreateCmd_pkt: "length data \<le> 505 \<Longrightarrow> CreateCmd ct code data = Some (pkt ct code data)"
  using CreateCmd_total [of data ct code] by (auto simp: pkt_def)

definition exch :: "bytes \<times> nat \<Rightarrow> dfu \<Rightarrow> (err \<times> dfu) option" where
  "exch cmd d = exchange (Some cmd) d"

definition packets :: "dfu \<Rightarrow> bytes list" where
  "packets d = map fst (df_sent d)"

lemma exch_eq:
  assumes "CyBtldr_TransferData p n d = (e, b, d1)" "CyBtldr_ParseDefaultCmdResult b n = (e', status)"
  shows "exch (p, n) d =
    Some (if e \<noteq> CYRET_SUCCESS then e else if status \<noteq> 0 then ucast status OR CYRET_ERR_BTLDR_MASK else e', d1)"
  using assms by (simp add: exch_def exchange_def)

lemma exch_cases:
  obtains err n polls where "exch cmd d = Some (err, d\<lparr>df_polls := polls, df_sent := df_sent d @ [(fst cmd, n)]\<rparr>)"
    "set polls \<subseteq> set (df_polls d)"
proof -
  obtain e b d1 where t: "CyBtldr_TransferData (fst cmd) (snd cmd) d = (e, b, d1)" by (rule prod_cases3)
  obtain n polls where "d1 = d\<lparr>df_polls := polls, df_sent := df_sent d @ [(fst cmd, n)]\<rparr>" "set polls \<subseteq> set (df_polls d)"
    by (rule TransferData_spec [OF t])
  moreover obtain e' status where "CyBtldr_ParseDefaultCmdResult b (snd cmd) = (e', status)" by force
  ultimately show ?thesis using that exch_eq [OF t] by simp
qed

interpretation dfu: recording_channel exch packets fst "\<lambda>d. (df_ct d, df_aborts d)" "\<lambda>d. set (df_polls d)"
proof
  fix c d
  obtain err n polls where e: "exch c d = Some (err, d\<lparr>df_polls := polls, df_sent := df_sent d @ [(fst c, n)]\<rparr>)"
      "set polls \<subseteq> set (df_polls d)"
    by (rule exch_cases)
  show "\<exists>err s'. exch c d = Some (err, s')" using e by blast
  fix err' d'
  assume "exch c d = Some (err', d')"
  with e show "packets d' = packets d @ [fst c]" "(df_ct d', df_aborts d') = (df_ct d, df_aborts d)"
    "set (df_polls d') \<subseteq> set (df_polls d)"
    by (auto simp: packets_def)
qed

text \<open>A processor that answers every poll with the acknowledgement of a command.\<close>

definition ack :: "nat \<Rightarrow> u8" where
  "ack i = [1, 0, 0, 0, 0, 0, 0x17] ! i"

lemma map_upt7: "map f [0..<7] = [f 0, f 1, f 2, f 3, f 4, f 5, f 6]"
  by (simp add: upt_rec eval_nat_numeral)

lemma exch_ack:
  assumes "df_polls d = Some ack # ps"
  shows "exch (p, 7) d = Some (CYRET_SUCCESS, d\<lparr>df_polls := ps, df_sent := df_sent d @ [(p, 1)]\<rparr>)"
proof -
  have b: "map ack [0..<7] = [1, 0, 0, 0, 0, 0, 0x17]" by (simp add: map_upt7 ack_def)
  then have "answered 7 (Some ack)" by (simp add: answered_def valid_answer_def)
  note t = transfer_loop_answer [OF this, of 0 1 ps]
  have "CyBtldr_TransferData p 7 d =
      (CYRET_SUCCESS, [1, 0, 0, 0, 0, 0, 0x17], d\<lparr>df_polls := ps, df_sent := df_sent d @ [(p, 1)]\<rparr>)"
    by (simp add: CyBtldr_TransferData_def assms t [simplified] b CYRET_SUCCESS_def)
  moreover have "CyBtldr_ParseDefaultCmdResult [1, 0, 0, 0, 0, 0, 0x17] 7 = (CYRET_SUCCESS, 0)"
    by (simp add: CyBtldr_ParseDefaultCmdResult_def ParseGenericCmdResult_def BASE_CMD_SIZE_def CMD_START_def CMD_STOP_def)
  ultimately show ?thesis using exch_eq by simp
qed

lemma script_ack:
  assumes "df_polls d = replicate (length cs) (Some ack) @ ps" "\<forall>c \<in> set cs. snd c = 7"
  shows "script exch cs d =
    Some (CYRET_SUCCESS, d\<lparr>df_polls := ps, df_sent := df_sent d @ map (\<lambda>c. (fst c, 1)) cs\<rparr>)"
  using assms
proof (induction cs arbitrary: d)
  case (Cons c cs)
  obtain p where c: "c = (p, 7)" using Cons.prems(2) by (cases c) auto
  define d1 where "d1 = d\<lparr>df_polls := replicate (length cs) (Some ack) @ ps, df_sent := df_sent d @ [(p, 1)]\<rparr>"
  have "exch c d = Some (CYRET_SUCCESS, d1)" using Cons.prems(1) by (simp add: c d1_def exch_ack)
  moreover have "script exch cs d1 =
      Some (CYRET_SUCCESS, d1\<lparr>df_polls := ps, df_sent := df_sent d1 @ map (\<lambda>c. (fst c, 1)) cs\<rparr>)"
    using Cons by (simp add: d1_def)
  ultimately show ?case by (simp add: c d1_def)
qed simp

section \<open>A row is a script\<close>

text \<open>The pieces that are sent ahead and what the last command carries.\<close>

function pieces :: "bytes \<Rightarrow> bytes list \<times> bytes" where
  "pieces data =
     (if length data \<le> 113 then ([], data)
      else (take 121 data # fst (pieces (drop 121 data)), snd (pieces (drop 121 data))))"
  by pat_completeness auto
termination
  by (relation "measure length") auto

declare pieces.simps [simp del]

lemma pieces_parts:
  "concat (fst (pieces data)) @ snd (pieces data) = data \<and> length (snd (pieces data)) \<le> 113 \<and>
     (\<forall>p \<in> set (fst (pieces data)). p \<noteq> [] \<and> length p \<le> 121)"
proof (induction data rule: pieces.induct)
  case (1 data)
  show ?case
  proof (cases "length data \<le> 113")
    case True
    then show ?thesis by (simp add: pieces.simps)
  next
    case False
    then have "take 121 data \<noteq> []" by auto
    moreover have "pieces data = (take 121 data # fst (pieces (drop 121 data)), snd (pieces (drop 121 data)))"
      using False by (subst pieces.simps) simp
    ultimately show ?thesis using 1 [OF False] by simp
  qed
qed

lemmas pieces_concat = pieces_parts [THEN conjunct1]
  and pieces_last = pieces_parts [THEN conjunct2, THEN conjunct1]
  and pieces_small = pieces_parts [THEN conjunct2, THEN conjunct2]

definition send_cmds :: "checksum_type \<Rightarrow> bytes list \<Rightarrow> (bytes \<times> nat) list" where
  "send_cmds ct ps = map (\<lambda>p. (pkt ct 0x37 p, 7)) ps"

definition row_cmds :: "checksum_type \<Rightarrow> u8 \<Rightarrow> u32 \<Rightarrow> bytes \<Rightarrow> (bytes \<times> nat) list" where
  "row_cmds ct code addr data =
     send_cmds ct (fst (pieces data)) @ [(pkt ct code (le32 addr @ le32 (CyBtldr_ComputeChecksum32bit data) @ snd (pieces data)), 7)]"

lemma exchange_pkt: "length data \<le> 505 \<Longrightarrow> exchange (with_size 7 (CreateCmd ct code data)) d = exch (pkt ct code data, 7) d"
  by (simp add: CreateCmd_pkt with_size_def exch_def)

lemma exch_ct: "exch c d = Some (err, d') \<Longrightarrow> df_ct d' = df_ct d \<and> df_aborts d' = df_aborts d"
  using dfu.exec_mode by fastforce

lemma send_loop_step:
  assumes "113 < length rest" "0 < s" "n = (if s < length rest then s else length rest)"
    "exchange (CyBtldr_CreateSendDataCmd (df_ct d) (take n rest)) d = Some (err, d1)"
  shows "send_loop s 113 rest d =
    (if err \<noteq> CYRET_SUCCESS then Some (err, drop n rest, d1) else send_loop s 113 (drop n rest) d1)"
  using assms(1,2,4) unfolding send_loop.simps [of s 113 rest d] Let_def assms(3) [symmetric] by simp

lemma send_loop_script:
  assumes "0 < s" "s = 121 \<or> length rest \<le> s \<and> s \<le> 121"
  shows "\<exists>r. send_loop s 113 rest d =
    map_option (\<lambda>(err, d1). (err, if err = CYRET_SUCCESS then snd (pieces rest) else r, d1))
      (script exch (send_cmds (df_ct d) (fst (pieces rest))) d)"
  using assms
proof (induction rest arbitrary: d rule: pieces.induct)
  case (1 rest)
  show ?case
  proof (cases "length rest \<le> 113")
    case True
    then show ?thesis by (subst send_loop.simps) (simp add: pieces.simps send_cmds_def)
  next
    case False
    define n where "n = (if s < length rest then s else length rest)"
    have n: "take n rest = take 121 rest" "drop n rest = drop 121 rest" "length (take 121 rest) \<le> 505"
      using 1(3,4) by (auto simp: n_def)
    have ps: "pieces rest = (take 121 rest # fst (pieces (drop 121 rest)), snd (pieces (drop 121 rest)))"
      using False by (subst pieces.simps) simp
    obtain err d1 where e: "exch (pkt (df_ct d) 0x37 (take 121 rest), 7) d = Some (err, d1)"
      using dfu.exec_total by blast
    have c: "exchange (CyBtldr_CreateSendDataCmd (df_ct d) (take n rest)) d = Some (err, d1)"
      using exchange_pkt [OF n(3), of "df_ct d" "0x37" d] e
      by (simp add: CyBtldr_CreateSendDataCmd_def BASE_CMD_SIZE_def n(1))
    have st: "send_loop s 113 rest d =
        (if err \<noteq> CYRET_SUCCESS then Some (err, drop 121 rest, d1) else send_loop s 113 (drop 121 rest) d1)"
      using send_loop_step [OF _ 1(3) n_def c] False n(2) by simp
    have "s = 121 \<or> length (drop 121 rest) \<le> s \<and> s \<le> 121" using 1(4) by auto
    note IH = 1(1) [OF False 1(3) this, of d1]
    show ?thesis
    proof (cases "err = CYRET_SUCCESS")
      case True
      then show ?thesis using IH st e exch_ct [OF e] unfolding ps snd_conv fst_conv by (simp add: send_cmds_def)
    next
      case err: False
      then show ?thesis using st e by (intro exI [of _ "drop 121 rest"]) (simp add: ps send_cmds_def)
    qed
  qed
qed

lemma SendData_script:
  "\<exists>r. SendData buf 113 d =
    map_option (\<lambda>(err, d1). (err, if err = CYRET_SUCCESS then snd (pieces buf) else r, d1))
      (script exch (send_cmds (df_ct d) (fst (pieces buf))) d)"
proof (cases "buf = []")
  case True
  then show ?thesis by (simp add: SendData_def send_loop.simps pieces.simps send_cmds_def)
next
  case False
  then show ?thesis unfolding SendData_def by (intro send_loop_script) auto
qed

lemma row_script:
  "(case SendData buf 113 d of
      None \<Rightarrow> None
    | Some (err, rest, d1) \<Rightarrow>
        if err \<noteq> CYRET_SUCCESS then Some (err, d1)
        else exchange (with_size 7 (CreateCmd (df_ct d) code (le32 address @ le32 (CyBtldr_ComputeChecksum32bit buf) @ rest))) d1) =
   script exch (row_cmds (df_ct d) code address buf) d"
proof -
  obtain err d1 where s: "script exch (send_cmds (df_ct d) (fst (pieces buf))) d = Some (err, d1)"
    using dfu.script_total by blast
  moreover obtain r where "SendData buf 113 d = Some (err, if err = CYRET_SUCCESS then snd (pieces buf) else r, d1)"
    using SendData_script [of buf d] s by auto
  moreover have "length (le32 address @ le32 (CyBtldr_ComputeChecksum32bit buf) @ snd (pieces buf)) \<le> 505"
    using pieces_last [of buf] by (simp add: le32_def)
  note exchange_pkt [OF this, of "df_ct d" code d1]
  ultimately show ?thesis by (simp add: row_cmds_def script_append split: option.splits)
qed

lemma ProgramRow_script: "CyBtldr_ProgramRow address buf d = script exch (row_cmds (df_ct d) 0x49 address buf) d"
  unfolding CyBtldr_ProgramRow_def CyBtldr_CreateProgramDataCmd_def BASE_CMD_SIZE_def Let_def row_script [symmetric] by simp

lemma VerifyRow_script: "CyBtldr_VerifyRow address buf d = script exch (row_cmds (df_ct d) 0x4A address buf) d"
  unfolding CyBtldr_VerifyRow_def CyBtldr_CreateVerifyDataCmd_def BASE_CMD_SIZE_def Let_def row_script [symmetric] by simp

text \<open>C33: programming a row always returns, and when it returns success the PSoC has been sent,
  after everything sent before, the data of the row in order: pieces of 1 to 121 bytes in commands
  \<^verbatim>\<open>CMD_SEND_DATA\<close> and the remaining 0 to 113 bytes in one \<^verbatim>\<open>CMD_PROGRAM_DATA\<close> with the
  address and the checksum of the whole row; no packet is longer than the 128 bytes of the protocol.\<close>

theorem program_row_sends_row:
  "\<exists>err d'. CyBtldr_ProgramRow address buf d = Some (err, d') \<and>
    (err = CYRET_SUCCESS \<longrightarrow>
      (\<exists>chunks last. concat chunks @ last = buf \<and> (\<forall>c \<in> set chunks. 1 \<le> length c \<and> length c \<le> 121) \<and> length last \<le> 113 \<and>
        map fst (df_sent d') = map fst (df_sent d) @ map (pkt (df_ct d) 0x37) chunks @
          [pkt (df_ct d) 0x49 (le32 address @ le32 (CyBtldr_ComputeChecksum32bit buf) @ last)]))"
proof -
  obtain err d' where s: "script exch (row_cmds (df_ct d) 0x49 address buf) d = Some (err, d')"
    using dfu.script_total by blast
  have "packets d' = packets d @ map fst (row_cmds (df_ct d) 0x49 address buf)" if "err = CYRET_SUCCESS"
    using dfu.script_success s that by blast
  then have "map fst (df_sent d') = map fst (df_sent d) @ map (pkt (df_ct d) 0x37) (fst (pieces buf)) @
          [pkt (df_ct d) 0x49 (le32 address @ le32 (CyBtldr_ComputeChecksum32bit buf) @ snd (pieces buf))]"
    if "err = CYRET_SUCCESS" using that by (simp add: packets_def row_cmds_def send_cmds_def)
  moreover have "\<forall>c \<in> set (fst (pieces buf)). 1 \<le> length c \<and> length c \<le> 121"
    using pieces_small [of buf] by (auto simp: Suc_le_eq)
  ultimately show ?thesis using s pieces_concat [of buf] pieces_last [of buf] unfolding ProgramRow_script by blast
qed

lemma demo_row_pieces: "fst (pieces (replicate 114 7)) = [replicate 114 7]"
  by (simp add: pieces.simps)

theorem program_row_sends_row_witness:
  "\<exists>d'. CyBtldr_ProgramRow 0x10000 (replicate 114 7) (demo_dfu [Some ack, Some ack]) = Some (CYRET_SUCCESS, d') \<and>
     length (df_sent d') = 2 \<and>
     (\<exists>chunks last. concat chunks @ last = replicate 114 (7 :: u8) \<and>
       map fst (df_sent d') = map (pkt SUM_CHECKSUM 0x37) chunks @
         [pkt SUM_CHECKSUM 0x49 (le32 0x10000 @ le32 (CyBtldr_ComputeChecksum32bit (replicate 114 7)) @ last)])"
proof -
  let ?d = "demo_dfu [Some ack, Some ack]" and ?b = "replicate 114 (7 :: u8)"
  let ?cs = "row_cmds SUM_CHECKSUM 0x49 0x10000 ?b"
  have ct: "df_ct ?d = SUM_CHECKSUM" by (simp add: demo_dfu_def)
  have "length ?cs = 2" "\<forall>c \<in> set ?cs. snd c = 7"
    unfolding row_cmds_def send_cmds_def demo_row_pieces by simp_all
  then have "CyBtldr_ProgramRow 0x10000 ?b ?d =
      Some (CYRET_SUCCESS, ?d\<lparr>df_polls := [], df_sent := df_sent ?d @ map (\<lambda>c. (fst c, 1)) ?cs\<rparr>)"
    unfolding ProgramRow_script ct by (intro script_ack) (simp_all add: demo_dfu_def eval_nat_numeral)
  with \<open>length ?cs = 2\<close> program_row_sends_row [of "0x10000" ?b ?d] show ?thesis unfolding ct by (fastforce simp: demo_dfu_def)
qed

end
