(* ===== verification/Dfu_Run.thy ===== *)
theory Dfu_Run
  imports Dfu_Program
begin

text \<open>
  The run over a firmware file: the text of a file, as the tools of the PSoC write it, is read back line by
  line as the rows it was written from, and a run that returns success has sent exactly the script of the
  file. A file whose lines end without the carriage return that the reader expects is rejected.
\<close>

section \<open>The text of a file\<close>

definition crlf :: string where "crlf = [CHR 0x0D, CHR 0x0A]"

definition header_bytes :: "cabecera \<Rightarrow> bytes" where
  "header_bytes h = 1 # le32 (cb_siliconId h) @ [cb_siliconRev h, cb_chksum h, cb_appID h] @ le32 (cb_productID h)"

definition row_line :: "u32 \<times> bytes \<Rightarrow> string" where
  "row_line r = CHR '':'' # hex_text (le32 (fst r) @ snd r)"

definition rows_text :: "(u32 \<times> bytes) list \<Rightarrow> string" where
  "rows_text rows = concat (map (\<lambda>r. row_line r @ crlf) rows)"

definition file_text :: "cabecera \<Rightarrow> (u32 \<times> bytes) list \<Rightarrow> string" where
  "file_text h rows = hex_text (header_bytes h) @ crlf @ rows_text rows"

definition row_ok :: "u32 \<times> bytes \<Rightarrow> bool" where
  "row_ok r \<longleftrightarrow> snd r \<noteq> [] \<and> length (snd r) \<le> 763"

lemma length_header [simp]: "length (header_bytes h) = 12"
  by (simp add: header_bytes_def le32_def)

lemma hex_digit_ok: "d < 16 \<Longrightarrow> hex_digit d \<noteq> newline \<and> hex_digit d \<noteq> CHR ''#''"
proof -
  assume "d < 16"
  then have "d = 0 \<or> d = 1 \<or> d = 2 \<or> d = 3 \<or> d = 4 \<or> d = 5 \<or> d = 6 \<or> d = 7 \<or> d = 8 \<or> d = 9 \<or> d = 10 \<or>
      d = 11 \<or> d = 12 \<or> d = 13 \<or> d = 14 \<or> d = 15" by presburger
  then show ?thesis by (elim disjE; simp only:; code_simp)
qed

lemma hex_text_ok: "c \<in> set (hex_text bs) \<Longrightarrow> c \<noteq> newline \<and> c \<noteq> CHR ''#''"
proof -
  assume "c \<in> set (hex_text bs)"
  then obtain b :: u8 where "c = hex_digit (unat b div 16) \<or> c = hex_digit (unat b mod 16)"
    by (auto simp: hex_text_def)
  moreover have "unat b div 16 < 16" using unat_u8_less [where x = b] less_mult_imp_div_less [of "unat b" 16 16] by simp
  ultimately show ?thesis using hex_digit_ok by auto
qed

section \<open>Reading it\<close>

lemma readStringUntil_line:
  assumes "newline \<notin> set l"
  shows "readStringUntil (l @ newline # rest) = (l, rest)"
  using assms by (simp add: readStringUntil_def takeWhile_append dropWhile_append)

text \<open>A line that ends with carriage return and line feed is read whole.\<close>

lemma ReadLine_crlf:
  assumes "length buf = 1536" "length l < 1536" "l \<noteq> []" "\<forall>c \<in> set l. c \<noteq> newline \<and> c \<noteq> CHR ''#''"
  shows "CyBtldr_ReadLine buf (l @ crlf @ rest) =
    Some \<lparr>lr_err = CYRET_SUCCESS, lr_size = length l, lr_buffer = l @ CHR 0x00 # drop (length l + 1) buf, lr_file = rest\<rparr>"
proof -
  have rd: "readStringUntil (l @ crlf @ rest) = (l @ [CHR 0x0D], rest)"
    using readStringUntil_line [of "l @ [CHR 0x0D]" rest] assms(4) by (auto simp: crlf_def newline_def)
  have tc: "toCharArray (l @ [CHR 0x0D]) buf = Some (l @ CHR 0x00 # drop (length l + 1) buf)"
    using assms(1,2) by (simp add: toCharArray_def blit_def)
  have "(l @ CHR 0x00 # drop (length l + 1) buf) ! 0 \<noteq> CHR ''#''" using assms(3,4) by (cases l) auto
  with ReadLine_step [OF _ rd tc] assms(2) show ?thesis by (simp add: crlf_def)
qed

lemma row_line_read:
  assumes "row_ok r" "length buf = 1536"
  shows "CyBtldr_ReadLine buf (row_line r @ crlf @ rest) =
    Some \<lparr>lr_err = CYRET_SUCCESS, lr_size = length (row_line r),
          lr_buffer = row_line r @ CHR 0x00 # drop (length (row_line r) + 1) buf, lr_file = rest\<rparr>"
  using assms hex_text_ok [of _ "le32 (fst r) @ snd r"]
  by (intro ReadLine_crlf) (auto simp: row_ok_def row_line_def newline_def)

lemma row_line_parse:
  assumes "row_ok r"
  shows "CyBtldr_ParseCyAcd2RowData (length (row_line r)) (row_line r @ rest) = Some (Inr (fst r, snd r, sum_list (snd r)))"
proof -
  have "CyBtldr_FromAscii (2 * length (le32 (fst r) @ snd r)) (hex_text (le32 (fst r) @ snd r) @ rest) =
      Some (CYRET_SUCCESS, le32 (fst r) @ snd r)"
    using assms by (intro FromAscii_text) (simp add: row_ok_def)
  then show ?thesis using assms by (simp add: CyBtldr_ParseCyAcd2RowData_def row_line_def row_ok_def parse4_le32)
qed

lemma header_read:
  assumes "length buf = 1536"
  shows "CyBtldr_ReadLine buf (hex_text (header_bytes h) @ crlf @ rest) =
    Some \<lparr>lr_err = CYRET_SUCCESS, lr_size = 24,
          lr_buffer = hex_text (header_bytes h) @ CHR 0x00 # drop 25 buf, lr_file = rest\<rparr>"
proof -
  have "hex_text (header_bytes h) \<noteq> []" using length_hex_text [of "header_bytes h"] by fastforce
  then show ?thesis using ReadLine_crlf [of buf "hex_text (header_bytes h)" rest] assms hex_text_ok by simp
qed

lemma header_parse:
  "CyBtldr_CheckCyacdFileVersion n (hex_text (header_bytes h) @ rest) = (if n < 2 then CYRET_ERR_FILE else CYRET_SUCCESS)"
  "CyBtldr_ParseHeader 24 (hex_text (header_bytes h) @ rest) = Some (Inr h)"
proof -
  have "hex_byte (hex_text (header_bytes h) @ rest) 0 = header_bytes h ! 0" by (rule hex_byte_text) simp
  then show "CyBtldr_CheckCyacdFileVersion n (hex_text (header_bytes h) @ rest) = (if n < 2 then CYRET_ERR_FILE else CYRET_SUCCESS)"
    by (simp add: CyBtldr_CheckCyacdFileVersion_def header_bytes_def)
  have "CyBtldr_FromAscii 24 (hex_text (header_bytes h) @ rest) = Some (CYRET_SUCCESS, header_bytes h)"
    using FromAscii_text [of "header_bytes h" rest] by simp
  then show "CyBtldr_ParseHeader 24 (hex_text (header_bytes h) @ rest) = Some (Inr h)"
    by (simp add: CyBtldr_ParseHeader_def parse4_def header_bytes_def le32_def join32_le32)
qed

section \<open>Start and size of the application\<close>

definition app_start :: "(u32 \<times> bytes) list \<Rightarrow> u32 \<Rightarrow> u32" where
  "app_start rows s = fold (\<lambda>r s. if fst r < s then fst r else s) rows s"

definition app_size :: "(u32 \<times> bytes) list \<Rightarrow> u32" where
  "app_size rows = of_nat (sum_list (map (length \<circ> snd) rows))"

lemma app_start_min: "app_start rows s \<le> s \<and> (\<forall>r \<in> set rows. app_start rows s \<le> fst r) \<and> app_start rows s \<in> insert s (fst ` set rows)"
proof (induction rows arbitrary: s)
  case (Cons r rows)
  define s' where "s' = (if fst r < s then fst r else s)"
  have st: "app_start (r # rows) s = app_start rows s'" by (simp add: app_start_def s'_def)
  have "s' \<le> s" "s' \<le> fst r" "s' \<in> {s, fst r}" by (auto simp: s'_def)
  then show ?case using Cons [of s'] unfolding st by (auto intro: order_trans)
qed (simp add: app_start_def)

lemma rows_text_Cons: "rows_text (r # rows) = row_line r @ crlf @ rows_text rows"
  by (simp add: rows_text_def)

lemma appinfo_rows:
  assumes "\<forall>r \<in> set rows. row_ok r" "length buf = 1536" "\<not> ai_found a"
  shows "\<exists>buf' a'. appinfo_loop buf (rows_text rows) a = Some (CYRET_ERR_EOF, a', buf') \<and> length buf' = 1536 \<and>
    ai_start a' = app_start rows (ai_start a) \<and> ai_size a' = ai_size a + app_size rows"
  using assms
proof (induction rows arbitrary: buf a)
  case Nil
  then show ?case
    by (simp add: rows_text_def appinfo_loop.simps CyBtldr_ReadLine.simps app_start_def app_size_def err_codes)
next
  case (Cons r rows)
  define b where "b = row_line r @ CHR 0x00 # drop (length (row_line r) + 1) buf"
  define a1 where "a1 = a\<lparr>ai_start := (if fst r < ai_start a then fst r else ai_start a),
    ai_size := ai_size a + of_nat (length (snd r)), ai_lines := ai_lines a + 1\<rparr>"
  have r: "row_ok r" using Cons.prems(1) by simp
  have b: "b ! 0 = CHR '':''" "length b = 1536"
    using r Cons.prems(2) by (simp_all add: b_def row_line_def row_ok_def)
  have "appinfo_line (length (row_line r)) b a = Some (Inr a1)"
    using row_line_parse [OF r] Cons.prems(3) b(1)
    by (simp add: appinfo_line_def appinfo_row_def b_def a1_def)
  then have "appinfo_loop buf (rows_text (r # rows)) a = appinfo_loop b (rows_text rows) a1"
    using row_line_read [OF r Cons.prems(2), of "rows_text rows"]
    by (subst appinfo_loop.simps) (simp add: rows_text_Cons b_def)
  then show ?case using Cons.IH [of b a1] Cons.prems b(2)
    by (simp add: a1_def app_start_def app_size_def add.assoc)
qed

lemma app_start_size_rows:
  assumes "\<forall>r \<in> set rows. row_ok r" "length buf = 1536"
  obtains buf' ai where "CyBtldr_ParseCyAcdAppStartAndSize buf (rows_text rows) = Some (CYRET_SUCCESS, ai, buf')"
    "length buf' = 1536" "ai_start ai = app_start rows 0xFFFFFFFF" "ai_size ai = app_size rows"
  using appinfo_rows [OF assms, of "\<lparr>ai_start = 0xFFFFFFFF, ai_size = 0, ai_lines = 0, ai_found = False\<rparr>"] that
  by (auto simp: CyBtldr_ParseCyAcdAppStartAndSize_def)

section \<open>The script of the rows\<close>

definition action_code :: "action \<Rightarrow> u8" where
  "action_code act = (case act of ERASE \<Rightarrow> 0x44 | PROGRAM \<Rightarrow> 0x49 | VERIFY \<Rightarrow> 0x4A)"

definition action_cmds :: "action \<Rightarrow> checksum_type \<Rightarrow> u32 \<times> bytes \<Rightarrow> (bytes \<times> nat) list" where
  "action_cmds act ct r =
     (if act = ERASE then [(pkt ct 0x44 (le32 (fst r)), 7)] else row_cmds ct (action_code act) (fst r) (snd r))"

lemma ProcessDataRow_script:
  assumes "row_ok r"
  shows "ProcessDataRow act (length (row_line r)) (row_line r @ rest) d = script exch (action_cmds act (df_ct d) r) d"
proof (cases act)
  case ERASE
  have "length (le32 (fst r)) \<le> 505" by simp
  moreover obtain e d1 where "exch (pkt (df_ct d) 0x44 (le32 (fst r)), 7) d = Some (e, d1)"
    using dfu.exec_total by blast
  ultimately show ?thesis using row_line_parse [OF assms] ERASE exchange_pkt [of "le32 (fst r)" "df_ct d" "0x44" d]
    by (simp add: ProcessDataRow_def CyBtldr_EraseRow_def CyBtldr_CreateEraseDataCmd_def action_cmds_def BASE_CMD_SIZE_def)
qed (use row_line_parse [OF assms] in
  \<open>simp_all add: ProcessDataRow_def ProgramRow_script VerifyRow_script action_cmds_def action_code_def\<close>)

lemma run_loop_rows:
  assumes "\<forall>r \<in> set rows. row_ok r" "length buf = 1536" "df_aborts d = []"
  shows "run_loop act buf (rows_text rows) d = script exch (concat (map (action_cmds act (df_ct d)) rows)) d"
  using assms
proof (induction rows arbitrary: buf d)
  case Nil
  then show ?case by (simp add: rows_text_def run_loop.simps CyBtldr_ReadLine.simps)
next
  case (Cons r rows)
  define b where "b = row_line r @ CHR 0x00 # drop (length (row_line r) + 1) buf"
  have r: "row_ok r" using Cons.prems(1) by simp
  have b: "b ! 0 = CHR '':''" "length b = 1536"
    using r Cons.prems(2) by (simp_all add: b_def row_line_def row_ok_def)
  obtain e d1 where s: "script exch (action_cmds act (df_ct d) r) d = Some (e, d1)"
    using dfu.script_total by blast
  have ct: "df_ct d1 = df_ct d" "df_aborts d1 = []"
    using dfu.script_mode [OF s] Cons.prems(3) by simp_all
  have "d\<lparr>df_aborts := []\<rparr> = d" using Cons.prems(3) by (cases d) simp
  then have p: "process_line act (length (row_line r)) b (d\<lparr>df_aborts := []\<rparr>) = Some (e, d1)"
    using ProcessDataRow_script [OF r] s b(1) by (simp add: process_line_def b_def)
  have "run_loop act buf (rows_text (r # rows)) d =
      (if e = CYRET_SUCCESS then run_loop act b (rows_text rows) d1 else Some (e, d1))"
    using row_line_read [OF r Cons.prems(2), of "rows_text rows"] p Cons.prems(3)
    by (subst run_loop.simps) (simp add: rows_text_Cons b_def err_codes)
  then show ?case using Cons.IH [of b d1] Cons.prems(1) b(2) ct s by (simp add: script_append)
qed

section \<open>Start and end of the operation\<close>

text \<open>A step of the run that sends one packet and changes nothing else but the line.\<close>

definition sends :: "bytes \<Rightarrow> dfu \<Rightarrow> dfu \<Rightarrow> bool" where
  "sends p d d' \<longleftrightarrow> packets d' = packets d @ [p] \<and> df_ct d' = df_ct d \<and> df_aborts d' = df_aborts d \<and>
     set (df_polls d') \<subseteq> set (df_polls d)"

lemma sends_TransferData:
  assumes "CyBtldr_TransferData p n d = (e, b, d')"
  shows "sends p d d'"
proof -
  obtain k polls where "d' = d\<lparr>df_polls := polls, df_sent := df_sent d @ [(p, k)]\<rparr>" "set polls \<subseteq> set (df_polls d)"
    by (rule TransferData_spec [OF assms])
  then show ?thesis by (simp add: sends_def packets_def)
qed

lemma sends_Start:
  assumes "CyBtldr_StartBootloadOperation si sr pid d = Some (err, d')"
  shows "sends (pkt (df_ct d) 0x38 (le32 pid @ le16 0)) d d'"
proof -
  let ?p = "pkt (df_ct d) 0x38 (le32 pid @ le16 0)"
  obtain e b d1 where t: "CyBtldr_TransferData ?p 15 d = (e, b, d1)" by (rule prod_cases3)
  have "CyBtldr_CreateEnterBootLoaderCmd (df_ct d) pid = Some (?p, 15)"
    by (simp add: CyBtldr_CreateEnterBootLoaderCmd_def with_size_def BASE_CMD_SIZE_def CreateCmd_pkt le32_def le16_def)
  then have "d' = d1" using assms t
    by (auto simp: CyBtldr_StartBootloadOperation_def split: prod.splits if_splits)
  then show ?thesis using sends_TransferData [OF t] by simp
qed

lemma SetMeta_exch:
  "CyBtldr_SetApplicationMetaData app st sz d = exch (pkt (df_ct d) 0x4C (app # le32 st @ le32 sz), 7) d"
  using exchange_pkt [of "app # le32 st @ le32 sz" "df_ct d" "0x4C" d]
  by (simp add: CyBtldr_SetApplicationMetaData_def CyBtldr_CreateSetApplicationMetadataCmd_def BASE_CMD_SIZE_def le32_def)

lemma sends_exch: "exch c d = Some (e, d') \<Longrightarrow> sends (fst c) d d'"
  using dfu.exec_records [of c d e d'] dfu.exec_inbox [of c d e d'] exch_ct [of c d e d'] by (simp add: sends_def)

lemma Verify_transfer:
  assumes "CyBtldr_TransferData (pkt (df_ct d) 0x31 [app]) 8 d = (e, b, d1)"
  shows "CyBtldr_VerifyApplication app d =
    (let (e', status, valid) = CyBtldr_ParseVerifyChecksumCmdResult b 8;
         e'' = (if status \<noteq> 0 then ucast status OR CYRET_ERR_BTLDR_MASK else e')
     in Some (if e \<noteq> CYRET_SUCCESS then e
              else if e'' = CYRET_SUCCESS \<and> (valid = None \<or> valid = Some 0) then CYRET_ERR_CHECKSUM else e'', d1))"
proof -
  have "CyBtldr_CreateVerifyChecksumCmd (df_ct d) app = Some (pkt (df_ct d) 0x31 [app], 8)"
    by (simp add: CyBtldr_CreateVerifyChecksumCmd_def with_size_def BASE_CMD_SIZE_def CreateCmd_pkt)
  then show ?thesis using assms by (simp add: CyBtldr_VerifyApplication_def Let_def split: prod.splits)
qed

text \<open>A verification that succeeds has read an answer with the byte that says the checksum is right.\<close>

lemma Verify_success:
  assumes "CyBtldr_VerifyApplication app d = Some (CYRET_SUCCESS, d')"
  shows "sends (pkt (df_ct d) 0x31 [app]) d d' \<and> (\<exists>f. Some f \<in> set (df_polls d) \<and> f 1 = 0 \<and> f 4 \<noteq> 0)"
proof -
  obtain e b d1 where t: "CyBtldr_TransferData (pkt (df_ct d) 0x31 [app]) 8 d = (e, b, d1)" by (rule prod_cases3)
  obtain e' status valid where p: "CyBtldr_ParseVerifyChecksumCmdResult b 8 = (e', status, valid)" by (rule prod_cases3)
  have r: "d' = d1" "e = CYRET_SUCCESS" and v: "valid \<noteq> None \<and> valid \<noteq> Some 0"
    using assms unfolding Verify_transfer [OF t] p
    by (auto simp: Let_def err_codes split: if_splits)
  obtain f where f: "Some f \<in> set (df_polls d)" "answered 8 (Some f)" "b = map f [0..<8]"
    by (rule TransferData_spec [OF t]) (use r(2) in \<open>auto simp: err_codes\<close>)
  have "valid = Some (b ! 4)" using p v by (auto simp: CyBtldr_ParseVerifyChecksumCmdResult_def split: prod.splits if_splits)
  with v f have "f 4 \<noteq> 0" "f 1 = 0" by (simp_all add: answered_def valid_answer_def)
  then show ?thesis using f(1) sends_TransferData [OF t] r(1) by blast
qed

lemma EndBootload:
  "CyBtldr_EndBootloadOperation d = Some (d\<lparr>df_sent := df_sent d @ [(pkt (df_ct d) 0x3B [], 1)]\<rparr>)"
  by (simp add: CyBtldr_EndBootloadOperation_def CyBtldr_CreateExitBootLoaderCmd_def with_size_def CreateCmd_pkt)

section \<open>The whole run\<close>

definition file_ct :: "cabecera \<Rightarrow> checksum_type" where
  "file_ct h = (if cb_chksum h = 1 then CRC_CHECKSUM else SUM_CHECKSUM)"

text \<open>The packets of a run over a file that is not interrupted.\<close>

definition file_packets :: "action \<Rightarrow> cabecera \<Rightarrow> (u32 \<times> bytes) list \<Rightarrow> bytes list" where
  "file_packets act h rows =
     [pkt (file_ct h) 0x38 (le32 (cb_productID h) @ le16 0),
      pkt (file_ct h) 0x4C (cb_appID h # le32 (app_start rows 0xFFFFFFFF) @ le32 (app_size rows))] @
     map fst (concat (map (action_cmds act (file_ct h)) rows)) @
     [pkt (file_ct h) 0x31 [cb_appID h], pkt (file_ct h) 0x3B []]"

lemma run_open_file_text:
  assumes "\<forall>r \<in> set rows. row_ok r" "length buf = 1536"
  obtains buf' ai where "run_open_file act buf (file_text h rows) d =
      start_and_run act h ai buf' (rows_text rows) (d\<lparr>df_ct := file_ct h\<rparr>)"
    "length buf' = 1536" "ai_start ai = app_start rows 0xFFFFFFFF" "ai_size ai = app_size rows"
proof -
  define b where "b = hex_text (header_bytes h) @ CHR 0x00 # drop 25 buf"
  have "length b = 1536" using assms(2) by (simp add: b_def)
  from app_start_size_rows [OF assms(1) this] obtain buf' ai where
    ai: "CyBtldr_ParseCyAcdAppStartAndSize b (rows_text rows) = Some (CYRET_SUCCESS, ai, buf')"
    "length buf' = 1536" "ai_start ai = app_start rows 0xFFFFFFFF" "ai_size ai = app_size rows" .
  have "run_open_file act buf (file_text h rows) d =
      start_and_run act h ai buf' (rows_text rows) (d\<lparr>df_ct := file_ct h\<rparr>)"
    using header_read [OF assms(2), of h "rows_text rows"] ai(1)
    by (simp add: run_open_file_def file_text_def b_def file_ct_def header_parse)
  then show ?thesis using ai(2-4) by (rule that)
qed

text \<open>A run that succeeds has gone through all its steps, each with success.\<close>

lemma start_and_run_steps:
  assumes "start_and_run act h ai buf fich d = Some (CYRET_SUCCESS, d')" "act \<noteq> ERASE"
  obtains d1 d2 d3 d4 where
    "CyBtldr_StartBootloadOperation (cb_siliconId h) (cb_siliconRev h) (cb_productID h) d = Some (CYRET_SUCCESS, d1)"
    "CyBtldr_SetApplicationMetaData (cb_appID h) (ai_start ai) (ai_size ai) d1 = Some (CYRET_SUCCESS, d2)"
    "run_loop act buf fich d2 = Some (CYRET_SUCCESS, d3)"
    "CyBtldr_VerifyApplication (cb_appID h) d3 = Some (CYRET_SUCCESS, d4)"
    "CyBtldr_EndBootloadOperation d4 = Some d'"
proof -
  obtain e1 d1 where s1: "CyBtldr_StartBootloadOperation (cb_siliconId h) (cb_siliconRev h) (cb_productID h) d = Some (e1, d1)"
    using assms(1) by (auto simp: start_and_run_def bind_eq_Some_conv)
  define s2 where "s2 = (if e1 = CYRET_SUCCESS
    then CyBtldr_SetApplicationMetaData (cb_appID h) (ai_start ai) (ai_size ai) d1 else Some (e1, d1))"
  obtain e2 d2 where s2: "s2 = Some (e2, d2)"
    using assms(1) s1 by (auto simp: start_and_run_def s2_def bind_eq_Some_conv)
  define s3 where "s3 = (if e2 = CYRET_SUCCESS then run_loop act buf fich d2 else Some (e2, d2))"
  obtain e3 d3 where s3: "s3 = Some (e3, d3)"
    using assms(1) s1 s2 by (auto simp: start_and_run_def s2_def s3_def bind_eq_Some_conv)
  have e3: "e3 = CYRET_SUCCESS" and
    v: "\<exists>d4. CyBtldr_VerifyApplication (cb_appID h) d3 = Some (CYRET_SUCCESS, d4) \<and> CyBtldr_EndBootloadOperation d4 = Some d'"
    using assms s1 s2 s3
    by (cases act; cases "e3 = CYRET_SUCCESS";
        auto simp: start_and_run_def s2_def s3_def bind_eq_Some_conv split: if_splits)+
  have e2: "e2 = CYRET_SUCCESS" using s3 e3 by (auto simp: s3_def split: if_splits)
  have e1: "e1 = CYRET_SUCCESS" using s2 e2 by (auto simp: s2_def split: if_splits)
  show ?thesis using that v s1 s2 s3 e1 e2 e3 by (auto simp: s2_def s3_def)
qed

lemma start_and_run_success:
  assumes "start_and_run act h ai buf (rows_text rows) d = Some (CYRET_SUCCESS, d')" "act \<noteq> ERASE"
    "\<forall>r \<in> set rows. row_ok r" "length buf = 1536" "df_aborts d = []" "df_ct d = file_ct h"
    "ai_start ai = app_start rows 0xFFFFFFFF" "ai_size ai = app_size rows"
  shows "packets d' = packets d @ file_packets act h rows \<and> (\<exists>f. Some f \<in> set (df_polls d) \<and> f 1 = 0 \<and> f 4 \<noteq> 0)"
proof -
  obtain d1 d2 d3 d4 where
    s1: "CyBtldr_StartBootloadOperation (cb_siliconId h) (cb_siliconRev h) (cb_productID h) d = Some (CYRET_SUCCESS, d1)"
    and s2: "CyBtldr_SetApplicationMetaData (cb_appID h) (ai_start ai) (ai_size ai) d1 = Some (CYRET_SUCCESS, d2)"
    and s3: "run_loop act buf (rows_text rows) d2 = Some (CYRET_SUCCESS, d3)"
    and s4: "CyBtldr_VerifyApplication (cb_appID h) d3 = Some (CYRET_SUCCESS, d4)"
    and s5: "CyBtldr_EndBootloadOperation d4 = Some d'"
    by (rule start_and_run_steps [OF assms(1,2)])
  let ?cs = "concat (map (action_cmds act (file_ct h)) rows)"
  have t1: "sends (pkt (file_ct h) 0x38 (le32 (cb_productID h) @ le16 0)) d d1" using sends_Start [OF s1] assms(6) by simp
  have t2: "sends (pkt (file_ct h) 0x4C (cb_appID h # le32 (ai_start ai) @ le32 (ai_size ai))) d1 d2"
    using sends_exch s2 t1 assms(6) by (fastforce simp: sends_def SetMeta_exch)
  have x3: "script exch ?cs d2 = Some (CYRET_SUCCESS, d3)"
    using s3 run_loop_rows [OF assms(3,4), of d2 act] t1 t2 assms(5,6) by (simp add: sends_def)
  have t3: "packets d3 = packets d2 @ map fst ?cs" "df_ct d3 = df_ct d2" "set (df_polls d3) \<subseteq> set (df_polls d2)"
    using dfu.script_success [OF x3] dfu.script_mode [OF x3] dfu.script_inbox [OF x3] by simp_all
  obtain f where f: "Some f \<in> set (df_polls d3)" "f 1 = 0" "f 4 \<noteq> 0"
    and t4: "sends (pkt (df_ct d3) 0x31 [cb_appID h]) d3 d4" using Verify_success [OF s4] by blast
  have "packets d' = packets d4 @ [pkt (df_ct d4) 0x3B []]" using s5 by (auto simp: EndBootload packets_def)
  then have "packets d' = packets d @ file_packets act h rows"
    using t1 t2 t3 t4 assms(6-8) by (simp add: sends_def file_packets_def)
  moreover have "Some f \<in> set (df_polls d)" using f(1) t1 t2 t3(3) unfolding sends_def by blast
  ultimately show ?thesis using f(2,3) by blast
qed

section \<open>A processor that answers\<close>

definition enter_ack :: "cabecera \<Rightarrow> nat \<Rightarrow> u8" where
  "enter_ack h i = ([1, 0, 8, 0] @ le32 (cb_siliconId h) @ [cb_siliconRev h, 0, 0, 0, 0, 0, 0x17]) ! i"

definition verify_ack :: "nat \<Rightarrow> u8" where
  "verify_ack i = [1, 0, 1, 0, 1, 0, 0, 0x17] ! i"

lemma TransferData_answer:
  assumes "df_polls d = Some f # ps" "map f [0..<n] = b" "valid_answer b"
  shows "CyBtldr_TransferData p n d = (CYRET_SUCCESS, b, d\<lparr>df_polls := ps, df_sent := df_sent d @ [(p, 1)]\<rparr>)"
proof -
  have "answered n (Some f)" using assms(2,3) by (simp add: answered_def)
  from transfer_loop_answer [OF this, of 0 1 ps] show ?thesis
    by (simp add: CyBtldr_TransferData_def assms(1,2) CYRET_SUCCESS_def)
qed

lemma map_nth_upt: "n = length xs \<Longrightarrow> map (\<lambda>i. xs ! i) [0..<n] = xs"
  by (simp add: map_nth)

lemma Start_answer:
  assumes "df_polls d = Some (enter_ack h) # ps"
  shows "CyBtldr_StartBootloadOperation (cb_siliconId h) (cb_siliconRev h) pid d =
    Some (CYRET_SUCCESS, d\<lparr>df_polls := ps, df_sent := df_sent d @ [(pkt (df_ct d) 0x38 (le32 pid @ le16 0), 1)]\<rparr>)"
proof -
  let ?b = "[1, 0, 8, 0] @ le32 (cb_siliconId h) @ [cb_siliconRev h, 0, 0, 0, 0, 0, 0x17]"
  have b: "map (enter_ack h) [0..<15] = ?b" unfolding enter_ack_def by (rule map_nth_upt) (simp add: le32_def)
  have v: "valid_answer ?b" by (simp add: valid_answer_def le32_def)
  have c: "CyBtldr_CreateEnterBootLoaderCmd (df_ct d) pid = Some (pkt (df_ct d) 0x38 (le32 pid @ le16 0), 15)"
    by (simp add: CyBtldr_CreateEnterBootLoaderCmd_def with_size_def BASE_CMD_SIZE_def CreateCmd_pkt le32_def le16_def)
  have r: "CyBtldr_ParseEnterBootLoaderCmdResult ?b 15 =
      (CYRET_SUCCESS, 0, Some (cb_siliconId h, cb_siliconRev h, join32 0 0 0 0))"
    by (simp add: CyBtldr_ParseEnterBootLoaderCmdResult_def ParseGenericCmdResult_def BASE_CMD_SIZE_def CMD_START_def
        CMD_STOP_def le32_def join32_le32)
  show ?thesis using TransferData_answer [OF assms b v, of "pkt (df_ct d) 0x38 (le32 pid @ le16 0)"] c r
    by (simp add: CyBtldr_StartBootloadOperation_def)
qed

lemma Verify_answer:
  assumes "df_polls d = Some verify_ack # ps"
  shows "CyBtldr_VerifyApplication app d =
    Some (CYRET_SUCCESS, d\<lparr>df_polls := ps, df_sent := df_sent d @ [(pkt (df_ct d) 0x31 [app], 1)]\<rparr>)"
proof -
  let ?b = "[1, 0, 1, 0, 1, 0, 0, 0x17] :: bytes"
  have b: "map verify_ack [0..<8] = ?b" unfolding verify_ack_def by (rule map_nth_upt) simp
  have v: "valid_answer ?b" by (simp add: valid_answer_def)
  have r: "CyBtldr_ParseVerifyChecksumCmdResult ?b 8 = (CYRET_SUCCESS, 0, Some 1)"
    by (simp add: CyBtldr_ParseVerifyChecksumCmdResult_def ParseGenericCmdResult_def BASE_CMD_SIZE_def CMD_START_def CMD_STOP_def)
  show ?thesis using Verify_transfer [OF TransferData_answer [OF assms b v]] r by simp
qed

lemma action_cmds_size: "c \<in> set (action_cmds act ct r) \<Longrightarrow> snd c = 7"
  by (auto simp: action_cmds_def row_cmds_def send_cmds_def split: if_splits)

lemma start_and_run_answered:
  assumes "act \<noteq> ERASE" "\<forall>r \<in> set rows. row_ok r" "length buf = 1536" "df_aborts d = []" "df_ct d = file_ct h"
    "ai_start ai = app_start rows 0xFFFFFFFF" "ai_size ai = app_size rows"
    "df_polls d = Some (enter_ack h) # replicate (Suc (length (concat (map (action_cmds act (file_ct h)) rows)))) (Some ack) @ [Some verify_ack]"
  shows "start_and_run act h ai buf (rows_text rows) d =
    Some (CYRET_SUCCESS, d\<lparr>df_polls := [], df_sent := df_sent d @ map (\<lambda>p. (p, 1)) (file_packets act h rows)\<rparr>)"
proof -
  define cs where "cs = concat (map (action_cmds act (file_ct h)) rows)"
  define ct where "ct = file_ct h"
  define d1 where "d1 = d\<lparr>df_polls := replicate (Suc (length cs)) (Some ack) @ [Some verify_ack],
    df_sent := df_sent d @ [(pkt ct 0x38 (le32 (cb_productID h) @ le16 0), 1)]\<rparr>"
  define d2 where "d2 = d1\<lparr>df_polls := replicate (length cs) (Some ack) @ [Some verify_ack],
    df_sent := df_sent d1 @ [(pkt ct 0x4C (cb_appID h # le32 (ai_start ai) @ le32 (ai_size ai)), 1)]\<rparr>"
  define d3 where "d3 = d2\<lparr>df_polls := [Some verify_ack], df_sent := df_sent d2 @ map (\<lambda>c. (fst c, 1)) cs\<rparr>"
  define d4 where "d4 = d3\<lparr>df_polls := [], df_sent := df_sent d3 @ [(pkt ct 0x31 [cb_appID h], 1)]\<rparr>"
  have f: "df_ct d = ct" "df_ct d1 = ct" "df_ct d2 = ct" "df_aborts d2 = []" "df_ct d3 = ct" "df_ct d4 = ct"
    using assms(4,5) by (simp_all add: d1_def d2_def d3_def d4_def ct_def)
  have s1: "CyBtldr_StartBootloadOperation (cb_siliconId h) (cb_siliconRev h) (cb_productID h) d = Some (CYRET_SUCCESS, d1)"
    unfolding d1_def f(1) [symmetric] by (rule Start_answer) (simp add: assms(8) cs_def)
  have s2: "CyBtldr_SetApplicationMetaData (cb_appID h) (ai_start ai) (ai_size ai) d1 = Some (CYRET_SUCCESS, d2)"
    unfolding SetMeta_exch f(2) d2_def by (rule exch_ack) (simp add: d1_def)
  have s3: "run_loop act buf (rows_text rows) d2 = Some (CYRET_SUCCESS, d3)"
    unfolding run_loop_rows [OF assms(2,3) f(4)] f(3) ct_def cs_def [symmetric] d3_def
    by (rule script_ack) (auto simp: d2_def cs_def action_cmds_size)
  have s4: "CyBtldr_VerifyApplication (cb_appID h) d3 = Some (CYRET_SUCCESS, d4)"
    unfolding d4_def f(5) [symmetric] by (rule Verify_answer) (simp add: d3_def)
  have "d4\<lparr>df_sent := df_sent d4 @ [(pkt ct 0x3B [], 1)]\<rparr> =
      d\<lparr>df_polls := [], df_sent := df_sent d @ map (\<lambda>p. (p, 1)) (file_packets act h rows)\<rparr>"
    using assms(6,7) by (simp add: d1_def d2_def d3_def d4_def file_packets_def ct_def cs_def comp_def)
  then show ?thesis using s1 s2 s3 s4 assms(1)
    by (cases act) (simp_all add: start_and_run_def EndBootload f(6))
qed

section \<open>Properties of a run\<close>

lemma RunAction_open:
  "CyBtldr_OpenDataFile contents = (CYRET_SUCCESS, fich) \<Longrightarrow> CyBtldr_RunAction act contents buf d = run_open_file act buf fich d"
  by (simp add: CyBtldr_RunAction_def)

text \<open>C34: programming (or verifying) a well-formed file: when the run returns success, whatever the line did in
  between, the PSoC has been sent exactly the packets of the file and nothing else: the entry with the
  product number, the metadata with the lowest address and the total size, the commands of every row in the
  order of the file, the request to verify the application and the exit; and the line has brought an answer
  without error whose byte says that the checksum of the application is right.\<close>

theorem run_sends_file:
  assumes "\<forall>r \<in> set rows. row_ok r" "length buf = LINE_SIZE" "df_aborts d = []" "act \<noteq> ERASE"
    "CyBtldr_OpenDataFile contents = (CYRET_SUCCESS, file_text h rows)"
    "CyBtldr_RunAction act contents buf d = Some (CYRET_SUCCESS, d')"
  shows "map fst (df_sent d') = map fst (df_sent d) @ file_packets act h rows \<and>
    (\<exists>f. Some f \<in> set (df_polls d) \<and> f 1 = 0 \<and> f 4 \<noteq> 0)"
proof -
  have "length buf = 1536" using assms(2) by (simp add: LINE_SIZE_def MAX_BUFFER_SIZE_def)
  from run_open_file_text [OF assms(1) this, of act h d] obtain buf' ai where
    "start_and_run act h ai buf' (rows_text rows) (d\<lparr>df_ct := file_ct h\<rparr>) = Some (CYRET_SUCCESS, d')"
    "length buf' = 1536" "ai_start ai = app_start rows 0xFFFFFFFF" "ai_size ai = app_size rows"
    using assms(5,6) by (metis RunAction_open)
  from start_and_run_success [OF this(1) assms(4,1) this(2) _ _ this(3,4)] show ?thesis
    using assms(3) by (simp add: packets_def)
qed

definition demo_header :: cabecera where
  "demo_header = \<lparr>cb_siliconId = 0x12345678, cb_siliconRev = 1, cb_chksum = 0, cb_appID = 2, cb_productID = 5\<rparr>"

definition demo_rows :: "(u32 \<times> bytes) list" where
  "demo_rows = [(0x200, [9]), (0x100, [1, 2])]"

definition demo_line :: dfu where
  "demo_line = demo_dfu ([Some (enter_ack demo_header)] @ replicate 3 (Some ack) @ [Some verify_ack])"

definition demo_file :: "nat \<Rightarrow> string" where
  "demo_file i = (if i = 0 then [] else file_text demo_header demo_rows)"

lemma demo_open: "CyBtldr_OpenDataFile demo_file = (CYRET_SUCCESS, file_text demo_header demo_rows)"
  by (simp add: CyBtldr_OpenDataFile_def demo_file_def file_text_def crlf_def)

lemma demo_cmds: "length (concat (map (action_cmds PROGRAM (file_ct demo_header)) demo_rows)) = 2"
  by (simp add: demo_rows_def action_cmds_def row_cmds_def send_cmds_def pieces.simps)

lemma demo_answered:
  "\<exists>d'. CyBtldr_RunAction PROGRAM demo_file (replicate LINE_SIZE CHR 0x00) demo_line = Some (CYRET_SUCCESS, d')"
proof -
  have rows: "\<forall>r \<in> set demo_rows. row_ok r" by (simp add: demo_rows_def row_ok_def)
  obtain buf' ai where *: "run_open_file PROGRAM (replicate LINE_SIZE CHR 0x00) (file_text demo_header demo_rows) demo_line =
      start_and_run PROGRAM demo_header ai buf' (rows_text demo_rows) (demo_line\<lparr>df_ct := file_ct demo_header\<rparr>)"
    "length buf' = 1536" "ai_start ai = app_start demo_rows 0xFFFFFFFF" "ai_size ai = app_size demo_rows"
    by (rule run_open_file_text [OF rows, where buf = "replicate LINE_SIZE CHR 0x00" and act = PROGRAM and h = demo_header and d = demo_line])
      (simp_all add: LINE_SIZE_def MAX_BUFFER_SIZE_def)
  from start_and_run_answered [OF _ rows *(2) _ _ *(3,4), of PROGRAM "demo_line\<lparr>df_ct := file_ct demo_header\<rparr>" demo_header]
  show ?thesis unfolding RunAction_open [OF demo_open] *(1) demo_cmds by (simp add: demo_line_def demo_dfu_def eval_nat_numeral)
qed

theorem run_sends_file_witness:
  "\<exists>d'. CyBtldr_RunAction PROGRAM demo_file (replicate LINE_SIZE CHR 0x00) demo_line = Some (CYRET_SUCCESS, d') \<and>
     map fst (df_sent d') = file_packets PROGRAM demo_header demo_rows"
proof -
  obtain d' where "CyBtldr_RunAction PROGRAM demo_file (replicate LINE_SIZE CHR 0x00) demo_line =
      Some (CYRET_SUCCESS, d')" using demo_answered by blast
  moreover have "\<forall>r \<in> set demo_rows. row_ok r" by (simp add: demo_rows_def row_ok_def)
  ultimately show ?thesis using run_sends_file [of demo_rows "replicate LINE_SIZE CHR 0x00" demo_line PROGRAM demo_file demo_header d'] demo_open
    by (simp add: demo_line_def demo_dfu_def)
qed

text \<open>C35: a run over a well-formed file completes: on a line where the PSoC answers the entry with the expected
  silicon identification, acknowledges the metadata and every command of every row and confirms the
  checksum, the run returns success and every packet of the file is sent exactly once.\<close>

theorem run_completes:
  assumes "\<forall>r \<in> set rows. row_ok r" "length buf = LINE_SIZE" "df_aborts d = []" "act \<noteq> ERASE"
    "df_polls d = [Some (enter_ack h)] @ replicate (1 + length (concat (map (action_cmds act (file_ct h)) rows))) (Some ack) @ [Some verify_ack]"
    "CyBtldr_OpenDataFile contents = (CYRET_SUCCESS, file_text h rows)"
  shows "\<exists>d'. CyBtldr_RunAction act contents buf d = Some (CYRET_SUCCESS, d') \<and>
    df_sent d' = df_sent d @ map (\<lambda>p. (p, 1)) (file_packets act h rows)"
proof -
  have "length buf = 1536" using assms(2) by (simp add: LINE_SIZE_def MAX_BUFFER_SIZE_def)
  from run_open_file_text [OF assms(1) this, of act h d] obtain buf' ai where *: "run_open_file act buf (file_text h rows) d =
      start_and_run act h ai buf' (rows_text rows) (d\<lparr>df_ct := file_ct h\<rparr>)"
    "length buf' = 1536" "ai_start ai = app_start rows 0xFFFFFFFF" "ai_size ai = app_size rows" .
  from start_and_run_answered [OF assms(4,1) *(2) _ _ *(3,4), of "d\<lparr>df_ct := file_ct h\<rparr>" h] show ?thesis
    unfolding RunAction_open [OF assms(6)] *(1) using assms(3,5) by simp
qed

theorem run_completes_witness:
  "\<exists>d'. CyBtldr_RunAction PROGRAM demo_file (replicate LINE_SIZE CHR 0x00) demo_line = Some (CYRET_SUCCESS, d') \<and>
     df_sent d' = map (\<lambda>p. (p, 1)) (file_packets PROGRAM demo_header demo_rows)"
proof -
  have "\<forall>r \<in> set demo_rows. row_ok r" by (simp add: demo_rows_def row_ok_def)
  then show ?thesis
    using run_completes [of demo_rows "replicate LINE_SIZE CHR 0x00" demo_line PROGRAM demo_header demo_file] demo_open
    unfolding demo_cmds by (simp add: demo_line_def demo_dfu_def eval_nat_numeral)
qed

text \<open>The reader of lines drops the last character of each line, whatever it is: a file with the same header
  and any contents whose first line ends with a line feed alone is rejected with an error of length before
  anything is sent to the PSoC.\<close>

lemma line_feed_file_rejected:
  assumes "length buf = LINE_SIZE" "CyBtldr_OpenDataFile contents = (CYRET_SUCCESS, hex_text (header_bytes h) @ newline # rest)"
  shows "CyBtldr_RunAction act contents buf d = Some (CYRET_ERR_LENGTH, d)"
proof -
  from assms(1) have lb: "length buf = 1536" by (simp add: LINE_SIZE_def MAX_BUFFER_SIZE_def)
  let ?l = "hex_text (header_bytes h)"
  have ne: "?l \<noteq> []" using length_hex_text [of "header_bytes h"] by fastforce
  have ll: "length (butlast ?l) = 23" by simp
  have rd: "readStringUntil (?l @ newline # rest) = (?l, rest)"
    using hex_text_ok by (intro readStringUntil_line) blast
  have tc: "toCharArray ?l buf = Some (butlast ?l @ CHR 0x00 # drop 24 buf)"
    using lb ne ll by (simp add: toCharArray_def blit_def)
  obtain x y r where l: "?l = x # y # r" "r \<noteq> []"
    using length_hex_text [of "header_bytes h"] by (cases ?l; cases "tl ?l"; cases "tl (tl ?l)") auto
  have x: "x \<noteq> CHR ''#''" using hex_text_ok [of x "header_bytes h"] l by simp
  have v: "hex_byte (butlast ?l @ CHR 0x00 # drop 24 buf) 0 = 1"
    using hex_byte_text [of 0 "header_bytes h" "[]"] l by (simp add: hex_byte_def header_bytes_def)
  have "CyBtldr_ReadLine buf (?l @ newline # rest) =
      Some \<lparr>lr_err = CYRET_SUCCESS, lr_size = 23, lr_buffer = butlast ?l @ CHR 0x00 # drop 24 buf, lr_file = rest\<rparr>"
    using ReadLine_step [OF _ rd tc] x l length_hex_text [of "header_bytes h"] by simp
  then show ?thesis unfolding RunAction_open [OF assms(2)]
    by (simp add: run_open_file_def CyBtldr_CheckCyacdFileVersion_def v CyBtldr_ParseHeader_def CyBtldr_FromAscii_def err_codes)
qed

lemma line_feed_file_rejected_example:
  "CyBtldr_RunAction PROGRAM (\<lambda>_. hex_text (header_bytes demo_header) @ [newline]) (replicate LINE_SIZE CHR 0x00) demo_line =
     Some (CYRET_ERR_LENGTH, demo_line)"
  by (rule line_feed_file_rejected [where h = demo_header and rest = "[]"]) (simp_all add: CyBtldr_OpenDataFile_def)

end
