(* ===== verification/Psoc_Control.thy ===== *)
theory Psoc_Control
  imports Psoc_Charge
begin

text \<open>
  The control task of control.cpp: the start-up with its retries and the emergency mode, the
  normal turn (status to the PSoC, commands of Firebase, requests for records, the watchdog of
  the link), the requests for the boot loader while an update is pending, and the task that
  programs the PSoC, with the two firmware files in flash. An effect that follows \<open>Reinicia\<close> in
  a trace is not carried out: the processor restarts there.
\<close>

section \<open>The turn of the control task\<close>

definition ESTADO_ARRANQUE :: u8 where "ESTADO_ARRANQUE = 0"
definition ESTADO_INICIALIZACION :: u8 where "ESTADO_INICIALIZACION = 1"
definition ESTADO_NORMAL :: u8 where "ESTADO_NORMAL = 2"

lemmas estado_consts = ESTADO_ARRANQUE_def ESTADO_INICIALIZACION_def ESTADO_NORMAL_def

text \<open>
  The locals of the task and the globals that it shares with the BLE server (\<open>AuthTimer\<close>,
  \<open>deviceBleDisconnect\<close>); the environment gives the tick count, the state of the BLE connection
  and the bytes that follow the arrays read past their end.
\<close>

record tarea =
  estado_actual :: u8
  LastUserCon :: bool
  Iface_COMS :: bool
  old_inicializado :: u8
  AuthTimer :: u32
  deviceBleDisconnect :: bool

record entorno_tarea =
  et_ble :: bool
  et_Testing :: bool
  et_authSuccess :: bool
  et_ticks :: u32
  et_tras :: bytes

definition bool8 :: "bool \<Rightarrow> u8" where
  "bool8 b = (if b then 1 else 0)"

text \<open>\<open>std::to_string\<close> of a small number.\<close>

fun decimal :: "nat \<Rightarrow> bytes" where
  "decimal n = (if n < 10 then [of_nat (48 + n)] else decimal (n div 10) @ [of_nat (48 + n mod 10)])"

declare decimal.simps [simp del]

definition version_velt :: "carac_config \<Rightarrow> bytes" where
  "version_velt g =
     [86, 69, 76, 84] @ decimal (unat (velt_v g)) @ [95, 48] @ decimal (unat (FirmwarePSOC g))"

text \<open>
  The emergency mode: the identity is taken from the configuration. The serial number is copied
  from \<open>deviceSerNumFlash\<close> before \<open>convertSN\<close> fills that array.
\<close>

definition modo_emergencia :: "entorno_tarea \<Rightarrow> tarea \<Rightarrow> control \<Rightarrow> tarea \<times> control" where
  "modo_emergencia en t c =
     (let c1 = c\<lparr>device_ID := blit (device_ID c) 0 (cfg_device_ID (Configuracion c)),
                 deviceSerNum := deviceSerNumFlash c\<rparr>;
          c2 = c1\<lparr>deviceSerNumFlash := convertSN (cfg_deviceSerNum (Configuracion c1)) (et_tras en)\<rparr>;
          c3 = emite [Nombre (device_ID c2), Auth_Init (deviceSerNumFlash c2),
                      Modifica VERSIONES_VERSION_FIRMWARE_CHAR_HANDLE
                        (take 10 (version_velt (Configuracion c2) @ et_tras en)),
                      Modifica VERSIONES_VERSION_FIRM_BLE_CHAR_HANDLE (take 10 ESP_version_firmware)] c2
      in (t\<lparr>estado_actual := ESTADO_NORMAL\<rparr>,
          c3\<lparr>Arranque := (Arranque c3)\<lparr>dispositivo_inicializado := 2, emergencyState := True\<rparr>\<rparr>))"

text \<open>The start-up: the PSoC is asked for its data until it answers.\<close>

definition turno_arranque :: "entorno_tarea \<Rightarrow> tarea \<Rightarrow> control \<Rightarrow> tarea \<times> control" where
  "turno_arranque en t c =
     (if PSOC_inicializado (Arranque c) then (t\<lparr>estado_actual := ESTADO_INICIALIZACION\<rparr>, c)
      else
        let cnt = cnt_timeout_inicio (Arranque c) - 1 in
        if cnt = 0
        then
          let c1 = (envia 0 BLOQUE_INICIALIZACION c)
                     \<lparr>Arranque := (Arranque c)\<lparr>cnt_timeout_inicio := TIMEOUT_INICIO,
                        cnt_repeticiones_inicio := cnt_repeticiones_inicio (Arranque c) - 1\<rparr>\<rparr>
          in if cnt_repeticiones_inicio (Arranque c1) = 0
             then
               let c2 = c1\<lparr>Arranque := (Arranque c1)\<lparr>cnt_repeticiones_inicio := 750\<rparr>,
                           Configuracion := (Configuracion c1)\<lparr>count_reinicios_malos :=
                             count_reinicios_malos (Configuracion c1) + 1\<rparr>\<rparr>
               in if 10 < count_reinicios_malos (Configuracion c2) then modo_emergencia en t c2
                  else (t, emite [Lanza_Update]
                             (c2\<lparr>Arranque := (Arranque c2)\<lparr>mainFwUpdateActive := 1,
                                                         updateTaskrunning := 1\<rparr>\<rparr>))
             else (t, c1)
        else (t, c\<lparr>Arranque := (Arranque c)\<lparr>cnt_timeout_inicio := cnt\<rparr>\<rparr>))"

definition turno_inicializacion :: "entorno_tarea \<Rightarrow> tarea \<Rightarrow> control \<Rightarrow> tarea \<times> control" where
  "turno_inicializacion en t c =
     (t\<lparr>estado_actual := ESTADO_NORMAL\<rparr>,
      emite [Envia BLOQUE_STATUS
        [bool8 (et_ble en \<or> ClientAuthenticated (ConfigFirebase c)), dispositivo_inicializado (Arranque c)]] c)"

text \<open>The normal turn, in the order of the code.\<close>

definition DEFAULT_BLE_AUTH_TIMEOUT :: u32 where "DEFAULT_BLE_AUTH_TIMEOUT = 20000"

text \<open>One tick of the scheduler is a millisecond.\<close>

definition normal_auth :: "entorno_tarea \<Rightarrow> tarea \<Rightarrow> tarea" where
  "normal_auth en t =
     (if AuthTimer t \<noteq> 0 \<and> DEFAULT_BLE_AUTH_TIMEOUT < et_ticks en - AuthTimer t \<and> \<not> et_authSuccess en
      then t\<lparr>AuthTimer := 0, deviceBleDisconnect := True\<rparr> else t)"

definition normal_conexion :: "entorno_tarea \<Rightarrow> tarea \<Rightarrow> control \<Rightarrow> tarea \<times> control" where
  "normal_conexion en t c =
     (let fb = ClientAuthenticated (ConfigFirebase c);
          t1 = (if et_ble en then t\<lparr>Iface_COMS := False\<rparr>
                else if fb then t\<lparr>Iface_COMS := True\<rparr> else t);
          t2 = (if et_Testing en then t1\<lparr>LastUserCon := True\<rparr> else t1);
          c1 = (if et_Testing en then emite [Envia BLOQUE_STATUS [1, 4]] c else c);
          ini = dispositivo_inicializado (Arranque c1);
          cambio = (\<not> Iface_COMS t2 \<and> LastUserCon t2 \<noteq> et_ble en \<or> old_inicializado t2 \<noteq> ini);
          t3 = (if cambio then t2\<lparr>LastUserCon := et_ble en, old_inicializado := ini\<rparr> else t2);
          c2 = (if cambio then c1\<lparr>conexion_trigger := True\<rparr> else c1)
      in if conexion_trigger c2 \<and> user_index_arrived c2
         then (t3, (emite [Envia BLOQUE_STATUS [bool8 (et_ble en), ini, 0]] c2)
                     \<lparr>conexion_trigger := False, user_index_arrived := False\<rparr>)
         else if Iface_COMS t3 \<and> LastUserCon t3 \<noteq> fb
         then (t3\<lparr>LastUserCon := fb\<rparr>, emite [Envia BLOQUE_STATUS [bool8 fb, ini, 1]] c2)
         else (t3, c2))"

definition normal_comandos :: "control \<Rightarrow> control" where
  "normal_comandos c =
     (let m = Comands c in
      if cmd_start m
      then (envia 1 CHARGING_BLE_MANUAL_START_CHAR_HANDLE c)\<lparr>Comands := m\<lparr>cmd_start := False\<rparr>\<rparr>
      else if cmd_stop m then envia 1 CHARGING_BLE_MANUAL_STOP_CHAR_HANDLE c
      else if cmd_Newdata m then envia (desired_current m) MEASURES_CURRENT_COMMAND_CHAR_HANDLE c
      else if cmd_reset m then emite [Reset_Main 0, Reinicia] c
      else c)"

definition normal_registros :: "entorno_tarea \<Rightarrow> control \<Rightarrow> control" where
  "normal_registros en c =
     (let r = Registros c;
          r1 = (if InternetConection (ConfigFirebase c) \<and> new_record_received r
                then r\<lparr>new_record_received := False,
                       record_pending_for_write := record_pending_for_write r \<or> \<not> et_ble en\<rparr> else r);
          r2 = (if records_trigger r1
                then r1\<lparr>records_trigger := False, record_index := last_record_in_mem r1,
                        record_lap := last_record_lap r1, ask_for_new_record := True\<rparr> else r1)
      in if ask_for_new_record r2 \<and> 500 < et_ticks en - ask_for_new_record_start_timeout r2
         then emite [Envia RECORDING_REC_INDEX_CHAR_HANDLE [record_index r2, 0]]
                (c\<lparr>Registros := r2\<lparr>ask_for_new_record_start_timeout := et_ticks en\<rparr>\<rparr>)
         else c\<lparr>Registros := r2\<rparr>)"

definition normal_vigilancia :: "control \<Rightarrow> control" where
  "normal_vigilancia c =
     (let n = TimeoutMainDisconnect (Arranque c) + 1;
          c1 = c\<lparr>Arranque := (Arranque c)\<lparr>TimeoutMainDisconnect := n\<rparr>\<rparr>
      in if 100000 < n then emite [Reset_Main 0, Reinicia] c1 else c1)"

definition turno_normal :: "entorno_tarea \<Rightarrow> tarea \<Rightarrow> control \<Rightarrow> tarea \<times> control" where
  "turno_normal en t c =
     (case normal_conexion en (normal_auth en t) c of
        (t1, c1) \<Rightarrow> (t1, normal_vigilancia (normal_registros en (normal_comandos c1))))"

text \<open>While an update of the PSoC is pending, it is asked to enter its boot loader.\<close>

definition turno_actualizacion :: "control \<Rightarrow> control" where
  "turno_actualizacion c =
     (let a = Arranque c in
      if updateTaskrunning a = 0 \<and> psocUpdateCounter a \<le> 100
      then (envia 0 BOOT_LOADER_LOAD_SW_APP_CHAR_HANDLE c)
             \<lparr>Arranque := a\<lparr>psocUpdateCounter := psocUpdateCounter a + 1\<rparr>\<rparr>
      else if 100 < psocUpdateCounter a
      then emite [Reset_Main 0, Reinicia]
             (c\<lparr>Arranque := a\<lparr>psocUpdateCounter := 0\<rparr>, Status := (Status c)\<lparr>error_code := 8\<rparr>\<rparr>)
      else c)"

definition controlTask :: "entorno_tarea \<Rightarrow> tarea \<times> control \<Rightarrow> tarea \<times> control" where
  "controlTask en tc =
     (case tc of
        (t, c) \<Rightarrow>
          if mainFwUpdateActive (Arranque c) = 0 \<or> emergencyState (Arranque c)
          then if estado_actual t = ESTADO_ARRANQUE then turno_arranque en t c
               else if estado_actual t = ESTADO_INICIALIZACION then turno_inicializacion en t c
               else if estado_actual t = ESTADO_NORMAL then turno_normal en t c
               else (t, c)
          else (t, turno_actualizacion c))"

fun turnos :: "(nat \<Rightarrow> entorno_tarea) \<Rightarrow> nat \<Rightarrow> tarea \<times> control \<Rightarrow> tarea \<times> control" where
  "turnos en 0 tc = tc"
| "turnos en (Suc n) tc = turnos (\<lambda>k. en (Suc k)) n (controlTask (en 0) tc)"

section \<open>The update task\<close>

text \<open>
  The two files of the PSoC firmware and the flags of the update. \<open>programa\<close> is the outcome of
  \<open>CyBtldr_RunAction(PROGRAM, ...)\<close> on the file, kept in a \<open>uint8_t\<close>.
\<close>

record ficheros =
  PSOC_UPDATE_FILE :: "bytes option"
  PSOC_UPDATE_OLD_FILE :: "bytes option"
  InstalandoArchivo :: bool
  update_flag :: u8
  ESP_UpdateAvailable :: bool
  PSOC_UpdateAvailable :: bool
  DobleUpdate :: bool

definition spiffs_rename_old_to_new :: "ficheros \<Rightarrow> ficheros" where
  "spiffs_rename_old_to_new f =
     (if PSOC_UPDATE_OLD_FILE f \<noteq> None \<and> PSOC_UPDATE_FILE f = None
      then f\<lparr>PSOC_UPDATE_FILE := PSOC_UPDATE_OLD_FILE f, PSOC_UPDATE_OLD_FILE := None\<rparr> else f)"

definition spiffs_rename_new_to_old :: "ficheros \<Rightarrow> ficheros" where
  "spiffs_rename_new_to_old f =
     (if PSOC_UPDATE_FILE f \<noteq> None \<and> PSOC_UPDATE_OLD_FILE f = None
      then f\<lparr>PSOC_UPDATE_OLD_FILE := PSOC_UPDATE_FILE f, PSOC_UPDATE_FILE := None\<rparr> else f)"

definition elegir_fichero :: "u8 \<Rightarrow> ficheros \<Rightarrow> ficheros" where
  "elegir_fichero reinicios f =
     (if 5 < reinicios \<and> PSOC_UPDATE_OLD_FILE f \<noteq> None
      then spiffs_rename_old_to_new (f\<lparr>PSOC_UPDATE_FILE := None\<rparr>) else f)"

definition UpdateTask ::
  "(bytes option \<Rightarrow> nat) \<Rightarrow> ficheros \<times> control \<Rightarrow> ficheros \<times> control" where
  "UpdateTask programa fc =
     (case fc of
        (f, c) \<Rightarrow>
          let f1 = elegir_fichero (count_reinicios_malos (Configuracion c)) (f\<lparr>InstalandoArchivo := True\<rparr>);
              err = (of_nat (programa (PSOC_UPDATE_FILE f1)) :: u8);
              f2 = (if err = 0 then spiffs_rename_new_to_old (f1\<lparr>PSOC_UPDATE_OLD_FILE := None\<rparr>) else f1);
              f3 = f2\<lparr>InstalandoArchivo := False, update_flag := 0\<rparr>;
              c1 = c\<lparr>Arranque := (Arranque c)\<lparr>updateTaskrunning := 0, mainFwUpdateActive := 0\<rparr>\<rparr>
          in if \<not> ESP_UpdateAvailable f3 then (f3, emite [Reset_Main 0, Reinicia] c1)
             else (f3\<lparr>PSOC_UpdateAvailable := False, DobleUpdate := True\<rparr>, c1))"

section \<open>Start-up with a PSoC that does not answer\<close>

lemma turnos_add: "turnos en (m + n) tc = turnos (\<lambda>k. en (m + k)) n (turnos en m tc)"
  by (induction m arbitrary: en tc) simp_all

text \<open>A start-up that waits: the state after \<open>k\<close> requests, with the two counters as given.\<close>

definition esperando :: "tarea \<Rightarrow> control \<Rightarrow> bool" where
  "esperando t c \<longleftrightarrow>
     estado_actual t = ESTADO_ARRANQUE \<and> \<not> PSOC_inicializado (Arranque c)
     \<and> mainFwUpdateActive (Arranque c) = 0 \<and> \<not> emergencyState (Arranque c)"

definition espera :: "control \<Rightarrow> nat \<Rightarrow> u8 \<Rightarrow> u16 \<Rightarrow> control" where
  "espera c k a r = c\<lparr>salida := salida c @ replicate k (Envia BLOQUE_INICIALIZACION [0]),
     Arranque := (Arranque c)\<lparr>cnt_timeout_inicio := a, cnt_repeticiones_inicio := r\<rparr>\<rparr>"

lemma esperando_espera [simp]: "esperando t (espera c k a r) = esperando t c"
  by (simp add: esperando_def espera_def)

lemma controlTask_arranque: "esperando t c \<Longrightarrow> controlTask en (t, c) = turno_arranque en t c"
  by (simp add: controlTask_def esperando_def)

text \<open>The turns of one request: the countdown, and the request.\<close>

lemma cuenta_atras:
  "esperando t c \<Longrightarrow> Suc n < 256 \<Longrightarrow>
     turnos en n (t, espera c k (of_nat (Suc n)) r) = (t, espera c k 1 r)"
proof (induction n arbitrary: en)
  case (Suc n)
  have "(of_nat (Suc (Suc n)) :: u8) - 1 = of_nat (Suc n)" by simp
  moreover have "(of_nat (Suc n) :: u8) \<noteq> 0"
  proof
    assume "(of_nat (Suc n) :: u8) = 0"
    then have "unat (of_nat (Suc n) :: u8) = 0" by (simp only: unat_0)
    with Suc.prems(2) show False by (simp add: unat_of_nat del: of_nat_Suc)
  qed
  ultimately have "controlTask (en 0) (t, espera c k (of_nat (Suc (Suc n))) r) =
      (t, espera c k (of_nat (Suc n)) r)"
    using Suc.prems(1)
    by (simp add: controlTask_arranque turno_arranque_def esperando_def espera_def Let_def del: of_nat_Suc)
  with Suc show ?case by (simp del: of_nat_Suc)
qed simp

lemma peticion:
  assumes "esperando t c" "r - 1 \<noteq> 0"
  shows "controlTask en (t, espera c k 1 r) = (t, espera c (Suc k) TIMEOUT_INICIO (r - 1))"
  using assms
  by (simp add: controlTask_arranque turno_arranque_def esperando_def espera_def Let_def envia_def
      emite_def replicate_append_same)

lemma peticiones:
  "esperando t c \<Longrightarrow> j < unat r \<Longrightarrow>
     turnos en (10 * j) (t, espera c k TIMEOUT_INICIO r) =
       (t, espera c (k + j) TIMEOUT_INICIO (r - of_nat j))"
proof (induction j arbitrary: en)
  case (Suc j)
  have j: "turnos en (10 * j) (t, espera c k TIMEOUT_INICIO r) =
      (t, espera c (k + j) TIMEOUT_INICIO (r - of_nat j))" using Suc by simp
  let ?en = "\<lambda>i. en (10 * j + i)" and ?r = "r - of_nat j"
  have "j < 65536" using Suc.prems(2) unat_u16_less [of r] by linarith
  then have "unat ?r = unat r - j"
    using Suc.prems(2) by (subst unat_sub) (simp_all add: word_le_nat_alt unat_of_nat)
  then have "unat ?r \<noteq> 1" using Suc.prems(2) by simp
  then have nz: "?r - 1 \<noteq> 0" by (metis eq_iff_diff_eq_0 unat_1)
  have "turnos ?en 9 (t, espera c (k + j) (of_nat (Suc 9)) ?r) = (t, espera c (k + j) 1 ?r)"
    using Suc.prems(1) by (intro cuenta_atras) simp_all
  then have "turnos ?en (9 + 1) (t, espera c (k + j) TIMEOUT_INICIO ?r) =
      (t, espera c (Suc (k + j)) TIMEOUT_INICIO (?r - 1))"
    unfolding turnos_add [of _ 9 1] using peticion [OF Suc.prems(1) nz] by (simp add: TIMEOUT_INICIO_def)
  moreover have "10 * Suc j = 10 * j + (9 + 1)" by simp
  ultimately show ?case by (simp only: turnos_add j) (simp add: algebra_simps)
qed simp

text \<open>The last turn: the restart is counted, and the update or the emergency mode starts.\<close>

lemma ultimo_turno:
  assumes "esperando t c"
  shows "\<exists>fx. salida (snd (controlTask en (t, espera c k 1 1))) =
        salida c @ replicate (Suc k) (Envia BLOQUE_INICIALIZACION [0]) @ fx
      \<and> count_reinicios_malos (Configuracion (snd (controlTask en (t, espera c k 1 1)))) =
          count_reinicios_malos (Configuracion c) + 1
      \<and> (if 10 < count_reinicios_malos (Configuracion c) + 1
         then estado_actual (fst (controlTask en (t, espera c k 1 1))) = ESTADO_NORMAL
              \<and> emergencyState (Arranque (snd (controlTask en (t, espera c k 1 1))))
              \<and> deviceSerNum (snd (controlTask en (t, espera c k 1 1))) = deviceSerNumFlash c
              \<and> deviceSerNumFlash (snd (controlTask en (t, espera c k 1 1))) =
                  convertSN (cfg_deviceSerNum (Configuracion c)) (et_tras en)
         else fx = [Lanza_Update] \<and> actualizando (snd (controlTask en (t, espera c k 1 1)))
              \<and> mainFwUpdateActive (Arranque (snd (controlTask en (t, espera c k 1 1)))) = 1)"
  using assms
  by (simp add: controlTask_arranque turno_arranque_def modo_emergencia_def esperando_def espera_def
      Let_def envia_def emite_def replicate_append_same actualizando_def)

lemma turnos_silencio:
  assumes "esperando t c" "cnt_timeout_inicio (Arranque c) = 1"
    "cnt_repeticiones_inicio (Arranque c) = 120"
  shows "turnos en 1191 (t, c) = controlTask (en 1190) (t, espera c 119 1 1)"
proof -
  have c: "c = espera c 0 1 120" using assms(2,3) by (cases c; cases "Arranque c") (simp add: espera_def)
  have 1: "turnos en 1 (t, c) = (t, espera c 1 TIMEOUT_INICIO 119)"
    by (subst c) (simp add: peticion [OF assms(1)])
  have 2: "turnos (\<lambda>k. en (1 + k)) (10 * 118) (t, espera c 1 TIMEOUT_INICIO 119) =
      (t, espera c 119 TIMEOUT_INICIO 1)"
    using peticiones [OF assms(1), of 118 119 "\<lambda>k. en (1 + k)" 1] by simp
  have 3: "turnos en' 9 (t, espera c 119 TIMEOUT_INICIO 1) = (t, espera c 119 1 1)" for en'
    using cuenta_atras [OF assms(1), of 9 en' 119 1] by (simp add: TIMEOUT_INICIO_def)
  have "turnos en 1191 (t, c) = turnos en (1 + (10 * 118 + (9 + 1))) (t, c)" by simp
  also have "\<dots> = controlTask (en 1190) (t, espera c 119 1 1)"
    unfolding turnos_add [of _ 1] turnos_add [of _ "10 * 118"] turnos_add [of _ 9] 1 2 3 by simp
  finally show ?thesis .
qed

text \<open>
  C27: a charger whose PSoC never answers does not wait for ever. From power-up, after exactly 1191
  turns of the control task, whatever the connections do meanwhile, 120 requests have been sent and
  the restart has been counted; then the firmware of the PSoC is programmed again, or, after more
  than ten such restarts, the charger enters the emergency mode and its normal state.
\<close>

theorem silent_psoc_leads_to_recovery:
  assumes "esperando t c" "cnt_timeout_inicio (Arranque c) = 1"
    "cnt_repeticiones_inicio (Arranque c) = 120" "turnos en 1191 (t, c) = (t', c')"
  shows "\<exists>fx. salida c' = salida c @ replicate 120 (Envia BLOQUE_INICIALIZACION [0]) @ fx
      \<and> count_reinicios_malos (Configuracion c') = count_reinicios_malos (Configuracion c) + 1
      \<and> (if 10 < count_reinicios_malos (Configuracion c) + 1
         then estado_actual t' = ESTADO_NORMAL \<and> emergencyState (Arranque c')
         else fx = [Lanza_Update] \<and> actualizando c' \<and> mainFwUpdateActive (Arranque c') = 1)"
proof -
  have e: "controlTask (en 1190) (t, espera c 119 1 1) = (t', c')"
    using turnos_silencio [OF assms(1-3), of en] assms(4) by simp
  from ultimo_turno [OF assms(1), of "en 1190" 119] show ?thesis
    unfolding e by (auto split: if_splits)
qed

definition demo_tarea :: tarea where
  "demo_tarea = \<lparr>estado_actual = ESTADO_ARRANQUE, LastUserCon = False, Iface_COMS = False,
     old_inicializado = 0, AuthTimer = 0, deviceBleDisconnect = False\<rparr>"

lemma demo_esperando: "esperando demo_tarea demo_control"
  "cnt_timeout_inicio (Arranque demo_control) = 1" "cnt_repeticiones_inicio (Arranque demo_control) = 120"
  "count_reinicios_malos (Configuracion demo_control) = 0"
  by (simp_all add: esperando_def demo_tarea_def demo_control_def Let_def)

theorem silent_psoc_leads_to_recovery_witness:
  "\<exists>t' c'. turnos (\<lambda>k. \<lparr>et_ble = False, et_Testing = False, et_authSuccess = False, et_ticks = of_nat k,
      et_tras = [0]\<rparr>) 1191 (demo_tarea, demo_control) = (t', c') \<and> actualizando c'"
proof -
  obtain t' c' where r: "turnos (\<lambda>k. \<lparr>et_ble = False, et_Testing = False, et_authSuccess = False,
      et_ticks = of_nat k, et_tras = [0]\<rparr>) 1191 (demo_tarea, demo_control) = (t', c')" by force
  from silent_psoc_leads_to_recovery [OF demo_esperando(1-3) r] demo_esperando(4) have "actualizando c'"
    by auto
  with r show ?thesis by blast
qed

section \<open>The firmware files\<close>

text \<open>
  C31: an update of the PSoC never loses the last firmware image. Whatever the outcome of the
  programming of a file (programming without a file fails), when there was an image before there is
  one afterwards; an image that was programmed without error is kept as the old file, which is the
  one that is tried after more than five failed restarts; a failed programming leaves the files as
  they were chosen; and the receiver of the link is released.
\<close>

theorem update_keeps_an_image:
  assumes "UpdateTask programa (f, c) = (f', c')" "(of_nat (programa None) :: u8) \<noteq> 0"
    "elegido = elegir_fichero (count_reinicios_malos (Configuracion c)) f"
  shows "(PSOC_UPDATE_FILE f = None \<and> PSOC_UPDATE_OLD_FILE f = None
      \<or> PSOC_UPDATE_FILE f' \<noteq> None \<or> PSOC_UPDATE_OLD_FILE f' \<noteq> None)
    \<and> (if (of_nat (programa (PSOC_UPDATE_FILE elegido)) :: u8) = 0
       then PSOC_UPDATE_OLD_FILE f' = PSOC_UPDATE_FILE elegido \<and> PSOC_UPDATE_FILE f' = None
       else PSOC_UPDATE_FILE f' = PSOC_UPDATE_FILE elegido
            \<and> PSOC_UPDATE_OLD_FILE f' = PSOC_UPDATE_OLD_FILE elegido)
    \<and> \<not> actualizando c' \<and> mainFwUpdateActive (Arranque c') = 0"
proof -
  let ?n = "count_reinicios_malos (Configuracion c)"
  let ?g = "elegir_fichero ?n (f\<lparr>InstalandoArchivo := True\<rparr>)"
  have sel: "PSOC_UPDATE_FILE ?g = PSOC_UPDATE_FILE elegido"
    "PSOC_UPDATE_OLD_FILE ?g = PSOC_UPDATE_OLD_FILE elegido"
    using assms(3) by (auto simp: elegir_fichero_def spiffs_rename_old_to_new_def)
  have some: "PSOC_UPDATE_FILE f = None \<and> PSOC_UPDATE_OLD_FILE f = None
      \<or> PSOC_UPDATE_FILE elegido \<noteq> None \<or> PSOC_UPDATE_OLD_FILE elegido \<noteq> None"
    using assms(3) by (auto simp: elegir_fichero_def spiffs_rename_old_to_new_def)
  have c': "\<not> actualizando c' \<and> mainFwUpdateActive (Arranque c') = 0"
    using assms(1) by (auto simp: UpdateTask_def Let_def actualizando_def emite_def split: if_splits)
  have f': "PSOC_UPDATE_FILE f' = (if (of_nat (programa (PSOC_UPDATE_FILE elegido)) :: u8) = 0
        then None else PSOC_UPDATE_FILE elegido)"
    "PSOC_UPDATE_OLD_FILE f' = (if (of_nat (programa (PSOC_UPDATE_FILE elegido)) :: u8) = 0
        then PSOC_UPDATE_FILE elegido else PSOC_UPDATE_OLD_FILE elegido)"
    using assms(1,2)
    by (auto simp: UpdateTask_def Let_def sel spiffs_rename_new_to_old_def split: if_splits)
  show ?thesis using assms(2) some c' unfolding f' by auto
qed

definition demo_ficheros :: ficheros where
  "demo_ficheros = \<lparr>PSOC_UPDATE_FILE = Some [1], PSOC_UPDATE_OLD_FILE = Some [2],
     InstalandoArchivo = False, update_flag = 1, ESP_UpdateAvailable = False,
     PSOC_UpdateAvailable = True, DobleUpdate = False\<rparr>"

theorem update_keeps_an_image_witness:
  "PSOC_UPDATE_OLD_FILE (fst (UpdateTask (\<lambda>fi. if fi = None then 1 else 0) (demo_ficheros, demo_control))) = Some [1]"
proof -
  obtain f' c' where u: "UpdateTask (\<lambda>fi. if fi = None then 1 else 0) (demo_ficheros, demo_control) = (f', c')"
    by force
  have "elegir_fichero (count_reinicios_malos (Configuracion demo_control)) demo_ficheros = demo_ficheros"
    by (simp add: elegir_fichero_def demo_control_def Let_def)
  with update_keeps_an_image [OF u _ refl] u show ?thesis by (simp add: demo_ficheros_def)
qed

end
