(* ===== verification/Psoc_Mirror.thy ===== *)
theory Psoc_Mirror
  imports Psoc_Charge Rcs
begin

text \<open>
  From the PSoC to the phone: the effects of a block on the BLE server (serverble.cpp,
  \<open>serverbleSetCharacteristic\<close> and \<open>serverbleNotCharacteristic\<close>). Some handles have a
  characteristic of their own, the others go to the buffer of the reduced characteristic set.
\<close>

section \<open>The BLE server\<close>

definition FWUPDATE_BIRD_DATA_PSEUDO_CHAR_HANDLE :: u16 where "FWUPDATE_BIRD_DATA_PSEUDO_CHAR_HANDLE = 0x00AE"

text \<open>The values of the characteristics with a handle of their own, and the shared buffer.\<close>

record servidor =
  propias :: "u16 \<rightharpoonup> bytes"
  rcs_buf :: bytes

definition directas_set :: "u16 list" where
  "directas_set = [STATUS_HPT_STATUS_CHAR_HANDLE, MEASURES_INST_CURRENT_CHAR_HANDLE,
     MEASURES_INST_CURRENTB_CHAR_HANDLE, MEASURES_INST_CURRENTC_CHAR_HANDLE,
     CHARGING_GROUP_BLE_NET_DEVICES, CHARGING_GROUP_BLE_CHARGING_GROUP, STATUS_COMS,
     ENERGY_RECORD_RECORD_CHAR_HANDLE, SCHED_CHARGING_SCHEDULE_MATRIX_CHAR_HANDLE]"

definition directas_not :: "u16 list" where
  "directas_not = [STATUS_HPT_STATUS_CHAR_HANDLE, MEASURES_INST_CURRENT_CHAR_HANDLE,
     MEASURES_INST_CURRENTB_CHAR_HANDLE, MEASURES_INST_CURRENTC_CHAR_HANDLE,
     CHARGING_GROUP_BLE_NET_DEVICES, STATUS_COMS, FWUPDATE_BIRD_DATA_PSEUDO_CHAR_HANDLE]"

definition serverbleSetCharacteristic :: "bytes \<Rightarrow> u16 \<Rightarrow> servidor \<Rightarrow> servidor option" where
  "serverbleSetCharacteristic data handle s =
     (if handle \<in> set directas_set then Some (s\<lparr>propias := (propias s)(handle \<mapsto> data)\<rparr>)
      else map_option (\<lambda>b. s\<lparr>rcs_buf := b\<rparr>)
             (rcs_server_set_chr_value (rcs_buf s) handle data (of_nat (length data))))"

definition serverbleNotCharacteristic :: "bytes \<Rightarrow> u16 \<Rightarrow> servidor \<Rightarrow> servidor option" where
  "serverbleNotCharacteristic data handle s =
     (if handle \<in> set directas_not then Some (s\<lparr>propias := (propias s)(handle \<mapsto> data)\<rparr>)
      else map_option (\<lambda>b. s\<lparr>rcs_buf := b\<rparr>)
             (rcs_server_set_chr_value (rcs_buf s) handle data (of_nat (length data))))"

fun aplica :: "efecto list \<Rightarrow> servidor \<Rightarrow> servidor option" where
  "aplica [] s = Some s"
| "aplica (Modifica h d # fx) s = Option.bind (serverbleSetCharacteristic d h s) (aplica fx)"
| "aplica (Notifica h d # fx) s = Option.bind (serverbleNotCharacteristic d h s) (aplica fx)"
| "aplica (_ # fx) s = aplica fx s"

section \<open>The buffer after a run of effects\<close>

text \<open>The writes to the shared buffer that a run of effects makes.\<close>

fun escrituras :: "efecto list \<Rightarrow> (u16 \<times> bytes) list" where
  "escrituras [] = []"
| "escrituras (Modifica h d # fx) =
     (if h \<in> set directas_set then escrituras fx else (h, d) # escrituras fx)"
| "escrituras (Notifica h d # fx) =
     (if h \<in> set directas_not then escrituras fx else (h, d) # escrituras fx)"
| "escrituras (_ # fx) = escrituras fx"

lemma escrituras_append [simp]: "escrituras (xs @ ys) = escrituras xs @ escrituras ys"
  by (induction xs rule: escrituras.induct) simp_all

lemma map_of_rev: "distinct (map fst kvs) \<Longrightarrow> map_of (rev kvs) = map_of kvs"
  by (rule map_of_inject_set [THEN iffD2]) (simp_all add: rev_map [symmetric])

lemma nuevos_append: "salida c' = salida c @ fx \<Longrightarrow> nuevos c c' = fx"
  by (simp add: nuevos_def)

lemma rcs_set_put:
  "rcs_wf b \<Longrightarrow> length d < 65536 \<Longrightarrow>
     rcs_server_set_chr_value b h d (of_nat (length d)) = Some (rcs_put b h d)"
  by (simp add: rcs_put_def rcs_set_eq unat_of_nat)

lemma rcs_wf_put: "rcs_wf b \<Longrightarrow> length d < 65536 \<Longrightarrow> rcs_wf (rcs_put b h d)"
  using rcs_idx_le [of h] by (simp add: rcs_put_blit rcs_wf_def rcs_consts)

lemma aplica_buffer:
  "rcs_wf (rcs_buf s) \<Longrightarrow> \<forall>(h, d) \<in> set (escrituras fx). length d < 65536 \<Longrightarrow>
     \<exists>s'. aplica fx s = Some s' \<and> rcs_buf s' = put_all rcs_put (rcs_buf s) (escrituras fx)"
proof (induction fx arbitrary: s rule: escrituras.induct)
  case (2 h d fx)
  show ?case
  proof (cases "h \<in> set directas_set")
    case True
    with 2(1) [OF True, of "s\<lparr>propias := (propias s)(h \<mapsto> d)\<rparr>"] 2(3,4) show ?thesis
      by (simp add: serverbleSetCharacteristic_def)
  next
    case False
    with 2(2)[OF False, of "s\<lparr>rcs_buf := rcs_put (rcs_buf s) h d\<rparr>"] 2(3,4) show ?thesis
      by (simp add: serverbleSetCharacteristic_def rcs_set_put rcs_wf_put put_all_def)
  qed
next
  case (3 h d fx)
  show ?case
  proof (cases "h \<in> set directas_not")
    case True
    with 3(1) [OF True, of "s\<lparr>propias := (propias s)(h \<mapsto> d)\<rparr>"] 3(3,4) show ?thesis
      by (simp add: serverbleNotCharacteristic_def)
  next
    case False
    with 3(2)[OF False, of "s\<lparr>rcs_buf := rcs_put (rcs_buf s) h d\<rparr>"] 3(3,4) show ?thesis
      by (simp add: serverbleNotCharacteristic_def rcs_set_put rcs_wf_put put_all_def)
  qed
qed (simp_all add: put_all_def)

section \<open>The status block\<close>

text \<open>The values of the shared buffer that a status block carries.\<close>

definition status_espejo :: "(nat \<times> nat \<times> u16) list" where
  "status_espejo =
     [(0, 1, LED_LUMIN_COLOR_LUMINOSITY_LEVEL_CHAR_HANDLE),
      (3, 2, STATUS_ICP_STATUS_CHAR_HANDLE), (5, 2, STATUS_RCD_STATUS_CHAR_HANDLE),
      (7, 2, STATUS_CONN_LOCK_STATUS_CHAR_HANDLE), (9, 1, MEASURES_MAX_CURRENT_CABLE_CHAR_HANDLE),
      (10, 2, DOMESTIC_CONSUMPTION_DOMESTIC_CURRENT_CHAR_HANDLE),
      (12, 1, DOMESTIC_CONSUMPTION_REAL_CURRENT_LIMIT_CHAR_HANDLE),
      (13, 1, ERROR_STATUS_ERROR_CODE_CHAR_HANDLE), (16, 2, MEASURES_INST_VOLTAGE_CHAR_HANDLE),
      (18, 2, MEASURES_ACTIVE_POWER_CHAR_HANDLE), (20, 4, MEASURES_ACTIVE_ENERGY_CHAR_HANDLE),
      (46, 4, PHOTOVOLTAIC_TOTAL_POWER), (50, 4, PHOTOVOLTAIC_NET_POWER),
      (54, 1, MEASURES_APPARENT_POWER_CHAR_HANDLE), (55, 4, EXTERNAL_METER_POWER)]"

definition campo :: "bytes \<Rightarrow> nat \<times> nat \<times> u16 \<Rightarrow> u16 \<times> bytes" where
  "campo buf t = (snd (snd t), take (fst (snd t)) (drop (fst t) buf))"

lemma escrituras_modify:
  "\<forall>t \<in> set ts. snd (snd t) \<notin> set directas_set \<Longrightarrow>
     escrituras (map (\<lambda>(off, len, handle). Modifica handle (take len (drop off buf))) ts) = map (campo buf) ts"
  by (induction ts) (auto simp: campo_def)

lemma status_espejo_distinct: "distinct (map (\<lambda>t. snd (snd t)) status_espejo)"
  by (simp add: status_espejo_def handle_consts)

lemma status_espejo_registered:
  "t \<in> set status_espejo \<Longrightarrow> rcs_registered (snd (snd t)) \<and> snd (snd t) \<notin> set directas_set"
  by (auto simp: status_espejo_def rcs_registered_def rcs_idx_for_handle_def rcs_consts handle_consts
      table_idx_for_handle_def directas_set_def CHARGING_GROUP_BLE_NET_DEVICES_def
      CHARGING_GROUP_BLE_CHARGING_GROUP_def)

lemma directas [simp]:
  "STATUS_HPT_STATUS_CHAR_HANDLE \<in> set directas_set" "STATUS_HPT_STATUS_CHAR_HANDLE \<in> set directas_not"
  "MEASURES_INST_CURRENT_CHAR_HANDLE \<in> set directas_set"
  "MEASURES_INST_CURRENT_CHAR_HANDLE \<in> set directas_not"
  "MEASURES_INST_CURRENTB_CHAR_HANDLE \<in> set directas_not"
  "MEASURES_INST_CURRENTC_CHAR_HANDLE \<in> set directas_not"
  by (simp_all add: directas_set_def directas_not_def)

lemma hpt_cambio_escrituras:
  "\<exists>fx. salida (hpt_cambio ble h c) = salida c @ fx \<and> escrituras fx = []"
  by (simp add: hpt_cambio_def hpt_bloquea_def hpt_firebase_def hpt_notifica_def hpt_inicializa_def
      Let_def efectos)

lemma notifica_corriente_escrituras:
  "\<exists>fx. salida (notifica_corriente ble buf c) = salida c @ fx \<and> escrituras fx = []"
  by (simp add: notifica_corriente_def Let_def efectos)

lemma status_escrituras:
  assumes "systemStarted (Arranque c)" "buf ! 45 = 0x36" "take 2 (drop 1 buf) \<in> set HPT_estados"
  shows "escrituras (nuevos c (bloque_status en buf c)) = map (campo buf) status_espejo"
proof -
  let ?M = "\<lambda>ts. map (\<lambda>(off, len, handle). Modifica handle (take len (drop off buf))) ts"
  let ?h = "take 2 (drop 1 buf)"
  have mod: "salida (modifyCharacteristics ts buf d) = salida d @ ?M ts" for ts d
    by (simp add: modifyCharacteristics_def emite_def)
  have med: "salida (status_medidas buf d) = salida d" for d
    by (simp add: status_medidas_def Let_def)
  define c1 where "c1 = modifyCharacteristics (take 1 status_espejo) buf
      (c\<lparr>Arranque := (Arranque c)\<lparr>TimeoutMainDisconnect := 0\<rparr>\<rparr>)"
  define c2 where "c2 = hpt_cambio (ble_conectado en) ?h (c1\<lparr>Status := (Status c1)\<lparr>HPT_status := ?h @ [0]\<rparr>\<rparr>)"
  define c3 where "c3 = modifyCharacteristics (take 7 (drop 1 status_espejo)) buf c2"
  define c4 where "c4 = notifica_corriente (ble_conectado en) buf
      (c3\<lparr>Status := (Status c3)\<lparr>current_limit := buf ! 12,
          Measures := (Measures (Status c3))\<lparr>consumo_domestico := w16 buf 10,
                        instant_current := w16 buf 14\<rparr>\<rparr>\<rparr>)"
  have "list_ex (\<lambda>h. h = ?h) HPT_estados" using assms(3) by (auto simp: list_ex_iff)
  with assms(1,2) have b: "bloque_status en buf c =
      status_medidas buf (modifyCharacteristics (drop 8 status_espejo) buf c4)"
    by (simp add: bloque_status_def c1_def c2_def c3_def c4_def status_espejo_def Let_def)
  obtain f1 where f1: "salida c2 = salida c1 @ f1" "escrituras f1 = []"
    using hpt_cambio_escrituras [of "ble_conectado en" ?h "c1\<lparr>Status := (Status c1)\<lparr>HPT_status := ?h @ [0]\<rparr>\<rparr>"]
    by (auto simp: c2_def)
  obtain f2 where f2: "salida c4 = salida c3 @ f2" "escrituras f2 = []"
    using notifica_corriente_escrituras [of "ble_conectado en" buf
        "c3\<lparr>Status := (Status c3)\<lparr>current_limit := buf ! 12,
            Measures := (Measures (Status c3))\<lparr>consumo_domestico := w16 buf 10,
                          instant_current := w16 buf 14\<rparr>\<rparr>\<rparr>"]
    by (auto simp: c4_def)
  have "salida (bloque_status en buf c) = salida c @ ?M (take 1 status_espejo) @ f1
      @ ?M (take 7 (drop 1 status_espejo)) @ f2 @ ?M (drop 8 status_espejo)"
    unfolding b med mod f2 c3_def f1 c1_def by simp
  moreover have e: "escrituras (?M ts) = map (campo buf) ts" if "set ts \<subseteq> set status_espejo" for ts
    using that status_espejo_registered by (intro escrituras_modify) blast
  ultimately have "escrituras (nuevos c (bloque_status en buf c)) =
      map (campo buf) (take 1 status_espejo) @ map (campo buf) (take 7 (drop 1 status_espejo))
        @ map (campo buf) (drop 8 status_espejo)"
    using e [OF set_take_subset] e [OF set_drop_subset] f1(2) f2(2)
      e [OF order_trans [OF set_take_subset set_drop_subset]]
    by (simp only: nuevos_append escrituras_append append_Nil)
  then show ?thesis by (simp add: status_espejo_def)
qed

text \<open>
  C2: what the PSoC measures is what the phone reads. After a status block, a client that selects
  any of its fifteen values in the shared buffer reads exactly the bytes of the block at the place of
  that value, padded to 64, and every other selectable value is as before.
\<close>

theorem status_reaches_client:
  assumes "rcs_wf (rcs_buf s)" "length buf = 256" "systemStarted (Arranque c)" "buf ! 45 = 0x36"
    "take 2 (drop 1 buf) \<in> set HPT_estados"
  shows "\<exists>s'. aplica (nuevos c (snd (procesar_bloque en BLOQUE_STATUS buf c))) s = Some s'
    \<and> (\<forall>(off, len, h) \<in> set status_espejo.
        rcs_value (rcs_buf s') (rcs_idx_for_handle h) = rcs_pad (take len (drop off buf)))
    \<and> (\<forall>h. rcs_registered h \<and> h \<notin> (\<lambda>(off, len, h). h) ` set status_espejo \<longrightarrow>
        rcs_value (rcs_buf s') (rcs_idx_for_handle h) = rcs_value (rcs_buf s) (rcs_idx_for_handle h))"
proof -
  let ?kvs = "map (campo buf) status_espejo"
  have esc: "escrituras (nuevos c (snd (procesar_bloque en BLOQUE_STATUS buf c))) = ?kvs"
    using status_escrituras [OF assms(3-5)] by (simp add: despacho)
  have ok: "\<forall>(h, d) \<in> set ?kvs. rcs_registered h \<and> length d < 65536"
    using status_espejo_registered assms(2) by (auto simp: campo_def)
  then have "\<forall>(h, d) \<in> set (escrituras (nuevos c (snd (procesar_bloque en BLOQUE_STATUS buf c)))).
      length d < 65536" unfolding esc by blast
  from aplica_buffer [OF assms(1) this] obtain s'
    where ap: "aplica (nuevos c (snd (procesar_bloque en BLOQUE_STATUS buf c))) s = Some s'"
      and b: "rcs_buf s' = put_all rcs_put (rcs_buf s) ?kvs" unfolding esc by blast
  have keys: "distinct (map fst ?kvs)"
    using status_espejo_distinct by (simp add: comp_def campo_def)
  have get: "rcs_value (rcs_buf s') (rcs_idx_for_handle h) =
      (case map_of ?kvs h of None \<Rightarrow> rcs_value (rcs_buf s) (rcs_idx_for_handle h) | Some v \<Rightarrow> rcs_pad v)"
    if "rcs_registered h" for h
    using rcs.get_put_all [OF assms(1) ok that] keys by (simp only: b map_of_rev)
  show ?thesis
  proof (intro exI conjI ballI allI impI, rule ap)
    fix t assume t: "t \<in> set status_espejo"
    then have "map_of ?kvs (snd (snd t)) = Some (take (fst (snd t)) (drop (fst t) buf))"
      using keys by (intro map_of_is_SomeI) (auto simp: campo_def)
    with get status_espejo_registered [OF t] show "case t of (off, len, h) \<Rightarrow>
        rcs_value (rcs_buf s') (rcs_idx_for_handle h) = rcs_pad (take len (drop off buf))"
      by (cases t) auto
  next
    fix h assume h: "rcs_registered h \<and> h \<notin> (\<lambda>(off, len, h). h) ` set status_espejo"
    then have "map_of ?kvs h = None"
      by (auto simp: map_of_eq_None_iff campo_def image_iff split: prod.splits)
    with get h show "rcs_value (rcs_buf s') (rcs_idx_for_handle h) =
        rcs_value (rcs_buf s) (rcs_idx_for_handle h)" by simp
  qed
qed

definition demo_medida :: bytes where "demo_medida = demo_status[16 := 0xE6]"

theorem status_reaches_client_witness:
  "\<exists>s'. aplica (nuevos demo_miembro (snd (procesar_bloque demo_env BLOQUE_STATUS demo_medida demo_miembro)))
        \<lparr>propias = Map.empty, rcs_buf = chr_selectable_buffer\<rparr> = Some s'
     \<and> rcs_value (rcs_buf s') (rcs_idx_for_handle MEASURES_INST_VOLTAGE_CHAR_HANDLE) = rcs_pad [0xE6, 0]"
proof -
  let ?s = "\<lparr>propias = Map.empty, rcs_buf = chr_selectable_buffer\<rparr>"
  have h: "rcs_wf (rcs_buf ?s)" "length demo_medida = 256" "demo_medida ! 45 = 0x36"
    "take 2 (drop 1 demo_medida) \<in> set HPT_estados" "take 2 (drop 16 demo_medida) = [0xE6, 0]"
    by (simp_all add: rcs_wf_init demo_medida_def demo_status_def nth_append list_update_append
        drop_update_swap take_update_swap
        HPT_estados_def numeral_2_eq_2)
  have m: "systemStarted (Arranque demo_miembro)"
    by (simp add: demo_miembro_def demo_control_def Let_def)
  have v: "(16, 2, MEASURES_INST_VOLTAGE_CHAR_HANDLE) \<in> set status_espejo"
    by (simp add: status_espejo_def)
  from status_reaches_client [OF h(1,2) m h(3,4), of demo_env] obtain s'
    where a: "aplica (nuevos demo_miembro (snd (procesar_bloque demo_env BLOQUE_STATUS demo_medida
            demo_miembro))) ?s = Some s'"
      and r: "\<forall>(off, len, h) \<in> set status_espejo. rcs_value (rcs_buf s') (rcs_idx_for_handle h) =
          rcs_pad (take len (drop off demo_medida))" by (elim exE conjE)
  from bspec [OF r v] h(5) a show ?thesis by auto
qed

end
