(* ===== verification/Config_Store.thy ===== *)
theory Config_Store
  imports Group_Table Psoc_State
begin

text \<open>
  The settings and the group in flash (\<^verbatim>\<open>config.cpp\<close>): two JSON files in the file system, written by a
  task when a setting changes or an order asks for it, and loaded at start-up. The JSON library is a parameter.
\<close>

section \<open>State and the JSON library\<close>

text \<open>The settings of theory \<open>Psoc_State\<close> and the policy.\<close>

record cfg_datos = carac_config +
  cfg_policy :: bytes

record carac_group_config =
  cg_group :: string
  cg_params :: "nat list"
  cg_circuits :: "nat list"

datatype jv = JN nat | JS bytes | JA "nat list"

type_synonym doc = "string \<rightharpoonup> jv"

text \<open>
  What the code uses of the library: the conversions of a value that may be missing, the text of a document and
  its reading, and the memory of a \<^verbatim>\<open>DynamicJsonDocument\<close> of 1024 bytes: whether a document fits, and
  what is left of the assignments when it does not.
\<close>

record json_lib =
  jl_uint16 :: "jv option \<Rightarrow> u16"
  jl_uint8 :: "jv option \<Rightarrow> u8"
  jl_String :: "jv option \<Rightarrow> bytes"
  jl_ints :: "jv option \<Rightarrow> int list"
  jl_retiene :: "doc \<Rightarrow> doc"
  jl_serialize :: "doc \<Rightarrow> bytes"
  jl_deserialize :: "bytes \<Rightarrow> doc"
  jl_cabe :: "doc \<Rightarrow> bool"

text \<open>The documented behaviour: a value that fits its type is returned, and a document that fits is read back.\<close>

definition json_ok :: "json_lib \<Rightarrow> bool" where
  "json_ok L \<longleftrightarrow>
     (\<forall>n < 65536. jl_uint16 L (Some (JN n)) = of_nat n) \<and> (\<forall>n < 256. jl_uint8 L (Some (JN n)) = of_nat n)
     \<and> (\<forall>s. jl_String L (Some (JS s)) = s) \<and> (\<forall>ns. jl_ints L (Some (JA ns)) = map int ns)
     \<and> (\<forall>d. jl_cabe L d \<longrightarrow> jl_retiene L d = d \<and> jl_deserialize L (jl_serialize L d) = d)"

record cfg_estado =
  ce_data :: cfg_datos
  ce_group :: carac_group_config
  ce_Guardar :: bool
  ce_Cargar :: bool
  ce_Group_Guardar :: bool
  ce_Group_Cargar :: bool
  ce_config_json :: "bytes option"
  ce_group_json :: "bytes option"

section \<open>Settings to JSON and back\<close>

text \<open>A character array as a \<^verbatim>\<open>String\<close>; without a terminator the conversion reads behind the array.\<close>

definition String_de :: "bytes \<Rightarrow> bytes option" where
  "String_de arr = (if 0 \<in> set arr then Some (c_cadena arr) else None)"

text \<open>
  \<^verbatim>\<open>memcpy(arr, s.c_str(), n)\<close> copies \<open>n\<close> bytes also when the string is shorter: \<open>tras\<close> is what follows its
  terminator in memory.
\<close>

definition copia :: "nat \<Rightarrow> bytes \<Rightarrow> bytes \<Rightarrow> bytes \<Rightarrow> bytes option" where
  "copia n s tras arr =
     (if n \<le> length s + 1 + length tras then mem_write arr 0 (take n (s @ [0] @ tras)) else None)"

definition Carac_to_json :: "cfg_datos \<Rightarrow> doc option" where
  "Carac_to_json d =
     do { auth \<leftarrow> String_de (cfg_autentication_mode d);
          ide \<leftarrow> String_de (cfg_device_ID d);
          ser \<leftarrow> String_de (cfg_deviceSerNum d);
          pol \<leftarrow> String_de (cfg_policy d);
          Some (map_of
            [(''fw_esp'', JN (unat (FirmwareESP d))), (''fw_psoc'', JN (unat (FirmwarePSOC d))),
             (''auth_mode'', JS auth), (''pot_contratada_1'', JN (unat (cfg_potencia_contratada1 d))),
             (''pot_contratada_2'', JN (unat (cfg_potencia_contratada2 d))),
             (''inst_curr_limit'', JN (unat (cfg_install_current_limit d))), (''CDP'', JN (unat (cfg_CDP d))),
             (''device_ID'', JS ide), (''device_ser_num'', JS ser), (''policy'', JS pol),
             (''data_cleared'', JN (unat (Data_cleared d))),
             (''count_reinicios_malos'', JN (unat (count_reinicios_malos d))),
             (''velt_v'', JN (unat (velt_v d))), (''medidor485'', JN (unat (medidor485 d)))]) }"

definition Json_to_carac :: "json_lib \<Rightarrow> (string \<Rightarrow> bytes) \<Rightarrow> doc \<Rightarrow> cfg_datos \<Rightarrow> cfg_datos option" where
  "Json_to_carac L tras j d =
     do { auth \<leftarrow> copia 2 (jl_String L (j ''auth_mode'')) (tras ''auth_mode'') (cfg_autentication_mode d);
          ide \<leftarrow> copia 12 (jl_String L (j ''device_ID'')) (tras ''device_ID'') (cfg_device_ID d);
          ser \<leftarrow> copia 30 (jl_String L (j ''device_ser_num'')) (tras ''device_ser_num'') (cfg_deviceSerNum d);
          pol \<leftarrow> copia 3 (jl_String L (j ''policy'')) (tras ''policy'') (cfg_policy d);
          Some (d\<lparr>FirmwareESP := jl_uint16 L (j ''fw_esp''), FirmwarePSOC := jl_uint16 L (j ''fw_psoc''),
             cfg_potencia_contratada1 := jl_uint16 L (j ''pot_contratada_1''),
             cfg_potencia_contratada2 := jl_uint16 L (j ''pot_contratada_2''),
             cfg_install_current_limit := jl_uint8 L (j ''inst_curr_limit''), cfg_CDP := jl_uint8 L (j ''CDP''),
             cfg_autentication_mode := auth, cfg_device_ID := ide, cfg_deviceSerNum := ser, cfg_policy := pol,
             Data_cleared := jl_uint8 L (j ''data_cleared''),
             count_reinicios_malos := jl_uint8 L (j ''count_reinicios_malos''),
             velt_v := jl_uint8 L (j ''velt_v''), medidor485 := jl_uint8 L (j ''medidor485'')\<rparr>) }"

text \<open>The group: its image as a string, the seven parameters, and the first 40 bytes of the circuits.\<close>

definition Group_Carac_to_json :: "carac_group_config \<Rightarrow> doc option" where
  "Group_Carac_to_json g =
     do { s \<leftarrow> String_de (map a_byte (cg_group g));
          Some (map_of [(''group'', JS s), (''params'', JA (take 7 (cg_params g))),
                        (''circuits'', JA (take MAX_GROUP_SIZE (cg_circuits g)))]) }"

definition Group_Json_to_carac ::
  "json_lib \<Rightarrow> (string \<Rightarrow> bytes) \<Rightarrow> doc \<Rightarrow> carac_group_config \<Rightarrow> carac_group_config option" where
  "Group_Json_to_carac L tras j g =
     do { b \<leftarrow> copia MAX_GROUP_BUFFER_SIZE (jl_String L (j ''group'')) (tras ''group'') (map a_byte (cg_group g));
          let ps = map (\<lambda>v. nat (v mod 256)) (jl_ints L (j ''params''));
          let cs = map (\<lambda>v. nat (v mod 256)) (jl_ints L (j ''circuits''));
          Some (g\<lparr>cg_group := map a_char b, cg_params := blit (cg_params g) 0 (take (length (cg_params g)) ps),
                  cg_circuits := blit (cg_circuits g) 0 (take MAX_GROUP_SIZE cs)\<rparr>) }"

section \<open>The files\<close>

definition cfg_Store :: "json_lib \<Rightarrow> cfg_estado \<Rightarrow> cfg_estado option" where
  "cfg_Store L e =
     map_option (\<lambda>j. e\<lparr>ce_config_json := Some (jl_serialize L (jl_retiene L j))\<rparr>) (Carac_to_json (ce_data e))"

definition cfg_Load :: "json_lib \<Rightarrow> (string \<Rightarrow> bytes) \<Rightarrow> cfg_estado \<Rightarrow> cfg_estado option" where
  "cfg_Load L tras e =
     (let texto = (case ce_config_json e of None \<Rightarrow> [] | Some t \<Rightarrow> t)
      in map_option (\<lambda>d. e\<lparr>ce_data := d\<rparr>) (Json_to_carac L tras (jl_deserialize L texto) (ce_data e)))"

definition Group_Store :: "json_lib \<Rightarrow> cfg_estado \<Rightarrow> cfg_estado option" where
  "Group_Store L e =
     map_option (\<lambda>j. e\<lparr>ce_group_json := Some (jl_serialize L (jl_retiene L j))\<rparr>) (Group_Carac_to_json (ce_group e))"

definition Group_Load :: "json_lib \<Rightarrow> (string \<Rightarrow> bytes) \<Rightarrow> cfg_estado \<Rightarrow> cfg_estado option" where
  "Group_Load L tras e =
     (let texto = (case ce_group_json e of None \<Rightarrow> [] | Some t \<Rightarrow> t)
      in map_option (\<lambda>g. e\<lparr>ce_group := g\<rparr>) (Group_Json_to_carac L tras (jl_deserialize L texto) (ce_group e)))"

text \<open>
  \<^verbatim>\<open>Config::init\<close>: missing files are created, both are loaded, and a policy that is none of the three is
  replaced. The second component says whether the meter is reported as found, the third is the value published.
\<close>

definition politicas :: "bytes list" where
  "politicas = [[65, 76, 76], [65, 85, 84], [78, 79, 78]]"

definition cfg_init ::
  "json_lib \<Rightarrow> (string \<Rightarrow> bytes) \<Rightarrow> cfg_estado \<Rightarrow> (cfg_estado \<times> bool \<times> bytes) option" where
  "cfg_init L tras e =
     do { e1 \<leftarrow> (if ce_config_json e = None then cfg_Store L e else Some e);
          e2 \<leftarrow> (if ce_group_json e1 = None then Group_Store L e1 else Some e1);
          e3 \<leftarrow> cfg_Load L tras e2;
          e4 \<leftarrow> Group_Load L tras e3;
          let d = (if take 3 (cfg_policy (ce_data e4)) \<notin> set politicas
                   then (ce_data e4)\<lparr>cfg_policy := blit (cfg_policy (ce_data e4)) 0 [65, 76, 76]\<rparr> else ce_data e4);
          Some (e4\<lparr>ce_data := d\<rparr>, medidor485 d = 1, take 3 (cfg_policy d)) }"

section \<open>The task\<close>

text \<open>The comparison of settings, in the order of the code.\<close>

definition cfg_igual :: "cfg_datos \<Rightarrow> cfg_datos \<Rightarrow> bool" where
  "cfg_igual l r \<longleftrightarrow>
     FirmwareESP l = FirmwareESP r \<and> FirmwarePSOC l = FirmwarePSOC r \<and> Data_cleared l = Data_cleared r
     \<and> cfg_potencia_contratada1 l = cfg_potencia_contratada1 r
     \<and> cfg_potencia_contratada2 l = cfg_potencia_contratada2 r
     \<and> cfg_install_current_limit l = cfg_install_current_limit r \<and> cfg_CDP l = cfg_CDP r
     \<and> count_reinicios_malos l = count_reinicios_malos r \<and> velt_v l = velt_v r
     \<and> memcmp (take 12 (cfg_device_ID l)) (take 12 (cfg_device_ID r)) = 0
     \<and> memcmp (take 30 (cfg_deviceSerNum l)) (take 30 (cfg_deviceSerNum r)) = 0
     \<and> memcmp (take 3 (cfg_autentication_mode l)) (take 3 (cfg_autentication_mode r)) = 0
     \<and> memcmp (take 4 (cfg_policy l)) (take 4 (cfg_policy r)) = 0 \<and> medidor485 l = medidor485 r"

text \<open>One turn of \<^verbatim>\<open>ConfigTask\<close>, with its copy of the settings.\<close>

definition ConfigTask ::
  "json_lib \<Rightarrow> (string \<Rightarrow> bytes) \<Rightarrow> cfg_estado \<times> cfg_datos \<Rightarrow> (cfg_estado \<times> cfg_datos) option" where
  "ConfigTask L tras es =
     (case es of
        (e, old_data) \<Rightarrow>
          let cambio = \<not> cfg_igual (ce_data e) old_data;
              e1 = (if cambio then e\<lparr>ce_Guardar := True\<rparr> else e);
              old1 = (if cambio then ce_data e else old_data)
          in map_option (\<lambda>e'. (e', old1))
               (if ce_Guardar e1 then map_option (\<lambda>e'. e'\<lparr>ce_Guardar := False\<rparr>) (cfg_Store L e1)
                else if ce_Cargar e1 then map_option (\<lambda>e'. e'\<lparr>ce_Cargar := False\<rparr>) (cfg_Load L tras e1)
                else if ce_Group_Guardar e1
                then map_option (\<lambda>e'. e'\<lparr>ce_Group_Guardar := False\<rparr>) (Group_Store L e1)
                else if ce_Group_Cargar e1
                then map_option (\<lambda>e'. e'\<lparr>ce_Group_Cargar := False\<rparr>) (Group_Load L tras e1)
                else Some e1))"

section \<open>What a restart keeps\<close>

text \<open>
  The arrays as the code declares them, each with a terminator; after a reset the last byte of the two arrays that
  are only partly loaded is the 0 of their initialisers.
\<close>

definition config_wf :: "cfg_datos \<Rightarrow> bool" where
  "config_wf d \<longleftrightarrow>
     (length (cfg_autentication_mode d), length (cfg_device_ID d), length (cfg_deviceSerNum d), length (cfg_policy d))
       = (3, 12, 30, 4)
     \<and> 0 \<in> set (cfg_autentication_mode d) \<and> 0 \<in> set (cfg_device_ID d) \<and> 0 \<in> set (cfg_deviceSerNum d)
     \<and> 0 \<in> set (cfg_policy d)"

definition arrancado :: "cfg_datos \<Rightarrow> bool" where
  "arrancado d \<longleftrightarrow> config_wf d \<and> cfg_autentication_mode d ! 2 = 0 \<and> cfg_policy d ! 3 = 0"

definition grupo_wf :: "carac_group_config \<Rightarrow> bool" where
  "grupo_wf g \<longleftrightarrow>
     (length (cg_group g), length (cg_params g), length (cg_circuits g)) = (MAX_GROUP_BUFFER_SIZE, 7, MAX_GROUP_BUFFER_SIZE)
     \<and> (\<forall>n \<in> set (cg_params g) \<union> set (cg_circuits g). n < 256)"

text \<open>The settings as the other tasks read them: the numbers, and the texts up to their terminators.\<close>

definition cfg_vista :: "cfg_datos \<Rightarrow> u16 list \<times> u8 list \<times> bytes list" where
  "cfg_vista d =
     ([FirmwareESP d, FirmwarePSOC d, cfg_potencia_contratada1 d, cfg_potencia_contratada2 d],
      [cfg_install_current_limit d, cfg_CDP d, Data_cleared d, count_reinicios_malos d, velt_v d, medidor485 d],
      [c_cadena (cfg_autentication_mode d), c_cadena (cfg_device_ID d), c_cadena (cfg_deviceSerNum d),
       c_cadena (cfg_policy d)])"

lemma c_cadena_no_zero: "0 \<notin> set (c_cadena bs)"
  by (auto simp: c_cadena_def dest: set_takeWhileD)

lemma c_cadena_append: "0 \<notin> set s \<Longrightarrow> c_cadena (s @ 0 # r) = s"
  by (induction s) (auto simp: c_cadena_def)

lemma c_cadena_short: "0 \<in> set bs \<Longrightarrow> length (c_cadena bs) < length bs"
  by (induction bs) (auto simp: c_cadena_def)

text \<open>A text copied over an array of the length it came from reads the same, whatever follows it in memory.\<close>

lemma copia_cadena:
  assumes "0 \<in> set old" "length old = length arr" "length arr \<le> length tras"
    and n: "n = length arr \<or> Suc n = length arr \<and> arr ! n = 0"
  shows "\<exists>a. copia n (c_cadena old) tras arr = Some a \<and> length a = length arr \<and> c_cadena a = c_cadena old
           \<and> take n a = take n (c_cadena old @ 0 # tras)"
proof -
  let ?s = "c_cadena old"
  have s: "length ?s < length arr" using c_cadena_short [OF assms(1)] assms(2) by simp
  define a where "a = take n (?s @ 0 # tras) @ drop n arr"
  have len: "length (take n (?s @ 0 # tras)) = n" using n assms(3) by auto
  have "copia n ?s tras arr = Some a"
    using n len assms(3) by (auto simp: copia_def a_def blit_def)
  moreover have "length a = length arr" using len n by (auto simp: a_def)
  moreover have "c_cadena a = ?s"
  proof (cases "length ?s < n")
    case True
    then have "a = ?s @ 0 # (take (n - length ?s - 1) tras @ drop n arr)"
      by (cases "n - length ?s") (simp_all add: a_def)
    then show ?thesis by (simp add: c_cadena_append c_cadena_no_zero)
  next
    case False
    with s n have "length ?s = n" "Suc n = length arr" "arr ! n = 0" by auto
    then have "a = ?s @ 0 # []" by (simp add: a_def Cons_nth_drop_Suc [symmetric])
    then show ?thesis by (simp add: c_cadena_append c_cadena_no_zero)
  qed
  moreover have "take n a = take n (?s @ 0 # tras)" using len unfolding a_def by (metis append_eq_conv_conj)
  ultimately show ?thesis by blast
qed

lemma Carac_to_json_defined: "config_wf d \<Longrightarrow> \<exists>j. Carac_to_json d = Some j"
  by (simp add: Carac_to_json_def String_de_def config_wf_def)

lemma json_okD:
  assumes "json_ok L"
  shows "jl_uint16 L (Some (JN (unat (w :: u16)))) = w" "jl_uint8 L (Some (JN (unat (b :: u8)))) = b"
    "jl_String L (Some (JS s)) = s" "jl_ints L (Some (JA ns)) = map int ns"
    "jl_cabe L d \<Longrightarrow> jl_deserialize L (jl_serialize L (jl_retiene L d)) = d"
  using assms by (simp_all add: json_ok_def)

lemma settings_json_roundtrip:
  assumes L: "json_ok L" and d: "config_wf d" and d': "arrancado d'" and tras: "\<forall>k. 30 \<le> length (tras k)"
    and j: "Carac_to_json d = Some j"
  shows "\<exists>d2. Json_to_carac L tras j d' = Some d2 \<and> cfg_vista d2 = cfg_vista d
           \<and> (length (c_cadena (cfg_policy d)) = 3 \<longrightarrow> take 3 (cfg_policy d2) = c_cadena (cfg_policy d))"
proof -
  note wf = d [unfolded config_wf_def] d' [unfolded arrancado_def config_wf_def]
  have t: "length (cfg_autentication_mode d') \<le> length (tras k)" "length (cfg_device_ID d') \<le> length (tras k)"
    "length (cfg_deviceSerNum d') \<le> length (tras k)" "length (cfg_policy d') \<le> length (tras k)" for k
    using spec [OF tras, of k] wf by auto
  from copia_cadena [of "cfg_autentication_mode d" "cfg_autentication_mode d'" "tras ''auth_mode''" 2] wf t(1)
  obtain auth where a: "copia 2 (c_cadena (cfg_autentication_mode d)) (tras ''auth_mode'') (cfg_autentication_mode d')
      = Some auth" "c_cadena auth = c_cadena (cfg_autentication_mode d)" by auto
  from copia_cadena [of "cfg_device_ID d" "cfg_device_ID d'" "tras ''device_ID''" 12] wf t(2)
  obtain ide where i: "copia 12 (c_cadena (cfg_device_ID d)) (tras ''device_ID'') (cfg_device_ID d') = Some ide"
      "c_cadena ide = c_cadena (cfg_device_ID d)" by auto
  from copia_cadena [of "cfg_deviceSerNum d" "cfg_deviceSerNum d'" "tras ''device_ser_num''" 30] wf t(3)
  obtain ser where n: "copia 30 (c_cadena (cfg_deviceSerNum d)) (tras ''device_ser_num'') (cfg_deviceSerNum d')
      = Some ser" "c_cadena ser = c_cadena (cfg_deviceSerNum d)" by auto
  from copia_cadena [of "cfg_policy d" "cfg_policy d'" "tras ''policy''" 3] wf t(4)
  obtain pol where p: "copia 3 (c_cadena (cfg_policy d)) (tras ''policy'') (cfg_policy d') = Some pol"
      "c_cadena pol = c_cadena (cfg_policy d)" "take 3 pol = take 3 (c_cadena (cfg_policy d) @ 0 # tras ''policy'')"
    by auto
  have "take 3 pol = c_cadena (cfg_policy d)" if "length (c_cadena (cfg_policy d)) = 3"
    using that p(3) by simp
  moreover have "j = map_of
            [(''fw_esp'', JN (unat (FirmwareESP d))), (''fw_psoc'', JN (unat (FirmwarePSOC d))),
             (''auth_mode'', JS (c_cadena (cfg_autentication_mode d))),
             (''pot_contratada_1'', JN (unat (cfg_potencia_contratada1 d))),
             (''pot_contratada_2'', JN (unat (cfg_potencia_contratada2 d))),
             (''inst_curr_limit'', JN (unat (cfg_install_current_limit d))), (''CDP'', JN (unat (cfg_CDP d))),
             (''device_ID'', JS (c_cadena (cfg_device_ID d))), (''device_ser_num'', JS (c_cadena (cfg_deviceSerNum d))),
             (''policy'', JS (c_cadena (cfg_policy d))), (''data_cleared'', JN (unat (Data_cleared d))),
             (''count_reinicios_malos'', JN (unat (count_reinicios_malos d))),
             (''velt_v'', JN (unat (velt_v d))), (''medidor485'', JN (unat (medidor485 d)))]"
    using j wf by (simp add: Carac_to_json_def String_de_def)
  ultimately show ?thesis
    by (simp add: Json_to_carac_def json_okD [OF L] a i n p(1,2) cfg_vista_def)
qed

text \<open>The image of a group whose entries hold no 0 survives as a C string.\<close>

definition sin_ceros :: "carac_charger list \<Rightarrow> bool" where
  "sin_ceros cs \<longleftrightarrow> (\<forall>c \<in> set cs. CHR 0x00 \<notin> set (enc c))"

lemma digit_not_zero: "d < 10 \<Longrightarrow> digit d \<noteq> CHR 0x00"
  using of_char_digit [of d] by (auto dest: arg_cong [of _ _ "of_char :: char \<Rightarrow> nat"])

lemma c_cadena_image:
  assumes "sin_ceros cs" "length cs < 100"
  shows "c_cadena (map a_byte (image_of cs r)) = map a_byte (take 2 (size_digits (length cs)) @ concat (map enc cs))"
proof -
  let ?t = "take 2 (size_digits (length cs)) @ concat (map enc cs)"
  have "CHR 0x00 \<notin> set (take 2 (size_digits (length cs)))"
    using assms(2) by (simp add: size_digits_def digit_not_zero [THEN not_sym])
  then have "CHR 0x00 \<notin> set ?t" using assms(1) by (auto simp: sin_ceros_def)
  then have "0 \<notin> set (map a_byte ?t)" using a_byte_zero by force
  moreover have "map a_byte (image_of cs r) = map a_byte ?t @ 0 # map a_byte r"
    by (simp add: image_of_def a_byte_zero)
  ultimately show ?thesis using c_cadena_append by metis
qed

lemma group_json_roundtrip:
  assumes L: "json_ok L" and g: "grupo_wf g" and g': "grupo_wf g'" and tras: "\<forall>k. 362 \<le> length (tras k)"
    and im: "cg_group g = image_of cs r" and cs: "sin_ceros cs" "length cs < 40"
    and j: "Group_Carac_to_json g = Some j"
  shows "\<exists>g2 r'. Group_Json_to_carac L tras j g' = Some g2 \<and> cg_group g2 = image_of cs r'
           \<and> cg_params g2 = cg_params g \<and> take 40 (cg_circuits g2) = take 40 (cg_circuits g)"
proof -
  note wf = g [unfolded grupo_wf_def] g' [unfolded grupo_wf_def]
  let ?t = "take 2 (size_digits (length cs)) @ concat (map enc cs)"
  let ?arr = "map a_byte (cg_group g)"
  have c: "c_cadena ?arr = map a_byte ?t" using c_cadena_image [OF cs(1)] cs(2) im by simp
  have z: "0 \<in> set ?arr" using im a_byte_zero by (force simp: image_of_def)
  have "length ?t < 362" using c_cadena_short [OF z] wf by (simp add: c group_consts)
  then obtain b where b: "copia 362 (map a_byte ?t) (tras ''group'') (map a_byte (cg_group g')) = Some b"
      and b': "take 362 b = take 362 (map a_byte ?t @ 0 # tras ''group'')" "length b = 362"
    using copia_cadena [OF z, of "map a_byte (cg_group g')" "tras ''group''" 362] wf spec [OF tras, of "''group''"]
    by (auto simp: c group_consts)
  have "b = map a_byte ?t @ 0 # take (362 - length ?t - 1) (tras ''group'')"
    using b' \<open>length ?t < 362\<close> by (cases "362 - length ?t") auto
  moreover have "a_char 0 = CHR 0x00" by (simp add: a_char_def char_of_def)
  ultimately have gr: "map a_char b = image_of cs (map a_char (take (362 - length ?t - 1) (tras ''group'')))"
    by (simp add: image_of_def o_def)
  have jd: "j = map_of [(''group'', JS (map a_byte ?t)), (''params'', JA (take 7 (cg_params g))),
                        (''circuits'', JA (take MAX_GROUP_SIZE (cg_circuits g)))]"
    using j z c by (simp add: Group_Carac_to_json_def String_de_def)
  have mb: "map ((\<lambda>v. nat (v mod 256)) \<circ> int) ns = ns" if "\<forall>n \<in> set ns. n < 256" for ns
    using that by (auto simp: o_def intro!: map_idI)
  have byte: "map ((\<lambda>v. nat (v mod 256)) \<circ> int) (cg_params g) = cg_params g"
      "map ((\<lambda>v. nat (v mod 256)) \<circ> int) (take 40 (cg_circuits g)) = take 40 (cg_circuits g)"
    by (rule mb, use wf in \<open>auto dest: in_set_takeD\<close>)+
  show ?thesis
    using b gr wf by (auto simp: Group_Json_to_carac_def jd json_okD [OF L] byte blit_def group_consts
        intro!: exI [of _ "map a_char (take (362 - length ?t - 1) (tras ''group''))"])
qed

section \<open>From a changed setting to the next start\<close>

lemma memcmp_refl [simp]: "memcmp bs bs = 0"
  by (induction bs) simp_all

lemma cfg_igual_refl [simp]: "cfg_igual d d"
  by (simp add: cfg_igual_def)

text \<open>A change is in the file after one turn of the task, and a pending group after two.\<close>

lemma ConfigTask_stores_change:
  assumes "\<not> cfg_igual (ce_data e) old" "Carac_to_json (ce_data e) = Some j"
  shows "ConfigTask L tras (e, old) =
     Some (e\<lparr>ce_Guardar := False, ce_config_json := Some (jl_serialize L (jl_retiene L j))\<rparr>, ce_data e)"
  using assms by (simp add: ConfigTask_def cfg_Store_def Let_def)

lemma ConfigTask_stores_group:
  assumes "\<not> ce_Guardar e" "\<not> ce_Cargar e" "ce_Group_Guardar e" "Group_Carac_to_json (ce_group e) = Some j"
  shows "ConfigTask L tras (e, ce_data e) =
     Some (e\<lparr>ce_Group_Guardar := False, ce_group_json := Some (jl_serialize L (jl_retiene L j))\<rparr>, ce_data e)"
  using assms by (simp add: ConfigTask_def Group_Store_def Let_def)

lemma cfg_init_loads:
  assumes "ce_config_json e = Some t" "ce_group_json e = Some u"
    and "Json_to_carac L tras (jl_deserialize L t) (ce_data e) = Some d"
    and "Group_Json_to_carac L tras (jl_deserialize L u) (ce_group e) = Some g" "take 3 (cfg_policy d) \<in> set politicas"
  shows "cfg_init L tras e = Some (e\<lparr>ce_data := d, ce_group := g\<rparr>, medidor485 d = 1, take 3 (cfg_policy d))"
  using assms by (simp add: cfg_init_def cfg_Load_def Group_Load_def)


section \<open>An example of the library\<close>

text \<open>A library that meets \<open>json_ok\<close>: the members in a fixed order, each with a tag and a length.\<close>

definition claves :: "string list" where
  "claves = [''fw_esp'', ''fw_psoc'', ''auth_mode'', ''pot_contratada_1'', ''pot_contratada_2'', ''inst_curr_limit'',
     ''CDP'', ''device_ID'', ''device_ser_num'', ''policy'', ''data_cleared'', ''count_reinicios_malos'', ''velt_v'',
     ''medidor485'', ''group'', ''params'', ''circuits'']"

definition n16 :: "nat \<Rightarrow> bytes" where "n16 n = [of_nat (n div 256), of_nat (n mod 256)]"

fun put_v :: "jv option \<Rightarrow> bytes" where
  "put_v None = 0 # n16 0"
| "put_v (Some (JN n)) = 1 # n16 n"
| "put_v (Some (JS s)) = 2 # n16 (length s) @ s"
| "put_v (Some (JA ns)) = 3 # n16 (length ns) @ map of_nat ns"

definition get_v :: "bytes \<Rightarrow> jv option \<times> bytes" where
  "get_v bs =
     (let t = bs ! 0; n = 256 * unat (bs ! 1) + unat (bs ! 2); r = drop 3 bs
      in if t = 1 then (Some (JN n), r) else if t = 2 then (Some (JS (take n r)), drop n r)
         else if t = 3 then (Some (JA (map unat (take n r))), drop n r) else (None, r))"

fun cabe_v :: "jv option \<Rightarrow> bool" where
  "cabe_v None = True"
| "cabe_v (Some (JN n)) = (n < 65536)"
| "cabe_v (Some (JS s)) = (length s < 65536)"
| "cabe_v (Some (JA ns)) = (length ns < 65536 \<and> (\<forall>n \<in> set ns. n < 256))"

fun lee :: "string list \<Rightarrow> bytes \<Rightarrow> doc" where
  "lee [] bs = Map.empty"
| "lee (k # ks) bs = (case get_v bs of (v, r) \<Rightarrow> (lee ks r)(k := v))"

definition demo_json :: json_lib where
  "demo_json = \<lparr>jl_uint16 = \<lambda>v. (case v of Some (JN n) \<Rightarrow> of_nat n | _ \<Rightarrow> 0),
     jl_uint8 = \<lambda>v. (case v of Some (JN n) \<Rightarrow> of_nat n | _ \<Rightarrow> 0), jl_String = \<lambda>v. (case v of Some (JS s) \<Rightarrow> s | _ \<Rightarrow> []),
     jl_ints = \<lambda>v. (case v of Some (JA ns) \<Rightarrow> map int ns | _ \<Rightarrow> []), jl_retiene = \<lambda>d. d,
     jl_serialize = \<lambda>d. concat (map (\<lambda>k. put_v (d k)) claves), jl_deserialize = lee claves,
     jl_cabe = \<lambda>d. dom d \<subseteq> set claves \<and> (\<forall>k. cabe_v (d k))\<rparr>"

lemma n16_read: "n < 65536 \<Longrightarrow> 256 * unat (n16 n ! 0) + unat (n16 n ! 1) = n"
  by (simp add: n16_def unat_of_nat)

lemma get_put: "cabe_v v \<Longrightarrow> get_v (put_v v @ r) = (v, r)"
proof (induction v rule: cabe_v.induct)
  case (4 ns)
  have "map (unat \<circ> (of_nat :: nat \<Rightarrow> u8)) ns = ns"
    using 4 by (intro map_idI) (auto simp: unat_of_nat)
  then show ?case using 4 n16_read [of "length ns"] by (simp add: get_v_def n16_def)
qed (use n16_read in \<open>auto simp: get_v_def n16_def Let_def\<close>)

lemma lee_put: "\<forall>k. cabe_v (d k) \<Longrightarrow> lee ks (concat (map (\<lambda>k. put_v (d k)) ks)) = d |` set ks"
  by (induction ks) (auto simp: get_put restrict_map_def)

lemma restrict_dom: "dom d \<subseteq> A \<Longrightarrow> d |` A = d"
  by (rule ext) (metis domIff restrict_map_def subsetD)

lemma demo_json_ok: "json_ok demo_json"
  by (auto simp: json_ok_def demo_json_def lee_put restrict_dom)

definition demo_cfg :: cfg_datos where
  "demo_cfg = \<lparr>cfg_device_ID = [86, 67, 68, 49, 55, 48, 49, 48, 48, 48, 49, 0], cfg_deviceSerNum = 48 # replicate 29 0,
     cfg_autentication_mode = [87, 65, 0], FirmwareESP = 517, FirmwarePSOC = 512, Data_cleared = 0, cfg_CDP = 0,
     cfg_install_current_limit = 32, count_reinicios_malos = 0, cfg_potencia_contratada1 = 0,
     cfg_potencia_contratada2 = 0, velt_v = 0, medidor485 = 0, cfg_policy = [65, 76, 76, 0]\<rparr>"

definition demo_chargers :: "carac_charger list" where
  "demo_chargers = [demo_charger ''VCD00001'', demo_charger ''VCD00002'']"

definition demo_cg :: carac_group_config where
  "demo_cg = \<lparr>cg_group = image_of demo_chargers (replicate 341 (CHR 0x00)), cg_params = [1, 0, 0, 32, 0, 32, 0],
     cg_circuits = replicate 362 0\<rparr>"

definition demo_ce :: cfg_estado where
  "demo_ce = \<lparr>ce_data = demo_cfg\<lparr>cfg_install_current_limit := 16\<rparr>, ce_group = demo_cg, ce_Guardar = False,
     ce_Cargar = False, ce_Group_Guardar = True, ce_Group_Cargar = False, ce_config_json = None,
     ce_group_json = None\<rparr>"

lemma demo_cg_image: "cg_group (ce_group demo_ce) = image_of demo_chargers (replicate 341 (CHR 0x00))"
  by (simp add: demo_ce_def demo_cg_def)

lemma demo_chargers_ok:
  "\<forall>c \<in> set demo_chargers. storable c" "sin_ceros demo_chargers" "distinct (map key demo_chargers)"
  "length demo_chargers < 40"
  by (simp_all add: demo_chargers_def demo_charger_def storable_def sin_ceros_def enc_def fase_circuito_char_def
      key_def char_of_def)

lemma demo_wf: "config_wf (ce_data demo_ce)" "grupo_wf (ce_group demo_ce)" "arrancado demo_cfg"
  "c_cadena (cfg_policy (ce_data demo_ce)) \<in> set politicas" "\<not> cfg_igual (ce_data demo_ce) demo_cfg"
proof -
  have "\<forall>c \<in> set demo_chargers. length (ch_name c) = 9" "length demo_chargers = 2"
    by (simp_all add: demo_chargers_def demo_charger_def)
  then show "grupo_wf (ce_group demo_ce)"
    by (auto simp: grupo_wf_def demo_ce_def demo_cg_def length_image_of group_consts)
qed (simp_all add: config_wf_def arrancado_def demo_ce_def demo_cfg_def politicas_def c_cadena_def cfg_igual_def)

lemma demo_cabe_upd:
  "jl_cabe demo_json Map.empty"
  "jl_cabe demo_json d \<Longrightarrow> k \<in> set claves \<Longrightarrow> cabe_v (Some v) \<Longrightarrow> jl_cabe demo_json (d(k \<mapsto> v))"
  by (auto simp: demo_json_def)

lemma demo_fits:
  "\<forall>j. Carac_to_json (ce_data demo_ce) = Some j \<longrightarrow> jl_cabe demo_json j"
  "\<forall>j. Group_Carac_to_json (ce_group demo_ce) = Some j \<longrightarrow> jl_cabe demo_json j"
proof -
  have c: "length (c_cadena bs) \<le> length bs" for bs by (simp add: c_cadena_def length_takeWhile_le)
  have short: "length (c_cadena bs) < 65536" if "length bs < 400" for bs
    using that c [of bs] by linarith
  have byte: "unat b < 65536" for b :: u8 using unat_u8_less [of b] by linarith
  show "\<forall>j. Carac_to_json (ce_data demo_ce) = Some j \<longrightarrow> jl_cabe demo_json j"
    using demo_wf(1) by (auto simp: Carac_to_json_def String_de_def config_wf_def claves_def short byte
        intro!: demo_cabe_upd)
  show "\<forall>j. Group_Carac_to_json (ce_group demo_ce) = Some j \<longrightarrow> jl_cabe demo_json j"
    using demo_wf(2) by (auto simp: Group_Carac_to_json_def String_de_def grupo_wf_def claves_def group_consts short
        intro!: demo_cabe_upd dest!: in_set_takeD)
qed


end
