(* ===== verification/Cloud_Schedule.thy ===== *)
theory Cloud_Schedule
  imports Psoc_Schedule
begin

text \<open>
  The charging programmes of the cloud (the helpers at the end of \<^verbatim>\<open>coms/FirebaseClient.cpp\<close>): six bytes
  say whether a programme is active, on which days, from which hour to which hour and with which power; they
  are drawn into the matrix of the 168 hours of a week that theory \<open>Psoc_Schedule\<close> sends to the PSoC.
\<close>

section \<open>The code\<close>

definition hex2int :: "u8 \<Rightarrow> u8" where
  "hex2int ch =
     (if 48 \<le> ch \<and> ch \<le> 57 then ch - 48
      else if 65 \<le> ch \<and> ch \<le> 70 then ch - 65 + 10
      else if 97 \<le> ch \<and> ch \<le> 102 then ch - 97 + 10
      else - 1)"

definition hexChar_To_uint16_t :: "u8 \<Rightarrow> u16" where
  "hexChar_To_uint16_t num =
     (let hexCar = sprintf_02X [num]
      in of_int (uint (hex2int (hexCar ! 0)) * 0x10 + uint (hex2int (hexCar ! 1))))"

definition Hex_Array_To_Uint16A_Array :: "bytes \<Rightarrow> u16 list" where
  "Hex_Array_To_Uint16A_Array inBuff = map (\<lambda>i. hexChar_To_uint16_t (inBuff ! i)) [0..<6]"

definition deltaprogram :: "u8 \<Rightarrow> u8 \<Rightarrow> u8" where
  "deltaprogram s e = (let d = uint e - uint s in of_int (if d \<le> 0 then d + 24 else d))"

text \<open>One day of a programme. The hours are counted in eight bits, and the matrix starts one day later than the mask.\<close>

definition pinta :: "u8 \<Rightarrow> bytes \<Rightarrow> nat \<Rightarrow> bytes" where
  "pinta pot sch h = sch[(h + 24) mod 168 := pot]"

definition CreateMatrix_dia :: "u16 list \<Rightarrow> u8 \<Rightarrow> nat \<Rightarrow> bytes \<Rightarrow> bytes" where
  "CreateMatrix_dia inBuff pot dia sch =
     (let mask = push_bit dia 1 :: u8; dias = ucast (inBuff ! 1) :: u8
      in if mask AND dias \<noteq> 0
         then let inicio = of_int (int dia * 24 + uint (inBuff ! 2)) :: u8;
                  fin = of_int (uint inicio + uint (deltaprogram (ucast (inBuff ! 2)) (ucast (inBuff ! 3)))) :: u8
              in foldl (pinta pot) sch [unat inicio..<unat fin]
         else sch)"

definition CreateMatrix :: "u16 list \<Rightarrow> bytes \<Rightarrow> u8 \<times> bytes" where
  "CreateMatrix inBuff outBuff =
     (if inBuff ! 0 \<noteq> 1 then (1, outBuff)
      else let pot = of_int ((uint (inBuff ! 4) * 0x100 + uint (inBuff ! 5)) div 100) :: u8
           in (0, fold (CreateMatrix_dia inBuff pot) [0..<7] outBuff))"

text \<open>The loop of \<^verbatim>\<open>ReadFirebaseShedule\<close> over the decoded programmes.\<close>

fun decodifica :: "bytes list \<Rightarrow> u8 \<times> bytes \<Rightarrow> u8 \<times> bytes" where
  "decodifica [] am = am"
| "decodifica (dst # ds) (alguna_activa, plainMatrix) =
     (if length dst \<noteq> 6 then decodifica ds (alguna_activa, plainMatrix)
      else case CreateMatrix (Hex_Array_To_Uint16A_Array dst) plainMatrix of
             (r, m) \<Rightarrow> decodifica ds (if r = 0 then 1 else alguna_activa, m))"

section \<open>What a programme means\<close>

text \<open>
  The reference: an hour of the week belongs to a programme when, counted from the starting hour of one of its
  days, fewer hours have passed than the programme lasts; a programme that ends when it starts lasts a whole day.
\<close>

definition duracion :: "nat \<Rightarrow> nat \<Rightarrow> nat" where
  "duracion s e = (if s < e then e - s else e + 24 - s)"

definition cubre :: "bytes \<Rightarrow> nat \<Rightarrow> bool" where
  "cubre d p \<longleftrightarrow>
     (\<exists>dia \<in> {0..<7}. bit (d ! 1) dia \<and>
        (p + 168 - (24 * (dia + 1) + unat (d ! 2)) mod 168) mod 168 < duracion (unat (d ! 2)) (unat (d ! 3)))"

definition potencia :: "bytes \<Rightarrow> u8" where
  "potencia d = of_nat ((256 * unat (d ! 4) + unat (d ! 5)) div 100)"

definition programa_valido :: "bytes \<Rightarrow> bool" where
  "programa_valido d \<longleftrightarrow> length d = 6 \<and> d ! 2 < 24 \<and> d ! 3 < 24"

definition activo :: "bytes \<Rightarrow> bool" where "activo d \<longleftrightarrow> length d = 6 \<and> d ! 0 = 1"

definition hora_programada :: "bytes list \<Rightarrow> nat \<Rightarrow> u8" where
  "hora_programada ds p = (case filter (\<lambda>d. activo d \<and> cubre d p) (rev ds) of [] \<Rightarrow> 0 | d # _ \<Rightarrow> potencia d)"

section \<open>The code computes the reference\<close>

lemma hex2int_hexa: "n < 16 \<Longrightarrow> hex2int (hexa n) = of_nat n"
proof -
  assume "n < 16"
  then have "n \<in> set [0..<16]" by simp
  moreover have "\<forall>n \<in> set [0..<16]. hex2int (hexa n) = of_nat n" by code_simp
  ultimately show ?thesis by blast
qed

lemma uint_of_nat_u8: "n < 256 \<Longrightarrow> uint (of_nat n :: u8) = int n"
  by (simp add: unsigned_of_nat take_bit_eq_mod)

lemma hexChar_id: "hexChar_To_uint16_t b = ucast b"
proof -
  define a where "a = unat b"
  have a: "a < 256" by (simp add: a_def)
  have u: "uint (hex2int (hexa (a div 16))) = int (a div 16)" "uint (hex2int (hexa (a mod 16))) = int (a mod 16)"
    using a by (simp_all add: hex2int_hexa uint_of_nat_u8)
  have "int (a div 16) * 16 + int (a mod 16) = int (a div 16 * 16 + a mod 16)"
    by (simp only: of_nat_add of_nat_mult of_nat_numeral)
  moreover have h: "sprintf_02X [b] ! 0 = hexa (a div 16)" "sprintf_02X [b] ! 1 = hexa (a mod 16)"
    by (simp_all add: sprintf_02X_def a_def)
  ultimately have "hexChar_To_uint16_t b = of_int (int a)"
    by (simp only: hexChar_To_uint16_t_def Let_def h u div_mult_mod_eq)
  then show ?thesis by (simp add: a_def)
qed

lemma Hex_Array_id: "length d = 6 \<Longrightarrow> Hex_Array_To_Uint16A_Array d = map ucast d"
  by (rule nth_equalityI) (simp_all add: Hex_Array_To_Uint16A_Array_def hexChar_id)

lemma length_pinta [simp]: "length (foldl (pinta pot) sch hs) = length sch"
  by (induction hs arbitrary: sch) (simp_all add: pinta_def)

lemma nth_pinta:
  "length sch = 168 \<Longrightarrow> p < 168 \<Longrightarrow>
     foldl (pinta pot) sch hs ! p = (if \<exists>h \<in> set hs. (h + 24) mod 168 = p then pot else sch ! p)"
  by (induction hs arbitrary: sch) (auto simp: pinta_def nth_list_update)

text \<open>An interval of hours, wrapped around the week.\<close>

lemma tramo_semana:
  fixes x p n :: nat
  assumes "p < 168" "n \<le> 168"
  shows "(\<exists>h \<in> {x..<x + n}. h mod 168 = p) \<longleftrightarrow> (p + 168 - x mod 168) mod 168 < n"
proof
  assume "\<exists>h \<in> {x..<x + n}. h mod 168 = p"
  then obtain k where k: "k < n" "(x + k) mod 168 = p" by (auto dest!: le_Suc_ex)
  have "(p + 168 - x mod 168) mod 168 = k mod 168"
  proof -
    define r where "r = x mod 168"
    have r: "(r + k) mod 168 = p" "r < 168" using k(2) by (simp_all add: r_def mod_add_left_eq)
    then have "(r + k) mod 168 + 168 - r = (r + k) mod 168 + (168 - r)" by simp
    then have "(p + 168 - r) mod 168 = (r + k + (168 - r)) mod 168" using mod_add_left_eq [of "r + k" 168 "168 - r"] r(1) by simp
    also have "\<dots> = k mod 168" using r(2) by (simp add: less_imp_le)
    finally show ?thesis by (simp only: r_def)
  qed
  with k(1) assms(2) show "(p + 168 - x mod 168) mod 168 < n" by simp
next
  let ?k = "(p + 168 - x mod 168) mod 168"
  assume "?k < n"
  moreover have "(x + ?k) mod 168 = p"
  proof -
    have "(x + ?k) mod 168 = (x mod 168 + (p + 168 - x mod 168)) mod 168" by (metis mod_add_left_eq mod_add_right_eq)
    also have "\<dots> = p" using assms(1) mod_less_divisor [of 168 x] by (simp add: less_imp_le)
    finally show ?thesis .
  qed
  ultimately show "\<exists>h \<in> {x..<x + n}. h mod 168 = p" by (intro bexI [of _ "x + ?k"]) auto
qed

lemma mask_bit: "(push_bit dia 1 AND (b :: u8) \<noteq> 0) = bit b dia"
  by (simp add: and.commute [of "2 ^ dia"] and_exp_eq_0_iff_not_bit)

lemma duracion_le: "s < 24 \<Longrightarrow> e < 24 \<Longrightarrow> 0 < duracion s e \<and> duracion s e \<le> 24"
  by (auto simp: duracion_def)

lemma deltaprogram_duracion:
  assumes "s < 24" "e < 24"
  shows "unat (deltaprogram s e) = duracion (unat s) (unat e)"
proof -
  define a z where "a = unat s" and "z = unat e"
  have az: "a < 24" "z < 24" using assms by (simp_all add: a_def z_def word_less_nat_alt)
  have u: "uint s = int a" "uint e = int z" by (simp_all add: a_def z_def)
  have "int z - int a \<le> 0 \<longleftrightarrow> \<not> a < z" by linarith
  moreover have "(if int z - int a \<le> 0 then int z - int a + 24 else int z - int a) = int (duracion a z)"
    using az by (simp add: duracion_def)
  ultimately have "deltaprogram s e = of_int (int (duracion a z))"
    by (simp only: deltaprogram_def u Let_def)
  then show ?thesis using duracion_le [OF az] by (simp add: a_def z_def unat_of_nat)
qed


lemma ucast_u16_u8: "ucast (ucast (b :: u8) :: u16) = b"
  by (rule bit_word_eqI) (auto simp: bit_simps)

lemma uint_u16_u8: "uint (ucast (b :: u8) :: u16) = uint b"
proof -
  have "unat (ucast b :: u16) = take_bit 16 (unat b)" by (simp add: unsigned_ucast_eq)
  also have "\<dots> = unat b" using order.strict_trans [OF unat_u8_less [of b], of 65536] by (simp add: take_bit_nat_eq_self_iff)
  finally show ?thesis by (metis uint_nat)
qed

lemma CreateMatrix_dia_nth:
  assumes d: "programa_valido d" and dia: "dia < 7" and m: "length sch = 168" "p < 168"
  shows "length (CreateMatrix_dia (map ucast d) pot dia sch) = 168
    \<and> CreateMatrix_dia (map ucast d) pot dia sch ! p =
      (if bit (d ! 1) dia \<and> (p + 168 - (24 * (dia + 1) + unat (d ! 2)) mod 168) mod 168
            < duracion (unat (d ! 2)) (unat (d ! 3)) then pot else sch ! p)"
proof -
  define s e where "s = unat (d ! 2)" and "e = unat (d ! 3)"
  have len: "length d = 6" and se: "d ! 2 < 24" "d ! 3 < 24" using d by (simp_all add: programa_valido_def)
  then have s: "s < 24" "e < 24" by (simp_all add: s_def e_def word_less_nat_alt)
  let ?n = "duracion s e"
  have n: "0 < ?n" "?n \<le> 24" using duracion_le [OF s] by simp_all
  have u: "uint (d ! 2) = int s" by (simp add: s_def)
  have "uint (map ucast d ! 2 :: u16) = int s" "ucast (map ucast d ! 2 :: u16) = d ! 2"
      "ucast (map ucast d ! 3 :: u16) = d ! 3" "ucast (map ucast d ! 1 :: u16) = d ! 1"
    using len by (simp_all add: ucast_u16_u8 uint_u16_u8 u)
  note v = this
  define i :: u8 where "i = of_int (int dia * 24 + int s)"
  define f :: u8 where "f = of_int (uint i + uint (deltaprogram (d ! 2) (d ! 3)))"
  have "i = of_nat (dia * 24 + s)" by (simp add: i_def)
  then have i: "unat i = dia * 24 + s" using dia s by (simp only: unat_of_nat) simp
  have dl: "unat (deltaprogram (d ! 2) (d ! 3)) = ?n" using deltaprogram_duracion [OF se] by (simp add: s_def e_def)
  have "f = of_nat (unat i + unat (deltaprogram (d ! 2) (d ! 3)))" by (simp add: f_def)
  then have "f = of_nat (dia * 24 + s + ?n)" by (simp only: i dl)
  then have f: "unat f = dia * 24 + s + ?n" using dia s n by (simp only: unat_of_nat) simp
  have eq: "CreateMatrix_dia (map ucast d) pot dia sch =
      (if bit (d ! 1) dia then foldl (pinta pot) sch [unat i..<unat f] else sch)"
    unfolding CreateMatrix_dia_def Let_def v mask_bit i_def [symmetric] f_def [symmetric] ..
  have "(\<exists>h \<in> set [unat i..<unat f]. (h + 24) mod 168 = p) \<longleftrightarrow>
      (\<exists>h \<in> {24 * (dia + 1) + s..<24 * (dia + 1) + s + ?n}. h mod 168 = p)"
  proof -
    have "(\<lambda>h. h + 24) ` set [unat i..<unat f] = {24 * (dia + 1) + s..<24 * (dia + 1) + s + ?n}"
      by (simp add: i f image_add_atLeastLessThan' algebra_simps)
    then show ?thesis by (metis (no_types, lifting) imageE image_eqI)
  qed
  with tramo_semana [OF m(2), of ?n] n(2) nth_pinta [OF m] show ?thesis
    unfolding eq s_def e_def by (simp add: m)
qed


lemma CreateMatrix_dias_nth:
  assumes d: "programa_valido d" and m: "length sch = 168" and n: "n \<le> 7"
  shows "length (fold (CreateMatrix_dia (map ucast d) pot) [0..<n] sch) = 168 \<and>
    (\<forall>p < 168. fold (CreateMatrix_dia (map ucast d) pot) [0..<n] sch ! p =
      (if \<exists>dia \<in> {0..<n}. bit (d ! 1) dia \<and> (p + 168 - (24 * (dia + 1) + unat (d ! 2)) mod 168) mod 168
            < duracion (unat (d ! 2)) (unat (d ! 3)) then pot else sch ! p))"
  using n
proof (induction n)
  case (Suc n)
  then have IH: "length (fold (CreateMatrix_dia (map ucast d) pot) [0..<n] sch) = 168"
    and v: "\<And>p. p < 168 \<Longrightarrow> fold (CreateMatrix_dia (map ucast d) pot) [0..<n] sch ! p =
      (if \<exists>dia \<in> {0..<n}. bit (d ! 1) dia \<and> (p + 168 - (24 * (dia + 1) + unat (d ! 2)) mod 168) mod 168
            < duracion (unat (d ! 2)) (unat (d ! 3)) then pot else sch ! p)" by simp_all
  have n: "n < 7" using Suc.prems by simp
  note s = CreateMatrix_dia_nth [OF d n IH, of _ pot]
  show ?case
  proof (intro conjI allI impI)
    show "length (fold (CreateMatrix_dia (map ucast d) pot) [0..<Suc n] sch) = 168" using s [of 0] by simp
  next
    fix p :: nat assume p: "p < 168"
    show "fold (CreateMatrix_dia (map ucast d) pot) [0..<Suc n] sch ! p =
      (if \<exists>dia \<in> {0..<Suc n}. bit (d ! 1) dia \<and> (p + 168 - (24 * (dia + 1) + unat (d ! 2)) mod 168) mod 168
            < duracion (unat (d ! 2)) (unat (d ! 3)) then pot else sch ! p)"
      using s [OF p] v [OF p] by (auto simp: atLeastLessThanSuc)
  qed
qed (simp add: m)

lemma CreateMatrix_spec:
  assumes d: "programa_valido d" "activo d" and m: "length sch = 168"
  shows "\<exists>sch'. CreateMatrix (map ucast d) sch = (0, sch') \<and> length sch' = 168
    \<and> (\<forall>p < 168. sch' ! p = (if cubre d p then potencia d else sch ! p))"
proof -
  have l: "length d = 6" using d(2) by (simp add: activo_def)
  have a: "map ucast d ! 0 = (1 :: u16)" using l d(2) by (simp add: activo_def)
  have u: "uint (map ucast d ! 4 :: u16) = int (unat (d ! 4))" "uint (map ucast d ! 5 :: u16) = int (unat (d ! 5))"
    using l by (simp_all add: uint_u16_u8)
  have "(int (unat (d ! 4)) * 0x100 + int (unat (d ! 5))) div 100 = int ((256 * unat (d ! 4) + unat (d ! 5)) div 100)"
    by (simp only: zdiv_int of_nat_add of_nat_mult of_nat_numeral mult.commute [of 256])
  then have "of_int ((uint (map ucast d ! 4 :: u16) * 0x100 + uint (map ucast d ! 5 :: u16)) div 100) = potencia d"
    unfolding u potencia_def by (simp only: of_int_of_nat_eq)
  then show ?thesis
    using CreateMatrix_dias_nth [OF d(1) m, of 7 "potencia d"] a unfolding CreateMatrix_def cubre_def by simp
qed

lemma CreateMatrix_inactive: "length d = 6 \<Longrightarrow> \<not> activo d \<Longrightarrow> CreateMatrix (map ucast d) sch = (1, sch)"
proof -
  assume "length d = 6" "\<not> activo d"
  then have "(ucast (d ! 0) :: u16) \<noteq> 1" using ucast_u16_u8 [of "d ! 0"] by (auto simp: activo_def)
  with \<open>length d = 6\<close> show ?thesis by (simp add: CreateMatrix_def)
qed


text \<open>The matrix of a list of programmes: for each hour the last active programme that covers it decides.\<close>

lemma decodifica_spec:
  assumes "\<forall>d \<in> set ds. length d = 6 \<longrightarrow> programa_valido d" "length m = 168"
  shows "\<exists>m'. decodifica ds (a, m) = (if \<exists>d \<in> set ds. activo d then 1 else a, m') \<and> length m' = 168
    \<and> (\<forall>p < 168. m' ! p =
        (case filter (\<lambda>d. activo d \<and> cubre d p) (rev ds) of [] \<Rightarrow> m ! p | d # _ \<Rightarrow> potencia d))"
  using assms
proof (induction ds arbitrary: a m)
  case (Cons d ds)
  have last: "(case xs @ [d] of [] \<Rightarrow> x | e # _ \<Rightarrow> potencia e) = (case xs of [] \<Rightarrow> potencia d | e # _ \<Rightarrow> potencia e)"
    for xs and x :: u8 by (cases xs) simp_all
  have ds: "\<forall>d \<in> set ds. length d = 6 \<longrightarrow> programa_valido d" using Cons.prems(1) by simp
  show ?case
  proof (cases "length d = 6")
    case l: True
    then have v: "programa_valido d" using Cons.prems(1) by simp
    show ?thesis
    proof (cases "activo d")
      case True
      from CreateMatrix_spec [OF v True Cons.prems(2)] obtain sch' where
        s: "CreateMatrix (map ucast d) m = (0, sch')" "length sch' = 168"
          "\<forall>p < 168. sch' ! p = (if cubre d p then potencia d else m ! p)" by blast
      from Cons.IH [OF ds s(2), of 1] s True l show ?thesis by (auto simp: Hex_Array_id last split: list.split)
    next
      case False
      from Cons.IH [OF ds Cons.prems(2), of a] CreateMatrix_inactive [OF l False] l False show ?thesis
        by (auto simp: Hex_Array_id last split: list.split)
    qed
  next
    case False
    then have "\<not> activo d" by (simp add: activo_def)
    with Cons.IH [OF ds Cons.prems(2), of a] False show ?thesis by (auto simp: last)
  qed
qed simp

lemma decodifica_referencia:
  assumes "\<forall>d \<in> set ds. length d = 6 \<longrightarrow> programa_valido d"
  shows "decodifica ds (0, replicate 168 0) = (if \<exists>d \<in> set ds. activo d then 1 else 0, map (hora_programada ds) [0..<168])"
proof -
  from decodifica_spec [OF assms, of "replicate 168 0" 0] obtain m' where
    m': "decodifica ds (0, replicate 168 0) = (if \<exists>d \<in> set ds. activo d then 1 else 0, m')" "length m' = 168"
      "\<forall>p < 168. m' ! p = (case filter (\<lambda>d. activo d \<and> cubre d p) (rev ds) of [] \<Rightarrow> replicate 168 0 ! p | d # _ \<Rightarrow> potencia d)"
    by auto
  then have "m' = map (hora_programada ds) [0..<168]"
    by (intro nth_equalityI) (simp_all add: hora_programada_def split: list.split)
  with m'(1) show ?thesis by simp
qed

end
