(* ===== verification/Cloud_Client.thy ===== *)
theory Cloud_Client
  imports Cloud_Schedule Psoc_Control Group_Messages
begin

text \<open>
  The client of the cloud database (\<^verbatim>\<open>coms/VeltFirebase.cpp\<close>, and the reading and writing functions of
  \<^verbatim>\<open>coms/FirebaseClient.cpp\<close>). The HTTP client, the JSON library and base64 are outside the sources: a request
  is recorded in a trace and its outcome is given by its number, and the conversions of JSON values are
  parameters. A call through the pointer to a database that has been deleted is \<open>None\<close>.
\<close>

section \<open>State\<close>

datatype json_fb = JNull | JBool bool | JInt int | JText bytes | JObj "(string \<times> json_fb) list"

type_synonym campos = "(string \<times> json_fb) list"

text \<open>What is asked of the server: \<open>FB_UPDATE\<close>, \<open>FB_TIMESTAMP\<close>, \<open>FB_READ\<close>, \<open>FB_READ_ROOT\<close>, \<open>Get_Timestamp\<close>, \<open>LogIn\<close>.\<close>

datatype pedido_fb =
    Actualiza string campos
  | Marca string
  | Lee string
  | LeeRaiz string
  | LeeTs string
  | Entra

text \<open>
  The outcome of a request: the turns of 50 ms until the event handler has seen its end and the text received, or
  an error, with whether it was \<open>ESP_ERR_HTTP_CONNECT\<close>.
\<close>

datatype http = HttpOk nat bytes | HttpErr bool

record nube_lib =
  nl_u8 :: "json_fb \<Rightarrow> u8"
  nl_u16 :: "json_fb \<Rightarrow> u16"
  nl_bool :: "json_fb \<Rightarrow> bool"
  nl_int :: "json_fb \<Rightarrow> int option"
  nl_String :: "json_fb \<Rightarrow> bytes"
  nl_campo :: "json_fb \<Rightarrow> string \<Rightarrow> json_fb"
  nl_contiene :: "json_fb \<Rightarrow> string \<Rightarrow> bool"
  nl_parse :: "bytes \<Rightarrow> json_fb option"
  nl_b64_encode :: "bytes \<Rightarrow> bytes"
  nl_b64_decode :: "bytes \<Rightarrow> bytes"
  nl_ntoa :: "bytes \<Rightarrow> bytes"

text \<open>The members of \<^verbatim>\<open>carac_Firebase_Configuration\<close>, \<^verbatim>\<open>carac_Update_Status\<close> and the variables that only the cloud task uses.\<close>

record actualizacion =
  up_Alt_available :: bool
  up_Group :: bytes
  up_Branch :: bytes
  up_PSOC_UpdateAvailable :: bool
  up_ESP_UpdateAvailable :: bool
  up_PSOC_url :: bytes
  up_ESP_url :: bytes
  up_DescargandoArchivo :: bool
  up_InstalandoArchivo :: bool
  up_DobleUpdate :: bool

record sellos =
  ts_Params :: int
  ts_Comands :: int
  ts_Coms :: int
  ts_Status :: int
  ts_Schedule :: int
  ts_control :: int

record nube =
  nb_c :: control
  nb_Database :: bool
  nb_idToken :: bytes
  nb_Lectura :: json_fb
  nb_peticiones :: "pedido_fb list"
  nb_WriteParams :: bool
  nb_WriteControl :: bool
  nb_ClientConnected :: bool
  nb_PeriodoLectura :: u16
  nb_PeriodoFWUpdate :: u16
  nb_GroupsDebug :: u8
  nb_sellos :: sellos
  nb_fw_update :: bool
  nb_conn_lock :: bool
  nb_ts_inicio :: bool
  nb_LastConn :: u32
  nb_Update :: actualizacion
  nb_older_record_in_fb :: u8
  nb_write_records_trigger :: bool
  nb_retry_enable :: bool
  nb_askForPermission :: bool
  nb_givePermission :: bool

text \<open>
  What the task finds during a turn: the library, the outcomes of the requests by their number, whether a phone
  is connected, the clock in milliseconds, the answers of the PSoC to a schedule, the group, the address of its
  master, and the name and address of the WiFi.
\<close>

record entorno_nube =
  en_lib :: nube_lib
  en_http :: "nat \<Rightarrow> http"
  en_ble :: bool
  en_ms :: u32
  en_psoc :: "nat \<Rightarrow> bytes option"
  en_nodo :: nodo
  en_MasterIP :: bytes
  en_Wifi_AP :: bytes
  en_Wifi_IP :: bytes

definition con_c :: "(control \<Rightarrow> control) \<Rightarrow> nube \<Rightarrow> nube" where
  "con_c f s = s\<lparr>nb_c := f (nb_c s)\<rparr>"

definition estado_fb :: "nube \<Rightarrow> u8" where
  "estado_fb s = FirebaseConnState (ConfigFirebase (nb_c s))"

definition pasa_a :: "u8 \<Rightarrow> nube \<Rightarrow> nube" where
  "pasa_a est = con_c (\<lambda>c. c\<lparr>ConfigFirebase := (ConfigFirebase c)
     \<lparr>FirebaseConnState := est, LastConnState := FirebaseConnState (ConfigFirebase c)\<rparr>\<rparr>)"

text \<open>The states of the task (\<^verbatim>\<open>control.h\<close>); 0 is \<open>DISCONNECTED\<close> of theory \<open>Psoc_Control\<close>.\<close>

definition DISCONNECTING :: u8 where "DISCONNECTING = 2"
definition CONNECTING :: u8 where "CONNECTING = 5"
definition CONECTADO :: u8 where "CONECTADO = 10"
definition IDLE :: u8 where "IDLE = 20"
definition USER_CONNECTED :: u8 where "USER_CONNECTED = 21"
definition READING_CONTROL :: u8 where "READING_CONTROL = 25"
definition READING_PARAMS :: u8 where "READING_PARAMS = 26"
definition READING_COMS :: u8 where "READING_COMS = 27"
definition WRITING_CONTROL :: u8 where "WRITING_CONTROL = 35"
definition WRITING_STATUS :: u8 where "WRITING_STATUS = 36"
definition WRITING_PARAMS :: u8 where "WRITING_PARAMS = 37"
definition WRITING_COMS :: u8 where "WRITING_COMS = 38"
definition WRITING_TIMES :: u8 where "WRITING_TIMES = 39"
definition WRITING_RECORD :: u8 where "WRITING_RECORD = 40"
definition DOWNLOADING :: u8 where "DOWNLOADING = 55"
definition UPDATING :: u8 where "UPDATING = 65"
definition INSTALLING :: u8 where "INSTALLING = 70"

lemmas estados_fb = DISCONNECTING_def CONNECTING_def CONECTADO_def IDLE_def USER_CONNECTED_def READING_CONTROL_def
  READING_PARAMS_def READING_COMS_def WRITING_CONTROL_def WRITING_STATUS_def WRITING_PARAMS_def WRITING_COMS_def
  WRITING_TIMES_def WRITING_RECORD_def DOWNLOADING_def UPDATING_def INSTALLING_def

section \<open>The client\<close>

definition pide :: "entorno_nube \<Rightarrow> pedido_fb \<Rightarrow> nube \<Rightarrow> (http \<times> nube) option" where
  "pide e p s =
     (if nb_Database s
      then Some (en_http e (length (nb_peticiones s)), s\<lparr>nb_peticiones := nb_peticiones s @ [p]\<rparr>)
      else None)"

text \<open>
  The event handler collects the pieces of an answer in a buffer of 1500 bytes; each piece passes through one of
  512 bytes.
\<close>

fun http_on_data :: "bytes list \<Rightarrow> bytes \<Rightarrow> nat \<Rightarrow> (bytes \<times> nat) option" where
  "http_on_data [] TotalResponse Readed = Some (TotalResponse, Readed)"
| "http_on_data (d # ds) TotalResponse Readed =
     (if 0 < length d
      then if 512 < length d then None
           else Option.bind (mem_write TotalResponse Readed d) (\<lambda>b. http_on_data ds b (Readed + length d))
      else http_on_data ds TotalResponse Readed)"

definition esperado :: "nat \<Rightarrow> bool" where
  "esperado n \<longleftrightarrow> n < 30"

definition lee_json :: "entorno_nube \<Rightarrow> bytes \<Rightarrow> json_fb" where
  "lee_json e t = (case nl_parse (en_lib e) t of None \<Rightarrow> JNull | Some j \<Rightarrow> j)"

text \<open>
  \<^verbatim>\<open>Send_Command\<close>: the document that is read or acknowledged with is \<^verbatim>\<open>Lectura\<close> if \<open>lect\<close> holds, and a
  local one otherwise.
\<close>

definition Send_Command :: "entorno_nube \<Rightarrow> bool \<Rightarrow> pedido_fb \<Rightarrow> nube \<Rightarrow> (bool \<times> nube) option" where
  "Send_Command e lect p s =
     map_option (\<lambda>(r, s1).
       let pon = (\<lambda>j. if lect then s1\<lparr>nb_Lectura := j\<rparr> else s1)
       in case r of
            HttpErr _ \<Rightarrow> (False, s1)
          | HttpOk n t \<Rightarrow>
              (case p of
                 Actualiza _ _ \<Rightarrow> (True, pon JNull)
               | Marca _ \<Rightarrow> (True, pon JNull)
               | _ \<Rightarrow> if esperado n then (True, pon (lee_json e t)) else (False, pon JNull))) (pide e p s)"

text \<open>\<^verbatim>\<open>Get_Timestamp\<close>: a failed connection puts the task into the state \<open>DISCONNECTING\<close>.\<close>

definition Get_Timestamp :: "entorno_nube \<Rightarrow> string \<Rightarrow> nube \<Rightarrow> (int \<times> nube) option" where
  "Get_Timestamp e path s =
     map_option (\<lambda>(r, s1).
       case r of
         HttpErr conexion \<Rightarrow> (- 1, if conexion then pasa_a DISCONNECTING s1 else s1)
       | HttpOk n t \<Rightarrow>
           if esperado n
           then (atol t, if atol t < 1 then s1\<lparr>nb_Lectura := lee_json e t\<rparr> else s1)
           else (0, s1)) (pide e (LeeTs path) (s\<lparr>nb_Lectura := JNull\<rparr>))"

text \<open>\<^verbatim>\<open>LogIn\<close>: an answer without a token is read as the text of its missing member.\<close>

definition LogIn :: "entorno_nube \<Rightarrow> nube \<Rightarrow> (bool \<times> nube) option" where
  "LogIn e s =
     map_option (\<lambda>(r, s1).
       case r of
         HttpErr _ \<Rightarrow> (False, s1)
       | HttpOk n t \<Rightarrow>
           (case nl_parse (en_lib e) t of
              None \<Rightarrow> (False, s1)
            | Some j \<Rightarrow> let tok = nl_String (en_lib e) (nl_campo (en_lib e) j ''idToken'')
                        in (tok \<noteq> [], s1\<lparr>nb_idToken := tok\<rparr>))) (pide e Entra s)"

text \<open>\<^verbatim>\<open>initFirebaseClient\<close>; the initialisation of the HTTP client in \<^verbatim>\<open>begin\<close> is taken to succeed.\<close>

definition initFirebaseClient :: "entorno_nube \<Rightarrow> nube \<Rightarrow> (bool \<times> nube) option" where
  "initFirebaseClient e s = LogIn e s"

section \<open>Writing\<close>

definition escribe :: "entorno_nube \<Rightarrow> string \<Rightarrow> campos \<Rightarrow> nube \<Rightarrow> (bool \<times> nube) option" where
  "escribe e path d = Send_Command e False (Actualiza path d)"

text \<open>The common end of the writing functions: an update, and if it succeeds the time stamp.\<close>

definition escribe_y_marca :: "entorno_nube \<Rightarrow> bool \<Rightarrow> string \<Rightarrow> string \<Rightarrow> campos \<Rightarrow> nube \<Rightarrow> (bool \<times> nube) option" where
  "escribe_y_marca e lect path marca d s =
     do { (b, s1) \<leftarrow> escribe e path d s;
          if b then Send_Command e lect (Marca (path @ marca)) s1 else Some (False, s1) }"

abbreviation JU :: "'a::len word \<Rightarrow> json_fb" where "JU w \<equiv> JInt (uint w)"

definition medidas_fb :: "string \<Rightarrow> caract_measures \<Rightarrow> campos" where
  "medidas_fb fase ms =
     [(fase @ ''/inst_current'', JU (instant_current ms)), (fase @ ''/inst_voltage'', JU (instant_voltage ms)),
      (fase @ ''/active_power'', JU (active_power ms)), (fase @ ''/active_energy'', JU (active_energy ms))]"

definition doc_status :: "carac_Status \<Rightarrow> campos" where
  "doc_status st =
     (let letra = HPT_status st ! 0; n = (if letra \<noteq> 70 \<and> letra \<noteq> 69 then 2 else 1)
      in [(''hpt'', JText (take n (c_cadena (HPT_status st)))), (''icp'', JBool (ICP_status st)),
          (''dc_leak'', JBool (DC_Leack_status st)), (''conn_lock_stat'', JBool (Con_Lock st)),
          (''real_current_limit'', JU (current_limit st)),
          (''max_current_cable'', JU (max_current_cable (Measures st))),
          (''measures_phase_A/home_current'', JU (consumo_domestico (Measures st)))]
         @ medidas_fb ''measures_phase_A'' (Measures st)
         @ (if Trifasico st then medidas_fb ''measures_phase_B'' (MeasuresB st)
              @ medidas_fb ''measures_phase_C'' (MeasuresC st) else [])
         @ [(''ext_meter/net_power'', JInt (sint (net_power st))),
            (''ext_meter/total_power'', JInt (sint (total_power st))), (''error_code'', JU (error_code st))])"

definition WriteFirebaseStatus :: "entorno_nube \<Rightarrow> nube \<Rightarrow> (bool \<times> nube) option" where
  "WriteFirebaseStatus e s = escribe_y_marca e True ''/status'' ''/ts_dev_ack'' (doc_status (Status (nb_c s))) s"

definition WriteFirebaseTimes :: "entorno_nube \<Rightarrow> nube \<Rightarrow> (bool \<times> nube) option" where
  "WriteFirebaseTimes e s =
     (let t = Time (Status (nb_c s))
      in escribe e ''/status/times''
           [(''connect_ts'', JInt (connect_date_time t * 1000)),
            (''disconnect_ts'', JInt (disconnect_date_time t * 1000)),
            (''charge_start_ts'', JInt (charge_start_time t * 1000)),
            (''charge_stop_ts'', JInt (charge_stop_time t * 1000))] s)"

definition WriteFirebaseParams :: "entorno_nube \<Rightarrow> nube \<Rightarrow> (bool \<times> nube) option" where
  "WriteFirebaseParams e s =
     (let p = Params (nb_c s)
      in escribe_y_marca e False ''/params'' ''/ts_dev_ack''
           [(''auth_mode'', JText (take 2 (c_cadena (pa_autentication_mode p)))),
            (''inst_curr_limit'', JU (pa_install_current_limit p)),
            (''contract_power1'', JU (pa_potencia_contratada1 p)),
            (''contract_power2'', JU (pa_potencia_contratada2 p)), (''dpc'', JU (pa_CDP p)),
            (''fw_auto'', JText (take 2 (c_cadena (pa_Fw_Update_mode p @ pa_autentication_mode p))))] s)"

definition WriteFirebaseComs :: "entorno_nube \<Rightarrow> nube \<Rightarrow> (bool \<times> nube) option" where
  "WriteFirebaseComs e s =
     (let m = Coms (nb_c s); t = ETH m; nt = (\<lambda>ip. JText (nl_ntoa (en_lib e) ip)); dos = eth_Auto t \<and> eth_ON t
      in escribe_y_marca e False ''/coms'' ''/ts_dev_ack''
           [(''wifi/on'', JBool (Wifi_ON m)), (''wifi/ssid'', JText (c_cadena (en_Wifi_AP e))),
            (''eth/on'', JBool (eth_ON t)), (''eth/auto'', JBool (eth_Auto t)),
            (''eth/ip'', if dos then nt (eth_IP t) else JText []),
            (''eth/gateway'', if dos then nt (eth_Gateway t) else JText []),
            (''eth/mask'', if dos then nt (eth_Mask t) else JText []),
            (''wifi/ip'', if Wifi_ON m then nt (en_Wifi_IP e) else JText [])] s)"

definition WriteFirebaseControl :: "entorno_nube \<Rightarrow> nube \<Rightarrow> (bool \<times> nube) option" where
  "WriteFirebaseControl e s =
     escribe e ''/control''
       [(''fw_update'', JBool False), (''reset'', JBool False), (''start'', JBool False), (''stop'', JBool False),
        (''desired_current'', JU (desired_current (Comands (nb_c s))))] s"

definition texto_de :: "string \<Rightarrow> bytes" where "texto_de = map a_byte"
definition cadena_de :: "bytes \<Rightarrow> string" where "cadena_de = map a_char"

definition ParseFirmwareModel :: "bytes \<Rightarrow> bytes" where
  "ParseFirmwareModel Texto = take 5 (c_cadena Texto)"

definition WriteFirebaseFW :: "entorno_nube \<Rightarrow> nube \<Rightarrow> (bool \<times> nube) option" where
  "WriteFirebaseFW e s =
     (let c = nb_c s; fw = FirmwareESP (Configuracion c); mESP = ParseFirmwareModel ESP_version_firmware;
          mPSOC = ParseFirmwareModel (PSOC_version_firmware c);
          vPSOC = JText (c_cadena (PSOC_version_firmware c))
      in escribe e ''/fw/current''
           (if fw < 1000
            then [(cadena_de mESP, JText (mESP @ texto_de ''_0'' @ decimal (unat fw))), (cadena_de mPSOC, vPSOC)]
            else [(''VBLE2'', JText (texto_de ''VBLE2_'' @ decimal (unat fw))), (cadena_de mPSOC, vPSOC)]) s)"

definition WriteInitTimestamp :: "entorno_nube \<Rightarrow> nube \<Rightarrow> (bool \<times> nube) option" where
  "WriteInitTimestamp e = escribe_y_marca e False ''/ts_last_init'' ''/ts_dev_ack'' []"

definition ReiniciarMultiusuario :: "entorno_nube \<Rightarrow> nube \<Rightarrow> nube option" where
  "ReiniciarMultiusuario e s =
     map_option snd (escribe e ''/params/user''
       [(''charg_user_id'', JInt 255), (''user_index'', JInt 255), (''user_type'', JInt 255)] s)"

definition WriteFirebaseLastRecordSynced :: "entorno_nube \<Rightarrow> nube \<Rightarrow> (bool \<times> nube) option" where
  "WriteFirebaseLastRecordSynced e s =
     (let r = Registros (nb_c s)
      in escribe_y_marca e False ''/records_sync'' ''/writing_ts''
           [(''last_record_in_mem'', JU (last_record_in_mem r)), (''writing_record_index'', JU (record_index r)),
            (''last_record_lap'', JU (last_record_lap r))] s)"

definition WriteFirebaseOlderSyncRecord :: "entorno_nube \<Rightarrow> u8 \<Rightarrow> nube \<Rightarrow> (bool \<times> nube) option" where
  "WriteFirebaseOlderSyncRecord e rec_index =
     escribe_y_marca e False ''/records_sync'' ''/writing_ts'' [(''older_record_in_fb'', JU rec_index)]"

definition WriteFirebaseRecordsTrigger :: "entorno_nube \<Rightarrow> bool \<Rightarrow> nube \<Rightarrow> (bool \<times> nube) option" where
  "WriteFirebaseRecordsTrigger e v = escribe e ''/records_sync'' [(''write_records_trigger'', JBool v)]"

definition doc_cargador :: "carac_charger \<Rightarrow> string \<times> json_fb" where
  "doc_cargador x =
     (takeWhile (\<lambda>k. k \<noteq> CHR 0x00) (ch_name x),
      JObj [(''circuit'', JInt (int (ch_Circuito x))), (''phase'', JInt (int (ch_Fase x))),
            (''setpoint'', JInt (int (ch_Consigna x))), (''hpt'', JText (c_cadena (texto_de (ch_HPT x)))),
            (''current'', JInt (int (ch_Current x)))])"

definition WriteFirebaseGroupData :: "entorno_nube \<Rightarrow> nube \<Rightarrow> (bool \<times> nube) option" where
  "WriteFirebaseGroupData e s =
     (let d = en_nodo e; g = no_gc d
      in escribe_y_marca e False ''/group_data'' ''/ts_dev_ack''
           [(''params/master'', JBool (no_GroupMaster d = 1)), (''params/active'', JBool (no_GroupActive d = 1)),
            (''params/cdp'', JInt (int (gc_CDP g))), (''status/chargers'', JInt (int (gc_Charger_number g))),
            (''status/circuits'', JInt (int (gc_Circuit_number g))),
            (''status/connected'', JBool (gr_Conected (ChargingGroup (nb_c s)))),
            (''params/max_dynamic_power'', JInt (int (gc_ContractPower g))),
            (''params/max_static_power'', JInt (int (gc_potencia_max g))),
            (''struct'', JObj (if no_GroupMaster d \<noteq> 0
                               then map doc_cargador (take (gc_Charger_number g) (gc_table g)) else [])),
            (''status/masterIP'', JText (nl_ntoa (en_lib e) (en_MasterIP e)))] s)"

section \<open>Reading\<close>

text \<open>
  The common beginning of the reading functions: if the time stamp is newer than the one kept, the values are read
  and processed by \<open>f\<close>, and the reading is acknowledged. \<open>fallo\<close> is the result when the values cannot be read.
\<close>

definition si_nuevo ::
  "entorno_nube \<Rightarrow> string \<Rightarrow> int \<Rightarrow> bool \<Rightarrow> (int \<Rightarrow> nube \<Rightarrow> nube option) \<Rightarrow> nube \<Rightarrow> (bool \<times> nube) option" where
  "si_nuevo e path previo fallo f s =
     do { (ts, s1) \<leftarrow> Get_Timestamp e (path @ ''/ts_app_req'') s;
          if previo < ts
          then do { (b, s2) \<leftarrow> Send_Command e True (Lee path) (s1\<lparr>nb_Lectura := JNull\<rparr>);
                    if b then do { s3 \<leftarrow> f ts s2;
                                   Send_Command e True (Marca (path @ ''/ts_dev_ack'')) s3 }
                    else Some (fallo, s2) }
          else Some (True, s1) }"

definition clave_programa :: "nat \<Rightarrow> string" where
  "clave_programa i = (if i < 10 then ''P0'' else ''P'') @ cadena_de (decimal i)"

fun programas :: "nube_lib \<Rightarrow> json_fb \<Rightarrow> nat \<Rightarrow> nat \<Rightarrow> bytes list" where
  "programas L j i 0 = []"
| "programas L j i (Suc n) =
     (let v = nl_campo L (nl_campo L j ''programs_utc'') (clave_programa i)
      in if nl_bool L v then nl_String L v # programas L j (i + 1) n else [])"

text \<open>All hundred entries of the array are decoded, the ones behind the last programme being empty.\<close>

definition cien_programas :: "nube_lib \<Rightarrow> json_fb \<Rightarrow> bytes list" where
  "cien_programas L j =
     (let ps = programas L j 0 100 in map (nl_b64_decode L) (ps @ replicate (100 - length ps) []))"

definition ReadFirebaseShedule :: "entorno_nube \<Rightarrow> nube \<Rightarrow> (bool \<times> nube) option" where
  "ReadFirebaseShedule e s = si_nuevo e ''/schedule'' (ts_Schedule (nb_sellos s)) True (\<lambda>ts s2.
     case decodifica (cien_programas (en_lib e) (nb_Lectura s2)) (0, replicate 168 0) of
       (alguna_activa, plainMatrix) \<Rightarrow>
         Some ((con_c (SendScheduleMatrixToPSOC5 (en_psoc e) plainMatrix \<circ>
                       envia alguna_activa CHARGING_INSTANT_DELAYED_CHAR_HANDLE) s2)
               \<lparr>nb_sellos := (nb_sellos s2)\<lparr>ts_Schedule := ts\<rparr>\<rparr>)) s"

definition ReadFirebaseComs :: "entorno_nube \<Rightarrow> nube \<Rightarrow> (bool \<times> nube) option" where
  "ReadFirebaseComs e s = si_nuevo e ''/coms'' (ts_Coms (nb_sellos s)) True (\<lambda>ts s2.
     let L = en_lib e; v = (\<lambda>a b. nl_bool L (nl_campo L (nl_campo L (nb_Lectura s2) a) b))
     in Some ((con_c (\<lambda>c. c\<lparr>Coms := (Coms c)\<lparr>Wifi_ON := v ''wifi'' ''on'',
                 ETH := (ETH (Coms c))\<lparr>eth_ON := v ''eth'' ''on'', eth_Auto := v ''eth'' ''auto''\<rparr>\<rparr>\<rparr>) s2)
               \<lparr>nb_sellos := (nb_sellos s2)\<lparr>ts_Coms := ts\<rparr>\<rparr>)) s"

text \<open>Two characters of a text as \<^verbatim>\<open>memcmp\<close> and \<^verbatim>\<open>memcpy\<close> read them; what follows the terminator is taken as 0.\<close>

definition dos_letras :: "bytes \<Rightarrow> bytes" where "dos_letras t = take 2 (c_cadena t @ [0, 0])"

text \<open>\<^verbatim>\<open>Fw_Update_mode[2] = 0\<close> hits the next array (\<open>poner_Fw_Update_mode\<close>).\<close>

definition params_auth :: "bytes \<Rightarrow> control \<Rightarrow> control" where
  "params_auth a c =
     (if memcmp (take 2 (pa_autentication_mode (Params c))) a \<noteq> 0
      then emite [Envia CONFIGURACION_AUTENTICATION_MODES_CHAR_HANDLE a]
             (c\<lparr>Params := (Params c)\<lparr>pa_autentication_mode := a\<rparr>\<rparr>)
      else c)"

definition params_fw :: "bytes \<Rightarrow> control \<Rightarrow> control" where
  "params_fw f c =
     (if memcmp (take 2 (pa_Fw_Update_mode (Params c))) f \<noteq> 0
      then emite [Envia COMS_FW_UPDATEMODE_CHAR_HANDLE f] (c\<lparr>Params := poner_Fw_Update_mode f (Params c)\<rparr>)
      else c)"

definition bytes16 :: "u16 \<Rightarrow> bytes" where "bytes16 w = [ucast w, ucast (drop_bit 8 w)]"

definition params_potencia1 :: "u16 \<Rightarrow> control \<Rightarrow> control" where
  "params_potencia1 w c =
     (if pa_potencia_contratada1 (Params c) \<noteq> w
      then emite [Envia DOMESTIC_CONSUMPTION_POTENCIA_CONTRATADA_P1_CHAR_HANDLE (bytes16 w)]
             (c\<lparr>Params := (Params c)\<lparr>pa_potencia_contratada1 := w\<rparr>\<rparr>) else c)"

definition params_potencia2 :: "u16 \<Rightarrow> control \<Rightarrow> control" where
  "params_potencia2 w c =
     (if pa_potencia_contratada2 (Params c) \<noteq> w
      then emite [Envia DOMESTIC_CONSUMPTION_POTENCIA_CONTRATADA_P2_CHAR_HANDLE (bytes16 w)]
             (c\<lparr>Params := (Params c)\<lparr>pa_potencia_contratada2 := w\<rparr>\<rparr>) else c)"

definition params_CDP :: "u8 \<Rightarrow> control \<Rightarrow> control" where
  "params_CDP b c =
     (if pa_CDP (Params c) \<noteq> b
      then envia b DOMESTIC_CONSUMPTION_DPC_MODE_CHAR_HANDLE (c\<lparr>Params := (Params c)\<lparr>pa_CDP := b\<rparr>\<rparr>) else c)"

definition params_limite :: "u8 \<Rightarrow> control \<Rightarrow> control" where
  "params_limite b c =
     (if pa_install_current_limit (Params c) \<noteq> b
      then envia b MEASURES_INSTALATION_CURRENT_LIMIT_CHAR_HANDLE
             (c\<lparr>Params := (Params c)\<lparr>pa_install_current_limit := b\<rparr>\<rparr>) else c)"

definition ReadFirebaseParams :: "entorno_nube \<Rightarrow> nube \<Rightarrow> (bool \<times> nube) option" where
  "ReadFirebaseParams e s = si_nuevo e ''/params'' (ts_Params (nb_sellos s)) False (\<lambda>ts s2.
     let L = en_lib e; j = nb_Lectura s2; t = (\<lambda>k. nl_String L (nl_campo L j k));
         cambios = params_limite (nl_u8 L (nl_campo L j ''inst_curr_limit'')) \<circ>
                   params_CDP (nl_u8 L (nl_campo L j ''dpc'')) \<circ>
                   params_potencia2 (nl_u16 L (nl_campo L j ''contract_power_P2'')) \<circ>
                   params_potencia1 (nl_u16 L (nl_campo L j ''contract_power'')) \<circ>
                   params_fw (dos_letras (t ''fw_auto'')) \<circ> params_auth (dos_letras (t ''auth_mode''))
     in Some ((con_c (if t ''auth_mode'' \<noteq> texto_de ''null'' then cambios else id) s2)
               \<lparr>nb_sellos := (nb_sellos s2)\<lparr>ts_Params := ts\<rparr>\<rparr>)) s"

definition ReadFirebasePath :: "entorno_nube \<Rightarrow> string \<Rightarrow> nube \<Rightarrow> (bool \<times> nube) option" where
  "ReadFirebasePath e path s =
     map_option (\<lambda>(b, s1). (b \<and> nb_Lectura s1 \<noteq> JNull, s1)) (Send_Command e True (Lee path) (s\<lparr>nb_Lectura := JNull\<rparr>))"

definition ReadFirebaseUser :: "entorno_nube \<Rightarrow> nube \<Rightarrow> (bool \<times> nube) option" where
  "ReadFirebaseUser e s =
     map_option (\<lambda>(b, s1).
       let L = en_lib e; index = nl_u8 L (nl_campo L (nb_Lectura s1) ''user_index'');
           type = nl_u8 L (nl_campo L (nb_Lectura s1) ''user_type'')
       in if b
          then (True, con_c ((if type \<noteq> 255 then envia type VCD_NAME_USERS_USER_TYPE_CHAR_HANDLE else id) \<circ>
                             (if index \<noteq> 255 then envia index VCD_NAME_USERS_USER_INDEX_CHAR_HANDLE else id)) s1)
          else (False, s1)) (Send_Command e True (Lee ''/params/user'') (s\<lparr>nb_Lectura := JNull\<rparr>))"

text \<open>The orders of the application. A wanted current is taken over only if it is a number above 6 and no group is active.\<close>

definition control_leido :: "nube_lib \<Rightarrow> json_fb \<Rightarrow> nube \<Rightarrow> nube" where
  "control_leido L j s =
     (let c = nb_c s; m = Comands c; si = (\<lambda>k v. nl_bool L (nl_campo L j k) \<or> v);
          m1 = m\<lparr>cmd_start := si ''start'' (cmd_start m), cmd_stop := si ''stop'' (cmd_stop m),
                 cmd_reset := si ''reset'' (cmd_reset m)\<rparr>;
          d = nl_campo L j ''desired_current'';
          nueva = (case nl_int L d of None \<Rightarrow> False
                   | Some v \<Rightarrow> v \<noteq> uint (desired_current m) \<and> \<not> cmd_Newdata m \<and> 6 < v);
          m2 = (if nueva \<and> gr_GroupActive (ChargingGroup c) = 0
                then m1\<lparr>desired_current := nl_u8 L d, cmd_Newdata := True\<rparr> else m1)
      in s\<lparr>nb_c := c\<lparr>Comands := m2, ConfigFirebase := (ConfigFirebase c)\<lparr>ClientAuthenticated := cmd_start m1\<rparr>\<rparr>,
           nb_fw_update := si ''fw_update'' (nb_fw_update s), nb_conn_lock := si ''conn_lock'' (nb_conn_lock s)\<rparr>)"

definition ReadFirebaseControl :: "entorno_nube \<Rightarrow> nube \<Rightarrow> (bool \<times> nube) option" where
  "ReadFirebaseControl e s = si_nuevo e ''/control'' (ts_control (nb_sellos s)) False (\<lambda>ts s2.
     map_option snd (WriteFirebaseControl e
       (control_leido (en_lib e) (nb_Lectura s2) (s2\<lparr>nb_sellos := (nb_sellos s2)\<lparr>ts_control := ts\<rparr>\<rparr>)))) s"

text \<open>The global settings of the service.\<close>

definition lee_raiz :: "entorno_nube \<Rightarrow> string \<Rightarrow> (json_fb \<Rightarrow> nube \<Rightarrow> nube) \<Rightarrow> nube \<Rightarrow> (bool \<times> nube) option" where
  "lee_raiz e path f s =
     map_option (\<lambda>(b, s1). (b, if b then f (nb_Lectura s1) s1 else s1))
       (Send_Command e True (LeeRaiz path) (s\<lparr>nb_Lectura := JNull\<rparr>))"

definition ReadFirebaseReadingPeriod :: "entorno_nube \<Rightarrow> nube \<Rightarrow> (bool \<times> nube) option" where
  "ReadFirebaseReadingPeriod e = lee_raiz e ''/prod/global_vars/coms_period''
     (\<lambda>j s1. s1\<lparr>nb_PeriodoLectura := ucast (nl_u8 (en_lib e) j) * 1000\<rparr>)"

definition ReadFirebaseUpdatePeriod :: "entorno_nube \<Rightarrow> nube \<Rightarrow> (bool \<times> nube) option" where
  "ReadFirebaseUpdatePeriod e = lee_raiz e ''/prod/global_vars/update_period''
     (\<lambda>j s1. s1\<lparr>nb_PeriodoFWUpdate := nl_u16 (en_lib e) j\<rparr>)"

definition ReadFirebaseGroupsDebug :: "entorno_nube \<Rightarrow> nube \<Rightarrow> (bool \<times> nube) option" where
  "ReadFirebaseGroupsDebug e = lee_raiz e ''/prod/global_vars/groups_debug''
     (\<lambda>j s1. s1\<lparr>nb_GroupsDebug := of_nat (unat (nl_u8 (en_lib e) j) * 1000)\<rparr>)"

definition ReadFirebaseOlderSyncRecord :: "entorno_nube \<Rightarrow> nube \<Rightarrow> (bool \<times> nube) option" where
  "ReadFirebaseOlderSyncRecord e s =
     do { (b, s1) \<leftarrow> Send_Command e True (Lee ''/records_sync'') (s\<lparr>nb_Lectura := JNull\<rparr>);
          let L = en_lib e;
          if \<not> b then Some (False, s1)
          else if nl_contiene L (nb_Lectura s1) ''older_record_in_fb''
          then Some (True, s1\<lparr>nb_older_record_in_fb := nl_u8 L (nl_campo L (nb_Lectura s1) ''older_record_in_fb'')\<rparr>)
          else do { (_, s2) \<leftarrow> WriteFirebaseOlderSyncRecord e 0 (s1\<lparr>nb_older_record_in_fb := 0\<rparr>);
                    Some (True, s2) } }"

definition ReadFirebaseRecordsTrigger :: "entorno_nube \<Rightarrow> nube \<Rightarrow> (bool \<times> nube) option" where
  "ReadFirebaseRecordsTrigger e s =
     map_option (\<lambda>(b, s1).
       let L = en_lib e; hay = b \<and> nl_contiene L (nb_Lectura s1) ''write_records_trigger''
       in (hay, if hay
                then s1\<lparr>nb_write_records_trigger := nl_bool L (nl_campo L (nb_Lectura s1) ''write_records_trigger'')\<rparr>
                else s1)) (Send_Command e True (Lee ''/records_sync'') (s\<lparr>nb_Lectura := JNull\<rparr>))"

section \<open>Basic facts\<close>

text \<open>A request needs a database and keeps it; the trace grows by the request.\<close>

definition hecho :: "pedido_fb \<Rightarrow> json_fb \<Rightarrow> nube \<Rightarrow> nube" where
  "hecho p j s = s\<lparr>nb_peticiones := nb_peticiones s @ [p], nb_Lectura := j\<rparr>"

lemma hecho_sel [simp]:
  "nb_c (hecho p j s) = nb_c s" "nb_Database (hecho p j s) = nb_Database s" "nb_Lectura (hecho p j s) = j"
  "nb_peticiones (hecho p j s) = nb_peticiones s @ [p]" "nb_sellos (hecho p j s) = nb_sellos s"
  by (simp_all add: hecho_def)

lemma hecho_misma: "s\<lparr>nb_peticiones := nb_peticiones s @ [p]\<rparr> = hecho p (nb_Lectura s) s"
  by (simp add: hecho_def)

lemma hecho_Lectura [simp]: "hecho p j (s\<lparr>nb_Lectura := k\<rparr>) = hecho p j s"
  by (simp add: hecho_def)

lemma Send_Command_cases:
  assumes "nb_Database s"
  shows "\<exists>b j. Send_Command e lect p s = Some (b, hecho p j s)"
proof -
  let ?s1 = "s\<lparr>nb_peticiones := nb_peticiones s @ [p]\<rparr>"
  have "\<exists>b. Send_Command e lect p s = Some (b, ?s1) \<or> (\<exists>j. Send_Command e lect p s = Some (b, ?s1\<lparr>nb_Lectura := j\<rparr>))"
    using assms
    by (cases "en_http e (length (nb_peticiones s))"; cases p) (auto simp: Send_Command_def pide_def)
  moreover have "?s1\<lparr>nb_Lectura := j\<rparr> = hecho p j s" for j by (simp add: hecho_def)
  ultimately show ?thesis using hecho_misma by metis
qed

lemma Send_Command_Lee:
  "nb_Database s \<Longrightarrow> en_http e (length (nb_peticiones s)) = HttpOk n t \<Longrightarrow> n < 30 \<Longrightarrow>
     Send_Command e True (Lee q) s = Some (True, hecho (Lee q) (lee_json e t) s)"
  by (simp add: Send_Command_def pide_def esperado_def hecho_def)

lemma Get_Timestamp_ok:
  assumes "nb_Database s" "en_http e (length (nb_peticiones s)) = HttpOk n t" "n < 30"
  shows "\<exists>j. Get_Timestamp e q s = Some (atol t, hecho (LeeTs q) j s)"
proof -
  have "Get_Timestamp e q s = Some (atol t, hecho (LeeTs q) (if atol t < 1 then lee_json e t else JNull) s)"
    using assms by (auto simp: Get_Timestamp_def pide_def esperado_def hecho_def)
  then show ?thesis by blast
qed

lemma SendScheduleMatrix_salida: "\<exists>zs. salida (SendScheduleMatrixToPSOC5 resp data c) = salida c @ zs"
proof -
  have dia: "\<exists>zs. salida (fold (schedule_dia data) ds c) = salida c @ zs" for ds c
  proof (induction ds arbitrary: c)
    case (Cons d ds)
    have "\<exists>zs. salida (schedule_dia data d c) = salida c @ zs" by (simp add: schedule_dia_def emite_def)
    with Cons.IH [of "schedule_dia data d c"] show ?case by (elim exE) simp
  qed simp
  have intentos: "\<exists>zs. salida (schedule_intentos rs data c) = salida c @ zs" for rs
  proof (induction rs arbitrary: c)
    case (Cons r rs)
    have "\<exists>zs. salida (bloque_schedule buf d) = salida d @ zs" for buf d
      by (simp add: bloque_schedule_def modifyCharacteristics_def emite_def)
    with Cons.IH dia [of "[0..<7]" c] show ?case
      by (auto simp: Let_def split: option.split) (metis append.assoc)+
  qed simp
  show ?thesis
    using intentos [of "[resp 0, resp 1, resp 2]"] by (simp add: SendScheduleMatrixToPSOC5_def del: schedule_intentos.simps)
qed

lemma nuevos_trans:
  assumes "salida c1 = salida c @ xs" "nuevos c1 c2 = ys" "\<exists>zs. salida c2 = salida c1 @ zs"
  shows "nuevos c c2 = xs @ ys"
  using assms by (auto simp: nuevos_def)

text \<open>
  C28: the charging programmes of the cloud reach the PSoC as they are meant. When the time stamp of the schedule is
  newer than the one kept and the programmes can be read, the PSoC is told whether any programme is active, and is sent the week in
  which each hour has the power of the last active programme that covers it and no power otherwise; when it confirms
  that week nothing more is sent, and the reading is acknowledged to the cloud.
\<close>

theorem cloud_schedule_reaches_psoc:
  assumes "nb_Database s" "en_http e (length (nb_peticiones s)) = HttpOk n t" "n < 30"
    "ts_Schedule (nb_sellos s) < atol t"
    "en_http e (length (nb_peticiones s) + 1) = HttpOk n' t'" "n' < 30"
    "ds = cien_programas (en_lib e) (lee_json e t')" "\<forall>d \<in> set ds. length d = 6 \<longrightarrow> programa_valido d"
    "length (global_schedule_buffer (nb_c s)) = 168" "\<not> flag_schedule_ack (nb_c s)"
    "M = map (hora_programada ds) [0..<168]" "en_psoc e 0 = Some buf" "take 168 buf = M"
  shows "\<exists>b s'. ReadFirebaseShedule e s = Some (b, s')
    \<and> nuevos (nb_c s) (nb_c s') =
        [Envia CHARGING_INSTANT_DELAYED_CHAR_HANDLE [if \<exists>d \<in> set ds. activo d then 1 else 0]]
        @ map (trama_dia M) [0..<7] @ [Modifica SCHED_CHARGING_SCHEDULE_MATRIX_CHAR_HANDLE M]
    \<and> ts_Schedule (nb_sellos s') = atol t
    \<and> nb_peticiones s' = nb_peticiones s
        @ [LeeTs ''/schedule/ts_app_req'', Lee ''/schedule'', Marca ''/schedule/ts_dev_ack'']"
proof -
  let ?p1 = "LeeTs ''/schedule/ts_app_req''" and ?p2 = "Lee ''/schedule''" and ?p3 = "Marca ''/schedule/ts_dev_ack''"
  obtain j where g: "Get_Timestamp e ''/schedule/ts_app_req'' s = Some (atol t, hecho ?p1 j s)"
    using Get_Timestamp_ok [OF assms(1-3)] by blast
  define s2 where "s2 = hecho ?p2 (lee_json e t') (hecho ?p1 j s)"
  have r: "Send_Command e True ?p2 ((hecho ?p1 j s)\<lparr>nb_Lectura := JNull\<rparr>) = Some (True, s2)"
    using Send_Command_Lee [of "(hecho ?p1 j s)\<lparr>nb_Lectura := JNull\<rparr>" e n' t'] assms(1,5,6) by (simp add: s2_def)
  let ?a = "if \<exists>d \<in> set ds. activo d then 1 else 0 :: u8"
  have d: "decodifica (cien_programas (en_lib e) (nb_Lectura s2)) (0, replicate 168 0) = (?a, M)"
    using decodifica_referencia [OF assms(8)] assms(7,11) by (simp add: s2_def)
  define c1 where "c1 = envia ?a CHARGING_INSTANT_DELAYED_CHAR_HANDLE (nb_c s)"
  define c2 where "c2 = SendScheduleMatrixToPSOC5 (en_psoc e) M c1"
  have c1: "length (global_schedule_buffer c1) = 168" "\<not> flag_schedule_ack c1"
    "salida c1 = salida (nb_c s) @ [Envia CHARGING_INSTANT_DELAYED_CHAR_HANDLE [?a]]"
    using assms(9,10) by (simp_all add: c1_def envia_def emite_def)
  have "length M = 168" using assms(11) by simp
  from schedule_answered [of M c1 "en_psoc e" buf, OF this c1(1,2) assms(12,13)] have
    n: "nuevos c1 c2 = map (trama_dia M) [0..<7] @ [Modifica SCHED_CHARGING_SCHEDULE_MATRIX_CHAR_HANDLE M]"
    by (simp add: c2_def)
  define s3 where "s3 = s2\<lparr>nb_c := c2, nb_sellos := (nb_sellos s2)\<lparr>ts_Schedule := atol t\<rparr>\<rparr>"
  have "nb_Database s3" using assms(1) by (simp add: s3_def s2_def)
  from Send_Command_cases [OF this] obtain b k where
    m: "Send_Command e True ?p3 s3 = Some (b, hecho ?p3 k s3)" by blast
  have c: "nb_c s2 = nb_c s" by (simp add: s2_def)
  have "ReadFirebaseShedule e s = Some (b, hecho ?p3 k s3)"
    using g r d m assms(4) unfolding s3_def c2_def c1_def
    by (simp add: ReadFirebaseShedule_def si_nuevo_def con_c_def c)
  moreover have "nuevos (nb_c s) c2 = [Envia CHARGING_INSTANT_DELAYED_CHAR_HANDLE [?a]]
      @ map (trama_dia M) [0..<7] @ [Modifica SCHED_CHARGING_SCHEDULE_MATRIX_CHAR_HANDLE M]"
    by (rule nuevos_trans [OF c1(3) n]) (simp add: c2_def SendScheduleMatrix_salida)
  ultimately show ?thesis by (simp add: s3_def s2_def)
qed

definition demo_lib :: nube_lib where
  "demo_lib = \<lparr>nl_u8 = \<lambda>j. (case j of JInt n \<Rightarrow> of_int n | _ \<Rightarrow> 0), nl_u16 = \<lambda>j. (case j of JInt n \<Rightarrow> of_int n | _ \<Rightarrow> 0),
     nl_bool = \<lambda>j. (case j of JNull \<Rightarrow> False | JBool b \<Rightarrow> b | JInt n \<Rightarrow> n \<noteq> 0 | _ \<Rightarrow> True),
     nl_int = \<lambda>j. (case j of JInt n \<Rightarrow> Some n | _ \<Rightarrow> None),
     nl_String = \<lambda>j. (case j of JText t \<Rightarrow> t | _ \<Rightarrow> [110, 117, 108, 108]),
     nl_campo = \<lambda>j k. (case j of JObj kvs \<Rightarrow> (case map_of kvs k of None \<Rightarrow> JNull | Some v \<Rightarrow> v) | _ \<Rightarrow> JNull),
     nl_contiene = \<lambda>j k. (case j of JObj kvs \<Rightarrow> map_of kvs k \<noteq> None | _ \<Rightarrow> False),
     nl_parse = \<lambda>t. Some (JObj [(''programs_utc'', JObj [(''P00'', JText t)])]),
     nl_b64_encode = \<lambda>t. t, nl_b64_decode = \<lambda>t. take 6 t, nl_ntoa = \<lambda>t. t\<rparr>"

text \<open>A programme for the nights from the first day on, from 22 to 6 h, with 7400 W.\<close>

definition demo_programa :: bytes where "demo_programa = [1, 1, 22, 6, 0x1C, 0xE8]"

definition demo_programas :: "bytes list" where "demo_programas = demo_programa # replicate 99 []"

definition demo_entorno_nube :: entorno_nube where
  "demo_entorno_nube = \<lparr>en_lib = demo_lib, en_http = \<lambda>k. HttpOk 2 (if k = 0 then [55] else demo_programa), en_ble = False,
     en_ms = 0, en_psoc = \<lambda>_. Some (map (hora_programada demo_programas) [0..<168]), en_nodo = demo_nodo,
     en_MasterIP = [], en_Wifi_AP = [0], en_Wifi_IP = []\<rparr>"

definition demo_nube :: nube where
  "demo_nube = \<lparr>nb_c = demo_control\<lparr>flag_schedule_ack := False, global_schedule_buffer := replicate 168 0\<rparr>,
     nb_Database = True, nb_idToken = [1], nb_Lectura = JNull, nb_peticiones = [], nb_WriteParams = False,
     nb_WriteControl = False, nb_ClientConnected = False, nb_PeriodoLectura = 5000, nb_PeriodoFWUpdate = 24,
     nb_GroupsDebug = 0, nb_sellos = \<lparr>ts_Params = 0, ts_Comands = 0, ts_Coms = 0, ts_Status = 0, ts_Schedule = 0,
     ts_control = 0\<rparr>, nb_fw_update = False, nb_conn_lock = False, nb_ts_inicio = False, nb_LastConn = 0,
     nb_Update = \<lparr>up_Alt_available = False, up_Group = [], up_Branch = [], up_PSOC_UpdateAvailable = False,
     up_ESP_UpdateAvailable = False, up_PSOC_url = [], up_ESP_url = [], up_DescargandoArchivo = False,
     up_InstalandoArchivo = False, up_DobleUpdate = False\<rparr>, nb_older_record_in_fb = 0,
     nb_write_records_trigger = False, nb_retry_enable = True, nb_askForPermission = False,
     nb_givePermission = False\<rparr>"

lemma demo_cien: "demo_programas = cien_programas (en_lib demo_entorno_nube) (lee_json demo_entorno_nube demo_programa)"
proof -
  let ?j = "JObj [(''programs_utc'', JObj [(''P00'', JText demo_programa)])]"
  have k: "clave_programa 0 = ''P00''" "clave_programa 1 \<noteq> ''P00''"
    by code_simp+
  have "programas demo_lib ?j 0 100 = programas demo_lib ?j 0 (Suc (Suc 98))" by simp
  also have "\<dots> = [demo_programa]" unfolding programas.simps using k by (simp add: demo_lib_def Let_def)
  finally have "cien_programas demo_lib ?j = demo_programas"
    by (simp add: cien_programas_def demo_programas_def demo_lib_def demo_programa_def)
  then show ?thesis by (simp add: demo_entorno_nube_def lee_json_def) (simp add: demo_lib_def)
qed

lemma demo_hora: "hora_programada demo_programas p = (if (p + 168 - 46) mod 168 < 8 then 74 else 0)"
proof -
  have b: "bit (1 :: u8) dia \<longleftrightarrow> dia = 0" for dia by (simp add: bit_1_iff)
  have c: "cubre demo_programa p \<longleftrightarrow> (p + 168 - 46) mod 168 < 8"
    by (simp add: cubre_def demo_programa_def b duracion_def)
  have a: "activo demo_programa" "\<not> activo []" by (simp_all add: activo_def demo_programa_def)
  have "filter P (rev demo_programas) = (if P demo_programa then [demo_programa] else [])" if "\<not> P []" for P
    using that by (simp add: demo_programas_def)
  moreover have "potencia demo_programa = 74" by (simp add: potencia_def demo_programa_def)
  ultimately show ?thesis using a c by (simp add: hora_programada_def)
qed

theorem cloud_schedule_reaches_psoc_witness:
  "\<exists>b s'. ReadFirebaseShedule demo_entorno_nube demo_nube = Some (b, s')
     \<and> Envia CHARGING_INSTANT_DELAYED_CHAR_HANDLE [1] \<in> set (nuevos (nb_c demo_nube) (nb_c s'))
     \<and> Modifica SCHED_CHARGING_SCHEDULE_MATRIX_CHAR_HANDLE (map (hora_programada demo_programas) [0..<168])
         \<in> set (nuevos (nb_c demo_nube) (nb_c s'))
     \<and> hora_programada demo_programas 46 = 74 \<and> hora_programada demo_programas 54 = 0"
proof -
  define M where "M = map (hora_programada demo_programas) [0..<168]"
  let ?e = demo_entorno_nube
  have "length M = 168" by (simp only: M_def length_map length_upt)
  have d: "nb_Database demo_nube" "en_http ?e (length (nb_peticiones demo_nube)) = HttpOk 2 [55]" "(2 :: nat) < 30"
    "ts_Schedule (nb_sellos demo_nube) < atol [55]"
    "en_http ?e (length (nb_peticiones demo_nube) + 1) = HttpOk 2 demo_programa"
    "length (global_schedule_buffer (nb_c demo_nube)) = 168" "\<not> flag_schedule_ack (nb_c demo_nube)"
    "en_psoc ?e 0 = Some M" "take 168 M = M"
    using \<open>length M = 168\<close> by (simp_all add: demo_nube_def demo_entorno_nube_def [folded M_def] atol_def)
  have v: "\<forall>d \<in> set demo_programas. length d = 6 \<longrightarrow> programa_valido d"
    by (simp add: demo_programas_def demo_programa_def programa_valido_def)
  have a: "\<exists>d \<in> set demo_programas. activo d" by (simp add: demo_programas_def demo_programa_def activo_def)
  from cloud_schedule_reaches_psoc [OF d(1-5) d(3) demo_cien v d(6,7) M_def d(8,9)] obtain b s' where
    "ReadFirebaseShedule ?e demo_nube = Some (b, s')"
    "nuevos (nb_c demo_nube) (nb_c s') =
        [Envia CHARGING_INSTANT_DELAYED_CHAR_HANDLE [if \<exists>d \<in> set demo_programas. activo d then 1 else 0]]
        @ map (trama_dia M) [0..<7] @ [Modifica SCHED_CHARGING_SCHEDULE_MATRIX_CHAR_HANDLE M]"
    by (elim exE conjE)
  moreover have "hora_programada demo_programas 46 = 74" "hora_programada demo_programas 54 = 0"
    using demo_hora [of 46] demo_hora [of 54] by simp_all
  ultimately show ?thesis
    unfolding M_def [symmetric] using a by (intro exI [of _ b] exI [of _ s']) simp
qed

end
