(* ===== verification/Cloud_Task.thy ===== *)
theory Cloud_Task
  imports Cloud_Client
begin

text \<open>
  The task of the cloud (\<^verbatim>\<open>Firebase_Conn_Task\<close> of \<^verbatim>\<open>coms/FirebaseClient.cpp\<close>): its states, the upload of charge
  records and their synchronisation, and the search for new firmware. One turn of the loop is a function of the
  state; the phone, the clock and the connections do not change during a turn, and a task that it creates runs after it. Delays are left out.
\<close>

section \<open>Upload of a charge record\<close>

text \<open>
  The samples of a record: two bytes each from place 20 to place 252, ended by 255, 255; a sample out of range
  and the ones behind place 252 are 0.
\<close>

fun historico_muestras :: "bytes \<Rightarrow> nat \<Rightarrow> nat \<Rightarrow> bytes" where
  "historico_muestras buffer j 0 = []"
| "historico_muestras buffer j (Suc n) =
     (if j < 252
      then if buffer ! j = 255 \<and> buffer ! (j + 1) = 255 then []
           else let PotLeida = unat (buffer ! j) * 0x100 + unat (buffer ! (j + 1))
                in (if 0 < PotLeida \<and> PotLeida < 5500 then [buffer ! j, buffer ! (j + 1)] else [0, 0])
                   @ historico_muestras buffer (j + 2) n
      else [0, 0] @ historico_muestras buffer j n)"

text \<open>\<^verbatim>\<open>ltoa\<close> writes the time and a terminator into a buffer of ten characters.\<close>

definition ltoa :: "int \<Rightarrow> bytes" where
  "ltoa n = (if n < 0 then 45 # decimal (nat (- n)) else decimal (nat n))"

text \<open>The time of a record is kept in an \<^verbatim>\<open>int\<close>.\<close>

definition hora_registro :: "bytes \<Rightarrow> int" where
  "hora_registro b = sint (of_int (Convert_To_Epoch b) :: u32)"

definition doc_historico :: "entorno_nube \<Rightarrow> bytes \<Rightarrow> registros \<Rightarrow> campos" where
  "doc_historico e buffer r =
     [(''act'', JText (nl_b64_encode (en_lib e) (historico_muestras buffer 20 126))),
      (''con'', JInt (hora_registro (drop 2 buffer))), (''dis'', JInt (hora_registro (drop 14 buffer))),
      (''rea'', JText []), (''sta'', JInt (hora_registro (drop 8 buffer))),
      (''usr'', JInt (uint (buffer ! 1) + uint (buffer ! 0) * 0x100)), (''index'', JU (record_index r)),
      (''lap'', JU (record_lap r))]"

definition WriteFirebaseHistoric :: "entorno_nube \<Rightarrow> bytes \<Rightarrow> nube \<Rightarrow> (bool \<times> nube) option" where
  "WriteFirebaseHistoric e buffer s =
     (let ConectionTS = hora_registro (drop 2 buffer) in
      if ConectionTS = 946598400 \<or> ConectionTS = 1046660583 then Some (False, s)
      else let s1 = s\<lparr>nb_askForPermission := True\<rparr> in
      if estado_fb s1 \<noteq> IDLE \<and> \<not> nb_givePermission s1 then Some (True, s1)
      else if 10 < length (ltoa ConectionTS) + 1 then None
      else let antes = estado_fb s1;
               p = Actualiza (''/records/'' @ cadena_de (ltoa ConectionTS)) (doc_historico e buffer (Registros (nb_c s1)));
               fin = (\<lambda>s. (con_c (\<lambda>c. c\<lparr>ConfigFirebase := (ConfigFirebase c)\<lparr>FirebaseConnState := antes\<rparr>\<rparr>) s)
                          \<lparr>nb_askForPermission := False, nb_givePermission := False\<rparr>)
           in do { (b, s2) \<leftarrow> Send_Command e False p (pasa_a WRITING_RECORD s1);
                   if b then Some (True, fin s2)
                   else do { (_, s3) \<leftarrow> Send_Command e False p s2; Some (False, fin s3) } })"

section \<open>Synchronisation of the records\<close>

definition MAX_RECORDS_IN_MEMORY :: u8 where "MAX_RECORDS_IN_MEMORY = 200"

text \<open>
  After a record has been uploaded: the record before it is asked for, round the memory of the PSoC, until the
  oldest one not yet in the cloud or the page of eight records that is being written. The second component says
  whether the synchronisation is noted as complete.
\<close>

definition registro_anterior :: "u8 \<Rightarrow> registros \<Rightarrow> registros \<times> bool" where
  "registro_anterior older r =
     (if uint (record_index r) = uint older + 1 then (r, True)
      else if 0 < record_index r \<or> 1 \<le> last_record_lap r
      then let r1 = (if 0 < record_index r then r\<lparr>record_index := record_index r - 1\<rparr>
                     else r\<lparr>record_index := MAX_RECORDS_IN_MEMORY - 1, record_lap := last_record_lap r - 1\<rparr>)
           in if record_index r1 < last_record_in_mem r1 \<or> last_record_in_mem r1 div 8 < record_index r1 div 8
              then (r1\<lparr>ask_for_new_record := True\<rparr>, False) else (r1, True)
      else (r\<lparr>ask_for_new_record := False\<rparr>, True))"

definition con_registros :: "(registros \<Rightarrow> registros) \<Rightarrow> nube \<Rightarrow> nube" where
  "con_registros f = con_c (\<lambda>c. c\<lparr>Registros := f (Registros c)\<rparr>)"

definition sincroniza :: "entorno_nube \<Rightarrow> nube \<Rightarrow> nube option" where
  "sincroniza e s =
     do { (b, s1) \<leftarrow> WriteFirebaseLastRecordSynced e s;
          if \<not> b then Some s1
          else do { (b2, s2) \<leftarrow> ReadFirebaseOlderSyncRecord e s1;
                    if b2
                    then case registro_anterior (nb_older_record_in_fb s2) (Registros (nb_c s2)) of
                           (r, completo) \<Rightarrow>
                             let s3 = con_registros (\<lambda>_. r) s2
                             in if completo
                                then map_option snd (WriteFirebaseOlderSyncRecord e (last_record_in_mem r) s3)
                                else Some s3
                    else map_option snd (WriteFirebaseOlderSyncRecord e (record_index (Registros (nb_c s2))) s2) } }"

definition registro_pendiente :: "entorno_nube \<Rightarrow> nube \<Rightarrow> nube option" where
  "registro_pendiente e s =
     (if \<not> record_pending_for_write (Registros (nb_c s)) then Some s
      else do { (b, s1) \<leftarrow> WriteFirebaseHistoric e (record_received_buffer_for_fb (Registros (nb_c s)))
                             (con_registros (\<lambda>r. r\<lparr>record_pending_for_write := False\<rparr>) s);
                if b then sincroniza e (s1\<lparr>nb_retry_enable := True\<rparr>)
                else if nb_retry_enable s1
                then Some (con_registros (\<lambda>r. r\<lparr>ask_for_new_record := True\<rparr>) (s1\<lparr>nb_retry_enable := False\<rparr>))
                else Some s1 })"

section \<open>New firmware\<close>

definition ReadFirebaseBranch :: "entorno_nube \<Rightarrow> nube \<Rightarrow> (bool \<times> nube) option" where
  "ReadFirebaseBranch e s =
     map_option (\<lambda>(b, s1).
       let L = en_lib e; j = nb_Lectura s1; alt = nl_bool L (nl_campo L (nl_campo L j ''alt'') ''available'');
           u = (nb_Update s1)\<lparr>up_Alt_available := alt,
                 up_Group := nl_String L (nl_campo L (nl_campo L j ''perms'') ''group'')\<rparr>;
           u1 = (if alt then u\<lparr>up_Branch := nl_String L (nl_campo L (nl_campo L j ''alt'') ''branch'')\<rparr> else u)
       in if b then (alt, s1\<lparr>nb_Update := u1\<rparr>) else (False, s1))
       (Send_Command e True (Lee ''/fw'') (s\<lparr>nb_Lectura := JNull\<rparr>))"

definition CheckFwPermissions :: "bytes \<Rightarrow> actualizacion \<Rightarrow> bool" where
  "CheckFwPermissions fw_group u \<longleftrightarrow>
     (fw_group = up_Group u \<or> fw_group = texto_de ''all'') \<and> fw_group \<noteq> texto_de ''none''"

text \<open>
  One of the two processors: the version that the branch publishes for the model is compared with the installed
  one; \<open>pon\<close> notes that it is available at an address.
\<close>

definition comprueba_fw ::
  "entorno_nube \<Rightarrow> bytes \<Rightarrow> bytes \<Rightarrow> u16 \<Rightarrow> (bytes \<Rightarrow> actualizacion \<Rightarrow> actualizacion) \<Rightarrow> nube \<Rightarrow> (bool \<times> nube) option" where
  "comprueba_fw e branch modelo instalada pon s =
     map_option (\<lambda>(b, s1).
       let L = en_lib e; j = nb_Lectura s1; t = (\<lambda>k. nl_String L (nl_campo L j k));
           nueva = b \<and> ParseFirmwareVersion (t ''verstr'') \<noteq> instalada \<and> CheckFwPermissions (t ''group'') (nb_Update s1)
       in (nueva, if nueva then s1\<lparr>nb_Update := pon (t ''url'') (nb_Update s1)\<rparr> else s1))
       (Send_Command e True (LeeRaiz (''/prod/fw/'' @ cadena_de branch @ ''/'' @ cadena_de modelo)) s)"

definition CheckForUpdate :: "entorno_nube \<Rightarrow> nube \<Rightarrow> (bool \<times> nube) option" where
  "CheckForUpdate e s =
     do { (alt, s1) \<leftarrow> ReadFirebaseBranch e s;
          let branch = (if alt then up_Branch (nb_Update s1) else texto_de ''prod'');
          let g = Configuracion (nb_c s1);
          (p, s2) \<leftarrow> comprueba_fw e branch (ParseFirmwareModel (PSOC_version_firmware (nb_c s1))) (FirmwarePSOC g)
                       (\<lambda>url u. u\<lparr>up_PSOC_UpdateAvailable := True, up_PSOC_url := url\<rparr>) s1;
          (q, s3) \<leftarrow> comprueba_fw e branch (ParseFirmwareModel ESP_version_firmware) (FirmwareESP g)
                       (\<lambda>url u. u\<lparr>up_ESP_UpdateAvailable := True, up_ESP_url := url\<rparr>) s2;
          Some (p \<or> q, s3) }"

section \<open>The turns of the task\<close>

record tarea_fb =
  fb_NextState :: u8
  fb_Error_Count :: u8
  fb_null_count :: u8
  fb_bloquedByBLE :: bool
  fb_Params_Coms_Timeout :: u8
  fb_xStarted :: u32
  fb_UpdateCheckTimeout :: u32
  fb_previousMillis :: u32
  fb_descargas :: nat

type_synonym turno_fb = "(tarea_fb \<times> nube) option"

definition cuenta :: "(nube \<Rightarrow> (bool \<times> nube) option) \<Rightarrow> tarea_fb \<times> nube \<Rightarrow> turno_fb" where
  "cuenta f ts = (case ts of (t, s) \<Rightarrow>
     map_option (\<lambda>(b, s1). (if b then t else t\<lparr>fb_Error_Count := fb_Error_Count t + 1\<rparr>, s1)) (f s))"

definition ms :: "u32 \<Rightarrow> u32" where "ms ticks = ticks * 1000 div 1000"

definition pon_cliente :: "bool \<Rightarrow> nube \<Rightarrow> nube" where
  "pon_cliente b s = (con_c (\<lambda>c. c\<lparr>ConfigFirebase := (ConfigFirebase c)\<lparr>ClientAuthenticated := b\<rparr>\<rparr>) s)
     \<lparr>nb_ClientConnected := b\<rparr>"

definition reinicia_usuario :: "nube \<Rightarrow> nube" where
  "reinicia_usuario = con_c (\<lambda>c. c\<lparr>ConfigFirebase := (ConfigFirebase c)\<lparr>ResetUser := False, UserReseted := True\<rparr>\<rparr>)"

definition reposo :: "nube \<Rightarrow> bool" where
  "reposo s \<longleftrightarrow> take 2 (HPT_status (Status (nb_c s))) \<in> {[65, 49], [48, 86]}"

definition fw_auto :: "nube \<Rightarrow> bool" where
  "fw_auto s \<longleftrightarrow> take 2 (pa_Fw_Update_mode (Params (nb_c s))) = [65, 65]"

text \<open>\<open>DISCONNECTED\<close>: with the Internet a fresh database object is made.\<close>

definition turno_desconectado :: "tarea_fb \<times> nube \<Rightarrow> tarea_fb \<times> nube" where
  "turno_desconectado ts = (case ts of (t, s) \<Rightarrow>
     if InternetConection (ConfigFirebase (nb_c s))
     then (t\<lparr>fb_Error_Count := 0\<rparr>, pasa_a CONNECTING (s\<lparr>nb_Database := True, nb_idToken := []\<rparr>))
     else (t, s))"

definition turno_conectando :: "entorno_nube \<Rightarrow> tarea_fb \<times> nube \<Rightarrow> turno_fb" where
  "turno_conectando e ts = (case ts of (t, s) \<Rightarrow>
     map_option (\<lambda>(b, s1). if b \<and> nb_idToken s1 \<noteq> [] then (t, pasa_a CONECTADO s1)
                           else (t\<lparr>fb_Error_Count := fb_Error_Count t + 1\<rparr>, s1)) (initFirebaseClient e s))"

definition lee_sello :: "entorno_nube \<Rightarrow> string \<Rightarrow> (int \<Rightarrow> sellos \<Rightarrow> sellos) \<Rightarrow> nube \<Rightarrow> nube option" where
  "lee_sello e path f s =
     map_option (\<lambda>(n, s1). s1\<lparr>nb_sellos := f n (nb_sellos s1)\<rparr>) (Get_Timestamp e (path @ ''/ts_app_req'') s)"

definition lee_sellos :: "entorno_nube \<Rightarrow> nube \<Rightarrow> nube option" where
  "lee_sellos e s =
     do { s \<leftarrow> lee_sello e ''/params'' (\<lambda>n x. x\<lparr>ts_Params := n\<rparr>) s;
          s \<leftarrow> lee_sello e ''/control'' (\<lambda>n x. x\<lparr>ts_Comands := n\<rparr>) s;
          s \<leftarrow> lee_sello e ''/coms'' (\<lambda>n x. x\<lparr>ts_Coms := n\<rparr>) s;
          s \<leftarrow> lee_sello e ''/status'' (\<lambda>n x. x\<lparr>ts_Status := n\<rparr>) s;
          lee_sello e ''/schedule'' (\<lambda>n x. x\<lparr>ts_Schedule := n\<rparr>) s }"

definition o_defecto :: "(nube \<Rightarrow> (bool \<times> nube) option) \<Rightarrow> (nube \<Rightarrow> nube) \<Rightarrow> nube \<Rightarrow> nube option" where
  "o_defecto f g s = map_option (\<lambda>(b, s1). if b then s1 else g s1) (f s)"

definition lee_registros :: "entorno_nube \<Rightarrow> nube \<Rightarrow> nube option" where
  "lee_registros e s =
     do { (b, s1) \<leftarrow> ReadFirebaseRecordsTrigger e s;
          if \<not> b then map_option snd (WriteFirebaseRecordsTrigger e True s1)
          else do { (b2, s2) \<leftarrow> ReadFirebaseOlderSyncRecord e
                      (con_registros (\<lambda>r. r\<lparr>records_trigger := nb_write_records_trigger s1\<rparr>) s1);
                    if b2 then map_option snd (WriteFirebaseRecordsTrigger e
                                 (last_record_in_mem (Registros (nb_c s2)) \<noteq> nb_older_record_in_fb s2) s2)
                    else Some s2 } }"

definition turno_conectado :: "entorno_nube \<Rightarrow> tarea_fb \<times> nube \<Rightarrow> turno_fb" where
  "turno_conectado e ts = (case ts of (t, s) \<Rightarrow>
     do { s1 \<leftarrow> lee_sellos e s;
          ts1 \<leftarrow> cuenta (WriteFirebaseFW e) (t, s1);
          ts2 \<leftarrow> cuenta (WriteFirebaseComs e) ts1;
          (t3, s3) \<leftarrow> (if nb_ts_inicio (snd ts2)
                  then map_option (\<lambda>(t, s). (t, s\<lparr>nb_ts_inicio := False\<rparr>)) (cuenta (WriteInitTimestamp e) ts2)
                  else Some ts2);
          s4 \<leftarrow> o_defecto (ReadFirebaseReadingPeriod e) (\<lambda>s. s\<lparr>nb_PeriodoLectura := 5000\<rparr>) s3;
          s5 \<leftarrow> o_defecto (ReadFirebaseUpdatePeriod e) (\<lambda>s. s\<lparr>nb_PeriodoFWUpdate := 24\<rparr>) s4;
          s6 \<leftarrow> o_defecto (ReadFirebaseGroupsDebug e) (\<lambda>s. s\<lparr>nb_GroupsDebug := 0\<rparr>) s5;
          s7 \<leftarrow> lee_registros e s6;
          s8 \<leftarrow> (if gr_GroupActive (ChargingGroup (nb_c s7)) \<noteq> 0
                  then map_option snd (ReadFirebasePath e ''/groupId'' s7) else Some s7);
          Some (t3, pasa_a (if fw_auto s8 then UPDATING else IDLE) s8) })"

text \<open>
  A time stamp below 1 is an error: with an expired token the client logs in again, and after three other errors
  the task disconnects. The member \<^verbatim>\<open>null_count\<close> is not cleared by a new connection.
\<close>

definition token_caducado :: bytes where "token_caducado = texto_de ''Auth token is expired''"

definition sin_sello :: "entorno_nube \<Rightarrow> tarea_fb \<times> nube \<Rightarrow> turno_fb" where
  "sin_sello e ts = (case ts of (t, s) \<Rightarrow>
     if c_cadena (nl_String (en_lib e) (nl_campo (en_lib e) (nb_Lectura s) ''error'')) = token_caducado
     then map_option (\<lambda>(b, s1). (t, if b then s1 else pasa_a DISCONNECTING s1)) (LogIn e s)
     else let n = fb_null_count t + 1
          in Some (t\<lparr>fb_null_count := n\<rparr>, if 3 \<le> n then pasa_a DISCONNECTING s else s))"

text \<open>The search for updates, every so many turns; \<open>None\<close> is the division by a period of less than a second.\<close>

definition limite_updates :: "nube \<Rightarrow> u32 option" where
  "limite_updates s =
     (let d = unat (nb_PeriodoLectura s) div 1000
      in if d = 0 then None else Some (of_nat (unat (nb_PeriodoFWUpdate s) * 60 * 60 div d)))"

text \<open>The rest of an idle turn. The first component says that the turn has ended.\<close>

definition idle_updates :: "tarea_fb \<times> nube \<Rightarrow> (bool \<times> tarea_fb \<times> nube) option" where
  "idle_updates ts = (case ts of (t, s) \<Rightarrow>
     map_option (\<lambda>lim.
       let n = fb_UpdateCheckTimeout t + 1; t1 = t\<lparr>fb_UpdateCheckTimeout := n\<rparr>
       in if lim < n \<and> reposo s
          then let t2 = t1\<lparr>fb_UpdateCheckTimeout := 0\<rparr>
               in if fw_auto s then (True, t2, pasa_a UPDATING s) else (False, t2, s)
          else (False, t1, s)) (limite_updates s))"

definition idle_usuario :: "entorno_nube \<Rightarrow> int \<Rightarrow> tarea_fb \<times> nube \<Rightarrow> (bool \<times> tarea_fb \<times> nube) option" where
  "idle_usuario e ts_app_req ts = (case ts of (t, s) \<Rightarrow>
     if ts_Status (nb_sellos s) < ts_app_req \<and> \<not> en_ble e
     then let s1 = s\<lparr>nb_sellos := (nb_sellos s)\<lparr>ts_Status := ts_app_req\<rparr>\<rparr>
          in if 5000 < ms (en_ms e - nb_LastConn s)
             then do { (t2, s2) \<leftarrow> cuenta (WriteFirebaseStatus e) (t\<lparr>fb_xStarted := en_ms e\<rparr>, s1);
                       if nb_ClientConnected s2 then Some (False, t2, s2)
                       else do { (t3, s3) \<leftarrow> cuenta (WriteFirebaseComs e) (t2, s2);
                                 (_, s4) \<leftarrow> ReadFirebaseUser e s3;
                                 Some (True, t3\<lparr>fb_Error_Count := 0\<rparr>,
                                   (pasa_a USER_CONNECTED s4)\<lparr>nb_ClientConnected := True\<rparr>) } }
             else Some (False, t, s1)
     else Some (False, t, s))"

definition idle_grupos :: "entorno_nube \<Rightarrow> tarea_fb \<times> nube \<Rightarrow> turno_fb" where
  "idle_grupos e ts = (case ts of (t, s) \<Rightarrow>
     if nb_GroupsDebug s \<noteq> 0 \<and> 5000 \<le> ms (en_ms e) - fb_previousMillis t
     then cuenta (WriteFirebaseGroupData e) (t\<lparr>fb_previousMillis := ms (en_ms e)\<rparr>, s)
     else Some (t, s))"

definition idle_registros :: "entorno_nube \<Rightarrow> nube \<Rightarrow> nube option" where
  "idle_registros e s =
     do { (b, s1) \<leftarrow> ReadFirebaseRecordsTrigger e s;
          s2 \<leftarrow> (if b then map_option snd (WriteFirebaseRecordsTrigger e False
                          (con_registros (\<lambda>r. r\<lparr>records_trigger := nb_write_records_trigger s1\<rparr>) s1))
                 else Some s1);
          registro_pendiente e s2 }"

definition idle_libre :: "entorno_nube \<Rightarrow> tarea_fb \<times> nube \<Rightarrow> turno_fb" where
  "idle_libre e ts = (case ts of (t, s) \<Rightarrow>
     do { (ts_app_req, s1) \<leftarrow> Get_Timestamp e ''/status/ts_app_req'' s;
          if ts_app_req < 1 then sin_sello e (t, s1)
          else do { (fin, t2, s2) \<leftarrow> idle_updates (t\<lparr>fb_null_count := 0, fb_Error_Count := 0\<rparr>, s1);
                    if fin then Some (t2, s2)
                    else do { (fin, t3, s3) \<leftarrow> idle_usuario e ts_app_req (t2, s2);
                              if fin then Some (t3, s3)
                              else do { (t4, s4) \<leftarrow> idle_grupos e (t3, s3);
                                        map_option (Pair t4) (idle_registros e s4) } } } })"

definition turno_idle :: "entorno_nube \<Rightarrow> tarea_fb \<times> nube \<Rightarrow> turno_fb" where
  "turno_idle e ts = (case ts of (t, s0) \<Rightarrow>
     let s = pon_cliente False s0; f = ConfigFirebase (nb_c s) in
     if \<not> InternetConection f \<or> 10 < fb_Error_Count t then Some (t, pasa_a DISCONNECTING s)
     else if ResetUser f
     then do { s1 \<leftarrow> (if en_ble e then Some s else ReiniciarMultiusuario e s);
               idle_libre e (t, reinicia_usuario s1) }
     else if en_ble e then Some (t\<lparr>fb_bloquedByBLE := True\<rparr>, s)
     else idle_libre e (t\<lparr>fb_bloquedByBLE := False\<rparr>, s))"

text \<open>\<open>USER_CONNECTED\<close>: the application is being used. The end of a wait for new orders is 45 s.\<close>

definition si_pide :: "(nube \<Rightarrow> bool) \<Rightarrow> (nube \<Rightarrow> nube) \<Rightarrow> (nube \<Rightarrow> (bool \<times> nube) option) \<Rightarrow> tarea_fb \<times> nube \<Rightarrow> turno_fb" where
  "si_pide p quita f ts = (if p (snd ts) then cuenta f (fst ts, quita (snd ts)) else Some ts)"

definition quita_fb :: "(carac_Firebase \<Rightarrow> carac_Firebase) \<Rightarrow> nube \<Rightarrow> nube" where
  "quita_fb f = con_c (\<lambda>c. c\<lparr>ConfigFirebase := f (ConfigFirebase c)\<rparr>)"

definition usuario_ordenes :: "entorno_nube \<Rightarrow> tarea_fb \<times> nube \<Rightarrow> turno_fb" where
  "usuario_ordenes e ts =
     do { ts \<leftarrow> si_pide (\<lambda>s. WriteStatus (ConfigFirebase (nb_c s))) (quita_fb (\<lambda>f. f\<lparr>WriteStatus := False\<rparr>))
                  (WriteFirebaseStatus e) ts;
          ts \<leftarrow> si_pide nb_WriteParams (\<lambda>s. s\<lparr>nb_WriteParams := False\<rparr>) (WriteFirebaseParams e) ts;
          ts \<leftarrow> si_pide nb_WriteControl (\<lambda>s. s\<lparr>nb_WriteControl := False\<rparr>) (WriteFirebaseControl e) ts;
          ts \<leftarrow> si_pide (\<lambda>s. WriteTime (ConfigFirebase (nb_c s))) (quita_fb (\<lambda>f. f\<lparr>WriteTime := False\<rparr>))
                  (WriteFirebaseTimes e) ts;
          let t = (fst ts)\<lparr>fb_Params_Coms_Timeout := fb_Params_Coms_Timeout (fst ts) + 1\<rparr>;
          ts \<leftarrow> (if 5 \<le> fb_Params_Coms_Timeout t
                  then do { ts \<leftarrow> cuenta (ReadFirebaseParams e) (t, snd ts);
                            map_option (\<lambda>(t, s). (t\<lparr>fb_Params_Coms_Timeout := 0\<rparr>, s)) (cuenta (ReadFirebaseShedule e) ts) }
                  else Some (t, snd ts));
          s \<leftarrow> (if ResetUser (ConfigFirebase (nb_c (snd ts)))
                then map_option reinicia_usuario (ReiniciarMultiusuario e (snd ts)) else Some (snd ts));
          if nb_fw_update s \<and> reposo s
          then Some ((fst ts)\<lparr>fb_UpdateCheckTimeout := 0\<rparr>, pasa_a UPDATING (s\<lparr>nb_fw_update := False\<rparr>))
          else cuenta (ReadFirebaseControl e) (fst ts, s) }"

definition turno_usuario :: "entorno_nube \<Rightarrow> tarea_fb \<times> nube \<Rightarrow> turno_fb" where
  "turno_usuario e ts = (case ts of (t, s) \<Rightarrow>
     if nb_askForPermission s then Some (t, s\<lparr>nb_givePermission := True\<rparr>)
     else if en_ble e then Some (t, pasa_a IDLE (pon_cliente False s))
     else do { (ts_app_req, s1) \<leftarrow> Get_Timestamp e ''/status/ts_app_req'' s;
               if ts_app_req < 1 then sin_sello e (t, s1)
               else do { let t1 = t\<lparr>fb_null_count := 0\<rparr>;
                         (t2, s2) \<leftarrow> (if ts_Status (nb_sellos s1) < ts_app_req
                            then map_option (\<lambda>(t, s). (t, s\<lparr>nb_ClientConnected := True\<rparr>))
                                   (cuenta (WriteFirebaseStatus e) (t1\<lparr>fb_xStarted := en_ms e\<rparr>,
                                      s1\<lparr>nb_sellos := (nb_sellos s1)\<lparr>ts_Status := ts_app_req\<rparr>\<rparr>))
                            else Some (t1, s1));
                         if 45000 < ms (en_ms e - fb_xStarted t2)
                         then Some (t2, pasa_a IDLE (s2\<lparr>nb_ClientConnected := False\<rparr>))
                         else usuario_ordenes e (t2, s2) } })"

text \<open>The states that write or read one thing; no transition leads to them.\<close>

definition turno_unico :: "(nube \<Rightarrow> (bool \<times> nube) option) \<Rightarrow> (tarea_fb \<Rightarrow> u8) \<Rightarrow> tarea_fb \<times> nube \<Rightarrow> turno_fb" where
  "turno_unico f sig ts = map_option (\<lambda>(t, s). (t, pasa_a (sig t) s)) (cuenta f ts)"

definition turno_WRITING_STATUS :: "entorno_nube \<Rightarrow> tarea_fb \<times> nube \<Rightarrow> turno_fb" where
  "turno_WRITING_STATUS e ts =
     map_option (\<lambda>(t, s).
       if nb_askForPermission s then (t, pasa_a IDLE (s\<lparr>nb_askForPermission := False\<rparr>))
       else (t, quita_fb (\<lambda>f. f\<lparr>FirebaseConnState := (if fb_NextState t = 0 then READING_CONTROL else fb_NextState t)\<rparr>) s))
       (cuenta (WriteFirebaseStatus e) ts)"

definition turno_actualizando :: "entorno_nube \<Rightarrow> tarea_fb \<times> nube \<Rightarrow> turno_fb" where
  "turno_actualizando e ts = (case ts of (t, s) \<Rightarrow>
     map_option (\<lambda>(b, s1). if b then (t\<lparr>fb_descargas := fb_descargas t + 1\<rparr>, pasa_a DOWNLOADING s1)
                           else (t, pasa_a IDLE s1)) (CheckForUpdate e s))"

definition turno_instalando :: "tarea_fb \<times> nube \<Rightarrow> tarea_fb \<times> nube" where
  "turno_instalando ts = (case ts of (t, s) \<Rightarrow>
     let u = nb_Update s;
         (t1, s1) = (if up_DobleUpdate u then (t\<lparr>fb_descargas := fb_descargas t + 1\<rparr>, pasa_a DOWNLOADING s) else (t, s))
     in (t1, if \<not> up_DescargandoArchivo u \<and> \<not> up_InstalandoArchivo u then pasa_a IDLE s1 else s1))"

text \<open>\<open>DISCONNECTING\<close> and an unknown state: the calls on the database need the object, which is then deleted.\<close>

definition turno_desconectando :: "tarea_fb \<times> nube \<Rightarrow> turno_fb" where
  "turno_desconectando ts = (case ts of (t, s) \<Rightarrow>
     if nb_Database s then Some (t, pasa_a DISCONNECTED (s\<lparr>nb_Database := False\<rparr>)) else None)"

definition Firebase_Conn_Task :: "entorno_nube \<Rightarrow> tarea_fb \<times> nube \<Rightarrow> turno_fb" where
  "Firebase_Conn_Task e ts0 =
     (let ts = (if \<not> InternetConection (ConfigFirebase (nb_c (snd ts0))) \<and> estado_fb (snd ts0) \<noteq> DISCONNECTED
                then (fst ts0, pasa_a DISCONNECTING (snd ts0)) else ts0);
          est = estado_fb (snd ts)
      in if est = DISCONNECTED then Some (turno_desconectado ts)
         else if est = CONNECTING then turno_conectando e ts
         else if est = CONECTADO then turno_conectado e ts
         else if est = IDLE then turno_idle e ts
         else if est = USER_CONNECTED then turno_usuario e ts
         else if est = WRITING_CONTROL then turno_unico (WriteFirebaseControl e) (\<lambda>_. IDLE) ts
         else if est = WRITING_STATUS then turno_WRITING_STATUS e ts
         else if est = WRITING_COMS then turno_unico (WriteFirebaseComs e) (\<lambda>_. IDLE) ts
         else if est = WRITING_PARAMS then turno_unico (WriteFirebaseParams e) (\<lambda>_. IDLE) ts
         else if est = WRITING_TIMES then turno_unico (WriteFirebaseTimes e) (\<lambda>_. IDLE) ts
         else if est = READING_CONTROL
         then turno_unico (ReadFirebaseControl e) (\<lambda>t. if fb_NextState t = 0 then IDLE else fb_NextState t) ts
         else if est = READING_PARAMS then turno_unico (ReadFirebaseParams e) (\<lambda>_. IDLE) ts
         else if est = READING_COMS
         then map_option (\<lambda>(t, s). (t\<lparr>fb_NextState := READING_PARAMS\<rparr>, s)) (turno_unico (ReadFirebaseComs e) (\<lambda>_. IDLE) ts)
         else if est = UPDATING then turno_actualizando e ts
         else if est = DOWNLOADING
         then Some (fst ts, if \<not> up_DescargandoArchivo (nb_Update (snd ts)) then pasa_a INSTALLING (snd ts) else snd ts)
         else if est = INSTALLING then Some (turno_instalando ts)
         else if est = WRITING_RECORD then Some ts
         else turno_desconectando ts)"

section \<open>What the requests leave alone\<close>

text \<open>An operation that needs the database, returns, and changes only the trace and \<^verbatim>\<open>Lectura\<close>.\<close>

definition solo_pide :: "(nube \<Rightarrow> ('a \<times> nube) option) \<Rightarrow> bool" where
  "solo_pide f \<longleftrightarrow> (\<forall>s. nb_Database s \<longrightarrow> (\<exists>b ps j. f s = Some (b, s\<lparr>nb_peticiones := ps, nb_Lectura := j\<rparr>)))"

lemma solo_pideD:
  "solo_pide f \<Longrightarrow> nb_Database s \<Longrightarrow> \<exists>b ps j. f s = Some (b, s\<lparr>nb_peticiones := ps, nb_Lectura := j\<rparr>)"
  by (simp add: solo_pide_def)

lemma solo_pide_Send: "solo_pide (Send_Command e lect p)"
  unfolding solo_pide_def using Send_Command_cases unfolding hecho_def by blast

lemma solo_pide_marca: "solo_pide (escribe_y_marca e lect path marca d)"
proof -
  have "\<exists>b ps j. escribe_y_marca e lect path marca d s = Some (b, s\<lparr>nb_peticiones := ps, nb_Lectura := j\<rparr>)"
    if db: "nb_Database s" for s
  proof -
    from solo_pideD [OF solo_pide_Send db, of e False "Actualiza path d"] obtain b ps j where
      1: "escribe e path d s = Some (b, s\<lparr>nb_peticiones := ps, nb_Lectura := j\<rparr>)" by (auto simp: escribe_def)
    from solo_pideD [OF solo_pide_Send, of "s\<lparr>nb_peticiones := ps, nb_Lectura := j\<rparr>" e lect "Marca (path @ marca)"] db
    obtain b2 ps2 j2 where "Send_Command e lect (Marca (path @ marca)) (s\<lparr>nb_peticiones := ps, nb_Lectura := j\<rparr>)
        = Some (b2, s\<lparr>nb_peticiones := ps2, nb_Lectura := j2\<rparr>)" by auto
    with 1 show ?thesis by (cases b) (auto simp: escribe_y_marca_def)
  qed
  then show ?thesis by (simp add: solo_pide_def)
qed

lemma solo_pide_escribe: "solo_pide (escribe e path d)"
  unfolding escribe_def by (rule solo_pide_Send)

lemma solo_pide_writes:
  "solo_pide (WriteFirebaseStatus e)" "solo_pide (WriteFirebaseTimes e)" "solo_pide (WriteFirebaseParams e)"
  "solo_pide (WriteFirebaseComs e)" "solo_pide (WriteFirebaseControl e)" "solo_pide (WriteFirebaseFW e)"
  "solo_pide (WriteInitTimestamp e)" "solo_pide (WriteFirebaseLastRecordSynced e)"
  "solo_pide (WriteFirebaseOlderSyncRecord e n)" "solo_pide (WriteFirebaseRecordsTrigger e v)"
  "solo_pide (WriteFirebaseGroupData e)"
  unfolding solo_pide_def WriteFirebaseStatus_def WriteFirebaseTimes_def WriteFirebaseParams_def WriteFirebaseComs_def
    WriteFirebaseControl_def WriteFirebaseFW_def WriteInitTimestamp_def WriteFirebaseLastRecordSynced_def
    WriteFirebaseOlderSyncRecord_def WriteFirebaseRecordsTrigger_def WriteFirebaseGroupData_def Let_def
  using solo_pide_marca solo_pide_escribe unfolding solo_pide_def by blast+

text \<open>
  The part of the state that decides whether the task can go on: the object, the state of the task, the reading
  period and the record that waits.
\<close>

definition nucleo_fb :: "nube \<Rightarrow> bool \<times> u8 \<times> u16 \<times> bool \<times> bytes" where
  "nucleo_fb s = (nb_Database s, estado_fb s, nb_PeriodoLectura s, record_pending_for_write (Registros (nb_c s)),
     record_received_buffer_for_fb (Registros (nb_c s)))"

text \<open>The result is there and its state satisfies \<open>P\<close>; the rules follow the composition of the code.\<close>

definition okP :: "(nube \<Rightarrow> bool) \<Rightarrow> ('a \<times> nube) option \<Rightarrow> bool" where
  "okP P r \<longleftrightarrow> (\<exists>b s. r = Some (b, s) \<and> P s)"

definition ok0 :: "(nube \<Rightarrow> bool) \<Rightarrow> nube option \<Rightarrow> bool" where
  "ok0 P r \<longleftrightarrow> (\<exists>s. r = Some s \<and> P s)"

abbreviation conBD :: "nube \<Rightarrow> bool" where "conBD \<equiv> nb_Database"

named_theorems ok_intro

lemma ok_bind [ok_intro]: "okP P r \<Longrightarrow> (\<And>b s. P s \<Longrightarrow> okP P (g (b, s))) \<Longrightarrow> okP P (Option.bind r g)"
  by (auto simp: okP_def)

lemma ok_bind0 [ok_intro]: "ok0 P r \<Longrightarrow> (\<And>s. P s \<Longrightarrow> okP P (g s)) \<Longrightarrow> okP P (Option.bind r g)"
  by (auto simp: okP_def ok0_def)

lemma ok0_bind [ok_intro]: "okP P r \<Longrightarrow> (\<And>b s. P s \<Longrightarrow> ok0 P (g (b, s))) \<Longrightarrow> ok0 P (Option.bind r g)"
  by (auto simp: okP_def ok0_def)

lemma ok0_bind0 [ok_intro]: "ok0 P r \<Longrightarrow> (\<And>s. P s \<Longrightarrow> ok0 P (g s)) \<Longrightarrow> ok0 P (Option.bind r g)"
  by (auto simp: ok0_def)

lemma ok_map [ok_intro]: "okP P r \<Longrightarrow> (\<And>b s. P s \<Longrightarrow> P (snd (h (b, s)))) \<Longrightarrow> okP P (map_option h r)"
proof -
  assume "okP P r" and h: "\<And>b s. P s \<Longrightarrow> P (snd (h (b, s)))"
  then obtain b s where "r = Some (b, s)" "P s" by (auto simp: okP_def)
  then show ?thesis using h [of s b] unfolding okP_def by (intro exI [of _ "fst (h (b, s))"] exI [of _ "snd (h (b, s))"]) simp
qed

lemma ok_map0 [ok_intro]: "ok0 P r \<Longrightarrow> (\<And>s. P s \<Longrightarrow> P (snd (h s))) \<Longrightarrow> okP P (map_option h r)"
proof -
  assume "ok0 P r" and h: "\<And>s. P s \<Longrightarrow> P (snd (h s))"
  then obtain s where "r = Some s" "P s" by (auto simp: ok0_def)
  then show ?thesis using h [of s] unfolding okP_def by (intro exI [of _ "fst (h s)"] exI [of _ "snd (h s)"]) simp
qed

lemma ok0_map [ok_intro]: "okP P r \<Longrightarrow> (\<And>b s. P s \<Longrightarrow> P (h (b, s))) \<Longrightarrow> ok0 P (map_option h r)"
  by (auto simp: okP_def ok0_def)

lemma ok0_map0 [ok_intro]: "ok0 P r \<Longrightarrow> (\<And>s. P s \<Longrightarrow> P (h s)) \<Longrightarrow> ok0 P (map_option h r)"
  by (auto simp: ok0_def)

lemma ok_Some [ok_intro]: "P (snd x) \<Longrightarrow> okP P (Some x)" "Q s \<Longrightarrow> ok0 Q (Some s)"
  by (cases x) (simp_all add: okP_def ok0_def)

lemma ok_if [ok_intro]: "(b \<Longrightarrow> okP P r) \<Longrightarrow> (\<not> b \<Longrightarrow> okP P r') \<Longrightarrow> okP P (if b then r else r')"
  "(b \<Longrightarrow> ok0 P r0) \<Longrightarrow> (\<not> b \<Longrightarrow> ok0 P r0') \<Longrightarrow> ok0 P (if b then r0 else r0')"
  by simp_all

lemma ok_weaken: "okP P r \<Longrightarrow> (\<And>s. P s \<Longrightarrow> Q s) \<Longrightarrow> okP Q r"
  by (auto simp: okP_def)

lemma nucleo_Database: "nucleo_fb s' = nucleo_fb s \<Longrightarrow> nb_Database s' = nb_Database s"
  by (simp add: nucleo_fb_def)

lemma nucleo_estado: "nucleo_fb s' = nucleo_fb s \<Longrightarrow> estado_fb s' = estado_fb s"
  by (simp add: nucleo_fb_def)

lemma nucleo_pide [simp]: "nucleo_fb (s\<lparr>nb_peticiones := ps\<rparr>) = nucleo_fb s" "nucleo_fb (s\<lparr>nb_Lectura := j\<rparr>) = nucleo_fb s"
  "nucleo_fb (s\<lparr>nb_sellos := x\<rparr>) = nucleo_fb s" "nucleo_fb (s\<lparr>nb_ts_inicio := b\<rparr>) = nucleo_fb s"
  "nucleo_fb (s\<lparr>nb_PeriodoFWUpdate := w\<rparr>) = nucleo_fb s" "nucleo_fb (s\<lparr>nb_GroupsDebug := g\<rparr>) = nucleo_fb s"
  "nucleo_fb (s\<lparr>nb_older_record_in_fb := g\<rparr>) = nucleo_fb s" "nucleo_fb (s\<lparr>nb_write_records_trigger := b\<rparr>) = nucleo_fb s"
  "nucleo_fb (s\<lparr>nb_Update := u\<rparr>) = nucleo_fb s" "nucleo_fb (s\<lparr>nb_ClientConnected := b\<rparr>) = nucleo_fb s"
  "nucleo_fb (s\<lparr>nb_fw_update := b\<rparr>) = nucleo_fb s" "nucleo_fb (s\<lparr>nb_conn_lock := b\<rparr>) = nucleo_fb s"
  "nucleo_fb (s\<lparr>nb_WriteParams := b\<rparr>) = nucleo_fb s" "nucleo_fb (s\<lparr>nb_WriteControl := b\<rparr>) = nucleo_fb s"
  "nucleo_fb (s\<lparr>nb_idToken := t\<rparr>) = nucleo_fb s" "nucleo_fb (s\<lparr>nb_retry_enable := b\<rparr>) = nucleo_fb s"
  "nucleo_fb (s\<lparr>nb_askForPermission := b\<rparr>) = nucleo_fb s" "nucleo_fb (s\<lparr>nb_givePermission := b\<rparr>) = nucleo_fb s"
  by (simp_all add: nucleo_fb_def estado_fb_def)

lemma nucleo_con_c: "nucleo_fb (con_c f s) = nucleo_fb s \<longleftrightarrow>
    FirebaseConnState (ConfigFirebase (f (nb_c s))) = FirebaseConnState (ConfigFirebase (nb_c s))
    \<and> record_pending_for_write (Registros (f (nb_c s))) = record_pending_for_write (Registros (nb_c s))
    \<and> record_received_buffer_for_fb (Registros (f (nb_c s))) = record_received_buffer_for_fb (Registros (nb_c s))"
  by (auto simp: nucleo_fb_def con_c_def estado_fb_def)

text \<open>\<open>estable P\<close>: the property needs the database and depends on the core only.\<close>

definition estable :: "(nube \<Rightarrow> bool) \<Rightarrow> bool" where
  "estable P \<longleftrightarrow> (\<forall>s. P s \<longrightarrow> conBD s) \<and> (\<forall>s s'. P s \<longrightarrow> nucleo_fb s' = nucleo_fb s \<longrightarrow> P s')"

lemma estableD: "estable P \<Longrightarrow> P s \<Longrightarrow> conBD s" "estable P \<Longrightarrow> P s \<Longrightarrow> nucleo_fb s' = nucleo_fb s \<Longrightarrow> P s'"
  unfolding estable_def by blast+

lemma estable_conBD [ok_intro]: "estable conBD"
  unfolding estable_def using nucleo_Database by blast

definition en_nucleo :: "bool \<times> u8 \<times> u16 \<times> bool \<times> bytes \<Rightarrow> nube \<Rightarrow> bool" where
  "en_nucleo k s \<longleftrightarrow> conBD s \<and> nucleo_fb s = k"

lemma estable_nucleo [ok_intro]: "estable (en_nucleo k)"
  unfolding estable_def en_nucleo_def using nucleo_Database by metis

lemma ok_pide:
  assumes "solo_pide f" "estable P" "P s"
  shows "okP P (f s)"
proof -
  have "conBD s" by (rule estableD(1) [OF assms(2,3)])
  from solo_pideD [OF assms(1) this] obtain b ps j where
    f: "f s = Some (b, s\<lparr>nb_peticiones := ps, nb_Lectura := j\<rparr>)" by (elim exE)
  have "P (s\<lparr>nb_peticiones := ps, nb_Lectura := j\<rparr>)"
    by (rule estableD(2) [OF assms(2,3)]) simp
  with f show ?thesis unfolding okP_def by blast
qed

lemmas ok_escrituras [ok_intro] = solo_pide_Send [THEN ok_pide] solo_pide_marca [THEN ok_pide]
  solo_pide_escribe [THEN ok_pide] solo_pide_writes [THEN ok_pide]

lemma ok_LogIn [ok_intro]:
  assumes "estable P" "P s"
  shows "okP P (LogIn e s)"
proof -
  have "conBD s" by (rule estableD(1) [OF assms])
  then have "\<exists>b ps k. LogIn e s = Some (b, s\<lparr>nb_peticiones := ps, nb_idToken := k\<rparr>) \<or> LogIn e s = Some (b, s\<lparr>nb_peticiones := ps\<rparr>)"
    by (cases "en_http e (length (nb_peticiones s))")
      (auto simp: LogIn_def pide_def Let_def split: option.split)
  moreover have "P (s\<lparr>nb_peticiones := ps, nb_idToken := k\<rparr>)" "P (s\<lparr>nb_peticiones := ps\<rparr>)" for ps k
    by (rule estableD(2) [OF assms], simp)+
  ultimately show ?thesis unfolding okP_def by blast
qed

lemma ok_Reiniciar [ok_intro]: "estable P \<Longrightarrow> P s \<Longrightarrow> ok0 P (ReiniciarMultiusuario e s)"
  unfolding ReiniciarMultiusuario_def by (auto intro!: ok_intro)

text \<open>\<^verbatim>\<open>Get_Timestamp\<close> may change the state of the task, but not when it returns a time stamp.\<close>

lemma ok_Get_Timestamp [ok_intro]: "conBD s \<Longrightarrow> okP conBD (Get_Timestamp e q s)"
  by (cases "en_http e (length (nb_peticiones s))")
    (auto simp: Get_Timestamp_def pide_def okP_def pasa_a_def con_c_def)

lemma Get_Timestamp_igual:
  "Get_Timestamp e q s = Some (n, s') \<Longrightarrow> 1 \<le> n \<Longrightarrow> nucleo_fb s' = nucleo_fb s"
  by (cases "en_http e (length (nb_peticiones s))") (auto simp: Get_Timestamp_def pide_def split: if_splits)

lemma BD_con_c [simp]: "nb_Database (con_c f s) = nb_Database s" "nb_Database (pasa_a n s) = nb_Database s"
  "nb_Database (pon_cliente b s) = nb_Database s" "nb_Database (reinicia_usuario s) = nb_Database s"
  "nb_Database (quita_fb g s) = nb_Database s" "nb_Database (con_registros h s) = nb_Database s"
  "nb_Database (control_leido L j s) = nb_Database s"
  by (simp_all add: con_c_def pasa_a_def pon_cliente_def reinicia_usuario_def quita_fb_def con_registros_def
    control_leido_def Let_def)

lemma ok_si_nuevo:
  assumes "conBD s" "\<And>ts s. conBD s \<Longrightarrow> ok0 conBD (f ts s)"
  shows "okP conBD (si_nuevo e path previo fallo f s)"
  unfolding si_nuevo_def
  using assms by (auto intro!: ok_intro)

lemma ok_lecturas [ok_intro]:
  assumes "conBD s"
  shows "okP conBD (ReadFirebaseShedule e s)" "okP conBD (ReadFirebaseComs e s)" "okP conBD (ReadFirebaseParams e s)"
    "okP conBD (ReadFirebaseControl e s)"
  unfolding ReadFirebaseShedule_def ReadFirebaseComs_def ReadFirebaseParams_def ReadFirebaseControl_def Let_def
  by (rule ok_si_nuevo [OF assms]; auto intro!: ok_intro split: prod.split)+

lemma ok_lee_raiz:
  assumes "conBD s" "\<And>j s. conBD s \<Longrightarrow> conBD (f j s)"
  shows "okP conBD (lee_raiz e path f s)"
  unfolding lee_raiz_def using assms by (auto intro!: ok_intro)

lemma ok_globales [ok_intro]:
  assumes "conBD s"
  shows "okP conBD (ReadFirebaseReadingPeriod e s)" "okP conBD (ReadFirebaseUpdatePeriod e s)"
    "okP conBD (ReadFirebaseGroupsDebug e s)"
  unfolding ReadFirebaseReadingPeriod_def ReadFirebaseUpdatePeriod_def ReadFirebaseGroupsDebug_def
  by (rule ok_lee_raiz [OF assms], simp)+

text \<open>The readings that keep the core.\<close>

lemma estable_pide [simp]:
  assumes "estable P" "P s"
  shows "P (s\<lparr>nb_Lectura := j\<rparr>)" "P (s\<lparr>nb_older_record_in_fb := r\<rparr>)" "P (s\<lparr>nb_write_records_trigger := b\<rparr>)"
    "P (s\<lparr>nb_retry_enable := b\<rparr>)" "P (s\<lparr>nb_sellos := x\<rparr>)" "P (s\<lparr>nb_ClientConnected := b\<rparr>)"
    "P (s\<lparr>nb_Update := u\<rparr>)"
  by (rule estableD(2) [OF assms], simp)+

lemma estable_con_c:
  assumes "estable P" "P s" "nucleo_fb (con_c f s) = nucleo_fb s"
  shows "P (con_c f s)"
  by (rule estableD(2) [OF assms])

lemma ok_ReadFirebaseUser [ok_intro]:
  assumes "estable P" "P s"
  shows "okP P (ReadFirebaseUser e s)"
proof -
  have c: "P s' \<Longrightarrow> P (con_c ((if a then envia x h else id) \<circ> (if b then envia y k else id)) s')" for s' a b x h y k
    by (rule estable_con_c [OF assms(1)]) (auto simp: nucleo_con_c envia_def emite_def)
  show ?thesis
    unfolding ReadFirebaseUser_def Let_def using assms c by (auto intro!: ok_intro)
qed

lemma ok_ReadFirebasePath [ok_intro]: "estable P \<Longrightarrow> P s \<Longrightarrow> okP P (ReadFirebasePath e path s)"
  unfolding ReadFirebasePath_def by (auto intro!: ok_intro)

lemma ok_RecordsTrigger [ok_intro]: "estable P \<Longrightarrow> P s \<Longrightarrow> okP P (ReadFirebaseRecordsTrigger e s)"
  unfolding ReadFirebaseRecordsTrigger_def Let_def by (auto intro!: ok_intro)

lemma ok_OlderSync [ok_intro]: "estable P \<Longrightarrow> P s \<Longrightarrow> okP P (ReadFirebaseOlderSyncRecord e s)"
  unfolding ReadFirebaseOlderSyncRecord_def Let_def
  by (auto intro!: ok_intro)

section \<open>Every turn ends\<close>

lemma ok_cuenta [ok_intro]: "okP P (f (snd ts)) \<Longrightarrow> okP P (cuenta f ts)"
  by (cases ts) (auto simp: cuenta_def intro!: ok_intro)

lemma ok_o_defecto [ok_intro]: "okP P (f s) \<Longrightarrow> (\<And>s. P s \<Longrightarrow> P (g s)) \<Longrightarrow> ok0 P (o_defecto f g s)"
  by (auto simp: o_defecto_def intro!: ok_intro)

lemma ok_si_pide [ok_intro]:
  "P (snd ts) \<Longrightarrow> (\<And>s. P s \<Longrightarrow> P (q s)) \<Longrightarrow> (\<And>s. P s \<Longrightarrow> okP P (f s)) \<Longrightarrow> okP P (si_pide p q f ts)"
  by (auto simp: si_pide_def intro!: ok_intro)

lemma ok_sin_sello [ok_intro]: "conBD (snd ts) \<Longrightarrow> okP conBD (sin_sello e ts)"
  by (cases ts) (auto simp: sin_sello_def Let_def intro!: ok_intro)

lemma ok_lee_sellos [ok_intro]: "conBD s \<Longrightarrow> ok0 conBD (lee_sellos e s)"
  by (auto simp: lee_sellos_def lee_sello_def intro!: ok_intro)

lemma ok_lee_registros [ok_intro]: "conBD s \<Longrightarrow> ok0 conBD (lee_registros e s)"
  by (auto simp: lee_registros_def intro!: ok_intro)

lemma ok_conectado: "conBD (snd ts) \<Longrightarrow> okP conBD (turno_conectado e ts)"
  by (cases ts) (auto simp: turno_conectado_def intro!: ok_intro)

lemma ok_ordenes [ok_intro]: "conBD (snd ts) \<Longrightarrow> okP conBD (usuario_ordenes e ts)"
  by (cases ts) (auto simp: usuario_ordenes_def Let_def intro!: ok_intro)

lemma ok_usuario: "conBD (snd ts) \<Longrightarrow> okP conBD (turno_usuario e ts)"
  by (cases ts) (auto simp: turno_usuario_def Let_def intro!: ok_intro)

lemma ok_unico: "okP conBD (f (snd ts)) \<Longrightarrow> okP conBD (turno_unico f sig ts)"
  by (auto simp: turno_unico_def intro!: ok_intro)

lemma ok_WRITING_STATUS: "conBD (snd ts) \<Longrightarrow> okP conBD (turno_WRITING_STATUS e ts)"
  by (auto simp: turno_WRITING_STATUS_def intro!: ok_intro)

lemma ok_CheckForUpdate: "conBD s \<Longrightarrow> okP conBD (CheckForUpdate e s)"
  by (auto simp: CheckForUpdate_def ReadFirebaseBranch_def comprueba_fw_def Let_def intro!: ok_intro)

lemma ok_actualizando: "conBD (snd ts) \<Longrightarrow> okP conBD (turno_actualizando e ts)"
  by (cases ts) (auto simp: turno_actualizando_def intro!: ok_intro ok_CheckForUpdate)

lemma ok_conectando: "conBD (snd ts) \<Longrightarrow> okP conBD (turno_conectando e ts)"
  by (cases ts) (auto simp: turno_conectando_def initFirebaseClient_def intro!: ok_intro)

text \<open>The record that waits can be sent when its time, and the terminator, fit into the text buffer.\<close>

definition cabe_hora :: "bytes \<Rightarrow> bool" where
  "cabe_hora buffer \<longleftrightarrow> hora_registro (drop 2 buffer) \<in> {946598400, 1046660583}
     \<or> length (ltoa (hora_registro (drop 2 buffer))) < 10"

lemma ok_sincroniza [ok_intro]: "conBD s \<Longrightarrow> ok0 conBD (sincroniza e s)"
  by (auto simp: sincroniza_def Let_def intro!: ok_intro split: prod.split)

lemma ok_Historic:
  "conBD s \<Longrightarrow> estado_fb s = IDLE \<Longrightarrow> cabe_hora buffer \<Longrightarrow> okP conBD (WriteFirebaseHistoric e buffer s)"
  by (auto simp: WriteFirebaseHistoric_def Let_def cabe_hora_def intro!: ok_intro)

lemma ok_pendiente:
  assumes "conBD s" "estado_fb s = IDLE"
    "record_pending_for_write (Registros (nb_c s)) \<longrightarrow> cabe_hora (record_received_buffer_for_fb (Registros (nb_c s)))"
  shows "ok0 conBD (registro_pendiente e s)"
proof -
  have "estado_fb (con_registros f s) = IDLE" for f
    using assms(2) by (simp add: con_registros_def con_c_def estado_fb_def)
  then show ?thesis
    unfolding registro_pendiente_def using assms by (auto intro!: ok_intro ok_Historic)
qed

text \<open>The idle turn: what it needs of the core.\<close>

definition puede_seguir :: "nube \<Rightarrow> bool" where
  "puede_seguir s \<longleftrightarrow> 1000 \<le> nb_PeriodoLectura s \<and>
     (record_pending_for_write (Registros (nb_c s)) \<longrightarrow> cabe_hora (record_received_buffer_for_fb (Registros (nb_c s))))"

definition ocioso :: "nube \<Rightarrow> bool" where
  "ocioso s \<longleftrightarrow> conBD s \<and> estado_fb s = IDLE \<and> puede_seguir s"

lemma estable_ocioso [ok_intro]: "estable ocioso"
  unfolding estable_def ocioso_def puede_seguir_def nucleo_fb_def by auto

lemma nucleo_con_registros: "nucleo_fb (con_registros (\<lambda>r. r\<lparr>records_trigger := b\<rparr>) s) = nucleo_fb s"
  by (simp add: con_registros_def nucleo_con_c)

lemma ok_registros: "ocioso s \<Longrightarrow> ok0 conBD (idle_registros e s)"
proof -
  assume o: "ocioso s"
  have p: "ocioso s \<Longrightarrow> ok0 conBD (registro_pendiente e s)" for s
    unfolding ocioso_def puede_seguir_def by (auto intro!: ok_pendiente)
  have c: "ocioso s \<Longrightarrow> ocioso (con_registros (\<lambda>r. r\<lparr>records_trigger := b\<rparr>) s)" for s b
    by (rule estableD(2) [OF estable_ocioso _ nucleo_con_registros])
  have "okP ocioso (ReadFirebaseRecordsTrigger e s)" using o by (auto intro!: ok_intro)
  then obtain b s1 where 1: "ReadFirebaseRecordsTrigger e s = Some (b, s1)" "ocioso s1" by (auto simp: okP_def)
  have "ok0 ocioso (if b then map_option snd (WriteFirebaseRecordsTrigger e False
      (con_registros (\<lambda>r. r\<lparr>records_trigger := nb_write_records_trigger s1\<rparr>) s1)) else Some s1)"
    using 1(2) c by (auto intro!: ok_intro)
  then show ?thesis using 1(1) p by (auto simp: idle_registros_def ok0_def)
qed

text \<open>A step of the idle turn: either the turn has ended, or the task is still idle.\<close>

definition ok_paso :: "(bool \<times> tarea_fb \<times> nube) option \<Rightarrow> bool" where
  "ok_paso r \<longleftrightarrow> (\<exists>fin t s. r = Some (fin, t, s) \<and> conBD s \<and> (\<not> fin \<longrightarrow> ocioso s))"

lemma ok_paso_Some [simp]: "ok_paso (Some (fin, t, s)) \<longleftrightarrow> conBD s \<and> (\<not> fin \<longrightarrow> ocioso s)"
  by (simp add: ok_paso_def)

lemma ocioso_BD: "ocioso s \<Longrightarrow> conBD s"
  by (simp add: ocioso_def)

lemma ok_idle_updates: "ocioso s \<Longrightarrow> ok_paso (idle_updates (t, s))"
proof -
  assume o: "ocioso s"
  then have "1 \<le> unat (nb_PeriodoLectura s) div 1000"
    by (simp add: ocioso_def puede_seguir_def word_le_nat_alt less_eq_div_iff_mult_less_eq)
  then obtain lim where l: "limite_updates s = Some lim" by (simp add: limite_updates_def Let_def)
  let ?n = "fb_UpdateCheckTimeout t + 1"
  show ?thesis
  proof (cases "lim < ?n \<and> reposo s")
    case True
    with l o ocioso_BD [OF o] show ?thesis
      by (cases "fw_auto s") (simp_all add: idle_updates_def Let_def)
  next
    case False
    then have "idle_updates (t, s) = Some (False, t\<lparr>fb_UpdateCheckTimeout := ?n\<rparr>, s)"
      using l by (auto simp: idle_updates_def Let_def)
    with o ocioso_BD [OF o] show ?thesis by simp
  qed
qed

lemma ok_idle_usuario: "ocioso s \<Longrightarrow> ok_paso (idle_usuario e n (t, s))"
proof -
  assume o: "ocioso s"
  have s: "okP ocioso (cuenta (WriteFirebaseStatus e) (t\<lparr>fb_xStarted := en_ms e\<rparr>, s\<lparr>nb_sellos := x\<rparr>))" for x
    by (rule ok_cuenta) (auto intro!: ok_intro estable_pide(5) [OF estable_ocioso o])
  have u: "ocioso s \<Longrightarrow> okP ocioso (cuenta (WriteFirebaseComs e) (t, s) \<bind> (\<lambda>(t3, s3). map_option (\<lambda>(_, s4). (t3, s4)) (ReadFirebaseUser e s3)))" for t s
    by (auto intro!: ok_intro)
  have u': "\<exists>b t3 s3 s4. cuenta (WriteFirebaseComs e) (t, s) = Some (t3, s3) \<and> ReadFirebaseUser e s3 = Some (b, s4) \<and> conBD s4"
    if "ocioso s" for t s
    using u [OF that, of t] ocioso_BD by (auto simp: okP_def Option.bind_eq_Some_conv)
  show ?thesis
  proof (cases "ts_Status (nb_sellos s) < n \<and> \<not> en_ble e \<and> 5000 < ms (en_ms e - nb_LastConn s)")
    case True
    from s [of "(nb_sellos s)\<lparr>ts_Status := n\<rparr>"] obtain t2 s2 where 2: "cuenta (WriteFirebaseStatus e) (t\<lparr>fb_xStarted := en_ms e\<rparr>,
        s\<lparr>nb_sellos := (nb_sellos s)\<lparr>ts_Status := n\<rparr>\<rparr>) = Some (t2, s2)" "ocioso s2" by (auto simp: okP_def)
    from u' [OF 2(2), of t2] obtain b t3 s3 s4 where
      "cuenta (WriteFirebaseComs e) (t2, s2) = Some (t3, s3)" "ReadFirebaseUser e s3 = Some (b, s4)" "conBD s4" by (elim exE conjE)
    with 2 True show ?thesis using ocioso_BD by (auto simp: idle_usuario_def)
  next
    case False
    then show ?thesis using o ocioso_BD by (auto simp: idle_usuario_def Let_def intro: estable_pide [OF estable_ocioso])
  qed
qed

lemma ok_idle_grupos: "ocioso (snd ts) \<Longrightarrow> okP ocioso (idle_grupos e ts)"
  by (cases ts) (auto simp: idle_grupos_def intro!: ok_intro)

lemma ok_libre: "ocioso s \<Longrightarrow> okP conBD (idle_libre e (t, s))"
proof -
  assume o: "ocioso s"
  have "okP conBD (Get_Timestamp e ''/status/ts_app_req'' s)" using ocioso_BD [OF o] by (rule ok_Get_Timestamp)
  then obtain n s1 where g: "Get_Timestamp e ''/status/ts_app_req'' s = Some (n, s1)" "conBD s1" by (auto simp: okP_def)
  show ?thesis
  proof (cases "n < 1")
    case True
    with g show ?thesis by (auto simp: idle_libre_def intro!: ok_intro)
  next
    case False
    then have o1: "ocioso s1"
      using estableD(2) [OF estable_ocioso o] Get_Timestamp_igual [OF g(1)] by simp
    let ?t = "t\<lparr>fb_null_count := 0, fb_Error_Count := 0\<rparr>"
    from ok_idle_updates [OF o1, of ?t] obtain f t2 s2 where
      u: "idle_updates (?t, s1) = Some (f, t2, s2)" "conBD s2" "\<not> f \<longrightarrow> ocioso s2" by (auto simp: ok_paso_def)
    have fin: "ok_paso (idle_usuario e n (t2, s2))" if "\<not> f" using ok_idle_usuario u(3) that by blast
    have rest: "okP conBD (idle_grupos e (t3, s3) \<bind> (\<lambda>(t4, s4). map_option (Pair t4) (idle_registros e s4)))"
      if "ocioso s3" for t3 s3
    proof -
      from ok_idle_grupos [of "(t3, s3)" e] that obtain t4 s4 where
        "idle_grupos e (t3, s3) = Some (t4, s4)" "ocioso s4" by (auto simp: okP_def)
      with ok_registros [of s4 e] show ?thesis by (auto simp: okP_def ok0_def)
    qed
    show ?thesis
    proof (cases f)
      case True
      with False g u show ?thesis by (simp add: idle_libre_def okP_def)
    next
      case nf: False
      from fin [OF this] obtain f3 t3 s3 where
        "idle_usuario e n (t2, s2) = Some (f3, t3, s3)" "conBD s3" "\<not> f3 \<longrightarrow> ocioso s3" by (auto simp: ok_paso_def)
      with False g u nf rest [of s3 t3] show ?thesis by (cases f3) (simp_all add: idle_libre_def okP_def)
    qed
  qed
qed

lemma ok_idle: "ocioso (snd ts) \<Longrightarrow> okP conBD (turno_idle e ts)"
proof -
  assume "ocioso (snd ts)"
  obtain t s where ts: "ts = (t, s)" by (cases ts)
  have n: "nucleo_fb (pon_cliente b s) = nucleo_fb s" "nucleo_fb (reinicia_usuario s) = nucleo_fb s" for b s
    by (simp_all add: pon_cliente_def reinicia_usuario_def nucleo_con_c)
  have p: "ocioso (pon_cliente False s)"
    by (rule estableD(2) [OF estable_ocioso _ n(1)]) (use \<open>ocioso (snd ts)\<close> ts in simp)
  have r: "ocioso (reinicia_usuario s)" if "ocioso s" for s
    by (rule estableD(2) [OF estable_ocioso that n(2)])
  have m: "ok0 ocioso (if en_ble e then Some (pon_cliente False s) else ReiniciarMultiusuario e (pon_cliente False s))"
    using p by (auto intro!: ok_intro)
  have "okP conBD ((if en_ble e then Some (pon_cliente False s) else ReiniciarMultiusuario e (pon_cliente False s))
      \<bind> (\<lambda>s1. idle_libre e (t, reinicia_usuario s1)))"
    using m ok_libre [OF r] unfolding ok0_def okP_def by fastforce
  then show ?thesis
    using ok_libre [OF p] ocioso_BD [OF p] unfolding ts turno_idle_def Let_def prod.case
    by (intro ok_if ok_Some) simp_all
qed

section \<open>Reachable states\<close>

lemma estado_pasa_a [simp]: "estado_fb (pasa_a n s) = n"
  by (simp add: estado_fb_def pasa_a_def con_c_def)

text \<open>One turn, when the database is there or the task is disconnected.\<close>

definition con_base :: "nube \<Rightarrow> bool" where
  "con_base s \<longleftrightarrow> nb_Database s \<or> estado_fb s = DISCONNECTED"

lemma con_base_BD: "okP conBD r \<Longrightarrow> okP con_base r"
  by (erule ok_weaken) (simp add: con_base_def)

lemma turno_desconectando_ok: "conBD s \<Longrightarrow> okP con_base (turno_desconectando (t, s))"
  by (simp add: turno_desconectando_def okP_def con_base_def)

lemmas turnos_base = ok_conectando [THEN con_base_BD] ok_conectado [THEN con_base_BD] ok_usuario [THEN con_base_BD]
  ok_unico [THEN con_base_BD] ok_WRITING_STATUS [THEN con_base_BD] ok_actualizando [THEN con_base_BD]

lemma sin_internet:
  assumes "con_base s" "\<not> InternetConection (ConfigFirebase (nb_c s))"
  shows "Firebase_Conn_Task e (t, s) =
    Some (if estado_fb s = DISCONNECTED then (t, s)
          else (t, pasa_a DISCONNECTED ((pasa_a DISCONNECTING s)\<lparr>nb_Database := False\<rparr>)))"
proof -
  have e: "DISCONNECTING \<notin> {DISCONNECTED, CONNECTING, CONECTADO, IDLE, USER_CONNECTED, WRITING_CONTROL, WRITING_STATUS,
      WRITING_COMS, WRITING_PARAMS, WRITING_TIMES, READING_CONTROL, READING_PARAMS, READING_COMS, UPDATING, DOWNLOADING,
      INSTALLING, WRITING_RECORD}"
    by (simp add: estados_fb DISCONNECTED_def)
  show ?thesis
  proof (cases "estado_fb s = DISCONNECTED")
    case True
    then show ?thesis using assms(2) by (simp add: Firebase_Conn_Task_def turno_desconectado_def)
  next
    case False
    with assms e show ?thesis
      by (simp add: Firebase_Conn_Task_def turno_desconectando_def con_base_def Let_def)
  qed
qed

lemma con_internet:
  assumes "con_base s" "InternetConection (ConfigFirebase (nb_c s))" "estado_fb s = IDLE \<longrightarrow> puede_seguir s"
  shows "okP con_base (Firebase_Conn_Task e (t, s))"
proof (cases "estado_fb s = DISCONNECTED")
  case True
  then show ?thesis using assms(2)
    by (simp add: Firebase_Conn_Task_def turno_desconectado_def okP_def con_base_def)
next
  case False
  then have bd: "conBD s" using assms(1) by (simp add: con_base_def)
  have i: "okP con_base (turno_idle e (t, s))" if "estado_fb s = IDLE"
    using that assms(3) bd by (intro con_base_BD ok_idle) (simp add: ocioso_def)
  have m: "con_base (snd (turno_instalando (t, s)))"
    using bd by (simp add: turno_instalando_def Let_def con_base_def)
  have b: "okP con_base (Some x)" if "conBD (snd x)" for x :: "tarea_fb \<times> nube"
    using that by (simp add: okP_def con_base_def) (metis prod.collapse)
  show ?thesis
    unfolding Firebase_Conn_Task_def using False assms(2) bd
    by (simp only: snd_conv fst_conv simp_thms if_False Let_def)
      (intro ok_if i turnos_base ok_Some(1) [of con_base, OF m] turno_desconectando_ok b; auto intro!: ok_intro turnos_base)
qed

text \<open>Whatever a turn does, when it returns the database is there or the task is disconnected.\<close>

definition siP :: "('a \<times> nube) option \<Rightarrow> bool" where
  "siP r \<longleftrightarrow> (\<forall>b s. r = Some (b, s) \<longrightarrow> conBD s)"

definition si0 :: "nube option \<Rightarrow> bool" where
  "si0 r \<longleftrightarrow> (\<forall>s. r = Some s \<longrightarrow> conBD s)"

definition si_paso :: "(bool \<times> tarea_fb \<times> nube) option \<Rightarrow> bool" where
  "si_paso r \<longleftrightarrow> (\<forall>b t s. r = Some (b, t, s) \<longrightarrow> conBD s)"

named_theorems si_intro

lemma si_ok [si_intro]: "okP conBD r \<Longrightarrow> siP r" "ok0 conBD r' \<Longrightarrow> si0 r'"
  by (auto simp: okP_def ok0_def siP_def si0_def)

lemma si_bind:
  "siP r \<Longrightarrow> (\<And>b s. conBD s \<Longrightarrow> siP (g (b, s))) \<Longrightarrow> siP (Option.bind r g)"
  "siP r \<Longrightarrow> (\<And>b s. conBD s \<Longrightarrow> si0 (g0 (b, s))) \<Longrightarrow> si0 (Option.bind r g0)"
  "si0 r0 \<Longrightarrow> (\<And>s. conBD s \<Longrightarrow> siP (g1 s)) \<Longrightarrow> siP (Option.bind r0 g1)"
  "si0 r0 \<Longrightarrow> (\<And>s. conBD s \<Longrightarrow> si0 (g2 s)) \<Longrightarrow> si0 (Option.bind r0 g2)"
  "si0 r0 \<Longrightarrow> siP (map_option (Pair t) r0)"
  "si_paso r' \<Longrightarrow> (\<And>b t s. conBD s \<Longrightarrow> siP (g' (b, t, s))) \<Longrightarrow> siP (Option.bind r' g')"
  by (auto simp: siP_def si0_def si_paso_def split: Option.bind_splits)

lemma si_if [si_intro]:
  "(b \<Longrightarrow> siP r) \<Longrightarrow> (\<not> b \<Longrightarrow> siP r') \<Longrightarrow> siP (if b then r else r')" "siP None"
  "(b \<Longrightarrow> si0 r0) \<Longrightarrow> (\<not> b \<Longrightarrow> si0 r0') \<Longrightarrow> si0 (if b then r0 else r0')"
  by (simp_all add: siP_def)

lemma si_Historic: "conBD s \<Longrightarrow> siP (WriteFirebaseHistoric e buffer s)"
  unfolding WriteFirebaseHistoric_def Let_def
  by (intro si_if si_ok(1)) (auto intro!: ok_intro)

lemma si_pendiente: "conBD s \<Longrightarrow> si0 (registro_pendiente e s)"
  unfolding registro_pendiente_def
  by (intro si_if si_bind(2) si_Historic) (auto intro!: si_ok(2) ok_intro)

lemma si_registros: "conBD s \<Longrightarrow> si0 (idle_registros e s)"
proof -
  assume bd: "conBD s"
  have w: "ok0 conBD (if b then map_option snd (WriteFirebaseRecordsTrigger e False (con_registros f s1)) else Some s1)"
    if "conBD s1" for b s1 f
    using that by (auto intro!: ok_intro)
  have r: "okP conBD (ReadFirebaseRecordsTrigger e s)" using bd by (intro ok_intro)
  show ?thesis
    unfolding idle_registros_def
    by (rule si_bind(2) [OF si_ok(1) [OF r]], simp only: prod.case, rule si_bind(4) [OF si_ok(2) [OF w]], assumption,
        rule si_pendiente)
qed

lemma si_updates: "conBD (snd ts) \<Longrightarrow> si_paso (idle_updates ts)"
  by (cases ts) (auto simp: idle_updates_def si_paso_def Let_def split: if_splits)

lemma si_usuario: "conBD s \<Longrightarrow> si_paso (idle_usuario e n (t, s))"
proof -
  assume bd: "conBD s"
  have st: "okP conBD (cuenta (WriteFirebaseStatus e) (t', s'))" "okP conBD (cuenta (WriteFirebaseComs e) (t', s'))"
    "okP conBD (ReadFirebaseUser e s')" if "conBD s'" for t' s'
    using that by (auto intro!: ok_intro)
  have b: "si_paso (Option.bind r g)" if "okP conBD r" "\<And>b s. conBD s \<Longrightarrow> si_paso (g (b, s))"
    for r :: "('b \<times> nube) option" and g
    using that by (auto simp: okP_def)
  have i: "si_paso (if q then r else r')" if "si_paso r" "si_paso r'" for q r r'
    using that by simp
  have o: "si_paso (Some (f, t, s))" if "conBD s" for f t s
    using that by (simp add: si_paso_def)
  have c: "si_paso (Option.bind (cuenta (WriteFirebaseComs e) (t2, s2)) (\<lambda>(t3, s3). Option.bind (ReadFirebaseUser e s3)
      (\<lambda>(_, s4). Some (True, t3\<lparr>fb_Error_Count := 0\<rparr>, (pasa_a USER_CONNECTED s4)\<lparr>nb_ClientConnected := True\<rparr>))))"
    if "conBD s2" for t2 s2
    by (rule b [OF st(2) [OF that]], simp only: prod.case, rule b [OF st(3)], assumption) (simp add: si_paso_def)
  show ?thesis
    unfolding idle_usuario_def prod.case Let_def
    by (intro i o b st) (simp_all add: bd o c)
qed

lemma si_libre: "conBD s \<Longrightarrow> siP (idle_libre e (t, s))"
proof -
  assume bd: "conBD s"
  have g: "siP (idle_grupos e (t, s))" if "conBD s" for t s
    using that by (intro si_ok(1)) (auto simp: idle_grupos_def intro!: ok_intro)
  have gr: "siP (Option.bind (idle_grupos e (t, s)) (\<lambda>(t4, s4). map_option (Pair t4) (idle_registros e s4)))"
    if "conBD s" for t s
    by (rule si_bind(1) [OF g [OF that]]) (simp add: si_bind(5) si_registros)
  have us: "siP (Option.bind (idle_usuario e n (t, s)) (\<lambda>(fin, t3, s3). if fin then Some (t3, s3)
      else Option.bind (idle_grupos e (t3, s3)) (\<lambda>(t4, s4). map_option (Pair t4) (idle_registros e s4))))"
    if "conBD s" for n t s
    by (rule si_bind(6) [OF si_usuario [OF that]]) (simp add: gr siP_def [of "Some _"])
  have up: "siP (Option.bind (idle_updates (t, s)) (\<lambda>(fin, t2, s2). if fin then Some (t2, s2)
      else Option.bind (idle_usuario e n (t2, s2)) (\<lambda>(fin, t3, s3). if fin then Some (t3, s3)
      else Option.bind (idle_grupos e (t3, s3)) (\<lambda>(t4, s4). map_option (Pair t4) (idle_registros e s4)))))"
    if "conBD s" for n t s
    by (rule si_bind(6) [OF si_updates]) (simp_all add: that us siP_def [of "Some _"])
  have ss: "siP (sin_sello e (t, s))" if "conBD s" for t s
    using that by (intro si_ok(1)) (simp add: ok_sin_sello)
  show ?thesis
    unfolding idle_libre_def prod.case
    by (rule si_bind(1) [OF si_ok(1) [OF ok_Get_Timestamp [OF bd]]]) (simp add: up ss)
qed

lemma si_idle: "conBD (snd ts) \<Longrightarrow> siP (turno_idle e ts)"
proof -
  assume "conBD (snd ts)"
  then obtain t s where ts: "ts = (t, s)" "conBD s" by (cases ts) simp
  have r: "ok0 conBD (if en_ble e then Some (pon_cliente False s) else ReiniciarMultiusuario e (pon_cliente False s))"
    using ts by (auto intro!: ok_intro)
  have o: "siP (Some (t, s))" if "conBD s" for t :: tarea_fb and s
    using that by (simp add: siP_def)
  show ?thesis
    unfolding turno_idle_def ts(1) prod.case Let_def
    by (intro si_if o si_libre si_bind(3) [OF si_ok(2) [OF r]]) (simp_all add: ts)
qed

text \<open>
  The states that the task can find itself in: turns of its own, and other tasks that change anything but the
  database object and, except for a change to \<open>DISCONNECTED\<close> when the cable brings the Internet, the state.
\<close>

inductive alcanza :: "tarea_fb \<Rightarrow> nube \<Rightarrow> bool" where
  inicio: "estado_fb s = DISCONNECTED \<Longrightarrow> alcanza t s"
| turno: "alcanza t s \<Longrightarrow> Firebase_Conn_Task e (t, s) = Some (t', s') \<Longrightarrow> alcanza t' s'"
| otras: "alcanza t s \<Longrightarrow> nb_Database s' = nb_Database s \<Longrightarrow> estado_fb s' = estado_fb s \<or> estado_fb s' = DISCONNECTED
    \<Longrightarrow> alcanza t s'"

text \<open>The two faults: a reading period below a second, and a record whose time is too long.\<close>

definition fallo_idle :: "nube \<Rightarrow> bool" where
  "fallo_idle s \<longleftrightarrow> estado_fb s = IDLE \<and> \<not> puede_seguir s"

lemma turno_con_base:
  assumes "con_base s" "InternetConection (ConfigFirebase (nb_c s)) \<longrightarrow> \<not> fallo_idle s"
  shows "okP con_base (Firebase_Conn_Task e (t, s))"
proof (cases "InternetConection (ConfigFirebase (nb_c s))")
  case True
  then show ?thesis using assms by (intro con_internet) (simp_all add: fallo_idle_def)
next
  case False
  then show ?thesis
    using assms(1) sin_internet [OF assms(1) False] by (simp add: okP_def con_base_def)
qed

lemma turno_idle_es:
  "InternetConection (ConfigFirebase (nb_c s)) \<Longrightarrow> estado_fb s = IDLE \<Longrightarrow>
     Firebase_Conn_Task e (t, s) = turno_idle e (t, s)"
  by (simp add: Firebase_Conn_Task_def Let_def estados_fb DISCONNECTED_def)

lemma base_turno:
  assumes "con_base s" "Firebase_Conn_Task e (t, s) = Some (t', s')"
  shows "con_base s'"
proof (cases "InternetConection (ConfigFirebase (nb_c s)) \<and> fallo_idle s")
  case True
  then have "Firebase_Conn_Task e (t, s) = turno_idle e (t, s)" "conBD s"
    using assms(1) turno_idle_es by (auto simp: fallo_idle_def con_base_def IDLE_def DISCONNECTED_def)
  with assms(2) si_idle [of "(t, s)" e] show ?thesis by (auto simp: siP_def con_base_def)
next
  case False
  with turno_con_base [of s e t] assms show ?thesis by (auto simp: okP_def)
qed

lemma alcanza_base: "alcanza t s \<Longrightarrow> con_base s"
proof (induction rule: alcanza.induct)
  case (turno t s e t' s')
  then show ?case using base_turno by blast
qed (auto simp: con_base_def)

lemma idle_sin_fallo:
  assumes "con_base s" "Firebase_Conn_Task e (t, s) = None"
  shows "InternetConection (ConfigFirebase (nb_c s)) \<and> fallo_idle s"
  using turno_con_base [OF assms(1), of e t] assms(2) by (auto simp: okP_def)


lemma periodo_malo: "ucast (k :: u8) * (1000 :: u16) < 1000 \<longleftrightarrow> k \<in> {0, 66, 132, 197}"
proof -
  have n: "m * 1000 mod 65536 < 1000 \<longleftrightarrow> m \<in> {0, 66, 132, 197}" if "m < 256" for m :: nat
  proof -
    define q r where "q = m * 1000 div 65536" and "r = m * 1000 mod 65536"
    have m: "m * 1000 = q * 65536 + r" unfolding q_def r_def by (rule div_mult_mod_eq [symmetric])
    have "r < 65536" by (simp add: r_def)
    note m = m this
    then have "q < 4" using that by linarith
    then consider "q = 0" | "q = 1" | "q = 2" | "q = 3" by linarith
    then have "r < 1000 \<longleftrightarrow> m = 0 \<or> m = 66 \<or> m = 132 \<or> m = 197"
      using m that by cases arith+
    then show ?thesis by (simp add: r_def)
  qed
  have k: "unat k < 256" by (rule unat_u8_less)
  have "unat (ucast k :: u16) = unat k"
    by (simp add: unsigned_ucast_eq take_bit_nat_eq_self_iff less_trans [OF unat_u8_less])
  then have "unat (ucast k * (1000 :: u16)) = unat k * 1000 mod 65536"
    by (simp add: unat_word_ariths)
  moreover note k
  moreover have "k \<in> {0, 66, 132, 197} \<longleftrightarrow> unat k \<in> {0, 66, 132, 197}"
    by (simp add: word_unat_eq_iff)
  ultimately show ?thesis using n [of "unat k"] by (simp add: word_less_nat_alt)
qed

text \<open>
  C24: a reading period that the service may set stops the charger. The period is a byte of seconds kept in
  milliseconds in 16 bits; with the values 0, 66, 132 and 197, and no others, it is less than a second, and the
  first idle turn that gets a time stamp from the server divides by zero.
\<close>

theorem service_period_stops_task:
  assumes "nb_Database s" "en_http e (length (nb_peticiones s)) = HttpOk n x" "n < 30"
    "k = nl_u8 (en_lib e) (lee_json e x)"
    "nb_Database s2" "estado_fb s2 = IDLE" "InternetConection (ConfigFirebase (nb_c s2))"
    "\<not> ResetUser (ConfigFirebase (nb_c s2))" "fb_Error_Count t \<le> 10" "\<not> en_ble e2"
    "en_http e2 (length (nb_peticiones s2)) = HttpOk n2 x2" "n2 < 30" "1 \<le> atol x2"
    "record_pending_for_write (Registros (nb_c s2)) \<longrightarrow> cabe_hora (record_received_buffer_for_fb (Registros (nb_c s2)))"
  shows "\<exists>s1. ReadFirebaseReadingPeriod e s = Some (True, s1) \<and>
    (nb_PeriodoLectura s2 = nb_PeriodoLectura s1 \<longrightarrow>
       (Firebase_Conn_Task e2 (t, s2) = None \<longleftrightarrow> k \<in> {0, 66, 132, 197}))"
proof -
  obtain s1 where r: "ReadFirebaseReadingPeriod e s = Some (True, s1)" and p: "nb_PeriodoLectura s1 = ucast k * 1000"
    using assms(1-4) by (auto simp: ReadFirebaseReadingPeriod_def lee_raiz_def Send_Command_def pide_def esperado_def)
  have main: "Firebase_Conn_Task e2 (t, s2) = None \<longleftrightarrow> k \<in> {0, 66, 132, 197}"
    if q: "nb_PeriodoLectura s2 = nb_PeriodoLectura s1"
  proof
    assume "Firebase_Conn_Task e2 (t, s2) = None"
    with idle_sin_fallo [of s2 e2 t] assms(5) have "fallo_idle s2" by (simp add: con_base_def)
    with assms(14) show "k \<in> {0, 66, 132, 197}"
      using periodo_malo [of k] by (auto simp: fallo_idle_def puede_seguir_def q p)
  next
    assume "k \<in> {0, 66, 132, 197}"
    then have "nb_PeriodoLectura s2 < 1000" by (simp only: q p periodo_malo)
    then have "unat (nb_PeriodoLectura s2) div 1000 = 0" by (simp add: word_less_nat_alt)
    then have u: "idle_updates (t', s') = None" if "nb_PeriodoLectura s' = nb_PeriodoLectura s2" for t' s'
      using that by (simp add: idle_updates_def limite_updates_def)
    have "\<exists>j. Get_Timestamp e2 ''/status/ts_app_req'' (pon_cliente False s2) = Some (atol x2, hecho (LeeTs ''/status/ts_app_req'') j (pon_cliente False s2))"
      using assms(5,11,12) by (intro Get_Timestamp_ok) (simp_all add: pon_cliente_def con_c_def)
    moreover have "nb_PeriodoLectura (hecho a j (pon_cliente False s2)) = nb_PeriodoLectura s2" for a j
      by (simp add: hecho_def pon_cliente_def con_c_def)
    ultimately have l: "idle_libre e2 (t', pon_cliente False s2) = None" for t'
      using u assms(13) by (auto simp: idle_libre_def)
    have "InternetConection (ConfigFirebase (nb_c (pon_cliente False s2)))" "\<not> ResetUser (ConfigFirebase (nb_c (pon_cliente False s2)))"
      using assms(7,8) by (simp_all add: pon_cliente_def con_c_def)
    moreover have "\<not> 10 < fb_Error_Count t" using assms(9) by simp
    ultimately show "Firebase_Conn_Task e2 (t, s2) = None"
      using l assms(6,7,10) by (simp add: turno_idle_es turno_idle_def Let_def)
  qed
  show ?thesis by (rule exI [of _ s1], rule conjI [OF r], rule impI, rule main)
qed

section \<open>The records that are asked for\<close>

text \<open>The rounds of the synchronisation: the places of the records that are asked for after the uploaded one.\<close>

fun recorrido :: "nat \<Rightarrow> u8 \<Rightarrow> registros \<Rightarrow> u8 list option" where
  "recorrido 0 older r = None"
| "recorrido (Suc n) older r =
     (case registro_anterior older r of
        (r', completo) \<Rightarrow> if completo then Some [] else map_option ((#) (record_index r')) (recorrido n older r'))"

text \<open>How many places lie between the record that is being written and the given one, going back round the memory.\<close>

definition distancia :: "registros \<Rightarrow> nat" where
  "distancia r = (unat (record_index r) + 200 - unat (last_record_in_mem r)) mod 200"

definition sitios :: "registros \<Rightarrow> bool" where
  "sitios r \<longleftrightarrow> record_index r < 200 \<and> last_record_in_mem r < 200"

lemma registro_anterior_paso:
  assumes "sitios r" "registro_anterior older r = (r', False)"
  shows "sitios r' \<and> last_record_in_mem r' = last_record_in_mem r \<and> last_record_lap r' = last_record_lap r
    \<and> record_index r' \<noteq> last_record_in_mem r'
    \<and> unat (record_index r') = (unat (record_index r) + 199) mod 200"
proof -
  have l: "unat (record_index r) < 200" using assms(1) by (simp add: sitios_def word_less_nat_alt)
  show ?thesis
  proof (cases "0 < record_index r")
    case True
    then have u: "unat (record_index r - 1) = unat (record_index r) - 1"
      by (simp add: unat_minus_one word_neq_0_conv)
    have "0 < unat (record_index r)" using True by (simp add: word_less_nat_alt)
    then have "(unat (record_index r) + 199) mod 200 = unat (record_index r) - 1"
      using l by (simp add: mod_if)
    then show ?thesis using assms True u l
      by (auto simp: registro_anterior_def sitios_def Let_def word_less_nat_alt split: if_splits)
  next
    case False
    then have "record_index r = 0" by (simp only: word_gt_0 not_not)
    then show ?thesis using assms
      by (auto simp: registro_anterior_def sitios_def Let_def MAX_RECORDS_IN_MEMORY_def split: if_splits)
  qed
qed

lemma resta_circular:
  fixes x l :: nat
  assumes "x < 200" "l < 200"
  shows "(x + 200 - l) mod 200 = (if l \<le> x then x - l else x + 200 - l)"
proof (cases "l \<le> x")
  case True
  then have "x + 200 - l = x - l + 200" by simp
  then have "(x + 200 - l) mod 200 = (x - l) mod 200" by (simp only: mod_add_self2)
  then show ?thesis using True assms by simp
qed (use assms in simp)

lemma anterior_circular: "y < 200 \<Longrightarrow> (y + 199) mod 200 = (if y = 0 then 199 else y - 1)" for y :: nat
  using resta_circular [of y 1] by (cases "y = 0") (simp_all add: add.commute)

lemma paso_circular:
  fixes i j l :: nat
  assumes "l < 200" "i < 200" "j = (i + 199) mod 200" "j \<noteq> l"
  shows "(j + 200 - l) mod 200 = ((i + 200 - l) mod 200 + 199) mod 200 \<and> 0 < (j + 200 - l) mod 200"
proof -
  have j: "j = (if i = 0 then 199 else i - 1)" "j < 200" using assms(2,3) anterior_circular [OF assms(2)] by auto
  have "(i + 200 - l) mod 200 < 200" by simp
  note a = anterior_circular [OF this]
  show ?thesis
    unfolding a unfolding resta_circular [OF j(2) assms(1)] resta_circular [OF assms(2,1)]
    using j assms(1,2,4) by (auto split: if_splits)
qed

lemma distancia_baja:
  assumes "sitios r" "registro_anterior older r = (r', False)"
  shows "distancia r' = (distancia r + 199) mod 200 \<and> 0 < distancia r'"
proof -
  let ?i = "unat (record_index r)" and ?l = "unat (last_record_in_mem r)" and ?i' = "unat (record_index r')"
  note p = registro_anterior_paso [OF assms]
  have b: "?l < 200" "?i < 200" "?i' < 200"
    using p assms(1) by (simp_all add: sitios_def word_less_nat_alt)
  have i': "?i' = (?i + 199) mod 200" using p by blast
  have ne: "?i' \<noteq> ?l" using p by (metis word_unat_eq_iff)
  have d: "distancia r = (?i + 200 - ?l) mod 200" "distancia r' = (?i' + 200 - ?l) mod 200"
    using p by (simp_all add: distancia_def)
  show ?thesis unfolding d by (rule paso_circular [OF b(1,2) i' ne])
qed

lemma recorrido_desde:
  "sitios r \<Longrightarrow> 0 < distancia r \<Longrightarrow> distancia r \<le> n \<Longrightarrow> \<exists>is. recorrido n older r = Some is \<and> length is < distancia r"
proof (induction n arbitrary: r)
  case (Suc n)
  obtain r' b where r: "registro_anterior older r = (r', b)" by force
  show ?case
  proof (cases b)
    case False
    note d = distancia_baja [OF Suc.prems(1)] registro_anterior_paso [OF Suc.prems(1)]
    have r': "registro_anterior older r = (r', False)" using r False by simp
    have "distancia r < 200" by (simp add: distancia_def)
    then have e: "distancia r' = distancia r - 1" "0 < distancia r'"
      using d(1) [OF r'] Suc.prems(2) by (auto simp: mod_if)
    moreover have "sitios r'" using d(2) [OF r'] by blast
    ultimately obtain "is" where "recorrido n older r' = Some is" "length is < distancia r'"
      using Suc.IH [of r'] Suc.prems(3) by force
    with r' e show ?thesis by simp
  qed (use r Suc.prems in simp)
qed simp

text \<open>The synchronisation ends: after an uploaded record at most 199 others are asked for.\<close>

lemma record_sync_ends:
  assumes "sitios r"
  shows "\<exists>is. recorrido 200 older r = Some is \<and> length is < 200"
proof (cases "distancia r = 0")
  case False
  moreover have "distancia r < 200" by (simp add: distancia_def)
  ultimately have "0 < distancia r" "distancia r \<le> 200" by simp_all
  from recorrido_desde [OF assms this, of older] \<open>distancia r < 200\<close> show ?thesis by auto
next
  case True
  obtain r' b where r: "registro_anterior older r = (r', b)" by force
  have s: "recorrido 200 older r = (if b then Some [] else map_option ((#) (record_index r')) (recorrido 199 older r'))"
  proof -
    have "recorrido 200 older r = recorrido (Suc 199) older r" by simp
    then show ?thesis by (simp only: recorrido.simps r prod.case)
  qed
  show ?thesis
  proof (cases b)
    case False
    with r have r': "registro_anterior older r = (r', False)" by simp
    from distancia_baja [OF assms r'] True have "distancia r' = 199" by simp
    with recorrido_desde [of r' 199 older] registro_anterior_paso [OF assms r'] obtain "is" where
      "recorrido 199 older r' = Some is" "length is < 199" by auto
    with s False show ?thesis by simp
  qed (use s in simp)
qed

section \<open>Examples\<close>

definition demo_tarea_fb :: tarea_fb where
  "demo_tarea_fb = \<lparr>fb_NextState = 0, fb_Error_Count = 0, fb_null_count = 0, fb_bloquedByBLE = False,
     fb_Params_Coms_Timeout = 0, fb_xStarted = 0, fb_UpdateCheckTimeout = 0, fb_previousMillis = 0, fb_descargas = 0\<rparr>"

definition demo_conexion :: "u8 \<Rightarrow> u16 \<Rightarrow> nube" where
  "demo_conexion est periodo = (con_c (\<lambda>c. c\<lparr>ConfigFirebase := (ConfigFirebase c)
     \<lparr>InternetConection := True, FirebaseConnState := est\<rparr>\<rparr>) demo_nube)\<lparr>nb_PeriodoLectura := periodo\<rparr>"

lemma demo_conexion_sel [simp]:
  "estado_fb (demo_conexion est w) = est" "InternetConection (ConfigFirebase (nb_c (demo_conexion est w)))"
  "nb_PeriodoLectura (demo_conexion est w) = w" "nb_Database (demo_conexion est w)"
  "\<not> ResetUser (ConfigFirebase (nb_c (demo_conexion est w)))" "nb_peticiones (demo_conexion est w) = []"
  "\<not> record_pending_for_write (Registros (nb_c (demo_conexion est w)))"
  by (simp_all add: demo_conexion_def con_c_def demo_nube_def estado_fb_def demo_control_def Let_def)


theorem service_period_stops_task_witness:
  "(\<exists>s1. ReadFirebaseReadingPeriod demo_entorno_nube demo_nube = Some (True, s1) \<and> nb_PeriodoLectura s1 = 0)
   \<and> Firebase_Conn_Task demo_entorno_nube (demo_tarea_fb, demo_conexion IDLE 0) = None"
proof -
  let ?e = demo_entorno_nube and ?s = "demo_conexion IDLE 0"
  have h: "nb_Database demo_nube" "en_http ?e (length (nb_peticiones demo_nube)) = HttpOk 2 [55]" "(2 :: nat) < 30"
    "0 = nl_u8 (en_lib ?e) (lee_json ?e [55])" "fb_Error_Count demo_tarea_fb \<le> 10" "\<not> en_ble ?e"
    "en_http ?e (length (nb_peticiones ?s)) = HttpOk 2 [55]" "1 \<le> atol [55]"
    by (simp_all add: demo_nube_def demo_entorno_nube_def lee_json_def demo_tarea_fb_def atol_def) (simp_all add: demo_lib_def)
  have p: "nb_PeriodoLectura s1 = 0" if "ReadFirebaseReadingPeriod ?e demo_nube = Some (True, s1)" for s1
    using that h(1-4)
    by (auto simp: ReadFirebaseReadingPeriod_def lee_raiz_def Send_Command_def pide_def esperado_def)
  from service_period_stops_task [OF h(1-4), of ?s demo_tarea_fb ?e 2 "[55]"] h(5-8) obtain s1 where
    "ReadFirebaseReadingPeriod ?e demo_nube = Some (True, s1)"
    "nb_PeriodoLectura ?s = nb_PeriodoLectura s1 \<longrightarrow> (Firebase_Conn_Task ?e (demo_tarea_fb, ?s) = None \<longleftrightarrow> (0 :: u8) \<in> {0, 66, 132, 197})"
    by auto
  with p [of s1] show ?thesis by auto
qed

end
