(* ===== verification/Cloud_Download.thy ===== *)
theory Cloud_Download
  imports Psoc_Control
begin

text \<open>
  The task that downloads new firmware (\<^verbatim>\<open>DownloadFileTask\<close> of \<^verbatim>\<open>coms/FirebaseClient.cpp\<close>): a file
  for the PSoC into the file system that theory \<open>Psoc_Control\<close> programs it from, or an image for the ESP32
  into the free application slot. The HTTP client, the file system and \<^verbatim>\<open>Update\<close> are outside the sources; what
  they answer in an attempt is a parameter. Delays are left out.
\<close>

section \<open>One attempt\<close>

text \<open>\<^verbatim>\<open>SPIFFS.begin\<close> with its first argument set formats a partition that cannot be mounted.\<close>

datatype montaje = Montado | Formateado | SinMontar

text \<open>One turn of the reading loop: what a read of at most 2048 bytes gives, or nothing available.\<close>

datatype trozo = Datos bytes | Vacio

text \<open>
  An attempt: the two mounts, whether a format succeeds, whether the request is answered, the announced length
  (-1 when it is not known), the turns until the connection is closed, how many bytes a write of the given length
  at the given position accepts, and the result of \<^verbatim>\<open>Update.end\<close>.
\<close>

record intento =
  it_begin1 :: montaje
  it_begin2 :: montaje
  it_format :: bool
  it_get :: bool
  it_total :: int
  it_flujo :: "trozo list"
  it_acepta :: "nat \<Rightarrow> nat \<Rightarrow> nat"
  it_end :: bool

record descarga =
  dc_f :: ficheros
  dc_c :: control
  dc_ESP :: bytes
  dc_DescargandoArchivo :: bool

definition vacia :: "ficheros \<Rightarrow> ficheros" where
  "vacia f = f\<lparr>PSOC_UPDATE_FILE := None, PSOC_UPDATE_OLD_FILE := None\<rparr>"

fun monta :: "montaje list \<Rightarrow> ficheros \<Rightarrow> ficheros option" where
  "monta [] f = None"
| "monta (Montado # ms) f = Some f"
| "monta (Formateado # ms) f = Some (vacia f)"
| "monta (SinMontar # ms) f = monta ms f"

text \<open>A file of an earlier download is removed together with everything else; then the file is created.\<close>

definition abre_fichero :: "intento \<Rightarrow> ficheros \<Rightarrow> ficheros" where
  "abre_fichero it f =
     (let f1 = (if PSOC_UPDATE_FILE f \<noteq> None
                then if it_format it then vacia f else f\<lparr>PSOC_UPDATE_FILE := None\<rparr> else f)
      in f1\<lparr>PSOC_UPDATE_FILE := Some []\<rparr>)"

fun baja :: "(nat \<Rightarrow> nat \<Rightarrow> nat) \<Rightarrow> trozo list \<Rightarrow> nat \<Rightarrow> int \<Rightarrow> int \<Rightarrow> bytes \<Rightarrow> int \<times> bytes" where
  "baja acepta [] emptyCycles len written f = (written, f)"
| "baja acepta (x # xs) emptyCycles len written f =
     (if 0 < len \<or> len = - 1
      then case x of
             Datos buff \<Rightarrow>
               let c = length buff; n = min c (acepta (length f) c); f1 = f @ take n buff
               in if n \<noteq> c then (written, f1)
                  else if 0 < len then baja acepta xs emptyCycles (len - int c) (written + int c) f1
                  else baja acepta xs emptyCycles len written f1
           | Vacio \<Rightarrow> if 500 \<le> emptyCycles + 1 then (written, f) else baja acepta xs (emptyCycles + 1) len written f
      else (written, f))"

datatype fin_descarga = Abortada descarga | Reiniciada descarga | Terminada descarga | Otro_intento descarga

definition reinicia_todo :: "control \<Rightarrow> control" where
  "reinicia_todo = emite [Reset_Main 0, Reinicia]"

text \<open>\<open>Otro_intento\<close>: neither of the two has succeeded and the task is still running.\<close>

definition intenta :: "intento \<Rightarrow> descarga \<Rightarrow> fin_descarga" where
  "intenta it s =
     (let psoc = PSOC_UpdateAvailable (dc_f s) in
      case (if psoc then monta [it_begin1 it, it_begin2 it] (dc_f s) else Some (dc_f s)) of
        None \<Rightarrow> Abortada (s\<lparr>dc_DescargandoArchivo := False\<rparr>)
      | Some f \<Rightarrow>
          let s1 = (if psoc then s\<lparr>dc_f := abre_fichero it f\<rparr> else s);
              (written, datos) = baja (it_acepta it) (it_flujo it) 0 (it_total it) 0 [];
              s2 = (if \<not> it_get it then s1
                    else if psoc then s1\<lparr>dc_f := (dc_f s1)\<lparr>PSOC_UPDATE_FILE := Some datos\<rparr>\<rparr>
                    else s1\<lparr>dc_ESP := datos\<rparr>);
              success = it_get it \<and> written = it_total it \<and> (psoc \<longrightarrow> int (length datos) = it_total it)
          in if ESP_UpdateAvailable (dc_f s2) \<and> \<not> psoc \<and> it_end it
             then Reiniciada (s2\<lparr>dc_c := reinicia_todo (dc_c s2)\<rparr>)
             else if success then Terminada s2 else Otro_intento s2)"

definition setMainFwUpdateActive :: "u8 \<Rightarrow> control \<Rightarrow> control" where
  "setMainFwUpdateActive v c = c\<lparr>Arranque := (Arranque c)\<lparr>mainFwUpdateActive := v\<rparr>\<rparr>"

fun intentos :: "intento list \<Rightarrow> descarga \<Rightarrow> fin_descarga" where
  "intentos [] s = Reiniciada (s\<lparr>dc_c := reinicia_todo
     ((dc_c s)\<lparr>Status := (Status (dc_c s))\<lparr>error_code := 8\<rparr>\<rparr>)\<rparr>)"
| "intentos (it # its) s =
     (case intenta it s of
        Otro_intento s1 \<Rightarrow> intentos its s1
      | Terminada s1 \<Rightarrow> Terminada (s1\<lparr>dc_c := setMainFwUpdateActive 1 (dc_c s1), dc_DescargandoArchivo := False\<rparr>)
      | r \<Rightarrow> r)"

definition MAX_RETRIES :: nat where "MAX_RETRIES = 5"

definition DownloadFileTask :: "(nat \<Rightarrow> intento) \<Rightarrow> descarga \<Rightarrow> fin_descarga" where
  "DownloadFileTask it s = intentos (map it [0..<MAX_RETRIES]) (s\<lparr>dc_DescargandoArchivo := True\<rparr>)"

section \<open>What is stored\<close>

fun bytes_de :: "trozo list \<Rightarrow> bytes" where
  "bytes_de [] = []"
| "bytes_de (Datos d # xs) = d @ bytes_de xs"
| "bytes_de (Vacio # xs) = bytes_de xs"

text \<open>The file is an initial part of what has been received; what is counted is the whole of it.\<close>

lemma baja_prefijo: "baja a xs v len w f = (w', f') \<Longrightarrow> \<exists>p q. f' = f @ p \<and> bytes_de xs = p @ q"
proof (induction a xs v len w f rule: baja.induct)
  case (2 acepta x xs v len w f)
  show ?case
  proof (cases x)
    case (Datos d)
    let ?n = "min (length d) (acepta (length f) (length d))"
    show ?thesis
    proof (cases "(0 < len \<or> len = - 1) \<and> ?n = length d")
      case True
      then have "\<exists>len1 w1. baja acepta xs v len1 w1 (f @ d) = (w', f')
          \<and> (\<exists>p q. f' = (f @ d) @ p \<and> bytes_de xs = p @ q)"
        using 2 Datos by (cases "0 < len") (auto simp: Let_def min_def split: if_splits)
      then show ?thesis using Datos by auto
    next
      case False
      then have "f' = f @ take ?n d \<or> f' = f" using 2(4) Datos by (auto simp: Let_def split: if_splits)
      moreover have "bytes_de (x # xs) = take ?n d @ drop ?n d @ bytes_de xs" "bytes_de (x # xs) = [] @ bytes_de (x # xs)"
        by (simp_all add: Datos)
      ultimately show ?thesis by (metis append_Nil2)
    qed
  next
    case Vacio
    then show ?thesis using 2 by (auto split: if_splits)
  qed
qed simp

lemma intenta_PSOC:
  assumes "PSOC_UpdateAvailable (dc_f s)" "intenta it s = Terminada s'"
  shows "\<exists>d q. PSOC_UPDATE_FILE (dc_f s') = Some d \<and> int (length d) = it_total it \<and> bytes_de (it_flujo it) = d @ q"
proof -
  obtain w d where b: "baja (it_acepta it) (it_flujo it) 0 (it_total it) 0 [] = (w, d)" by force
  obtain f where "monta [it_begin1 it, it_begin2 it] (dc_f s) = Some f"
    using assms by (cases "monta [it_begin1 it, it_begin2 it] (dc_f s)") (simp_all add: intenta_def)
  with assms b have "PSOC_UPDATE_FILE (dc_f s') = Some d" "int (length d) = it_total it"
    by (auto simp: intenta_def Let_def split: if_splits)
  with baja_prefijo [OF b] show ?thesis by auto
qed

lemma monta_flag: "monta ms f = Some f' \<Longrightarrow> PSOC_UpdateAvailable f' = PSOC_UpdateAvailable f"
  by (induction ms f rule: monta.induct) (auto simp: vacia_def)

lemma intenta_flag:
  "intenta it s = Otro_intento s' \<Longrightarrow> PSOC_UpdateAvailable (dc_f s') = PSOC_UpdateAvailable (dc_f s)"
  by (auto simp: intenta_def Let_def abre_fichero_def vacia_def split: option.splits prod.splits if_splits dest: monta_flag)

text \<open>
  A download for the PSoC that ends well: the file that the update task will program is an initial part of what was
  received in one of the five attempts, of the announced length, and the update is started.
\<close>

lemma intentos_guardan:
  "intentos its s = Terminada s' \<Longrightarrow> PSOC_UpdateAvailable (dc_f s) \<Longrightarrow>
     (\<exists>it \<in> set its. \<exists>d q. PSOC_UPDATE_FILE (dc_f s') = Some d \<and> int (length d) = it_total it
        \<and> bytes_de (it_flujo it) = d @ q) \<and> mainFwUpdateActive (Arranque (dc_c s')) = 1 \<and> \<not> dc_DescargandoArchivo s'"
proof (induction its arbitrary: s)
  case (Cons it its)
  show ?case
  proof (cases "intenta it s")
    case (Terminada s1)
    with Cons.prems intenta_PSOC [OF Cons.prems(2) Terminada] show ?thesis by (auto simp: setMainFwUpdateActive_def)
  next
    case (Otro_intento s1)
    with Cons.IH [of s1] Cons.prems intenta_flag [OF Otro_intento] show ?thesis by auto
  qed (use Cons.prems in simp_all)
qed simp

lemma download_stores_announced_file:
  assumes "PSOC_UpdateAvailable (dc_f s)" "DownloadFileTask it s = Terminada s'"
  shows "(\<exists>k < 5. \<exists>d q. PSOC_UPDATE_FILE (dc_f s') = Some d \<and> int (length d) = it_total (it k)
        \<and> bytes_de (it_flujo (it k)) = d @ q) \<and> mainFwUpdateActive (Arranque (dc_c s')) = 1"
  using intentos_guardan [of "map it [0..<MAX_RETRIES]" "s\<lparr>dc_DescargandoArchivo := True\<rparr>" s'] assms
  unfolding DownloadFileTask_def by (fastforce simp: MAX_RETRIES_def)

section \<open>What is lost\<close>

definition sin_viejo :: "descarga \<Rightarrow> bool" where
  "sin_viejo s \<longleftrightarrow> PSOC_UpdateAvailable (dc_f s) \<and> PSOC_UPDATE_OLD_FILE (dc_f s) = None \<and> PSOC_UPDATE_FILE (dc_f s) \<noteq> None"

lemma intenta_sin_viejo:
  assumes "PSOC_UpdateAvailable (dc_f s)" "PSOC_UPDATE_FILE (dc_f s) \<noteq> None" "it_begin1 it = Montado" "it_format it"
  shows "\<exists>s'. (intenta it s = Otro_intento s' \<or> intenta it s = Terminada s') \<and> sin_viejo s'"
  using assms
  by (cases "baja (it_acepta it) (it_flujo it) 0 (it_total it) 0 []")
    (simp add: intenta_def Let_def abre_fichero_def vacia_def sin_viejo_def)

lemma intentos_sin_viejo:
  "PSOC_UpdateAvailable (dc_f s) \<Longrightarrow> PSOC_UPDATE_FILE (dc_f s) \<noteq> None \<Longrightarrow> its \<noteq> [] \<or> sin_viejo s \<Longrightarrow>
     \<forall>it \<in> set its. it_begin1 it = Montado \<and> it_format it \<Longrightarrow>
     \<exists>s'. (intentos its s = Reiniciada s' \<or> intentos its s = Terminada s') \<and> PSOC_UPDATE_OLD_FILE (dc_f s') = None"
proof (induction its arbitrary: s)
  case Nil
  then show ?case by (simp add: sin_viejo_def)
next
  case (Cons it its)
  from intenta_sin_viejo [of s it] Cons.prems obtain s1 where
    s1: "intenta it s = Otro_intento s1 \<or> intenta it s = Terminada s1" "sin_viejo s1" by auto
  from s1(1) show ?case
  proof
    assume "intenta it s = Otro_intento s1"
    with Cons.IH [of s1] s1(2) Cons.prems(4) show ?thesis by (simp add: sin_viejo_def)
  next
    assume "intenta it s = Terminada s1"
    with s1(2) show ?thesis by (simp add: sin_viejo_def)
  qed
qed

lemma intenta_sin_respuesta:
  assumes "PSOC_UpdateAvailable (dc_f s)" "it_begin1 it = Montado" "\<not> it_get it"
  shows "intenta it s = Otro_intento (s\<lparr>dc_f := abre_fichero it (dc_f s)\<rparr>)"
  using assms
  by (cases "baja (it_acepta it) (it_flujo it) 0 (it_total it) 0 []")
    (simp add: intenta_def Let_def abre_fichero_def vacia_def)

lemma intentos_sin_respuesta:
  "PSOC_UpdateAvailable (dc_f s) \<Longrightarrow> \<forall>it \<in> set its. it_begin1 it = Montado \<and> \<not> it_get it \<Longrightarrow>
     \<exists>s'. intentos its s = Reiniciada s' \<and> error_code (Status (dc_c s')) = 8
       \<and> PSOC_UPDATE_FILE (dc_f s') = (if its = [] then PSOC_UPDATE_FILE (dc_f s) else Some [])
       \<and> salida (dc_c s') = salida (dc_c s) @ [Reset_Main 0, Reinicia]"
proof (induction its arbitrary: s)
  case Nil
  then show ?case by (simp add: reinicia_todo_def emite_def)
next
  case (Cons it its)
  let ?s1 = "s\<lparr>dc_f := abre_fichero it (dc_f s)\<rparr>"
  have i: "intenta it s = Otro_intento ?s1" using Cons.prems by (intro intenta_sin_respuesta) auto
  have "PSOC_UpdateAvailable (dc_f ?s1)" "PSOC_UPDATE_FILE (dc_f ?s1) = Some []"
    using Cons.prems by (simp_all add: abre_fichero_def vacia_def Let_def)
  with Cons.IH [of ?s1] Cons.prems(2) i show ?case by (auto split: if_splits)
qed

text \<open>
  C14: a download that fails once takes the old firmware of the PSoC with it. When the first request of a download for
  the PSoC is not answered, the second attempt finds the file that the first one created and formats the whole
  partition, so that however the download ends the old firmware, kept to go back to, is gone; and when no request is
  answered the charger restarts with an empty file as the only firmware and error 8.
\<close>

theorem failed_download_loses_old_firmware:
  assumes "PSOC_UpdateAvailable (dc_f s)" "\<forall>k < 5. it_begin1 (it k) = Montado \<and> it_format (it k)" "\<not> it_get (it 0)"
  shows "(\<exists>s'. (DownloadFileTask it s = Reiniciada s' \<or> DownloadFileTask it s = Terminada s')
        \<and> PSOC_UPDATE_OLD_FILE (dc_f s') = None)
    \<and> ((\<forall>k < 5. \<not> it_get (it k)) \<longrightarrow>
        (\<exists>s'. DownloadFileTask it s = Reiniciada s' \<and> PSOC_UPDATE_FILE (dc_f s') = Some []
           \<and> error_code (Status (dc_c s')) = 8))"
proof -
  let ?s = "s\<lparr>dc_DescargandoArchivo := True\<rparr>" and ?s1 = "s\<lparr>dc_DescargandoArchivo := True, dc_f := abre_fichero (it 0) (dc_f s)\<rparr>"
  have l: "map it [0..<MAX_RETRIES] = it 0 # map it [1..<5]"
    by (simp add: MAX_RETRIES_def upt_rec)
  have "intenta (it 0) ?s = Otro_intento ?s1"
    using intenta_sin_respuesta [of ?s "it 0"] assms by simp
  then have d: "DownloadFileTask it s = intentos (map it [1..<5]) ?s1"
    by (simp add: DownloadFileTask_def l)
  have "PSOC_UpdateAvailable (dc_f ?s1)" "PSOC_UPDATE_FILE (dc_f ?s1) \<noteq> None"
    using assms(1) by (simp_all add: abre_fichero_def vacia_def Let_def)
  then have 1: "\<exists>s'. (DownloadFileTask it s = Reiniciada s' \<or> DownloadFileTask it s = Terminada s')
      \<and> PSOC_UPDATE_OLD_FILE (dc_f s') = None"
    unfolding d using assms(2) by (intro intentos_sin_viejo) auto
  have "\<exists>s'. DownloadFileTask it s = Reiniciada s' \<and> PSOC_UPDATE_FILE (dc_f s') = Some []
      \<and> error_code (Status (dc_c s')) = 8" if "\<forall>k < 5. \<not> it_get (it k)"
    using intentos_sin_respuesta [of ?s "map it [0..<MAX_RETRIES]"] assms(1,2) that
    unfolding DownloadFileTask_def by (auto simp: MAX_RETRIES_def)
  with 1 show ?thesis by blast
qed

definition demo_intento :: intento where
  "demo_intento = \<lparr>it_begin1 = Montado, it_begin2 = Montado, it_format = True, it_get = False, it_total = 4,
     it_flujo = [Datos [1, 2], Vacio, Datos [3, 4]], it_acepta = \<lambda>p n. n, it_end = True\<rparr>"

definition demo_descarga :: descarga where
  "demo_descarga = \<lparr>dc_f = demo_ficheros\<lparr>PSOC_UPDATE_FILE := None, PSOC_UpdateAvailable := True\<rparr>, dc_c = demo_control,
     dc_ESP = [], dc_DescargandoArchivo = False\<rparr>"

theorem failed_download_loses_old_firmware_witness:
  "PSOC_UPDATE_OLD_FILE (dc_f demo_descarga) = Some [2]
   \<and> (\<exists>s'. DownloadFileTask (\<lambda>_. demo_intento) demo_descarga = Reiniciada s'
        \<and> PSOC_UPDATE_FILE (dc_f s') = Some [] \<and> PSOC_UPDATE_OLD_FILE (dc_f s') = None)"
proof -
  have "PSOC_UpdateAvailable (dc_f demo_descarga)" "\<forall>k < 5. it_begin1 demo_intento = Montado \<and> it_format demo_intento"
    "\<not> it_get demo_intento"
    by (simp_all add: demo_descarga_def demo_intento_def)
  from failed_download_loses_old_firmware [OF this] this(3) show ?thesis
    by (auto simp: demo_descarga_def demo_ficheros_def)
qed

end
