(* ===== verification/Spec2Isabelle.thy ===== *)
theory Spec2Isabelle
  imports Ble_Session Bootloader Group_Limits Group_Exchange Discovery Dfu_Run Psoc_Control Psoc_Mirror
    Psoc_Schedule Ble_Orders Config_Store Cloud_Task Cloud_Download
begin

text \<open>
  Verification of the firmware of an electric vehicle charger.

  The program (\<^verbatim>\<open>src/VeltiumCharger/main\<close>, C++ on an ESP32 with the vendored SDK under
  \<^verbatim>\<open>src/SDK/esp-idf\<close>) talks to a phone over BLE, to the PSoC processor of the charger over a serial
  line, to a cloud service, and to the other chargers of a group over UDP and CoAP; it shares the current of an
  installation among the chargers of the group and updates its own firmware and that of the PSoC. The
  development models the parts that carry its own logic or on which an update depends.

  \<^bold>\<open>Conventions\<close> (theory \<open>Prelude\<close>). A machine integer is a word of its width, or a natural number with its
  wrap-around written out where the code mixes widths. Buffers are lists; a C access outside an array, through
  a null pointer, or a failed assertion is the value \<open>None\<close>, so a theorem that a call returns \<open>Some\<close>
  says that no such access happens. Error codes are values. Loops are structural recursion or functions with
  a termination proof; the one loop that may not end, \<open>WaitForValue\<close>, is a partial function whose value
  is then \<open>None\<close>, and the only bound is that of \<open>recorrido\<close> in \<open>Cloud_Task\<close>, 200 rounds, shown to be enough. What comes from outside (flash contents after a failed command,
  the serial line, random numbers, JSON objects, results of the file system) is an argument. \<open>Prelude\<close> also
  states the interfaces \<open>slot_store\<close> (one value per key in a fixed array) and \<open>registry\<close> (a bounded
  list of names); \<open>Dfu_Program\<close> states \<open>recording_channel\<close> (a channel that records the commands it is given),
  \<open>Psoc_Link\<close> states \<open>block_handler\<close> (what the receiver of the serial line relies on) and its extension
  \<open>typed_handler\<close>, and \<open>Psoc_Charge\<close> states \<open>tramas_de_bloqueo\<close> (the frames that lock and unlock the charge). Each
  is interpreted on the definitions of the component that provides it, and the component's properties use
  the facts of the interpretation.

  \<^bold>\<open>BLE\<close>. \<open>Rcs\<close> models the reduced characteristic set (\<^verbatim>\<open>ble/ble_rcs.c\<close>, \<^verbatim>\<open>ble_rcs_server.c\<close>): tables
  of handles and sizes and the buffer of values; lemmas show the tables inverse to each other and writes in
  bounds, and that the last write wins. \<open>Blowfish_Tables\<close> and \<open>Dev_Auth\<close> model \<^verbatim>\<open>ble/blowfish.cpp\<close> and
  \<^verbatim>\<open>ble/dev_auth.cpp\<close>; C37 shows that the answer determines the challenge, and a lemma that the whole serial
  number enters the key. \<open>Ble_Session\<close> models the session of \<^verbatim>\<open>ble/serverble.cpp\<close> as a step function
  on a record and a reachability relation: C39 is what the authentication protects, C40 what it does not.
  \<open>Ble_Orders\<close> has what the writes do: the orders of an authorised client to the group and to the PSoC, the
  characteristics of the schedule and of the group, and \<^verbatim>\<open>New_Control\<close> (\<^verbatim>\<open>group_control.cpp\<close>). C29 says that a client
  reads the group that it has written, C6 that the group can be replaced without a token.

  \<^bold>\<open>Settings\<close>. \<open>Config_Store\<close> models \<^verbatim>\<open>config.cpp\<close>: the settings and the group as JSON files, the task that
  stores and loads them, and the initialisation. The JSON library is a record of functions with its documented
  behaviour as the hypothesis \<open>json_ok\<close>, for which the witness gives a codec. C3 follows a changed setting and a
  group from the task through the files, a restart and the loader of the group.

  \<^bold>\<open>Update of the ESP32\<close>. \<open>Flash\<close> models the SPI flash driver and the partition table of the SDK
  (\<^verbatim>\<open>esp_flash_api.c\<close>, \<^verbatim>\<open>partition.c\<close>); C4 confines writes to the partition. \<open>Ota_Data\<close>
  (\<^verbatim>\<open>bootloader_common.c\<close>) chooses the active entry of the selection data (C5). \<open>Ota_Ops\<close>
  (\<^verbatim>\<open>esp_ota_ops.c\<close>) has the operations, with the properties in \<open>Ota_Boot\<close> (the choice of
  the boot partition, and C7: an interrupted switch) and \<open>Ota_Update\<close> (C9, C10: what a successful
  update has written, and that an update of a usable slot completes). \<open>Bootloader\<close> (\<^verbatim>\<open>bootloader_utility.c\<close>,
  \<^verbatim>\<open>flash_partitions.c\<close>) reads the same flash after the reset: C11 is its search for an image, C12 spans both:
  after a switch the bootloader starts the partition that was chosen.

  \<^bold>\<open>Groups of chargers\<close>. \<open>Group_Table\<close> models the table of the group and its image in flash
  (\<^verbatim>\<open>coms/Gestion_Grupo.cpp\<close>, \<^verbatim>\<open>control.cpp\<close>): refinement of a bounded registry, the rotation that
  puts the master first, the round trip through flash and its bound (C13, C15, C16). \<open>Group_Control\<close> has the definitions
  of the load balancing (\<^verbatim>\<open>group_control.cpp\<close>: \<^verbatim>\<open>Calculo_General\<close>, \<^verbatim>\<open>LimiteConsumo\<close>),
  \<open>Group_Balance\<close> the arithmetic of its counts and the termination of the eviction, \<open>Group_Messages\<close> the
  messages of the group, and \<open>Group_Limits\<close> the limits that the balancing respects, the invariant of the task
  under any interleaving with messages, and the cases where it exceeds a limit (C19 to C22).
  \<open>Group_Orders\<close> models the message with the list of the group, from \<^verbatim>\<open>Send_Chargers\<close> (\<^verbatim>\<open>coms/COAP_Nativo.cpp\<close>) to
  \<^verbatim>\<open>New_Group\<close>, by a refinement of the loading from flash (C38).
  \<open>Group_Exchange\<close> models the exchange over CoAP (\<^verbatim>\<open>coms/COAP_Nativo.cpp\<close>): what the observers of each topic are
  sent, the requests of the other chargers, the tasks of the master and of the others. C25 follows the data of a charger to the
  table of the master and the assigned current back; lemmas show that in a round every charger gets its turn exactly
  once (\<open>every_charger_gets_its_turn\<close>), and the turns and the restart that fail.
  \<open>Discovery\<close> models the UDP protocol that finds the chargers and chooses the master, with its cipher
  (\<^verbatim>\<open>encriptado.cpp\<close>); lemmas show how an announcement updates the directory and how a group is left without a master.

  \<^bold>\<open>Update of the PSoC\<close> (\<^verbatim>\<open>cybtldr/\<close>). \<open>Dfu_Packet\<close> (\<^verbatim>\<open>cybtldr_command.cpp\<close>) has the checksums, commands and
  answers (C30: the checksum of a row). \<open>Dfu_File\<close> (\<^verbatim>\<open>cybtldr_parse.cpp\<close>) reads the firmware file. \<open>Dfu_Transfer\<close>
  (\<^verbatim>\<open>cybtldr_api.cpp\<close>, \<^verbatim>\<open>cybtldr_api2.cpp\<close>) has the exchange with its retransmissions and the run over a
  file; the line is the list of what each poll finds. \<open>Dfu_Program\<close> bounds an exchange (C32: 4001
  transmissions, 100002 turns) and shows that a row is a script of commands (C33); \<open>Dfu_Run\<close> shows that a
  run sends exactly the script of its file (C34) and completes on a line that answers (C35); a lemma shows that it rejects a file with
  plain line feeds.

  \<^bold>\<open>PSoC link and main control\<close> (\<^verbatim>\<open>control.cpp\<close>, \<^verbatim>\<open>helpers.cpp\<close>). \<open>Psoc_Link\<close> has the frames of the serial
  line, the receiver \<^verbatim>\<open>proceso_recepcion\<close> with its timer, and the senders; a run of the link is any sequence of
  arrivals, timer ticks and polls. \<open>Psoc_State\<close> has the global state as records, the handles, the effects that a block
  has on the rest of the system as a trace, and small conversions. \<open>Psoc_Blocks\<close> has every case of
  \<^verbatim>\<open>procesar_bloque\<close>. \<open>Psoc_Types\<close> shows that no block breaks the sizes of the arrays (C18), that the receiver refines
  a parser of frames (C8) and recovers from noise (C17), what a charge record becomes (C23) and, as a lemma, what an
  invalid authentication mode does. \<open>Psoc_Charge\<close> says exactly when charging is allowed (C1) and, as a lemma, when the
  PSoC is not told that it is not. \<open>Psoc_Control\<close> has the control task and the task that programs the PSoC: C27 is the start-up with
  a silent PSoC, C31 the firmware files. \<open>Psoc_Schedule\<close> has the transmission of the weekly schedule.
  \<open>Psoc_Mirror\<close> applies the trace to the BLE server: C2 says that the phone reads what the PSoC measured. C26, in
  this theory, spans the emergency mode and the BLE session.

  \<^bold>\<open>Cloud\<close> (\<^verbatim>\<open>coms/VeltFirebase.cpp\<close>, \<^verbatim>\<open>coms/FirebaseClient.cpp\<close>). \<open>Cloud_Schedule\<close> has the decoding of the
  charging programmes and its reference: the power of an hour is that of the last active programme that covers it.
  \<open>Cloud_Client\<close> has the requests and every function that writes or reads a part of the database; the server is the
  outcome of each request by its number, the JSON library and base64 are a record of functions, and a call through
  the pointer to a deleted database is \<open>None\<close>. C28 follows a programme from the cloud to the PSoC. \<open>Cloud_Task\<close> has a
  turn of the task in each of its states, the upload of charge records and the search for firmware. Its lemmas follow
  the composition of the code: \<open>okP\<close> says that an operation returns and keeps a property of the state, and \<open>siP\<close> that
  it keeps the database when it returns. C36 is what can go wrong in any state that turns and the other tasks can
  reach, C24 one of the two faults traced to the setting that causes it; a lemma bounds the synchronisation of the
  records. \<open>Cloud_Download\<close> has the task that downloads firmware: C14 is what a failed attempt deletes, and a lemma says
  what a successful download has stored.

  \<^bold>\<open>Not modelled\<close>. The CoAP library and its sessions, the
  network stations, the web server and the meter are exchanges with services and libraries outside the sources.
  The LED effects, the pins and the set-up of the BLE library have no logic of their own. Of the vendored SDK only the code that an update of this firmware runs through is
  modelled; image verification, digests and the ROM checksum are parameters with the behaviour their
  documentation gives.
\<close>

section \<open>The emergency mode and the phone\<close>

text \<open>
  C26: in the emergency mode the charger authorises any client. The mode is entered to let the phone repair
  a charger whose PSoC does not answer; the serial number of the configuration is decoded and the challenge is
  keyed with it, but the copy that the BLE server compares with the empty serial number was taken before.
  So after the mode is entered from power-up, any token of eight bytes or more, sent by any client, authorises it.
\<close>

theorem emergency_mode_accepts_any_token:
  assumes "esperando t c" "cnt_timeout_inicio (Arranque c) = 1"
    "cnt_repeticiones_inicio (Arranque c) = 120"
    "10 < count_reinicios_malos (Configuracion c) + 1" "deviceSerNumFlash c = initialSerNum"
    "turnos en 1191 (t, c) = (t', c')" "bs_deviceSerNum s = deviceSerNum c'" "8 \<le> length token"
  shows "(\<exists>s'. write_omnibus e ([rcs_idx_for_handle TOKEN, 0, 0, 0] @ token) s = Some s' \<and> authorizedOK s')
    \<and> emergencyState (Arranque c')
    \<and> deviceSerNumFlash c' = convertSN (cfg_deviceSerNum (Configuracion c)) (et_tras (en 1190))"
proof -
  have "controlTask (en 1190) (t, espera c 119 1 1) = (t', c')"
    using turnos_silencio [OF assms(1-3), of en] assms(6) by simp
  with ultimo_turno [OF assms(1), of "en 1190" 119] assms(4,5) have
    c': "emergencyState (Arranque c')" "deviceSerNum c' = initialSerNum"
      "deviceSerNumFlash c' = convertSN (cfg_deviceSerNum (Configuracion c)) (et_tras (en 1190))"
    by (auto split: if_splits)
  have "rcs_handle_for_idx (rcs_idx_for_handle TOKEN) = TOKEN"
    by (simp add: rcs_handle_for_idx_def rcs_idx_for_handle_def rcs_consts table_idx_for_handle_def
        table_handle_for_idx_def)
  with assms(7,8) c' show ?thesis
    by (auto simp: write_omnibus_def setAuthToken_def authorizedOK_def Let_def)
qed

definition demo_averia :: control where
  "demo_averia = demo_control
     \<lparr>Configuracion := (Configuracion demo_control)\<lparr>count_reinicios_malos := 10\<rparr>\<rparr>"

theorem emergency_mode_accepts_any_token_witness:
  "\<exists>t' c'. turnos (\<lambda>k. \<lparr>et_ble = False, et_Testing = False, et_authSuccess = False, et_ticks = of_nat k,
        et_tras = [0]\<rparr>) 1191 (demo_tarea, demo_averia) = (t', c') \<and> emergencyState (Arranque c')
     \<and> (\<forall>e. \<exists>s'. write_omnibus e ([rcs_idx_for_handle TOKEN, 0, 0, 0] @ [1, 2, 3, 4, 5, 6, 7, 8])
          (demo_sesion\<lparr>bs_deviceSerNum := deviceSerNum c'\<rparr>) = Some s' \<and> authorizedOK s')"
proof -
  let ?en = "\<lambda>k. \<lparr>et_ble = False, et_Testing = False, et_authSuccess = False, et_ticks = of_nat k, et_tras = [0]\<rparr>"
  have d: "esperando demo_tarea demo_averia" "cnt_timeout_inicio (Arranque demo_averia) = 1"
    "cnt_repeticiones_inicio (Arranque demo_averia) = 120"
    "10 < count_reinicios_malos (Configuracion demo_averia) + 1" "deviceSerNumFlash demo_averia = initialSerNum"
    using demo_esperando
    by (simp_all add: demo_averia_def esperando_def)
      (simp add: demo_control_def Let_def initialSerNum_def)
  obtain t' c' where r: "turnos ?en 1191 (demo_tarea, demo_averia) = (t', c')" by force
  have "bs_deviceSerNum (demo_sesion\<lparr>bs_deviceSerNum := deviceSerNum c'\<rparr>) = deviceSerNum c'"
    "8 \<le> length [1, 2, 3, 4, 5, 6, 7, 8 :: u8]" by simp_all
  from emergency_mode_accepts_any_token [OF d r this] r show ?thesis by blast
qed

end
